(* ===== verification/GoPrelude.thy ===== *)
theory GoPrelude
  imports Main "HOL-Library.AList" "HOL-Library.Word" "HOL-Library.Char_ord"
    "HOL-Library.List_Lexorder" "HOL-Library.Sublist"
begin

section \<open>Shared vocabulary of the Go model\<close>

text \<open>
  Every component theory builds on the vocabulary collected here.

  \<^item> Go entries: a Go \<open>string\<close> or \<open>[]byte\<close> is the list of its bytes (\<open>char list\<close>); \<open>int\<close>
    is \<open>int\<close> with the bounds the code checks; \<open>uint64\<close> is \<open>64 word\<close>; \<open>time.Time\<close> is the
    number of nanoseconds since the zero time, so \<open>IsZero\<close> is equality with 0.
  \<^item> Errors: the sentinel errors of the packages and the wrapping that \<open>fmt.Errorf\<close> with
    \<open>%w\<close> performs; \<open>errors.Is\<close> looks through the wrapping.
  \<^item> Effects: a method that may fail and may change state is a function from the state
    to an error or a result, together with the new state. State written before an error
    stays written, as in Go; a transaction restores the state explicitly.
  \<^item> Go maps: association lists. The order of the list is the order in which \<open>range\<close>
    visits the map; every theorem quantifies over it, as the language leaves it open.
\<close>

named_theorems io_simps \<open>unfolding rules of the effect combinators\<close>
named_theorems io_inv \<open>inversion rules for a successful run\<close>

subsection \<open>Values\<close>

type_synonym bytes = "char list"
type_synonym uint64 = "64 word"
type_synonym time = int
type_synonym duration = int

abbreviation zero_time :: time where
  "zero_time \<equiv> 0"

abbreviation second :: duration where
  "second \<equiv> 1000000000"

definition or_time :: "time \<Rightarrow> time \<Rightarrow> time" where
  "or_time t d = (if t = zero_time then d else t)"

lemma or_time_zero [simp]: "or_time 0 d = d"
  by (simp add: or_time_def)

lemma or_time_nonzero [simp]: "t \<noteq> 0 \<Longrightarrow> or_time t d = t"
  by (simp add: or_time_def)

lemma or_time_same [simp]: "or_time t t = t"
  by (simp add: or_time_def)

text \<open>\<open>time.Time.Sub\<close> saturates at the range of \<open>time.Duration\<close>.\<close>

definition time_sub :: "time \<Rightarrow> time \<Rightarrow> duration" where
  "time_sub t u = max (- (2 ^ 63)) (min (2 ^ 63 - 1) (t - u))"

definition maxUint64 :: "uint64 list \<Rightarrow> uint64" where
  "maxUint64 values = fold (\<lambda>v m. if m < v then v else m) values 0"

subsection \<open>Errors\<close>

datatype package = Federation | Meshtastic | Conversation | Notification | Presence | Identity | EndToEnd

datatype error_kind =
    InvalidInput | NotFound | Conflict | Unauthorized | Forbidden | RateLimited
  | OtherKind string

datatype error =
    Sentinel package error_kind
  | ContextDone string
  | EntropyExhausted
  | Wrapped string error
  | Permanent error
  | Joined "error list"

fun kind_text :: "error_kind \<Rightarrow> string" where
  "kind_text InvalidInput = ''invalid input''"
| "kind_text NotFound = ''not found''"
| "kind_text Conflict = ''conflict''"
| "kind_text Unauthorized = ''unauthorized''"
| "kind_text Forbidden = ''forbidden''"
| "kind_text RateLimited = ''rate limited''"
| "kind_text (OtherKind t) = t"

text \<open>\<open>err.Error()\<close>; \<open>errors.Join\<close> writes one error per line.\<close>

fun join_with :: "string \<Rightarrow> string list \<Rightarrow> string" where
  "join_with sep [] = []"
| "join_with sep [x] = x"
| "join_with sep (x # xs) = x @ sep @ join_with sep xs"

fun error_text :: "error \<Rightarrow> string" where
  "error_text (Sentinel p k) = kind_text k"
| "error_text (ContextDone t) = t"
| "error_text EntropyExhausted = ''unexpected EOF''"
| "error_text (Wrapped p e) = p @ '': '' @ error_text e"
| "error_text (Permanent e) = error_text e"
| "error_text (Joined es) = join_with [CHR 0x0A] (List.map error_text es)"

text \<open>\<open>errors.Is\<close> looks through the wrapping, and \<open>errors.As\<close> for a permanent delivery error.\<close>

fun error_is :: "error \<Rightarrow> error \<Rightarrow> bool" where
  "error_is (Wrapped p e) t \<longleftrightarrow> error_is e t"
| "error_is (Permanent e) t \<longleftrightarrow> error_is e t"
| "error_is (Joined es) t \<longleftrightarrow> (\<exists>e \<in> set es. error_is e t)"
| "error_is (Sentinel p k) t \<longleftrightarrow> t = Sentinel p k"
| "error_is (ContextDone c) t \<longleftrightarrow> t = ContextDone c"
| "error_is EntropyExhausted t \<longleftrightarrow> t = EntropyExhausted"

fun error_permanent :: "error \<Rightarrow> bool" where
  "error_permanent (Wrapped p e) \<longleftrightarrow> error_permanent e"
| "error_permanent (Permanent e) \<longleftrightarrow> True"
| "error_permanent (Joined es) \<longleftrightarrow> (\<exists>e \<in> set es. error_permanent e)"
| "error_permanent e \<longleftrightarrow> False"

text \<open>A chain of rejecting conditionals succeeds exactly when none of them rejects.\<close>

lemma if_Inl_eq_Inr [io_inv]: "(if c then Inl e else r) = Inr x \<longleftrightarrow> \<not> c \<and> r = Inr x"
  by simp

lemma case_option_Inl_eq_Inr [io_inv]:
  "(case x of None \<Rightarrow> Inl e | Some y \<Rightarrow> f y) = Inr z \<longleftrightarrow> (\<exists>y. x = Some y \<and> f y = Inr z)"
  by (cases x) auto

lemma case_sum_Inl_eq_Inr [io_inv]:
  "(case x of Inl e \<Rightarrow> Inl (h e) | Inr y \<Rightarrow> f y) = Inr z \<longleftrightarrow> (\<exists>y. x = Inr y \<and> f y = Inr z)"
  by (cases x) auto

subsection \<open>Contexts\<close>

text \<open>
  A \<open>context.Context\<close> is nil, live, or done with an error. One operation reads it at
  several points; the model gives it one value for the whole operation.
\<close>

datatype go_context = NilContext | LiveContext | DoneContext string

fun validate_context_with :: "error \<Rightarrow> go_context \<Rightarrow> string \<Rightarrow> error + unit" where
  "validate_context_with e NilContext operation = Inl (Wrapped operation e)"
| "validate_context_with e (DoneContext t) operation = Inl (Wrapped operation (ContextDone t))"
| "validate_context_with e LiveContext operation = Inr ()"

subsection \<open>Effects\<close>

type_synonym ('s, 'a) io = "'s \<Rightarrow> (error + 'a) \<times> 's"

definition ret :: "'a \<Rightarrow> ('s, 'a) io" where
  "ret x = (\<lambda>s. (Inr x, s))"

definition raise :: "error \<Rightarrow> ('s, 'a) io" where
  "raise e = (\<lambda>s. (Inl e, s))"

definition andThen :: "('s, 'a) io \<Rightarrow> ('a \<Rightarrow> ('s, 'b) io) \<Rightarrow> ('s, 'b) io" where
  "andThen m f = (\<lambda>s. case m s of (Inl e, s') \<Rightarrow> (Inl e, s') | (Inr x, s') \<Rightarrow> f x s')"

definition of_result :: "error + 'a \<Rightarrow> ('s, 'a) io" where
  "of_result r = (\<lambda>s. (r, s))"

definition reject_if :: "bool \<Rightarrow> error \<Rightarrow> ('s, unit) io" where
  "reject_if c e = (if c then raise e else ret ())"

definition wrapping :: "string \<Rightarrow> ('s, 'a) io \<Rightarrow> ('s, 'a) io" where
  "wrapping p m = (\<lambda>s. case m s of (Inl e, s') \<Rightarrow> (Inl (Wrapped p e), s') | (Inr x, s') \<Rightarrow> (Inr x, s'))"

text \<open>\<open>x, err := m()\<close>: the error is a value the caller looks at.\<close>

definition attempt :: "('s, 'a) io \<Rightarrow> ('s, error + 'a) io" where
  "attempt m = (\<lambda>s. case m s of (r, s') \<Rightarrow> (Inr r, s'))"

text \<open>A loop that stops at the first error and collects the results.\<close>

fun for_each :: "('a \<Rightarrow> ('s, 'b) io) \<Rightarrow> 'a list \<Rightarrow> ('s, 'b list) io" where
  "for_each f [] = ret []"
| "for_each f (x # xs) = andThen (f x) (\<lambda>y. andThen (for_each f xs) (\<lambda>ys. ret (y # ys)))"

text \<open>A transaction: an error restores the state the transaction started from.\<close>

definition within_tx :: "('s, 'a) io \<Rightarrow> ('s, 'a) io" where
  "within_tx f = (\<lambda>s. case f s of (Inl e, s') \<Rightarrow> (Inl e, s) | (Inr x, s') \<Rightarrow> (Inr x, s'))"

lemma ret_run [simp, io_simps]: "ret x s = (Inr x, s)"
  by (simp add: ret_def)

lemma raise_run [simp, io_simps]: "raise e s = (Inl e, s)"
  by (simp add: raise_def)

lemma of_result_run [simp, io_simps]: "of_result r s = (r, s)"
  by (simp add: of_result_def)

lemma reject_if_run [simp, io_simps]:
  "reject_if c e s = (if c then (Inl e, s) else (Inr (), s))"
  by (simp add: reject_if_def)

lemma andThen_run [io_simps]:
  "andThen m f s = (case m s of (Inl e, s') \<Rightarrow> (Inl e, s') | (Inr x, s') \<Rightarrow> f x s')"
  by (simp add: andThen_def)

lemma wrapping_run [io_simps]:
  "wrapping p m s = (case m s of (Inl e, s') \<Rightarrow> (Inl (Wrapped p e), s') | (Inr x, s') \<Rightarrow> (Inr x, s'))"
  by (simp add: wrapping_def)

lemma attempt_run [io_simps]: "attempt m s = (case m s of (r, s') \<Rightarrow> (Inr r, s'))"
  by (simp add: attempt_def)

lemma within_tx_run [io_simps]:
  "within_tx f s = (case f s of (Inl e, s') \<Rightarrow> (Inl e, s) | (Inr x, s') \<Rightarrow> (Inr x, s'))"
  by (simp add: within_tx_def)

lemma andThen_Inr [io_inv]:
  "andThen m f s = (Inr y, s') \<longleftrightarrow> (\<exists>x s1. m s = (Inr x, s1) \<and> f x s1 = (Inr y, s'))"
  by (auto simp: andThen_def split: prod.splits sum.splits)

lemma andThen_Inl:
  "andThen m f s = (Inl e, s') \<longleftrightarrow>
     m s = (Inl e, s') \<or> (\<exists>x s1. m s = (Inr x, s1) \<and> f x s1 = (Inl e, s'))"
  by (auto simp: andThen_def split: prod.splits sum.splits)

lemma wrapping_Inr [io_inv]: "wrapping p m s = (Inr y, s') \<longleftrightarrow> m s = (Inr y, s')"
  by (auto simp: wrapping_def split: prod.splits sum.splits)

lemma wrapping_Inl:
  "wrapping p m s = (Inl e, s') \<longleftrightarrow> (\<exists>e'. e = Wrapped p e' \<and> m s = (Inl e', s'))"
  by (auto simp: wrapping_def split: prod.splits sum.splits)

lemma attempt_Inr [io_inv]: "attempt m s = (Inr r, s') \<longleftrightarrow> m s = (r, s')"
  by (auto simp: attempt_def split: prod.splits)

lemma attempt_Inl [simp]: "attempt m s \<noteq> (Inl e, s')"
  by (auto simp: attempt_def split: prod.splits)

lemma within_tx_Inr [io_inv]: "within_tx m s = (Inr y, s') \<longleftrightarrow> m s = (Inr y, s')"
  by (auto simp: within_tx_def split: prod.splits sum.splits)

lemma within_tx_Inl:
  "within_tx m s = (Inl e, s') \<longleftrightarrow> s' = s \<and> (\<exists>s1. m s = (Inl e, s1))"
  by (auto simp: within_tx_def split: prod.splits sum.splits)

lemma reject_if_Inr [io_inv]: "reject_if c e s = (Inr u, s') \<longleftrightarrow> \<not> c \<and> s' = s"
  by auto

lemma andThen_reject_Inr:
  "andThen (reject_if c e) f s = (Inr y, s') \<longleftrightarrow> \<not> c \<and> f () s = (Inr y, s')"
  by (simp add: andThen_def)

lemma ret_Inr [io_inv]: "ret x s = (Inr y, s') \<longleftrightarrow> y = x \<and> s' = s"
  by auto

lemma of_result_Inr [io_inv]: "of_result r s = (Inr y, s') \<longleftrightarrow> r = Inr y \<and> s' = s"
  by auto

lemma for_each_length: "for_each f xs s = (Inr ys, s') \<Longrightarrow> length ys = length xs"
  by (induction xs arbitrary: s ys) (auto simp: andThen_Inr)

text \<open>An invariant of the state that every iteration keeps is kept by the loop.\<close>

lemma for_each_invariant:
  assumes "\<And>x s r s'. x \<in> set xs \<Longrightarrow> P s \<Longrightarrow> f x s = (r, s') \<Longrightarrow> P s'"
    and "P s" and "for_each f xs s = (r, s')"
  shows "P s'"
  using assms
proof (induction xs arbitrary: s r s')
  case Nil
  then show ?case by simp
next
  case (Cons x xs)
  obtain r1 s1 where fx: "f x s = (r1, s1)" by fastforce
  have P1: "P s1" by (rule Cons.prems(1) [OF _ Cons.prems(2) fx]) simp
  obtain r2 s2 where rest: "for_each f xs s1 = (r2, s2)" by fastforce
  have "P s2"
    using Cons.prems(1) by (intro Cons.IH [OF _ P1 rest]) (meson list.set_intros(2))
  with Cons.prems(3) fx rest P1 show ?case
    by (auto simp: andThen_run split: sum.splits)
qed

subsection \<open>Go maps\<close>

type_synonym ('k, 'v) gomap = "('k \<times> 'v) list"

abbreviation lookup :: "('k, 'v) gomap \<Rightarrow> 'k \<Rightarrow> 'v option" where
  "lookup \<equiv> map_of"

definition put :: "'k \<Rightarrow> 'v \<Rightarrow> ('k, 'v) gomap \<Rightarrow> ('k, 'v) gomap" where
  "put k v m = AList.update k v m"

definition remove :: "'k \<Rightarrow> ('k, 'v) gomap \<Rightarrow> ('k, 'v) gomap" where
  "remove k m = AList.delete k m"

abbreviation entries :: "('k, 'v) gomap \<Rightarrow> 'v list" where
  "entries m \<equiv> List.map snd m"

abbreviation gomap_ok :: "('k, 'v) gomap \<Rightarrow> bool" where
  "gomap_ok m \<equiv> distinct (List.map fst m)"

lemma lookup_put [simp]: "lookup (put k v m) = (lookup m)(k \<mapsto> v)"
  by (simp add: put_def update_conv')

lemma lookup_remove [simp]: "lookup (remove k m) = (lookup m)(k := None)"
  by (simp add: remove_def delete_conv')

lemma gomap_ok_put [simp]: "gomap_ok m \<Longrightarrow> gomap_ok (put k v m)"
  by (simp add: put_def distinct_update)

lemma gomap_ok_remove [simp]: "gomap_ok m \<Longrightarrow> gomap_ok (remove k m)"
  by (simp add: remove_def distinct_delete)

lemma set_gomap_lookup: "gomap_ok m \<Longrightarrow> (k, v) \<in> set m \<longleftrightarrow> lookup m k = Some v"
  by (simp add: map_of_eq_Some_iff)

lemma entries_lookup: "gomap_ok m \<Longrightarrow> v \<in> set (entries m) \<longleftrightarrow> (\<exists>k. lookup m k = Some v)"
  by (force simp: set_gomap_lookup [symmetric])

text \<open>A loop over a map that overwrites the visited entries.\<close>

definition map_entries :: "('k \<Rightarrow> 'v \<Rightarrow> 'v) \<Rightarrow> ('k, 'v) gomap \<Rightarrow> ('k, 'v) gomap" where
  "map_entries f m = List.map (\<lambda>(k, v). (k, f k v)) m"

lemma keys_map_entries [simp]: "List.map fst (map_entries f m) = List.map fst m"
  by (auto simp: map_entries_def)

lemma lookup_map_entries [simp]:
  "lookup (map_entries f m) k = map_option (f k) (lookup m k)"
  by (induction m) (auto simp: map_entries_def)

subsection \<open>Lists\<close>

text \<open>The loop that keeps the first occurrence of every value it accepts.\<close>

fun keep_first :: "'a list \<Rightarrow> 'a list \<Rightarrow> 'a list" where
  "keep_first seen [] = []"
| "keep_first seen (x # xs) =
     (if x \<in> set seen then keep_first seen xs else x # keep_first (x # seen) xs)"

lemma set_keep_first: "set (keep_first seen xs) = set xs - set seen"
  by (induction seen xs rule: keep_first.induct) auto

lemma distinct_keep_first: "distinct (keep_first seen xs)"
  by (induction seen xs rule: keep_first.induct) (auto simp: set_keep_first)

lemma keep_first_distinct: "distinct xs \<Longrightarrow> set xs \<inter> set seen = {} \<Longrightarrow> keep_first seen xs = xs"
  by (induction seen xs rule: keep_first.induct) auto

lemma sorted_distinct_sort: "sorted xs \<Longrightarrow> sort xs = xs"
  by (rule sorted_sort_id)

lemma take_filter_subset: "set (take n (List.filter P xs)) \<subseteq> {x \<in> set xs. P x}"
  by (auto dest: in_set_takeD)

end
