(* ===== verification/GoUnicode.thy ===== *)
theory GoUnicode
  imports GoPrelude
begin

section \<open>UTF-8 and the lower-case mapping of Go's \<open>unicode\<close> package\<close>

text \<open>
  \<open>strings.ToLower\<close> and \<open>strings.TrimSpace\<close> are applied to almost every string the
  program stores, so both are modelled byte for byte: UTF-8 decoding with Go's rule that an
  invalid byte decodes to U+FFFD with width 1, the simple lower-case mapping of Unicode 15
  as a table of arithmetic progressions, and the white-space runes of \<open>unicode.IsSpace\<close>.
\<close>

subsection \<open>UTF-8\<close>

definition rune_error :: nat where
  "rune_error = 65533"

definition continuation :: "nat \<Rightarrow> bool" where
  "continuation b \<longleftrightarrow> 128 \<le> b \<and> b \<le> 191"

text \<open>\<open>utf8.DecodeRune\<close> on a non-empty byte list: the rune and its width.\<close>

fun decode_rune :: "nat list \<Rightarrow> nat \<times> nat" where
  "decode_rune [] = (rune_error, 0)"
| "decode_rune (b0 # bs) =
     (if b0 < 128 then (b0, 1)
      else case bs of
        [] \<Rightarrow> (rune_error, 1)
      | b1 # bs1 \<Rightarrow>
        (if 194 \<le> b0 \<and> b0 \<le> 223 \<and> continuation b1
         then ((b0 - 192) * 64 + (b1 - 128), 2)
         else case bs1 of
           [] \<Rightarrow> (rune_error, 1)
         | b2 # bs2 \<Rightarrow>
           (if 224 \<le> b0 \<and> b0 \<le> 239 \<and> continuation b1 \<and> (b0 = 224 \<longrightarrow> 160 \<le> b1)
               \<and> (b0 = 237 \<longrightarrow> b1 \<le> 159) \<and> continuation b2
            then ((b0 - 224) * 4096 + (b1 - 128) * 64 + (b2 - 128), 3)
            else case bs2 of
              [] \<Rightarrow> (rune_error, 1)
            | b3 # bs3 \<Rightarrow>
              (if 240 \<le> b0 \<and> b0 \<le> 244 \<and> continuation b1 \<and> (b0 = 240 \<longrightarrow> 144 \<le> b1)
                  \<and> (b0 = 244 \<longrightarrow> b1 \<le> 143) \<and> continuation b2 \<and> continuation b3
               then ((b0 - 240) * 262144 + (b1 - 128) * 4096 + (b2 - 128) * 64 + (b3 - 128), 4)
               else (rune_error, 1)))))"

definition valid_rune :: "nat \<Rightarrow> bool" where
  "valid_rune r \<longleftrightarrow> r < 55296 \<or> (57344 \<le> r \<and> r < 1114112)"

definition encode_rune :: "nat \<Rightarrow> nat list" where
  "encode_rune r0 =
     (let r = (if valid_rune r0 then r0 else rune_error) in
      if r < 128 then [r]
      else if r < 2048 then [192 + r div 64, 128 + r mod 64]
      else if r < 65536 then [224 + r div 4096, 128 + r div 64 mod 64, 128 + r mod 64]
      else [240 + r div 262144, 128 + r div 4096 mod 64, 128 + r div 64 mod 64, 128 + r mod 64])"

lemma decode_rune_width: "bs \<noteq> [] \<Longrightarrow> 0 < snd (decode_rune bs) \<and> snd (decode_rune bs) \<le> length bs"
  by (cases bs) (auto split: list.splits)

function decode_runes :: "nat list \<Rightarrow> nat list" where
  "decode_runes bs =
     (if bs = [] then []
      else fst (decode_rune bs) # decode_runes (drop (snd (decode_rune bs)) bs))"
  by pat_completeness auto
termination
proof (relation "measure length", goal_cases)
  case 1
  then show ?case by simp
next
  case (2 bs)
  then show ?case using decode_rune_width [of bs] by (auto simp del: decode_rune.simps)
qed

declare decode_runes.simps [simp del]

lemma decode_runes_Nil [simp]: "decode_runes [] = []"
  by (simp add: decode_runes.simps)

lemma decode_rune_2:
  "2 \<le> a \<Longrightarrow> a < 32 \<Longrightarrow> b < 64 \<Longrightarrow>
   decode_rune ((192 + a) # (128 + b) # rest) = (a * 64 + b, 2)"
  by (simp add: continuation_def)

lemma decode_rune_3:
  assumes "a < 16" "b < 64" "c < 64" "a = 0 \<longrightarrow> 32 \<le> b" "a = 13 \<longrightarrow> b \<le> 31"
  shows "decode_rune ((224 + a) # (128 + b) # (128 + c) # rest) = (a * 4096 + b * 64 + c, 3)"
proof -
  have "continuation (128 + b)" "continuation (128 + c)"
    using assms by (simp_all add: continuation_def)
  moreover have "224 + a = 224 \<longrightarrow> 160 \<le> 128 + b" "224 + a = 237 \<longrightarrow> 128 + b \<le> 159"
    using assms by auto
  ultimately show ?thesis using assms(1) by simp
qed

lemma decode_rune_4:
  assumes "a < 5" "b < 64" "c < 64" "d < 64" "a = 0 \<longrightarrow> 16 \<le> b" "a = 4 \<longrightarrow> b \<le> 15"
  shows "decode_rune ((240 + a) # (128 + b) # (128 + c) # (128 + d) # rest) =
    (a * 262144 + b * 4096 + c * 64 + d, 4)"
proof -
  have "continuation (128 + b)" "continuation (128 + c)" "continuation (128 + d)"
    using assms by (simp_all add: continuation_def)
  moreover have "240 + a = 240 \<longrightarrow> 144 \<le> 128 + b" "240 + a = 244 \<longrightarrow> 128 + b \<le> 143"
    using assms by auto
  ultimately show ?thesis using assms(1) by simp
qed

lemma base64_digits:
  fixes r :: nat
  shows "r div 64 * 64 + r mod 64 = r"
    and "r div 4096 * 4096 + r div 64 mod 64 * 64 + r mod 64 = r"
    and "r div 262144 * 262144 + r div 4096 mod 64 * 4096 + r div 64 mod 64 * 64 + r mod 64 = r"
proof -
  have d2: "r div 4096 = r div 64 div 64" by (simp flip: div_mult2_eq)
  have d3: "r div 262144 = r div 4096 div 64" by (simp flip: div_mult2_eq)
  have e1: "r div 64 * 64 + r mod 64 = r" by simp
  have e2: "r div 4096 * 64 + r div 64 mod 64 = r div 64" unfolding d2 by simp
  have e3: "r div 262144 * 64 + r div 4096 mod 64 = r div 4096" unfolding d3 by simp
  show "r div 64 * 64 + r mod 64 = r" by (rule e1)
  show "r div 4096 * 4096 + r div 64 mod 64 * 64 + r mod 64 = r" using e1 e2 by linarith
  show "r div 262144 * 262144 + r div 4096 mod 64 * 4096 + r div 64 mod 64 * 64 + r mod 64 = r"
    using e1 e2 e3 by linarith
qed

lemma decode_encode_rune:
  assumes "valid_rune r"
  shows "decode_rune (encode_rune r @ rest) = (r, length (encode_rune r))"
proof -
  consider "r < 128" | "128 \<le> r" "r < 2048" | "2048 \<le> r" "r < 65536" | "65536 \<le> r" "r < 1114112"
    using assms by (force simp: valid_rune_def)
  then show ?thesis
  proof cases
    case 1
    then show ?thesis by (simp add: encode_rune_def valid_rune_def)
  next
    case 2
    have "r div 64 \<ge> 2" "r div 64 < 32" "r mod 64 < 64" "r div 64 * 64 + r mod 64 = r"
      using 2 base64_digits(1) [of r] mod_less_divisor [of 64 r] by linarith+
    then have "decode_rune ((192 + r div 64) # (128 + r mod 64) # rest) = (r, 2)"
      by (subst decode_rune_2) simp_all
    with 2 assms show ?thesis by (simp add: encode_rune_def del: decode_rune.simps)
  next
    case 3
    have e: "r div 4096 * 4096 + r div 64 mod 64 * 64 + r mod 64 = r" by (rule base64_digits)
    have m: "r div 64 mod 64 < 64" "r mod 64 < 64" by simp_all
    have "r div 4096 < 16" "r div 4096 = 0 \<longrightarrow> 32 \<le> r div 64 mod 64"
        "r div 4096 = 13 \<longrightarrow> r div 64 mod 64 \<le> 31"
      using 3 e m assms unfolding valid_rune_def by linarith+
    with e m have "decode_rune ((224 + r div 4096) # (128 + r div 64 mod 64) # (128 + r mod 64) # rest) = (r, 3)"
      by (subst decode_rune_3) simp_all
    with 3 assms show ?thesis by (simp add: encode_rune_def del: decode_rune.simps)
  next
    case 4
    have e: "r div 262144 * 262144 + r div 4096 mod 64 * 4096 + r div 64 mod 64 * 64 + r mod 64 = r"
      by (rule base64_digits)
    have m: "r div 4096 mod 64 < 64" "r div 64 mod 64 < 64" "r mod 64 < 64" by simp_all
    have "r div 262144 < 5" "r div 262144 = 0 \<longrightarrow> 16 \<le> r div 4096 mod 64"
        "r div 262144 = 4 \<longrightarrow> r div 4096 mod 64 \<le> 15"
      using 4 e m by linarith+
    with e m have "decode_rune ((240 + r div 262144) # (128 + r div 4096 mod 64) #
        (128 + r div 64 mod 64) # (128 + r mod 64) # rest) = (r, 4)"
      by (subst decode_rune_4) simp_all
    with 4 assms show ?thesis by (simp add: encode_rune_def del: decode_rune.simps)
  qed
qed

lemma encode_rune_nonempty: "encode_rune r \<noteq> []"
  by (simp add: encode_rune_def Let_def)

lemma decode_encode_runes:
  "list_all valid_rune rs \<Longrightarrow> decode_runes (concat (List.map encode_rune rs)) = rs"
proof (induction rs)
  case Nil
  then show ?case by simp
next
  case (Cons r rs)
  then show ?case
    by (subst decode_runes.simps) (auto simp: decode_encode_rune encode_rune_nonempty)
qed

lemma valid_rune_3:
  assumes "224 \<le> b0" "b0 \<le> 239" "continuation b1" "b0 = 237 \<longrightarrow> b1 \<le> 159" "continuation b2"
  shows "valid_rune ((b0 - 224) * 4096 + (b1 - 128) * 64 + (b2 - 128))"
proof -
  obtain a b c where abc: "b0 = 224 + a" "b1 = 128 + b" "b2 = 128 + c"
    using assms by (metis continuation_def le_Suc_ex)
  then have "a \<le> 15" "b \<le> 63" "c \<le> 63" "a = 13 \<longrightarrow> b \<le> 31"
    using assms by (auto simp: continuation_def)
  then have "a * 4096 + b * 64 + c < 55296 \<or>
      57344 \<le> a * 4096 + b * 64 + c \<and> a * 4096 + b * 64 + c < 1114112"
    by (cases "a < 13"; cases "a = 13") linarith+
  then show ?thesis by (simp add: valid_rune_def abc)
qed

lemma valid_rune_4:
  assumes "240 \<le> b0" "b0 \<le> 244" "continuation b1" "b0 = 240 \<longrightarrow> 144 \<le> b1" "b0 = 244 \<longrightarrow> b1 \<le> 143"
    and "continuation b2" "continuation b3"
  shows "valid_rune ((b0 - 240) * 262144 + (b1 - 128) * 4096 + (b2 - 128) * 64 + (b3 - 128))"
proof -
  obtain a b c d where abc: "b0 = 240 + a" "b1 = 128 + b" "b2 = 128 + c" "b3 = 128 + d"
    using assms by (metis continuation_def le_Suc_ex)
  then have "a \<le> 4" "b \<le> 63" "c \<le> 63" "d \<le> 63" "a = 0 \<longrightarrow> 16 \<le> b" "a = 4 \<longrightarrow> b \<le> 15"
    using assms by (auto simp: continuation_def)
  then have "57344 \<le> a * 262144 + b * 4096 + c * 64 + d"
      "a * 262144 + b * 4096 + c * 64 + d < 1114112"
    by (cases "a = 0"; cases "a = 4"; linarith)+
  then show ?thesis by (simp add: valid_rune_def abc)
qed

lemma valid_rune_error [simp]: "valid_rune rune_error"
  by (simp add: valid_rune_def rune_error_def)

lemma decode_rune_valid: "valid_rune (fst (decode_rune bs))"
proof (cases bs)
  case Nil
  then show ?thesis by simp
next
  case (Cons b0 bs')
  have "b0 < 128 \<Longrightarrow> valid_rune b0" by (simp add: valid_rune_def)
  moreover have "valid_rune ((b0 - 192) * 64 + (b1 - 128))"
    if h: "194 \<le> b0 \<and> b0 \<le> 223 \<and> continuation b1" for b1
  proof -
    obtain a b where "b0 = 192 + a" "b1 = 128 + b" "a \<le> 31" "b \<le> 63"
      using h that [of "b0 - 192" "b1 - 128"] by (auto simp: continuation_def)
    then show ?thesis by (simp add: valid_rune_def)
  qed
  ultimately show ?thesis
    by (simp add: Cons valid_rune_3 valid_rune_4 split: list.splits)
qed

lemma decode_runes_valid: "list_all valid_rune (decode_runes bs)"
proof (induction bs rule: decode_runes.induct)
  case (1 bs)
  then show ?case
    by (cases "bs = []")
      (auto simp: decode_runes.simps [of bs] decode_rune_valid simp del: decode_rune.simps)
qed

lemma encode_rune_bytes: "b \<in> set (encode_rune r) \<Longrightarrow> b < 256"
  by (auto simp: encode_rune_def Let_def valid_rune_def rune_error_def split: if_splits)

subsection \<open>The lower-case mapping\<close>

text \<open>
  The runes above ASCII that \<open>unicode.ToLower\<close> changes: from \<open>lo\<close> to \<open>hi\<close> in the given
  stride, each moved by \<open>delta\<close>; the progressions are grouped in blocks with their bounds.
\<close>

definition lower_blocks :: "((int \<times> int) \<times> (int \<times> int \<times> int \<times> int) list) list" where
  "lower_blocks = [
    ((192, 390), [
      (192, 214, 1, 32), (216, 222, 1, 32), (256, 302, 2, 1), (304, 304, 1, -199),
      (306, 310, 2, 1), (313, 327, 2, 1), (330, 374, 2, 1), (376, 376, 1, -121),
      (377, 381, 2, 1), (385, 385, 1, 210), (386, 388, 2, 1), (390, 390, 1, 206)]),
    ((391, 408), [
      (391, 391, 1, 1), (393, 394, 1, 205), (395, 395, 1, 1), (398, 398, 1, 79),
      (399, 399, 1, 202), (400, 400, 1, 203), (401, 401, 1, 1), (403, 403, 1, 205),
      (404, 404, 1, 207), (406, 406, 1, 211), (407, 407, 1, 209), (408, 408, 1, 1)]),
    ((412, 437), [
      (412, 412, 1, 211), (413, 413, 1, 213), (415, 415, 1, 214), (416, 420, 2, 1),
      (422, 422, 1, 218), (423, 423, 1, 1), (425, 425, 1, 218), (428, 428, 1, 1),
      (430, 430, 1, 218), (431, 431, 1, 1), (433, 434, 1, 217), (435, 437, 2, 1)]),
    ((439, 500), [
      (439, 439, 1, 219), (440, 440, 1, 1), (444, 444, 1, 1), (452, 452, 1, 2), (453, 453, 1, 1),
      (455, 455, 1, 2), (456, 456, 1, 1), (458, 458, 1, 2), (459, 475, 2, 1), (478, 494, 2, 1),
      (497, 497, 1, 2), (498, 500, 2, 1)]),
    ((502, 580), [
      (502, 502, 1, -97), (503, 503, 1, -56), (504, 542, 2, 1), (544, 544, 1, -130),
      (546, 562, 2, 1), (570, 570, 1, 10795), (571, 571, 1, 1), (573, 573, 1, -163),
      (574, 574, 1, 10792), (577, 577, 1, 1), (579, 579, 1, -195), (580, 580, 1, 69)]),
    ((581, 975), [
      (581, 581, 1, 71), (582, 590, 2, 1), (880, 882, 2, 1), (886, 886, 1, 1),
      (895, 895, 1, 116), (902, 902, 1, 38), (904, 906, 1, 37), (908, 908, 1, 64),
      (910, 911, 1, 63), (913, 929, 1, 32), (931, 939, 1, 32), (975, 975, 1, 8)]),
    ((984, 1229), [
      (984, 1006, 2, 1), (1012, 1012, 1, -60), (1015, 1015, 1, 1), (1017, 1017, 1, -7),
      (1018, 1018, 1, 1), (1021, 1023, 1, -130), (1024, 1039, 1, 80), (1040, 1071, 1, 32),
      (1120, 1152, 2, 1), (1162, 1214, 2, 1), (1216, 1216, 1, 15), (1217, 1229, 2, 1)]),
    ((1232, 7934), [
      (1232, 1326, 2, 1), (1329, 1366, 1, 48), (4256, 4293, 1, 7264), (4295, 4295, 1, 7264),
      (4301, 4301, 1, 7264), (5024, 5103, 1, 38864), (5104, 5109, 1, 8), (7312, 7354, 1, -3008),
      (7357, 7359, 1, -3008), (7680, 7828, 2, 1), (7838, 7838, 1, -7615), (7840, 7934, 2, 1)]),
    ((7944, 8123), [
      (7944, 7951, 1, -8), (7960, 7965, 1, -8), (7976, 7983, 1, -8), (7992, 7999, 1, -8),
      (8008, 8013, 1, -8), (8025, 8031, 2, -8), (8040, 8047, 1, -8), (8072, 8079, 1, -8),
      (8088, 8095, 1, -8), (8104, 8111, 1, -8), (8120, 8121, 1, -8), (8122, 8123, 1, -74)]),
    ((8124, 8486), [
      (8124, 8124, 1, -9), (8136, 8139, 1, -86), (8140, 8140, 1, -9), (8152, 8153, 1, -8),
      (8154, 8155, 1, -100), (8168, 8169, 1, -8), (8170, 8171, 1, -112), (8172, 8172, 1, -7),
      (8184, 8185, 1, -128), (8186, 8187, 1, -126), (8188, 8188, 1, -9), (8486, 8486, 1, -7517)]),
    ((8490, 11371), [
      (8490, 8490, 1, -8383), (8491, 8491, 1, -8262), (8498, 8498, 1, 28), (8544, 8559, 1, 16),
      (8579, 8579, 1, 1), (9398, 9423, 1, 26), (11264, 11311, 1, 48), (11360, 11360, 1, 1),
      (11362, 11362, 1, -10743), (11363, 11363, 1, -3814), (11364, 11364, 1, -10727),
      (11367, 11371, 2, 1)]),
    ((11373, 42650), [
      (11373, 11373, 1, -10780), (11374, 11374, 1, -10749), (11375, 11375, 1, -10783),
      (11376, 11376, 1, -10782), (11378, 11378, 1, 1), (11381, 11381, 1, 1),
      (11390, 11391, 1, -10815), (11392, 11490, 2, 1), (11499, 11501, 2, 1),
      (11506, 11506, 1, 1), (42560, 42604, 2, 1), (42624, 42650, 2, 1)]),
    ((42786, 42924), [
      (42786, 42798, 2, 1), (42802, 42862, 2, 1), (42873, 42875, 2, 1),
      (42877, 42877, 1, -35332), (42878, 42886, 2, 1), (42891, 42891, 1, 1),
      (42893, 42893, 1, -42280), (42896, 42898, 2, 1), (42902, 42920, 2, 1),
      (42922, 42922, 1, -42308), (42923, 42923, 1, -42319), (42924, 42924, 1, -42315)]),
    ((42925, 42960), [
      (42925, 42925, 1, -42305), (42926, 42926, 1, -42308), (42928, 42928, 1, -42258),
      (42929, 42929, 1, -42282), (42930, 42930, 1, -42261), (42931, 42931, 1, 928),
      (42932, 42946, 2, 1), (42948, 42948, 1, -48), (42949, 42949, 1, -42307),
      (42950, 42950, 1, -35384), (42951, 42953, 2, 1), (42960, 42960, 1, 1)]),
    ((42966, 93791), [
      (42966, 42968, 2, 1), (42997, 42997, 1, 1), (65313, 65338, 1, 32), (66560, 66599, 1, 40),
      (66736, 66771, 1, 40), (66928, 66938, 1, 39), (66940, 66954, 1, 39), (66956, 66962, 1, 39),
      (66964, 66965, 1, 39), (68736, 68786, 1, 64), (71840, 71871, 1, 32), (93760, 93791, 1, 32)]),
    ((125184, 125217), [
      (125184, 125217, 1, 34)])]"

definition lower_ranges :: "(int \<times> int \<times> int \<times> int) list" where
  "lower_ranges = concat (List.map snd lower_blocks)"

definition in_lower_range :: "int \<Rightarrow> int \<times> int \<times> int \<times> int \<Rightarrow> bool" where
  "in_lower_range r = (\<lambda>(lo, hi, stride, delta). lo \<le> r \<and> r \<le> hi \<and> (r - lo) mod stride = 0)"

definition lower_rune :: "nat \<Rightarrow> nat" where
  "lower_rune r =
     (if r < 128 then (if 65 \<le> r \<and> r \<le> 90 then r + 32 else r)
      else case find (in_lower_range (int r)) lower_ranges of
        None \<Rightarrow> r
      | Some (lo, hi, stride, delta) \<Rightarrow> nat (int r + delta))"

text \<open>
  Mapping twice is mapping once: no progression of the table moves a rune into the domain
  of another one. The check runs over the table's pairs.
\<close>

definition image_avoids :: "int \<times> int \<times> int \<times> int \<Rightarrow> int \<times> int \<times> int \<times> int \<Rightarrow> bool" where
  "image_avoids = (\<lambda>(lo, hi, stride, delta) (a, b, stride', delta').
     hi + delta < a \<or> b < lo + delta
     \<or> (stride' = 2 \<and> (stride = 2 \<or> lo = hi) \<and> odd (lo + delta - a)))"

definition image_valid :: "int \<times> int \<times> int \<times> int \<Rightarrow> bool" where
  "image_valid = (\<lambda>(lo, hi, stride, delta).
     90 < lo + delta \<and>
     (hi + delta < 55296 \<or> 57344 \<le> lo + delta \<and> hi + delta < 1114112))"

definition block_bounds :: "(int \<times> int) \<times> (int \<times> int \<times> int \<times> int) list \<Rightarrow> bool" where
  "block_bounds = (\<lambda>((mn, mx), rs). list_all (\<lambda>(lo, hi, stride, delta). mn \<le> lo \<and> hi \<le> mx) rs)"

fun avoids_ranges ::
    "int \<times> int \<times> int \<times> int \<Rightarrow> (int \<times> int \<times> int \<times> int) list \<Rightarrow> bool" where
  "avoids_ranges x [] = True"
| "avoids_ranges x (y # ys) = (image_avoids x y \<and> avoids_ranges x ys)"

fun avoids_blocks ::
    "int \<times> int \<times> int \<times> int \<Rightarrow> ((int \<times> int) \<times> (int \<times> int \<times> int \<times> int) list) list \<Rightarrow> bool" where
  "avoids_blocks x [] = True"
| "avoids_blocks x (((mn, mx), rs) # bs) =
     ((if fst (snd x) + snd (snd (snd x)) < mn then True
       else if mx < fst x + snd (snd (snd x)) then True
       else avoids_ranges x rs) \<and> avoids_blocks x bs)"

fun all_avoid_blocks ::
    "(int \<times> int \<times> int \<times> int) list \<Rightarrow> ((int \<times> int) \<times> (int \<times> int \<times> int \<times> int) list) list \<Rightarrow> bool" where
  "all_avoid_blocks [] bs = True"
| "all_avoid_blocks (x # xs) bs = (avoids_blocks x bs \<and> all_avoid_blocks xs bs)"

fun blocks_avoid_blocks ::
    "((int \<times> int) \<times> (int \<times> int \<times> int \<times> int) list) list \<Rightarrow>
     ((int \<times> int) \<times> (int \<times> int \<times> int \<times> int) list) list \<Rightarrow> bool" where
  "blocks_avoid_blocks [] bs = True"
| "blocks_avoid_blocks ((mm, rs) # cs) bs = (all_avoid_blocks rs bs \<and> blocks_avoid_blocks cs bs)"

lemma lower_blocks_avoid: "blocks_avoid_blocks lower_blocks lower_blocks"
  by (simp add: lower_blocks_def image_avoids_def)

lemma lower_blocks_bounds: "list_all block_bounds lower_blocks"
  by (simp add: lower_blocks_def block_bounds_def)

lemma avoids_ranges_iff: "avoids_ranges x ys \<longleftrightarrow> list_all (image_avoids x) ys"
  by (induction ys) auto

lemma image_avoids_outside:
  assumes "block_bounds ((mn, mx), rs)"
    and "fst (snd x) + snd (snd (snd x)) < mn \<or> mx < fst x + snd (snd (snd x))"
  shows "list_all (image_avoids x) rs"
  using assms by (cases x) (force simp: block_bounds_def image_avoids_def list_all_iff)

lemma avoids_blocks_sound:
  "avoids_blocks x bs \<Longrightarrow> list_all block_bounds bs \<Longrightarrow>
   list_all (image_avoids x) (concat (List.map snd bs))"
proof (induction x bs rule: avoids_blocks.induct)
  case (1 x)
  then show ?case by simp
next
  case (2 x mn mx rs bs)
  have "list_all (image_avoids x) rs"
    using 2 image_avoids_outside [of mn mx rs x] by (auto simp: avoids_ranges_iff split: if_splits)
  with 2 show ?case by simp
qed

lemma all_avoid_blocks_sound:
  "all_avoid_blocks xs bs \<Longrightarrow> list_all block_bounds bs \<Longrightarrow>
   list_all (\<lambda>x. list_all (image_avoids x) (concat (List.map snd bs))) xs"
  by (induction xs) (auto simp: avoids_blocks_sound)

lemma blocks_avoid_blocks_sound:
  "blocks_avoid_blocks cs bs \<Longrightarrow> list_all block_bounds bs \<Longrightarrow>
   list_all (\<lambda>x. list_all (image_avoids x) (concat (List.map snd bs))) (concat (List.map snd cs))"
  by (induction cs bs rule: blocks_avoid_blocks.induct) (auto simp: all_avoid_blocks_sound)

lemma lower_ranges_avoid:
  "list_all (\<lambda>x. list_all (image_avoids x) lower_ranges) lower_ranges"
  unfolding lower_ranges_def
  by (rule blocks_avoid_blocks_sound [OF lower_blocks_avoid lower_blocks_bounds])

lemma lower_ranges_valid: "list_all image_valid lower_ranges"
  by (simp add: lower_ranges_def lower_blocks_def image_valid_def)

lemma find_Some_in: "find P xs = Some x \<Longrightarrow> x \<in> set xs \<and> P x"
  by (auto simp: find_Some_iff)

lemma odd_stride_miss:
  fixes r r0 lo a :: int
  assumes "r = r0 + delta" "(r0 - lo) mod stride = 0" "stride = 2 \<or> r0 = lo"
    and "odd (lo + delta - a)"
  shows "(r - a) mod 2 \<noteq> 0"
proof
  assume "(r - a) mod 2 = 0"
  then have "even (r - a)" by presburger
  moreover have "even (r0 - lo)" using assms(2,3) by auto
  ultimately show False using assms(1,4) by presburger
qed

lemma image_avoids_sound:
  assumes "in_lower_range r0 x" "image_avoids x y" "r = r0 + snd (snd (snd x))"
  shows "\<not> in_lower_range r y"
proof -
  obtain lo hi stride delta where x: "x = (lo, hi, stride, delta)" by (cases x) auto
  obtain a b stride' delta' where y: "y = (a, b, stride', delta')" by (cases y) auto
  have r0: "lo \<le> r0" "r0 \<le> hi" "(r0 - lo) mod stride = 0"
    using assms(1) by (auto simp: in_lower_range_def x)
  show ?thesis
  proof
    assume "in_lower_range r y"
    then have r: "a \<le> r" "r \<le> b" "(r - a) mod stride' = 0"
      by (auto simp: in_lower_range_def y)
    from assms(2,3) r0 r have "stride' = 2" "stride = 2 \<or> r0 = lo" "odd (lo + delta - a)"
      by (auto simp: image_avoids_def x y)
    with odd_stride_miss [of r r0 delta lo stride a] assms(3) r0 r show False
      by (simp add: x)
  qed
qed

lemma lower_rune_range:
  assumes "\<not> r < 128" "find (in_lower_range (int r)) lower_ranges = Some x"
  shows "int (lower_rune r) = int r + snd (snd (snd x))" "90 < lower_rune r"
    "valid_rune (lower_rune r)"
proof -
  obtain lo hi stride delta where x: "x = (lo, hi, stride, delta)" by (cases x) auto
  have in_x: "x \<in> set lower_ranges" "in_lower_range (int r) x"
    using find_Some_in [OF assms(2)] by auto
  then have v: "image_valid x" using lower_ranges_valid by (auto simp: list_all_iff)
  have b: "lo \<le> int r" "int r \<le> hi" using in_x(2) by (auto simp: in_lower_range_def x)
  have low: "lower_rune r = nat (int r + delta)"
    using assms by (simp add: lower_rune_def x)
  have i: "90 < int r + delta" "int r + delta < 55296 \<or> 57344 \<le> int r + delta \<and> int r + delta < 1114112"
    using v b by (auto simp: image_valid_def x)
  then show "int (lower_rune r) = int r + snd (snd (snd x))" "90 < lower_rune r"
    by (simp_all add: low x)
  show "valid_rune (lower_rune r)" using i by (auto simp: valid_rune_def low)
qed

lemma lower_rune_valid: "valid_rune r \<Longrightarrow> valid_rune (lower_rune r)"
proof (cases "r < 128")
  case True
  then show ?thesis by (auto simp: lower_rune_def valid_rune_def)
next
  case False
  assume "valid_rune r"
  then show ?thesis
    using False lower_rune_range(3) [OF False]
    by (cases "find (in_lower_range (int r)) lower_ranges") (auto simp: lower_rune_def)
qed

lemma lower_rune_idem [simp]: "lower_rune (lower_rune r) = lower_rune r"
proof (cases "r < 128")
  case True
  then show ?thesis by (auto simp: lower_rune_def)
next
  case False
  show ?thesis
  proof (cases "find (in_lower_range (int r)) lower_ranges")
    case None
    with False show ?thesis by (simp add: lower_rune_def)
  next
    case (Some x)
    note r = lower_rune_range [OF False Some]
    have in_x: "x \<in> set lower_ranges" "in_lower_range (int r) x"
      using find_Some_in [OF Some] by auto
    have "\<not> in_lower_range (int (lower_rune r)) y" if "y \<in> set lower_ranges" for y
      using image_avoids_sound [OF in_x(2) _ r(1)] lower_ranges_avoid in_x(1) that
      by (auto simp: list_all_iff)
    then have "find (in_lower_range (int (lower_rune r))) lower_ranges = None"
      by (auto simp: find_None_iff)
    then show ?thesis using r(2) by (auto simp: lower_rune_def [of "lower_rune r"])
  qed
qed

end
