(* ===== verification/GoStrings.thy ===== *)
theory GoStrings
  imports GoUnicode
begin

section \<open>The string functions of Go's standard library\<close>

text \<open>
  \<open>strings.ToLower\<close>, \<open>strings.TrimSpace\<close>, \<open>strings.HasPrefix\<close>, \<open>hex.EncodeToString\<close>,
  \<open>base64.RawURLEncoding\<close> and the decimal forms the program prints, on byte lists. The
  lemmas state what the components rely on: trimming and lowering are idempotent, hex and
  base64 texts are fixed points of both, and base64 decoding inverts encoding.
\<close>

abbreviation code :: "char \<Rightarrow> nat" where
  "code c \<equiv> of_char c"

lemma code_less_256: "code c < 256"
  by (simp add: of_char_eq_iff nat_of_char_less_256)

lemma char_of_code [simp]: "char_of (code c) = c"
  by simp

lemma code_inject [simp]: "code c = code d \<longleftrightarrow> c = d"
  by (rule of_char_eq_iff)

subsection \<open>Lower case\<close>

definition is_ascii :: "bytes \<Rightarrow> bool" where
  "is_ascii s \<longleftrightarrow> list_all (\<lambda>c. code c < 128) s"

definition lower_ascii :: "char \<Rightarrow> char" where
  "lower_ascii c = (if 65 \<le> code c \<and> code c \<le> 90 then char_of (code c + 32) else c)"

definition lower_unicode :: "bytes \<Rightarrow> bytes" where
  "lower_unicode s =
     List.map char_of (concat (List.map (encode_rune \<circ> lower_rune) (decode_runes (List.map code s))))"

definition to_lower :: "bytes \<Rightarrow> bytes" where
  "to_lower s = (if is_ascii s then List.map lower_ascii s else lower_unicode s)"

lemma code_char_of_bytes:
  "\<forall>b \<in> set bs. b < 256 \<Longrightarrow> List.map (code \<circ> char_of) bs = bs"
  by (induction bs) simp_all

lemma code_lower_unicode:
  "List.map code (lower_unicode s) =
     concat (List.map (encode_rune \<circ> lower_rune) (decode_runes (List.map code s)))"
proof -
  have "\<forall>b \<in> set (concat (List.map (encode_rune \<circ> lower_rune) (decode_runes (List.map code s)))). b < 256"
    by (auto dest: encode_rune_bytes)
  then show ?thesis
    by (simp add: lower_unicode_def code_char_of_bytes del: set_concat)
qed

lemma lower_unicode_idem: "lower_unicode (lower_unicode s) = lower_unicode s"
proof -
  let ?rs = "List.map lower_rune (decode_runes (List.map code s))"
  have "list_all valid_rune ?rs"
    using decode_runes_valid [of "List.map code s"] by (auto simp: list_all_iff lower_rune_valid)
  then have "decode_runes (List.map code (lower_unicode s)) = ?rs"
    using decode_encode_runes [of ?rs] by (simp add: code_lower_unicode)
  then show ?thesis
    by (simp add: lower_unicode_def [of "lower_unicode s"] comp_def)
      (simp add: lower_unicode_def comp_def)
qed

lemma decode_runes_ascii: "\<forall>b \<in> set bs. b < 128 \<Longrightarrow> decode_runes bs = bs"
  by (induction bs) (simp_all add: decode_runes.simps [of "_ # _"])

lemma lower_ascii_rune: "code c < 128 \<Longrightarrow> encode_rune (lower_rune (code c)) = [code (lower_ascii c)]"
  by (auto simp: encode_rune_def lower_rune_def lower_ascii_def valid_rune_def)

text \<open>The fast path of \<open>strings.ToLower\<close> computes what the general path computes.\<close>

lemma lower_ascii_unicode: "is_ascii s \<Longrightarrow> lower_unicode s = List.map lower_ascii s"
proof -
  assume a: "is_ascii s"
  then have d: "decode_runes (List.map code s) = List.map code s"
    by (intro decode_runes_ascii) (auto simp: is_ascii_def list_all_iff)
  have "concat (List.map (encode_rune \<circ> lower_rune) (List.map code s)) =
      List.map (code \<circ> lower_ascii) s"
    using a by (induction s) (simp_all add: is_ascii_def lower_ascii_rune)
  then show ?thesis by (simp add: lower_unicode_def d)
qed

lemma to_lower_eq: "to_lower s = lower_unicode s"
  by (simp add: to_lower_def lower_ascii_unicode)

lemma to_lower_idem [simp]: "to_lower (to_lower s) = to_lower s"
  by (simp add: to_lower_eq lower_unicode_idem)

lemma to_lower_Nil [simp]: "to_lower [] = []"
  by (simp add: to_lower_def is_ascii_def)

text \<open>A text that \<open>ToLower\<close> leaves alone: ASCII with no capital letter.\<close>

definition lower_text :: "bytes \<Rightarrow> bool" where
  "lower_text s \<longleftrightarrow> list_all (\<lambda>c. code c < 128 \<and> \<not> (65 \<le> code c \<and> code c \<le> 90)) s"

lemma to_lower_id [simp]: "lower_text s \<Longrightarrow> to_lower s = s"
proof -
  assume "lower_text s"
  then have "is_ascii s" "\<And>c. c \<in> set s \<Longrightarrow> lower_ascii c = c"
    by (auto simp: is_ascii_def lower_text_def lower_ascii_def list_all_iff)
  then show ?thesis by (simp add: to_lower_def map_idI)
qed

subsection \<open>White space\<close>

definition space_runes :: "bytes list" where
  "space_runes = List.map (List.map char_of)
     ([[9], [10], [11], [12], [13], [32], [194, 133], [194, 160], [225, 154, 128]] @
      List.map (\<lambda>n. [226, 128, n]) [128..<139] @
      [[226, 128, 168], [226, 128, 169], [226, 128, 175], [226, 129, 159], [227, 128, 128 :: nat]])"

function strip_all :: "bytes list \<Rightarrow> bytes \<Rightarrow> bytes" where
  "strip_all ps s =
     (case find (\<lambda>p. prefix p s \<and> p \<noteq> []) ps of
        None \<Rightarrow> s
      | Some p \<Rightarrow> strip_all ps (drop (length p) s))"
  by pat_completeness auto
termination
proof (relation "measure (\<lambda>(ps, s). length s)", goal_cases)
  case 1
  then show ?case by simp
next
  case (2 ps s p)
  then have "prefix p s \<and> p \<noteq> []" using find_Some_in by fastforce
  then show ?case by (auto simp: prefix_def)
qed

declare strip_all.simps [simp del]

definition trim_space :: "bytes \<Rightarrow> bytes" where
  "trim_space s = rev (strip_all (List.map rev space_runes) (rev (strip_all space_runes s)))"

definition unstripped :: "bytes list \<Rightarrow> bytes \<Rightarrow> bool" where
  "unstripped ps s \<longleftrightarrow> (\<forall>p \<in> set ps. p \<noteq> [] \<longrightarrow> \<not> prefix p s)"

lemma strip_all_id: "unstripped ps s \<Longrightarrow> strip_all ps s = s"
  by (subst strip_all.simps) (auto simp: unstripped_def dest!: find_Some_in split: option.split)

lemma strip_all_unstripped: "unstripped ps (strip_all ps s)"
proof (induction ps s rule: strip_all.induct)
  case (1 ps s)
  show ?case
  proof (cases "find (\<lambda>p. prefix p s \<and> p \<noteq> []) ps")
    case None
    then have "strip_all ps s = s" by (simp add: strip_all.simps [of ps s])
    with None show ?thesis by (auto simp: unstripped_def find_None_iff)
  next
    case (Some p)
    with "1.IH" show ?thesis by (simp add: strip_all.simps [of ps s])
  qed
qed

lemma strip_all_suffix: "suffix (strip_all ps s) s"
proof (induction ps s rule: strip_all.induct)
  case (1 ps s)
  then show ?case
    by (subst strip_all.simps)
      (auto split: option.split intro: suffix_order.trans suffix_drop)
qed

lemma unstripped_prefix: "unstripped ps s \<Longrightarrow> prefix t s \<Longrightarrow> unstripped ps t"
  by (auto simp: unstripped_def intro: prefix_order.trans)

lemma trim_space_prefix: "prefix (trim_space s) (strip_all space_runes s)"
  using strip_all_suffix [of "List.map rev space_runes" "rev (strip_all space_runes s)"]
  by (simp add: trim_space_def suffix_to_prefix)

lemma trim_space_idem [simp]: "trim_space (trim_space s) = trim_space s"
proof -
  have "unstripped space_runes (trim_space s)"
    using strip_all_unstripped trim_space_prefix by (rule unstripped_prefix)
  moreover have "unstripped (List.map rev space_runes) (rev (trim_space s))"
    by (simp add: trim_space_def strip_all_unstripped)
  ultimately show ?thesis
    by (simp add: trim_space_def [of "trim_space s"] strip_all_id)
qed

lemma trim_space_Nil [simp]: "trim_space [] = []"
  by (simp add: trim_space_def strip_all_id unstripped_def)

text \<open>A text that \<open>TrimSpace\<close> leaves alone: its first and last bytes are visible ASCII.\<close>

definition visible :: "char \<Rightarrow> bool" where
  "visible c \<longleftrightarrow> 33 \<le> code c \<and> code c \<le> 126"

lemma space_runes_invisible:
  "list_all (\<lambda>p. p \<noteq> [] \<and> \<not> visible (hd p) \<and> \<not> visible (last p)) space_runes"
  by (simp add: space_runes_def visible_def upt_rec)

lemma trim_space_visible:
  assumes "s \<noteq> []" "visible (hd s)" "visible (last s)"
  shows "trim_space s = s"
proof -
  have "unstripped space_runes s"
    using space_runes_invisible assms(2)
    by (auto simp: unstripped_def list_all_iff prefix_def)
  moreover have "unstripped (List.map rev space_runes) (rev s)"
    using space_runes_invisible assms(1,3)
    by (auto simp: unstripped_def list_all_iff prefix_def hd_rev rev_swap last_append)
  ultimately show ?thesis by (simp add: trim_space_def strip_all_id)
qed

lemma trim_space_all_visible [simp]: "list_all visible s \<Longrightarrow> trim_space s = s"
  by (cases "s = []") (auto simp: list_all_iff intro!: trim_space_visible)

lemma strip_all_keeps:
  "c \<in> set s \<Longrightarrow> (\<And>p. p \<in> set ps \<Longrightarrow> c \<notin> set p) \<Longrightarrow> c \<in> set (strip_all ps s)"
proof (induction ps s rule: strip_all.induct)
  case (1 ps s)
  show ?case
  proof (cases "find (\<lambda>p. prefix p s \<and> p \<noteq> []) ps")
    case None
    with "1.prems" show ?thesis by (simp add: strip_all.simps [of ps s])
  next
    case (Some p)
    then have p: "p \<in> set ps" "prefix p s" using find_Some_in by fastforce+
    then have "s = p @ drop (length p) s" by (auto simp: prefix_def)
    with "1.prems" p(1) have "c \<in> set (drop (length p) s)" by (metis Un_iff set_append)
    with "1.IH" [OF Some] "1.prems"(2) Some show ?thesis by (simp add: strip_all.simps [of ps s])
  qed
qed

lemma trim_space_keeps_visible: "c \<in> set s \<Longrightarrow> visible c \<Longrightarrow> c \<in> set (trim_space s)"
proof -
  have "list_all (\<lambda>p. \<forall>c \<in> set p. \<not> visible c) space_runes"
    by (simp add: space_runes_def visible_def upt_rec)
  then have invisible: "p \<in> set space_runes \<Longrightarrow> visible c \<Longrightarrow> c \<notin> set p" for p c by (auto simp: list_all_iff)
  assume "c \<in> set s" "visible c"
  then have "c \<in> set (strip_all space_runes s)" using invisible by (intro strip_all_keeps) auto
  with \<open>visible c\<close> show "c \<in> set (trim_space s)"
    using invisible by (auto simp: trim_space_def intro!: strip_all_keeps)
qed

lemma trim_space_nonblank: "visible c \<Longrightarrow> trim_space (c # s) \<noteq> []"
  using trim_space_keeps_visible [of c "c # s"] by auto

subsection \<open>Lowered and trimmed names\<close>

text \<open>
  \<open>strings.TrimSpace(strings.ToLower(x))\<close>, the canonical form of names and hashes. It is
  idempotent: trimming cuts a lowered text at rune boundaries, so what remains is lowered.
\<close>

definition norm_name :: "bytes \<Rightarrow> bytes" where
  "norm_name s = trim_space (to_lower s)"

definition space_codes :: "nat list" where
  "space_codes = [9, 10, 11, 12, 13, 32, 133, 160, 5760] @ [8192..<8203] @ [8232, 8233, 8239, 8287, 12288]"

lemma space_runes_encoded:
  "List.map (List.map code) space_runes = List.map encode_rune space_codes"
  by (simp add: space_runes_def space_codes_def encode_rune_def valid_rune_def Let_def upt_rec)

lemma space_codes_avoid:
  "all_avoid_blocks (List.map (\<lambda>r. (int r, int r, 1, 0)) space_codes) lower_blocks"
  by (simp add: space_codes_def lower_blocks_def image_avoids_def upt_rec)

lemma space_code_lower:
  assumes "r \<in> set space_codes"
  shows "lower_rune r = r"
proof -
  let ?x = "(int r, int r, 1, 0)"
  have "list_all (image_avoids ?x) lower_ranges"
    using all_avoid_blocks_sound [OF space_codes_avoid lower_blocks_bounds] assms
    by (auto simp: list_all_iff lower_ranges_def)
  then have "\<not> in_lower_range (int r) y" if "y \<in> set lower_ranges" for y
    using image_avoids_sound [of "int r" ?x y "int r"] that
    by (auto simp: list_all_iff in_lower_range_def)
  then have "find (in_lower_range (int r)) lower_ranges = None" by (auto simp: find_None_iff)
  moreover have "\<not> (65 \<le> r \<and> r \<le> 90)" using assms by (auto simp: space_codes_def)
  ultimately show ?thesis by (simp add: lower_rune_def)
qed

lemma space_code_valid: "r \<in> set space_codes \<Longrightarrow> valid_rune r"
  by (auto simp: space_codes_def valid_rune_def)

lemma space_runes_start:
  "list_all (\<lambda>p. p \<noteq> [] \<and> \<not> continuation (code (hd p))) space_runes"
  by (simp add: space_runes_def continuation_def upt_rec)

lemma space_rune_code:
  assumes "p \<in> set space_runes"
  obtains r where "List.map code p = encode_rune r" "lower_rune r = r" "valid_rune r"
proof -
  have "List.map code p \<in> set (List.map (List.map code) space_runes)" using assms by auto
  then have "List.map code p \<in> set (List.map encode_rune space_codes)"
    by (simp only: space_runes_encoded)
  then obtain r where "r \<in> set space_codes" "List.map code p = encode_rune r" by auto
  with space_code_lower space_code_valid that show thesis by blast
qed

lemma decode_rune_append:
  assumes "xs \<noteq> []" "ys \<noteq> []" "\<not> continuation (hd ys)"
  shows "decode_rune (xs @ ys) = decode_rune xs"
proof -
  obtain y ys' where y: "ys = y # ys'" "\<not> continuation y" using assms(2,3) by (cases ys) auto
  consider a where "xs = [a]" | a b where "xs = [a, b]" | a b c where "xs = [a, b, c]"
    | a b c d zs where "xs = a # b # c # d # zs"
    using assms(1) by (metis neq_Nil_conv)
  then show ?thesis
  proof cases
    case 1
    with y show ?thesis by (simp split: list.split)
  next
    case 2
    with y show ?thesis by (simp split: list.split)
  next
    case 3
    with y show ?thesis by simp
  next
    case 4
    then show ?thesis by simp
  qed
qed

lemma decode_runes_append:
  assumes "ys \<noteq> []" "\<not> continuation (hd ys)"
  shows "decode_runes (xs @ ys) = decode_runes xs @ decode_runes ys"
proof (induction xs rule: decode_runes.induct)
  case (1 xs)
  show ?case
  proof (cases "xs = []")
    case False
    then have d: "decode_rune (xs @ ys) = decode_rune xs"
      using assms by (rule decode_rune_append)
    have "snd (decode_rune xs) \<le> length xs" using decode_rune_width [OF False] by simp
    then have "drop (snd (decode_rune xs)) (xs @ ys) = drop (snd (decode_rune xs)) xs @ ys"
      by simp
    then show ?thesis
      using False 1 by (simp add: decode_runes.simps [of "xs @ ys"] decode_runes.simps [of xs] d
          del: decode_rune.simps)
  qed simp
qed

lemma decode_runes_encoded: "valid_rune r \<Longrightarrow> decode_runes (encode_rune r @ bs) = r # decode_runes bs"
  by (subst decode_runes.simps) (simp add: decode_encode_rune encode_rune_nonempty)

lemma map_char_code [simp]: "List.map (char_of \<circ> code) s = s"
  by (simp add: comp_def)

lemma map_char_encoded: "List.map code p = encode_rune r \<Longrightarrow> List.map char_of (encode_rune r) = p"
  by (metis list.map_comp map_char_code)

lemma lower_unicode_space_prefix:
  assumes "p \<in> set space_runes"
  shows "lower_unicode (p @ s) = p @ lower_unicode s"
proof -
  obtain r where r: "List.map code p = encode_rune r" "lower_rune r = r" "valid_rune r"
    using assms by (rule space_rune_code)
  then have "decode_runes (List.map code (p @ s)) = r # decode_runes (List.map code s)"
    by (simp add: decode_runes_encoded)
  then show ?thesis
    unfolding lower_unicode_def by (simp add: r(2) map_char_encoded [OF r(1)])
qed

lemma lower_unicode_space_suffix:
  assumes "p \<in> set space_runes"
  shows "lower_unicode (s @ p) = lower_unicode s @ p"
proof -
  have p: "p \<noteq> []" "\<not> continuation (code (hd p))"
    using assms space_runes_start by (auto simp: list_all_iff)
  then have "decode_runes (List.map code (s @ p)) =
      decode_runes (List.map code s) @ decode_runes (List.map code p)"
    by (simp add: decode_runes_append hd_map)
  then have "lower_unicode (s @ p) = lower_unicode s @ lower_unicode p"
    unfolding lower_unicode_def by simp
  moreover have "lower_unicode p = p"
    using lower_unicode_space_prefix [OF assms, of "[]"] by (simp add: lower_unicode_def)
  ultimately show ?thesis by simp
qed

lemma strip_spaces_lower:
  "to_lower s = s \<Longrightarrow> to_lower (strip_all space_runes s) = strip_all space_runes s"
proof (induction space_runes s rule: strip_all.induct)
  case (1 s)
  show ?case
  proof (cases "find (\<lambda>p. prefix p s \<and> p \<noteq> []) space_runes")
    case None
    with 1 show ?thesis by (simp add: strip_all.simps [of space_runes s])
  next
    case (Some p)
    then have p: "p \<in> set space_runes" "prefix p s" using find_Some_in by fastforce+
    then obtain t where t: "s = p @ t" by (auto simp: prefix_def)
    have "to_lower t = t"
      using 1(2) lower_unicode_space_prefix [OF p(1), of t] by (simp add: to_lower_eq t)
    then show ?thesis using 1(1) Some by (simp add: strip_all.simps [of space_runes "p @ t"] t)
  qed
qed

lemma strip_spaces_rev_lower:
  "to_lower (rev s) = rev s \<Longrightarrow>
   to_lower (rev (strip_all (List.map rev space_runes) s)) = rev (strip_all (List.map rev space_runes) s)"
proof (induction "List.map rev space_runes" s rule: strip_all.induct)
  case (1 s)
  show ?case
  proof (cases "find (\<lambda>p. prefix p s \<and> p \<noteq> []) (List.map rev space_runes)")
    case None
    with 1 show ?thesis by (simp add: strip_all.simps [of _ s])
  next
    case (Some q)
    then obtain p where p: "p \<in> set space_runes" "q = rev p" "prefix q s"
      using find_Some_in by fastforce
    then obtain t where t: "s = rev p @ t" by (auto simp: prefix_def)
    have "to_lower (rev t) = rev t"
      using 1(2) lower_unicode_space_suffix [OF p(1), of "rev t"] by (simp add: to_lower_eq t)
    then show ?thesis using 1(1) Some p(2) by (simp add: strip_all.simps [of _ "rev p @ t"] t)
  qed
qed

lemma to_lower_trim_space: "to_lower s = s \<Longrightarrow> to_lower (trim_space s) = trim_space s"
  unfolding trim_space_def by (rule strip_spaces_rev_lower) (simp add: strip_spaces_lower)

lemma to_lower_norm_name [simp]: "to_lower (norm_name s) = norm_name s"
  by (simp add: norm_name_def to_lower_trim_space)

lemma trim_space_norm_name [simp]: "trim_space (norm_name s) = norm_name s"
  by (simp add: norm_name_def)

lemma norm_name_idem [simp]: "norm_name (norm_name s) = norm_name s"
  by (simp add: norm_name_def to_lower_trim_space)

lemma norm_name_Nil [simp]: "norm_name [] = []"
  by (simp add: norm_name_def)

lemma norm_name_fixed [simp]: "lower_text s \<Longrightarrow> list_all visible s \<Longrightarrow> norm_name s = s"
  by (simp add: norm_name_def)

subsection \<open>Prefixes\<close>

definition has_prefix :: "bytes \<Rightarrow> bytes \<Rightarrow> bool" where
  "has_prefix s p \<longleftrightarrow> prefix p s"

definition trim_prefix :: "bytes \<Rightarrow> bytes \<Rightarrow> bytes" where
  "trim_prefix s p = (if has_prefix s p then drop (length p) s else s)"

lemma has_prefix_append [simp]: "has_prefix (p @ s) p"
  by (simp add: has_prefix_def)

lemma trim_prefix_append [simp]: "trim_prefix (p @ s) p = s"
  by (simp add: trim_prefix_def)

subsection \<open>Hexadecimal\<close>

definition hex_digit :: "nat \<Rightarrow> char" where
  "hex_digit n = (if n < 10 then char_of (48 + n) else char_of (87 + n))"

definition hex_encode :: "bytes \<Rightarrow> bytes" where
  "hex_encode s = concat (List.map (\<lambda>c. [hex_digit (code c div 16), hex_digit (code c mod 16)]) s)"

lemma hex_digit_range:
  "n < 16 \<Longrightarrow> visible (hex_digit n) \<and> code (hex_digit n) < 128 \<and>
    \<not> (65 \<le> code (hex_digit n) \<and> code (hex_digit n) \<le> 90)"
  by (auto simp: hex_digit_def visible_def)

lemma code_nibbles: "code c div 16 < 16" "code c mod 16 < 16"
  using code_less_256 [of c] by linarith+

lemma hex_encode_visible [simp]: "list_all visible (hex_encode s)"
  by (induction s) (simp_all add: hex_encode_def hex_digit_range code_nibbles)

lemma hex_encode_lower [simp]: "lower_text (hex_encode s)"
  using hex_digit_range code_nibbles
  by (fastforce simp: hex_encode_def lower_text_def list_all_iff)

lemma length_hex_encode [simp]: "length (hex_encode s) = 2 * length s"
  by (induction s) (simp_all add: hex_encode_def)

lemma hex_encode_Nil_iff [simp]: "hex_encode s = [] \<longleftrightarrow> s = []"
  by (cases s) (simp_all add: hex_encode_def)

lemma hex_digit_inject: "m < 16 \<Longrightarrow> n < 16 \<Longrightarrow> hex_digit m = hex_digit n \<Longrightarrow> m = n"
proof -
  assume h: "m < 16" "n < 16" "hex_digit m = hex_digit n"
  then have "code (hex_digit m) = code (hex_digit n)" by simp
  with h(1,2) show ?thesis by (simp add: hex_digit_def split: if_splits)
qed

lemma hex_encode_inject [simp]: "hex_encode s = hex_encode t \<longleftrightarrow> s = t"
proof
  show "hex_encode s = hex_encode t \<Longrightarrow> s = t"
  proof (induction s arbitrary: t)
    case Nil
    then show ?case by (cases t) (simp_all add: hex_encode_def)
  next
    case (Cons c s)
    then obtain d t' where t: "t = d # t'" by (cases t) (simp_all add: hex_encode_def)
    with Cons.prems have e: "hex_digit (code c div 16) = hex_digit (code d div 16)"
        "hex_digit (code c mod 16) = hex_digit (code d mod 16)" "hex_encode s = hex_encode t'"
      by (simp_all add: hex_encode_def)
    then have "code c div 16 = code d div 16" "code c mod 16 = code d mod 16"
      using hex_digit_inject code_nibbles by blast+
    then have "code c = code d" by (metis div_mult_mod_eq)
    with e(3) Cons.IH t show ?case by simp
  qed
qed simp

subsection \<open>Base64, the URL alphabet without padding\<close>

definition b64_char :: "nat \<Rightarrow> char" where
  "b64_char n =
     (if n < 26 then char_of (65 + n) else if n < 52 then char_of (71 + n)
      else if n < 62 then char_of (n - 4) else if n = 62 then CHR ''-'' else CHR ''_'')"

definition b64_value :: "char \<Rightarrow> nat option" where
  "b64_value c =
     (let n = code c in
      if 65 \<le> n \<and> n \<le> 90 then Some (n - 65)
      else if 97 \<le> n \<and> n \<le> 122 then Some (n - 71)
      else if 48 \<le> n \<and> n \<le> 57 then Some (n + 4)
      else if c = CHR ''-'' then Some 62
      else if c = CHR ''_'' then Some 63
      else None)"

fun b64_encode :: "bytes \<Rightarrow> bytes" where
  "b64_encode (a # b # c # rest) =
     [b64_char (code a div 4), b64_char (code a mod 4 * 16 + code b div 16),
      b64_char (code b mod 16 * 4 + code c div 64), b64_char (code c mod 64)] @ b64_encode rest"
| "b64_encode [a, b] =
     [b64_char (code a div 4), b64_char (code a mod 4 * 16 + code b div 16),
      b64_char (code b mod 16 * 4)]"
| "b64_encode [a] = [b64_char (code a div 4), b64_char (code a mod 4 * 16)]"
| "b64_encode [] = []"

text \<open>
  Decoding skips carriage returns and newlines, refuses any other byte outside the alphabet
  and a single left-over digit, and ignores the unused low bits of the last digit.
\<close>

fun b64_quanta :: "nat list \<Rightarrow> bytes option" where
  "b64_quanta (p # q # r # s # rest) =
     map_option (\<lambda>t. char_of (p * 4 + q div 16) # char_of (q mod 16 * 16 + r div 4) #
        char_of (r mod 4 * 64 + s) # t) (b64_quanta rest)"
| "b64_quanta [p, q, r] = Some [char_of (p * 4 + q div 16), char_of (q mod 16 * 16 + r div 4)]"
| "b64_quanta [p, q] = Some [char_of (p * 4 + q div 16)]"
| "b64_quanta [p] = None"
| "b64_quanta [] = Some []"

fun sequence_options :: "'a option list \<Rightarrow> 'a list option" where
  "sequence_options [] = Some []"
| "sequence_options (None # xs) = None"
| "sequence_options (Some x # xs) = map_option (Cons x) (sequence_options xs)"

definition b64_decode :: "bytes \<Rightarrow> bytes option" where
  "b64_decode s =
     Option.bind
       (sequence_options (List.map b64_value
          (List.filter (\<lambda>c. c \<noteq> char_of (10 :: nat) \<and> c \<noteq> char_of (13 :: nat)) s)))
       b64_quanta"

lemma b64_value_char: "n < 64 \<Longrightarrow> b64_value (b64_char n) = Some n"
  by (auto simp: b64_value_def b64_char_def Let_def)

lemma b64_char_visible: "visible (b64_char n)"
  by (auto simp: b64_char_def visible_def)

lemma b64_digits_less:
  "code a div 4 < 64" "code a mod 4 * 16 + code b div 16 < 64"
  "code b mod 16 * 4 + code c div 64 < 64" "code b mod 16 * 4 < 64" "code a mod 4 * 16 < 64"
proof -
  have "code a < 256" "code b < 256" "code c < 256" by (rule code_less_256)+
  moreover have "code a mod 4 \<le> 3" "code b mod 16 \<le> 15" by simp_all
  ultimately show "code a div 4 < 64" "code a mod 4 * 16 + code b div 16 < 64"
    "code b mod 16 * 4 + code c div 64 < 64" "code b mod 16 * 4 < 64" "code a mod 4 * 16 < 64"
    by linarith+
qed

fun b64_digits :: "bytes \<Rightarrow> nat list" where
  "b64_digits (a # b # c # rest) =
     [code a div 4, code a mod 4 * 16 + code b div 16, code b mod 16 * 4 + code c div 64,
      code c mod 64] @ b64_digits rest"
| "b64_digits [a, b] = [code a div 4, code a mod 4 * 16 + code b div 16, code b mod 16 * 4]"
| "b64_digits [a] = [code a div 4, code a mod 4 * 16]"
| "b64_digits [] = []"

lemma b64_encode_digits: "b64_encode s = List.map b64_char (b64_digits s)"
  by (induction s rule: b64_encode.induct) simp_all

lemma b64_digits_bound: "d \<in> set (b64_digits s) \<Longrightarrow> d < 64"
  by (induction s rule: b64_digits.induct) (auto simp: b64_digits_less)

lemma b64_bytes:
  "char_of (code a div 4 * 4 + (code a mod 4 * 16 + code b div 16) div 16) = a"
  "char_of ((code a mod 4 * 16 + code b div 16) mod 16 * 16 + (code b mod 16 * 4 + code c div 64) div 4) = b"
  "char_of ((code b mod 16 * 4 + code c div 64) mod 4 * 64 + code c mod 64) = c"
proof -
  have l: "code b div 16 < 16" "code c div 64 < 4"
    using code_less_256 [of b] code_less_256 [of c] by linarith+
  have "(code a mod 4 * 16 + code b div 16) div 16 = code a mod 4" using l by simp
  then show "char_of (code a div 4 * 4 + (code a mod 4 * 16 + code b div 16) div 16) = a"
    by (metis char_of_code div_mult_mod_eq)
  have "(code a mod 4 * 16 + code b div 16) mod 16 = code b div 16"
    "(code b mod 16 * 4 + code c div 64) div 4 = code b mod 16" using l by simp_all
  then show "char_of ((code a mod 4 * 16 + code b div 16) mod 16 * 16 + (code b mod 16 * 4 + code c div 64) div 4) = b"
    by (metis char_of_code div_mult_mod_eq)
  have "(code b mod 16 * 4 + code c div 64) mod 4 = code c div 64" using l by simp
  then show "char_of ((code b mod 16 * 4 + code c div 64) mod 4 * 64 + code c mod 64) = c"
    by (metis char_of_code div_mult_mod_eq)
qed

lemma b64_quanta_digits: "b64_quanta (b64_digits s) = Some s"
proof (induction s rule: b64_digits.induct)
  case (1 a b c rest)
  have "b64_quanta (b64_digits (a # b # c # rest)) =
      map_option (\<lambda>t. a # b # c # t) (b64_quanta (b64_digits rest))"
    by (simp only: b64_digits.simps append_Cons append_Nil b64_quanta.simps b64_bytes)
  with 1 show ?case by simp
next
  case (2 a b)
  show ?case using b64_bytes(1) [of a b] b64_bytes(2) [of a b "CHR 0x00"] by simp
next
  case (3 a)
  show ?case using b64_bytes(1) [of a "CHR 0x00"] by simp
next
  case 4
  show ?case by simp
qed

lemma sequence_Some: "sequence_options (List.map Some xs) = Some xs"
  by (induction xs) simp_all

lemma b64_encode_visible [simp]: "list_all visible (b64_encode s)"
  by (auto simp: b64_encode_digits list_all_iff b64_char_visible)

lemma b64_decode_encode [simp]: "b64_decode (b64_encode s) = Some s"
proof -
  have "List.filter (\<lambda>c. c \<noteq> char_of (10 :: nat) \<and> c \<noteq> char_of (13 :: nat)) (b64_encode s) = b64_encode s"
    using b64_encode_visible [of s]
    by (auto simp: list_all_iff visible_def intro!: filter_True)
  moreover have "List.map b64_value (b64_encode s) = List.map Some (b64_digits s)"
    by (auto simp: b64_encode_digits b64_value_char b64_digits_bound)
  ultimately show ?thesis
    by (simp add: b64_decode_def sequence_Some b64_quanta_digits)
qed

lemma b64_encode_Nil_iff [simp]: "b64_encode s = [] \<longleftrightarrow> s = []"
  by (cases s rule: b64_encode.cases) simp_all

subsection \<open>Decimal numbers\<close>

fun decimal_digits :: "nat \<Rightarrow> bytes" where
  "decimal_digits n =
     (if n < 10 then [char_of (48 + n)] else decimal_digits (n div 10) @ [char_of (48 + n mod 10)])"

declare decimal_digits.simps [simp del]

text \<open>\<open>strconv.FormatUint(v, 10)\<close>, \<open>strconv.Itoa\<close>, and the verb \<open>%06d\<close>.\<close>

definition format_uint :: "uint64 \<Rightarrow> bytes" where
  "format_uint v = decimal_digits (unat v)"

definition itoa :: "int \<Rightarrow> bytes" where
  "itoa n = (if n < 0 then ''-'' @ decimal_digits (nat (- n)) else decimal_digits (nat n))"

definition pad_left :: "nat \<Rightarrow> bytes \<Rightarrow> bytes" where
  "pad_left w s = replicate (w - length s) (CHR ''0'') @ s"

definition format_06d :: "int \<Rightarrow> bytes" where
  "format_06d n =
     (if n < 0 then ''-'' @ pad_left 5 (decimal_digits (nat (- n)))
      else pad_left 6 (decimal_digits (nat n)))"

definition digit :: "char \<Rightarrow> bool" where
  "digit c \<longleftrightarrow> 48 \<le> code c \<and> code c \<le> 57"

fun digits_value :: "nat \<Rightarrow> bytes \<Rightarrow> nat" where
  "digits_value acc [] = acc"
| "digits_value acc (c # s) = digits_value (acc * 10 + (code c - 48)) s"

lemma digits_value_append: "digits_value acc (s @ t) = digits_value (digits_value acc s) t"
  by (induction s arbitrary: acc) simp_all

lemma digits_value_decimal: "digits_value 0 (decimal_digits n) = n"
proof (induction n rule: decimal_digits.induct)
  case (1 n)
  then show ?case
    by (cases "n < 10") (simp_all add: decimal_digits.simps [of n] digits_value_append)
qed

lemma decimal_digits_inject [simp]: "decimal_digits m = decimal_digits n \<longleftrightarrow> m = n"
  by (metis digits_value_decimal)

lemma decimal_digits_digit: "list_all digit (decimal_digits n)"
proof (induction n rule: decimal_digits.induct)
  case (1 n)
  then show ?case
    by (cases "n < 10") (simp_all add: decimal_digits.simps [of n] digit_def)
qed

lemma decimal_digits_nonempty [simp]: "decimal_digits n \<noteq> []"
  by (subst decimal_digits.simps) simp

lemma digits_value_pad: "digits_value 0 (replicate k (CHR ''0'') @ s) = digits_value 0 s"
  by (induction k) simp_all

lemma pad_left_decimal_inject:
  "pad_left w (decimal_digits m) = pad_left w (decimal_digits n) \<Longrightarrow> m = n"
  by (metis digits_value_decimal digits_value_pad pad_left_def)

lemma digit_visible: "digit c \<Longrightarrow> visible c"
  by (simp add: digit_def visible_def)

end
