(* ===== verification/GoCrypto.thy ===== *)
theory GoCrypto
  imports GoStrings
begin

section \<open>SHA-256 and HMAC\<close>

text \<open>
  The hash functions of Go's \<open>crypto\<close> packages that the program signs and compares with,
  as FIPS 180-4 and RFC 2104 define them, on byte lists. No theorem assumes more of them
  than these definitions; the statements about signatures are exact, in terms of equality
  of digests.
\<close>

unbundle bit_operations_syntax

type_synonym u32 = "32 word"

text \<open>The round constants and the initial state, the words the standard lists, in decimal.\<close>

definition sha_k :: "u32 list" where
  "sha_k = [
    1116352408, 1899447441, 3049323471, 3921009573, 961987163, 1508970993, 2453635748,
    2870763221, 3624381080, 310598401, 607225278, 1426881987, 1925078388, 2162078206,
    2614888103, 3248222580, 3835390401, 4022224774, 264347078, 604807628, 770255983,
    1249150122, 1555081692, 1996064986, 2554220882, 2821834349, 2952996808, 3210313671,
    3336571891, 3584528711, 113926993, 338241895, 666307205, 773529912, 1294757372,
    1396182291, 1695183700, 1986661051, 2177026350, 2456956037, 2730485921, 2820302411,
    3259730800, 3345764771, 3516065817, 3600352804, 4094571909, 275423344, 430227734,
    506948616, 659060556, 883997877, 958139571, 1322822218, 1537002063, 1747873779,
    1955562222, 2024104815, 2227730452, 2361852424, 2428436474, 2756734187, 3204031479,
    3329325298]"

definition sha_h0 :: "u32 list" where
  "sha_h0 = [
    1779033703, 3144134277, 1013904242, 2773480762, 1359893119, 2600822924, 528734635,
    1541459225]"

abbreviation rotr32 :: "nat \<Rightarrow> u32 \<Rightarrow> u32" where
  "rotr32 n x \<equiv> word_rotr n x"

definition big_sigma0 :: "u32 \<Rightarrow> u32" where
  "big_sigma0 x = (rotr32 2 x XOR rotr32 13 x) XOR rotr32 22 x"

definition big_sigma1 :: "u32 \<Rightarrow> u32" where
  "big_sigma1 x = (rotr32 6 x XOR rotr32 11 x) XOR rotr32 25 x"

definition small_sigma0 :: "u32 \<Rightarrow> u32" where
  "small_sigma0 x = (rotr32 7 x XOR rotr32 18 x) XOR drop_bit 3 x"

definition small_sigma1 :: "u32 \<Rightarrow> u32" where
  "small_sigma1 x = (rotr32 17 x XOR rotr32 19 x) XOR drop_bit 10 x"

definition choice :: "u32 \<Rightarrow> u32 \<Rightarrow> u32 \<Rightarrow> u32" where
  "choice x y z = (x AND y) XOR (NOT x AND z)"

definition majority :: "u32 \<Rightarrow> u32 \<Rightarrow> u32 \<Rightarrow> u32" where
  "majority x y z = ((x AND y) XOR (x AND z)) XOR (y AND z)"

definition be32 :: "bytes \<Rightarrow> u32" where
  "be32 bs = foldl (\<lambda>acc c. acc * 256 + of_nat (code c)) 0 bs"

definition be_bytes :: "nat \<Rightarrow> nat \<Rightarrow> bytes" where
  "be_bytes k n = List.map (\<lambda>i. char_of (n div 256 ^ i mod 256)) (rev [0..<k])"

definition word_bytes :: "u32 \<Rightarrow> bytes" where
  "word_bytes w = be_bytes 4 (unat w)"

definition sha_pad :: "bytes \<Rightarrow> bytes" where
  "sha_pad m = m @ char_of (128 :: nat) # replicate ((119 - length m mod 64) mod 64) (CHR 0x00)
     @ be_bytes 8 (8 * length m)"

fun chunks :: "nat \<Rightarrow> 'a list \<Rightarrow> 'a list list" where
  "chunks n xs = (if n = 0 \<or> xs = [] then [] else take n xs # chunks n (drop n xs))"

declare chunks.simps [simp del]

text \<open>The message schedule, kept with its latest word first.\<close>

fun extend_schedule :: "nat \<Rightarrow> u32 list \<Rightarrow> u32 list" where
  "extend_schedule 0 w = w"
| "extend_schedule (Suc n) w =
     extend_schedule n ((small_sigma1 (w ! 1) + w ! 6 + small_sigma0 (w ! 14) + w ! 15) # w)"

definition schedule :: "bytes \<Rightarrow> u32 list" where
  "schedule block = rev (extend_schedule 48 (rev (List.map be32 (chunks 4 block))))"

fun sha_rounds :: "(u32 \<times> u32) list \<Rightarrow> u32 list \<Rightarrow> u32 list" where
  "sha_rounds [] v = v"
| "sha_rounds ((k, w) # kws) [a, b, c, d, e, f, g, h] =
     (let t1 = h + big_sigma1 e + choice e f g + k + w;
          t2 = big_sigma0 a + majority a b c
      in sha_rounds kws [t1 + t2, a, b, c, d + t1, e, f, g])"
| "sha_rounds (kw # kws) v = v"

definition compress_block :: "u32 list \<Rightarrow> bytes \<Rightarrow> u32 list" where
  "compress_block h block = map2 (+) h (sha_rounds (zip sha_k (schedule block)) h)"

definition sha256 :: "bytes \<Rightarrow> bytes" where
  "sha256 m = concat (List.map word_bytes (foldl compress_block sha_h0 (chunks 64 (sha_pad m))))"

definition xor_byte :: "nat \<Rightarrow> char \<Rightarrow> char" where
  "xor_byte n c = char_of (n XOR code c)"

definition hmac_block :: "bytes \<Rightarrow> bytes" where
  "hmac_block key =
     (let k = (if 64 < length key then sha256 key else key)
      in k @ replicate (64 - length k) (CHR 0x00))"

definition hmac_sha256 :: "bytes \<Rightarrow> bytes \<Rightarrow> bytes" where
  "hmac_sha256 key m =
     sha256 (List.map (xor_byte 92) (hmac_block key) @
       sha256 (List.map (xor_byte 54) (hmac_block key) @ m))"

text \<open>A digest has 32 bytes, so its hexadecimal form is never empty.\<close>

lemma length_sha_rounds: "length v = 8 \<Longrightarrow> length (sha_rounds kws v) = 8"
  by (induction kws v rule: sha_rounds.induct) (simp_all add: Let_def)

lemma length_compress: "length h = 8 \<Longrightarrow> length (compress_block h b) = 8"
  by (simp add: compress_block_def length_sha_rounds)

lemma length_foldl_compress: "length h = 8 \<Longrightarrow> length (foldl compress_block h bs) = 8"
  by (induction bs arbitrary: h) (simp_all add: length_compress)

lemma length_word_bytes: "length (word_bytes w) = 4"
  by (simp add: word_bytes_def be_bytes_def)

lemma length_concat_word_bytes: "length (concat (List.map word_bytes ws)) = 4 * length ws"
  by (induction ws) (simp_all add: length_word_bytes)

lemma length_sha256 [simp]: "length (sha256 m) = 32"
proof -
  have "length (foldl compress_block sha_h0 (chunks 64 (sha_pad m))) = 8"
    by (rule length_foldl_compress) (simp add: sha_h0_def)
  then show ?thesis unfolding sha256_def length_concat_word_bytes by simp
qed

lemma sha256_nonempty [simp]: "sha256 m \<noteq> []"
  using length_sha256 [of m] by force

lemma hmac_nonempty [simp]: "hmac_sha256 k m \<noteq> []"
  by (simp add: hmac_sha256_def)

end
