(* ===== verification/FedModels.thy ===== *)
theory FedModels
  imports GoCrypto
begin

section \<open>Federation data and its normalisation (\<open>internal/domain/federation/models.go\<close>)\<close>

text \<open>
  The records of the federation domain with the source's fields, the string-valued
  enumerations (any string can arrive, so they stay strings and the switches keep their
  default branches) and the five \<open>normalize\<close> methods. The lemmas show that a normalised
  value is a fixed point of normalisation and what it guarantees to the rest of the domain.
\<close>

named_theorems normalize_defs \<open>definitions of the normalize methods\<close>

subsection \<open>Sentinel errors\<close>

abbreviation ErrInvalidInput :: error where
  "ErrInvalidInput \<equiv> Sentinel Federation InvalidInput"

abbreviation ErrNotFound :: error where
  "ErrNotFound \<equiv> Sentinel Federation NotFound"

abbreviation ErrConflict :: error where
  "ErrConflict \<equiv> Sentinel Federation Conflict"

abbreviation ErrUnauthorized :: error where
  "ErrUnauthorized \<equiv> Sentinel Federation Unauthorized"

abbreviation ErrForbidden :: error where
  "ErrForbidden \<equiv> Sentinel Federation Forbidden"

subsection \<open>Enumerations\<close>

type_synonym Capability = string

abbreviation CapabilityEventReplication :: Capability where
  "CapabilityEventReplication \<equiv> ''event_replication''"

abbreviation CapabilityDirectorySync :: Capability where
  "CapabilityDirectorySync \<equiv> ''directory_sync''"

abbreviation CapabilityMediaProxy :: Capability where
  "CapabilityMediaProxy \<equiv> ''media_proxy''"

abbreviation CapabilityBotBridge :: Capability where
  "CapabilityBotBridge \<equiv> ''bot_bridge''"

abbreviation CapabilitySearchMirror :: Capability where
  "CapabilitySearchMirror \<equiv> ''search_mirror''"

type_synonym FedConversationKind = string

abbreviation FedConversationKindDirect :: FedConversationKind where
  "FedConversationKindDirect \<equiv> ''direct''"

abbreviation FedConversationKindGroup :: FedConversationKind where
  "FedConversationKindGroup \<equiv> ''group''"

abbreviation FedConversationKindChannel :: FedConversationKind where
  "FedConversationKindChannel \<equiv> ''channel''"

type_synonym FedMessageKind = string

abbreviation FedMessageKindText :: FedMessageKind where
  "FedMessageKindText \<equiv> ''text''"

abbreviation FedMessageKindImage :: FedMessageKind where
  "FedMessageKindImage \<equiv> ''image''"

abbreviation FedMessageKindVideo :: FedMessageKind where
  "FedMessageKindVideo \<equiv> ''video''"

abbreviation FedMessageKindDocument :: FedMessageKind where
  "FedMessageKindDocument \<equiv> ''document''"

abbreviation FedMessageKindVoice :: FedMessageKind where
  "FedMessageKindVoice \<equiv> ''voice''"

abbreviation FedMessageKindSticker :: FedMessageKind where
  "FedMessageKindSticker \<equiv> ''sticker''"

abbreviation FedMessageKindGIF :: FedMessageKind where
  "FedMessageKindGIF \<equiv> ''gif''"

abbreviation FedMessageKindSystem :: FedMessageKind where
  "FedMessageKindSystem \<equiv> ''system''"

type_synonym PeerState = string

abbreviation PeerStatePending :: PeerState where
  "PeerStatePending \<equiv> ''pending''"

abbreviation PeerStateActive :: PeerState where
  "PeerStateActive \<equiv> ''active''"

abbreviation PeerStateDegraded :: PeerState where
  "PeerStateDegraded \<equiv> ''degraded''"

abbreviation PeerStateRevoked :: PeerState where
  "PeerStateRevoked \<equiv> ''revoked''"

type_synonym LinkState = string

abbreviation LinkStateActive :: LinkState where
  "LinkStateActive \<equiv> ''active''"

abbreviation LinkStatePaused :: LinkState where
  "LinkStatePaused \<equiv> ''paused''"

abbreviation LinkStateDegraded :: LinkState where
  "LinkStateDegraded \<equiv> ''degraded''"

abbreviation LinkStateDeleted :: LinkState where
  "LinkStateDeleted \<equiv> ''deleted''"

type_synonym TransportKind = string

abbreviation TransportKindHTTPS :: TransportKind where
  "TransportKindHTTPS \<equiv> ''https''"

abbreviation TransportKindMeshtastic :: TransportKind where
  "TransportKindMeshtastic \<equiv> ''meshtastic''"

abbreviation TransportKindMeshCore :: TransportKind where
  "TransportKindMeshCore \<equiv> ''meshcore''"

abbreviation TransportKindCustomDTN :: TransportKind where
  "TransportKindCustomDTN \<equiv> ''custom_dtn''"

type_synonym DeliveryClass = string

abbreviation DeliveryClassRealtime :: DeliveryClass where
  "DeliveryClassRealtime \<equiv> ''realtime''"

abbreviation DeliveryClassDelayTolerant :: DeliveryClass where
  "DeliveryClassDelayTolerant \<equiv> ''delay_tolerant''"

abbreviation DeliveryClassUltraConstrained :: DeliveryClass where
  "DeliveryClassUltraConstrained \<equiv> ''ultra_constrained''"

type_synonym DiscoveryMode = string

abbreviation DiscoveryModeManual :: DiscoveryMode where
  "DiscoveryModeManual \<equiv> ''manual''"

abbreviation DiscoveryModeDNS :: DiscoveryMode where
  "DiscoveryModeDNS \<equiv> ''dns''"

abbreviation DiscoveryModeWellKnown :: DiscoveryMode where
  "DiscoveryModeWellKnown \<equiv> ''well_known''"

abbreviation DiscoveryModeBridgeAnnounced :: DiscoveryMode where
  "DiscoveryModeBridgeAnnounced \<equiv> ''bridge_announced''"

type_synonym MediaPolicy = string

abbreviation MediaPolicyReferenceProxy :: MediaPolicy where
  "MediaPolicyReferenceProxy \<equiv> ''reference_proxy''"

abbreviation MediaPolicyBackgroundReplication :: MediaPolicy where
  "MediaPolicyBackgroundReplication \<equiv> ''background_replication''"

abbreviation MediaPolicyDisabled :: MediaPolicy where
  "MediaPolicyDisabled \<equiv> ''disabled''"

type_synonym BundleDirection = string

abbreviation BundleDirectionInbound :: BundleDirection where
  "BundleDirectionInbound \<equiv> ''inbound''"

abbreviation BundleDirectionOutbound :: BundleDirection where
  "BundleDirectionOutbound \<equiv> ''outbound''"

type_synonym BundleState = string

abbreviation BundleStateQueued :: BundleState where
  "BundleStateQueued \<equiv> ''queued''"

abbreviation BundleStateAccepted :: BundleState where
  "BundleStateAccepted \<equiv> ''accepted''"

abbreviation BundleStateAcknowledged :: BundleState where
  "BundleStateAcknowledged \<equiv> ''acknowledged''"

abbreviation BundleStateFailed :: BundleState where
  "BundleStateFailed \<equiv> ''failed''"

type_synonym CompressionKind = string

abbreviation CompressionKindNone :: CompressionKind where
  "CompressionKindNone \<equiv> ''none''"

abbreviation CompressionKindGzip :: CompressionKind where
  "CompressionKindGzip \<equiv> ''gzip''"

type_synonym FragmentState = string

abbreviation FragmentStateQueued :: FragmentState where
  "FragmentStateQueued \<equiv> ''queued''"

abbreviation FragmentStateClaimed :: FragmentState where
  "FragmentStateClaimed \<equiv> ''claimed''"

abbreviation FragmentStateAccepted :: FragmentState where
  "FragmentStateAccepted \<equiv> ''accepted''"

abbreviation FragmentStateAcknowledged :: FragmentState where
  "FragmentStateAcknowledged \<equiv> ''acknowledged''"

abbreviation FragmentStateAssembled :: FragmentState where
  "FragmentStateAssembled \<equiv> ''assembled''"

abbreviation FragmentStateFailed :: FragmentState where
  "FragmentStateFailed \<equiv> ''failed''"

type_synonym EventFamily = string

abbreviation EventFamilyConversation :: EventFamily where
  "EventFamilyConversation \<equiv> ''conversation''"

abbreviation EventFamilyMembership :: EventFamily where
  "EventFamilyMembership \<equiv> ''membership''"

abbreviation EventFamilyMessage :: EventFamily where
  "EventFamilyMessage \<equiv> ''message''"

abbreviation EventFamilyReceipt :: EventFamily where
  "EventFamilyReceipt \<equiv> ''receipt''"

abbreviation EventFamilyTopic :: EventFamily where
  "EventFamilyTopic \<equiv> ''topic''"

abbreviation EventFamilyUser :: EventFamily where
  "EventFamilyUser \<equiv> ''user''"

abbreviation EventFamilyAdminAction :: EventFamily where
  "EventFamilyAdminAction \<equiv> ''admin_action''"

subsection \<open>Records\<close>

record peer =
  peer_ID :: string
  peer_ServerName :: string
  peer_BaseURL :: string
  peer_Capabilities :: "Capability list"
  peer_Trusted :: bool
  peer_State :: PeerState
  peer_VerificationFingerprint :: string
  peer_SharedSecret :: string
  peer_SharedSecretHash :: string
  peer_SigningFingerprint :: string
  peer_SigningSecret :: string
  peer_PreviousSigningSecret :: string
  peer_SigningKeyVersion :: uint64
  peer_CreatedAt :: time
  peer_UpdatedAt :: time
  peer_LastSeenAt :: time

record link =
  link_ID :: string
  link_PeerID :: string
  link_Name :: string
  link_Endpoint :: string
  link_TransportKind :: TransportKind
  link_DeliveryClass :: DeliveryClass
  link_DiscoveryMode :: DiscoveryMode
  link_MediaPolicy :: MediaPolicy
  link_State :: LinkState
  link_MaxBundleBytes :: int
  link_MaxFragmentBytes :: int
  link_AllowedConversationKinds :: "FedConversationKind list"
  link_AllowedEventFamilies :: "EventFamily list"
  link_AllowedMessageKinds :: "FedMessageKind list"
  link_CreatedAt :: time
  link_UpdatedAt :: time
  link_LastHealthyAt :: time
  link_LastError :: string

record fed_bundle =
  bundle_ID :: string
  bundle_PeerID :: string
  bundle_LinkID :: string
  bundle_DedupKey :: string
  bundle_Direction :: BundleDirection
  bundle_CursorFrom :: uint64
  bundle_CursorTo :: uint64
  bundle_EventCount :: int
  bundle_PayloadType :: string
  bundle_Payload :: bytes
  bundle_Compression :: CompressionKind
  bundle_IntegrityHash :: string
  bundle_AuthTag :: string
  bundle_State :: BundleState
  bundle_CreatedAt :: time
  bundle_AvailableAt :: time
  bundle_ExpiresAt :: time
  bundle_AckedAt :: time

record fragment =
  frag_ID :: string
  frag_PeerID :: string
  frag_LinkID :: string
  frag_BundleID :: string
  frag_DedupKey :: string
  frag_Direction :: BundleDirection
  frag_CursorFrom :: uint64
  frag_CursorTo :: uint64
  frag_EventCount :: int
  frag_PayloadType :: string
  frag_Compression :: CompressionKind
  frag_IntegrityHash :: string
  frag_AuthTag :: string
  frag_FragmentIndex :: int
  frag_FragmentCount :: int
  frag_Payload :: bytes
  frag_State :: FragmentState
  frag_LeaseToken :: string
  frag_LeaseExpiresAt :: time
  frag_AttemptCount :: int
  frag_CreatedAt :: time
  frag_AvailableAt :: time
  frag_AckedAt :: time

record cursor =
  cur_LastReceivedCursor :: uint64
  cur_PeerID :: string
  cur_LinkID :: string
  cur_LastInboundCursor :: uint64
  cur_LastOutboundCursor :: uint64
  cur_LastAckedCursor :: uint64
  cur_UpdatedAt :: time

subsection \<open>Hashes of secrets (\<open>id.go\<close>)\<close>

definition secretHash :: "string \<Rightarrow> string" where
  "secretHash value = hex_encode (sha256 value)"

definition secretFingerprint :: "string \<Rightarrow> string" where
  "secretFingerprint value = hex_encode (take 8 (sha256 value))"

lemma secretFingerprint_norm [simp]: "norm_name (secretFingerprint v) = secretFingerprint v"
  by (simp add: secretFingerprint_def)

lemma secretHash_norm [simp]: "norm_name (secretHash v) = secretHash v"
  by (simp add: secretHash_def)

lemma secretFingerprint_nonempty [simp]: "secretFingerprint v \<noteq> []"
  by (simp add: secretFingerprint_def)

lemma secretHash_nonempty [simp]: "secretHash v \<noteq> []"
  by (simp add: secretHash_def)

subsection \<open>Policy lists\<close>

definition defaultConversationKinds :: "FedConversationKind list" where
  "defaultConversationKinds =
     [FedConversationKindDirect, FedConversationKindGroup, FedConversationKindChannel]"

definition defaultEventFamilies :: "DeliveryClass \<Rightarrow> EventFamily list" where
  "defaultEventFamilies deliveryClass =
     (if deliveryClass = DeliveryClassUltraConstrained
      then [EventFamilyConversation, EventFamilyMembership, EventFamilyMessage,
            EventFamilyReceipt, EventFamilyTopic]
      else [EventFamilyConversation, EventFamilyMembership, EventFamilyMessage,
            EventFamilyReceipt, EventFamilyTopic, EventFamilyUser, EventFamilyAdminAction])"

definition defaultMessageKinds :: "DeliveryClass \<Rightarrow> MediaPolicy \<Rightarrow> FedMessageKind list" where
  "defaultMessageKinds deliveryClass mediaPolicy =
     (if deliveryClass = DeliveryClassUltraConstrained \<or> mediaPolicy = MediaPolicyDisabled
      then [FedMessageKindSystem, FedMessageKindText]
      else [FedMessageKindDocument, FedMessageKindGIF, FedMessageKindImage, FedMessageKindSticker,
            FedMessageKindSystem, FedMessageKindText, FedMessageKindVideo, FedMessageKindVoice])"

text \<open>
  The loop the four list normalisations share: lower and trim each value, skip those the
  switch \<open>P\<close> refuses and those already seen, and sort what remains.
\<close>

definition normalized_values :: "(string \<Rightarrow> bool) \<Rightarrow> string list \<Rightarrow> string list" where
  "normalized_values P xs =
     sort (keep_first [] (List.filter P (List.map norm_name xs)))"

text \<open>The values the three switches accept.\<close>

definition conversation_kinds :: "FedConversationKind list" where
  "conversation_kinds = [FedConversationKindDirect, FedConversationKindGroup, FedConversationKindChannel]"

definition event_families :: "EventFamily list" where
  "event_families = [EventFamilyConversation, EventFamilyMembership, EventFamilyMessage,
     EventFamilyReceipt, EventFamilyTopic, EventFamilyUser, EventFamilyAdminAction]"

definition message_kinds :: "FedMessageKind list" where
  "message_kinds = [FedMessageKindText, FedMessageKindImage, FedMessageKindVideo, FedMessageKindDocument,
     FedMessageKindVoice, FedMessageKindSticker, FedMessageKindGIF, FedMessageKindSystem]"

definition accepted :: "string list \<Rightarrow> string \<Rightarrow> bool" where
  "accepted known v \<longleftrightarrow> v \<in> set known"

definition normalizeCapabilities :: "Capability list \<Rightarrow> Capability list" where
  "normalizeCapabilities xs = (if xs = [] then [] else normalized_values (\<lambda>v. v \<noteq> []) xs)"

definition normalizeConversationKinds :: "FedConversationKind list \<Rightarrow> FedConversationKind list" where
  "normalizeConversationKinds xs =
     (if xs = [] then defaultConversationKinds
      else let normalized = normalized_values (accepted conversation_kinds) xs
        in if normalized = [] then defaultConversationKinds else normalized)"

definition normalizeEventFamilies :: "EventFamily list \<Rightarrow> DeliveryClass \<Rightarrow> EventFamily list" where
  "normalizeEventFamilies xs deliveryClass =
     (if xs = [] then defaultEventFamilies deliveryClass
      else let normalized = normalized_values (accepted event_families) xs
        in if normalized = [] then defaultEventFamilies deliveryClass else normalized)"

definition normalizeMessageKinds ::
    "FedMessageKind list \<Rightarrow> DeliveryClass \<Rightarrow> MediaPolicy \<Rightarrow> FedMessageKind list" where
  "normalizeMessageKinds xs deliveryClass mediaPolicy =
     (if xs = [] then defaultMessageKinds deliveryClass mediaPolicy
      else let normalized = normalized_values (accepted message_kinds) xs
        in if normalized = [] then defaultMessageKinds deliveryClass mediaPolicy else normalized)"

lemma set_normalized_values:
  "set (normalized_values P xs) = {v \<in> norm_name ` set xs. P v}"
  by (auto simp: normalized_values_def set_keep_first)

lemma sorted_normalized_values [simp]: "sorted (normalized_values P xs)"
  by (simp add: normalized_values_def)

lemma distinct_normalized_values [simp]: "distinct (normalized_values P xs)"
  by (simp add: normalized_values_def distinct_keep_first)

text \<open>The set, the order and the absence of duplicates determine the list.\<close>

lemma normalized_values_unique:
  assumes "sorted ys" "distinct ys" "set ys = {v \<in> norm_name ` set xs. P v}"
  shows "normalized_values P xs = ys"
  by (rule sorted_distinct_set_unique) (use assms in \<open>simp_all add: set_normalized_values\<close>)

lemma normalized_values_idem [simp]:
  "normalized_values P (normalized_values P xs) = normalized_values P xs"
proof (rule normalized_values_unique)
  have "norm_name ` {v \<in> norm_name ` set xs. P v} = {v \<in> norm_name ` set xs. P v}"
    by (auto simp: image_iff) (metis norm_name_idem)
  then show "set (normalized_values P xs) =
      {v \<in> norm_name ` set (normalized_values P xs). P v}"
    by (simp add: set_normalized_values)
qed simp_all

lemma normalizeCapabilities_idem [simp]:
  "normalizeCapabilities (normalizeCapabilities xs) = normalizeCapabilities xs"
  by (simp add: normalizeCapabilities_def)

subsection \<open>The switches of the normalize methods\<close>

text \<open>
  A field that is empty takes its default; then a switch accepts the known values. The
  predicates below are those switches; they stay folded in the proofs.
\<close>

definition or_default :: "string \<Rightarrow> string \<Rightarrow> string" where
  "or_default s d = (if s = [] then d else s)"

definition or_version :: "uint64 \<Rightarrow> uint64" where
  "or_version v = (if v = 0 then 1 else v)"

definition valid_transport :: "TransportKind \<Rightarrow> bool" where
  "valid_transport k \<longleftrightarrow> k \<in> {TransportKindHTTPS, TransportKindMeshtastic,
     TransportKindMeshCore, TransportKindCustomDTN}"

definition valid_delivery_class :: "DeliveryClass \<Rightarrow> bool" where
  "valid_delivery_class c \<longleftrightarrow> c \<in> {DeliveryClassRealtime, DeliveryClassDelayTolerant,
     DeliveryClassUltraConstrained}"

definition valid_discovery :: "DiscoveryMode \<Rightarrow> bool" where
  "valid_discovery m \<longleftrightarrow> m \<in> {DiscoveryModeManual, DiscoveryModeDNS, DiscoveryModeWellKnown,
     DiscoveryModeBridgeAnnounced}"

definition default_media_policy :: "DeliveryClass \<Rightarrow> MediaPolicy" where
  "default_media_policy c =
     (if c = DeliveryClassUltraConstrained then MediaPolicyDisabled else MediaPolicyReferenceProxy)"

definition valid_media_policy :: "MediaPolicy \<Rightarrow> bool" where
  "valid_media_policy m \<longleftrightarrow> m \<in> {MediaPolicyReferenceProxy, MediaPolicyBackgroundReplication,
     MediaPolicyDisabled}"

definition valid_link_state :: "LinkState \<Rightarrow> bool" where
  "valid_link_state st \<longleftrightarrow> st \<in> {LinkStateActive, LinkStatePaused, LinkStateDegraded,
     LinkStateDeleted}"

definition valid_direction :: "BundleDirection \<Rightarrow> bool" where
  "valid_direction d \<longleftrightarrow> d \<in> {BundleDirectionInbound, BundleDirectionOutbound}"

definition valid_compression :: "CompressionKind \<Rightarrow> bool" where
  "valid_compression c \<longleftrightarrow> c \<in> {CompressionKindNone, CompressionKindGzip}"

definition initial_bundle_state :: "BundleDirection \<Rightarrow> BundleState" where
  "initial_bundle_state d =
     (if d = BundleDirectionInbound then BundleStateAccepted else BundleStateQueued)"

definition valid_bundle_state :: "BundleState \<Rightarrow> bool" where
  "valid_bundle_state st \<longleftrightarrow> st \<in> {BundleStateQueued, BundleStateAccepted,
     BundleStateAcknowledged, BundleStateFailed}"

definition initial_fragment_state :: "BundleDirection \<Rightarrow> FragmentState" where
  "initial_fragment_state d =
     (if d = BundleDirectionInbound then FragmentStateAccepted else FragmentStateQueued)"

definition valid_fragment_state :: "FragmentState \<Rightarrow> bool" where
  "valid_fragment_state st \<longleftrightarrow> st \<in> {FragmentStateQueued, FragmentStateClaimed,
     FragmentStateAccepted, FragmentStateAcknowledged, FragmentStateAssembled,
     FragmentStateFailed}"

text \<open>A claimed fragment is outbound and carries a token and an expiry.\<close>

definition incomplete_lease :: "BundleDirection \<Rightarrow> string \<Rightarrow> time \<Rightarrow> bool" where
  "incomplete_lease direction token expires \<longleftrightarrow>
     direction \<noteq> BundleDirectionOutbound \<or> token = [] \<or> expires = zero_time"

text \<open>Only a claimed fragment keeps its lease; every other state clears it.\<close>

definition if_claimed :: "FragmentState \<Rightarrow> 'a \<Rightarrow> 'a \<Rightarrow> 'a" where
  "if_claimed st x d = (if st = FragmentStateClaimed then x else d)"

subsection \<open>The normalize methods\<close>

text \<open>
  The state switch of \<open>Peer.normalize\<close>: the resulting trust flag and state, or \<open>None\<close>
  for a state it does not know.
\<close>

definition peer_state_switch :: "bool \<Rightarrow> PeerState \<Rightarrow> (bool \<times> PeerState) option" where
  "peer_state_switch trusted st =
     (if st = [] then Some (trusted, if trusted then PeerStateActive else PeerStatePending)
      else if st = PeerStateActive then Some (True, st)
      else if st = PeerStateRevoked then Some (False, st)
      else if st \<in> {PeerStatePending, PeerStateDegraded} then Some (trusted, st)
      else None)"

definition normalize_peer :: "peer \<Rightarrow> time \<Rightarrow> error + peer" where
  [normalize_defs]: "normalize_peer p0 now =
    (let p = p0\<lparr>
       peer_ID := trim_space (peer_ID p0),
       peer_ServerName := norm_name (peer_ServerName p0),
       peer_BaseURL := trim_space (peer_BaseURL p0),
       peer_VerificationFingerprint := norm_name (peer_VerificationFingerprint p0),
       peer_SharedSecret := trim_space (peer_SharedSecret p0),
       peer_SharedSecretHash := norm_name (peer_SharedSecretHash p0),
       peer_SigningFingerprint := norm_name (peer_SigningFingerprint p0),
       peer_SigningSecret := trim_space (peer_SigningSecret p0),
       peer_PreviousSigningSecret := trim_space (peer_PreviousSigningSecret p0)\<rparr>
     in if peer_ID p = [] \<or> peer_ServerName p = [] then Inl ErrInvalidInput
     else if peer_SharedSecret p = [] \<or> peer_SharedSecretHash p = [] then Inl ErrInvalidInput
     else let
       secret = or_default (peer_SigningSecret p) (peer_SharedSecret p);
       fingerprint = or_default (peer_SigningFingerprint p) (secretFingerprint secret);
       version = or_version (peer_SigningKeyVersion p);
       created = or_time (peer_CreatedAt p) now
     in case peer_state_switch (peer_Trusted p) (peer_State p) of
          None \<Rightarrow> Inl ErrInvalidInput
        | Some (trusted, st) \<Rightarrow> Inr (p\<lparr>
            peer_SigningSecret := secret,
            peer_SigningFingerprint := fingerprint,
            peer_SigningKeyVersion := version,
            peer_Capabilities := normalizeCapabilities (peer_Capabilities p),
            peer_Trusted := trusted,
            peer_State := st,
            peer_CreatedAt := created,
            peer_UpdatedAt := or_time (peer_UpdatedAt p) created\<rparr>))"

definition default_max_bundle_bytes :: "DeliveryClass \<Rightarrow> int" where
  "default_max_bundle_bytes c =
     (if c = DeliveryClassRealtime then 256 * 1024
      else if c = DeliveryClassDelayTolerant then 64 * 1024
      else 2 * 1024)"

definition default_max_fragment_bytes :: "DeliveryClass \<Rightarrow> int" where
  "default_max_fragment_bytes c =
     (if c = DeliveryClassRealtime then 64 * 1024
      else if c = DeliveryClassDelayTolerant then 8 * 1024
      else 192)"

definition normalize_link :: "link \<Rightarrow> time \<Rightarrow> error + link" where
  [normalize_defs]: "normalize_link l0 now =
    (let l = l0\<lparr>
       link_ID := trim_space (link_ID l0),
       link_PeerID := trim_space (link_PeerID l0),
       link_Name := norm_name (link_Name l0),
       link_Endpoint := trim_space (link_Endpoint l0),
       link_LastError := trim_space (link_LastError l0)\<rparr>
     in if link_ID l = [] \<or> link_PeerID l = [] \<or> link_Name l = [] then Inl ErrInvalidInput
     else let transport = or_default (link_TransportKind l) TransportKindHTTPS
     in if \<not> valid_transport transport then Inl ErrInvalidInput
     else let class = or_default (link_DeliveryClass l) DeliveryClassRealtime
     in if \<not> valid_delivery_class class then Inl ErrInvalidInput
     else let discovery = or_default (link_DiscoveryMode l) DiscoveryModeManual
     in if \<not> valid_discovery discovery then Inl ErrInvalidInput
     else let media = or_default (link_MediaPolicy l) (default_media_policy class)
     in if \<not> valid_media_policy media then Inl ErrInvalidInput
     else let st = or_default (link_State l) LinkStateActive
     in if \<not> valid_link_state st then Inl ErrInvalidInput
     else let
       bundle_bytes = (if link_MaxBundleBytes l \<le> 0 then default_max_bundle_bytes class
         else link_MaxBundleBytes l);
       fragment_bytes = (if link_MaxFragmentBytes l \<le> 0 then default_max_fragment_bytes class
         else link_MaxFragmentBytes l)
     in if bundle_bytes < fragment_bytes then Inl ErrInvalidInput
     else let created = or_time (link_CreatedAt l) now
     in Inr (l\<lparr>
          link_TransportKind := transport,
          link_DeliveryClass := class,
          link_DiscoveryMode := discovery,
          link_MediaPolicy := media,
          link_State := st,
          link_MaxBundleBytes := bundle_bytes,
          link_MaxFragmentBytes := fragment_bytes,
          link_AllowedConversationKinds :=
            normalizeConversationKinds (link_AllowedConversationKinds l),
          link_AllowedEventFamilies := normalizeEventFamilies (link_AllowedEventFamilies l) class,
          link_AllowedMessageKinds :=
            normalizeMessageKinds (link_AllowedMessageKinds l) class media,
          link_CreatedAt := created,
          link_UpdatedAt := or_time (link_UpdatedAt l) created\<rparr>))"

definition normalize_bundle :: "fed_bundle \<Rightarrow> time \<Rightarrow> error + fed_bundle" where
  [normalize_defs]: "normalize_bundle b0 now =
    (let b = b0\<lparr>
       bundle_ID := trim_space (bundle_ID b0),
       bundle_PeerID := trim_space (bundle_PeerID b0),
       bundle_LinkID := trim_space (bundle_LinkID b0),
       bundle_DedupKey := trim_space (bundle_DedupKey b0),
       bundle_IntegrityHash := norm_name (bundle_IntegrityHash b0),
       bundle_AuthTag := norm_name (bundle_AuthTag b0),
       bundle_PayloadType := norm_name (bundle_PayloadType b0)\<rparr>
     in if bundle_ID b = [] \<or> bundle_PeerID b = [] \<or> bundle_LinkID b = [] \<or> bundle_DedupKey b = []
        then Inl ErrInvalidInput
     else if \<not> valid_direction (bundle_Direction b) then Inl ErrInvalidInput
     else if bundle_CursorTo b < bundle_CursorFrom b then Inl ErrInvalidInput
     else if bundle_EventCount b < 0 then Inl ErrInvalidInput
     else let compression = or_default (bundle_Compression b) CompressionKindNone
     in if \<not> valid_compression compression then Inl ErrInvalidInput
     else let st = or_default (bundle_State b) (initial_bundle_state (bundle_Direction b))
     in if \<not> valid_bundle_state st then Inl ErrInvalidInput
     else let created = or_time (bundle_CreatedAt b) now
     in Inr (b\<lparr>
          bundle_Compression := compression,
          bundle_State := st,
          bundle_CreatedAt := created,
          bundle_AvailableAt := or_time (bundle_AvailableAt b) created\<rparr>))"

definition normalize_fragment :: "fragment \<Rightarrow> time \<Rightarrow> error + fragment" where
  [normalize_defs]: "normalize_fragment f0 now =
    (let f = f0\<lparr>
       frag_ID := trim_space (frag_ID f0),
       frag_PeerID := trim_space (frag_PeerID f0),
       frag_LinkID := trim_space (frag_LinkID f0),
       frag_BundleID := trim_space (frag_BundleID f0),
       frag_DedupKey := trim_space (frag_DedupKey f0),
       frag_LeaseToken := trim_space (frag_LeaseToken f0),
       frag_IntegrityHash := norm_name (frag_IntegrityHash f0),
       frag_AuthTag := norm_name (frag_AuthTag f0),
       frag_PayloadType := norm_name (frag_PayloadType f0)\<rparr>
     in if frag_ID f = [] \<or> frag_PeerID f = [] \<or> frag_LinkID f = [] \<or> frag_BundleID f = []
          \<or> frag_DedupKey f = [] then Inl ErrInvalidInput
     else if \<not> valid_direction (frag_Direction f) then Inl ErrInvalidInput
     else if frag_CursorTo f < frag_CursorFrom f then Inl ErrInvalidInput
     else if frag_EventCount f < 0 then Inl ErrInvalidInput
     else if frag_AttemptCount f < 0 then Inl ErrInvalidInput
     else if frag_FragmentCount f \<le> 0 \<or> frag_FragmentIndex f < 0
          \<or> frag_FragmentCount f \<le> frag_FragmentIndex f then Inl ErrInvalidInput
     else if frag_IntegrityHash f = [] \<or> frag_AuthTag f = [] then Inl ErrInvalidInput
     else let compression = or_default (frag_Compression f) CompressionKindNone
     in if \<not> valid_compression compression then Inl ErrInvalidInput
     else let st = or_default (frag_State f) (initial_fragment_state (frag_Direction f))
     in if \<not> valid_fragment_state st then Inl ErrInvalidInput
     else if st = FragmentStateClaimed \<and>
          incomplete_lease (frag_Direction f) (frag_LeaseToken f) (frag_LeaseExpiresAt f)
        then Inl ErrInvalidInput
     else let created = or_time (frag_CreatedAt f) now
     in Inr (f\<lparr>
          frag_Compression := compression,
          frag_State := st,
          frag_LeaseToken := if_claimed st (frag_LeaseToken f) [],
          frag_LeaseExpiresAt := if_claimed st (frag_LeaseExpiresAt f) zero_time,
          frag_CreatedAt := created,
          frag_AvailableAt := or_time (frag_AvailableAt f) created\<rparr>))"

definition normalize_cursor :: "cursor \<Rightarrow> time \<Rightarrow> error + cursor" where
  [normalize_defs]: "normalize_cursor c0 now =
    (let c = c0\<lparr>
       cur_PeerID := trim_space (cur_PeerID c0),
       cur_LinkID := trim_space (cur_LinkID c0)\<rparr>
     in if cur_PeerID c = [] \<or> cur_LinkID c = [] then Inl ErrInvalidInput
     else if cur_LastReceivedCursor c < cur_LastInboundCursor c then Inl ErrInvalidInput
     else Inr (c\<lparr>cur_UpdatedAt := or_time (cur_UpdatedAt c) now\<rparr>))"

subsection \<open>Normalised values\<close>

text \<open>
  A value is stable when normalising it changes nothing. The test at one non-zero clock
  reading decides it for every reading, because a zero creation time would be replaced.
\<close>

definition peer_stable :: "peer \<Rightarrow> bool" where
  "peer_stable p \<longleftrightarrow> normalize_peer p 1 = Inr p"

definition link_stable :: "link \<Rightarrow> bool" where
  "link_stable l \<longleftrightarrow> normalize_link l 1 = Inr l"

definition bundle_stable :: "fed_bundle \<Rightarrow> bool" where
  "bundle_stable b \<longleftrightarrow> normalize_bundle b 1 = Inr b"

definition fragment_stable :: "fragment \<Rightarrow> bool" where
  "fragment_stable f \<longleftrightarrow> normalize_fragment f 1 = Inr f"

definition cursor_stable :: "cursor \<Rightarrow> bool" where
  "cursor_stable c \<longleftrightarrow> normalize_cursor c 1 = Inr c"

lemma or_time_eq_zero [simp]: "or_time t d = 0 \<longleftrightarrow> t = 0 \<and> d = 0"
  by (simp add: or_time_def)

lemma or_time_or_time [simp]: "or_time (or_time t d) e = (if t = 0 \<and> d = 0 then e else or_time t d)"
  by (simp add: or_time_def)

lemma or_default_Nil [simp]: "or_default [] d = d"
  by (simp add: or_default_def)

lemma or_default_nonempty [simp]: "s \<noteq> [] \<Longrightarrow> or_default s d = s"
  by (simp add: or_default_def)

lemma or_default_idem [simp]: "d \<noteq> [] \<Longrightarrow> or_default (or_default s d) e = or_default s d"
  by (simp add: or_default_def)

lemma or_version_idem [simp]: "or_version (or_version v) = or_version v"
  by (simp add: or_version_def)

lemma or_default_eq_Nil [simp]: "or_default s d = [] \<longleftrightarrow> s = [] \<and> d = []"
  by (simp add: or_default_def)

lemma trim_space_or_default [simp]:
  "trim_space (or_default (trim_space s) (trim_space d)) = or_default (trim_space s) (trim_space d)"
  by (simp add: or_default_def)

lemma norm_name_or_default [simp]:
  "norm_name d = d \<Longrightarrow> norm_name (or_default (norm_name s) d) = or_default (norm_name s) d"
  by (simp add: or_default_def)

lemma initial_states_nonempty [simp]:
  "initial_bundle_state d \<noteq> []" "initial_fragment_state d \<noteq> []" "default_media_policy c \<noteq> []"
  by (simp_all add: initial_bundle_state_def initial_fragment_state_def default_media_policy_def)

lemma if_claimed_idem [simp]: "if_claimed st (if_claimed st x d) d = if_claimed st x d"
  by (simp add: if_claimed_def)

lemma trim_space_if_claimed [simp]:
  "trim_space (if_claimed st (trim_space s) []) = if_claimed st (trim_space s) []"
  by (simp add: if_claimed_def)

lemma incomplete_lease_if_claimed:
  "st = FragmentStateClaimed \<Longrightarrow>
   incomplete_lease d (if_claimed st t []) (if_claimed st e 0) = incomplete_lease d t e"
  by (simp add: if_claimed_def)

lemma if_claimed_claimed [simp]: "if_claimed FragmentStateClaimed x d = x"
  by (simp add: if_claimed_def)

lemma peer_state_switch_idem:
  "peer_state_switch t st = Some (t', st') \<Longrightarrow> peer_state_switch t' st' = Some (t', st')"
  by (auto simp: peer_state_switch_def split: if_splits)

lemma normalize_peer_idem:
  assumes "normalize_peer p now = Inr q" "now \<noteq> 0"
  shows "normalize_peer q now' = Inr q"
proof -
  from assms(1) obtain t st where
    sw: "peer_state_switch (peer_Trusted p) (peer_State p) = Some (t, st)"
    unfolding normalize_peer_def Let_def io_inv by auto
  note peer_state_switch_idem [OF sw]
  with assms sw show ?thesis
    unfolding normalize_peer_def Let_def io_inv by clarsimp
qed

lemma peer_stableI: "normalize_peer p now = Inr q \<Longrightarrow> now \<noteq> 0 \<Longrightarrow> peer_stable q"
  unfolding peer_stable_def by (rule normalize_peer_idem)

text \<open>Settled: stable at some clock reading, the zero time included.\<close>

definition peer_settled :: "peer \<Rightarrow> bool" where
  "peer_settled p \<longleftrightarrow> (\<exists>now. normalize_peer p now = Inr p)"

definition cursor_settled :: "cursor \<Rightarrow> bool" where
  "cursor_settled c \<longleftrightarrow> (\<exists>now. normalize_cursor c now = Inr c)"

lemma peer_settledI:
  assumes "normalize_peer p now = Inr q"
  shows "peer_settled q"
proof -
  from assms obtain t st where
    sw: "peer_state_switch (peer_Trusted p) (peer_State p) = Some (t, st)"
    unfolding normalize_peer_def Let_def io_inv by auto
  note peer_state_switch_idem [OF sw]
  with assms sw have "normalize_peer q now = Inr q"
    unfolding normalize_peer_def Let_def io_inv by clarsimp
  then show ?thesis by (auto simp: peer_settled_def)
qed

lemma cursor_settledI:
  assumes "normalize_cursor c now = Inr d"
  shows "cursor_settled d"
proof -
  have "normalize_cursor d now = Inr d"
    using assms unfolding normalize_cursor_def Let_def io_inv by clarsimp
  then show ?thesis by (auto simp: cursor_settled_def)
qed

text \<open>The trust flag follows the state: an active peer is trusted, a revoked one is not.\<close>

lemma normalize_peer_switch:
  "normalize_peer p now = Inr q \<Longrightarrow>
   peer_state_switch (peer_Trusted p) (peer_State p) = Some (peer_Trusted q, peer_State q)"
  unfolding normalize_peer_def Let_def io_inv by clarsimp

lemma peer_settled_trust:
  assumes "peer_settled p"
  shows "peer_State p = PeerStateActive \<longrightarrow> peer_Trusted p"
    and "peer_State p = PeerStateRevoked \<longrightarrow> \<not> peer_Trusted p"
  using assms unfolding peer_settled_def
  by (auto dest!: normalize_peer_switch simp: peer_state_switch_def split: if_splits)

lemma cursor_settled_order: "cursor_settled c \<Longrightarrow> cur_LastInboundCursor c \<le> cur_LastReceivedCursor c"
  unfolding cursor_settled_def normalize_cursor_def Let_def io_inv by (auto simp: not_less)

lemma normalize_bundle_idem:
  assumes "normalize_bundle b now = Inr c" "now \<noteq> 0"
  shows "normalize_bundle c now' = Inr c"
  using assms unfolding normalize_bundle_def Let_def io_inv
  by clarsimp

lemma bundle_stableI: "normalize_bundle b now = Inr c \<Longrightarrow> now \<noteq> 0 \<Longrightarrow> bundle_stable c"
  unfolding bundle_stable_def by (rule normalize_bundle_idem)

lemma normalize_fragment_idem:
  assumes "normalize_fragment f now = Inr g" "now \<noteq> 0"
  shows "normalize_fragment g now' = Inr g"
  using assms unfolding normalize_fragment_def Let_def io_inv
  by (clarsimp simp: incomplete_lease_if_claimed)

lemma fragment_stableI: "normalize_fragment f now = Inr g \<Longrightarrow> now \<noteq> 0 \<Longrightarrow> fragment_stable g"
  unfolding fragment_stable_def by (rule normalize_fragment_idem)

lemma normalize_cursor_idem:
  assumes "normalize_cursor c now = Inr d" "now \<noteq> 0"
  shows "normalize_cursor d now' = Inr d"
  using assms unfolding normalize_cursor_def Let_def io_inv
  by clarsimp

lemma cursor_stableI: "normalize_cursor c now = Inr d \<Longrightarrow> now \<noteq> 0 \<Longrightarrow> cursor_stable d"
  unfolding cursor_stable_def by (rule normalize_cursor_idem)

subsection \<open>Policy lists settle after one more pass\<close>

lemma normalized_values_fixed:
  assumes "distinct ys" "\<And>y. y \<in> set ys \<Longrightarrow> P y \<and> norm_name y = y"
  shows "normalized_values P ys = sort ys"
proof (rule normalized_values_unique)
  have "norm_name ` set ys = set ys" using assms(2) by force
  then show "set (sort ys) = {v \<in> norm_name ` set ys. P v}" using assms(2) by auto
qed (use assms(1) in simp_all)

lemma set_sort_empty: "sort ys = [] \<longleftrightarrow> ys = []"
  by (metis set_empty set_sort)

lemma known_values_fixed:
  "list_all (\<lambda>v. norm_name v = v) (conversation_kinds @ event_families @ message_kinds)"
  by (simp add: conversation_kinds_def event_families_def message_kinds_def lower_text_def visible_def)

lemma accepted_values_sort:
  assumes "distinct ys" "set ys \<subseteq> set known" "list_all (\<lambda>v. norm_name v = v) known"
  shows "normalized_values (accepted known) ys = sort ys"
  using assms by (intro normalized_values_fixed) (auto simp: accepted_def list_all_iff)

lemma set_accepted_values: "set (normalized_values (accepted known) xs) \<subseteq> set known"
  by (auto simp: set_normalized_values accepted_def)

lemma defaults_accepted:
  "distinct defaultConversationKinds" "set defaultConversationKinds \<subseteq> set conversation_kinds"
  "distinct (defaultEventFamilies c)" "set (defaultEventFamilies c) \<subseteq> set event_families"
  "distinct (defaultMessageKinds c m)" "set (defaultMessageKinds c m) \<subseteq> set message_kinds"
  "defaultConversationKinds \<noteq> []" "defaultEventFamilies c \<noteq> []" "defaultMessageKinds c m \<noteq> []"
  by (simp_all add: defaultConversationKinds_def conversation_kinds_def defaultEventFamilies_def
      event_families_def defaultMessageKinds_def message_kinds_def)

definition policy_list :: "string list \<Rightarrow> string list \<Rightarrow> bool" where
  "policy_list known ys \<longleftrightarrow> ys \<noteq> [] \<and> distinct ys \<and> set ys \<subseteq> set known"

lemma policy_list_sort [simp]: "policy_list known (sort ys) = policy_list known ys"
  by (simp add: policy_list_def set_sort_empty)

lemma policy_list_normalized:
  "policy_list conversation_kinds (normalizeConversationKinds xs)"
  "policy_list event_families (normalizeEventFamilies xs c)"
  "policy_list message_kinds (normalizeMessageKinds xs c m)"
  using defaults_accepted set_accepted_values
  by (simp_all add: policy_list_def normalizeConversationKinds_def normalizeEventFamilies_def
      normalizeMessageKinds_def Let_def)

lemma policy_list_again:
  "policy_list conversation_kinds ys \<Longrightarrow> normalizeConversationKinds ys = sort ys"
  "policy_list event_families ys \<Longrightarrow> normalizeEventFamilies ys c = sort ys"
  "policy_list message_kinds ys \<Longrightarrow> normalizeMessageKinds ys c m = sort ys"
  using known_values_fixed
  by (simp_all add: policy_list_def normalizeConversationKinds_def normalizeEventFamilies_def
      normalizeMessageKinds_def accepted_values_sort set_sort_empty Let_def)

text \<open>Sorting the policy lists: what the second normalisation does to a default list.\<close>

definition sort_policies :: "link \<Rightarrow> link" where
  "sort_policies l = l\<lparr>
     link_AllowedConversationKinds := sort (link_AllowedConversationKinds l),
     link_AllowedEventFamilies := sort (link_AllowedEventFamilies l),
     link_AllowedMessageKinds := sort (link_AllowedMessageKinds l)\<rparr>"

definition policies_ok :: "link \<Rightarrow> bool" where
  "policies_ok l \<longleftrightarrow>
     policy_list conversation_kinds (link_AllowedConversationKinds l) \<and>
     policy_list event_families (link_AllowedEventFamilies l) \<and>
     policy_list message_kinds (link_AllowedMessageKinds l)"

lemma default_bytes_positive [simp]:
  "0 < default_max_bundle_bytes c" "0 < default_max_fragment_bytes c"
  by (simp_all add: default_max_bundle_bytes_def default_max_fragment_bytes_def)

text \<open>What a link that passed \<open>normalize\<close> once satisfies.\<close>

definition link_valid :: "link \<Rightarrow> bool" where
  "link_valid l \<longleftrightarrow>
     trim_space (link_ID l) = link_ID l \<and> link_ID l \<noteq> [] \<and>
     trim_space (link_PeerID l) = link_PeerID l \<and> link_PeerID l \<noteq> [] \<and>
     norm_name (link_Name l) = link_Name l \<and> link_Name l \<noteq> [] \<and>
     trim_space (link_Endpoint l) = link_Endpoint l \<and>
     trim_space (link_LastError l) = link_LastError l \<and>
     valid_transport (link_TransportKind l) \<and> valid_delivery_class (link_DeliveryClass l) \<and>
     valid_discovery (link_DiscoveryMode l) \<and> valid_media_policy (link_MediaPolicy l) \<and>
     valid_link_state (link_State l) \<and>
     0 < link_MaxFragmentBytes l \<and> link_MaxFragmentBytes l \<le> link_MaxBundleBytes l \<and>
     policies_ok l"

definition link_dated :: "link \<Rightarrow> bool" where
  "link_dated l \<longleftrightarrow> link_CreatedAt l \<noteq> zero_time \<and> link_UpdatedAt l \<noteq> zero_time"

lemma valid_switch_nonempty [dest]:
  "valid_transport k \<Longrightarrow> k \<noteq> []" "valid_delivery_class k \<Longrightarrow> k \<noteq> []" "valid_discovery k \<Longrightarrow> k \<noteq> []"
  "valid_media_policy k \<Longrightarrow> k \<noteq> []" "valid_link_state k \<Longrightarrow> k \<noteq> []"
  by (auto simp: valid_transport_def valid_delivery_class_def valid_discovery_def
      valid_media_policy_def valid_link_state_def)

lemma normalize_link_valid:
  assumes "normalize_link l now = Inr l1"
  shows "link_valid l1"
  using assms unfolding normalize_link_def Let_def io_inv
  by (clarsimp simp: link_valid_def policies_ok_def policy_list_normalized not_le not_less)

lemma normalize_link_dated:
  assumes "normalize_link l now = Inr l1" "now \<noteq> 0"
  shows "link_dated l1"
  using assms unfolding normalize_link_def Let_def io_inv
  by (clarsimp simp: link_dated_def)

lemma normalize_link_again:
  assumes "link_valid l" "link_dated l"
  shows "normalize_link l now = Inr (sort_policies l)"
proof -
  note valid_switch_nonempty [simp]
  from assms show ?thesis
    unfolding link_valid_def policies_ok_def link_dated_def
    by (clarsimp simp: normalize_link_def Let_def sort_policies_def policy_list_again)
qed

lemma link_valid_sort: "link_valid l \<Longrightarrow> link_valid (sort_policies l)"
  by (simp add: link_valid_def sort_policies_def policies_ok_def)

lemma sort_policies_idem [simp]: "sort_policies (sort_policies l) = sort_policies l"
  by (simp add: sort_policies_def sorted_sort_id)

lemma link_dated_sort: "link_dated l \<Longrightarrow> link_dated (sort_policies l)"
  by (simp add: link_dated_def sort_policies_def)

lemma link_stable_sort: "link_valid l \<Longrightarrow> link_dated l \<Longrightarrow> link_stable (sort_policies l)"
  using normalize_link_again [OF link_valid_sort link_dated_sort] by (simp add: link_stable_def)

end
