(* ===== verification/FedStore.thy ===== *)
theory FedStore
  imports FedModels
begin

section \<open>The federation store interface (\<open>store.go\<close>, \<open>params.go\<close>)\<close>

text \<open>
  A Go interface value is a table of methods over a hidden state; the record \<open>store_ops\<close> is
  that table, one field per method of \<open>federation.Store\<close>, over a state type \<open>'s\<close>. The
  service operations take such a table as an argument, as the Go service holds a
  \<open>Store\<close>. \<open>WithinTx\<close> is the combinator \<open>within_tx\<close>: it runs its argument on the state and
  restores the state when it fails.

  The locale \<open>federation_store\<close> states what every implementation promises, in terms of
  the finite maps a client can observe.
\<close>

subsection \<open>Parameters\<close>

record create_peer_params =
  cpp_ServerName :: string
  cpp_BaseURL :: string
  cpp_Capabilities :: "Capability list"
  cpp_Trusted :: bool
  cpp_SharedSecret :: string
  cpp_SigningSecret :: string

record update_peer_params =
  upp_PeerID :: string
  upp_ServerName :: "string option"
  upp_BaseURL :: "string option"
  upp_Capabilities :: "Capability list option"
  upp_Trusted :: "bool option"
  upp_State :: "PeerState option"

record create_link_params =
  clp_PeerID :: string
  clp_Name :: string
  clp_Endpoint :: string
  clp_TransportKind :: TransportKind
  clp_DeliveryClass :: DeliveryClass
  clp_DiscoveryMode :: DiscoveryMode
  clp_MediaPolicy :: MediaPolicy
  clp_MaxBundleBytes :: int
  clp_MaxFragmentBytes :: int
  clp_AllowedConversationKinds :: "FedConversationKind list"
  clp_AllowedEventFamilies :: "EventFamily list"
  clp_AllowedMessageKinds :: "FedMessageKind list"

record update_link_params =
  ulp_LinkID :: string
  ulp_Name :: "string option"
  ulp_Endpoint :: "string option"
  ulp_TransportKind :: "TransportKind option"
  ulp_DeliveryClass :: "DeliveryClass option"
  ulp_DiscoveryMode :: "DiscoveryMode option"
  ulp_MediaPolicy :: "MediaPolicy option"
  ulp_State :: "LinkState option"
  ulp_MaxBundleBytes :: "int option"
  ulp_MaxFragmentBytes :: "int option"
  ulp_AllowedConversationKinds :: "FedConversationKind list option"
  ulp_AllowedEventFamilies :: "EventFamily list option"
  ulp_AllowedMessageKinds :: "FedMessageKind list option"
  ulp_LastHealthyAt :: "time option"
  ulp_LastError :: "string option"

record save_bundle_params =
  sbp_PeerID :: string
  sbp_LinkID :: string
  sbp_DedupKey :: string
  sbp_Direction :: BundleDirection
  sbp_CursorFrom :: uint64
  sbp_CursorTo :: uint64
  sbp_EventCount :: int
  sbp_PayloadType :: string
  sbp_Payload :: bytes
  sbp_Compression :: CompressionKind
  sbp_IntegrityHash :: string
  sbp_AuthTag :: string
  sbp_AvailableAt :: time
  sbp_ExpiresAt :: time

record ack_bundles_params =
  abp_PeerID :: string
  abp_LinkID :: string
  abp_UpToCursor :: uint64
  abp_BundleIDs :: "string list"
  abp_AcknowledgedAt :: time

record save_fragment_params =
  sfp_PeerID :: string
  sfp_LinkID :: string
  sfp_BundleID :: string
  sfp_DedupKey :: string
  sfp_Direction :: BundleDirection
  sfp_CursorFrom :: uint64
  sfp_CursorTo :: uint64
  sfp_EventCount :: int
  sfp_PayloadType :: string
  sfp_Compression :: CompressionKind
  sfp_IntegrityHash :: string
  sfp_AuthTag :: string
  sfp_FragmentIndex :: int
  sfp_FragmentCount :: int
  sfp_Payload :: bytes
  sfp_AvailableAt :: time

record claim_fragments_params =
  cfp_PeerID :: string
  cfp_LinkID :: string
  cfp_Limit :: int
  cfp_ClaimedAt :: time
  cfp_LeaseToken :: string
  cfp_LeaseExpiresAt :: time

record ack_fragments_params =
  afp_PeerID :: string
  afp_LinkID :: string
  afp_FragmentIDs :: "string list"
  afp_LeaseToken :: string
  afp_AcknowledgedAt :: time

subsection \<open>The method table\<close>

record 's store_ops =
  st_SavePeer :: "peer \<Rightarrow> ('s, peer) io"
  st_PeerByID :: "string \<Rightarrow> ('s, peer) io"
  st_PeerByServerName :: "string \<Rightarrow> ('s, peer) io"
  st_PeersByState :: "PeerState \<Rightarrow> ('s, peer list) io"
  st_SaveLink :: "link \<Rightarrow> ('s, link) io"
  st_LinkByID :: "string \<Rightarrow> ('s, link) io"
  st_LinkByPeerAndName :: "string \<Rightarrow> string \<Rightarrow> ('s, link) io"
  st_Links :: "string \<Rightarrow> LinkState \<Rightarrow> ('s, link list) io"
  st_SaveBundle :: "fed_bundle \<Rightarrow> ('s, fed_bundle) io"
  st_BundleByDedupKey :: "string \<Rightarrow> ('s, fed_bundle) io"
  st_BundlesAfter ::
    "string \<Rightarrow> string \<Rightarrow> BundleDirection \<Rightarrow> uint64 \<Rightarrow> int \<Rightarrow> ('s, fed_bundle list) io"
  st_AcknowledgeBundles :: "ack_bundles_params \<Rightarrow> ('s, fed_bundle list) io"
  st_SaveFragment :: "fragment \<Rightarrow> ('s, fragment) io"
  st_ClaimFragments :: "claim_fragments_params \<Rightarrow> ('s, fragment list) io"
  st_HasClaimableFragments :: "string \<Rightarrow> string \<Rightarrow> time \<Rightarrow> ('s, bool) io"
  st_Fragments :: "string \<Rightarrow> string \<Rightarrow> BundleDirection \<Rightarrow> FragmentState \<Rightarrow> int \<Rightarrow>
    ('s, fragment list) io"
  st_FragmentsByBundle :: "string \<Rightarrow> BundleDirection \<Rightarrow> ('s, fragment list) io"
  st_AcknowledgeFragments :: "ack_fragments_params \<Rightarrow> ('s, fragment list) io"
  st_SaveCursor :: "cursor \<Rightarrow> ('s, cursor) io"
  st_CursorByPeerAndLink :: "string \<Rightarrow> string \<Rightarrow> ('s, cursor) io"

text \<open>A lookup method: the value found, or \<open>ErrNotFound\<close>, and no change of state.\<close>

definition found_or :: "'a option \<Rightarrow> ('s, 'a) io" where
  "found_or x = (case x of None \<Rightarrow> raise ErrNotFound | Some v \<Rightarrow> ret v)"

lemma found_or_run [io_simps]:
  "found_or x s = (case x of None \<Rightarrow> (Inl ErrNotFound, s) | Some v \<Rightarrow> (Inr v, s))"
  by (cases x) (simp_all add: found_or_def)

lemma found_or_Inr [io_inv]: "found_or x s = (Inr v, s') \<longleftrightarrow> x = Some v \<and> s' = s"
  by (auto simp: found_or_run split: option.splits)

lemma found_or_Inl: "found_or x s = (Inl e, s') \<longleftrightarrow> x = None \<and> e = ErrNotFound \<and> s' = s"
  by (auto simp: found_or_run split: option.splits)

subsection \<open>What the writing methods compare and change\<close>

text \<open>
  A bundle saved under a deduplication key that is already known is a replay: it must come
  from the same peer, link and direction and carry the same content.
\<close>

definition same_bundle_owner :: "fed_bundle \<Rightarrow> fed_bundle \<Rightarrow> bool" where
  "same_bundle_owner existing b \<longleftrightarrow>
     bundle_PeerID existing = bundle_PeerID b \<and>
     bundle_LinkID existing = bundle_LinkID b \<and>
     bundle_Direction existing = bundle_Direction b"

definition same_bundle_content :: "fed_bundle \<Rightarrow> fed_bundle \<Rightarrow> bool" where
  "same_bundle_content existing b \<longleftrightarrow>
     bundle_CursorFrom existing = bundle_CursorFrom b \<and>
     bundle_CursorTo existing = bundle_CursorTo b \<and>
     bundle_EventCount existing = bundle_EventCount b \<and>
     bundle_PayloadType existing = bundle_PayloadType b \<and>
     bundle_Compression existing = bundle_Compression b \<and>
     bundle_IntegrityHash existing = bundle_IntegrityHash b \<and>
     bundle_AuthTag existing = bundle_AuthTag b \<and>
     bundle_Payload existing = bundle_Payload b"

text \<open>The bundles \<open>AcknowledgeBundles\<close> updates, and how.\<close>

definition bundle_acked_by :: "ack_bundles_params \<Rightarrow> string \<Rightarrow> fed_bundle \<Rightarrow> bool" where
  "bundle_acked_by p bundleID b \<longleftrightarrow>
     bundle_PeerID b = abp_PeerID p \<and> bundle_LinkID b = abp_LinkID p \<and>
     bundle_Direction b = BundleDirectionOutbound \<and>
     (bundleID \<noteq> [] \<and> bundleID \<in> set (abp_BundleIDs p) \<or> bundle_CursorTo b \<le> abp_UpToCursor p)"

definition ack_bundle :: "time \<Rightarrow> fed_bundle \<Rightarrow> fed_bundle" where
  "ack_bundle at b = b\<lparr>bundle_State := BundleStateAcknowledged, bundle_AckedAt := at\<rparr>"

text \<open>A failed or assembled fragment.\<close>

definition fragment_terminal :: "fragment \<Rightarrow> bool" where
  "fragment_terminal f \<longleftrightarrow> frag_State f = FragmentStateFailed \<or> frag_State f = FragmentStateAssembled"

subsection \<open>The contract\<close>

text \<open>
  What the service relies on. A client observes a state through four finite maps: peers and
  links by identifier, bundles by deduplication key, and cursors by the cell of their peer
  and link (\<open>cell\<close> is the key the implementation uses). Reading methods do not change the
  state; a writing method that fails does not either, and one that succeeds stores the
  normalised value and touches no other map.
\<close>

locale federation_store =
  fixes S :: "'s store_ops"
    and valid :: "'s \<Rightarrow> bool"
    and cell :: "string \<Rightarrow> string \<Rightarrow> 'k"
    and peer_at :: "'s \<Rightarrow> string \<Rightarrow> peer option"
    and link_at :: "'s \<Rightarrow> string \<Rightarrow> link option"
    and bundle_at :: "'s \<Rightarrow> string \<Rightarrow> fed_bundle option"
    and cursor_at :: "'s \<Rightarrow> 'k \<Rightarrow> cursor option"
  assumes PeerByID: "st_PeerByID S i s = found_or (peer_at s i) s"
    and LinkByID: "st_LinkByID S i s = found_or (link_at s i) s"
    and BundleByDedupKey: "st_BundleByDedupKey S i s = found_or (bundle_at s i) s"
    and CursorByPeerAndLink: "st_CursorByPeerAndLink S i j s = found_or (cursor_at s (cell i j)) s"
    and PeerByServerName: "st_PeerByServerName S n s = (rp, s') \<Longrightarrow> s' = s \<and>
      (\<forall>p. rp = Inr p \<longrightarrow> valid s \<longrightarrow> peer_ServerName p = n \<and> peer_at s (peer_ID p) = Some p)"
    and PeersByState: "snd (st_PeersByState S i s) = s"
    and LinkByPeerAndName: "st_LinkByPeerAndName S i n s = (rl, s') \<Longrightarrow> s' = s \<and>
      (\<forall>l. rl = Inr l \<longrightarrow> valid s \<longrightarrow> link_at s (link_ID l) = Some l)"
    and Links: "snd (st_Links S i j s) = s"
    and BundlesAfter: "snd (st_BundlesAfter S i j dr after lim s) = s"
    and HasClaimableFragments: "snd (st_HasClaimableFragments S i j t s) = s"
    and Fragments: "snd (st_Fragments S i j dr n lim s) = s"
    and FragmentsByBundle: "st_FragmentsByBundle S i dr s = (rfs, s') \<Longrightarrow> s' = s \<and>
      (\<forall>fs. rfs = Inr fs \<longrightarrow> sorted (List.map frag_FragmentIndex fs) \<and>
         (\<forall>f \<in> set fs. frag_BundleID f = i \<and> frag_Direction f = dr))"
    and SavePeer: "st_SavePeer S p s = (Inr q, s') \<Longrightarrow>
      (\<exists>now. normalize_peer p now = Inr q) \<and> peer_at s' = (peer_at s)(peer_ID q \<mapsto> q) \<and>
      link_at s' = link_at s \<and> bundle_at s' = bundle_at s \<and> cursor_at s' = cursor_at s"
    and SaveLink: "st_SaveLink S l s = (Inr m, s') \<Longrightarrow>
      (\<exists>now. normalize_link l now = Inr m) \<and> link_at s' = (link_at s)(link_ID m \<mapsto> m) \<and>
      peer_at s' = peer_at s \<and> bundle_at s' = bundle_at s \<and> cursor_at s' = cursor_at s"
    and SaveBundle: "st_SaveBundle S b s = (Inr b', s') \<Longrightarrow>
      (\<exists>now nb. normalize_bundle b now = Inr nb \<and>
         (bundle_at s (bundle_DedupKey nb) = Some b' \<and> s' = s \<and>
            same_bundle_owner b' nb \<and> same_bundle_content b' nb \<or>
          bundle_at s (bundle_DedupKey nb) = None \<and> b' = nb \<and>
            bundle_at s' (bundle_DedupKey nb) = Some nb)) \<and>
      peer_at s' = peer_at s \<and> link_at s' = link_at s \<and> cursor_at s' = cursor_at s"
    and AcknowledgeBundles: "st_AcknowledgeBundles S a s = (Inr bs, s') \<Longrightarrow>
      (valid s \<longrightarrow> bundle_at s' = (\<lambda>k. map_option (\<lambda>b. if bundle_acked_by a (bundle_ID b) b
         then ack_bundle (abp_AcknowledgedAt a) b else b) (bundle_at s k))) \<and>
      peer_at s' = peer_at s \<and> link_at s' = link_at s \<and> cursor_at s' = cursor_at s"
    and SaveFragment: "st_SaveFragment S f s = (Inr g, s') \<Longrightarrow> peer_at s' = peer_at s \<and>
      link_at s' = link_at s \<and> bundle_at s' = bundle_at s \<and> cursor_at s' = cursor_at s"
    and ClaimFragments: "st_ClaimFragments S cl s = (Inr fs, s') \<Longrightarrow> peer_at s' = peer_at s \<and>
      link_at s' = link_at s \<and> bundle_at s' = bundle_at s \<and> cursor_at s' = cursor_at s"
    and AcknowledgeFragments: "st_AcknowledgeFragments S af s = (Inr fs, s') \<Longrightarrow>
      peer_at s' = peer_at s \<and> link_at s' = link_at s \<and> bundle_at s' = bundle_at s \<and>
      cursor_at s' = cursor_at s"
    and SaveCursor: "st_SaveCursor S c s = (Inr d, s') \<Longrightarrow>
      (\<exists>now. normalize_cursor c now = Inr d) \<and>
      cursor_at s' = (cursor_at s)(cell (cur_PeerID d) (cur_LinkID d) \<mapsto> d) \<and>
      peer_at s' = peer_at s \<and> link_at s' = link_at s \<and> bundle_at s' = bundle_at s"
    and failed_write: "st_SavePeer S p s = (Inl e, s') \<Longrightarrow> s' = s"
      "st_SaveLink S l s = (Inl e, s') \<Longrightarrow> s' = s"
      "st_SaveBundle S b s = (Inl e, s') \<Longrightarrow> s' = s"
      "st_AcknowledgeBundles S a s = (Inl e, s') \<Longrightarrow> s' = s"
      "st_SaveFragment S f s = (Inl e, s') \<Longrightarrow> s' = s"
      "st_ClaimFragments S cl s = (Inl e, s') \<Longrightarrow> s' = s"
      "st_AcknowledgeFragments S af s = (Inl e, s') \<Longrightarrow> s' = s"
      "st_SaveCursor S c s = (Inl e, s') \<Longrightarrow> s' = s"
    and valid_write: "valid s \<Longrightarrow> st_SavePeer S p s = (rp, s') \<Longrightarrow> valid s'"
      "valid s \<Longrightarrow> st_SaveLink S l s = (rl, s') \<Longrightarrow> valid s'"
      "valid s \<Longrightarrow> st_SaveBundle S b s = (rb, s') \<Longrightarrow> valid s'"
      "valid s \<Longrightarrow> st_AcknowledgeBundles S a s = (rbs, s') \<Longrightarrow> valid s'"
      "valid s \<Longrightarrow> st_SaveFragment S f s = (rf, s') \<Longrightarrow> valid s'"
      "valid s \<Longrightarrow> st_ClaimFragments S cl s = (rfs, s') \<Longrightarrow> valid s'"
      "valid s \<Longrightarrow> st_AcknowledgeFragments S af s = (rfs, s') \<Longrightarrow> valid s'"
      "valid s \<Longrightarrow> st_SaveCursor S c s = (rc, s') \<Longrightarrow> valid s'"
    and valid_peer: "valid s \<Longrightarrow> peer_at s i = Some p \<Longrightarrow> peer_ID p = i \<and> peer_settled p"
    and valid_link: "valid s \<Longrightarrow> link_at s i = Some l \<Longrightarrow> link_ID l = i \<and> link_valid l"
    and valid_cursor: "valid s \<Longrightarrow> cursor_at s key = Some c \<Longrightarrow>
      cell (cur_PeerID c) (cur_LinkID c) = key \<and> cursor_settled c"
begin

lemma saved_peer_found:
  "st_SavePeer S p s = (Inr q, s') \<Longrightarrow> st_PeerByID S (peer_ID q) s' = (Inr q, s')"
  by (simp add: PeerByID found_or_run SavePeer)

lemma saved_link_found:
  "st_SaveLink S l s = (Inr k, s') \<Longrightarrow> st_LinkByID S (link_ID k) s' = (Inr k, s')"
  by (simp add: LinkByID found_or_run SaveLink)

lemma saved_cursor_found:
  "st_SaveCursor S c s = (Inr d, s') \<Longrightarrow>
   st_CursorByPeerAndLink S (cur_PeerID d) (cur_LinkID d) s' = (Inr d, s')"
  by (simp add: CursorByPeerAndLink found_or_run SaveCursor)

text \<open>A failed method leaves the store as it was, whichever method it is.\<close>

lemma failed_save_cursor_unchanged: "st_SaveCursor S c s = (Inl e, s') \<Longrightarrow> s' = s"
  by (rule failed_write)

end

end
