(* ===== verification/FedSecurity.thy ===== *)
theory FedSecurity
  imports FedModels
begin

section \<open>Signing and verifying bundles (\<open>internal/domain/federation/security.go\<close>)\<close>

text \<open>
  The integrity hash of a payload, the authentication tag over the signed fields, and the
  two functions that apply and check them. SHA-256 and HMAC are the executable definitions
  of \<open>GoCrypto\<close>; no property below assumes anything about them beyond being functions, so
  none claims that tags cannot be forged. The constant-time comparison is equality.
\<close>

definition payloadIntegrityHash :: "bytes \<Rightarrow> string" where
  "payloadIntegrityHash payload = hex_encode (sha256 payload)"

definition writeSignedField :: "string \<Rightarrow> bytes \<Rightarrow> bytes" where
  "writeSignedField value mac = mac @ value @ [CHR 0x0A]"

text \<open>What the tag authenticates, in the order in which it is written.\<close>

definition signed_fields :: "peer \<Rightarrow> link \<Rightarrow> fed_bundle \<Rightarrow> string \<Rightarrow> string list" where
  "signed_fields p l b integrityHash =
     [norm_name (peer_ServerName p), norm_name (link_Name l),
      format_uint (bundle_CursorFrom b), format_uint (bundle_CursorTo b),
      itoa (bundle_EventCount b), norm_name (bundle_PayloadType b),
      norm_name (bundle_Compression b), norm_name integrityHash]"

definition bundleAuthTag :: "string \<Rightarrow> peer \<Rightarrow> link \<Rightarrow> fed_bundle \<Rightarrow> string \<Rightarrow> string" where
  "bundleAuthTag secret p l b integrityHash =
     hex_encode (hmac_sha256 (trim_space secret)
       (fold writeSignedField (signed_fields p l b integrityHash) []))"

definition signBundle :: "peer \<Rightarrow> link \<Rightarrow> fed_bundle \<Rightarrow> fed_bundle" where
  "signBundle p l b0 =
     (let b = b0\<lparr>bundle_IntegrityHash := payloadIntegrityHash (bundle_Payload b0)\<rparr>
      in b\<lparr>bundle_AuthTag := bundleAuthTag (peer_SigningSecret p) p l b (bundle_IntegrityHash b)\<rparr>)"

definition verifyBundle :: "peer \<Rightarrow> link \<Rightarrow> fed_bundle \<Rightarrow> error + unit" where
  "verifyBundle p l b =
     (let expectedIntegrity = payloadIntegrityHash (bundle_Payload b) in
      if expectedIntegrity \<noteq> norm_name (bundle_IntegrityHash b) then Inl ErrUnauthorized
      else if bundleAuthTag (peer_SigningSecret p) p l b expectedIntegrity =
           norm_name (bundle_AuthTag b) then Inr ()
      else if trim_space (peer_PreviousSigningSecret p) = [] then Inl ErrUnauthorized
      else if bundleAuthTag (peer_PreviousSigningSecret p) p l b expectedIntegrity \<noteq>
           norm_name (bundle_AuthTag b) then Inl ErrUnauthorized
      else Inr ())"

subsection \<open>What verification accepts\<close>

lemma payloadIntegrityHash_norm [simp]:
  "norm_name (payloadIntegrityHash m) = payloadIntegrityHash m"
  by (simp add: payloadIntegrityHash_def)

lemma bundleAuthTag_norm [simp]: "norm_name (bundleAuthTag s p l b h) = bundleAuthTag s p l b h"
  by (simp add: bundleAuthTag_def)

lemma bundleAuthTag_nonempty [simp]: "bundleAuthTag s p l b h \<noteq> []"
proof -
  have "hex_encode m \<noteq> []" if "m \<noteq> []" for m
    using that by (metis length_0_conv length_hex_encode mult_eq_0_iff zero_neq_numeral)
  then show ?thesis by (simp add: bundleAuthTag_def)
qed

lemma payloadIntegrityHash_nonempty [simp]: "payloadIntegrityHash m \<noteq> []"
  by (metis secretHash_def secretHash_nonempty payloadIntegrityHash_def)

lemma verifyBundle_errors: "verifyBundle p l b = Inl e \<Longrightarrow> e = ErrUnauthorized"
  by (auto simp: verifyBundle_def Let_def split: if_splits)


text \<open>The tag reads the bundle's cursors, counts and types, nothing else.\<close>

definition same_signed :: "fed_bundle \<Rightarrow> fed_bundle \<Rightarrow> bool" where
  "same_signed b c \<longleftrightarrow>
     bundle_CursorFrom b = bundle_CursorFrom c \<and> bundle_CursorTo b = bundle_CursorTo c \<and>
     bundle_EventCount b = bundle_EventCount c \<and>
     norm_name (bundle_PayloadType b) = norm_name (bundle_PayloadType c) \<and>
     norm_name (bundle_Compression b) = norm_name (bundle_Compression c)"

lemma bundleAuthTag_same: "same_signed b c \<Longrightarrow> bundleAuthTag s p l b h = bundleAuthTag s p l c h"
  by (simp add: bundleAuthTag_def signed_fields_def same_signed_def)

lemma bundleAuthTag_peer:
  "norm_name (peer_ServerName p) = norm_name (peer_ServerName q) \<Longrightarrow>
   norm_name (link_Name l) = norm_name (link_Name k) \<Longrightarrow>
   bundleAuthTag s p l b h = bundleAuthTag s q k b h"
  by (simp add: bundleAuthTag_def signed_fields_def)

lemma signBundle_simps [simp]:
  "bundle_IntegrityHash (signBundle p l b) = payloadIntegrityHash (bundle_Payload b)"
  "bundle_AuthTag (signBundle p l b) =
     bundleAuthTag (peer_SigningSecret p) p l b (payloadIntegrityHash (bundle_Payload b))"
  "bundle_Payload (signBundle p l b) = bundle_Payload b"
  "bundle_ID (signBundle p l b) = bundle_ID b"
  "bundle_PeerID (signBundle p l b) = bundle_PeerID b"
  "bundle_LinkID (signBundle p l b) = bundle_LinkID b"
  "bundle_DedupKey (signBundle p l b) = bundle_DedupKey b"
  "bundle_Direction (signBundle p l b) = bundle_Direction b"
  "bundle_CursorFrom (signBundle p l b) = bundle_CursorFrom b"
  "bundle_CursorTo (signBundle p l b) = bundle_CursorTo b"
  "bundle_EventCount (signBundle p l b) = bundle_EventCount b"
  "bundle_PayloadType (signBundle p l b) = bundle_PayloadType b"
  "bundle_Compression (signBundle p l b) = bundle_Compression b"
  by (simp_all add: signBundle_def Let_def bundleAuthTag_same same_signed_def bundleAuthTag_def
      signed_fields_def)

text \<open>
  The far side of a link knows the sender as another peer record; what must agree is the
  server name, the link name and the secret.
\<close>

lemma verify_signed:
  assumes "norm_name (peer_ServerName p) = norm_name (peer_ServerName q)"
    and "norm_name (link_Name l) = norm_name (link_Name k)"
    and "bundle_Payload c = bundle_Payload b" "same_signed b c"
    and "norm_name (bundle_IntegrityHash c) = bundle_IntegrityHash (signBundle p l b)"
    and "norm_name (bundle_AuthTag c) = bundle_AuthTag (signBundle p l b)"
    and "peer_SigningSecret q = peer_SigningSecret p \<or>
      peer_PreviousSigningSecret q = peer_SigningSecret p \<and> trim_space (peer_SigningSecret p) \<noteq> []"
  shows "verifyBundle q k c = Inr ()"
proof -
  have "bundleAuthTag (peer_SigningSecret p) p l b (payloadIntegrityHash (bundle_Payload b)) =
      bundleAuthTag (peer_SigningSecret p) q k c (payloadIntegrityHash (bundle_Payload c))"
    using bundleAuthTag_peer [OF assms(1,2)] bundleAuthTag_same [OF assms(4)] assms(3) by metis
  with assms(3,5,6,7) show ?thesis by (auto simp: verifyBundle_def Let_def)
qed

text \<open>a bundle that one side signs is accepted by the other side, which holds its own
  records of the same server name, link name and signing secret, also after the bundle was
  stored under other identifiers, with the white space and letter case of its hashes changed,
  and with any unsigned field replaced.\<close>

theorem verify_accepts_signed:
  assumes "norm_name (peer_ServerName q) = norm_name (peer_ServerName p)"
    and "norm_name (link_Name k) = norm_name (link_Name l)"
    and "peer_SigningSecret q = peer_SigningSecret p"
    and "bundle_Payload c = bundle_Payload b" "same_signed b c"
    and "norm_name (bundle_IntegrityHash c) = bundle_IntegrityHash (signBundle p l b)"
    and "norm_name (bundle_AuthTag c) = bundle_AuthTag (signBundle p l b)"
  shows "verifyBundle q k c = Inr ()"
  by (rule verify_signed [where p = p and l = l and b = b]) (use assms in simp_all)

text \<open>A record of the far side for the sample values.\<close>

definition far_peer :: "peer \<Rightarrow> peer" where
  "far_peer p = p\<lparr>peer_ID := ''p9'', peer_BaseURL := ''https://a''\<rparr>"

lemma verify_accepts_signed_witness:
  fixes p :: peer and l :: link and b :: fed_bundle
  shows "\<forall>p l b. verifyBundle (far_peer p) l ((signBundle p l b)\<lparr>bundle_ID := ''x''\<rparr>) = Inr ()"
proof (intro allI)
  fix p :: peer and l :: link and b :: fed_bundle
  show "verifyBundle (far_peer p) l ((signBundle p l b)\<lparr>bundle_ID := ''x''\<rparr>) = Inr ()"
    by (rule verify_accepts_signed [where p = p and l = l and b = b])
      (simp_all add: far_peer_def same_signed_def)
qed

text \<open>Key rotation leaves one generation of grace: after the signing secret of a peer was
  replaced and the old one kept as the previous secret, bundles signed with the old secret
  still verify.\<close>

theorem verify_accepts_previous_key:
  assumes "trim_space (peer_SigningSecret p) \<noteq> []"
  shows "verifyBundle (p\<lparr>peer_PreviousSigningSecret := peer_SigningSecret p,
      peer_SigningSecret := fresh\<rparr>) l (signBundle p l b) = Inr ()"
  by (rule verify_signed [where p = p and l = l and b = b])
    (use assms in \<open>simp_all add: same_signed_def\<close>)

lemma verify_accepts_previous_key_witness:
  "\<forall>p l b. verifyBundle (p\<lparr>peer_PreviousSigningSecret := ''old'', peer_SigningSecret := ''new''\<rparr>) l
     (signBundle (p\<lparr>peer_SigningSecret := ''old''\<rparr>) l b) = Inr ()"
proof (intro allI)
  fix p :: peer and l :: link and b :: fed_bundle
  have "trim_space (peer_SigningSecret (p\<lparr>peer_SigningSecret := ''old''\<rparr>)) \<noteq> []"
    by (simp add: visible_def)
  from verify_accepts_previous_key [OF this, of "''new''" l b]
  show "verifyBundle (p\<lparr>peer_PreviousSigningSecret := ''old'', peer_SigningSecret := ''new''\<rparr>) l
     (signBundle (p\<lparr>peer_SigningSecret := ''old''\<rparr>) l b) = Inr ()"
    by simp
qed

subsection \<open>The signed fields are unambiguous\<close>

lemma fold_signed_fields:
  "fold writeSignedField vs mac = mac @ concat (List.map (\<lambda>v. v @ [CHR 0x0A]) vs)"
  by (induction vs arbitrary: mac) (simp_all add: writeSignedField_def)

definition one_line :: "string \<Rightarrow> bool" where
  "one_line v \<longleftrightarrow> CHR 0x0A \<notin> set v"

lemma line_split:
  assumes "n \<notin> set x" "n \<notin> set y" "x @ n # r = y @ n # t"
  shows "x = y \<and> r = t"
  using assms
proof (induction x arbitrary: y)
  case Nil
  then show ?case by (cases y) auto
next
  case (Cons a x)
  then show ?case by (cases y) auto
qed

lemma lines_inject:
  assumes "list_all one_line xs" "list_all one_line ys" "length xs = length ys"
    and "concat (List.map (\<lambda>v. v @ [CHR 0x0A]) xs) = concat (List.map (\<lambda>v. v @ [CHR 0x0A]) ys)"
  shows "xs = ys"
  using assms(3,1,2,4)
proof (induction xs ys rule: list_induct2)
  case (Cons x xs y ys)
  from Cons.prems have "x = y \<and> concat (List.map (\<lambda>v. v @ [CHR 0x0A]) xs) =
      concat (List.map (\<lambda>v. v @ [CHR 0x0A]) ys)"
    by (intro line_split) (auto simp: one_line_def)
  with Cons show ?case by simp
qed simp

lemma visible_one_line: "list_all visible v \<Longrightarrow> one_line v"
  by (auto simp: one_line_def list_all_iff visible_def)

lemma decimal_visible: "list_all visible (decimal_digits n)"
  using decimal_digits_digit digit_visible by (metis list_all_iff)

lemma number_one_line [simp]: "one_line (format_uint w)" "one_line (itoa n)"
  using decimal_visible by (simp_all add: format_uint_def itoa_def visible_one_line visible_def)

lemma hash_one_line [simp]: "one_line (payloadIntegrityHash m)"
  by (simp add: payloadIntegrityHash_def visible_one_line)

lemma format_uint_inject [simp]: "format_uint v = format_uint w \<longleftrightarrow> v = w"
  by (simp add: format_uint_def word_unat_eq_iff)

lemma decimal_no_sign: "decimal_digits n = CHR ''-'' # v \<Longrightarrow> False"
  using decimal_digits_digit [of n] by (simp add: digit_def)

lemma itoa_inject [simp]: "itoa m = itoa n \<longleftrightarrow> m = n"
  by (auto simp: itoa_def dest: decimal_no_sign decimal_no_sign [OF sym])

text \<open>The names and types that enter a tag, as the normalised records hold them.\<close>

definition one_line_names :: "peer \<Rightarrow> link \<Rightarrow> fed_bundle \<Rightarrow> bool" where
  "one_line_names p l b \<longleftrightarrow> one_line (norm_name (peer_ServerName p)) \<and>
     one_line (norm_name (link_Name l)) \<and> one_line (norm_name (bundle_PayloadType b)) \<and>
     one_line (norm_name (bundle_Compression b))"

lemma signed_message_inject:
  assumes "one_line_names p l b" "one_line_names q k c"
    and "fold writeSignedField (signed_fields p l b (payloadIntegrityHash m)) [] =
      fold writeSignedField (signed_fields q k c (payloadIntegrityHash n)) []"
  shows "signed_fields p l b (payloadIntegrityHash m) = signed_fields q k c (payloadIntegrityHash n)"
  using assms unfolding fold_signed_fields
  by (intro lines_inject) (simp_all add: signed_fields_def one_line_names_def)

text \<open>the message under the tag determines what was signed: when no name or type holds a
  line break, two bundles with the same message agree on server name, link name, cursors, event
  count, payload type, compression and integrity hash.\<close>

theorem signed_message_determines_fields:
  assumes "one_line_names p l b" "one_line_names q k c"
    and "fold writeSignedField (signed_fields p l b (payloadIntegrityHash m)) [] =
      fold writeSignedField (signed_fields q k c (payloadIntegrityHash n)) []"
  shows "norm_name (peer_ServerName p) = norm_name (peer_ServerName q) \<and>
    norm_name (link_Name l) = norm_name (link_Name k) \<and>
    same_signed b c \<and> payloadIntegrityHash m = payloadIntegrityHash n"
  using signed_message_inject [OF assms] by (simp add: signed_fields_def same_signed_def)

lemma signed_message_determines_fields_witness:
  "\<forall>b. same_signed (b\<lparr>bundle_PayloadType := ''json'', bundle_Compression := ''none''\<rparr>)
     (b\<lparr>bundle_PayloadType := ''json'', bundle_Compression := ''none'', bundle_ID := ''z''\<rparr>)"
proof (intro allI)
  fix b :: fed_bundle
  fix p :: peer and l :: link
  let ?b = "b\<lparr>bundle_PayloadType := ''json'', bundle_Compression := ''none''\<rparr>"
  let ?p = "p\<lparr>peer_ServerName := ''a''\<rparr>"
  let ?l = "l\<lparr>link_Name := ''b''\<rparr>"
  have "one_line_names ?p ?l ?b" "one_line_names ?p ?l (?b\<lparr>bundle_ID := ''z''\<rparr>)"
    by (simp_all add: one_line_names_def one_line_def lower_text_def visible_def)
  from signed_message_determines_fields [OF this, of "[]" "[]"]
  show "same_signed ?b (?b\<lparr>bundle_ID := ''z''\<rparr>)" by (simp add: signed_fields_def)
qed

text \<open>C6: a line break in a name makes the message ambiguous: a bundle signed for the link
  named \<open>b\<close> of the server named \<open>a NL x\<close> carries the tag of the link named \<open>x NL b\<close> of the
  server named \<open>a\<close>, under any secret.\<close>

theorem line_break_makes_tag_ambiguous:
  "bundleAuthTag secret (p\<lparr>peer_ServerName := [CHR ''a'', CHR 0x0A, CHR ''x'']\<rparr>)
     (l\<lparr>link_Name := ''b''\<rparr>) b h =
   bundleAuthTag secret (p\<lparr>peer_ServerName := ''a''\<rparr>)
     (l\<lparr>link_Name := [CHR ''x'', CHR 0x0A, CHR ''b'']\<rparr>) b h"
proof -
  have norm: "norm_name [a, CHR 0x0A, b] = [a, CHR 0x0A, b]" if "lower_text [a, b]" "visible a" "visible b" for a b
    using that trim_space_visible [of "[a, CHR 0x0A, b]"]
    by (simp add: norm_name_def lower_text_def)
  show ?thesis
    by (simp add: bundleAuthTag_def signed_fields_def writeSignedField_def norm lower_text_def visible_def)
qed

end
