(* ===== verification/GoEffects.thy ===== *)
theory GoEffects
  imports GoPrelude
begin

section \<open>Relations that a computation keeps\<close>

text \<open>
  \<open>keeps R m\<close> says that every run of \<open>m\<close>, whether it returns a result or an error, ends
  in a state that \<open>R\<close> relates to the one it started from. For a reflexive and transitive \<open>R\<close>
  the combinators of the model pass the property on, so that an operation keeps \<open>R\<close> as
  soon as the few steps that write do. The rules are collected in \<open>keeps_rules\<close>.
\<close>

named_theorems keeps_rules \<open>introduction rules for keeps\<close>

definition keeps :: "('s \<Rightarrow> 's \<Rightarrow> bool) \<Rightarrow> ('s, 'a) io \<Rightarrow> bool" where
  "keeps R m \<longleftrightarrow> (\<forall>s r s'. m s = (r, s') \<longrightarrow> R s s')"

definition preorder_on_states :: "('s \<Rightarrow> 's \<Rightarrow> bool) \<Rightarrow> bool" where
  "preorder_on_states R \<longleftrightarrow> (\<forall>s. R s s) \<and> (\<forall>s t u. R s t \<longrightarrow> R t u \<longrightarrow> R s u)"

lemma keepsI: "(\<And>s r s'. m s = (r, s') \<Longrightarrow> R s s') \<Longrightarrow> keeps R m"
  by (simp add: keeps_def)

lemma keepsD: "keeps R m \<Longrightarrow> m s = (r, s') \<Longrightarrow> R s s'"
  by (simp add: keeps_def)

lemma keeps_pure [keeps_rules]:
  assumes "preorder_on_states R"
  shows "keeps R (ret x)" "keeps R (raise e)" "keeps R (of_result r)"
    "keeps R (reject_if c e)"
  using assms by (auto simp: keeps_def preorder_on_states_def split: if_splits)

lemma keeps_andThen [keeps_rules]:
  assumes "preorder_on_states R" "keeps R m"
    and "\<And>x. (\<exists>s s1. m s = (Inr x, s1)) \<Longrightarrow> keeps R (f x)"
  shows "keeps R (andThen m f)"
proof (rule keepsI)
  fix s r s'
  assume run: "andThen m f s = (r, s')"
  obtain r1 s1 where m: "m s = (r1, s1)" by fastforce
  with assms(2) have R1: "R s s1" by (rule keepsD)
  show "R s s'"
  proof (cases r1)
    case (Inl e)
    with run m R1 show ?thesis by (simp add: andThen_run)
  next
    case (Inr x)
    with run m have "f x s1 = (r, s')" by (simp add: andThen_run)
    moreover have "keeps R (f x)" using m Inr by (intro assms(3)) blast
    ultimately have "R s1 s'" using keepsD by metis
    with R1 assms(1) show ?thesis unfolding preorder_on_states_def by blast
  qed
qed

lemma keeps_wrapping [keeps_rules]: "keeps R m \<Longrightarrow> keeps R (wrapping p m)"
  by (auto simp: keeps_def wrapping_def split: prod.splits sum.splits)

lemma keeps_attempt [keeps_rules]: "keeps R m \<Longrightarrow> keeps R (attempt m)"
  by (auto simp: keeps_def attempt_def split: prod.splits)

lemma keeps_within_tx [keeps_rules]:
  "preorder_on_states R \<Longrightarrow> keeps R m \<Longrightarrow> keeps R (within_tx m)"
  by (auto simp: keeps_def within_tx_def preorder_on_states_def split: prod.splits sum.splits)

lemma keeps_for_each [keeps_rules]:
  assumes "preorder_on_states R" "\<And>x. keeps R (f x)"
  shows "keeps R (for_each f xs)"
  using assms by (induction xs) (auto intro!: keeps_andThen keeps_pure)

lemma keeps_if [keeps_rules]:
  "keeps R m \<Longrightarrow> keeps R n \<Longrightarrow> keeps R (if c then m else n)"
  by simp

lemma keeps_case_sum [keeps_rules]:
  "(\<And>e. keeps R (f e)) \<Longrightarrow> (\<And>x. keeps R (g x)) \<Longrightarrow>
   keeps R (case r of Inl e \<Rightarrow> f e | Inr x \<Rightarrow> g x)"
  by (cases r) simp_all

lemma keeps_case_option [keeps_rules]:
  "keeps R m \<Longrightarrow> (\<And>x. keeps R (f x)) \<Longrightarrow> keeps R (case r of None \<Rightarrow> m | Some x \<Rightarrow> f x)"
  by (cases r) simp_all

lemma keeps_case_prod [keeps_rules]:
  "(\<And>a b. keeps R (f a b)) \<Longrightarrow> keeps R (case p of (a, b) \<Rightarrow> f a b)"
  by (cases p) simp

lemma keeps_Let [keeps_rules]:
  "(\<And>x. keeps R (f x)) \<Longrightarrow> keeps R (let x = v in f x)"
  by simp

text \<open>A successful transaction is a success of its body; a failed one changes nothing.\<close>

lemma within_tx_failed: "within_tx m s = (Inl e, s') \<Longrightarrow> s' = s"
  by (simp add: within_tx_Inl)

subsection \<open>Computations that fail cleanly\<close>

text \<open>
  \<open>clean R m\<close> says the same of the failing runs only. A computation fails cleanly when
  everything before its last writing step keeps \<open>R\<close> and that step fails cleanly; a
  transaction always does.
\<close>

named_theorems clean_rules \<open>introduction rules for clean\<close>

definition clean :: "('s \<Rightarrow> 's \<Rightarrow> bool) \<Rightarrow> ('s, 'a) io \<Rightarrow> bool" where
  "clean R m \<longleftrightarrow> (\<forall>s e s'. m s = (Inl e, s') \<longrightarrow> R s s')"

lemma cleanI: "(\<And>s e s'. m s = (Inl e, s') \<Longrightarrow> R s s') \<Longrightarrow> clean R m"
  by (simp add: clean_def)

lemma cleanD: "clean R m \<Longrightarrow> m s = (Inl e, s') \<Longrightarrow> R s s'"
  by (simp add: clean_def)

lemma keeps_clean: "keeps R m \<Longrightarrow> clean R m"
  by (simp add: keeps_def clean_def)

lemma clean_andThen:
  assumes "preorder_on_states R" "keeps R m" "\<And>x. clean R (f x)"
  shows "clean R (andThen m f)"
proof (rule cleanI)
  fix s e s'
  assume "andThen m f s = (Inl e, s')"
  then consider "m s = (Inl e, s')" | x s1 where "m s = (Inr x, s1)" "f x s1 = (Inl e, s')"
    by (auto simp: andThen_Inl)
  then show "R s s'"
  proof cases
    case 1
    with assms(2) show ?thesis by (rule keepsD)
  next
    case (2 x s1)
    have "R s s1" by (rule keepsD [OF assms(2) 2(1)])
    moreover have "R s1 s'" by (rule cleanD [OF assms(3) 2(2)])
    ultimately show ?thesis using assms(1) unfolding preorder_on_states_def by blast
  qed
qed

lemma clean_then_ret:
  "clean R m \<Longrightarrow> clean R (andThen m (\<lambda>x. ret (g x)))"
  by (auto simp: clean_def andThen_Inl)

lemma clean_then_ret_pair:
  "clean R m \<Longrightarrow> clean R (andThen m (\<lambda>(x, y). ret (g x y)))"
  by (auto simp: clean_def andThen_Inl split: prod.splits)

lemma clean_wrapping [clean_rules]: "clean R m \<Longrightarrow> clean R (wrapping p m)"
  by (auto simp: clean_def wrapping_Inl)

lemma clean_within_tx [clean_rules]: "preorder_on_states R \<Longrightarrow> clean R (within_tx m)"
  by (auto simp: clean_def within_tx_Inl preorder_on_states_def)

lemma clean_if [clean_rules]: "clean R m \<Longrightarrow> clean R n \<Longrightarrow> clean R (if c then m else n)"
  by simp

lemma clean_pure [clean_rules]: "preorder_on_states R \<Longrightarrow> clean R (ret x)"
  by (simp add: clean_def preorder_on_states_def)

end
