(* ===== verification/GoWorld.thy ===== *)
theory GoWorld
  imports GoStrings GoEffects
begin

section \<open>The world an operation runs in\<close>

text \<open>
  A service operation runs in a world of two parts: the state of its store and the bytes that
  the system's random source will still deliver. Each domain package has its own copy of the
  token functions (\<open>id.go\<close>); they differ in the sentinel error only, which is an argument
  here.
\<close>

record 's world =
  w_store :: 's
  w_entropy :: bytes

text \<open>A store method as a step of the world.\<close>

definition on_store :: "('s, 'a) io \<Rightarrow> (('s, 'm) world_scheme, 'a) io" where
  "on_store m = (\<lambda>w. case m (w_store w) of (r, s') \<Rightarrow> (r, w\<lparr>w_store := s'\<rparr>))"

lemma on_store_run [io_simps]:
  "on_store m w = (case m (w_store w) of (r, s') \<Rightarrow> (r, w\<lparr>w_store := s'\<rparr>))"
  by (simp add: on_store_def)

lemma on_store_Inr [io_inv]:
  "on_store m w = (Inr x, w') \<longleftrightarrow> (\<exists>s'. m (w_store w) = (Inr x, s') \<and> w' = w\<lparr>w_store := s'\<rparr>)"
  by (auto simp: on_store_def split: prod.splits)

lemma on_store_Inl:
  "on_store m w = (Inl e, w') \<longleftrightarrow> (\<exists>s'. m (w_store w) = (Inl e, s') \<and> w' = w\<lparr>w_store := s'\<rparr>)"
  by (auto simp: on_store_def split: prod.splits)

lemma w_store_same [simp]: "w\<lparr>w_store := w_store w\<rparr> = w"
  by simp

subsection \<open>Random tokens\<close>

definition random_token :: "error \<Rightarrow> int \<Rightarrow> (('s, 'm) world_scheme, string) io" where
  "random_token invalid n = (\<lambda>w.
     if n \<le> 0 then (Inl invalid, w)
     else if length (w_entropy w) < nat n then (Inl EntropyExhausted, w)
     else (Inr (b64_encode (take (nat n) (w_entropy w))),
           w\<lparr>w_entropy := drop (nat n) (w_entropy w)\<rparr>))"

definition random_id :: "error \<Rightarrow> string \<Rightarrow> (('s, 'm) world_scheme, string) io" where
  "random_id invalid pre = andThen (random_token invalid 12) (\<lambda>token.
     if pre = [] then ret token else ret (pre @ ''_'' @ token))"

lemma random_token_Inr [io_inv]:
  "random_token invalid n w = (Inr t, w') \<longleftrightarrow> 0 < n \<and> nat n \<le> length (w_entropy w) \<and>
     t = b64_encode (take (nat n) (w_entropy w)) \<and>
     w' = w\<lparr>w_entropy := drop (nat n) (w_entropy w)\<rparr>"
  by (auto simp: random_token_def)

lemma random_token_store: "random_token invalid n w = (r, w') \<Longrightarrow> w_store w' = w_store w"
  by (auto simp: random_token_def split: if_splits)

lemma random_id_store: "random_id invalid pre w = (r, w') \<Longrightarrow> w_store w' = w_store w"
  by (auto simp: random_id_def andThen_run dest: random_token_store
      split: prod.splits sum.splits if_splits)

lemma random_token_visible:
  "random_token invalid n w = (Inr t, w') \<Longrightarrow> t \<noteq> [] \<and> list_all visible t"
  by (auto simp: random_token_Inr)

lemma random_id_visible:
  "random_id invalid pre w = (Inr i, w') \<Longrightarrow> list_all visible pre \<Longrightarrow> i \<noteq> [] \<and> list_all visible i"
  by (auto simp: random_id_def andThen_Inr ret_Inr visible_def dest!: random_token_visible
      split: if_splits)

subsection \<open>Relations between the stores of two worlds\<close>

definition on_world :: "('s \<Rightarrow> 's \<Rightarrow> bool) \<Rightarrow> ('s, 'm) world_scheme \<Rightarrow> ('s, 'm) world_scheme \<Rightarrow> bool" where
  "on_world R w w' \<longleftrightarrow> R (w_store w) (w_store w')"

lemma preorder_on_world [keeps_rules]:
  "preorder_on_states R \<Longrightarrow> preorder_on_states (on_world R)"
  unfolding preorder_on_states_def on_world_def by blast

lemma keeps_on_store [keeps_rules]: "keeps R m \<Longrightarrow> keeps (on_world R) (on_store m)"
  by (auto simp: keeps_def on_world_def on_store_def split: prod.splits)

lemma keeps_same: "(\<And>s. snd (m s) = s) \<Longrightarrow> preorder_on_states R \<Longrightarrow> keeps R m"
  by (auto simp: keeps_def preorder_on_states_def) (metis snd_conv)

lemma on_world_same:
  "preorder_on_states R \<Longrightarrow> w_store w' = w_store w \<Longrightarrow> on_world R w w'"
  by (simp add: on_world_def preorder_on_states_def)

lemma keeps_random_token [keeps_rules]:
  "preorder_on_states R \<Longrightarrow> keeps (on_world R) (random_token invalid n)"
  using random_token_store on_world_same unfolding keeps_def by blast

lemma keeps_random_id [keeps_rules]:
  "preorder_on_states R \<Longrightarrow> keeps (on_world R) (random_id invalid pre)"
  using random_id_store on_world_same unfolding keeps_def by blast

end
