(* ===== verification/FedRuntime.thy ===== *)
theory FedRuntime
  imports FedStore FedSecurity GoWorld
begin

section \<open>The service object (\<open>id.go\<close>, \<open>options.go\<close>, parts of \<open>service.go\<close>)\<close>

text \<open>
  A service holds a store, a clock and the lease time of bridge fragments. \<open>svc_now\<close> is the clock reading of the operation at hand: all
  readings within one operation are the same, and theorems quantify over it. The service
  pointer itself is never nil in the model.
\<close>

record 's service =
  svc_store :: "'s store_ops"
  svc_now :: time
  svc_bridgeFragmentLeaseTTL :: duration

subsection \<open>Construction\<close>

type_synonym 's option_fn = "'s service \<Rightarrow> 's service"

abbreviation defaultBridgeFragmentLeaseTTL :: duration where
  "defaultBridgeFragmentLeaseTTL \<equiv> 30 * second"

definition WithNow :: "time option \<Rightarrow> 's option_fn" where
  "WithNow clock sv = (case clock of None \<Rightarrow> sv | Some now \<Rightarrow> sv\<lparr>svc_now := now\<rparr>)"

definition WithBridgeFragmentLeaseTTL :: "duration \<Rightarrow> 's option_fn" where
  "WithBridgeFragmentLeaseTTL ttl sv =
     (if 0 < ttl then sv\<lparr>svc_bridgeFragmentLeaseTTL := ttl\<rparr> else sv)"

text \<open>\<open>system_time\<close> is the reading of \<open>time.Now().UTC()\<close>; a nil store or option is \<open>None\<close>.\<close>

definition NewService ::
    "time \<Rightarrow> 's store_ops option \<Rightarrow> 's option_fn option list \<Rightarrow> error + 's service" where
  "NewService system_time store opts =
     (case store of
        None \<Rightarrow> Inl ErrInvalidInput
      | Some st \<Rightarrow> Inr (fold (\<lambda>opt sv. case opt of None \<Rightarrow> sv | Some f \<Rightarrow> f sv) opts
          \<lparr>svc_store = st, svc_now = system_time,
           svc_bridgeFragmentLeaseTTL = defaultBridgeFragmentLeaseTTL\<rparr>))"

definition currentTime :: "'s service \<Rightarrow> time" where
  "currentTime sv = svc_now sv"

definition validateContext :: "go_context \<Rightarrow> string \<Rightarrow> ('s world, unit) io" where
  "validateContext ctx operation = of_result (validate_context_with ErrInvalidInput ctx operation)"

lemma validateContext_Inr [io_inv]:
  "validateContext ctx operation w = (Inr u, w') \<longleftrightarrow> ctx = LiveContext \<and> w' = w"
  by (cases ctx) (auto simp: validateContext_def)

lemma validateContext_Live [simp, io_simps]: "validateContext LiveContext operation w = (Inr (), w)"
  by (simp add: validateContext_def)

subsection \<open>Identifiers and tokens\<close>

definition randomToken :: "int \<Rightarrow> ('s world, string) io" where
  "randomToken = random_token ErrInvalidInput"

definition newID :: "string \<Rightarrow> ('s world, string) io" where
  "newID = random_id ErrInvalidInput"

lemma randomToken_Inr [io_inv]:
  "randomToken n w = (Inr t, w') \<longleftrightarrow> 0 < n \<and> nat n \<le> length (w_entropy w) \<and>
     t = b64_encode (take (nat n) (w_entropy w)) \<and>
     w' = w\<lparr>w_entropy := drop (nat n) (w_entropy w)\<rparr>"
  by (simp add: randomToken_def random_token_Inr)

lemma randomToken_store: "randomToken n w = (r, w') \<Longrightarrow> w_store w' = w_store w"
  unfolding randomToken_def by (rule random_token_store)

lemma newID_store: "newID pre w = (r, w') \<Longrightarrow> w_store w' = w_store w"
  unfolding newID_def by (rule random_id_store)

lemma randomToken_visible:
  "randomToken n w = (Inr t, w') \<Longrightarrow> t \<noteq> [] \<and> list_all visible t"
  unfolding randomToken_def by (rule random_token_visible)

lemma newID_visible:
  "newID pre w = (Inr i, w') \<Longrightarrow> list_all visible pre \<Longrightarrow> i \<noteq> [] \<and> list_all visible i"
  unfolding newID_def by (rule random_id_visible)

subsection \<open>Loading the two ends of a link\<close>

definition peerAndLink :: "'s service \<Rightarrow> string \<Rightarrow> string \<Rightarrow> ('s world, peer \<times> link) io" where
  "peerAndLink sv peerID0 linkID0 =
     (let peerID = trim_space peerID0; linkID = trim_space linkID0 in
      andThen (reject_if (peerID = [] \<or> linkID = []) ErrInvalidInput) (\<lambda>_.
      andThen (wrapping (''load federation link '' @ linkID)
        (on_store (st_LinkByID (svc_store sv) linkID))) (\<lambda>l.
      andThen (reject_if (link_PeerID l \<noteq> peerID) ErrConflict) (\<lambda>_.
      andThen (wrapping (''load federation peer '' @ peerID)
        (on_store (st_PeerByID (svc_store sv) peerID))) (\<lambda>p.
      ret (p, l))))))"

definition svc_SignBundle ::
    "'s service \<Rightarrow> go_context \<Rightarrow> string \<Rightarrow> string \<Rightarrow> fed_bundle \<Rightarrow> ('s world, fed_bundle) io" where
  "svc_SignBundle sv ctx peerID linkID b =
     andThen (validateContext ctx ''sign federation bundle'') (\<lambda>_.
     andThen (peerAndLink sv peerID linkID) (\<lambda>(p, l).
     ret (signBundle p l b)))"

definition svc_verifyBundle ::
    "'s service \<Rightarrow> string \<Rightarrow> string \<Rightarrow> fed_bundle \<Rightarrow> ('s world, unit) io" where
  "svc_verifyBundle sv peerID linkID b =
     andThen (peerAndLink sv peerID linkID) (\<lambda>(p, l). of_result (verifyBundle p l b))"

definition authorizeLinkForPeer ::
    "'s service \<Rightarrow> string \<Rightarrow> string \<Rightarrow> bool \<Rightarrow> ('s world, link) io" where
  "authorizeLinkForPeer sv peerID linkID allowPaused =
     andThen (wrapping (''load federation link '' @ linkID)
       (on_store (st_LinkByID (svc_store sv) linkID))) (\<lambda>l.
     andThen (reject_if (link_PeerID l \<noteq> peerID) ErrForbidden) (\<lambda>_.
     if link_State l = LinkStateActive \<or> link_State l = LinkStateDegraded then ret l
     else if link_State l = LinkStatePaused
       then andThen (reject_if (\<not> allowPaused) ErrForbidden) (\<lambda>_. ret l)
     else raise ErrForbidden))"

subsection \<open>Link health\<close>

definition markLinkHealthy :: "'s service \<Rightarrow> string \<Rightarrow> ('s world, unit) io" where
  "markLinkHealthy sv linkID =
     andThen (wrapping (''load federation link '' @ linkID @ '' before health update'')
       (on_store (st_LinkByID (svc_store sv) linkID))) (\<lambda>l0.
     let now = currentTime sv;
       l = l0\<lparr>link_LastHealthyAt := now, link_LastError := [],
         link_State := (if link_State l0 = LinkStateDegraded then LinkStateActive else link_State l0),
         link_UpdatedAt := now\<rparr>
     in andThen (wrapping (''save federation link '' @ link_ID l @ '' health'')
          (on_store (st_SaveLink (svc_store sv) l))) (\<lambda>_. ret ()))"

definition with_link_failure :: "error option \<Rightarrow> time \<Rightarrow> link \<Rightarrow> link" where
  "with_link_failure lastError now l = l\<lparr>
     link_LastError := (case lastError of None \<Rightarrow> link_LastError l
       | Some e \<Rightarrow> trim_space (error_text e)),
     link_State := (if link_State l = LinkStateActive then LinkStateDegraded else link_State l),
     link_UpdatedAt := now\<rparr>"

definition markLinkFailed :: "'s service \<Rightarrow> string \<Rightarrow> error option \<Rightarrow> ('s world, unit) io" where
  "markLinkFailed sv linkID lastError =
     andThen (wrapping (''load federation link '' @ linkID @ '' before failure update'')
       (on_store (st_LinkByID (svc_store sv) linkID))) (\<lambda>l0.
     let l = with_link_failure lastError (currentTime sv) l0
     in andThen (wrapping (''save federation link '' @ link_ID l @ '' failure'')
          (on_store (st_SaveLink (svc_store sv) l))) (\<lambda>_. ret ()))"

end
