(* ===== verification/FedService.thy ===== *)
theory FedService
  imports FedRuntime "HOL-Library.Product_Lexorder"
begin

section \<open>The federation service (\<open>internal/domain/federation/service.go\<close>)\<close>

text \<open>
  One definition per operation of \<open>Service\<close>, with its guards, early returns and error
  wrapping in the order of the source. The function passed to \<open>WithinTx\<close> works on the store
  alone; it is its own definition (\<open>saveBundle_tx\<close>, \<open>acknowledge_tx\<close>).
\<close>

subsection \<open>Peers\<close>

definition secret_or_token :: "string \<Rightarrow> string \<Rightarrow> ('s world, string \<times> bool) io" where
  "secret_or_token provided what =
     (if provided = [] then andThen (wrapping what (randomToken 24)) (\<lambda>token. ret (token, True))
      else ret (provided, False))"

definition CreatePeer :: "'s service \<Rightarrow> go_context \<Rightarrow> create_peer_params \<Rightarrow>
    ('s world, peer \<times> string \<times> bool \<times> string \<times> bool) io" where
  "CreatePeer sv ctx params =
     andThen (validateContext ctx ''create federation peer'') (\<lambda>_.
     let serverName = norm_name (cpp_ServerName params) in
     andThen (reject_if (serverName = []) ErrInvalidInput) (\<lambda>_.
     andThen (secret_or_token (trim_space (cpp_SharedSecret params))
       ''generate federation shared secret'') (\<lambda>(sharedSecret, generatedShared).
     andThen (secret_or_token (trim_space (cpp_SigningSecret params))
       ''generate federation signing secret'') (\<lambda>(signingSecret, generatedSigning).
     andThen (wrapping ''generate federation peer id'' (newID ''peer'')) (\<lambda>peerID.
     andThen (of_result (normalize_peer \<lparr>
       peer_ID = peerID,
       peer_ServerName = serverName,
       peer_BaseURL = trim_space (cpp_BaseURL params),
       peer_Capabilities = cpp_Capabilities params,
       peer_Trusted = cpp_Trusted params,
       peer_State = [],
       peer_VerificationFingerprint = secretFingerprint sharedSecret,
       peer_SharedSecret = sharedSecret,
       peer_SharedSecretHash = secretHash sharedSecret,
       peer_SigningFingerprint = secretFingerprint signingSecret,
       peer_SigningSecret = signingSecret,
       peer_PreviousSigningSecret = [],
       peer_SigningKeyVersion = 1,
       peer_CreatedAt = zero_time, peer_UpdatedAt = zero_time, peer_LastSeenAt = zero_time\<rparr>
       (currentTime sv))) (\<lambda>p.
     andThen (wrapping (''save federation peer '' @ peer_ServerName p)
       (on_store (st_SavePeer (svc_store sv) p))) (\<lambda>saved.
     ret (saved, sharedSecret, generatedShared, signingSecret, generatedSigning))))))))"

definition svc_PeerByID :: "'s service \<Rightarrow> go_context \<Rightarrow> string \<Rightarrow> ('s world, peer) io" where
  "svc_PeerByID sv ctx peerID0 =
     andThen (validateContext ctx ''load federation peer'') (\<lambda>_.
     let peerID = trim_space peerID0 in
     andThen (reject_if (peerID = []) ErrInvalidInput) (\<lambda>_.
     wrapping (''load federation peer '' @ peerID) (on_store (st_PeerByID (svc_store sv) peerID))))"

definition svc_PeerByServerName :: "'s service \<Rightarrow> go_context \<Rightarrow> string \<Rightarrow> ('s world, peer) io" where
  "svc_PeerByServerName sv ctx serverName0 =
     andThen (validateContext ctx ''load federation peer'') (\<lambda>_.
     let serverName = norm_name serverName0 in
     andThen (reject_if (serverName = []) ErrInvalidInput) (\<lambda>_.
     wrapping (''load federation peer by server name '' @ serverName)
       (on_store (st_PeerByServerName (svc_store sv) serverName))))"

definition ListPeers :: "'s service \<Rightarrow> go_context \<Rightarrow> PeerState \<Rightarrow> ('s world, peer list) io" where
  "ListPeers sv ctx st =
     andThen (validateContext ctx ''list federation peers'') (\<lambda>_.
     andThen (wrapping ''list federation peers'' (on_store (st_PeersByState (svc_store sv) st))) (\<lambda>ps.
     ret (sort_key (\<lambda>p. (peer_CreatedAt p, peer_ID p)) ps)))"

text \<open>The fields of the update request that are set, written over the current value.\<close>

definition with_option :: "'a option \<Rightarrow> ('a \<Rightarrow> 'r \<Rightarrow> 'r) \<Rightarrow> 'r \<Rightarrow> 'r" where
  "with_option x f r = (case x of None \<Rightarrow> r | Some v \<Rightarrow> f v r)"

definition updated_peer :: "update_peer_params \<Rightarrow> time \<Rightarrow> peer \<Rightarrow> peer" where
  "updated_peer params now current =
     (let p1 = with_option (upp_ServerName params) (\<lambda>v p. p\<lparr>peer_ServerName := norm_name v\<rparr>) current;
        p2 = with_option (upp_BaseURL params) (\<lambda>v p. p\<lparr>peer_BaseURL := trim_space v\<rparr>) p1;
        p3 = with_option (upp_Capabilities params) (\<lambda>v p. p\<lparr>peer_Capabilities := v\<rparr>) p2;
        p4 = with_option (upp_Trusted params) (\<lambda>v p. p\<lparr>peer_Trusted := v\<rparr>) p3;
        p5 = with_option (upp_State params) (\<lambda>v p. p\<lparr>peer_State := v\<rparr>) p4
      in p5\<lparr>peer_UpdatedAt := now\<rparr>)"

definition UpdatePeer :: "'s service \<Rightarrow> go_context \<Rightarrow> update_peer_params \<Rightarrow> ('s world, peer) io" where
  "UpdatePeer sv ctx params =
     andThen (validateContext ctx ''update federation peer'') (\<lambda>_.
     let peerID = trim_space (upp_PeerID params) in
     andThen (reject_if (peerID = []) ErrInvalidInput) (\<lambda>_.
     andThen (wrapping (''load federation peer '' @ peerID @ '' before update'')
       (on_store (st_PeerByID (svc_store sv) peerID))) (\<lambda>current.
     andThen (of_result (normalize_peer (updated_peer params (currentTime sv) current)
       (currentTime sv))) (\<lambda>p.
     wrapping (''save federation peer '' @ peer_ID p)
       (on_store (st_SavePeer (svc_store sv) p))))))"

definition rotated_peer :: "string \<Rightarrow> time \<Rightarrow> peer \<Rightarrow> peer" where
  "rotated_peer signingSecret now current = current\<lparr>
     peer_PreviousSigningSecret := peer_SigningSecret current,
     peer_SigningSecret := signingSecret,
     peer_SigningFingerprint := secretFingerprint signingSecret,
     peer_SigningKeyVersion := peer_SigningKeyVersion current + 1,
     peer_UpdatedAt := now\<rparr>"

definition RotatePeerSigningKey ::
    "'s service \<Rightarrow> go_context \<Rightarrow> string \<Rightarrow> string \<Rightarrow> ('s world, peer \<times> string \<times> bool) io" where
  "RotatePeerSigningKey sv ctx peerID0 signingSecret0 =
     andThen (validateContext ctx ''rotate federation peer signing key'') (\<lambda>_.
     let peerID = trim_space peerID0 in
     andThen (reject_if (peerID = []) ErrInvalidInput) (\<lambda>_.
     andThen (wrapping (''load federation peer '' @ peerID @ '' before signing key rotation'')
       (on_store (st_PeerByID (svc_store sv) peerID))) (\<lambda>current.
     andThen (secret_or_token (trim_space signingSecret0)
       ''generate federation signing secret'') (\<lambda>(signingSecret, generated).
     andThen (reject_if (secretHash (peer_SigningSecret current) = secretHash signingSecret)
       ErrConflict) (\<lambda>_.
     andThen (of_result (normalize_peer (rotated_peer signingSecret (currentTime sv) current)
       (currentTime sv))) (\<lambda>p.
     andThen (wrapping (''save federation peer '' @ peer_ID p @ '' after signing key rotation'')
       (on_store (st_SavePeer (svc_store sv) p))) (\<lambda>saved.
     ret (saved, signingSecret, generated))))))))"

definition authenticatePeer :: "'s service \<Rightarrow> peer \<Rightarrow> string \<Rightarrow> ('s world, peer) io" where
  "authenticatePeer sv p sharedSecret =
     andThen (reject_if (peer_SharedSecretHash p \<noteq> secretHash sharedSecret) ErrUnauthorized) (\<lambda>_.
     andThen (reject_if (\<not> peer_Trusted p) ErrForbidden) (\<lambda>_.
     andThen (reject_if (\<not> (peer_State p = PeerStateActive \<or> peer_State p = PeerStateDegraded))
       ErrForbidden) (\<lambda>_.
     wrapping (''touch federation peer '' @ peer_ID p @ '' after authentication'')
       (on_store (st_SavePeer (svc_store sv)
         (p\<lparr>peer_LastSeenAt := currentTime sv, peer_UpdatedAt := currentTime sv\<rparr>))))))"

definition AuthenticatePeer ::
    "'s service \<Rightarrow> go_context \<Rightarrow> string \<Rightarrow> string \<Rightarrow> ('s world, peer) io" where
  "AuthenticatePeer sv ctx peerID0 sharedSecret0 =
     andThen (validateContext ctx ''authenticate federation peer'') (\<lambda>_.
     let peerID = trim_space peerID0; sharedSecret = trim_space sharedSecret0 in
     andThen (reject_if (peerID = [] \<or> sharedSecret = []) ErrInvalidInput) (\<lambda>_.
     andThen (wrapping (''load federation peer '' @ peerID @ '' during authentication'')
       (on_store (st_PeerByID (svc_store sv) peerID))) (\<lambda>p.
     authenticatePeer sv p sharedSecret)))"

definition AuthenticatePeerByServerName ::
    "'s service \<Rightarrow> go_context \<Rightarrow> string \<Rightarrow> string \<Rightarrow> ('s world, peer) io" where
  "AuthenticatePeerByServerName sv ctx serverName0 sharedSecret0 =
     andThen (validateContext ctx ''authenticate federation peer'') (\<lambda>_.
     let serverName = norm_name serverName0; sharedSecret = trim_space sharedSecret0 in
     andThen (reject_if (serverName = [] \<or> sharedSecret = []) ErrInvalidInput) (\<lambda>_.
     andThen (wrapping (''load federation peer by server name '' @ serverName @
         '' during authentication'')
       (on_store (st_PeerByServerName (svc_store sv) serverName))) (\<lambda>p.
     authenticatePeer sv p sharedSecret)))"

subsection \<open>Links\<close>

definition CreateLink :: "'s service \<Rightarrow> go_context \<Rightarrow> create_link_params \<Rightarrow> ('s world, link) io" where
  "CreateLink sv ctx params =
     andThen (validateContext ctx ''create federation link'') (\<lambda>_.
     let peerID = trim_space (clp_PeerID params); name = norm_name (clp_Name params) in
     andThen (reject_if (peerID = [] \<or> name = []) ErrInvalidInput) (\<lambda>_.
     andThen (wrapping (''load federation peer '' @ peerID @ '' before link create'')
       (on_store (st_PeerByID (svc_store sv) peerID))) (\<lambda>p.
     andThen (wrapping ''generate federation link id'' (newID ''link'')) (\<lambda>linkID.
     andThen (of_result (normalize_link \<lparr>
       link_ID = linkID,
       link_PeerID = peerID,
       link_Name = name,
       link_Endpoint = or_default (trim_space (clp_Endpoint params)) (peer_BaseURL p),
       link_TransportKind = clp_TransportKind params,
       link_DeliveryClass = clp_DeliveryClass params,
       link_DiscoveryMode = clp_DiscoveryMode params,
       link_MediaPolicy = clp_MediaPolicy params,
       link_State = [],
       link_MaxBundleBytes = clp_MaxBundleBytes params,
       link_MaxFragmentBytes = clp_MaxFragmentBytes params,
       link_AllowedConversationKinds = clp_AllowedConversationKinds params,
       link_AllowedEventFamilies = clp_AllowedEventFamilies params,
       link_AllowedMessageKinds = clp_AllowedMessageKinds params,
       link_CreatedAt = zero_time, link_UpdatedAt = zero_time,
       link_LastHealthyAt = zero_time, link_LastError = []\<rparr>
       (currentTime sv))) (\<lambda>l.
     wrapping (''save federation link '' @ link_Name l)
       (on_store (st_SaveLink (svc_store sv) l)))))))"

definition svc_LinkByID :: "'s service \<Rightarrow> go_context \<Rightarrow> string \<Rightarrow> ('s world, link) io" where
  "svc_LinkByID sv ctx linkID0 =
     andThen (validateContext ctx ''load federation link'') (\<lambda>_.
     let linkID = trim_space linkID0 in
     andThen (reject_if (linkID = []) ErrInvalidInput) (\<lambda>_.
     wrapping (''load federation link '' @ linkID) (on_store (st_LinkByID (svc_store sv) linkID))))"

definition svc_LinkByPeerAndName ::
    "'s service \<Rightarrow> go_context \<Rightarrow> string \<Rightarrow> string \<Rightarrow> ('s world, link) io" where
  "svc_LinkByPeerAndName sv ctx peerID0 linkName0 =
     andThen (validateContext ctx ''load federation link'') (\<lambda>_.
     let peerID = trim_space peerID0; linkName = norm_name linkName0 in
     andThen (reject_if (peerID = [] \<or> linkName = []) ErrInvalidInput) (\<lambda>_.
     wrapping (''load federation link '' @ linkName @ '' for peer '' @ peerID)
       (on_store (st_LinkByPeerAndName (svc_store sv) peerID linkName))))"

definition ListLinks ::
    "'s service \<Rightarrow> go_context \<Rightarrow> string \<Rightarrow> LinkState \<Rightarrow> ('s world, link list) io" where
  "ListLinks sv ctx peerID st =
     andThen (validateContext ctx ''list federation links'') (\<lambda>_.
     andThen (wrapping ''list federation links''
       (on_store (st_Links (svc_store sv) (trim_space peerID) st))) (\<lambda>ls.
     ret (sort_key (\<lambda>l. (link_CreatedAt l, link_ID l)) ls)))"

definition updated_link :: "update_link_params \<Rightarrow> time \<Rightarrow> link \<Rightarrow> link" where
  "updated_link params now current =
     (let l1 = with_option (ulp_Name params) (\<lambda>v l. l\<lparr>link_Name := norm_name v\<rparr>) current;
        l2 = with_option (ulp_Endpoint params) (\<lambda>v l. l\<lparr>link_Endpoint := trim_space v\<rparr>) l1;
        l3 = with_option (ulp_TransportKind params) (\<lambda>v l. l\<lparr>link_TransportKind := v\<rparr>) l2;
        l4 = with_option (ulp_DeliveryClass params) (\<lambda>v l. l\<lparr>link_DeliveryClass := v\<rparr>) l3;
        l5 = with_option (ulp_DiscoveryMode params) (\<lambda>v l. l\<lparr>link_DiscoveryMode := v\<rparr>) l4;
        l6 = with_option (ulp_MediaPolicy params) (\<lambda>v l. l\<lparr>link_MediaPolicy := v\<rparr>) l5;
        l7 = with_option (ulp_State params) (\<lambda>v l. l\<lparr>link_State := v\<rparr>) l6;
        l8 = with_option (ulp_MaxBundleBytes params) (\<lambda>v l. l\<lparr>link_MaxBundleBytes := v\<rparr>) l7;
        l9 = with_option (ulp_MaxFragmentBytes params) (\<lambda>v l. l\<lparr>link_MaxFragmentBytes := v\<rparr>) l8;
        l10 = with_option (ulp_AllowedConversationKinds params)
          (\<lambda>v l. l\<lparr>link_AllowedConversationKinds := v\<rparr>) l9;
        l11 = with_option (ulp_AllowedEventFamilies params)
          (\<lambda>v l. l\<lparr>link_AllowedEventFamilies := v\<rparr>) l10;
        l12 = with_option (ulp_AllowedMessageKinds params)
          (\<lambda>v l. l\<lparr>link_AllowedMessageKinds := v\<rparr>) l11;
        l13 = with_option (ulp_LastHealthyAt params) (\<lambda>v l. l\<lparr>link_LastHealthyAt := v\<rparr>) l12;
        l14 = with_option (ulp_LastError params) (\<lambda>v l. l\<lparr>link_LastError := trim_space v\<rparr>) l13
      in l14\<lparr>link_UpdatedAt := now\<rparr>)"

definition UpdateLink :: "'s service \<Rightarrow> go_context \<Rightarrow> update_link_params \<Rightarrow> ('s world, link) io" where
  "UpdateLink sv ctx params =
     andThen (validateContext ctx ''update federation link'') (\<lambda>_.
     let linkID = trim_space (ulp_LinkID params) in
     andThen (reject_if (linkID = []) ErrInvalidInput) (\<lambda>_.
     andThen (wrapping (''load federation link '' @ linkID @ '' before update'')
       (on_store (st_LinkByID (svc_store sv) linkID))) (\<lambda>current.
     andThen (of_result (normalize_link (updated_link params (currentTime sv) current)
       (currentTime sv))) (\<lambda>l.
     wrapping (''save federation link '' @ link_ID l)
       (on_store (st_SaveLink (svc_store sv) l))))))"

definition only_state :: "string \<Rightarrow> LinkState \<Rightarrow> update_link_params" where
  "only_state linkID st = \<lparr>ulp_LinkID = linkID, ulp_Name = None, ulp_Endpoint = None,
     ulp_TransportKind = None, ulp_DeliveryClass = None, ulp_DiscoveryMode = None,
     ulp_MediaPolicy = None, ulp_State = Some st, ulp_MaxBundleBytes = None,
     ulp_MaxFragmentBytes = None, ulp_AllowedConversationKinds = None,
     ulp_AllowedEventFamilies = None, ulp_AllowedMessageKinds = None,
     ulp_LastHealthyAt = None, ulp_LastError = None\<rparr>"

definition PauseLink :: "'s service \<Rightarrow> go_context \<Rightarrow> string \<Rightarrow> ('s world, link) io" where
  "PauseLink sv ctx linkID = UpdateLink sv ctx (only_state linkID LinkStatePaused)"

definition ResumeLink :: "'s service \<Rightarrow> go_context \<Rightarrow> string \<Rightarrow> ('s world, link) io" where
  "ResumeLink sv ctx linkID = UpdateLink sv ctx (only_state linkID LinkStateActive)"

definition DeleteLink :: "'s service \<Rightarrow> go_context \<Rightarrow> string \<Rightarrow> ('s world, link) io" where
  "DeleteLink sv ctx linkID = UpdateLink sv ctx (only_state linkID LinkStateDeleted)"

subsection \<open>Cursors\<close>

definition new_cursor :: "string \<Rightarrow> string \<Rightarrow> cursor" where
  "new_cursor peerID linkID = \<lparr>cur_LastReceivedCursor = 0, cur_PeerID = peerID, cur_LinkID = linkID,
     cur_LastInboundCursor = 0, cur_LastOutboundCursor = 0, cur_LastAckedCursor = 0,
     cur_UpdatedAt = zero_time\<rparr>"

definition cursor_or_new :: "'s store_ops \<Rightarrow> string \<Rightarrow> string \<Rightarrow> ('s, cursor) io" where
  "cursor_or_new S peerID linkID =
     andThen (attempt (st_CursorByPeerAndLink S peerID linkID)) (\<lambda>r.
     case r of
       Inr c \<Rightarrow> ret c
     | Inl e \<Rightarrow> if error_is e ErrNotFound then ret (new_cursor peerID linkID)
         else raise (Wrapped (''load federation cursor for '' @ peerID @ ''/'' @ linkID) e))"

definition ReplicationCursorByPeerAndLink ::
    "'s service \<Rightarrow> go_context \<Rightarrow> string \<Rightarrow> string \<Rightarrow> ('s world, cursor) io" where
  "ReplicationCursorByPeerAndLink sv ctx peerID0 linkID0 =
     andThen (validateContext ctx ''load federation cursor'') (\<lambda>_.
     let peerID = trim_space peerID0; linkID = trim_space linkID0 in
     andThen (reject_if (peerID = [] \<or> linkID = []) ErrInvalidInput) (\<lambda>_.
     on_store (cursor_or_new (svc_store sv) peerID linkID)))"

subsection \<open>Bundles\<close>

text \<open>The transaction of \<open>saveBundle\<close>.\<close>

definition saveBundle_tx ::
    "'s store_ops \<Rightarrow> time \<Rightarrow> BundleDirection \<Rightarrow> fed_bundle \<Rightarrow> ('s, fed_bundle) io" where
  "saveBundle_tx S now direction b =
     andThen (cursor_or_new S (bundle_PeerID b) (bundle_LinkID b)) (\<lambda>c.
     if direction = BundleDirectionInbound \<and> bundle_CursorTo b \<le> cur_LastReceivedCursor c
     then andThen (attempt (st_BundleByDedupKey S (bundle_DedupKey b))) (\<lambda>r.
       case r of
         Inr existing \<Rightarrow>
           if \<not> same_bundle_owner existing b then raise ErrConflict else ret existing
       | Inl e \<Rightarrow> if error_is e ErrNotFound then raise ErrConflict
           else raise (Wrapped (''load federation bundle by dedup key '' @ bundle_DedupKey b) e))
     else andThen (wrapping (''save federation bundle '' @ bundle_ID b) (st_SaveBundle S b)) (\<lambda>saved.
       let c' = c\<lparr>
         cur_LastReceivedCursor :=
           (if direction = BundleDirectionInbound \<and> cur_LastReceivedCursor c < bundle_CursorTo b
            then bundle_CursorTo b else cur_LastReceivedCursor c),
         cur_LastOutboundCursor :=
           (if direction = BundleDirectionOutbound \<and> cur_LastOutboundCursor c < bundle_CursorTo b
            then bundle_CursorTo b else cur_LastOutboundCursor c),
         cur_UpdatedAt := now\<rparr>
       in andThen (wrapping (''save federation cursor for '' @ cur_PeerID c' @ ''/'' @ cur_LinkID c')
            (st_SaveCursor S c')) (\<lambda>_. ret saved)))"

definition bundle_of_params ::
    "string \<Rightarrow> string \<Rightarrow> string \<Rightarrow> string \<Rightarrow> BundleDirection \<Rightarrow> save_bundle_params \<Rightarrow> fed_bundle" where
  "bundle_of_params bundleID peerID linkID dedupKey direction params = \<lparr>
     bundle_ID = bundleID,
     bundle_PeerID = peerID,
     bundle_LinkID = linkID,
     bundle_DedupKey = dedupKey,
     bundle_Direction = direction,
     bundle_CursorFrom = sbp_CursorFrom params,
     bundle_CursorTo = sbp_CursorTo params,
     bundle_EventCount = sbp_EventCount params,
     bundle_PayloadType = sbp_PayloadType params,
     bundle_Payload = sbp_Payload params,
     bundle_Compression = sbp_Compression params,
     bundle_IntegrityHash = sbp_IntegrityHash params,
     bundle_AuthTag = sbp_AuthTag params,
     bundle_State = [],
     bundle_CreatedAt = zero_time,
     bundle_AvailableAt = sbp_AvailableAt params,
     bundle_ExpiresAt = sbp_ExpiresAt params,
     bundle_AckedAt = zero_time\<rparr>"

definition saveBundle ::
    "'s service \<Rightarrow> go_context \<Rightarrow> save_bundle_params \<Rightarrow> BundleDirection \<Rightarrow> ('s world, fed_bundle) io" where
  "saveBundle sv ctx params direction =
     andThen (validateContext ctx ''save federation bundle'') (\<lambda>_.
     let peerID = trim_space (sbp_PeerID params);
       linkID = trim_space (sbp_LinkID params);
       dedupKey = trim_space (sbp_DedupKey params) in
     andThen (reject_if (peerID = [] \<or> linkID = [] \<or> dedupKey = []) ErrInvalidInput) (\<lambda>_.
     andThen (wrapping (''load federation link '' @ linkID @ '' before bundle save'')
       (on_store (st_LinkByID (svc_store sv) linkID))) (\<lambda>l.
     andThen (reject_if (link_PeerID l \<noteq> peerID) ErrConflict) (\<lambda>_.
     andThen (reject_if (link_State l = LinkStateDeleted) ErrConflict) (\<lambda>_.
     andThen (wrapping ''generate federation bundle id'' (newID ''bundle'')) (\<lambda>bundleID.
     let now = currentTime sv in
     andThen (of_result (normalize_bundle
       (bundle_of_params bundleID peerID linkID dedupKey direction params) now)) (\<lambda>b0.
     andThen (if direction = BundleDirectionOutbound
       then svc_SignBundle sv ctx peerID linkID b0
       else andThen (svc_verifyBundle sv peerID linkID b0) (\<lambda>_. ret b0)) (\<lambda>b.
     on_store (within_tx (saveBundle_tx (svc_store sv) now direction b))))))))))"

definition QueueOutboundBundle ::
    "'s service \<Rightarrow> go_context \<Rightarrow> save_bundle_params \<Rightarrow> ('s world, fed_bundle) io" where
  "QueueOutboundBundle sv ctx params = saveBundle sv ctx params BundleDirectionOutbound"

definition AcceptInboundBundle ::
    "'s service \<Rightarrow> go_context \<Rightarrow> save_bundle_params \<Rightarrow> ('s world, fed_bundle) io" where
  "AcceptInboundBundle sv ctx params = saveBundle sv ctx params BundleDirectionInbound"

text \<open>A Go \<open>int\<close> has 64 bits; \<open>limit+1\<close> wraps.\<close>

definition wrap_int :: "int \<Rightarrow> int" where
  "wrap_int n = (n + 2 ^ 63) mod 2 ^ 64 - 2 ^ 63"

definition PullOutboundBundles ::
    "'s service \<Rightarrow> go_context \<Rightarrow> string \<Rightarrow> string \<Rightarrow> uint64 \<Rightarrow> int \<Rightarrow>
     ('s world, fed_bundle list \<times> cursor \<times> bool) io" where
  "PullOutboundBundles sv ctx peerID linkID afterCursor limit0 =
     andThen (validateContext ctx ''pull federation bundles'') (\<lambda>_.
     andThen (reject_if (trim_space peerID = [] \<or> trim_space linkID = []) ErrInvalidInput) (\<lambda>_.
     let limit = (if limit0 \<le> 0 then 100 else limit0) in
     andThen (authorizeLinkForPeer sv peerID linkID False) (\<lambda>_.
     andThen (wrapping (''list federation outbound bundles for '' @ peerID @ ''/'' @ linkID)
       (on_store (st_BundlesAfter (svc_store sv) peerID linkID BundleDirectionOutbound afterCursor
         (wrap_int (limit + 1))))) (\<lambda>bs0.
     let hasMore = limit < int (length bs0);
       bs = (if hasMore then take (nat limit) bs0 else bs0) in
     andThen (ReplicationCursorByPeerAndLink sv ctx peerID linkID) (\<lambda>c.
     andThen (markLinkHealthy sv linkID) (\<lambda>_.
     ret (bs, c, hasMore)))))))"

definition AdvanceInboundCursor ::
    "'s service \<Rightarrow> go_context \<Rightarrow> string \<Rightarrow> string \<Rightarrow> uint64 \<Rightarrow> ('s world, cursor) io" where
  "AdvanceInboundCursor sv ctx peerID0 linkID0 upToCursor =
     andThen (validateContext ctx ''advance federation inbound cursor'') (\<lambda>_.
     let peerID = trim_space peerID0; linkID = trim_space linkID0 in
     andThen (reject_if (peerID = [] \<or> linkID = []) ErrInvalidInput) (\<lambda>_.
     andThen (authorizeLinkForPeer sv peerID linkID False) (\<lambda>_.
     andThen (ReplicationCursorByPeerAndLink sv ctx peerID linkID) (\<lambda>current.
     andThen (reject_if (cur_LastReceivedCursor current < upToCursor) ErrConflict) (\<lambda>_.
     if upToCursor \<le> cur_LastInboundCursor current then ret current
     else wrapping (''save federation inbound cursor for '' @ peerID @ ''/'' @ linkID)
       (on_store (st_SaveCursor (svc_store sv) (current\<lparr>cur_LastInboundCursor := upToCursor,
         cur_UpdatedAt := currentTime sv\<rparr>))))))))"

definition svc_BundlesAfter ::
    "'s service \<Rightarrow> go_context \<Rightarrow> string \<Rightarrow> string \<Rightarrow> BundleDirection \<Rightarrow> uint64 \<Rightarrow> int \<Rightarrow>
     ('s world, fed_bundle list) io" where
  "svc_BundlesAfter sv ctx peerID linkID direction afterCursor limit =
     andThen (validateContext ctx ''list federation bundles'') (\<lambda>_.
     andThen (reject_if (trim_space peerID = [] \<or> trim_space linkID = []) ErrInvalidInput) (\<lambda>_.
     wrapping (''list federation bundles for '' @ peerID @ ''/'' @ linkID)
       (on_store (st_BundlesAfter (svc_store sv) (trim_space peerID) (trim_space linkID) direction
         afterCursor limit))))"

definition PushInboundBundles ::
    "'s service \<Rightarrow> go_context \<Rightarrow> string \<Rightarrow> string \<Rightarrow> save_bundle_params list \<Rightarrow>
     ('s world, fed_bundle list \<times> cursor) io" where
  "PushInboundBundles sv ctx peerID0 linkID0 bundles =
     andThen (validateContext ctx ''push federation bundles'') (\<lambda>_.
     let peerID = trim_space peerID0; linkID = trim_space linkID0 in
     andThen (reject_if (peerID = [] \<or> linkID = []) ErrInvalidInput) (\<lambda>_.
     andThen (authorizeLinkForPeer sv peerID linkID False) (\<lambda>_.
     andThen (for_each (\<lambda>params. AcceptInboundBundle sv ctx
       (params\<lparr>sbp_PeerID := peerID, sbp_LinkID := linkID\<rparr>)) bundles) (\<lambda>accepted.
     andThen (ReplicationCursorByPeerAndLink sv ctx peerID linkID) (\<lambda>c.
     andThen (markLinkHealthy sv linkID) (\<lambda>_.
     ret (accepted, c)))))))"

definition acknowledge_tx :: "'s store_ops \<Rightarrow> ack_bundles_params \<Rightarrow> ('s, cursor) io" where
  "acknowledge_tx S params =
     (let peerID = abp_PeerID params; linkID = abp_LinkID params in
      andThen (wrapping (''acknowledge federation bundles for '' @ peerID @ ''/'' @ linkID)
        (st_AcknowledgeBundles S params)) (\<lambda>_.
      andThen (cursor_or_new S peerID linkID) (\<lambda>current.
      let c = current\<lparr>
        cur_LastAckedCursor := (if cur_LastAckedCursor current < abp_UpToCursor params
          then abp_UpToCursor params else cur_LastAckedCursor current),
        cur_UpdatedAt := abp_AcknowledgedAt params\<rparr>
      in wrapping (''save federation cursor for '' @ cur_PeerID c @ ''/'' @ cur_LinkID c)
           (st_SaveCursor S c))))"

definition svc_AcknowledgeBundles ::
    "'s service \<Rightarrow> go_context \<Rightarrow> ack_bundles_params \<Rightarrow> ('s world, cursor) io" where
  "svc_AcknowledgeBundles sv ctx params0 =
     andThen (validateContext ctx ''acknowledge federation bundles'') (\<lambda>_.
     let peerID = trim_space (abp_PeerID params0); linkID = trim_space (abp_LinkID params0) in
     andThen (reject_if (peerID = [] \<or> linkID = []) ErrInvalidInput) (\<lambda>_.
     andThen (authorizeLinkForPeer sv peerID linkID False) (\<lambda>_.
     let params = params0\<lparr>abp_PeerID := peerID, abp_LinkID := linkID,
       abp_AcknowledgedAt := or_time (abp_AcknowledgedAt params0) (currentTime sv)\<rparr> in
     andThen (on_store (within_tx (acknowledge_tx (svc_store sv) params))) (\<lambda>c.
     andThen (markLinkHealthy sv linkID) (\<lambda>_. ret c)))))"

end
