(* ===== verification/FedFragments.thy ===== *)
theory FedFragments
  imports FedService
begin

section \<open>Bridge fragments (\<open>internal/domain/federation/fragments.go\<close>)\<close>

text \<open>
  Constrained links carry a bundle as fragments. The outbound side splits a bundle's payload,
  leases fragments to the transport adapter and acknowledges them; the inbound side stores
  fragments, assembles a bundle when all of them are there, and quarantines fragments that
  contradict each other.
\<close>

subsection \<open>Splitting and checking fragment sets\<close>

definition isBridgeTransport :: "TransportKind \<Rightarrow> bool" where
  "isBridgeTransport kind \<longleftrightarrow>
     kind \<in> {TransportKindMeshtastic, TransportKindMeshCore, TransportKindCustomDTN}"

definition splitPayload :: "bytes \<Rightarrow> int \<Rightarrow> bytes list" where
  "splitPayload payload maxBytes0 =
     (let maxBytes = (if maxBytes0 \<le> 0 then int (length payload) else maxBytes0) in
      if payload = [] then [[]] else chunks (nat maxBytes) payload)"

text \<open>The loop of \<open>validateFragmentSet\<close>: the fields every fragment shares with the first.\<close>

definition same_fragment_header :: "fragment \<Rightarrow> fragment \<Rightarrow> bool" where
  "same_fragment_header f first \<longleftrightarrow>
     frag_PeerID f = frag_PeerID first \<and> frag_LinkID f = frag_LinkID first \<and>
     frag_BundleID f = frag_BundleID first \<and> frag_Direction f = frag_Direction first \<and>
     frag_CursorFrom f = frag_CursorFrom first \<and> frag_CursorTo f = frag_CursorTo first \<and>
     frag_EventCount f = frag_EventCount first \<and> frag_PayloadType f = frag_PayloadType first \<and>
     frag_Compression f = frag_Compression first"

definition same_fragment_proof :: "fragment \<Rightarrow> fragment \<Rightarrow> bool" where
  "same_fragment_proof f first \<longleftrightarrow>
     frag_IntegrityHash f = frag_IntegrityHash first \<and> frag_AuthTag f = frag_AuthTag first"

fun validate_from :: "fragment \<Rightarrow> int list \<Rightarrow> fragment list \<Rightarrow> error + unit" where
  "validate_from first seenIndexes [] = Inr ()"
| "validate_from first seenIndexes (f # fs) =
     (if fragment_terminal f then Inr ()
      else if frag_FragmentCount f \<noteq> frag_FragmentCount first then Inl ErrConflict
      else if \<not> (same_fragment_header f first \<and> same_fragment_proof f first) then Inl ErrConflict
      else if frag_State f \<noteq> FragmentStateAccepted then Inr ()
      else if frag_FragmentIndex f \<in> set seenIndexes then Inl ErrConflict
      else validate_from first (frag_FragmentIndex f # seenIndexes) fs)"

definition validateFragmentSet :: "fragment list \<Rightarrow> error + unit" where
  "validateFragmentSet fs = (case fs of [] \<Rightarrow> Inr () | first # _ \<Rightarrow> validate_from first [] fs)"

definition fragmentsComplete :: "fragment list \<Rightarrow> error + bool" where
  "fragmentsComplete fs =
     (if fs = [] then Inr False
      else let ordered = sort_key frag_FragmentIndex fs;
        expectedCount = frag_FragmentCount (hd ordered)
      in if expectedCount \<le> 0 \<or> int (length fs) \<noteq> expectedCount
         then (case validateFragmentSet ordered of Inl e \<Rightarrow> Inl e | Inr _ \<Rightarrow> Inr False)
         else (case validateFragmentSet ordered of Inl e \<Rightarrow> Inl e | Inr _ \<Rightarrow> Inr True))"

definition allFragmentsAcknowledged :: "fragment list \<Rightarrow> bool" where
  "allFragmentsAcknowledged fs \<longleftrightarrow> fs \<noteq> [] \<and>
     list_all (\<lambda>f. frag_State f = FragmentStateAcknowledged \<or> frag_State f = FragmentStateAssembled) fs"

definition isInboundFragmentBundleTerminal :: "fragment list \<Rightarrow> bool" where
  "isInboundFragmentBundleTerminal fs \<longleftrightarrow> list_ex fragment_terminal fs"

definition containsFragmentDedupKey :: "fragment list \<Rightarrow> string \<Rightarrow> bool" where
  "containsFragmentDedupKey fs dedupKey \<longleftrightarrow> list_ex (\<lambda>f. frag_DedupKey f = trim_space dedupKey) fs"

definition validateInboundFragmentCandidate :: "fragment list \<Rightarrow> fragment \<Rightarrow> error + unit" where
  "validateInboundFragmentCandidate existing candidate =
     (case existing of
        [] \<Rightarrow> Inr ()
      | first # _ \<Rightarrow>
          if frag_FragmentCount candidate \<noteq> frag_FragmentCount first then Inl ErrConflict
          else if \<not> same_fragment_header candidate first then Inl ErrConflict
          else if \<not> same_fragment_proof candidate first then Inl ErrUnauthorized
          else if list_ex (\<lambda>f. frag_FragmentIndex f = frag_FragmentIndex candidate) existing
            then Inl ErrConflict
          else Inr ())"

definition fragmentDedupKey :: "string \<Rightarrow> int \<Rightarrow> string" where
  "fragmentDedupKey bundleDedupKey fragmentIndex =
     trim_space bundleDedupKey @ '':frag:'' @ format_06d fragmentIndex"

definition assembledBundleDedupKey :: "string \<Rightarrow> string" where
  "assembledBundleDedupKey bundleID = ''bridge_bundle:'' @ trim_space bundleID"

subsection \<open>Resolving a bridge link\<close>

definition bridgeLinkByServerAndName ::
    "'s service \<Rightarrow> go_context \<Rightarrow> string \<Rightarrow> string \<Rightarrow> ('s world, peer \<times> link) io" where
  "bridgeLinkByServerAndName sv ctx peerServerName0 linkName0 =
     (let peerServerName = norm_name peerServerName0; linkName = norm_name linkName0 in
      andThen (reject_if (peerServerName = [] \<or> linkName = []) ErrInvalidInput) (\<lambda>_.
      andThen (svc_PeerByServerName sv ctx peerServerName) (\<lambda>p.
      andThen (svc_LinkByPeerAndName sv ctx (peer_ID p) linkName) (\<lambda>l.
      andThen (reject_if (\<not> isBridgeTransport (link_TransportKind l)) ErrForbidden) (\<lambda>_.
      andThen (authorizeLinkForPeer sv (peer_ID p) (link_ID l) False) (\<lambda>_.
      ret (p, l)))))))"

subsection \<open>Quarantine\<close>

text \<open>The transaction of \<open>quarantineInboundFragments\<close>.\<close>

definition quarantine_one :: "'s store_ops \<Rightarrow> time \<Rightarrow> fragment \<Rightarrow> ('s, unit) io" where
  "quarantine_one S now f =
     (if frag_Direction f \<noteq> BundleDirectionInbound then ret ()
      else if fragment_terminal f then ret ()
      else andThen (wrapping (''quarantine federation fragment '' @ frag_ID f)
        (st_SaveFragment S (f\<lparr>frag_State := FragmentStateFailed, frag_AckedAt := now\<rparr>)))
        (\<lambda>_. ret ()))"

definition quarantine_tx ::
    "'s store_ops \<Rightarrow> time \<Rightarrow> fragment list \<Rightarrow> error option \<Rightarrow> ('s, unit) io" where
  "quarantine_tx S now fs quarantineErr =
     andThen (for_each (quarantine_one S now) fs) (\<lambda>_.
     let linkID = frag_LinkID (hd fs) in
     andThen (wrapping (''load federation link '' @ linkID @ '' before fragment quarantine'')
       (st_LinkByID S linkID)) (\<lambda>l0.
     let l = with_link_failure quarantineErr now l0 in
     andThen (wrapping (''save federation link '' @ link_ID l @ '' after fragment quarantine'')
       (st_SaveLink S l)) (\<lambda>_. ret ())))"

definition quarantineInboundFragments ::
    "'s service \<Rightarrow> fragment list \<Rightarrow> error option \<Rightarrow> ('s world, unit) io" where
  "quarantineInboundFragments sv fs quarantineErr =
     (if fs = [] then ret ()
      else on_store (within_tx (quarantine_tx (svc_store sv) (currentTime sv) fs quarantineErr)))"

subsection \<open>Saving a fragment\<close>

definition inbound_fragment_guard ::
    "'s service \<Rightarrow> go_context \<Rightarrow> fragment list \<Rightarrow> fragment \<Rightarrow> ('s world, unit) io" where
  "inbound_fragment_guard sv ctx existing f =
     andThen (reject_if (isInboundFragmentBundleTerminal existing \<and>
       \<not> containsFragmentDedupKey existing (frag_DedupKey f)) ErrConflict) (\<lambda>_.
     andThen (wrapping (''load federation cursor for inbound fragment '' @ frag_PeerID f @ ''/'' @
         frag_LinkID f)
       (ReplicationCursorByPeerAndLink sv ctx (frag_PeerID f) (frag_LinkID f))) (\<lambda>c.
     andThen (reject_if (frag_CursorTo f \<le> cur_LastReceivedCursor c) ErrConflict) (\<lambda>_.
     case validateInboundFragmentCandidate existing f of
       Inl e \<Rightarrow> andThen (quarantineInboundFragments sv existing (Some e)) (\<lambda>_. raise e)
     | Inr _ \<Rightarrow> ret ())))"

definition fragment_of_params ::
    "string \<Rightarrow> string \<Rightarrow> string \<Rightarrow> string \<Rightarrow> string \<Rightarrow> save_fragment_params \<Rightarrow> fragment" where
  "fragment_of_params fragmentID peerID linkID bundleID dedupKey params = \<lparr>
     frag_ID = fragmentID,
     frag_PeerID = peerID,
     frag_LinkID = linkID,
     frag_BundleID = bundleID,
     frag_DedupKey = dedupKey,
     frag_Direction = sfp_Direction params,
     frag_CursorFrom = sfp_CursorFrom params,
     frag_CursorTo = sfp_CursorTo params,
     frag_EventCount = sfp_EventCount params,
     frag_PayloadType = sfp_PayloadType params,
     frag_Compression = sfp_Compression params,
     frag_IntegrityHash = sfp_IntegrityHash params,
     frag_AuthTag = sfp_AuthTag params,
     frag_FragmentIndex = sfp_FragmentIndex params,
     frag_FragmentCount = sfp_FragmentCount params,
     frag_Payload = sfp_Payload params,
     frag_State = [], frag_LeaseToken = [], frag_LeaseExpiresAt = zero_time,
     frag_AttemptCount = 0, frag_CreatedAt = zero_time,
     frag_AvailableAt = sfp_AvailableAt params,
     frag_AckedAt = zero_time\<rparr>"

definition saveFragment ::
    "'s service \<Rightarrow> go_context \<Rightarrow> save_fragment_params \<Rightarrow> ('s world, fragment) io" where
  "saveFragment sv ctx params =
     andThen (validateContext ctx ''save federation fragment'') (\<lambda>_.
     let peerID = trim_space (sfp_PeerID params);
       linkID = trim_space (sfp_LinkID params);
       bundleID = trim_space (sfp_BundleID params);
       dedupKey = trim_space (sfp_DedupKey params) in
     andThen (reject_if (peerID = [] \<or> linkID = [] \<or> bundleID = [] \<or> dedupKey = []) ErrInvalidInput) (\<lambda>_.
     andThen (wrapping (''load federation link '' @ linkID @ '' before fragment save'')
       (on_store (st_LinkByID (svc_store sv) linkID))) (\<lambda>l.
     andThen (reject_if (link_PeerID l \<noteq> peerID) ErrConflict) (\<lambda>_.
     andThen (reject_if (0 < link_MaxFragmentBytes l \<and>
       link_MaxFragmentBytes l < int (length (sfp_Payload params))) ErrInvalidInput) (\<lambda>_.
     andThen (wrapping ''generate federation fragment id'' (newID ''frag'')) (\<lambda>fragmentID.
     andThen (of_result (normalize_fragment
       (fragment_of_params fragmentID peerID linkID bundleID dedupKey params) (currentTime sv))) (\<lambda>f.
     let save = wrapping (''save federation fragment '' @ frag_BundleID f)
       (on_store (st_SaveFragment (svc_store sv) f)) in
     if frag_Direction f = BundleDirectionInbound
     then andThen (wrapping (''load inbound fragments for bundle '' @ frag_BundleID f @ '' before save'')
         (on_store (st_FragmentsByBundle (svc_store sv) (frag_BundleID f) BundleDirectionInbound)))
         (\<lambda>existing.
       if containsFragmentDedupKey existing (frag_DedupKey f) then save
       else andThen (inbound_fragment_guard sv ctx existing f) (\<lambda>_. save))
     else save)))))))"

subsection \<open>The outbound side\<close>

definition outbound_fragment_params :: "fed_bundle \<Rightarrow> int \<Rightarrow> int \<Rightarrow> bytes \<Rightarrow> save_fragment_params" where
  "outbound_fragment_params b idx count payload = \<lparr>
     sfp_PeerID = bundle_PeerID b,
     sfp_LinkID = bundle_LinkID b,
     sfp_BundleID = bundle_ID b,
     sfp_DedupKey = fragmentDedupKey (bundle_DedupKey b) idx,
     sfp_Direction = BundleDirectionOutbound,
     sfp_CursorFrom = bundle_CursorFrom b,
     sfp_CursorTo = bundle_CursorTo b,
     sfp_EventCount = bundle_EventCount b,
     sfp_PayloadType = bundle_PayloadType b,
     sfp_Compression = bundle_Compression b,
     sfp_IntegrityHash = bundle_IntegrityHash b,
     sfp_AuthTag = bundle_AuthTag b,
     sfp_FragmentIndex = idx,
     sfp_FragmentCount = count,
     sfp_Payload = payload,
     sfp_AvailableAt = bundle_AvailableAt b\<rparr>"

definition fragment_max_bytes :: "link \<Rightarrow> int" where
  "fragment_max_bytes l =
     (let m1 = link_MaxFragmentBytes l;
        m2 = (if m1 \<le> 0 then link_MaxBundleBytes l else m1)
      in if m2 \<le> 0 then 256 else m2)"

definition ensureOutboundFragments ::
    "'s service \<Rightarrow> go_context \<Rightarrow> link \<Rightarrow> fed_bundle \<Rightarrow> ('s world, fragment list) io" where
  "ensureOutboundFragments sv ctx l b =
     andThen (wrapping (''load federation fragments for bundle '' @ bundle_ID b)
       (on_store (st_FragmentsByBundle (svc_store sv) (bundle_ID b) BundleDirectionOutbound)))
       (\<lambda>existing.
     if existing \<noteq> [] then ret existing
     else let parts = splitPayload (bundle_Payload b) (fragment_max_bytes l) in
       for_each (\<lambda>(idx, payload). saveFragment sv ctx
           (outbound_fragment_params b (int idx) (int (length parts)) payload))
         (List.enumerate 0 parts))"

definition claimBridgeFragments ::
    "'s service \<Rightarrow> peer \<Rightarrow> link \<Rightarrow> int \<Rightarrow> ('s world, fragment list \<times> string) io" where
  "claimBridgeFragments sv p l limit =
     andThen (wrapping ''generate federation bridge lease token'' (randomToken 18)) (\<lambda>leaseToken.
     andThen (wrapping (''claim federation bridge fragments for '' @ peer_ServerName p @ ''/'' @
         link_Name l)
       (on_store (st_ClaimFragments (svc_store sv) \<lparr>
         cfp_PeerID = peer_ID p,
         cfp_LinkID = link_ID l,
         cfp_Limit = limit,
         cfp_ClaimedAt = currentTime sv,
         cfp_LeaseToken = leaseToken,
         cfp_LeaseExpiresAt = currentTime sv + svc_bridgeFragmentLeaseTTL sv\<rparr>))) (\<lambda>fs.
     if fs = [] then ret ([], []) else ret (fs, leaseToken)))"

abbreviation defaultBridgeFragmentLimit :: int where
  "defaultBridgeFragmentLimit \<equiv> 256"

definition PullBridgeFragments ::
    "'s service \<Rightarrow> go_context \<Rightarrow> string \<Rightarrow> string \<Rightarrow> int \<Rightarrow>
     ('s world, fragment list \<times> link \<times> cursor \<times> bool \<times> string) io" where
  "PullBridgeFragments sv ctx peerServerName linkName limit0 =
     andThen (validateContext ctx ''pull federation bridge fragments'') (\<lambda>_.
     let limit = (if limit0 \<le> 0 then defaultBridgeFragmentLimit else limit0) in
     andThen (bridgeLinkByServerAndName sv ctx peerServerName linkName) (\<lambda>(p, l).
     andThen (claimBridgeFragments sv p l limit) (\<lambda>(fs0, token0).
     andThen (if fs0 \<noteq> [] then ret (fs0, token0)
       else andThen (ReplicationCursorByPeerAndLink sv ctx (peer_ID p) (link_ID l)) (\<lambda>c.
         andThen (wrapping (''list outbound federation bundles for bridge '' @ peer_ServerName p @
             ''/'' @ link_Name l)
           (on_store (st_BundlesAfter (svc_store sv) (peer_ID p) (link_ID l)
             BundleDirectionOutbound (cur_LastAckedCursor c) limit))) (\<lambda>bundles.
         andThen (for_each (ensureOutboundFragments sv ctx l) bundles) (\<lambda>_.
         claimBridgeFragments sv p l limit)))) (\<lambda>(fs, leaseToken).
     andThen (if fs = [] then ret False
       else wrapping (''check remaining federation bridge fragments for '' @ peer_ServerName p @
           ''/'' @ link_Name l)
         (on_store (st_HasClaimableFragments (svc_store sv) (peer_ID p) (link_ID l)
           (currentTime sv)))) (\<lambda>hasMore.
     andThen (ReplicationCursorByPeerAndLink sv ctx (peer_ID p) (link_ID l)) (\<lambda>c.
     ret (fs, l, c, hasMore, leaseToken)))))))"

fun first_by :: "('a \<Rightarrow> 'b) \<Rightarrow> 'b list \<Rightarrow> 'a list \<Rightarrow> 'a list" where
  "first_by key seen [] = []"
| "first_by key seen (x # xs) =
     (if key x \<in> set seen then first_by key seen xs else x # first_by key (key x # seen) xs)"

text \<open>
  The loop over the acknowledged fragments looks at each bundle once and keeps those whose
  fragments are all acknowledged, with the highest cursor among them.
\<close>

definition fully_acknowledged :: "'s service \<Rightarrow> fragment \<Rightarrow> ('s world, fragment \<times> bool) io" where
  "fully_acknowledged sv f =
     andThen (wrapping (''load fragments for bundle '' @ frag_BundleID f)
       (on_store (st_FragmentsByBundle (svc_store sv) (frag_BundleID f) BundleDirectionOutbound)))
       (\<lambda>fs. ret (f, allFragmentsAcknowledged fs))"

definition AcknowledgeBridgeFragments ::
    "'s service \<Rightarrow> go_context \<Rightarrow> string \<Rightarrow> string \<Rightarrow> string list \<Rightarrow> string \<Rightarrow> time \<Rightarrow>
     ('s world, fragment list \<times> cursor) io" where
  "AcknowledgeBridgeFragments sv ctx peerServerName linkName fragmentIDs leaseToken0 acknowledgedAt0 =
     andThen (validateContext ctx ''acknowledge federation bridge fragments'') (\<lambda>_.
     andThen (bridgeLinkByServerAndName sv ctx peerServerName linkName) (\<lambda>(p, l).
     let acknowledgedAt = or_time acknowledgedAt0 (currentTime sv);
       leaseToken = trim_space leaseToken0 in
     andThen (reject_if (fragmentIDs \<noteq> [] \<and> leaseToken = []) ErrInvalidInput) (\<lambda>_.
     andThen (wrapping (''acknowledge federation fragments for '' @ peer_ServerName p @ ''/'' @
         link_Name l)
       (on_store (st_AcknowledgeFragments (svc_store sv) \<lparr>
         afp_PeerID = peer_ID p, afp_LinkID = link_ID l, afp_FragmentIDs = fragmentIDs,
         afp_LeaseToken = leaseToken, afp_AcknowledgedAt = acknowledgedAt\<rparr>))) (\<lambda>updated.
     andThen (ReplicationCursorByPeerAndLink sv ctx (peer_ID p) (link_ID l)) (\<lambda>c0.
     andThen (for_each (fully_acknowledged sv) (first_by frag_BundleID [] updated)) (\<lambda>checked.
     let ready = List.map fst (List.filter snd checked) in
     if ready = [] then ret (updated, c0)
     else andThen (svc_AcknowledgeBundles sv ctx \<lparr>
         abp_PeerID = peer_ID p, abp_LinkID = link_ID l,
         abp_UpToCursor = fold max (List.map frag_CursorTo ready) 0,
         abp_BundleIDs = List.map frag_BundleID ready,
         abp_AcknowledgedAt = acknowledgedAt\<rparr>) (\<lambda>c.
       ret (updated, c))))))))"

subsection \<open>The inbound side\<close>

definition mark_assembled :: "'s service \<Rightarrow> fragment \<Rightarrow> ('s world, fragment) io" where
  "mark_assembled sv f = wrapping (''mark fragment '' @ frag_ID f @ '' assembled'')
     (on_store (st_SaveFragment (svc_store sv)
       (f\<lparr>frag_State := FragmentStateAssembled, frag_AckedAt := currentTime sv\<rparr>)))"

definition assembled_params :: "string \<Rightarrow> string \<Rightarrow> fragment list \<Rightarrow> save_bundle_params" where
  "assembled_params peerID linkID fs = (let first = hd fs in \<lparr>
     sbp_PeerID = peerID,
     sbp_LinkID = linkID,
     sbp_DedupKey = assembledBundleDedupKey (frag_BundleID first),
     sbp_Direction = [],
     sbp_CursorFrom = frag_CursorFrom first,
     sbp_CursorTo = frag_CursorTo first,
     sbp_EventCount = frag_EventCount first,
     sbp_PayloadType = frag_PayloadType first,
     sbp_Payload = concat (List.map frag_Payload fs),
     sbp_Compression = frag_Compression first,
     sbp_IntegrityHash = frag_IntegrityHash first,
     sbp_AuthTag = frag_AuthTag first,
     sbp_AvailableAt = frag_AvailableAt first,
     sbp_ExpiresAt = zero_time\<rparr>)"

text \<open>\<open>None\<close> stands for the result that the bundle is not complete yet.\<close>

definition assembleInboundBundleIfComplete ::
    "'s service \<Rightarrow> go_context \<Rightarrow> string \<Rightarrow> string \<Rightarrow> string \<Rightarrow> ('s world, fed_bundle option) io" where
  "assembleInboundBundleIfComplete sv ctx peerID linkID bundleID =
     andThen (wrapping (''load inbound fragments for bundle '' @ bundleID)
       (on_store (st_FragmentsByBundle (svc_store sv) bundleID BundleDirectionInbound))) (\<lambda>fs.
     if fs = [] then ret None
     else if isInboundFragmentBundleTerminal fs then ret None
     else (case fragmentsComplete fs of
         Inl e \<Rightarrow> andThen (quarantineInboundFragments sv fs (Some e)) (\<lambda>_. raise e)
       | Inr complete \<Rightarrow>
           if \<not> complete then ret None
           else andThen (attempt (AcceptInboundBundle sv ctx (assembled_params peerID linkID fs))) (\<lambda>r.
             case r of
               Inl e \<Rightarrow>
                 if error_is e ErrUnauthorized \<or> error_is e ErrConflict \<or> error_is e ErrInvalidInput
                 then andThen (quarantineInboundFragments sv fs (Some e)) (\<lambda>_. raise e)
                 else raise e
             | Inr b \<Rightarrow> andThen (for_each (mark_assembled sv) fs) (\<lambda>_. ret (Some b)))))"

definition SubmitBridgeFragments ::
    "'s service \<Rightarrow> go_context \<Rightarrow> string \<Rightarrow> string \<Rightarrow> save_fragment_params list \<Rightarrow>
     ('s world, fragment list \<times> fed_bundle list \<times> cursor) io" where
  "SubmitBridgeFragments sv ctx peerServerName linkName fragments =
     andThen (validateContext ctx ''submit federation bridge fragments'') (\<lambda>_.
     andThen (bridgeLinkByServerAndName sv ctx peerServerName linkName) (\<lambda>(p, l).
     andThen (for_each (\<lambda>params. saveFragment sv ctx (params\<lparr>sfp_PeerID := peer_ID p,
       sfp_LinkID := link_ID l, sfp_Direction := BundleDirectionInbound\<rparr>)) fragments) (\<lambda>accepted.
     andThen (for_each (assembleInboundBundleIfComplete sv ctx (peer_ID p) (link_ID l))
       (keep_first [] (List.map frag_BundleID accepted))) (\<lambda>results.
     andThen (ReplicationCursorByPeerAndLink sv ctx (peer_ID p) (link_ID l)) (\<lambda>c.
     ret (accepted, List.map_filter (\<lambda>r. r) results, c))))))"

end
