(* ===== verification/GoIndex.thy ===== *)
theory GoIndex
  imports GoPrelude
begin

section \<open>Maps of records and their indexes\<close>

text \<open>
  The in-memory stores keep records under their identifier and, for each secondary key, an
  index from the key to the identifier. The theory states when such a pair is consistent and
  what the usual updates keep of it.
\<close>

text \<open>An index entry that belongs to another identifier.\<close>

definition taken_by_other :: "(string, string) gomap \<Rightarrow> string \<Rightarrow> string \<Rightarrow> bool" where
  "taken_by_other index key own \<longleftrightarrow>
     (case lookup index key of None \<Rightarrow> False | Some existingID \<Rightarrow> existingID \<noteq> own)"

text \<open>The indexed value of a deduplication key; an index entry without a value is stale.\<close>

definition indexed :: "(string, string) gomap \<Rightarrow> (string, 'a) gomap \<Rightarrow> string \<Rightarrow> 'a option" where
  "indexed index vals key =
     (case lookup index key of None \<Rightarrow> None | Some i \<Rightarrow> lookup vals i)"

text \<open>
  An index is exact when it maps the key of every value to the value's identifier and
  nothing else.
\<close>

definition exact_index ::
    "('v \<Rightarrow> string) \<Rightarrow> (string, string) gomap \<Rightarrow> (string, 'v) gomap \<Rightarrow> bool" where
  "exact_index key index vals \<longleftrightarrow>
     (\<forall>n i. lookup index n = Some i \<longleftrightarrow> (\<exists>v. lookup vals i = Some v \<and> key v = n))"

definition keyed_by :: "('v \<Rightarrow> string) \<Rightarrow> ('v \<Rightarrow> bool) \<Rightarrow> (string, 'v) gomap \<Rightarrow> bool" where
  "keyed_by ident P vals \<longleftrightarrow>
     gomap_ok vals \<and> (\<forall>i v. lookup vals i = Some v \<longrightarrow> ident v = i \<and> P v)"

lemma keyed_by_empty [simp]: "keyed_by ident P []"
  by (simp add: keyed_by_def)

lemma keyed_by_put [intro]:
  "keyed_by ident P vals \<Longrightarrow> P v \<Longrightarrow> ident v = i \<Longrightarrow> keyed_by ident P (put i v vals)"
  by (auto simp: keyed_by_def)

lemma keyed_byD:
  "keyed_by ident P vals \<Longrightarrow> lookup vals i = Some v \<Longrightarrow> ident v = i"
  "keyed_by ident P vals \<Longrightarrow> lookup vals i = Some v \<Longrightarrow> P v"
  by (auto simp: keyed_by_def)

lemma keyed_by_entries:
  "keyed_by ident P vals \<Longrightarrow> v \<in> set (entries vals) \<longleftrightarrow> lookup vals (ident v) = Some v"
  unfolding keyed_by_def by (metis entries_lookup)

lemma keyed_by_map_entries:
  assumes "keyed_by ident P vals"
    and "\<And>i v. P v \<Longrightarrow> ident v = i \<Longrightarrow> ident (f i v) = i \<and> P (f i v)"
  shows "keyed_by ident P (map_entries f vals)"
  using assms by (auto simp: keyed_by_def)

lemma keyed_by_distinct:
  assumes "keyed_by ident P vals"
  shows "distinct (List.map ident (entries vals))"
proof -
  have "\<And>x. x \<in> set vals \<Longrightarrow> ident (snd x) = fst x"
    using assms unfolding keyed_by_def by (metis map_of_is_SomeI prod.collapse)
  then have eq: "List.map ident (entries vals) = List.map fst vals" by simp
  show ?thesis unfolding eq using assms by (simp add: keyed_by_def)
qed

lemma exact_index_empty [simp]: "exact_index key [] []"
  by (simp add: exact_index_def)

text \<open>Replacing a value under its identifier: the old key leaves the index, the new one enters.\<close>

lemma exact_index_put:
  assumes "exact_index key index vals" "\<not> taken_by_other index (key v) i"
  shows "exact_index key (put (key v) i
      (case lookup vals i of Some w \<Rightarrow> remove (key w) index | None \<Rightarrow> index)) (put i v vals)"
  unfolding exact_index_def
proof (intro allI)
  fix n j
  define old_index where
    "old_index = (case lookup vals i of Some w \<Rightarrow> remove (key w) index | None \<Rightarrow> index)"
  have ix: "lookup index n = Some j \<longleftrightarrow> (\<exists>w. lookup vals j = Some w \<and> key w = n)" for n j
    using assms(1) by (simp add: exact_index_def)
  have own: "lookup index (key v) = Some j \<Longrightarrow> j = i" for j
    using assms(2) by (simp add: taken_by_other_def)
  have old: "lookup old_index n = Some j \<longleftrightarrow> lookup index n = Some j \<and> j \<noteq> i"
  proof (cases "lookup vals i")
    case None
    then have "old_index = index" by (simp add: old_index_def)
    moreover have "lookup index n \<noteq> Some i" using ix None by simp
    ultimately show ?thesis by auto
  next
    case (Some w)
    have "lookup index (key w) = Some i" using ix Some by blast
    moreover have "lookup index n = Some i \<Longrightarrow> n = key w" using ix Some by simp
    moreover have "lookup old_index = (lookup index)(key w := None)"
      by (simp add: old_index_def Some)
    ultimately show ?thesis by (cases "n = key w") auto
  qed
  have "lookup (put (key v) i old_index) n = Some j \<longleftrightarrow>
      (\<exists>w. lookup (put i v vals) j = Some w \<and> key w = n)"
  proof (cases "j = i")
    case True
    then show ?thesis using old by auto
  next
    case False
    with own have "lookup index (key v) \<noteq> Some j" by blast
    with False old ix [of n j] show ?thesis by auto
  qed
  then show "lookup (put (key v) i
      (case lookup vals i of Some w \<Rightarrow> remove (key w) index | None \<Rightarrow> index)) n = Some j \<longleftrightarrow>
      (\<exists>w. lookup (put i v vals) j = Some w \<and> key w = n)"
    unfolding old_index_def .
qed

lemma exact_index_unique:
  assumes "exact_index key index vals" "lookup vals i = Some v" "lookup vals j = Some w"
    and "key v = key w"
  shows "i = j"
  using assms unfolding exact_index_def by (metis option.inject)

lemma keyed_by_remove [intro]: "keyed_by ident P vals \<Longrightarrow> keyed_by ident P (remove i vals)"
  by (auto simp: keyed_by_def)

lemma exact_index_remove:
  assumes "exact_index key index vals" "lookup vals i = Some v"
  shows "exact_index key (remove (key v) index) (remove i vals)"
  unfolding exact_index_def
proof (intro allI)
  fix n j
  have ix: "lookup index n = Some j \<longleftrightarrow> (\<exists>w. lookup vals j = Some w \<and> key w = n)" for n j
    using assms(1) by (simp add: exact_index_def)
  have "lookup index (key v) = Some i" using ix assms(2) by blast
  with ix [of n j] assms(2) show "lookup (remove (key v) index) n = Some j \<longleftrightarrow>
      (\<exists>w. lookup (remove i vals) j = Some w \<and> key w = n)"
    by (cases "n = key v") auto
qed

lemma exact_index_lookup:
  "exact_index key index vals \<Longrightarrow> lookup index n = Some i \<Longrightarrow>
   \<exists>v. lookup vals i = Some v \<and> key v = n"
  by (simp add: exact_index_def)

lemma exact_index_insert:
  assumes "exact_index key index vals" "lookup vals i = None" "\<not> taken_by_other index (key v) i"
  shows "exact_index key (put (key v) i index) (put i v vals)"
  using exact_index_put [OF assms(1,3)] assms(2) by simp

lemma exact_index_replace:
  assumes "exact_index key index vals" "lookup vals i = Some w" "key v = key w"
  shows "exact_index key index (put i v vals)"
  using assms by (auto simp: exact_index_def)

text \<open>Only what can be looked up in an index matters.\<close>

lemma exact_index_cong:
  "lookup index = lookup index' \<Longrightarrow> exact_index key index vals \<Longrightarrow> exact_index key index' vals"
  by (simp add: exact_index_def)

subsection \<open>Writing a batch back\<close>

definition put_all :: "('v \<Rightarrow> 'k) \<Rightarrow> 'v list \<Rightarrow> ('k, 'v) gomap \<Rightarrow> ('k, 'v) gomap" where
  "put_all ident vs m = fold (\<lambda>v. put (ident v) v) vs m"

lemma put_all_simps [simp]:
  "put_all ident [] m = m"
  "put_all ident (v # vs) m = put_all ident vs (put (ident v) v m)"
  by (simp_all add: put_all_def)

lemma lookup_put_all_other:
  "i \<notin> set (List.map ident vs) \<Longrightarrow> lookup (put_all ident vs m) i = lookup m i"
  by (induction vs arbitrary: m) auto

lemma lookup_put_all:
  "distinct (List.map ident vs) \<Longrightarrow> v \<in> set vs \<Longrightarrow> lookup (put_all ident vs m) (ident v) = Some v"
proof (induction vs arbitrary: m)
  case (Cons w vs)
  then show ?case by (cases "v = w") (auto simp: lookup_put_all_other)
qed simp

lemma keyed_by_put_all:
  "keyed_by ident P m \<Longrightarrow> (\<And>v. v \<in> set vs \<Longrightarrow> P v) \<Longrightarrow> keyed_by ident P (put_all ident vs m)"
  by (induction vs arbitrary: m) (auto intro!: keyed_by_put)

lemma distinct_map_sort_key: "distinct (List.map f (sort_key k xs)) = distinct (List.map f xs)"
  by (simp add: distinct_map)

text \<open>The first values, in some order, that a condition selects from a map.\<close>

lemma distinct_selection:
  assumes "keyed_by ident P vals"
  shows "distinct (List.map ident (take n (sort_key k (List.filter Q (entries vals)))))"
  unfolding take_map [symmetric] using keyed_by_distinct [OF assms]
  by (intro distinct_take) (simp only: distinct_map_sort_key distinct_map_filter)

lemma selection_entry:
  assumes "keyed_by ident P vals" "v \<in> set (take n (sort_key k (List.filter Q (entries vals))))"
  shows "lookup vals (ident v) = Some v" "Q v"
proof -
  from in_set_takeD [OF assms(2)] have "v \<in> set (entries vals)" "Q v" by auto
  with keyed_by_entries [OF assms(1)] show "lookup vals (ident v) = Some v" "Q v" by auto
qed

end
