(* ===== verification/FedMemory.thy ===== *)
theory FedMemory
  imports FedStore GoIndex "HOL-Library.Product_Lexorder"
begin

section \<open>The in-memory store (\<open>internal/domain/federation/teststore/store.go\<close>)\<close>

text \<open>
  The implementation of the store that the repository's tests run the service on: nine Go
  maps behind a mutex. The lock makes each method atomic, so a method is a function of the
  state. The clone helpers copy slices so that no caller shares them; the model's values
  are never shared, so they are identities. \<open>clock\<close> is the reading of \<open>nowUTC\<close>.
  \<open>sort.Slice\<close> leaves the order of equal keys open; the model keeps the order in which the
  map was visited, which is itself arbitrary.
\<close>

record mem =
  peersByID :: "(string, peer) gomap"
  peerIDsByServer :: "(string, string) gomap"
  linksByID :: "(string, link) gomap"
  linkIDsByPeerName :: "(string, string) gomap"
  bundlesByID :: "(string, fed_bundle) gomap"
  bundleIDsByDedup :: "(string, string) gomap"
  fragmentsByID :: "(string, fragment) gomap"
  fragmentIDsByDedup :: "(string, string) gomap"
  cursorsByKey :: "(string, cursor) gomap"

definition NewMemoryStore :: mem where
  "NewMemoryStore = \<lparr>peersByID = [], peerIDsByServer = [], linksByID = [], linkIDsByPeerName = [],
     bundlesByID = [], bundleIDsByDedup = [], fragmentsByID = [], fragmentIDsByDedup = [],
     cursorsByKey = []\<rparr>"

definition peerNameKey :: "string \<Rightarrow> string \<Rightarrow> string" where
  "peerNameKey peerID name = peerID @ '':'' @ name"

definition cursorKey :: "string \<Rightarrow> string \<Rightarrow> string" where
  "cursorKey peerID linkID = peerID @ '':'' @ linkID"

subsection \<open>Peers\<close>

definition mem_SavePeer :: "time \<Rightarrow> peer \<Rightarrow> (mem, peer) io" where
  "mem_SavePeer clock peer0 = (\<lambda>s.
     case normalize_peer peer0 clock of
       Inl e \<Rightarrow> (Inl e, s)
     | Inr p \<Rightarrow>
         if taken_by_other (peerIDsByServer s) (peer_ServerName p) (peer_ID p)
         then (Inl ErrConflict, s)
         else let servers = (case lookup (peersByID s) (peer_ID p) of
                  Some previous \<Rightarrow> remove (peer_ServerName previous) (peerIDsByServer s)
                | None \<Rightarrow> peerIDsByServer s)
           in (Inr p, s\<lparr>peersByID := put (peer_ID p) p (peersByID s),
                 peerIDsByServer := put (peer_ServerName p) (peer_ID p) servers\<rparr>))"

definition mem_PeerByID :: "string \<Rightarrow> (mem, peer) io" where
  "mem_PeerByID peerID = (\<lambda>s. found_or (lookup (peersByID s) peerID) s)"

definition mem_PeerByServerName :: "string \<Rightarrow> (mem, peer) io" where
  "mem_PeerByServerName serverName = (\<lambda>s.
     case lookup (peerIDsByServer s) serverName of
       None \<Rightarrow> (Inl ErrNotFound, s)
     | Some peerID \<Rightarrow> found_or (lookup (peersByID s) peerID) s)"

definition mem_PeersByState :: "PeerState \<Rightarrow> (mem, peer list) io" where
  "mem_PeersByState st = (\<lambda>s.
     (Inr (sort_key (\<lambda>p. (peer_CreatedAt p, peer_ID p))
        (List.filter (\<lambda>p. \<not> (st \<noteq> [] \<and> peer_State p \<noteq> st)) (entries (peersByID s)))), s))"

subsection \<open>Links\<close>

definition mem_SaveLink :: "time \<Rightarrow> link \<Rightarrow> (mem, link) io" where
  "mem_SaveLink clock link0 = (\<lambda>s.
     case normalize_link link0 clock of
       Inl e \<Rightarrow> (Inl e, s)
     | Inr l \<Rightarrow>
         if lookup (peersByID s) (link_PeerID l) = None then (Inl ErrNotFound, s)
         else let indexKey = peerNameKey (link_PeerID l) (link_Name l) in
         if taken_by_other (linkIDsByPeerName s) indexKey (link_ID l) then (Inl ErrConflict, s)
         else let names = (case lookup (linksByID s) (link_ID l) of
                  Some previous \<Rightarrow> remove (peerNameKey (link_PeerID previous) (link_Name previous))
                    (linkIDsByPeerName s)
                | None \<Rightarrow> linkIDsByPeerName s)
           in (Inr l, s\<lparr>linksByID := put (link_ID l) l (linksByID s),
                 linkIDsByPeerName := put indexKey (link_ID l) names\<rparr>))"

definition mem_LinkByID :: "string \<Rightarrow> (mem, link) io" where
  "mem_LinkByID linkID = (\<lambda>s. found_or (lookup (linksByID s) linkID) s)"

definition mem_LinkByPeerAndName :: "string \<Rightarrow> string \<Rightarrow> (mem, link) io" where
  "mem_LinkByPeerAndName peerID name = (\<lambda>s.
     case lookup (linkIDsByPeerName s) (peerNameKey peerID name) of
       None \<Rightarrow> (Inl ErrNotFound, s)
     | Some linkID \<Rightarrow> found_or (lookup (linksByID s) linkID) s)"

definition mem_Links :: "string \<Rightarrow> LinkState \<Rightarrow> (mem, link list) io" where
  "mem_Links peerID st = (\<lambda>s.
     (Inr (sort_key (\<lambda>l. (link_CreatedAt l, link_ID l))
        (List.filter (\<lambda>l. \<not> (peerID \<noteq> [] \<and> link_PeerID l \<noteq> peerID) \<and>
             \<not> (st \<noteq> [] \<and> link_State l \<noteq> st)) (entries (linksByID s)))), s))"

subsection \<open>Bundles\<close>

text \<open>
  The source deletes a stale index entry and then falls through to the insertion, which
  overwrites the entry of the same key.
\<close>

definition mem_SaveBundle :: "time \<Rightarrow> fed_bundle \<Rightarrow> (mem, fed_bundle) io" where
  "mem_SaveBundle clock bundle0 = (\<lambda>s.
     case normalize_bundle bundle0 clock of
       Inl e \<Rightarrow> (Inl e, s)
     | Inr b \<Rightarrow>
         (case lookup (linksByID s) (bundle_LinkID b) of
            None \<Rightarrow> (Inl ErrNotFound, s)
          | Some l \<Rightarrow>
              if link_PeerID l \<noteq> bundle_PeerID b then (Inl ErrConflict, s)
              else (case indexed (bundleIDsByDedup s) (bundlesByID s) (bundle_DedupKey b) of
                  Some existing \<Rightarrow>
                    if \<not> same_bundle_owner existing b then (Inl ErrConflict, s)
                    else if \<not> same_bundle_content existing b then (Inl ErrConflict, s)
                    else (Inr existing, s)
                | None \<Rightarrow>
                    (Inr b, s\<lparr>bundlesByID := put (bundle_ID b) b (bundlesByID s),
                       bundleIDsByDedup := put (bundle_DedupKey b) (bundle_ID b)
                         (bundleIDsByDedup s)\<rparr>))))"

definition mem_BundleByDedupKey :: "string \<Rightarrow> (mem, fed_bundle) io" where
  "mem_BundleByDedupKey dedupKey = (\<lambda>s.
     found_or (indexed (bundleIDsByDedup s) (bundlesByID s) dedupKey) s)"

definition mem_BundlesAfter ::
    "string \<Rightarrow> string \<Rightarrow> BundleDirection \<Rightarrow> uint64 \<Rightarrow> int \<Rightarrow> (mem, fed_bundle list) io" where
  "mem_BundlesAfter peerID linkID direction afterCursor limit = (\<lambda>s.
     if limit \<le> 0 then (Inr [], s)
     else (Inr (take (nat limit)
        (sort_key (\<lambda>b. (bundle_CursorTo b, bundle_CreatedAt b, bundle_ID b))
          (List.filter (\<lambda>b. \<not> (bundle_PeerID b \<noteq> peerID \<or> bundle_LinkID b \<noteq> linkID \<or>
               bundle_Direction b \<noteq> direction) \<and> \<not> bundle_CursorTo b \<le> afterCursor)
            (entries (bundlesByID s))))), s))"

definition mem_AcknowledgeBundles :: "ack_bundles_params \<Rightarrow> (mem, fed_bundle list) io" where
  "mem_AcknowledgeBundles p = (\<lambda>s.
     (Inr (List.map (\<lambda>(k, b). ack_bundle (abp_AcknowledgedAt p) b)
        (List.filter (\<lambda>(k, b). bundle_acked_by p k b) (bundlesByID s))),
      s\<lparr>bundlesByID := map_entries (\<lambda>k b. if bundle_acked_by p k b
          then ack_bundle (abp_AcknowledgedAt p) b else b) (bundlesByID s)\<rparr>))"

subsection \<open>Fragments\<close>

definition same_fragment_owner :: "fragment \<Rightarrow> fragment \<Rightarrow> bool" where
  "same_fragment_owner existing f \<longleftrightarrow>
     frag_PeerID existing = frag_PeerID f \<and>
     frag_LinkID existing = frag_LinkID f \<and>
     frag_BundleID existing = frag_BundleID f \<and>
     frag_Direction existing = frag_Direction f"

definition same_fragment_content :: "fragment \<Rightarrow> fragment \<Rightarrow> bool" where
  "same_fragment_content existing f \<longleftrightarrow>
     frag_CursorFrom existing = frag_CursorFrom f \<and>
     frag_CursorTo existing = frag_CursorTo f \<and>
     frag_EventCount existing = frag_EventCount f \<and>
     frag_PayloadType existing = frag_PayloadType f \<and>
     frag_Compression existing = frag_Compression f \<and>
     frag_IntegrityHash existing = frag_IntegrityHash f \<and>
     frag_AuthTag existing = frag_AuthTag f \<and>
     frag_FragmentIndex existing = frag_FragmentIndex f \<and>
     frag_FragmentCount existing = frag_FragmentCount f \<and>
     frag_Payload existing = frag_Payload f"

definition same_fragment_progress :: "fragment \<Rightarrow> fragment \<Rightarrow> bool" where
  "same_fragment_progress existing f \<longleftrightarrow>
     frag_State existing = frag_State f \<and>
     frag_AckedAt existing = frag_AckedAt f \<and>
     frag_LeaseToken existing = frag_LeaseToken f \<and>
     frag_LeaseExpiresAt existing = frag_LeaseExpiresAt f \<and>
     frag_AttemptCount existing = frag_AttemptCount f"

definition with_fragment_progress :: "fragment \<Rightarrow> fragment \<Rightarrow> fragment" where
  "with_fragment_progress existing f = existing\<lparr>
     frag_State := frag_State f,
     frag_LeaseToken := frag_LeaseToken f,
     frag_LeaseExpiresAt := frag_LeaseExpiresAt f,
     frag_AttemptCount := frag_AttemptCount f,
     frag_AvailableAt := frag_AvailableAt f,
     frag_AckedAt := frag_AckedAt f\<rparr>"

definition mem_SaveFragment :: "time \<Rightarrow> fragment \<Rightarrow> (mem, fragment) io" where
  "mem_SaveFragment clock fragment0 = (\<lambda>s.
     case normalize_fragment fragment0 clock of
       Inl e \<Rightarrow> (Inl e, s)
     | Inr f \<Rightarrow>
         (case lookup (linksByID s) (frag_LinkID f) of
            None \<Rightarrow> (Inl ErrNotFound, s)
          | Some l \<Rightarrow>
              if link_PeerID l \<noteq> frag_PeerID f then (Inl ErrConflict, s)
              else (case lookup (fragmentIDsByDedup s) (frag_DedupKey f) of
                  None \<Rightarrow>
                    (Inr f, s\<lparr>fragmentsByID := put (frag_ID f) f (fragmentsByID s),
                       fragmentIDsByDedup := put (frag_DedupKey f) (frag_ID f)
                         (fragmentIDsByDedup s)\<rparr>)
                | Some existingID \<Rightarrow>
                   (case lookup (fragmentsByID s) existingID of
                      None \<Rightarrow>
                        (Inr f, s\<lparr>fragmentsByID := put (frag_ID f) f (fragmentsByID s),
                           fragmentIDsByDedup := put (frag_DedupKey f) (frag_ID f)
                             (remove (frag_DedupKey f) (fragmentIDsByDedup s))\<rparr>)
                    | Some existing \<Rightarrow>
                        if \<not> same_fragment_owner existing f then (Inl ErrConflict, s)
                        else if \<not> same_fragment_content existing f then (Inl ErrConflict, s)
                        else if frag_Direction existing = BundleDirectionInbound \<and>
                             fragment_terminal existing then (Inr existing, s)
                        else if \<not> same_fragment_progress existing f
                        then let updated = with_fragment_progress existing f
                          in (Inr updated,
                              s\<lparr>fragmentsByID := put existingID updated (fragmentsByID s),
                                fragmentIDsByDedup := put (frag_DedupKey f) existingID
                                  (fragmentIDsByDedup s)\<rparr>)
                        else (Inr existing, s)))))"

text \<open>The outbound fragments a claim at a given time may take.\<close>

definition fragment_claimable :: "string \<Rightarrow> string \<Rightarrow> time \<Rightarrow> fragment \<Rightarrow> bool" where
  "fragment_claimable peerID linkID at f \<longleftrightarrow>
     frag_PeerID f = peerID \<and> frag_LinkID f = linkID \<and>
     frag_Direction f = BundleDirectionOutbound \<and>
     (if frag_State f = FragmentStateQueued then \<not> at < frag_AvailableAt f
      else if frag_State f = FragmentStateClaimed
        then \<not> (frag_LeaseExpiresAt f = zero_time \<or> at < frag_LeaseExpiresAt f)
      else False)"

definition claim_order :: "fragment \<Rightarrow> time \<times> uint64 \<times> string \<times> int" where
  "claim_order f = (frag_AvailableAt f, frag_CursorTo f, frag_BundleID f, frag_FragmentIndex f)"

definition claim_fragment :: "claim_fragments_params \<Rightarrow> fragment \<Rightarrow> fragment" where
  "claim_fragment p f = f\<lparr>
     frag_State := FragmentStateClaimed,
     frag_LeaseToken := cfp_LeaseToken p,
     frag_LeaseExpiresAt := cfp_LeaseExpiresAt p,
     frag_AttemptCount := frag_AttemptCount f + 1\<rparr>"

definition put_fragments :: "fragment list \<Rightarrow> (string, fragment) gomap \<Rightarrow> (string, fragment) gomap" where
  "put_fragments fs m = put_all frag_ID fs m"

definition claim_batch :: "time \<Rightarrow> claim_fragments_params \<Rightarrow> mem \<Rightarrow> fragment list" where
  "claim_batch clock p s = take (nat (cfp_Limit p)) (sort_key claim_order
     (List.filter (fragment_claimable (cfp_PeerID p) (cfp_LinkID p) (or_time (cfp_ClaimedAt p) clock))
       (entries (fragmentsByID s))))"

definition mem_ClaimFragments :: "time \<Rightarrow> claim_fragments_params \<Rightarrow> (mem, fragment list) io" where
  "mem_ClaimFragments clock p = (\<lambda>s.
     if cfp_Limit p \<le> 0 then (Inr [], s)
     else if cfp_PeerID p = [] \<or> cfp_LinkID p = [] \<or> cfp_LeaseToken p = [] \<or>
       cfp_LeaseExpiresAt p = zero_time then (Inl ErrInvalidInput, s)
     else let claimed = List.map (claim_fragment p) (claim_batch clock p s)
     in (Inr claimed, s\<lparr>fragmentsByID := put_fragments claimed (fragmentsByID s)\<rparr>))"

definition mem_HasClaimableFragments :: "time \<Rightarrow> string \<Rightarrow> string \<Rightarrow> time \<Rightarrow> (mem, bool) io" where
  "mem_HasClaimableFragments clock peerID linkID claimedAt = (\<lambda>s.
     (Inr (list_ex (fragment_claimable peerID linkID (or_time claimedAt clock))
        (entries (fragmentsByID s))), s))"

definition mem_Fragments ::
    "string \<Rightarrow> string \<Rightarrow> BundleDirection \<Rightarrow> FragmentState \<Rightarrow> int \<Rightarrow> (mem, fragment list) io" where
  "mem_Fragments peerID linkID direction st limit = (\<lambda>s.
     if limit \<le> 0 then (Inr [], s)
     else (Inr (take (nat limit) (sort_key claim_order
        (List.filter (\<lambda>f. \<not> (frag_PeerID f \<noteq> peerID \<or> frag_LinkID f \<noteq> linkID \<or>
             frag_Direction f \<noteq> direction) \<and> \<not> (st \<noteq> [] \<and> frag_State f \<noteq> st))
          (entries (fragmentsByID s))))), s))"

definition mem_FragmentsByBundle :: "string \<Rightarrow> BundleDirection \<Rightarrow> (mem, fragment list) io" where
  "mem_FragmentsByBundle bundleID direction = (\<lambda>s.
     (Inr (sort_key (\<lambda>f. (frag_FragmentIndex f, frag_ID f))
        (List.filter (\<lambda>f. \<not> (frag_BundleID f \<noteq> bundleID \<or> frag_Direction f \<noteq> direction))
          (entries (fragmentsByID s)))), s))"

text \<open>The fragments \<open>AcknowledgeFragments\<close> updates: those held under the presented lease.\<close>

definition fragment_acked_by :: "ack_fragments_params \<Rightarrow> string \<Rightarrow> fragment \<Rightarrow> bool" where
  "fragment_acked_by p fragmentID f \<longleftrightarrow>
     frag_PeerID f = afp_PeerID p \<and> frag_LinkID f = afp_LinkID p \<and>
     frag_Direction f = BundleDirectionOutbound \<and>
     frag_State f = FragmentStateClaimed \<and> frag_LeaseToken f = afp_LeaseToken p \<and>
     fragmentID \<noteq> [] \<and> fragmentID \<in> set (afp_FragmentIDs p)"

definition ack_fragment :: "time \<Rightarrow> fragment \<Rightarrow> fragment" where
  "ack_fragment at f = f\<lparr>
     frag_State := FragmentStateAcknowledged,
     frag_LeaseToken := [],
     frag_LeaseExpiresAt := zero_time,
     frag_AckedAt := at\<rparr>"

definition mem_AcknowledgeFragments :: "ack_fragments_params \<Rightarrow> (mem, fragment list) io" where
  "mem_AcknowledgeFragments p = (\<lambda>s.
     (Inr (sort_key (\<lambda>f. (frag_BundleID f, frag_FragmentIndex f))
        (List.map (\<lambda>(k, f). ack_fragment (afp_AcknowledgedAt p) f)
          (List.filter (\<lambda>(k, f). fragment_acked_by p k f) (fragmentsByID s)))),
      s\<lparr>fragmentsByID := map_entries (\<lambda>k f. if fragment_acked_by p k f
          then ack_fragment (afp_AcknowledgedAt p) f else f) (fragmentsByID s)\<rparr>))"

subsection \<open>Cursors\<close>

definition mem_SaveCursor :: "time \<Rightarrow> cursor \<Rightarrow> (mem, cursor) io" where
  "mem_SaveCursor clock cursor0 = (\<lambda>s.
     case normalize_cursor cursor0 clock of
       Inl e \<Rightarrow> (Inl e, s)
     | Inr c \<Rightarrow> (Inr c,
         s\<lparr>cursorsByKey := put (cursorKey (cur_PeerID c) (cur_LinkID c)) c (cursorsByKey s)\<rparr>))"

definition mem_CursorByPeerAndLink :: "string \<Rightarrow> string \<Rightarrow> (mem, cursor) io" where
  "mem_CursorByPeerAndLink peerID linkID = (\<lambda>s.
     found_or (lookup (cursorsByKey s) (cursorKey peerID linkID)) s)"

subsection \<open>The method table\<close>

definition memory_store :: "time \<Rightarrow> mem store_ops" where
  "memory_store clock = \<lparr>
     st_SavePeer = mem_SavePeer clock,
     st_PeerByID = mem_PeerByID,
     st_PeerByServerName = mem_PeerByServerName,
     st_PeersByState = mem_PeersByState,
     st_SaveLink = mem_SaveLink clock,
     st_LinkByID = mem_LinkByID,
     st_LinkByPeerAndName = mem_LinkByPeerAndName,
     st_Links = mem_Links,
     st_SaveBundle = mem_SaveBundle clock,
     st_BundleByDedupKey = mem_BundleByDedupKey,
     st_BundlesAfter = mem_BundlesAfter,
     st_AcknowledgeBundles = mem_AcknowledgeBundles,
     st_SaveFragment = mem_SaveFragment clock,
     st_ClaimFragments = mem_ClaimFragments clock,
     st_HasClaimableFragments = mem_HasClaimableFragments clock,
     st_Fragments = mem_Fragments,
     st_FragmentsByBundle = mem_FragmentsByBundle,
     st_AcknowledgeFragments = mem_AcknowledgeFragments,
     st_SaveCursor = mem_SaveCursor clock,
     st_CursorByPeerAndLink = mem_CursorByPeerAndLink\<rparr>"

subsection \<open>Well-formed states\<close>

text \<open>Exactly the claimed fragments hold a lease, and only outbound fragments are claimed.\<close>

definition lease_ok :: "fragment \<Rightarrow> bool" where
  "lease_ok f \<longleftrightarrow>
     (if frag_State f = FragmentStateClaimed
      then frag_Direction f = BundleDirectionOutbound \<and> frag_LeaseToken f \<noteq> [] \<and>
        frag_LeaseExpiresAt f \<noteq> zero_time
      else frag_LeaseToken f = [] \<and> frag_LeaseExpiresAt f = zero_time)"

definition fragment_shape :: "fragment \<Rightarrow> bool" where
  "fragment_shape f \<longleftrightarrow> 0 \<le> frag_FragmentIndex f \<and> frag_FragmentIndex f < frag_FragmentCount f \<and>
     frag_BundleID f \<noteq> [] \<and> frag_CursorFrom f \<le> frag_CursorTo f \<and> lease_ok f"

definition mem_ok :: "mem \<Rightarrow> bool" where
  "mem_ok s \<longleftrightarrow>
     keyed_by peer_ID peer_settled (peersByID s) \<and>
     exact_index peer_ServerName (peerIDsByServer s) (peersByID s) \<and>
     keyed_by link_ID (\<lambda>l. link_valid l \<and> lookup (peersByID s) (link_PeerID l) \<noteq> None) (linksByID s) \<and>
     exact_index (\<lambda>l. peerNameKey (link_PeerID l) (link_Name l)) (linkIDsByPeerName s) (linksByID s) \<and>
     keyed_by bundle_ID (\<lambda>b. bundle_CursorFrom b \<le> bundle_CursorTo b) (bundlesByID s) \<and>
     keyed_by frag_ID fragment_shape (fragmentsByID s) \<and>
     keyed_by (\<lambda>c. cursorKey (cur_PeerID c) (cur_LinkID c)) cursor_settled (cursorsByKey s)"

lemma mem_ok_peer:
  "mem_ok s \<Longrightarrow> lookup (peersByID s) i = Some p \<Longrightarrow> peer_ID p = i \<and> peer_settled p"
  by (simp add: mem_ok_def keyed_by_def)

lemma mem_ok_link:
  "mem_ok s \<Longrightarrow> lookup (linksByID s) i = Some l \<Longrightarrow> link_ID l = i \<and> link_valid l"
  by (simp add: mem_ok_def keyed_by_def)

lemma mem_ok_bundle:
  "mem_ok s \<Longrightarrow> lookup (bundlesByID s) i = Some b \<Longrightarrow>
   bundle_ID b = i \<and> bundle_CursorFrom b \<le> bundle_CursorTo b"
  by (simp add: mem_ok_def keyed_by_def)

lemma mem_ok_fragment:
  "mem_ok s \<Longrightarrow> lookup (fragmentsByID s) i = Some f \<Longrightarrow> frag_ID f = i \<and> fragment_shape f"
  by (simp add: mem_ok_def keyed_by_def)

lemma mem_ok_cursor:
  "mem_ok s \<Longrightarrow> lookup (cursorsByKey s) k = Some c \<Longrightarrow>
   cursorKey (cur_PeerID c) (cur_LinkID c) = k \<and> cursor_settled c"
  by (simp add: mem_ok_def keyed_by_def)

lemma mem_ok_fragments: "mem_ok s \<Longrightarrow> keyed_by frag_ID fragment_shape (fragmentsByID s)"
  by (simp add: mem_ok_def)

lemma mem_ok_New: "mem_ok NewMemoryStore"
  by (simp add: mem_ok_def NewMemoryStore_def)

lemma normalize_fragment_shape:
  assumes "normalize_fragment f now = Inr g"
  shows "fragment_shape g"
  using assms unfolding normalize_fragment_def Let_def io_inv
  by (auto simp: fragment_shape_def lease_ok_def incomplete_lease_def if_claimed_def)

lemma normalize_bundle_cursors:
  "normalize_bundle b now = Inr c \<Longrightarrow> bundle_CursorFrom c \<le> bundle_CursorTo c"
  unfolding normalize_bundle_def Let_def io_inv by (clarsimp simp: not_less)

lemma mem_SavePeer_ok:
  assumes "mem_ok s" "mem_SavePeer clock p s = (r, s')"
  shows "mem_ok s'"
proof (cases "s' = s")
  case False
  with assms(2) obtain q where q: "normalize_peer p clock = Inr q"
    and free: "\<not> taken_by_other (peerIDsByServer s) (peer_ServerName q) (peer_ID q)"
    and s': "s' = s\<lparr>peersByID := put (peer_ID q) q (peersByID s),
      peerIDsByServer := put (peer_ServerName q) (peer_ID q)
        (case lookup (peersByID s) (peer_ID q) of
           Some previous \<Rightarrow> remove (peer_ServerName previous) (peerIDsByServer s)
         | None \<Rightarrow> peerIDsByServer s)\<rparr>"
    by (auto simp: mem_SavePeer_def Let_def split: sum.splits if_splits)
  have links: "keyed_by link_ID
      (\<lambda>l. link_valid l \<and> lookup (put (peer_ID q) q (peersByID s)) (link_PeerID l) \<noteq> None) (linksByID s)"
    using assms(1) by (auto simp: mem_ok_def keyed_by_def)
  show ?thesis
    using assms(1) links peer_settledI [OF q]
    unfolding mem_ok_def s' by (auto intro!: exact_index_put free)
qed (use assms in simp)

lemma mem_SaveLink_ok:
  assumes "mem_ok s" "mem_SaveLink clock l s = (r, s')"
  shows "mem_ok s'"
proof (cases "s' = s")
  case False
  with assms(2) obtain k where k: "normalize_link l clock = Inr k"
    and peer: "lookup (peersByID s) (link_PeerID k) \<noteq> None"
    and free: "\<not> taken_by_other (linkIDsByPeerName s) (peerNameKey (link_PeerID k) (link_Name k))
        (link_ID k)"
    and s': "s' = s\<lparr>linksByID := put (link_ID k) k (linksByID s),
      linkIDsByPeerName := put (peerNameKey (link_PeerID k) (link_Name k)) (link_ID k)
        (case lookup (linksByID s) (link_ID k) of
           Some previous \<Rightarrow> remove (peerNameKey (link_PeerID previous) (link_Name previous))
             (linkIDsByPeerName s)
         | None \<Rightarrow> linkIDsByPeerName s)\<rparr>"
    by (auto simp: mem_SaveLink_def Let_def split: sum.splits if_splits)
  note index = exact_index_put [of "\<lambda>l. peerNameKey (link_PeerID l) (link_Name l)", OF _ free]
  show ?thesis
    using assms(1) peer normalize_link_valid [OF k]
    unfolding mem_ok_def s' by (auto intro!: index)
qed (use assms in simp)

lemma mem_SaveBundle_ok:
  assumes "mem_ok s" "mem_SaveBundle clock b s = (r, s')"
  shows "mem_ok s'"
proof (cases "s' = s")
  case False
  with assms(2) obtain c where c: "normalize_bundle b clock = Inr c"
    and s': "s' = s\<lparr>bundlesByID := put (bundle_ID c) c (bundlesByID s),
       bundleIDsByDedup := put (bundle_DedupKey c) (bundle_ID c) (bundleIDsByDedup s)\<rparr>"
    by (auto simp: mem_SaveBundle_def split: sum.splits option.splits if_splits)
  show ?thesis
    using assms(1) normalize_bundle_cursors [OF c] unfolding mem_ok_def s' by auto
qed (use assms in simp)

lemma mem_AcknowledgeBundles_ok:
  assumes "mem_ok s" "mem_AcknowledgeBundles p s = (r, s')"
  shows "mem_ok s'"
  using assms by (auto simp: mem_AcknowledgeBundles_def mem_ok_def ack_bundle_def
      intro!: keyed_by_map_entries)

lemma with_fragment_progress_shape:
  assumes "fragment_shape e" "fragment_shape f" "same_fragment_owner e f"
  shows "fragment_shape (with_fragment_progress e f)"
  using assms by (simp add: fragment_shape_def lease_ok_def with_fragment_progress_def
      same_fragment_owner_def)

lemma frag_ID_with_progress [simp]: "frag_ID (with_fragment_progress e f) = frag_ID e"
  by (simp add: with_fragment_progress_def)

lemma mem_SaveFragment_ok:
  assumes "mem_ok s" "mem_SaveFragment clock f s = (r, s')"
  shows "mem_ok s'"
proof (cases "s' = s")
  case False
  from assms(1) have frags: "keyed_by frag_ID fragment_shape (fragmentsByID s)"
    by (simp add: mem_ok_def)
  obtain g where g: "normalize_fragment f clock = Inr g"
    using assms(2) False by (cases "normalize_fragment f clock") (auto simp: mem_SaveFragment_def)
  note shape = normalize_fragment_shape [OF g]
  have upd: "keyed_by frag_ID fragment_shape
      (put i (with_fragment_progress e g) (fragmentsByID s))"
    if "lookup (fragmentsByID s) i = Some e" "same_fragment_owner e g" for i e
    using keyed_byD [OF frags that(1)] shape that(2)
    by (intro keyed_by_put frags with_fragment_progress_shape) auto
  obtain fs ix where s': "s' = s\<lparr>fragmentsByID := fs, fragmentIDsByDedup := ix\<rparr>"
    and "keyed_by frag_ID fragment_shape fs"
    using assms(2) False g upd keyed_by_put [OF frags shape]
    by (auto simp: mem_SaveFragment_def Let_def split: option.splits if_splits)
  with assms(1) show ?thesis unfolding s' mem_ok_def by simp
qed (use assms in simp)

lemma put_fragments_keyed:
  assumes "keyed_by frag_ID P m" "\<forall>f \<in> set fs. P f"
  shows "keyed_by frag_ID P (put_fragments fs m)"
  using assms unfolding put_fragments_def by (induction fs arbitrary: m) auto

lemma claim_fragment_shape:
  assumes "fragment_shape f" "fragment_claimable peerID linkID at f"
    and "cfp_LeaseToken p \<noteq> []" "cfp_LeaseExpiresAt p \<noteq> zero_time"
  shows "fragment_shape (claim_fragment p f)"
  using assms by (simp add: fragment_shape_def lease_ok_def claim_fragment_def fragment_claimable_def)

lemma set_claim_batch:
  assumes "f \<in> set (claim_batch clock p s)"
  shows "f \<in> set (entries (fragmentsByID s))"
    and "fragment_claimable (cfp_PeerID p) (cfp_LinkID p) (or_time (cfp_ClaimedAt p) clock) f"
  using in_set_takeD [OF assms [unfolded claim_batch_def]] by auto

lemma claim_batch_shape:
  assumes "mem_ok s" "f \<in> set (claim_batch clock p s)"
  shows "fragment_shape f \<and>
    fragment_claimable (cfp_PeerID p) (cfp_LinkID p) (or_time (cfp_ClaimedAt p) clock) f"
proof -
  have "keyed_by frag_ID fragment_shape (fragmentsByID s)" using assms(1) by (simp add: mem_ok_def)
  then show ?thesis
    using set_claim_batch [OF assms(2)] keyed_by_entries keyed_byD(2) by metis
qed

lemma mem_ClaimFragments_ok:
  assumes "mem_ok s" "mem_ClaimFragments clock p s = (r, s')"
  shows "mem_ok s'"
proof (cases "s' = s")
  case False
  with assms(2) have params: "cfp_LeaseToken p \<noteq> []" "cfp_LeaseExpiresAt p \<noteq> zero_time"
    and s': "s' = s\<lparr>fragmentsByID :=
      put_fragments (List.map (claim_fragment p) (claim_batch clock p s)) (fragmentsByID s)\<rparr>"
    by (auto simp: mem_ClaimFragments_def Let_def split: if_splits)
  from assms(1) have "keyed_by frag_ID fragment_shape (fragmentsByID s)"
    by (simp add: mem_ok_def)
  moreover have "\<forall>f \<in> set (List.map (claim_fragment p) (claim_batch clock p s)). fragment_shape f"
    using claim_batch_shape [OF assms(1)] params by (auto intro: claim_fragment_shape)
  ultimately have "keyed_by frag_ID fragment_shape (fragmentsByID s')"
    unfolding s' using put_fragments_keyed by simp
  with assms(1) s' show ?thesis by (simp add: mem_ok_def)
qed (use assms in simp)

lemma mem_AcknowledgeFragments_ok:
  assumes "mem_ok s" "mem_AcknowledgeFragments p s = (r, s')"
  shows "mem_ok s'"
  using assms by (auto simp: mem_AcknowledgeFragments_def mem_ok_def ack_fragment_def
      fragment_shape_def lease_ok_def intro!: keyed_by_map_entries)

lemma mem_SaveCursor_ok:
  assumes "mem_ok s" "mem_SaveCursor clock c s = (r, s')"
  shows "mem_ok s'"
proof (cases "s' = s")
  case False
  with assms(2) obtain d where d: "normalize_cursor c clock = Inr d"
    and s': "s' = s\<lparr>cursorsByKey := put (cursorKey (cur_PeerID d) (cur_LinkID d)) d (cursorsByKey s)\<rparr>"
    by (auto simp: mem_SaveCursor_def split: sum.splits)
  show ?thesis using assms(1) cursor_settledI [OF d] unfolding mem_ok_def s' by auto
qed (use assms in simp)

lemmas mem_writes_ok = mem_SavePeer_ok mem_SaveLink_ok mem_SaveBundle_ok mem_AcknowledgeBundles_ok
  mem_SaveFragment_ok mem_ClaimFragments_ok mem_AcknowledgeFragments_ok mem_SaveCursor_ok

subsection \<open>The memory store keeps the contract\<close>

lemma memory_store_simps [simp]:
  "st_SavePeer (memory_store clock) = mem_SavePeer clock"
  "st_PeerByID (memory_store clock) = mem_PeerByID"
  "st_PeerByServerName (memory_store clock) = mem_PeerByServerName"
  "st_PeersByState (memory_store clock) = mem_PeersByState"
  "st_SaveLink (memory_store clock) = mem_SaveLink clock"
  "st_LinkByID (memory_store clock) = mem_LinkByID"
  "st_LinkByPeerAndName (memory_store clock) = mem_LinkByPeerAndName"
  "st_Links (memory_store clock) = mem_Links"
  "st_SaveBundle (memory_store clock) = mem_SaveBundle clock"
  "st_BundleByDedupKey (memory_store clock) = mem_BundleByDedupKey"
  "st_BundlesAfter (memory_store clock) = mem_BundlesAfter"
  "st_AcknowledgeBundles (memory_store clock) = mem_AcknowledgeBundles"
  "st_SaveFragment (memory_store clock) = mem_SaveFragment clock"
  "st_ClaimFragments (memory_store clock) = mem_ClaimFragments clock"
  "st_HasClaimableFragments (memory_store clock) = mem_HasClaimableFragments clock"
  "st_Fragments (memory_store clock) = mem_Fragments"
  "st_FragmentsByBundle (memory_store clock) = mem_FragmentsByBundle"
  "st_AcknowledgeFragments (memory_store clock) = mem_AcknowledgeFragments"
  "st_SaveCursor (memory_store clock) = mem_SaveCursor clock"
  "st_CursorByPeerAndLink (memory_store clock) = mem_CursorByPeerAndLink"
  by (simp_all add: memory_store_def)

definition mem_bundle_at :: "mem \<Rightarrow> string \<Rightarrow> fed_bundle option" where
  "mem_bundle_at s = indexed (bundleIDsByDedup s) (bundlesByID s)"

abbreviation "mem_peer_at s \<equiv> lookup (peersByID s)"
abbreviation "mem_link_at s \<equiv> lookup (linksByID s)"
abbreviation "mem_cursor_at s \<equiv> lookup (cursorsByKey s)"

lemma mem_SavePeer_Inr:
  assumes "mem_SavePeer clock p s = (Inr q, s')"
  shows "normalize_peer p clock = Inr q \<and> mem_peer_at s' = (mem_peer_at s)(peer_ID q \<mapsto> q) \<and>
    mem_link_at s' = mem_link_at s \<and> mem_bundle_at s' = mem_bundle_at s \<and>
    mem_cursor_at s' = mem_cursor_at s"
  using assms by (auto simp: mem_SavePeer_def Let_def mem_bundle_at_def split: sum.splits if_splits)

lemma mem_SaveLink_Inr:
  assumes "mem_SaveLink clock l s = (Inr k, s')"
  shows "normalize_link l clock = Inr k \<and> mem_link_at s' = (mem_link_at s)(link_ID k \<mapsto> k) \<and>
    mem_peer_at s' = mem_peer_at s \<and> mem_bundle_at s' = mem_bundle_at s \<and>
    mem_cursor_at s' = mem_cursor_at s"
  using assms by (auto simp: mem_SaveLink_def Let_def mem_bundle_at_def split: sum.splits if_splits)

lemma mem_SaveBundle_Inr:
  assumes "mem_SaveBundle clock b s = (Inr c, s')"
  shows "(\<exists>d. normalize_bundle b clock = Inr d \<and>
      (mem_bundle_at s (bundle_DedupKey d) = Some c \<and> s' = s \<and>
         same_bundle_owner c d \<and> same_bundle_content c d \<or>
       mem_bundle_at s (bundle_DedupKey d) = None \<and> c = d \<and>
         mem_bundle_at s' (bundle_DedupKey d) = Some d)) \<and>
    mem_peer_at s' = mem_peer_at s \<and> mem_link_at s' = mem_link_at s \<and>
    mem_cursor_at s' = mem_cursor_at s"
  using assms
  by (auto simp: mem_SaveBundle_def mem_bundle_at_def indexed_def
      split: sum.splits option.splits if_splits)

lemma mem_AcknowledgeBundles_bundle_at:
  assumes "mem_AcknowledgeBundles a s = (r, s')" "mem_ok s"
  shows "mem_bundle_at s' = (\<lambda>k. map_option (\<lambda>b. if bundle_acked_by a (bundle_ID b) b
      then ack_bundle (abp_AcknowledgedAt a) b else b) (mem_bundle_at s k))"
proof
  fix k
  from assms(1) have bundles: "bundlesByID s' = map_entries (\<lambda>k b. if bundle_acked_by a k b
      then ack_bundle (abp_AcknowledgedAt a) b else b) (bundlesByID s)"
    and index: "bundleIDsByDedup s' = bundleIDsByDedup s"
    by (auto simp: mem_AcknowledgeBundles_def)
  show "mem_bundle_at s' k = map_option (\<lambda>b. if bundle_acked_by a (bundle_ID b) b
      then ack_bundle (abp_AcknowledgedAt a) b else b) (mem_bundle_at s k)"
  proof (cases "mem_bundle_at s k")
    case None
    then show ?thesis
      by (auto simp: mem_bundle_at_def indexed_def bundles index split: option.splits)
  next
    case (Some b)
    then obtain i where i: "lookup (bundleIDsByDedup s) k = Some i" "lookup (bundlesByID s) i = Some b"
      by (auto simp: mem_bundle_at_def indexed_def split: option.splits)
    with mem_ok_bundle [OF assms(2) i(2)] Some show ?thesis
      by (simp add: mem_bundle_at_def indexed_def bundles index)
  qed
qed

lemma mem_SaveFragment_frame:
  assumes "mem_SaveFragment clock f s = (r, s')"
  shows "mem_peer_at s' = mem_peer_at s \<and> mem_link_at s' = mem_link_at s \<and>
    mem_bundle_at s' = mem_bundle_at s \<and> mem_cursor_at s' = mem_cursor_at s"
proof -
  have "\<exists>fs ix. s' = s\<lparr>fragmentsByID := fs, fragmentIDsByDedup := ix\<rparr>"
  proof (cases "s' = s")
    case True
    then have "s' = s\<lparr>fragmentsByID := fragmentsByID s, fragmentIDsByDedup := fragmentIDsByDedup s\<rparr>"
      by simp
    then show ?thesis by blast
  next
    case False
    with assms show ?thesis
      by (auto simp: mem_SaveFragment_def Let_def split: sum.splits option.splits if_splits)
  qed
  then show ?thesis by (auto simp: mem_bundle_at_def)
qed

lemma mem_SaveFragment_Inl:
  "mem_SaveFragment clock f s = (Inl e, s') \<Longrightarrow> s' = s"
  by (auto simp: mem_SaveFragment_def Let_def split: sum.splits option.splits if_splits)

lemma mem_SaveCursor_Inr:
  assumes "mem_SaveCursor clock c s = (Inr d, s')"
  shows "normalize_cursor c clock = Inr d \<and>
    mem_cursor_at s' = (mem_cursor_at s)(cursorKey (cur_PeerID d) (cur_LinkID d) \<mapsto> d) \<and>
    mem_peer_at s' = mem_peer_at s \<and> mem_link_at s' = mem_link_at s \<and>
    mem_bundle_at s' = mem_bundle_at s"
  using assms by (auto simp: mem_SaveCursor_def mem_bundle_at_def split: sum.splits)

lemma mem_PeerByServerName_found:
  assumes "mem_PeerByServerName n s = (r, s')"
  shows "s' = s \<and> (\<forall>p. r = Inr p \<longrightarrow> mem_ok s \<longrightarrow>
    peer_ServerName p = n \<and> mem_peer_at s (peer_ID p) = Some p)"
  using assms by (auto simp: mem_PeerByServerName_def mem_ok_def found_or_run exact_index_def
      keyed_by_def split: option.splits)

lemma mem_LinkByPeerAndName_found:
  assumes "mem_LinkByPeerAndName p n s = (r, s')"
  shows "s' = s \<and> (\<forall>l. r = Inr l \<longrightarrow> mem_ok s \<longrightarrow> mem_link_at s (link_ID l) = Some l)"
  using assms by (auto simp: mem_LinkByPeerAndName_def mem_ok_def found_or_run
      keyed_by_def split: option.splits)

lemma sorted_by_pair_fst:
  fixes f :: "'a \<Rightarrow> 'b::linorder" and g :: "'a \<Rightarrow> 'c::linorder"
  assumes "sorted (List.map (\<lambda>x. (f x, g x)) xs)"
  shows "sorted (List.map f xs)"
proof -
  have "sorted (List.map fst (List.map (\<lambda>x. (f x, g x)) xs))"
    using assms by (rule sorted_map_mono) (auto simp: mono_on_def less_eq_prod_simp)
  then show ?thesis by (simp add: comp_def)
qed

lemma mem_FragmentsByBundle_found:
  assumes "mem_FragmentsByBundle b d s = (r, s')"
  shows "s' = s \<and> (\<forall>fs. r = Inr fs \<longrightarrow> sorted (List.map frag_FragmentIndex fs) \<and>
    (\<forall>f \<in> set fs. frag_BundleID f = b \<and> frag_Direction f = d))"
proof -
  have "sorted (List.map frag_FragmentIndex (sort_key (\<lambda>f. (frag_FragmentIndex f, frag_ID f)) fs))"
    for fs
    by (rule sorted_by_pair_fst [of frag_FragmentIndex frag_ID]) (rule sorted_sort_key)
  with assms show ?thesis by (auto simp: mem_FragmentsByBundle_def)
qed

interpretation mem: federation_store "memory_store clock" mem_ok cursorKey
    mem_peer_at mem_link_at mem_bundle_at mem_cursor_at for clock
proof (unfold_locales, goal_cases)
  case 5 then show ?case by (simp add: mem_PeerByServerName_found)
next
  case 7 then show ?case by (simp add: mem_LinkByPeerAndName_found)
next
  case 12 then show ?case using mem_FragmentsByBundle_found by simp
next
  case 13 then show ?case by (auto dest!: mem_SavePeer_Inr)
next
  case 14 then show ?case by (auto dest!: mem_SaveLink_Inr)
next
  case 15 then show ?case using mem_SaveBundle_Inr by (metis memory_store_simps(9))
next
  case 16 then show ?case
    using mem_AcknowledgeBundles_bundle_at by (auto simp: mem_AcknowledgeBundles_def)
next
  case 17 then show ?case using mem_SaveFragment_frame by simp
next
  case 20 then show ?case by (auto dest!: mem_SaveCursor_Inr)
next
  case 18 then show ?case
    by (auto simp: mem_ClaimFragments_def mem_bundle_at_def Let_def split: if_splits)
next
  case 19 then show ?case by (auto simp: mem_AcknowledgeFragments_def mem_bundle_at_def)
next
  case 21 then show ?case by (auto simp: mem_SavePeer_def Let_def split: sum.splits if_splits)
next
  case 22 then show ?case by (auto simp: mem_SaveLink_def Let_def split: sum.splits if_splits)
next
  case 23 then show ?case
    by (auto simp: mem_SaveBundle_def split: sum.splits option.splits if_splits)
next
  case 24 then show ?case by (simp add: mem_AcknowledgeBundles_def)
next
  case 25 then show ?case using mem_SaveFragment_Inl by simp
next
  case 26 then show ?case by (auto simp: mem_ClaimFragments_def Let_def split: if_splits)
next
  case 27 then show ?case by (simp add: mem_AcknowledgeFragments_def)
next
  case 28 then show ?case by (auto simp: mem_SaveCursor_def split: sum.splits)
next
  case 37 then show ?case by (rule mem_ok_peer)
next
  case 38 then show ?case by (rule mem_ok_link)
next
  case 39 then show ?case by (rule mem_ok_cursor)
qed (auto simp: mem_PeerByID_def mem_LinkByID_def mem_BundleByDedupKey_def mem_bundle_at_def
    mem_CursorByPeerAndLink_def mem_PeersByState_def mem_Links_def mem_BundlesAfter_def
    mem_HasClaimableFragments_def mem_Fragments_def
    intro: mem_writes_ok)

end
