(* ===== verification/FedServiceProps.thy ===== *)
theory FedServiceProps
  imports FedFragments FedMemory
begin

section \<open>Cursors never go back\<close>

text \<open>
  The replication cursors of a link record how far bundles were received, applied, queued
  and acknowledged. No operation of the service, whether it succeeds or fails, lowers any of
  them. The proof is done once for every store that keeps the contract of \<open>federation_store\<close>
  and then read off for the in-memory store.
\<close>

definition cursor_le :: "cursor \<Rightarrow> cursor \<Rightarrow> bool" where
  "cursor_le c d \<longleftrightarrow>
     cur_LastReceivedCursor c \<le> cur_LastReceivedCursor d \<and>
     cur_LastInboundCursor c \<le> cur_LastInboundCursor d \<and>
     cur_LastOutboundCursor c \<le> cur_LastOutboundCursor d \<and>
     cur_LastAckedCursor c \<le> cur_LastAckedCursor d"

definition cursors_grow :: "('s \<Rightarrow> 'k \<Rightarrow> cursor option) \<Rightarrow> 's \<Rightarrow> 's \<Rightarrow> bool" where
  "cursors_grow get s s' \<longleftrightarrow>
     (\<forall>k c. get s k = Some c \<longrightarrow> (\<exists>d. get s' k = Some d \<and> cursor_le c d))"

text \<open>From valid states to valid states, with cursors growing.\<close>

definition advances :: "('s \<Rightarrow> bool) \<Rightarrow> ('s \<Rightarrow> 'k \<Rightarrow> cursor option) \<Rightarrow> 's \<Rightarrow> 's \<Rightarrow> bool" where
  "advances valid get s s' \<longleftrightarrow> (valid s \<longrightarrow> valid s' \<and> cursors_grow get s s')"

lemma cursor_le_refl [simp]: "cursor_le c c"
  by (simp add: cursor_le_def)

lemma cursor_le_trans: "cursor_le c d \<Longrightarrow> cursor_le d e \<Longrightarrow> cursor_le c e"
  by (auto simp: cursor_le_def)

lemma cursors_grow_refl [simp]: "cursors_grow get s s"
  by (auto simp: cursors_grow_def)

lemma cursors_grow_same: "get s' = get s \<Longrightarrow> cursors_grow get s s'"
  by (auto simp: cursors_grow_def)

lemma cursors_grow_trans: "cursors_grow get s t \<Longrightarrow> cursors_grow get t u \<Longrightarrow> cursors_grow get s u"
  unfolding cursors_grow_def using cursor_le_trans by meson

lemma preorder_advances [keeps_rules]: "preorder_on_states (advances valid get)"
  unfolding preorder_on_states_def advances_def using cursors_grow_trans by auto

lemma keeps_random [keeps_rules]:
  assumes "preorder_on_states R"
  shows "keeps (on_world R) (randomToken n)" "keeps (on_world R) (newID pre)"
  using keeps_random_token [OF assms] keeps_random_id [OF assms]
  by (simp_all add: randomToken_def newID_def)

lemma keeps_validateContext [keeps_rules]:
  "preorder_on_states R \<Longrightarrow> keeps R (validateContext ctx operation)"
  unfolding validateContext_def by (rule keeps_pure)

lemma normalize_cursor_fields:
  assumes "normalize_cursor c now = Inr d"
  shows "cur_PeerID d = trim_space (cur_PeerID c) \<and> cur_LinkID d = trim_space (cur_LinkID c) \<and>
    cur_LastReceivedCursor d = cur_LastReceivedCursor c \<and>
    cur_LastInboundCursor d = cur_LastInboundCursor c \<and>
    cur_LastOutboundCursor d = cur_LastOutboundCursor c \<and>
    cur_LastAckedCursor d = cur_LastAckedCursor c \<and>
    cur_LastInboundCursor d \<le> cur_LastReceivedCursor d"
  using assms unfolding normalize_cursor_def Let_def io_inv by (auto simp: not_less)

lemma cursor_settled_trimmed:
  "cursor_settled c \<Longrightarrow> trim_space (cur_PeerID c) = cur_PeerID c \<and> trim_space (cur_LinkID c) = cur_LinkID c"
  unfolding cursor_settled_def by (auto dest!: normalize_cursor_fields)

context federation_store
begin

abbreviation "adv \<equiv> advances valid cursor_at"
abbreviation "advw \<equiv> on_world adv"

lemma preorder_adv: "preorder_on_states adv" "preorder_on_states advw"
  by (intro keeps_rules)+

lemma keeps_reads [keeps_rules]:
  "keeps adv (st_PeerByID S i)" "keeps adv (st_LinkByID S i)" "keeps adv (st_BundleByDedupKey S i)"
  "keeps adv (st_CursorByPeerAndLink S i j)" "keeps adv (st_PeerByServerName S i)"
  "keeps adv (st_PeersByState S i)" "keeps adv (st_LinkByPeerAndName S i j)"
  "keeps adv (st_Links S i j)" "keeps adv (st_BundlesAfter S i j d after n)"
  "keeps adv (st_HasClaimableFragments S i j t)" "keeps adv (st_Fragments S i j d st n)"
  "keeps adv (st_FragmentsByBundle S i d)"
  using PeersByState Links BundlesAfter HasClaimableFragments Fragments
  by (auto intro!: keeps_same preorder_adv simp: PeerByID LinkByID BundleByDedupKey
      CursorByPeerAndLink found_or_run split: option.splits)
    (metis PeerByServerName LinkByPeerAndName FragmentsByBundle prod.collapse)+

lemma adv_same: "valid s' \<Longrightarrow> cursor_at s' = cursor_at s \<Longrightarrow> adv s s'"
  by (simp add: advances_def cursors_grow_same)

lemma keeps_writes [keeps_rules]:
  "keeps adv (st_SavePeer S p)" "keeps adv (st_SaveLink S l)" "keeps adv (st_SaveBundle S b)"
  "keeps adv (st_AcknowledgeBundles S a)" "keeps adv (st_SaveFragment S f)"
  "keeps adv (st_ClaimFragments S cl)" "keeps adv (st_AcknowledgeFragments S af)"
proof -
  have step: "keeps adv m"
    if "\<And>s r s'. m s = (r, s') \<Longrightarrow> valid s \<Longrightarrow> valid s'"
      and "\<And>s e s'. m s = (Inl e, s') \<Longrightarrow> s' = s"
      and "\<And>s x s'. m s = (Inr x, s') \<Longrightarrow> cursor_at s' = cursor_at s"
    for m :: "('s, 'x) io"
  proof (rule keepsI)
    fix s r s'
    assume run: "m s = (r, s')"
    then have "cursor_at s' = cursor_at s" using that(2,3) by (cases r) auto
    with that(1) [OF run] show "adv s s'" by (simp add: advances_def cursors_grow_same)
  qed
  show "keeps adv (st_SavePeer S p)"
    by (rule step) (use valid_write(1) failed_write(1) SavePeer in blast)+
  show "keeps adv (st_SaveLink S l)"
    by (rule step) (use valid_write(2) failed_write(2) SaveLink in blast)+
  show "keeps adv (st_SaveBundle S b)"
    by (rule step) (use valid_write(3) failed_write(3) SaveBundle in blast)+
  show "keeps adv (st_AcknowledgeBundles S a)"
    by (rule step) (use valid_write(4) failed_write(4) AcknowledgeBundles in blast)+
  show "keeps adv (st_SaveFragment S f)"
    by (rule step) (use valid_write(5) failed_write(5) SaveFragment in blast)+
  show "keeps adv (st_ClaimFragments S cl)"
    by (rule step) (use valid_write(6) failed_write(6) ClaimFragments in blast)+
  show "keeps adv (st_AcknowledgeFragments S af)"
    by (rule step) (use valid_write(7) failed_write(7) AcknowledgeFragments in blast)+
qed

lemma cursor_or_new_Inr:
  "cursor_or_new S p l s = (Inr c, s') \<longleftrightarrow> s' = s \<and>
     (cursor_at s (cell p l) = Some c \<or> cursor_at s (cell p l) = None \<and> c = new_cursor p l)"
  by (auto simp: cursor_or_new_def andThen_run attempt_run CursorByPeerAndLink found_or_run
      split: option.splits)

lemma cursor_or_new_total: "\<exists>c. cursor_or_new S p l s = (Inr c, s)"
  by (auto simp: cursor_or_new_def andThen_run attempt_run CursorByPeerAndLink found_or_run
      split: option.splits)

lemma keeps_cursor_or_new [keeps_rules]: "keeps adv (cursor_or_new S p l)"
  by (rule keeps_same) (use cursor_or_new_total preorder_adv in \<open>metis snd_conv\<close>)+

text \<open>Saving a cursor that was loaded from its own cell and raised.\<close>

lemma raised_cursor_saved:
  assumes "valid s" "trim_space p = p" "trim_space l = l"
    and c: "cursor_at s (cell p l) = Some c \<or> cursor_at s (cell p l) = None \<and> c = new_cursor p l"
    and d: "cursor_le c d" "cur_PeerID d = cur_PeerID c" "cur_LinkID d = cur_LinkID c"
    and save: "st_SaveCursor S d s = (r, s')"
  shows "valid s' \<and> cursors_grow cursor_at s s'"
proof (cases r)
  case (Inl e)
  with save failed_write(8) have "s' = s" by blast
  with assms(1) show ?thesis by simp
next
  case (Inr x)
  from SaveCursor save Inr obtain now where x: "normalize_cursor d now = Inr x"
    and at: "cursor_at s' = (cursor_at s)(cell (cur_PeerID x) (cur_LinkID x) \<mapsto> x)"
    by blast
  from x have x_fields: "cur_PeerID x = trim_space (cur_PeerID d)"
      "cur_LinkID x = trim_space (cur_LinkID d)" "cursor_le d x"
    using normalize_cursor_fields [OF x] by (auto simp: cursor_le_def)
  have trimmed: "trim_space (cur_PeerID c) = cur_PeerID c \<and> trim_space (cur_LinkID c) = cur_LinkID c \<and>
      cell (cur_PeerID c) (cur_LinkID c) = cell p l"
  proof (cases "cursor_at s (cell p l)")
    case None
    with c assms(2,3) show ?thesis by (simp add: new_cursor_def)
  next
    case (Some c')
    with c have "c' = c" by simp
    with Some valid_cursor [OF assms(1)] have "cursor_settled c" "cell (cur_PeerID c) (cur_LinkID c) = cell p l"
      by auto
    with cursor_settled_trimmed show ?thesis by simp
  qed
  with x_fields d have key: "cell (cur_PeerID x) (cur_LinkID x) = cell p l" by simp
  have "cursor_le c x" using cursor_le_trans [OF d(1) x_fields(3)] .
  with at key c have "cursors_grow cursor_at s s'" by (auto simp: cursors_grow_def)
  with valid_write(8) [OF assms(1) save] show ?thesis by simp
qed

lemma keeps_saveBundle_tx:
  assumes "trim_space (bundle_PeerID b) = bundle_PeerID b" "trim_space (bundle_LinkID b) = bundle_LinkID b"
  shows "keeps adv (saveBundle_tx S now d b)"
proof (rule keepsI)
  fix s r s'
  assume run: "saveBundle_tx S now d b s = (r, s')"
  let ?p = "bundle_PeerID b" and ?l = "bundle_LinkID b"
  obtain c where c0: "cursor_or_new S ?p ?l s = (Inr c, s)" using cursor_or_new_total by blast
  then have c: "cursor_at s (cell ?p ?l) = Some c \<or>
      cursor_at s (cell ?p ?l) = None \<and> c = new_cursor ?p ?l"
    by (simp add: cursor_or_new_Inr)
  show "adv s s'"
  proof (cases "d = BundleDirectionInbound \<and> bundle_CursorTo b \<le> cur_LastReceivedCursor c")
    case True
    with run c0 have "s' = s"
      by (auto simp: saveBundle_tx_def andThen_run attempt_run BundleByDedupKey found_or_run
          split: option.splits if_splits)
    then show ?thesis by (simp add: advances_def)
  next
    case False
    obtain r1 s1 where b: "st_SaveBundle S b s = (r1, s1)" by fastforce
    show ?thesis
    proof (cases r1)
      case (Inl e)
      with b failed_write(3) have "s1 = s" by blast
      with run c0 b Inl have "s' = s"
        unfolding saveBundle_tx_def by (simp add: andThen_run wrapping_run False)
      then show ?thesis by (simp add: advances_def)
    next
      case (Inr saved)
      from SaveBundle b Inr have same: "cursor_at s1 = cursor_at s" by blast
      obtain r2 c' where s2: "st_SaveCursor S c' s1 = (r2, s')"
        and c': "cursor_le c c'" "cur_PeerID c' = cur_PeerID c" "cur_LinkID c' = cur_LinkID c"
      proof -
        define c' where "c' = c\<lparr>
          cur_LastReceivedCursor :=
            (if d = BundleDirectionInbound \<and> cur_LastReceivedCursor c < bundle_CursorTo b
             then bundle_CursorTo b else cur_LastReceivedCursor c),
          cur_LastOutboundCursor :=
            (if d = BundleDirectionOutbound \<and> cur_LastOutboundCursor c < bundle_CursorTo b
             then bundle_CursorTo b else cur_LastOutboundCursor c),
          cur_UpdatedAt := now\<rparr>"
        obtain r2 s2 where save: "st_SaveCursor S c' s1 = (r2, s2)" by fastforce
        have "s2 = s'"
          using run c0 b Inr save False
          unfolding saveBundle_tx_def andThen_run wrapping_run Let_def c'_def [symmetric]
          by (auto split: sum.splits simp: c'_def)
        moreover have "cursor_le c c'" by (auto simp: c'_def cursor_le_def)
        ultimately show ?thesis using save that by (simp add: c'_def)
      qed
      show ?thesis unfolding advances_def
      proof
        assume "valid s"
        then have "valid s1" using b valid_write(3) by blast
        from raised_cursor_saved [OF this assms c [folded same] c' s2] same
        show "valid s' \<and> cursors_grow cursor_at s s'" by (simp add: cursors_grow_def)
      qed
    qed
  qed
qed

lemma keeps_acknowledge_tx:
  assumes "trim_space (abp_PeerID a) = abp_PeerID a" "trim_space (abp_LinkID a) = abp_LinkID a"
  shows "keeps adv (acknowledge_tx S a)"
proof (rule keepsI)
  fix s r s'
  assume run: "acknowledge_tx S a s = (r, s')"
  let ?p = "abp_PeerID a" and ?l = "abp_LinkID a"
  obtain r1 s1 where ack: "st_AcknowledgeBundles S a s = (r1, s1)" by fastforce
  show "adv s s'"
  proof (cases r1)
    case (Inl e)
    with ack failed_write(4) have "s1 = s" by blast
    with run ack Inl have "s' = s"
      unfolding acknowledge_tx_def by (simp add: andThen_run wrapping_run Let_def)
    then show ?thesis by (simp add: advances_def)
  next
    case (Inr bs)
    from AcknowledgeBundles ack Inr have same: "cursor_at s1 = cursor_at s" by blast
    obtain c where c0: "cursor_or_new S ?p ?l s1 = (Inr c, s1)" using cursor_or_new_total by blast
    then have c: "cursor_at s1 (cell ?p ?l) = Some c \<or>
        cursor_at s1 (cell ?p ?l) = None \<and> c = new_cursor ?p ?l"
      by (simp add: cursor_or_new_Inr)
    define c' where "c' = c\<lparr>cur_LastAckedCursor := (if cur_LastAckedCursor c < abp_UpToCursor a
        then abp_UpToCursor a else cur_LastAckedCursor c), cur_UpdatedAt := abp_AcknowledgedAt a\<rparr>"
    have c': "cursor_le c c'" "cur_PeerID c' = cur_PeerID c" "cur_LinkID c' = cur_LinkID c"
      by (auto simp: c'_def cursor_le_def)
    obtain r2 s2 where s2: "st_SaveCursor S c' s1 = (r2, s2)" by fastforce
    with run ack Inr c0 have "s2 = s'"
      unfolding acknowledge_tx_def andThen_run wrapping_run Let_def c'_def
      by (auto split: sum.splits)
    show ?thesis unfolding advances_def
    proof
      assume "valid s"
      then have "valid s1" using ack valid_write(4) by blast
      from raised_cursor_saved [OF this assms c c' s2] same \<open>s2 = s'\<close>
      show "valid s' \<and> cursors_grow cursor_at s s'" by (simp add: cursors_grow_def)
    qed
  qed
qed

lemma keeps_ReplicationCursor [keeps_rules]:
  "svc_store sv = S \<Longrightarrow> keeps advw (ReplicationCursorByPeerAndLink sv ctx p l)"
  unfolding ReplicationCursorByPeerAndLink_def Let_def by (simp, intro keeps_rules)

lemma keeps_authorizeLink [keeps_rules]:
  "svc_store sv = S \<Longrightarrow> keeps advw (authorizeLinkForPeer sv p l allow)"
  unfolding authorizeLinkForPeer_def by (simp, intro keeps_rules)

lemma keeps_peerAndLink [keeps_rules]: "svc_store sv = S \<Longrightarrow> keeps advw (peerAndLink sv p l)"
  unfolding peerAndLink_def Let_def by (simp, intro keeps_rules)

lemma keeps_link_health [keeps_rules]:
  "svc_store sv = S \<Longrightarrow> keeps advw (markLinkHealthy sv l)"
  "svc_store sv = S \<Longrightarrow> keeps advw (markLinkFailed sv l e)"
  unfolding markLinkHealthy_def markLinkFailed_def Let_def by (simp, intro keeps_rules)+

lemma keeps_sign_verify [keeps_rules]:
  "svc_store sv = S \<Longrightarrow> keeps advw (svc_SignBundle sv ctx p l b)"
  "svc_store sv = S \<Longrightarrow> keeps advw (svc_verifyBundle sv p l b)"
  unfolding svc_SignBundle_def svc_verifyBundle_def by (intro keeps_rules; assumption)+

lemma keeps_secret_or_token [keeps_rules]: "keeps advw (secret_or_token provided what)"
  unfolding secret_or_token_def by (intro keeps_rules)

lemma keeps_peer_ops [keeps_rules]:
  assumes "svc_store sv = S"
  shows "keeps advw (CreatePeer sv ctx cp)" "keeps advw (svc_PeerByID sv ctx i)"
    "keeps advw (svc_PeerByServerName sv ctx i)" "keeps advw (ListPeers sv ctx i)"
    "keeps advw (UpdatePeer sv ctx up)" "keeps advw (RotatePeerSigningKey sv ctx i j)"
    "keeps advw (AuthenticatePeer sv ctx i j)" "keeps advw (AuthenticatePeerByServerName sv ctx i j)"
  unfolding CreatePeer_def svc_PeerByID_def svc_PeerByServerName_def ListPeers_def UpdatePeer_def
    RotatePeerSigningKey_def AuthenticatePeer_def AuthenticatePeerByServerName_def
    authenticatePeer_def Let_def assms
  by (intro keeps_rules)+

lemma keeps_link_ops [keeps_rules]:
  assumes "svc_store sv = S"
  shows "keeps advw (CreateLink sv ctx cl)" "keeps advw (svc_LinkByID sv ctx i)"
    "keeps advw (svc_LinkByPeerAndName sv ctx i j)" "keeps advw (ListLinks sv ctx i j)"
    "keeps advw (UpdateLink sv ctx ul)" "keeps advw (PauseLink sv ctx i)"
    "keeps advw (ResumeLink sv ctx i)" "keeps advw (DeleteLink sv ctx i)"
  unfolding CreateLink_def svc_LinkByID_def svc_LinkByPeerAndName_def ListLinks_def UpdateLink_def
    PauseLink_def ResumeLink_def DeleteLink_def Let_def assms
  by (intro keeps_rules)+

lemma signed_or_verified_IDs:
  assumes "(if d = BundleDirectionOutbound then svc_SignBundle sv ctx p l b0
      else andThen (svc_verifyBundle sv p l b0) (\<lambda>_. ret b0)) w = (Inr b, w')"
  shows "bundle_PeerID b = bundle_PeerID b0" "bundle_LinkID b = bundle_LinkID b0"
  using assms by (auto simp: svc_SignBundle_def andThen_Inr ret_Inr split: if_splits prod.splits)

lemma normalize_bundle_IDs:
  assumes "normalize_bundle b0 now = Inr b"
  shows "trim_space (bundle_PeerID b) = bundle_PeerID b" "trim_space (bundle_LinkID b) = bundle_LinkID b"
  using assms unfolding normalize_bundle_def Let_def io_inv by clarsimp+

lemma stored_bundle_trimmed:
  assumes "\<exists>w w1. of_result (normalize_bundle x now) w = (Inr b0, w1)"
    and "\<exists>w w1. (if d = BundleDirectionOutbound then svc_SignBundle sv ctx p l b0
      else andThen (svc_verifyBundle sv p l b0) (\<lambda>_. ret b0)) w = (Inr b, w1)"
  shows "trim_space (bundle_PeerID b) = bundle_PeerID b" "trim_space (bundle_LinkID b) = bundle_LinkID b"
proof -
  obtain w w1 where "(if d = BundleDirectionOutbound then svc_SignBundle sv ctx p l b0
      else andThen (svc_verifyBundle sv p l b0) (\<lambda>_. ret b0)) w = (Inr b, w1)"
    using assms(2) by blast
  note ids = signed_or_verified_IDs [OF this]
  have "normalize_bundle x now = Inr b0" using assms(1) by simp
  from normalize_bundle_IDs [OF this] ids
  show "trim_space (bundle_PeerID b) = bundle_PeerID b" "trim_space (bundle_LinkID b) = bundle_LinkID b"
    by simp_all
qed

lemma keeps_saveBundle [keeps_rules]:
  assumes "svc_store sv = S"
  shows "keeps advw (saveBundle sv ctx params d)"
  unfolding saveBundle_def Let_def assms
  by (intro keeps_rules keeps_saveBundle_tx assms) (erule (1) stored_bundle_trimmed)+

lemma keeps_bundle_ops [keeps_rules]:
  assumes "svc_store sv = S"
  shows "keeps advw (QueueOutboundBundle sv ctx sb)" "keeps advw (AcceptInboundBundle sv ctx sb)"
    "keeps advw (PullOutboundBundles sv ctx i j after n)"
    "keeps advw (svc_BundlesAfter sv ctx i j d after n)"
    "keeps advw (PushInboundBundles sv ctx i j bs)"
  unfolding QueueOutboundBundle_def AcceptInboundBundle_def PullOutboundBundles_def
    svc_BundlesAfter_def PushInboundBundles_def Let_def assms
  by (intro keeps_rules assms)+

lemma keeps_svc_AcknowledgeBundles [keeps_rules]:
  assumes "svc_store sv = S"
  shows "keeps advw (svc_AcknowledgeBundles sv ctx a)"
  unfolding svc_AcknowledgeBundles_def Let_def assms
  by (intro keeps_rules keeps_acknowledge_tx assms) simp_all

lemma ReplicationCursor_Inr:
  assumes "svc_store sv = S" "ReplicationCursorByPeerAndLink sv ctx p l w = (Inr c, w')"
  shows "w' = w" "cursor_at (w_store w) (cell (trim_space p) (trim_space l)) = Some c \<or>
    cursor_at (w_store w) (cell (trim_space p) (trim_space l)) = None \<and>
      c = new_cursor (trim_space p) (trim_space l)"
  using assms by (auto simp: ReplicationCursorByPeerAndLink_def Let_def io_inv cursor_or_new_Inr
      split: if_splits)

lemma ReplicationCursor_unchanged:
  assumes "svc_store sv = S" "ReplicationCursorByPeerAndLink sv ctx p l w = (r, w')"
  shows "w' = w"
proof -
  have "\<exists>c. cursor_or_new S (trim_space p) (trim_space l) (w_store w) = (Inr c, w_store w)"
    by (rule cursor_or_new_total)
  with assms show ?thesis
    by (cases ctx)
      (auto simp: ReplicationCursorByPeerAndLink_def validateContext_def andThen_run on_store_run Let_def
        split: if_splits)
qed

lemma authorizeLink_unchanged:
  assumes "svc_store sv = S" "authorizeLinkForPeer sv p l allow w = (r, w')"
  shows "w' = w"
  using assms
  by (auto simp: authorizeLinkForPeer_def andThen_run wrapping_run on_store_run LinkByID found_or_run
      split: option.splits if_splits)

lemma keeps_AdvanceInboundCursor [keeps_rules]:
  assumes "svc_store sv = S"
  shows "keeps advw (AdvanceInboundCursor sv ctx p l up)"
proof (rule keepsI)
  fix w r w'
  assume run: "AdvanceInboundCursor sv ctx p l up w = (r, w')"
  let ?p = "trim_space p" and ?l = "trim_space l"
  show "advw w w'"
  proof (cases "w' = w")
    case True
    then show ?thesis by (simp add: on_world_def advances_def)
  next
    case False
    obtain r1 w1 where auth: "authorizeLinkForPeer sv ?p ?l False w = (r1, w1)" by fastforce
    then have w1: "w1 = w" by (rule authorizeLink_unchanged [OF assms])
    obtain r2 w2 where rc: "ReplicationCursorByPeerAndLink sv ctx ?p ?l w = (r2, w2)" by fastforce
    then have w2: "w2 = w" by (rule ReplicationCursor_unchanged [OF assms])
    obtain c where c: "r2 = Inr c" and up: "\<not> up \<le> cur_LastInboundCursor c"
      and save: "\<exists>r3. st_SaveCursor S (c\<lparr>cur_LastInboundCursor := up, cur_UpdatedAt := currentTime sv\<rparr>)
          (w_store w) = (r3, w_store w')"
    proof -
      from run False auth rc w1 w2 assms show ?thesis
        by (cases ctx; cases r1; cases r2)
          (auto simp: AdvanceInboundCursor_def validateContext_def andThen_run wrapping_run on_store_run
            Let_def intro!: that split: if_splits prod.splits sum.splits)
    qed
    have at: "cursor_at (w_store w) (cell ?p ?l) = Some c \<or>
        cursor_at (w_store w) (cell ?p ?l) = None \<and> c = new_cursor ?p ?l"
      using ReplicationCursor_Inr(2) [OF assms rc [unfolded c]] by simp
    have le: "cursor_le c (c\<lparr>cur_LastInboundCursor := up, cur_UpdatedAt := currentTime sv\<rparr>)"
      using up by (auto simp: cursor_le_def)
    from save obtain r3 where save: "st_SaveCursor S
        (c\<lparr>cur_LastInboundCursor := up, cur_UpdatedAt := currentTime sv\<rparr>) (w_store w) = (r3, w_store w')"
      by blast
    show ?thesis
      unfolding on_world_def advances_def
      using raised_cursor_saved [OF _ _ _ at le _ _ save] by simp
  qed
qed

lemma keeps_fragment_ops [keeps_rules]:
  assumes "svc_store sv = S"
  shows "keeps advw (bridgeLinkByServerAndName sv ctx i j)"
    "keeps advw (quarantineInboundFragments sv fs e)"
    "keeps advw (claimBridgeFragments sv p l n)"
    "keeps advw (fully_acknowledged sv f)" "keeps advw (mark_assembled sv f)"
  unfolding bridgeLinkByServerAndName_def quarantineInboundFragments_def quarantine_tx_def
    quarantine_one_def claimBridgeFragments_def fully_acknowledged_def mark_assembled_def Let_def assms
  by (intro keeps_rules assms)+

lemma keeps_saveFragment [keeps_rules]:
  assumes "svc_store sv = S"
  shows "keeps advw (inbound_fragment_guard sv ctx fs f)" "keeps advw (saveFragment sv ctx sf)"
proof -
  show guard: "keeps advw (inbound_fragment_guard sv ctx fs f)" for fs f
    unfolding inbound_fragment_guard_def assms by (intro keeps_rules assms)
  show "keeps advw (saveFragment sv ctx sf)"
    unfolding saveFragment_def Let_def assms by (intro keeps_rules guard assms)
qed

lemma keeps_bridge_ops [keeps_rules]:
  assumes "svc_store sv = S"
  shows "keeps advw (ensureOutboundFragments sv ctx l b)"
    "keeps advw (assembleInboundBundleIfComplete sv ctx i j k)"
  unfolding ensureOutboundFragments_def assembleInboundBundleIfComplete_def Let_def assms
  by (intro keeps_rules assms)+

lemma keeps_bridge_entry_points [keeps_rules]:
  assumes "svc_store sv = S"
  shows "keeps advw (PullBridgeFragments sv ctx i j n)"
    "keeps advw (SubmitBridgeFragments sv ctx i j sfs)"
    "keeps advw (AcknowledgeBridgeFragments sv ctx i j ids tok t)"
  unfolding PullBridgeFragments_def SubmitBridgeFragments_def AcknowledgeBridgeFragments_def
    Let_def assms
  by (intro keeps_rules assms)+

end

end
