(* ===== verification/FedSamples.thy ===== *)
theory FedSamples
  imports FedMemory
begin

section \<open>Sample values\<close>

text \<open>
  Concrete normalised values and a small reachable store, at which the theorems with
  hypotheses are applied.
\<close>

lemmas literal_simps = lower_text_def visible_def

definition sample_peer :: peer where
  "sample_peer = \<lparr>peer_ID = ''p1'', peer_ServerName = ''alpha'', peer_BaseURL = [],
     peer_Capabilities = [], peer_Trusted = True, peer_State = PeerStateActive,
     peer_VerificationFingerprint = [], peer_SharedSecret = ''secret'',
     peer_SharedSecretHash = ''cafe'', peer_SigningFingerprint = ''beef'',
     peer_SigningSecret = ''key'', peer_PreviousSigningSecret = [], peer_SigningKeyVersion = 1,
     peer_CreatedAt = 1, peer_UpdatedAt = 1, peer_LastSeenAt = 0\<rparr>"

definition sample_link :: link where
  "sample_link = \<lparr>link_ID = ''l1'', link_PeerID = ''p1'', link_Name = ''radio'', link_Endpoint = [],
     link_TransportKind = TransportKindMeshtastic, link_DeliveryClass = DeliveryClassUltraConstrained,
     link_DiscoveryMode = DiscoveryModeManual, link_MediaPolicy = MediaPolicyDisabled,
     link_State = LinkStateActive, link_MaxBundleBytes = 2048, link_MaxFragmentBytes = 4,
     link_AllowedConversationKinds = [FedConversationKindDirect],
     link_AllowedEventFamilies = [EventFamilyMessage], link_AllowedMessageKinds = [FedMessageKindText],
     link_CreatedAt = 1, link_UpdatedAt = 1, link_LastHealthyAt = 0, link_LastError = []\<rparr>"

definition sample_bundle :: fed_bundle where
  "sample_bundle = \<lparr>bundle_ID = ''b1'', bundle_PeerID = ''p1'', bundle_LinkID = ''l1'',
     bundle_DedupKey = ''d1'', bundle_Direction = BundleDirectionOutbound, bundle_CursorFrom = 1,
     bundle_CursorTo = 2, bundle_EventCount = 2, bundle_PayloadType = ''json'',
     bundle_Payload = ''hello'', bundle_Compression = CompressionKindNone, bundle_IntegrityHash = ''aa'',
     bundle_AuthTag = ''bb'', bundle_State = BundleStateQueued, bundle_CreatedAt = 1,
     bundle_AvailableAt = 1, bundle_ExpiresAt = 0, bundle_AckedAt = 0\<rparr>"

definition sample_fragment :: fragment where
  "sample_fragment = \<lparr>frag_ID = ''f1'', frag_PeerID = ''p1'', frag_LinkID = ''l1'',
     frag_BundleID = ''b1'', frag_DedupKey = ''d1:frag:000000'', frag_Direction = BundleDirectionOutbound,
     frag_CursorFrom = 1, frag_CursorTo = 2, frag_EventCount = 2, frag_PayloadType = ''json'',
     frag_Compression = CompressionKindNone, frag_IntegrityHash = ''aa'', frag_AuthTag = ''bb'',
     frag_FragmentIndex = 0, frag_FragmentCount = 1, frag_Payload = ''hello'',
     frag_State = FragmentStateQueued, frag_LeaseToken = [], frag_LeaseExpiresAt = 0,
     frag_AttemptCount = 0, frag_CreatedAt = 1, frag_AvailableAt = 1, frag_AckedAt = 0\<rparr>"

definition sample_cursor :: cursor where
  "sample_cursor = \<lparr>cur_LastReceivedCursor = 2, cur_PeerID = ''p1'', cur_LinkID = ''l1'',
     cur_LastInboundCursor = 1, cur_LastOutboundCursor = 2, cur_LastAckedCursor = 0, cur_UpdatedAt = 1\<rparr>"

lemma sample_peer_normal: "normalize_peer sample_peer now = Inr sample_peer"
  by (simp add: normalize_peer_def sample_peer_def literal_simps peer_state_switch_def
      or_version_def normalizeCapabilities_def)

lemma sample_link_normal: "normalize_link sample_link now = Inr sample_link"
  by (simp add: normalize_link_def sample_link_def literal_simps valid_transport_def
      valid_delivery_class_def valid_discovery_def valid_media_policy_def valid_link_state_def
      normalizeConversationKinds_def normalizeEventFamilies_def normalizeMessageKinds_def
      normalized_values_def accepted_def conversation_kinds_def event_families_def message_kinds_def)

lemma sample_bundle_normal: "normalize_bundle sample_bundle now = Inr sample_bundle"
  by (simp add: normalize_bundle_def sample_bundle_def literal_simps valid_direction_def
      valid_compression_def valid_bundle_state_def)

lemma sample_fragment_normal: "normalize_fragment sample_fragment now = Inr sample_fragment"
  by (simp add: normalize_fragment_def sample_fragment_def literal_simps valid_direction_def
      valid_compression_def valid_fragment_state_def if_claimed_def)

lemma sample_cursor_normal: "normalize_cursor sample_cursor now = Inr sample_cursor"
  by (simp add: normalize_cursor_def sample_cursor_def literal_simps)

text \<open>The store that holds one value of each kind.\<close>

definition sample_store :: mem where
  "sample_store = \<lparr>
     peersByID = [(''p1'', sample_peer)],
     peerIDsByServer = [(''alpha'', ''p1'')],
     linksByID = [(''l1'', sample_link)],
     linkIDsByPeerName = [(''p1:radio'', ''l1'')],
     bundlesByID = [(''b1'', sample_bundle)],
     bundleIDsByDedup = [(''d1'', ''b1'')],
     fragmentsByID = [(''f1'', sample_fragment)],
     fragmentIDsByDedup = [(''d1:frag:000000'', ''f1'')],
     cursorsByKey = [(''p1:l1'', sample_cursor)]\<rparr>"

definition sample_peer_store :: mem where
  "sample_peer_store = NewMemoryStore\<lparr>peersByID := [(''p1'', sample_peer)],
     peerIDsByServer := [(''alpha'', ''p1'')]\<rparr>"

definition sample_link_store :: mem where
  "sample_link_store = sample_peer_store\<lparr>linksByID := [(''l1'', sample_link)],
     linkIDsByPeerName := [(''p1:radio'', ''l1'')]\<rparr>"

lemma sample_save_peer:
  "mem_SavePeer clock sample_peer NewMemoryStore = (Inr sample_peer, sample_peer_store)"
  by (simp add: mem_SavePeer_def sample_peer_normal taken_by_other_def NewMemoryStore_def
      sample_peer_store_def put_def)
    (simp add: sample_peer_def)

lemma sample_save_link:
  "mem_SaveLink clock sample_link sample_peer_store = (Inr sample_link, sample_link_store)"
  by (simp add: mem_SaveLink_def sample_link_normal taken_by_other_def NewMemoryStore_def
      sample_peer_store_def sample_link_store_def put_def)
    (simp add: sample_link_def peerNameKey_def)

lemma sample_save_bundle:
  "mem_SaveBundle clock sample_bundle sample_link_store = (Inr sample_bundle,
     sample_link_store\<lparr>bundlesByID := [(''b1'', sample_bundle)], bundleIDsByDedup := [(''d1'', ''b1'')]\<rparr>)"
  by (simp add: mem_SaveBundle_def sample_bundle_normal NewMemoryStore_def indexed_def
      sample_peer_store_def sample_link_store_def put_def)
    (simp add: sample_bundle_def sample_link_def)

lemma sample_save_fragment:
  "mem_SaveFragment clock sample_fragment (sample_link_store\<lparr>bundlesByID := [(''b1'', sample_bundle)],
       bundleIDsByDedup := [(''d1'', ''b1'')]\<rparr>) =
   (Inr sample_fragment, sample_link_store\<lparr>bundlesByID := [(''b1'', sample_bundle)],
       bundleIDsByDedup := [(''d1'', ''b1'')], fragmentsByID := [(''f1'', sample_fragment)],
       fragmentIDsByDedup := [(''d1:frag:000000'', ''f1'')]\<rparr>)"
  by (simp add: mem_SaveFragment_def sample_fragment_normal NewMemoryStore_def
      sample_peer_store_def sample_link_store_def put_def)
    (simp add: sample_fragment_def sample_link_def)

lemma sample_save_cursor:
  "mem_SaveCursor clock sample_cursor (sample_link_store\<lparr>bundlesByID := [(''b1'', sample_bundle)],
       bundleIDsByDedup := [(''d1'', ''b1'')], fragmentsByID := [(''f1'', sample_fragment)],
       fragmentIDsByDedup := [(''d1:frag:000000'', ''f1'')]\<rparr>) = (Inr sample_cursor, sample_store)"
  by (simp add: mem_SaveCursor_def sample_cursor_normal NewMemoryStore_def cursorKey_def
      sample_peer_store_def sample_link_store_def sample_store_def put_def)
    (simp add: sample_cursor_def)

end
