(* ===== verification/FedMemoryProps.thy ===== *)
theory FedMemoryProps
  imports FedSamples
begin

section \<open>What the in-memory store guarantees\<close>

text \<open>
  Reachable states, uniqueness of server names, replays of bundles, and the lease protocol
  of outbound fragments: a claim is exclusive until its lease expires, and only the holder
  of the lease can acknowledge.
\<close>

subsection \<open>Reachable states\<close>

text \<open>
  Any sequence of calls of the writing methods, whether they succeed or fail, at any clock
  readings.
\<close>

inductive mem_reach :: "mem \<Rightarrow> bool" where
  start: "mem_reach NewMemoryStore"
| save_peer: "mem_reach s \<Longrightarrow> mem_SavePeer clock p s = (rp, s') \<Longrightarrow> mem_reach s'"
| save_link: "mem_reach s \<Longrightarrow> mem_SaveLink clock l s = (rl, s') \<Longrightarrow> mem_reach s'"
| save_bundle: "mem_reach s \<Longrightarrow> mem_SaveBundle clock b s = (rb, s') \<Longrightarrow> mem_reach s'"
| ack_bundles: "mem_reach s \<Longrightarrow> mem_AcknowledgeBundles a s = (rbs, s') \<Longrightarrow> mem_reach s'"
| save_fragment: "mem_reach s \<Longrightarrow> mem_SaveFragment clock f s = (rf, s') \<Longrightarrow> mem_reach s'"
| claim: "mem_reach s \<Longrightarrow> mem_ClaimFragments clock c s = (rfs, s') \<Longrightarrow> mem_reach s'"
| ack_fragments: "mem_reach s \<Longrightarrow> mem_AcknowledgeFragments af s = (rfs, s') \<Longrightarrow> mem_reach s'"
| save_cursor: "mem_reach s \<Longrightarrow> mem_SaveCursor clock cu s = (rc, s') \<Longrightarrow> mem_reach s'"

lemma mem_reach_ok: "mem_reach s \<Longrightarrow> mem_ok s"
  by (induction rule: mem_reach.induct) (auto simp: mem_ok_New dest: mem_writes_ok)

lemma sample_store_reach: "mem_reach sample_store"
  using mem_reach.start sample_save_peer sample_save_link sample_save_bundle sample_save_fragment
    sample_save_cursor
  by (meson mem_reach.save_peer mem_reach.save_link mem_reach.save_bundle mem_reach.save_fragment
      mem_reach.save_cursor)

lemmas sample_store_ok = mem_reach_ok [OF sample_store_reach]

text \<open>C7: in every reachable state of the store no two peers share a server name, a peer
  that is active is trusted, and a peer that is revoked is not.\<close>

theorem reachable_peers_sound:
  assumes "mem_reach s" "lookup (peersByID s) i = Some p" "lookup (peersByID s) j = Some q"
  shows "peer_ID p = i \<and> (peer_ServerName p = peer_ServerName q \<longrightarrow> i = j) \<and>
    (peer_State p = PeerStateActive \<longrightarrow> peer_Trusted p) \<and>
    (peer_State p = PeerStateRevoked \<longrightarrow> \<not> peer_Trusted p)"
proof -
  note ok = mem_reach_ok [OF assms(1)]
  then have "exact_index peer_ServerName (peerIDsByServer s) (peersByID s)"
    by (simp add: mem_ok_def)
  from exact_index_unique [OF this assms(2,3)] mem_ok_peer [OF ok assms(2)]
  show ?thesis using peer_settled_trust by blast
qed

lemma reachable_peers_sound_witness:
  "peer_Trusted sample_peer \<and> peer_ID sample_peer = ''p1''"
  using reachable_peers_sound [OF sample_store_reach, of "''p1''" sample_peer "''p1''" sample_peer]
  by (simp add: sample_store_def) (simp add: sample_peer_def)

text \<open>C8: in every reachable state of the store a fragment holds a lease exactly when it is
  claimed, only outbound fragments are claimed, its index lies within its count, and the
  inbound cursor of a link never overtakes the received cursor.\<close>

theorem reachable_fragments_cursors_sound:
  assumes "mem_reach s"
  shows "(\<forall>f \<in> set (entries (fragmentsByID s)).
      (frag_State f = FragmentStateClaimed \<longleftrightarrow> frag_LeaseToken f \<noteq> []) \<and>
      (frag_LeaseToken f \<noteq> [] \<longrightarrow> frag_Direction f = BundleDirectionOutbound \<and>
         frag_LeaseExpiresAt f \<noteq> zero_time) \<and>
      0 \<le> frag_FragmentIndex f \<and> frag_FragmentIndex f < frag_FragmentCount f) \<and>
    (\<forall>c \<in> set (entries (cursorsByKey s)). cur_LastInboundCursor c \<le> cur_LastReceivedCursor c)"
proof -
  note ok = mem_reach_ok [OF assms]
  have "fragment_shape f" if "f \<in> set (entries (fragmentsByID s))" for f
    using that keyed_by_entries [OF mem_ok_fragments [OF ok]] mem_ok_fragment [OF ok] by blast
  moreover have "cursor_settled c" if "c \<in> set (entries (cursorsByKey s))" for c
  proof -
    have "keyed_by (\<lambda>c. cursorKey (cur_PeerID c) (cur_LinkID c)) cursor_settled (cursorsByKey s)"
      using ok by (simp add: mem_ok_def)
    from keyed_by_entries [OF this] that mem_ok_cursor [OF ok] show ?thesis by blast
  qed
  ultimately show ?thesis
    using cursor_settled_order by (fastforce simp: fragment_shape_def lease_ok_def split: if_splits)
qed

lemma reachable_fragments_cursors_sound_witness:
  "0 \<le> frag_FragmentIndex sample_fragment \<and>
   cur_LastInboundCursor sample_cursor \<le> cur_LastReceivedCursor sample_cursor"
  using reachable_fragments_cursors_sound [OF sample_store_reach] by (simp add: sample_store_def)

subsection \<open>Replayed bundles\<close>

lemma normalize_bundle_other_ID:
  assumes "normalize_bundle b now = Inr c" "trim_space i = i" "i \<noteq> []"
  shows "\<exists>d. normalize_bundle (b\<lparr>bundle_ID := i\<rparr>) now' = Inr d \<and>
    bundle_DedupKey d = bundle_DedupKey c \<and> bundle_LinkID d = bundle_LinkID c \<and>
    same_bundle_owner c d \<and> same_bundle_content c d"
  using assms unfolding normalize_bundle_def Let_def io_inv
  by (clarsimp simp: same_bundle_owner_def same_bundle_content_def)

lemma same_bundle_trans:
  assumes "same_bundle_owner c d" "same_bundle_content c d" "same_bundle_owner d e"
    "same_bundle_content d e"
  shows "same_bundle_owner c e" "same_bundle_content c e"
  using assms by (auto simp: same_bundle_owner_def same_bundle_content_def)

text \<open>Saving a bundle is idempotent in its deduplication key: after a bundle was saved,
  saving it again under any other identifier and at any later time returns the stored bundle
  and leaves the store unchanged.\<close>

theorem save_bundle_replay:
  assumes "mem_SaveBundle clock b s = (Inr c, s1)" "trim_space i = i" "i \<noteq> []"
  shows "mem_SaveBundle clock' (b\<lparr>bundle_ID := i\<rparr>) s1 = (Inr c, s1)"
proof -
  from mem_SaveBundle_Inr [OF assms(1)] obtain d where d: "normalize_bundle b clock = Inr d"
    and stored: "mem_bundle_at s1 (bundle_DedupKey d) = Some c"
      "same_bundle_owner c d" "same_bundle_content c d"
    and links: "linksByID s1 = linksByID s \<or> mem_link_at s1 = mem_link_at s"
    by (auto simp: same_bundle_owner_def same_bundle_content_def)
  obtain l where l: "mem_link_at s1 (bundle_LinkID d) = Some l" "link_PeerID l = bundle_PeerID d"
    using assms(1) d by (auto simp: mem_SaveBundle_def split: option.splits if_splits)
  obtain e where e: "normalize_bundle (b\<lparr>bundle_ID := i\<rparr>) clock' = Inr e"
    "bundle_DedupKey e = bundle_DedupKey d" "bundle_LinkID e = bundle_LinkID d"
    "same_bundle_owner d e" "same_bundle_content d e"
    using normalize_bundle_other_ID [OF d assms(2,3)] by blast
  have "bundle_PeerID e = bundle_PeerID d" using e(4) by (simp add: same_bundle_owner_def)
  with e l stored same_bundle_trans [OF stored(2,3) e(4,5)] show ?thesis
    by (simp add: mem_SaveBundle_def mem_bundle_at_def)
qed

lemma save_bundle_replay_witness:
  "mem_SaveBundle 9 (sample_bundle\<lparr>bundle_ID := ''b2''\<rparr>) (snd (mem_SaveBundle 5 sample_bundle sample_link_store)) =
   (Inr sample_bundle, snd (mem_SaveBundle 5 sample_bundle sample_link_store))"
  using save_bundle_replay [OF sample_save_bundle [of 5], of "''b2''" 9]
  by (simp add: sample_save_bundle literal_simps)

subsection \<open>Leases\<close>

lemma put_fragments_Cons [simp]:
  "put_fragments (f # fs) m = put_fragments fs (put (frag_ID f) f m)"
  by (simp add: put_fragments_def)

lemma put_fragments_Nil [simp]: "put_fragments [] m = m"
  by (simp add: put_fragments_def)

lemma lookup_put_fragments_other:
  "i \<notin> set (List.map frag_ID fs) \<Longrightarrow> lookup (put_fragments fs m) i = lookup m i"
  unfolding put_fragments_def by (rule lookup_put_all_other)

lemma lookup_put_fragments:
  "distinct (List.map frag_ID fs) \<Longrightarrow> f \<in> set fs \<Longrightarrow> lookup (put_fragments fs m) (frag_ID f) = Some f"
  unfolding put_fragments_def by (rule lookup_put_all)

lemma distinct_claim_batch:
  assumes "mem_ok s"
  shows "distinct (List.map frag_ID (claim_batch clock p s))"
  unfolding claim_batch_def by (rule distinct_selection [OF mem_ok_fragments [OF assms]])

lemma claim_fragment_ID [simp]: "frag_ID (claim_fragment p f) = frag_ID f"
  by (simp add: claim_fragment_def)

lemma map_ID_claimed: "List.map frag_ID (List.map (claim_fragment p) fs) = List.map frag_ID fs"
  by simp

lemma claim_order_claimed [simp]: "claim_order (claim_fragment p f) = claim_order f"
  by (simp add: claim_order_def claim_fragment_def)

lemma mem_ClaimFragments_Inr:
  assumes "mem_ClaimFragments clock p s = (Inr fs, s')"
  shows "fs = List.map (claim_fragment p) (claim_batch clock p s)"
    and "s' = s\<lparr>fragmentsByID := put_fragments fs (fragmentsByID s)\<rparr>"
  using assms
  by (auto simp: mem_ClaimFragments_def claim_batch_def Let_def split: if_splits)

lemma claimed_stored:
  assumes "mem_ok s" "mem_ClaimFragments clock p s = (Inr fs, s')" "f \<in> set fs"
  shows "lookup (fragmentsByID s') (frag_ID f) = Some f"
proof -
  note fs = mem_ClaimFragments_Inr [OF assms(2)]
  have "distinct (List.map frag_ID fs)"
    unfolding fs(1) map_ID_claimed by (rule distinct_claim_batch [OF assms(1)])
  from lookup_put_fragments [OF this assms(3)] fs(2) show ?thesis by simp
qed

lemma claimed_fields:
  assumes "mem_ClaimFragments clock p s = (Inr fs, s')" "f \<in> set fs"
  shows "frag_State f = FragmentStateClaimed" "frag_LeaseToken f = cfp_LeaseToken p"
    "frag_LeaseExpiresAt f = cfp_LeaseExpiresAt p"
  using assms(2) mem_ClaimFragments_Inr(1) [OF assms(1)] by (auto simp: claim_fragment_def)

text \<open>C9: leases are exclusive: a second claim made before the lease of the first one
  expires, by whatever caller, returns none of the fragments the first one returned.\<close>

theorem claims_exclusive:
  assumes "mem_ok s"
    and first: "mem_ClaimFragments clock p s = (Inr fs, s1)"
    and second: "mem_ClaimFragments clock' q s1 = (Inr gs, s2)"
    and unexpired: "or_time (cfp_ClaimedAt q) clock' < cfp_LeaseExpiresAt p"
  shows "set (List.map frag_ID fs) \<inter> set (List.map frag_ID gs) = {}"
proof -
  have ok1: "mem_ok s1" by (rule mem_ClaimFragments_ok [OF assms(1) first])
  have False if f: "f \<in> set fs" and g: "g \<in> set gs" and id: "frag_ID g = frag_ID f" for f g
  proof -
    have "g \<in> claim_fragment q ` set (claim_batch clock' q s1)"
      using g unfolding mem_ClaimFragments_Inr(1) [OF second] by simp
    then obtain h where h: "h \<in> set (claim_batch clock' q s1)" "g = claim_fragment q h" by blast
    have "lookup (fragmentsByID s1) (frag_ID h) = Some h"
      using set_claim_batch(1) [OF h(1)] keyed_by_entries [OF mem_ok_fragments [OF ok1]] by blast
    moreover have "frag_ID h = frag_ID f" using id unfolding h(2) by simp
    ultimately have "h = f" using claimed_stored [OF assms(1) first f] by (metis option.inject)
    with set_claim_batch(2) [OF h(1)]
    have "fragment_claimable (cfp_PeerID q) (cfp_LinkID q) (or_time (cfp_ClaimedAt q) clock') f"
      by simp
    with claimed_fields [OF first f] unexpired show False
      unfolding fragment_claimable_def by simp
  qed
  then show ?thesis by fastforce
qed

definition sample_claim :: claim_fragments_params where
  "sample_claim = \<lparr>cfp_PeerID = ''p1'', cfp_LinkID = ''l1'', cfp_Limit = 5, cfp_ClaimedAt = 10,
     cfp_LeaseToken = ''t1'', cfp_LeaseExpiresAt = 40\<rparr>"

definition sample_claimed_store :: mem where
  "sample_claimed_store =
     sample_store\<lparr>fragmentsByID := [(''f1'', claim_fragment sample_claim sample_fragment)]\<rparr>"

lemma sample_claim_run: "mem_ClaimFragments clock sample_claim sample_store =
    (Inr [claim_fragment sample_claim sample_fragment], sample_claimed_store)"
  by (simp add: mem_ClaimFragments_def claim_batch_def sample_store_def sample_claim_def Let_def
      fragment_claimable_def sample_claimed_store_def put_def sample_fragment_def)

lemma sample_claim_again: "mem_ClaimFragments clock (sample_claim\<lparr>cfp_LeaseToken := ''t2''\<rparr>)
    sample_claimed_store = (Inr [], sample_claimed_store)"
  by (simp add: mem_ClaimFragments_def claim_batch_def sample_store_def sample_claim_def Let_def
      fragment_claimable_def sample_claimed_store_def sample_fragment_def claim_fragment_def)

lemma claims_exclusive_witness:
  "set (List.map frag_ID [claim_fragment sample_claim sample_fragment]) \<inter> set (List.map frag_ID []) = {}"
  using claims_exclusive [OF sample_store_ok sample_claim_run [of 1] sample_claim_again [of 1]]
  by (simp add: sample_claim_def)

text \<open>C10: a stale lease cannot acknowledge: once fragments are claimed under a token, an
  acknowledgement that presents another token leaves each of them exactly as claimed.\<close>

theorem stale_lease_cannot_acknowledge:
  assumes "mem_ok s"
    and claim: "mem_ClaimFragments clock p s = (Inr fs, s1)"
    and other: "afp_LeaseToken a \<noteq> cfp_LeaseToken p"
    and ack: "mem_AcknowledgeFragments a s1 = (Inr us, s2)"
    and "f \<in> set fs"
  shows "lookup (fragmentsByID s2) (frag_ID f) = Some f \<and> f \<notin> set us"
proof -
  have "lookup (fragmentsByID s1) (frag_ID f) = Some f"
    by (rule claimed_stored [OF assms(1) claim assms(5)])
  moreover have "\<not> fragment_acked_by a i f" for i
    using claimed_fields(2) [OF claim assms(5)] other by (auto simp: fragment_acked_by_def)
  ultimately show ?thesis
    using ack claimed_fields(1) [OF claim assms(5)]
    by (auto simp: mem_AcknowledgeFragments_def ack_fragment_def)
qed

lemma stale_lease_cannot_acknowledge_witness:
  "lookup (fragmentsByID (snd (mem_AcknowledgeFragments \<lparr>afp_PeerID = ''p1'', afp_LinkID = ''l1'',
      afp_FragmentIDs = [''f1''], afp_LeaseToken = ''t2'', afp_AcknowledgedAt = 20\<rparr>
      sample_claimed_store))) ''f1'' = Some (claim_fragment sample_claim sample_fragment)"
  using stale_lease_cannot_acknowledge [OF sample_store_ok sample_claim_run [of 1], of
      "\<lparr>afp_PeerID = ''p1'', afp_LinkID = ''l1'',
      afp_FragmentIDs = [''f1''], afp_LeaseToken = ''t2'', afp_AcknowledgedAt = 20\<rparr>"
      _ _ "claim_fragment sample_claim sample_fragment"]
  by (simp add: mem_AcknowledgeFragments_def sample_claim_def sample_fragment_def)

lemma sort_key_Nil: "sort_key k xs = [] \<longleftrightarrow> xs = []"
  by (metis set_empty set_sort)

text \<open>a claim returns at most its limit of fragments, in claim order, all of them
  available; when it returns fewer than the limit it took every claimable fragment of the
  link, and it leaves every fragment it did not return as it was.\<close>

theorem claim_takes_earliest:
  assumes "mem_ok s" "0 < cfp_Limit p" "mem_ClaimFragments clock p s = (Inr fs, s')"
  shows "int (length fs) \<le> cfp_Limit p \<and> sorted (List.map claim_order fs) \<and>
    (\<forall>f \<in> set fs. \<exists>g. lookup (fragmentsByID s) (frag_ID f) = Some g \<and> f = claim_fragment p g \<and>
       fragment_claimable (cfp_PeerID p) (cfp_LinkID p) (or_time (cfp_ClaimedAt p) clock) g) \<and>
    (int (length fs) < cfp_Limit p \<longrightarrow>
       (\<forall>g \<in> set (entries (fragmentsByID s)).
          fragment_claimable (cfp_PeerID p) (cfp_LinkID p) (or_time (cfp_ClaimedAt p) clock) g \<longrightarrow>
          claim_fragment p g \<in> set fs)) \<and>
    (\<forall>i. i \<notin> set (List.map frag_ID fs) \<longrightarrow>
       lookup (fragmentsByID s') i = lookup (fragmentsByID s) i)"
proof (intro conjI)
  note fs = mem_ClaimFragments_Inr [OF assms(3)]
  let ?ok = "fragment_claimable (cfp_PeerID p) (cfp_LinkID p) (or_time (cfp_ClaimedAt p) clock)"
  let ?all = "sort_key claim_order (List.filter ?ok (entries (fragmentsByID s)))"
  have batch: "claim_batch clock p s = take (nat (cfp_Limit p)) ?all" by (simp add: claim_batch_def)
  show "int (length fs) \<le> cfp_Limit p" using assms(2) by (simp add: fs(1) batch)
  have "List.map claim_order fs = take (nat (cfp_Limit p)) (List.map claim_order ?all)"
    unfolding fs(1) batch take_map [symmetric]
    by (simp add: comp_def)
  then show "sorted (List.map claim_order fs)" by (simp add: sorted_wrt_take)
  show "\<forall>f \<in> set fs. \<exists>g. lookup (fragmentsByID s) (frag_ID f) = Some g \<and>
      f = claim_fragment p g \<and> ?ok g"
    unfolding fs(1) using set_claim_batch keyed_by_entries [OF mem_ok_fragments [OF assms(1)]]
    by fastforce
  show "int (length fs) < cfp_Limit p \<longrightarrow>
       (\<forall>g \<in> set (entries (fragmentsByID s)). ?ok g \<longrightarrow> claim_fragment p g \<in> set fs)"
    unfolding fs(1) batch by (auto simp: min_def split: if_splits)
  show "\<forall>i. i \<notin> set (List.map frag_ID fs) \<longrightarrow>
       lookup (fragmentsByID s') i = lookup (fragmentsByID s) i"
    using fs(2) by (auto intro: lookup_put_fragments_other)
qed

lemma claim_takes_earliest_witness:
  "claim_order (claim_fragment sample_claim sample_fragment) = claim_order sample_fragment \<and>
   int (length [claim_fragment sample_claim sample_fragment]) \<le> cfp_Limit sample_claim"
  using claim_takes_earliest [OF sample_store_ok _ sample_claim_run [of 1]]
  by (simp add: sample_claim_def)

text \<open>\<open>HasClaimableFragments\<close> answers exactly whether a claim at the same time would
  return a fragment.\<close>

theorem has_claimable_iff_claim_nonempty:
  assumes "0 < cfp_Limit p" "cfp_PeerID p \<noteq> []" "cfp_LinkID p \<noteq> []" "cfp_LeaseToken p \<noteq> []"
    "cfp_LeaseExpiresAt p \<noteq> zero_time"
  shows "mem_HasClaimableFragments clock (cfp_PeerID p) (cfp_LinkID p) (cfp_ClaimedAt p) s =
    (Inr (\<exists>fs s'. mem_ClaimFragments clock p s = (Inr fs, s') \<and> fs \<noteq> []), s)"
proof -
  have "claim_batch clock p s = [] \<longleftrightarrow> \<not> list_ex (fragment_claimable (cfp_PeerID p) (cfp_LinkID p)
      (or_time (cfp_ClaimedAt p) clock)) (entries (fragmentsByID s))"
    using assms(1) by (simp add: claim_batch_def sort_key_Nil list_ex_iff filter_empty_conv)
  then show ?thesis
    using assms by (auto simp: mem_HasClaimableFragments_def mem_ClaimFragments_def Let_def)
qed

lemma has_claimable_iff_claim_nonempty_witness:
  "mem_HasClaimableFragments 1 ''p1'' ''l1'' 10 sample_store = (Inr True, sample_store)"
  using has_claimable_iff_claim_nonempty [of sample_claim 1 sample_store]
  by (simp add: sample_claim_run) (simp add: sample_claim_def)

end
