(* ===== verification/FedCorrect.thy ===== *)
theory FedCorrect
  imports FedServiceProps FedMemoryProps
begin

section \<open>What the federation service guarantees\<close>

text \<open>
  The properties of the service over a store that keeps its contract, proved inside
  \<open>federation_store\<close>, and read off for the in-memory store: runs of the service, what a saved
  bundle went through, how cursors move, who may authenticate.
\<close>

subsection \<open>Runs of the service\<close>

text \<open>One exported operation, with any arguments, successful or not.\<close>

inductive svc_step :: "'s service \<Rightarrow> 's world \<Rightarrow> 's world \<Rightarrow> bool" for sv where
  create_peer: "CreatePeer sv ctx cp w = (r1, w') \<Longrightarrow> svc_step sv w w'"
| peer_by_id: "svc_PeerByID sv ctx i w = (r2, w') \<Longrightarrow> svc_step sv w w'"
| peer_by_name: "svc_PeerByServerName sv ctx i w = (r2, w') \<Longrightarrow> svc_step sv w w'"
| list_peers: "ListPeers sv ctx i w = (r3, w') \<Longrightarrow> svc_step sv w w'"
| update_peer: "UpdatePeer sv ctx up w = (r2, w') \<Longrightarrow> svc_step sv w w'"
| rotate: "RotatePeerSigningKey sv ctx i j w = (r4, w') \<Longrightarrow> svc_step sv w w'"
| authenticate: "AuthenticatePeer sv ctx i j w = (r2, w') \<Longrightarrow> svc_step sv w w'"
| authenticate_by_name: "AuthenticatePeerByServerName sv ctx i j w = (r2, w') \<Longrightarrow> svc_step sv w w'"
| create_link: "CreateLink sv ctx cl w = (r5, w') \<Longrightarrow> svc_step sv w w'"
| link_by_id: "svc_LinkByID sv ctx i w = (r5, w') \<Longrightarrow> svc_step sv w w'"
| link_by_name: "svc_LinkByPeerAndName sv ctx i j w = (r5, w') \<Longrightarrow> svc_step sv w w'"
| list_links: "ListLinks sv ctx i j w = (r6, w') \<Longrightarrow> svc_step sv w w'"
| update_link: "UpdateLink sv ctx ul w = (r5, w') \<Longrightarrow> svc_step sv w w'"
| pause_link: "PauseLink sv ctx i w = (r5, w') \<Longrightarrow> svc_step sv w w'"
| resume_link: "ResumeLink sv ctx i w = (r5, w') \<Longrightarrow> svc_step sv w w'"
| delete_link: "DeleteLink sv ctx i w = (r5, w') \<Longrightarrow> svc_step sv w w'"
| sign: "svc_SignBundle sv ctx i j b w = (r7, w') \<Longrightarrow> svc_step sv w w'"
| queue: "QueueOutboundBundle sv ctx sb w = (r7, w') \<Longrightarrow> svc_step sv w w'"
| accept: "AcceptInboundBundle sv ctx sb w = (r7, w') \<Longrightarrow> svc_step sv w w'"
| pull: "PullOutboundBundles sv ctx i j after n w = (r8, w') \<Longrightarrow> svc_step sv w w'"
| advance: "AdvanceInboundCursor sv ctx i j up_to w = (r9, w') \<Longrightarrow> svc_step sv w w'"
| bundles_after: "svc_BundlesAfter sv ctx i j d after n w = (r10, w') \<Longrightarrow> svc_step sv w w'"
| push: "PushInboundBundles sv ctx i j bs w = (r11, w') \<Longrightarrow> svc_step sv w w'"
| acknowledge: "svc_AcknowledgeBundles sv ctx a w = (r9, w') \<Longrightarrow> svc_step sv w w'"
| cursor: "ReplicationCursorByPeerAndLink sv ctx i j w = (r9, w') \<Longrightarrow> svc_step sv w w'"
| pull_fragments: "PullBridgeFragments sv ctx i j n w = (r12, w') \<Longrightarrow> svc_step sv w w'"
| submit_fragments: "SubmitBridgeFragments sv ctx i j sfs w = (r13, w') \<Longrightarrow> svc_step sv w w'"
| ack_bridge: "AcknowledgeBridgeFragments sv ctx i j ids tok t w = (r14, w') \<Longrightarrow> svc_step sv w w'"

text \<open>
  A run over the in-memory store: any operations at any clock readings, with the random
  source delivering any bytes in between.
\<close>

inductive svc_run :: "mem world \<Rightarrow> mem world \<Rightarrow> bool" where
  stay: "svc_run w w"
| step: "svc_run w w1 \<Longrightarrow> svc_store sv = memory_store clock \<Longrightarrow> svc_step sv w1 w2 \<Longrightarrow> svc_run w w2"
| entropy: "svc_run w w1 \<Longrightarrow> svc_run w (w1\<lparr>w_entropy := e\<rparr>)"

context federation_store
begin

lemma svc_step_advances:
  assumes "svc_store sv = S" "svc_step sv w w'"
  shows "advw w w'"
  using assms(2)
  by cases
    (erule keeps_peer_ops [OF assms(1), THEN keepsD] keeps_link_ops [OF assms(1), THEN keepsD]
      keeps_bundle_ops [OF assms(1), THEN keepsD] keeps_sign_verify(1) [OF assms(1), THEN keepsD]
      keeps_AdvanceInboundCursor [OF assms(1), THEN keepsD]
      keeps_svc_AcknowledgeBundles [OF assms(1), THEN keepsD]
      keeps_ReplicationCursor [OF assms(1), THEN keepsD]
      keeps_bridge_entry_points [OF assms(1), THEN keepsD])+

end

lemma svc_run_advances:
  "svc_run w w' \<Longrightarrow> advances mem_ok mem_cursor_at (w_store w) (w_store w')"
proof (induction rule: svc_run.induct)
  case (stay w)
  then show ?case by (simp add: advances_def)
next
  case (step w w1 sv clock w2)
  have "on_world (advances mem_ok mem_cursor_at) w1 w2"
    by (rule mem.svc_step_advances [OF step.hyps(2,3)])
  then have "advances mem_ok mem_cursor_at (w_store w1) (w_store w2)" by (simp add: on_world_def)
  with step.IH preorder_advances [of mem_ok mem_cursor_at] show ?case
    unfolding preorder_on_states_def by metis
next
  case (entropy w w1 e)
  then show ?case by simp
qed

text \<open>C1: replication cursors never go back: along any run of the service, of any operations
  that succeed or fail, at any clock readings, every cursor stays and none of its four counters
  decreases; and the store stays well formed, so that the applied cursor never overtakes the
  received one.\<close>

theorem cursors_never_go_back:
  assumes "mem_ok (w_store w)" "svc_run w w'"
  shows "mem_ok (w_store w') \<and>
    (\<forall>k c. lookup (cursorsByKey (w_store w)) k = Some c \<longrightarrow>
       (\<exists>d. lookup (cursorsByKey (w_store w')) k = Some d \<and> cursor_le c d)) \<and>
    (\<forall>k d. lookup (cursorsByKey (w_store w')) k = Some d \<longrightarrow>
       cur_LastInboundCursor d \<le> cur_LastReceivedCursor d)"
proof -
  from svc_run_advances [OF assms(2)] assms(1)
  have "mem_ok (w_store w')" "cursors_grow mem_cursor_at (w_store w) (w_store w')"
    by (simp_all add: advances_def)
  then show ?thesis
    using mem_ok_cursor cursor_settled_order unfolding cursors_grow_def by blast
qed

definition sample_service :: "mem service" where
  "sample_service = \<lparr>svc_store = memory_store 50, svc_now = 50, svc_bridgeFragmentLeaseTTL = 30 * second\<rparr>"

definition sample_world :: "mem world" where
  "sample_world = \<lparr>w_store = sample_store, w_entropy = replicate 200 (CHR ''r'')\<rparr>"

lemma sample_advance:
  "AdvanceInboundCursor sample_service LiveContext ''p1'' ''l1'' 2 sample_world =
   (Inr (sample_cursor\<lparr>cur_LastInboundCursor := 2, cur_UpdatedAt := 50\<rparr>),
    sample_world\<lparr>w_store := sample_store\<lparr>cursorsByKey :=
      [(''p1:l1'', sample_cursor\<lparr>cur_LastInboundCursor := 2, cur_UpdatedAt := 50\<rparr>)]\<rparr>\<rparr>)"
  by (simp add: AdvanceInboundCursor_def authorizeLinkForPeer_def ReplicationCursorByPeerAndLink_def
      cursor_or_new_def io_simps Let_def sample_service_def sample_world_def literal_simps
      mem_LinkByID_def mem_CursorByPeerAndLink_def cursorKey_def found_or_def sample_store_def
      sample_link_def mem_SaveCursor_def normalize_cursor_def sample_cursor_def put_def currentTime_def
      word_le_nat_alt)

lemma cursors_never_go_back_witness:
  "\<exists>d. lookup (cursorsByKey (w_store (snd (AdvanceInboundCursor sample_service LiveContext
      ''p1'' ''l1'' 2 sample_world)))) ''p1:l1'' = Some d \<and> cursor_le sample_cursor d"
proof -
  have "svc_run sample_world (snd (AdvanceInboundCursor sample_service LiveContext
      ''p1'' ''l1'' 2 sample_world))"
    by (rule svc_run.step [OF svc_run.stay, where sv = sample_service and clock = 50])
      (simp_all add: sample_service_def svc_step.advance [OF prod.collapse [symmetric]])
  from cursors_never_go_back [OF _ this] show ?thesis
    using sample_store_ok by (simp add: sample_world_def) (simp add: sample_store_def)
qed

subsection \<open>Saving a bundle\<close>

text \<open>A bundle whose text fields and compression are in the form that normalisation leaves.\<close>

definition canonical_bundle :: "fed_bundle \<Rightarrow> bool" where
  "canonical_bundle b \<longleftrightarrow>
     trim_space (bundle_PeerID b) = bundle_PeerID b \<and> trim_space (bundle_LinkID b) = bundle_LinkID b \<and>
     trim_space (bundle_DedupKey b) = bundle_DedupKey b \<and>
     norm_name (bundle_IntegrityHash b) = bundle_IntegrityHash b \<and>
     norm_name (bundle_AuthTag b) = bundle_AuthTag b \<and>
     norm_name (bundle_PayloadType b) = bundle_PayloadType b \<and> bundle_Compression b \<noteq> []"

lemma normalize_bundle_canonical: "normalize_bundle b now = Inr c \<Longrightarrow> canonical_bundle c"
  unfolding normalize_bundle_def Let_def io_inv by (clarsimp simp: canonical_bundle_def)

lemma signBundle_canonical: "canonical_bundle b \<Longrightarrow> canonical_bundle (signBundle p l b)"
  by (simp add: canonical_bundle_def)

lemma normalize_canonical:
  assumes "canonical_bundle b" "normalize_bundle b now = Inr c"
  shows "same_bundle_owner c b" "same_bundle_content c b" "bundle_DedupKey c = bundle_DedupKey b"
  using assms unfolding normalize_bundle_def Let_def io_inv
  by (clarsimp simp: canonical_bundle_def same_bundle_owner_def same_bundle_content_def)+

lemma same_bundle_sym:
  "same_bundle_owner b c \<Longrightarrow> same_bundle_owner c b" "same_bundle_content b c \<Longrightarrow> same_bundle_content c b"
  by (simp_all add: same_bundle_owner_def same_bundle_content_def)

text \<open>What the caller sent, as the bundle the service works on.\<close>

definition received_bundle :: "'s service \<Rightarrow> string \<Rightarrow> BundleDirection \<Rightarrow> save_bundle_params \<Rightarrow> error + fed_bundle" where
  "received_bundle sv i direction params =
     normalize_bundle (bundle_of_params i (trim_space (sbp_PeerID params)) (trim_space (sbp_LinkID params))
       (trim_space (sbp_DedupKey params)) direction params) (currentTime sv)"

lemma peerAndLink_Inr:
  assumes "peerAndLink sv p0 l0 w = (Inr (p, l), w')"
  shows "\<exists>s1. st_LinkByID (svc_store sv) (trim_space l0) (w_store w) = (Inr l, s1) \<and>
    st_PeerByID (svc_store sv) (trim_space p0) s1 = (Inr p, w_store w') \<and>
    link_PeerID l = trim_space p0 \<and> w' = w\<lparr>w_store := w_store w'\<rparr>"
  using assms unfolding peerAndLink_def Let_def io_inv by (auto simp: io_inv)

context federation_store
begin

lemma peerAndLink_found:
  assumes "svc_store sv = S" "peerAndLink sv p0 l0 w = (Inr (p, l), w')"
  shows "w' = w" "link_at (w_store w) (trim_space l0) = Some l"
    "peer_at (w_store w) (trim_space p0) = Some p" "link_PeerID l = trim_space p0"
  using peerAndLink_Inr [OF assms(2)] unfolding assms(1) LinkByID PeerByID found_or_Inr by auto

text \<open>A successful transaction: a replay that changed nothing, or a new position of the cursor.\<close>

lemma saveBundle_tx_inbound:
  assumes "canonical_bundle b" "bundle_Direction b = BundleDirectionInbound"
    and "saveBundle_tx S now BundleDirectionInbound b s = (Inr saved, s')"
  shows "\<exists>c. (cursor_at s (cell (bundle_PeerID b) (bundle_LinkID b)) = Some c \<or>
       cursor_at s (cell (bundle_PeerID b) (bundle_LinkID b)) = None \<and>
         c = new_cursor (bundle_PeerID b) (bundle_LinkID b)) \<and>
    (bundle_CursorTo b \<le> cur_LastReceivedCursor c \<and> s' = s \<and>
       bundle_at s (bundle_DedupKey b) = Some saved \<and> same_bundle_owner saved b \<or>
     cur_LastReceivedCursor c < bundle_CursorTo b \<and>
       bundle_at s' (bundle_DedupKey b) = Some saved \<and>
       same_bundle_owner saved b \<and> same_bundle_content saved b \<and>
       (\<exists>d. cursor_at s' = (cursor_at s)(cell (cur_PeerID d) (cur_LinkID d) \<mapsto> d) \<and>
          cur_LastReceivedCursor d = bundle_CursorTo b \<and>
          cur_LastInboundCursor d = cur_LastInboundCursor c \<and>
          cur_LastOutboundCursor d = cur_LastOutboundCursor c \<and>
          cur_LastAckedCursor d = cur_LastAckedCursor c \<and>
          cur_PeerID d = trim_space (cur_PeerID c) \<and> cur_LinkID d = trim_space (cur_LinkID c)))"
proof -
  let ?key = "bundle_DedupKey b"
  obtain c where c0: "cursor_or_new S (bundle_PeerID b) (bundle_LinkID b) s = (Inr c, s)"
    using cursor_or_new_total by blast
  then have c: "cursor_at s (cell (bundle_PeerID b) (bundle_LinkID b)) = Some c \<or>
       cursor_at s (cell (bundle_PeerID b) (bundle_LinkID b)) = None \<and>
         c = new_cursor (bundle_PeerID b) (bundle_LinkID b)"
    by (simp add: cursor_or_new_Inr)
  show ?thesis
  proof (cases "bundle_CursorTo b \<le> cur_LastReceivedCursor c")
    case True
    with assms(3) c0 have "s' = s \<and> bundle_at s ?key = Some saved \<and> same_bundle_owner saved b"
      by (auto simp: saveBundle_tx_def andThen_run attempt_run BundleByDedupKey found_or_run
          split: option.splits if_splits)
    with c True show ?thesis by blast
  next
    case False
    let ?d = "c\<lparr>cur_LastReceivedCursor := bundle_CursorTo b, cur_UpdatedAt := now\<rparr>"
    from assms(3) c0 False obtain s1 e where save: "st_SaveBundle S b s = (Inr saved, s1)"
      and cur: "st_SaveCursor S ?d s1 = (Inr e, s')"
      by (auto simp: saveBundle_tx_def andThen_run wrapping_run Let_def not_le
          split: prod.splits sum.splits)
    obtain nb where nb: "\<exists>now. normalize_bundle b now = Inr nb"
      and at1: "bundle_at s (bundle_DedupKey nb) = Some saved \<and> s1 = s \<and>
          same_bundle_owner saved nb \<and> same_bundle_content saved nb \<or>
        saved = nb \<and> bundle_at s1 (bundle_DedupKey nb) = Some nb"
      and same: "cursor_at s1 = cursor_at s"
      using SaveBundle [OF save] by blast
    then have "same_bundle_owner nb b" "same_bundle_content nb b" "bundle_DedupKey nb = ?key"
      using normalize_canonical [OF assms(1)] by blast+
    with at1 have stored: "bundle_at s1 ?key = Some saved" "same_bundle_owner saved b"
        "same_bundle_content saved b"
      using same_bundle_trans by metis+
    obtain now' where "normalize_cursor ?d now' = Inr e"
      and at2: "cursor_at s' = (cursor_at s1)(cell (cur_PeerID e) (cur_LinkID e) \<mapsto> e)"
      and "bundle_at s' = bundle_at s1"
      using SaveCursor [OF cur] by blast
    with normalize_cursor_fields have "cur_LastReceivedCursor e = bundle_CursorTo b \<and>
          cur_LastInboundCursor e = cur_LastInboundCursor c \<and>
          cur_LastOutboundCursor e = cur_LastOutboundCursor c \<and>
          cur_LastAckedCursor e = cur_LastAckedCursor c \<and>
          cur_PeerID e = trim_space (cur_PeerID c) \<and> cur_LinkID e = trim_space (cur_LinkID c)"
      by force
    with c False at2 same stored \<open>bundle_at s' = bundle_at s1\<close> show ?thesis
      by (metis not_le)
  qed
qed

lemma AcceptInboundBundle_Inr:
  assumes "svc_store sv = S" "AcceptInboundBundle sv ctx params w = (Inr saved, w')"
  shows "\<exists>i l p b. link_at (w_store w) (trim_space (sbp_LinkID params)) = Some l \<and>
    link_PeerID l = trim_space (sbp_PeerID params) \<and> link_State l \<noteq> LinkStateDeleted \<and>
    peer_at (w_store w) (trim_space (sbp_PeerID params)) = Some p \<and>
    received_bundle sv i BundleDirectionInbound params = Inr b \<and> verifyBundle p l b = Inr () \<and>
    saveBundle_tx S (currentTime sv) BundleDirectionInbound b (w_store w) = (Inr saved, w_store w')"
proof -
  from assms(2) obtain s1 l w2 i w3 b w4 where
    l: "st_LinkByID S (trim_space (sbp_LinkID params)) (w_store w) = (Inr l, s1)"
    and own: "link_PeerID l = trim_space (sbp_PeerID params)" "link_State l \<noteq> LinkStateDeleted"
    and i: "newID ''bundle'' (w\<lparr>w_store := s1\<rparr>) = (Inr i, w3)"
    and b: "received_bundle sv i BundleDirectionInbound params = Inr b"
    and v: "svc_verifyBundle sv (trim_space (sbp_PeerID params)) (trim_space (sbp_LinkID params)) b w3
        = (Inr (), w4)"
    and tx: "saveBundle_tx S (currentTime sv) BundleDirectionInbound b (w_store w4) =
        (Inr saved, w_store w')"
    unfolding AcceptInboundBundle_def saveBundle_def Let_def io_inv received_bundle_def assms(1)
    by (auto simp: io_inv)
  from l have l': "link_at (w_store w) (trim_space (sbp_LinkID params)) = Some l" "s1 = w_store w"
    by (auto simp: LinkByID found_or_Inr)
  have w3: "w_store w3 = w_store w" using newID_store [OF i] l'(2) by simp
  from v obtain p l2 where pl: "peerAndLink sv (trim_space (sbp_PeerID params))
      (trim_space (sbp_LinkID params)) w3 = (Inr (p, l2), w4)" and ver: "verifyBundle p l2 b = Inr ()"
    by (auto simp: svc_verifyBundle_def io_inv split: prod.splits)
  note found = peerAndLink_found [OF assms(1) pl]
  with w3 l' have "l2 = l" "peer_at (w_store w) (trim_space (sbp_PeerID params)) = Some p" "w4 = w3"
    by simp_all
  with l' own b ver tx w3 show ?thesis by auto
qed

subsection \<open>Failures that leave the store alone\<close>

abbreviation "same_world \<equiv> on_world (\<lambda>s s'. s' = s)"

lemma preorder_same: "preorder_on_states (\<lambda>s s'. s' = s)" "preorder_on_states same_world"
  by (simp_all add: preorder_on_states_def on_world_def)

lemma reads_keep_store:
  "keeps (\<lambda>s s'. s' = s) (st_PeerByID S i)" "keeps (\<lambda>s s'. s' = s) (st_LinkByID S i)"
  "keeps (\<lambda>s s'. s' = s) (st_PeerByServerName S i)" "keeps (\<lambda>s s'. s' = s) (cursor_or_new S i j)"
  using cursor_or_new_total
  by (auto simp: keeps_def PeerByID LinkByID found_or_run split: option.splits dest: PeerByServerName)
    (metis prod.inject)

lemma writes_fail_cleanly:
  "clean (\<lambda>s s'. s' = s) (st_SavePeer S p)" "clean (\<lambda>s s'. s' = s) (st_SaveLink S l)"
  "clean (\<lambda>s s'. s' = s) (st_SaveCursor S c)"
  using failed_write by (auto simp: clean_def)

lemma clean_on_store: "clean (\<lambda>s s'. s' = s) m \<Longrightarrow> clean same_world (on_store m)"
  by (auto simp: clean_def on_world_def on_store_Inl)

lemma keeps_same_peerAndLink: "svc_store sv = S \<Longrightarrow> keeps same_world (peerAndLink sv p l)"
  unfolding peerAndLink_def Let_def by (simp, intro keeps_rules preorder_same reads_keep_store)

lemma keeps_same_reads:
  assumes "svc_store sv = S"
  shows "keeps same_world (svc_SignBundle sv ctx p l b)" "keeps same_world (svc_verifyBundle sv p l b)"
    "keeps same_world (authorizeLinkForPeer sv p l allow)"
    "keeps same_world (ReplicationCursorByPeerAndLink sv ctx p l)"
  unfolding svc_SignBundle_def svc_verifyBundle_def authorizeLinkForPeer_def
    ReplicationCursorByPeerAndLink_def Let_def assms
  by (intro keeps_rules preorder_same keeps_same_peerAndLink reads_keep_store assms)+

lemma keeps_same_secret: "keeps same_world (secret_or_token provided what)"
  unfolding secret_or_token_def by (intro keeps_rules preorder_same)

lemma clean_case_prod: "(\<And>a b. clean R (f a b)) \<Longrightarrow> clean R (case x of (a, b) \<Rightarrow> f a b)"
  by (cases x) simp

lemmas single_write_rules = clean_then_ret clean_andThen clean_rules clean_case_prod clean_on_store
  writes_fail_cleanly keeps_rules preorder_same reads_keep_store keeps_same_secret

lemma clean_operations:
  assumes "svc_store sv = S"
  shows "clean same_world (CreatePeer sv ctx cp)" "clean same_world (UpdatePeer sv ctx up)"
    "clean same_world (RotatePeerSigningKey sv ctx i j)"
    "clean same_world (AuthenticatePeer sv ctx i j)"
    "clean same_world (AuthenticatePeerByServerName sv ctx i j)"
    "clean same_world (CreateLink sv ctx cl)" "clean same_world (UpdateLink sv ctx ul)"
    "clean same_world (saveBundle sv ctx sb d)"
    "clean same_world (AdvanceInboundCursor sv ctx i j up_to)"
  unfolding CreatePeer_def UpdatePeer_def RotatePeerSigningKey_def AuthenticatePeer_def
    AuthenticatePeerByServerName_def authenticatePeer_def CreateLink_def UpdateLink_def
    saveBundle_def AdvanceInboundCursor_def Let_def assms
  by (intro single_write_rules keeps_same_reads assms)+

end

subsection \<open>Who may authenticate\<close>

lemma normalize_peer_fields:
  assumes "normalize_peer x now = Inr q"
  shows "peer_ID q = trim_space (peer_ID x) \<and> peer_ServerName q = norm_name (peer_ServerName x) \<and>
    peer_SharedSecretHash q = norm_name (peer_SharedSecretHash x) \<and>
    peer_SigningSecret q = or_default (trim_space (peer_SigningSecret x)) (trim_space (peer_SharedSecret x)) \<and>
    peer_PreviousSigningSecret q = trim_space (peer_PreviousSigningSecret x) \<and>
    peer_SigningKeyVersion q = or_version (peer_SigningKeyVersion x) \<and>
    peer_LastSeenAt q = peer_LastSeenAt x \<and>
    peer_state_switch (peer_Trusted x) (peer_State x) = Some (peer_Trusted q, peer_State q)"
  using assms unfolding normalize_peer_def Let_def io_inv by clarsimp

text \<open>What a settled peer keeps when it is saved again with another time of contact.\<close>

lemma settled_peer_resaved:
  assumes "peer_settled p" "normalize_peer (p\<lparr>peer_LastSeenAt := a, peer_UpdatedAt := b\<rparr>) now = Inr q"
  shows "peer_ID q = peer_ID p \<and> peer_ServerName q = peer_ServerName p \<and>
    peer_SharedSecretHash q = peer_SharedSecretHash p \<and> peer_SigningSecret q = peer_SigningSecret p \<and>
    peer_Trusted q = peer_Trusted p \<and> peer_State q = peer_State p \<and> peer_LastSeenAt q = a"
proof -
  obtain t where t: "normalize_peer p t = Inr p" using assms(1) by (auto simp: peer_settled_def)
  from normalize_peer_fields [OF t] normalize_peer_fields [OF assms(2)] show ?thesis by simp
qed

context federation_store
begin

lemma authenticatePeer_Inr:
  assumes "svc_store sv = S" "valid (w_store w)" "peer_settled p"
    and "authenticatePeer sv p secret w = (Inr q, w')"
  shows "peer_SharedSecretHash p = secretHash secret \<and> peer_Trusted p \<and>
    (peer_State p = PeerStateActive \<or> peer_State p = PeerStateDegraded) \<and>
    peer_ID q = peer_ID p \<and> peer_ServerName q = peer_ServerName p \<and> peer_Trusted q \<and>
    peer_State q = peer_State p \<and> peer_LastSeenAt q = currentTime sv \<and>
    peer_at (w_store w') = (peer_at (w_store w))(peer_ID p \<mapsto> q) \<and>
    link_at (w_store w') = link_at (w_store w) \<and> bundle_at (w_store w') = bundle_at (w_store w) \<and>
    cursor_at (w_store w') = cursor_at (w_store w)"
proof -
  let ?x = "p\<lparr>peer_LastSeenAt := currentTime sv, peer_UpdatedAt := currentTime sv\<rparr>"
  from assms(1,4) have guards: "peer_SharedSecretHash p = secretHash secret" "peer_Trusted p"
      "peer_State p = PeerStateActive \<or> peer_State p = PeerStateDegraded"
    and save: "st_SavePeer S ?x (w_store w) = (Inr q, w_store w')"
    unfolding authenticatePeer_def io_inv by auto
  from SavePeer [OF save] obtain t where "normalize_peer ?x t = Inr q" by blast
  from settled_peer_resaved [OF assms(3) this] guards SavePeer [OF save] show ?thesis by auto
qed

end





subsection \<open>What an accepted bundle went through\<close>

definition received_cursor :: "mem \<Rightarrow> string \<Rightarrow> string \<Rightarrow> uint64" where
  "received_cursor s p l = (case lookup (cursorsByKey s) (cursorKey p l) of
     None \<Rightarrow> 0 | Some c \<Rightarrow> cur_LastReceivedCursor c)"

text \<open>C2: an inbound bundle is accepted only over a link of its peer that is not deleted, and only
  after it verified with that peer's secrets. Either it does not go past the received cursor, then
  nothing is stored and the result is the bundle that the same peer, link and direction stored
  under the deduplication key before; or it does, then its content is stored under that key and
  the received cursor becomes exactly the bundle's end.\<close>

theorem accepted_bundle_verified:
  assumes "mem_ok (w_store w)" "svc_store sv = memory_store clock"
    and "AcceptInboundBundle sv ctx params w = (Inr saved, w')"
  shows "\<exists>i l p b. lookup (linksByID (w_store w)) (trim_space (sbp_LinkID params)) = Some l \<and>
    link_PeerID l = trim_space (sbp_PeerID params) \<and> link_State l \<noteq> LinkStateDeleted \<and>
    lookup (peersByID (w_store w)) (trim_space (sbp_PeerID params)) = Some p \<and>
    received_bundle sv i BundleDirectionInbound params = Inr b \<and> verifyBundle p l b = Inr () \<and>
    same_bundle_owner saved b \<and>
    mem_bundle_at (w_store w') (bundle_DedupKey b) = Some saved \<and>
    (if bundle_CursorTo b \<le> received_cursor (w_store w) (bundle_PeerID b) (bundle_LinkID b)
     then w_store w' = w_store w
     else same_bundle_content saved b \<and>
       received_cursor (w_store w') (bundle_PeerID b) (bundle_LinkID b) = bundle_CursorTo b)"
proof -
  from mem.AcceptInboundBundle_Inr [OF assms(2,3)] obtain i l p b where
    front: "lookup (linksByID (w_store w)) (trim_space (sbp_LinkID params)) = Some l"
      "link_PeerID l = trim_space (sbp_PeerID params)" "link_State l \<noteq> LinkStateDeleted"
      "lookup (peersByID (w_store w)) (trim_space (sbp_PeerID params)) = Some p"
      "received_bundle sv i BundleDirectionInbound params = Inr b" "verifyBundle p l b = Inr ()"
    and tx: "saveBundle_tx (memory_store clock) (currentTime sv) BundleDirectionInbound b (w_store w) =
      (Inr saved, w_store w')"
    by blast
  from front(5) have canon: "canonical_bundle b" and dir: "bundle_Direction b = BundleDirectionInbound"
    unfolding received_bundle_def
    by (auto intro: normalize_bundle_canonical)
      (auto simp: normalize_bundle_def Let_def io_inv bundle_of_params_def)
  let ?P = "bundle_PeerID b" and ?L = "bundle_LinkID b"
  from mem.saveBundle_tx_inbound [OF canon dir tx] obtain c where
    c: "lookup (cursorsByKey (w_store w)) (cursorKey ?P ?L) = Some c \<or>
      lookup (cursorsByKey (w_store w)) (cursorKey ?P ?L) = None \<and> c = new_cursor ?P ?L"
    and cases: "bundle_CursorTo b \<le> cur_LastReceivedCursor c \<and> w_store w' = w_store w \<and>
         mem_bundle_at (w_store w) (bundle_DedupKey b) = Some saved \<and> same_bundle_owner saved b \<or>
       cur_LastReceivedCursor c < bundle_CursorTo b \<and>
         mem_bundle_at (w_store w') (bundle_DedupKey b) = Some saved \<and>
         same_bundle_owner saved b \<and> same_bundle_content saved b \<and>
         (\<exists>d. mem_cursor_at (w_store w') = (mem_cursor_at (w_store w))
              (cursorKey (cur_PeerID d) (cur_LinkID d) \<mapsto> d) \<and>
            cur_LastReceivedCursor d = bundle_CursorTo b \<and>
            cur_PeerID d = trim_space (cur_PeerID c) \<and> cur_LinkID d = trim_space (cur_LinkID c))"
    by blast
  have rc: "received_cursor (w_store w) ?P ?L = cur_LastReceivedCursor c"
    using c by (auto simp: received_cursor_def new_cursor_def)
  have key: "cursorKey (trim_space (cur_PeerID c)) (trim_space (cur_LinkID c)) = cursorKey ?P ?L"
    using c canon mem_ok_cursor [OF assms(1)] cursor_settled_trimmed
    by (auto simp: canonical_bundle_def new_cursor_def)
  show ?thesis
  proof (cases "bundle_CursorTo b \<le> cur_LastReceivedCursor c")
    case True
    with cases have "w_store w' = w_store w" "same_bundle_owner saved b"
        "mem_bundle_at (w_store w) (bundle_DedupKey b) = Some saved"
      by auto
    with True front rc show ?thesis
      by (intro exI [of _ i] exI [of _ l] exI [of _ p] exI [of _ b]) simp
  next
    case False
    with cases have stored: "mem_bundle_at (w_store w') (bundle_DedupKey b) = Some saved"
        "same_bundle_owner saved b" "same_bundle_content saved b"
      and "received_cursor (w_store w') ?P ?L = bundle_CursorTo b"
      using key by (auto simp: received_cursor_def)
    with False front rc show ?thesis
      by (intro exI [of _ i] exI [of _ l] exI [of _ p] exI [of _ b]) simp
  qed
qed

text \<open>C4: the operations that write once are all or nothing: when the creation, update or
  authentication of a peer, the rotation of its key, the creation or update of a link, the saving
  of a bundle in either direction or the advance of the inbound cursor fails, the store is exactly
  what it was.\<close>

theorem failed_operations_keep_store:
  assumes "svc_store sv = memory_store clock"
    and "CreatePeer sv ctx cp w = (Inl e, w') \<or> UpdatePeer sv ctx up w = (Inl e, w') \<or>
      RotatePeerSigningKey sv ctx i j w = (Inl e, w') \<or> AuthenticatePeer sv ctx i j w = (Inl e, w') \<or>
      AuthenticatePeerByServerName sv ctx i j w = (Inl e, w') \<or> CreateLink sv ctx cl w = (Inl e, w') \<or>
      UpdateLink sv ctx ul w = (Inl e, w') \<or> QueueOutboundBundle sv ctx sb w = (Inl e, w') \<or>
      AcceptInboundBundle sv ctx sb w = (Inl e, w') \<or>
      AdvanceInboundCursor sv ctx i j up_to w = (Inl e, w')"
  shows "w_store w' = w_store w"
proof -
  have step: "on_world (\<lambda>s s'. s' = s) w w'" if "clean (on_world (\<lambda>s s'. s' = s)) m" "m w = (Inl e, w')"
    for m :: "(mem world, 'x) io"
    using cleanD [OF that] .
  note ops = mem.clean_operations [OF assms(1)]
  from assms(2) have "on_world (\<lambda>s s'. s' = s) w w'"
    unfolding QueueOutboundBundle_def AcceptInboundBundle_def
    by (elim disjE) (erule cleanD [rotated], rule ops)+
  then show ?thesis by (simp add: on_world_def)
qed

subsection \<open>The two theorems at a sample bundle and a missing link\<close>

definition sample_hash :: string where
  "sample_hash = payloadIntegrityHash ''hi''"

definition sample_params :: save_bundle_params where
  "sample_params = \<lparr>sbp_PeerID = ''p1'', sbp_LinkID = ''l1'', sbp_DedupKey = ''d2'', sbp_Direction = [],
     sbp_CursorFrom = 3, sbp_CursorTo = 5, sbp_EventCount = 1, sbp_PayloadType = ''json'',
     sbp_Payload = ''hi'', sbp_Compression = CompressionKindNone,
     sbp_IntegrityHash = sample_hash,
     sbp_AuthTag = bundleAuthTag ''key'' sample_peer sample_link (sample_bundle\<lparr>bundle_CursorFrom := 3,
       bundle_CursorTo := 5, bundle_EventCount := 1\<rparr>) sample_hash,
     sbp_AvailableAt = 0, sbp_ExpiresAt = 0\<rparr>"


lemma sample_fields:
  "link_State sample_link = LinkStateActive" "link_PeerID sample_link = ''p1''"
  "peer_SigningSecret sample_peer = ''key''"
  by (simp_all add: sample_link_def sample_peer_def)

lemma sample_verify:
  assumes "bundle_Payload b = ''hi''" "bundle_IntegrityHash b = sample_hash"
    "bundle_AuthTag b = sbp_AuthTag sample_params" "bundle_CursorFrom b = 3" "bundle_CursorTo b = 5"
    "bundle_EventCount b = 1" "bundle_PayloadType b = ''json''" "bundle_Compression b = CompressionKindNone"
  shows "verifyBundle sample_peer sample_link b = Inr ()"
proof -
  let ?c = "sample_bundle\<lparr>bundle_CursorFrom := 3, bundle_CursorTo := 5, bundle_EventCount := 1\<rparr>"
  have "same_signed b ?c" using assms by (simp add: same_signed_def sample_bundle_def)
  from bundleAuthTag_same [OF this, of "''key''" sample_peer sample_link sample_hash] assms
  show ?thesis
    by (simp add: verifyBundle_def sample_hash_def sample_params_def sample_fields)
qed

lemma sample_accept:
  "\<exists>b w. AcceptInboundBundle sample_service LiveContext sample_params sample_world = (Inr b, w)"
proof -
  have hash: "norm_name sample_hash = sample_hash" "sample_hash \<noteq> []"
    by (simp_all add: sample_hash_def)
  have tag: "norm_name (sbp_AuthTag sample_params) = sbp_AuthTag sample_params" "sbp_AuthTag sample_params \<noteq> []"
    by (simp_all add: sample_params_def)
  have par: "sbp_PeerID sample_params = ''p1''" "sbp_LinkID sample_params = ''l1''"
    "sbp_DedupKey sample_params = ''d2''" "sbp_CursorFrom sample_params = 3"
    "sbp_CursorTo sample_params = 5" "sbp_EventCount sample_params = 1"
    "sbp_PayloadType sample_params = ''json''" "sbp_Payload sample_params = ''hi''"
    "sbp_Compression sample_params = CompressionKindNone" "sbp_IntegrityHash sample_params = sample_hash"
    "sbp_AvailableAt sample_params = 0" "sbp_ExpiresAt sample_params = 0"
    by (simp_all add: sample_params_def)
  show ?thesis
    by (simp add: AcceptInboundBundle_def saveBundle_def par io_simps Let_def
        sample_service_def sample_world_def literal_simps mem_LinkByID_def mem_PeerByID_def found_or_def
        sample_store_def newID_def random_id_def randomToken_def random_token_def bundle_of_params_def normalize_bundle_def
        valid_direction_def valid_compression_def valid_bundle_state_def initial_bundle_state_def
        svc_verifyBundle_def peerAndLink_def sample_verify hash tag currentTime_def sample_fields
        saveBundle_tx_def cursor_or_new_def mem_CursorByPeerAndLink_def cursorKey_def
        mem_SaveBundle_def indexed_def mem_SaveCursor_def normalize_cursor_def sample_cursor_def
        word_le_nat_alt word_less_nat_alt mem_BundleByDedupKey_def put_def)
qed

lemma accepted_bundle_verified_witness:
  "\<exists>saved w'. AcceptInboundBundle sample_service LiveContext sample_params sample_world = (Inr saved, w') \<and>
     (\<exists>i b. received_bundle sample_service i BundleDirectionInbound sample_params = Inr b \<and>
       verifyBundle sample_peer sample_link b = Inr () \<and> same_bundle_owner saved b)"
proof -
  obtain saved w' where run: "AcceptInboundBundle sample_service LiveContext sample_params sample_world = (Inr saved, w')"
    using sample_accept by blast
  have ok: "mem_ok (w_store sample_world)" using sample_store_ok by (simp add: sample_world_def)
  have st: "svc_store sample_service = memory_store 50" by (simp add: sample_service_def)
  from accepted_bundle_verified [OF ok st run] run show ?thesis
    by (auto simp: sample_world_def sample_store_def sample_params_def literal_simps)
qed

lemma sample_update_missing:
  "UpdateLink sample_service LiveContext (only_state ''zz'' LinkStatePaused) sample_world =
     (Inl (Wrapped ''load federation link zz before update'' ErrNotFound), sample_world)"
  by (simp add: UpdateLink_def only_state_def io_simps Let_def sample_service_def sample_world_def
      literal_simps mem_LinkByID_def found_or_def sample_store_def)

lemma failed_operations_keep_store_witness:
  "\<exists>e w'. UpdateLink sample_service LiveContext (only_state ''zz'' LinkStatePaused) sample_world = (Inl e, w') \<and>
     error_is e ErrNotFound \<and> w_store w' = w_store sample_world"
proof -
  have st: "svc_store sample_service = memory_store 50" by (simp add: sample_service_def)
  from failed_operations_keep_store [OF st] sample_update_missing show ?thesis
    by fastforce
qed

end
