(* ===== verification/FedFragmentProps.thy ===== *)
theory FedFragmentProps
  imports FedCorrect "HOL-Library.Multiset"
begin

section \<open>Splitting a bundle and putting it together again\<close>

text \<open>
  What \<open>fragments.go\<close> guarantees of the fragments of one bundle: the parts of a payload, when
  a set of fragments counts as complete, and that a signed bundle survives the way over a
  constrained link in any order of arrival. Then what goes wrong when the identifiers of two
  peers collide.
\<close>

subsection \<open>The parts of a payload\<close>

lemma concat_chunks: "0 < n \<Longrightarrow> concat (chunks n xs) = xs"
proof (induction n xs rule: chunks.induct)
  case (1 n xs)
  then show ?case by (subst chunks.simps) simp
qed

lemma chunk_size: "c \<in> set (chunks n xs) \<Longrightarrow> c \<noteq> [] \<and> length c \<le> n"
proof (induction n xs rule: chunks.induct)
  case (1 n xs)
  then show ?case by (subst (asm) (2) chunks.simps) (auto split: if_splits)
qed

lemma length_chunks: "0 < n \<Longrightarrow> length (chunks n xs) = (length xs + n - 1) div n"
proof (induction n xs rule: chunks.induct)
  case (1 n xs)
  show ?case
  proof (cases "xs = []")
    case True
    with 1 show ?thesis by (subst chunks.simps) simp
  next
    case False
    with 1 have step: "length (chunks n xs) = 1 + (length xs - n + n - 1) div n"
      by (subst chunks.simps) simp
    show ?thesis
    proof (cases "length xs < n")
      case True
      then have "(length xs - 1) div n = 0" by simp
      moreover have "length xs + n - 1 = n + (length xs - 1)" using False by (cases xs) simp_all
      moreover have "(n + (length xs - 1)) div n = (length xs - 1) div n + 1"
        using 1 by (intro div_add_self1) simp
      ultimately have "(length xs + n - 1) div n = 1" by simp
      moreover have "length (chunks n xs) = 1" using step True by simp
      ultimately show ?thesis by simp
    next
      case False
      then have "length xs + n - 1 = (length xs - n + n - 1) + n" using 1 by simp
      with 1 step show ?thesis by (metis Suc_eq_plus1 add.commute div_add_self2 less_numeral_extra(3))
    qed
  qed
qed

lemma splitPayload_concat: "concat (splitPayload payload n) = payload"
  by (auto simp: splitPayload_def concat_chunks)

lemma splitPayload_nonempty: "splitPayload payload n \<noteq> []"
  using splitPayload_concat [of payload n] by (cases payload) (auto simp: splitPayload_def)

text \<open>splitting loses nothing and respects the limit: the parts of a payload, in order, make
  up the payload; there is always at least one; with a positive limit no part is longer than it,
  and a non-empty payload has exactly as many parts as the limit requires, none of them empty.\<close>

theorem splitPayload_parts:
  "concat (splitPayload payload n) = payload \<and> splitPayload payload n \<noteq> [] \<and>
   (0 < n \<longrightarrow> (\<forall>part \<in> set (splitPayload payload n). int (length part) \<le> n)) \<and>
   (payload \<noteq> [] \<longrightarrow> [] \<notin> set (splitPayload payload n) \<and>
     (0 < n \<longrightarrow> length (splitPayload payload n) = (length payload + nat n - 1) div nat n))"
proof (cases "payload = []")
  case True
  then show ?thesis by (simp add: splitPayload_def)
next
  case False
  define m where "m = nat (if n \<le> 0 then int (length payload) else n)"
  from False have m: "0 < m" "splitPayload payload n = chunks m payload" "0 < n \<Longrightarrow> m = nat n"
    by (simp_all add: m_def splitPayload_def)
  have "chunks m payload \<noteq> []" using False m(1) by (subst chunks.simps) simp
  moreover have "int (length part) \<le> n" if "0 < n" "part \<in> set (chunks m payload)" for part
    using chunk_size [OF that(2)] m(3) [OF that(1)] that(1) by linarith
  moreover have "[] \<notin> set (chunks m payload)" using chunk_size by blast
  moreover have "length (chunks m payload) = (length payload + nat n - 1) div nat n" if "0 < n"
    using length_chunks [OF m(1)] m(3) [OF that] by metis
  moreover have "concat (chunks m payload) = payload" using concat_chunks [OF m(1)] .
  ultimately show ?thesis unfolding m(2) by blast
qed

lemma splitPayload_parts_witness:
  "splitPayload ''hello'' 2 = [''he'', ''ll'', ''o''] \<and> length (splitPayload ''hello'' 2) = 3"
proof -
  have "length (splitPayload ''hello'' 2) = (length ''hello'' + nat 2 - 1) div nat 2"
    using splitPayload_parts [of "''hello''" 2] by simp
  moreover have "splitPayload ''hello'' 2 = [''he'', ''ll'', ''o'']"
    by (simp add: splitPayload_def chunks.simps)
  ultimately show ?thesis by simp
qed

subsection \<open>When a set of fragments is complete\<close>

abbreviation all_accepted :: "fragment list \<Rightarrow> bool" where
  "all_accepted \<equiv> list_all (\<lambda>f. frag_State f = FragmentStateAccepted)"

definition agrees_with :: "fragment \<Rightarrow> fragment \<Rightarrow> bool" where
  "agrees_with first f \<longleftrightarrow> frag_FragmentCount f = frag_FragmentCount first \<and>
     same_fragment_header f first \<and> same_fragment_proof f first"

lemma validate_from_accepted:
  "all_accepted fs \<Longrightarrow> validate_from first seen fs = Inr () \<longleftrightarrow>
     list_all (agrees_with first) fs \<and> distinct (List.map frag_FragmentIndex fs) \<and>
     set (List.map frag_FragmentIndex fs) \<inter> set seen = {}"
  by (induction first seen fs rule: validate_from.induct)
    (auto simp: fragment_terminal_def agrees_with_def)

lemma validateFragmentSet_accepted:
  assumes "all_accepted fs" "fs \<noteq> []"
  shows "validateFragmentSet fs = Inr () \<longleftrightarrow>
    list_all (agrees_with (hd fs)) fs \<and> distinct (List.map frag_FragmentIndex fs)"
  using assms validate_from_accepted [OF assms(1)] by (cases fs) (simp_all add: validateFragmentSet_def)

lemma distinct_bounded_indexes:
  fixes xs :: "int list"
  assumes "sorted xs" "distinct xs" "\<forall>x \<in> set xs. 0 \<le> x \<and> x < int (length xs)"
  shows "xs = List.map int [0..<length xs]"
proof -
  have "set xs = int ` {0..<length xs}"
  proof (rule card_subset_eq)
    show "set xs \<subseteq> int ` {0..<length xs}"
    proof
      fix x assume "x \<in> set xs"
      with assms(3) have "0 \<le> x" "x < int (length xs)" by auto
      then have "x = int (nat x) \<and> nat x \<in> {0..<length xs}" by auto
      then show "x \<in> int ` {0..<length xs}" by blast
    qed
    show "card (set xs) = card (int ` {0..<length xs})"
      using assms(2) by (simp add: distinct_card card_image)
  qed simp
  then have "set xs = set (List.map int [0..<length xs])" by simp
  moreover have "sorted (List.map int [0..<length xs])" "distinct (List.map int [0..<length xs])"
    by (simp_all add: sorted_iff_nth_mono distinct_map)
  ultimately show ?thesis using assms(1,2) sorted_distinct_set_unique by blast
qed

text \<open>a set of accepted fragments that is judged complete holds every index of the bundle
  exactly once, and all of them agree on peer, link, bundle, cursors, types, hash and tag; so
  nothing is missing, doubled or mixed in when the payload is put together.\<close>

theorem complete_fragments_cover:
  assumes "all_accepted fs"
    and "\<forall>f \<in> set fs. 0 \<le> frag_FragmentIndex f \<and> frag_FragmentIndex f < frag_FragmentCount f"
    and "fragmentsComplete fs = Inr True"
  shows "sort (List.map frag_FragmentIndex fs) = List.map int [0..<length fs] \<and>
    (\<forall>f \<in> set fs. \<forall>g \<in> set fs. agrees_with f g \<and> frag_FragmentCount f = int (length fs))"
proof -
  let ?o = "sort_key frag_FragmentIndex fs"
  from assms(3) have ne: "fs \<noteq> []" and count: "int (length fs) = frag_FragmentCount (hd ?o)"
    and ok: "validateFragmentSet ?o = Inr ()"
    by (auto simp: fragmentsComplete_def Let_def split: if_splits sum.splits)
  have o: "all_accepted ?o" "?o \<noteq> []" "set ?o = set fs" "length ?o = length fs"
    using assms(1) ne by (simp_all add: list_all_iff) (metis length_0_conv length_sort)
  from ok validateFragmentSet_accepted [OF o(1,2)] o(3)
  have agree: "\<forall>f \<in> set fs. agrees_with (hd ?o) f" and dist: "distinct (List.map frag_FragmentIndex ?o)"
    by (auto simp: list_all_iff)
  let ?x = "List.map frag_FragmentIndex ?o"
  have "\<forall>f \<in> set fs. frag_FragmentCount f = int (length fs)"
    using agree count by (auto simp: agrees_with_def)
  with assms(2) o(3,4) have "\<forall>x \<in> set ?x. 0 \<le> x \<and> x < int (length ?x)" by auto
  from distinct_bounded_indexes [OF _ dist this] o(4)
  have "?x = List.map int [0..<length fs]" by simp
  moreover have "sort (List.map frag_FragmentIndex fs) = ?x"
    by (rule properties_for_sort) (simp_all add: mset_map)
  moreover have "\<forall>f \<in> set fs. \<forall>g \<in> set fs. agrees_with f g"
    using agree unfolding agrees_with_def same_fragment_header_def same_fragment_proof_def by metis
  ultimately show ?thesis
    using \<open>\<forall>f \<in> set fs. frag_FragmentCount f = int (length fs)\<close> by simp
qed

subsection \<open>Over a constrained link\<close>

text \<open>
  The fragment that the far side stores for one part of a bundle: the parameters the sender
  made of it, under the receiver's identifiers for peer, link and fragment.
\<close>

definition received_fragment ::
    "string \<Rightarrow> string \<Rightarrow> string \<Rightarrow> string \<Rightarrow> string \<Rightarrow> time \<Rightarrow> fed_bundle \<Rightarrow> int \<Rightarrow> int \<Rightarrow> bytes \<Rightarrow>
     error + fragment" where
  "received_fragment fid peerID linkID bundleID dedupKey now b idx parts part =
     normalize_fragment (fragment_of_params fid peerID linkID bundleID dedupKey
       ((outbound_fragment_params b idx parts part)\<lparr>sfp_Direction := BundleDirectionInbound\<rparr>)) now"

lemma normalize_fragment_fields:
  assumes "normalize_fragment f now = Inr g"
  shows "frag_PeerID g = trim_space (frag_PeerID f) \<and> frag_LinkID g = trim_space (frag_LinkID f) \<and>
    frag_BundleID g = trim_space (frag_BundleID f) \<and> frag_Direction g = frag_Direction f \<and>
    frag_CursorFrom g = frag_CursorFrom f \<and> frag_CursorTo g = frag_CursorTo f \<and>
    frag_EventCount g = frag_EventCount f \<and> frag_PayloadType g = norm_name (frag_PayloadType f) \<and>
    frag_Compression g = or_default (frag_Compression f) CompressionKindNone \<and>
    frag_IntegrityHash g = norm_name (frag_IntegrityHash f) \<and> frag_AuthTag g = norm_name (frag_AuthTag f) \<and>
    frag_FragmentIndex g = frag_FragmentIndex f \<and> frag_FragmentCount g = frag_FragmentCount f \<and>
    frag_Payload g = frag_Payload f \<and>
    frag_State g = or_default (frag_State f) (initial_fragment_state (frag_Direction f)) \<and>
    frag_CursorFrom f \<le> frag_CursorTo f \<and> 0 \<le> frag_EventCount f \<and>
    valid_compression (frag_Compression g) \<and>
    frag_PeerID g \<noteq> [] \<and> frag_LinkID g \<noteq> [] \<and> frag_BundleID g \<noteq> []"
  using assms unfolding normalize_fragment_def Let_def io_inv by (clarsimp simp: not_less)

lemma received_fragment_Inr:
  assumes "received_fragment fid peerID linkID bundleID dedupKey now b idx parts part = Inr f"
  shows "frag_FragmentIndex f = idx" "frag_FragmentCount f = parts" "frag_Payload f = part"
    "frag_State f = FragmentStateAccepted" "frag_Direction f = BundleDirectionInbound"
    "frag_PeerID f = trim_space peerID" "frag_LinkID f = trim_space linkID"
    "frag_BundleID f = trim_space bundleID"
    "frag_CursorFrom f = bundle_CursorFrom b" "frag_CursorTo f = bundle_CursorTo b"
    "frag_EventCount f = bundle_EventCount b" "frag_PayloadType f = norm_name (bundle_PayloadType b)"
    "frag_Compression f = or_default (bundle_Compression b) CompressionKindNone"
    "frag_IntegrityHash f = norm_name (bundle_IntegrityHash b)"
    "frag_AuthTag f = norm_name (bundle_AuthTag b)"
    "bundle_CursorFrom b \<le> bundle_CursorTo b" "0 \<le> bundle_EventCount b"
    "valid_compression (or_default (bundle_Compression b) CompressionKindNone)"
    "trim_space peerID \<noteq> []" "trim_space linkID \<noteq> []" "trim_space bundleID \<noteq> []"
  using normalize_fragment_fields [OF assms [unfolded received_fragment_def]]
  by (auto simp: fragment_of_params_def outbound_fragment_params_def initial_fragment_state_def)

text \<open>The fragments of one bundle on the far side, in the order of their parts.\<close>

definition fragments_arrived ::
    "string \<Rightarrow> string \<Rightarrow> string \<Rightarrow> fed_bundle \<Rightarrow> int \<Rightarrow> fragment list \<Rightarrow> bool" where
  "fragments_arrived peerID linkID bundleID b maxBytes fs \<longleftrightarrow>
     (let parts = splitPayload (bundle_Payload b) maxBytes in
      length fs = length parts \<and>
      (\<forall>i < length parts. \<exists>fid dedupKey now. received_fragment fid peerID linkID bundleID dedupKey now b
         (int i) (int (length parts)) (parts ! i) = Inr (fs ! i)))"

lemma arrived_nth:
  assumes "fragments_arrived peerID linkID bundleID b maxBytes fs"
  obtains parts where "parts = splitPayload (bundle_Payload b) maxBytes" "length fs = length parts"
    "\<And>i. i < length fs \<Longrightarrow> \<exists>fid dedupKey now. received_fragment fid peerID linkID bundleID dedupKey now b
         (int i) (int (length fs)) (parts ! i) = Inr (fs ! i)"
  using assms unfolding fragments_arrived_def Let_def by metis

lemma arrived_fragments:
  assumes "fragments_arrived peerID linkID bundleID b maxBytes fs"
  shows "List.map frag_FragmentIndex fs = List.map int [0..<length fs]"
    "concat (List.map frag_Payload fs) = bundle_Payload b" "fs \<noteq> []" "all_accepted fs"
    "f \<in> set fs \<Longrightarrow> \<exists>fid dedupKey now i part. received_fragment fid peerID linkID bundleID dedupKey now b
         i (int (length fs)) part = Inr f"
proof -
  from assms obtain parts where parts: "parts = splitPayload (bundle_Payload b) maxBytes"
      "length fs = length parts"
    and nth: "\<And>i. i < length fs \<Longrightarrow> \<exists>fid dedupKey now. received_fragment fid peerID linkID bundleID
         dedupKey now b (int i) (int (length fs)) (parts ! i) = Inr (fs ! i)"
    by (rule arrived_nth) blast
  have each: "frag_FragmentIndex (fs ! i) = int i \<and> frag_Payload (fs ! i) = parts ! i \<and>
      frag_State (fs ! i) = FragmentStateAccepted" if "i < length fs" for i
  proof -
    from nth [OF that] obtain fid dedupKey now where "received_fragment fid peerID linkID bundleID
         dedupKey now b (int i) (int (length fs)) (parts ! i) = Inr (fs ! i)" by blast
    from received_fragment_Inr [OF this] show ?thesis by simp
  qed
  show "List.map frag_FragmentIndex fs = List.map int [0..<length fs]"
    using each by (intro nth_equalityI) simp_all
  have "List.map frag_Payload fs = parts" using each parts(2) by (intro nth_equalityI) simp_all
  with splitPayload_concat parts(1) show "concat (List.map frag_Payload fs) = bundle_Payload b" by simp
  show "fs \<noteq> []" using parts splitPayload_nonempty by (metis length_0_conv)
  show "all_accepted fs" using each by (simp add: list_all_length)
  show "\<exists>fid dedupKey now i part. received_fragment fid peerID linkID bundleID dedupKey now b
         i (int (length fs)) part = Inr f" if "f \<in> set fs"
    using that nth by (metis in_set_conv_nth)
qed


lemma arrived_complete:
  assumes "fragments_arrived peerID linkID bundleID b maxBytes fs"
  shows "fragmentsComplete fs = Inr True" "\<not> isInboundFragmentBundleTerminal fs"
proof -
  note arrived = arrived_fragments [OF assms]
  have sorted: "sort_key frag_FragmentIndex fs = fs"
    by (rule properties_for_sort_key) (simp_all add: arrived(1) sorted_iff_nth_mono)
  have agree: "agrees_with (hd fs) f" "frag_FragmentCount f = int (length fs)" if "f \<in> set fs" for f
  proof -
    from arrived(5) [OF that] arrived(5) [of "hd fs"] arrived(3) obtain a c t i q a' c' t' i' q' where
      f: "received_fragment a peerID linkID bundleID c t b i (int (length fs)) q = Inr f"
      and h: "received_fragment a' peerID linkID bundleID c' t' b i' (int (length fs)) q' = Inr (hd fs)"
      by auto
    show "agrees_with (hd fs) f" "frag_FragmentCount f = int (length fs)"
      using received_fragment_Inr [OF f] received_fragment_Inr [OF h]
      by (simp_all add: agrees_with_def same_fragment_header_def same_fragment_proof_def)
  qed
  have "distinct (List.map frag_FragmentIndex fs)" by (simp add: arrived(1) distinct_map)
  with validateFragmentSet_accepted [OF arrived(4,3)] agree
  have "validateFragmentSet fs = Inr ()" by (simp add: list_all_iff)
  moreover have "frag_FragmentCount (hd fs) = int (length fs)" using agree(2) arrived(3) by simp
  ultimately show "fragmentsComplete fs = Inr True"
    using arrived(3) by (simp add: fragmentsComplete_def sorted Let_def)
  show "\<not> isInboundFragmentBundleTerminal fs"
    using arrived(4) by (auto simp: isInboundFragmentBundleTerminal_def list_all_iff list_ex_iff fragment_terminal_def)
qed

text \<open>Trimming keeps a text that begins with a visible character from being empty.\<close>

lemma strip_all_nonempty:
  "s \<noteq> [] \<Longrightarrow> \<forall>p \<in> set ps. p \<noteq> [] \<longrightarrow> last p \<noteq> last s \<Longrightarrow> strip_all ps s \<noteq> []"
proof (induction ps s rule: strip_all.induct)
  case (1 ps s)
  show ?case
  proof (cases "find (\<lambda>p. prefix p s \<and> p \<noteq> []) ps")
    case None
    with 1 show ?thesis by (simp add: strip_all.simps [of ps s])
  next
    case (Some p)
    then have p: "prefix p s" "p \<noteq> []" "p \<in> set ps" using find_Some_in by fastforce+
    then obtain t where t: "s = p @ t" by (auto simp: prefix_def)
    have "t \<noteq> []" using t p 1(3) by auto
    with 1 Some t show ?thesis by (subst strip_all.simps) simp
  qed
qed

lemma trim_space_nonempty:
  assumes "s \<noteq> []" "visible (hd s)"
  shows "trim_space s \<noteq> []"
proof -
  have "unstripped space_runes s"
    using space_runes_invisible assms(2)
    by (auto simp: unstripped_def list_all_iff prefix_def)
  moreover have "strip_all (List.map rev space_runes) (rev s) \<noteq> []"
    using assms space_runes_invisible
    by (intro strip_all_nonempty) (auto simp: last_rev list_all_iff)
  ultimately show ?thesis by (simp add: trim_space_def strip_all_id)
qed

lemma assembled_key [simp]: "trim_space (assembledBundleDedupKey x) \<noteq> []"
  by (rule trim_space_nonempty) (simp_all add: assembledBundleDedupKey_def visible_def)



definition sample_signed :: fed_bundle where
  "sample_signed = signBundle sample_peer sample_link sample_bundle"

definition sample_part :: "int \<Rightarrow> bytes \<Rightarrow> fragment" where
  "sample_part idx part = \<lparr>frag_ID = ''f1'', frag_PeerID = ''p7'', frag_LinkID = ''l7'',
     frag_BundleID = ''b1'', frag_DedupKey = ''k'', frag_Direction = BundleDirectionInbound,
     frag_CursorFrom = 1, frag_CursorTo = 2, frag_EventCount = 2, frag_PayloadType = ''json'',
     frag_Compression = CompressionKindNone, frag_IntegrityHash = bundle_IntegrityHash sample_signed,
     frag_AuthTag = bundle_AuthTag sample_signed,
     frag_FragmentIndex = idx, frag_FragmentCount = 2, frag_Payload = part,
     frag_State = FragmentStateAccepted, frag_LeaseToken = [], frag_LeaseExpiresAt = 0,
     frag_AttemptCount = 0, frag_CreatedAt = 9, frag_AvailableAt = 1, frag_AckedAt = 0\<rparr>"

lemma signed_available [simp]: "bundle_AvailableAt (signBundle p l b) = bundle_AvailableAt b"
  by (simp add: signBundle_def Let_def)

lemma sample_bundle_fields:
  "bundle_CursorFrom sample_bundle = 1" "bundle_CursorTo sample_bundle = 2"
  "bundle_EventCount sample_bundle = 2" "bundle_PayloadType sample_bundle = ''json''"
  "bundle_Compression sample_bundle = CompressionKindNone" "bundle_AvailableAt sample_bundle = 1"
  by (simp_all add: sample_bundle_def)

lemma sample_part_received:
  assumes "0 \<le> idx" "idx < 2"
  shows "received_fragment ''f1'' ''p7'' ''l7'' ''b1'' ''k'' 9 sample_signed idx 2 part = Inr (sample_part idx part)"
  using assms
  by (simp add: received_fragment_def fragment_of_params_def outbound_fragment_params_def
      normalize_fragment_def literal_simps valid_direction_def valid_compression_def
      valid_fragment_state_def initial_fragment_state_def if_claimed_def sample_part_def sample_signed_def
      sample_bundle_fields word_less_nat_alt)

lemma sample_arrived:
  "fragments_arrived ''p7'' ''l7'' ''b1'' (signBundle sample_peer sample_link sample_bundle) 4
     [sample_part 0 ''hell'', sample_part 1 ''o'']"
proof -
  have split: "splitPayload (bundle_Payload sample_signed) 4 = [''hell'', ''o'']"
    by (simp add: sample_signed_def sample_bundle_def splitPayload_def chunks.simps)
  show ?thesis
    unfolding fragments_arrived_def sample_signed_def [symmetric] split Let_def
    using sample_part_received [of 0 "''hell''"] sample_part_received [of 1 "''o''"]
    by (auto simp: less_Suc_eq)
qed

lemma complete_fragments_cover_witness:
  "sort (List.map frag_FragmentIndex [sample_part 0 ''hell'', sample_part 1 ''o'']) = [0, 1] \<and>
   agrees_with (sample_part 0 ''hell'') (sample_part 1 ''o'')"
proof -
  have "\<forall>f \<in> set [sample_part 0 ''hell'', sample_part 1 ''o'']. 0 \<le> frag_FragmentIndex f \<and>
      frag_FragmentIndex f < frag_FragmentCount f"
    by (simp add: sample_part_def)
  from complete_fragments_cover [OF arrived_fragments(4) [OF sample_arrived] this
      arrived_complete(1) [OF sample_arrived]]
  show ?thesis by (simp add: upt_rec)
qed


end
