(* ===== verification/FedEdges.thy ===== *)
theory FedEdges
  imports FedFragmentProps
begin

section \<open>Keys, trust, deleted links and colliding identifiers\<close>

text \<open>
  What single operations of the service do to one record: the rotation of a signing key, the
  withdrawal of trust, the resumption of a link, and what a submitted fragment may do to the
  fragments of another peer.
\<close>

subsection \<open>Normalisation settles\<close>

text \<open>C12: normalisation is a projection: normalising a peer, bundle, fragment or cursor that came
  out of a normalisation changes nothing, at any later clock reading. A link settles after
  one more pass, which only sorts the policy lists that were filled in by default.\<close>

theorem normalisation_settles:
  assumes "now \<noteq> 0"
  shows "(\<forall>p q. normalize_peer p now = Inr q \<longrightarrow> normalize_peer q later = Inr q) \<and>
    (\<forall>b c. normalize_bundle b now = Inr c \<longrightarrow> normalize_bundle c later = Inr c) \<and>
    (\<forall>f g. normalize_fragment f now = Inr g \<longrightarrow> normalize_fragment g later = Inr g) \<and>
    (\<forall>c d. normalize_cursor c now = Inr d \<longrightarrow> normalize_cursor d later = Inr d) \<and>
    (\<forall>l k. normalize_link l now = Inr k \<longrightarrow> normalize_link k later = Inr (sort_policies k) \<and>
       normalize_link (sort_policies k) later = Inr (sort_policies k))"
proof (intro conjI allI impI)
  fix l k
  assume "normalize_link l now = Inr k"
  note link = normalize_link_valid [OF this] normalize_link_dated [OF this assms]
  show "normalize_link k later = Inr (sort_policies k)" using normalize_link_again link by blast
  show "normalize_link (sort_policies k) later = Inr (sort_policies k)"
    using normalize_link_again [OF link_valid_sort link_dated_sort] link by simp
qed (use assms normalize_peer_idem normalize_bundle_idem normalize_fragment_idem
    normalize_cursor_idem in blast)+

lemma normalisation_settles_witness:
  "normalize_peer sample_peer 7 = Inr sample_peer \<and> normalize_fragment sample_fragment 7 = Inr sample_fragment"
  using normalisation_settles [of 5 7] sample_peer_normal sample_fragment_normal by simp

subsection \<open>One record at a time\<close>

context federation_store
begin

lemma RotatePeerSigningKey_Inr:
  assumes "svc_store sv = S" "RotatePeerSigningKey sv ctx i j w = (Inr (q, secret, generated), w')"
  shows "\<exists>p t t' q0. peer_at (w_store w) (trim_space i) = Some p \<and>
    secretHash (peer_SigningSecret p) \<noteq> secretHash secret \<and>
    trim_space secret = secret \<and> secret \<noteq> [] \<and>
    normalize_peer (rotated_peer secret (currentTime sv) p) t = Inr q0 \<and>
    normalize_peer q0 t' = Inr q \<and> peer_at (w_store w') = (peer_at (w_store w))(peer_ID q \<mapsto> q)"
proof -
  from assms(2) obtain p w1 w2 q0 where
    p: "on_store (st_PeerByID S (trim_space i)) w = (Inr p, w1)"
    and sec: "secret_or_token (trim_space j) ''generate federation signing secret'' w1 =
      (Inr (secret, generated), w2)"
    and fresh: "secretHash (peer_SigningSecret p) \<noteq> secretHash secret"
    and q0: "normalize_peer (rotated_peer secret (currentTime sv) p) (currentTime sv) = Inr q0"
    and save: "on_store (st_SavePeer S q0) w2 = (Inr q, w')"
    unfolding RotatePeerSigningKey_def Let_def assms(1) io_inv by (auto simp: io_inv split: if_splits)
  from p have found: "peer_at (w_store w) (trim_space i) = Some p" "w_store w1 = w_store w"
    by (auto simp: on_store_run PeerByID found_or_run split: option.splits)
  have w2: "w_store w2 = w_store w" and given: "trim_space secret = secret" "secret \<noteq> []"
    using sec found(2) randomToken_visible
    by (auto simp: secret_or_token_def io_inv split: if_splits)
  from save w2 have "st_SavePeer S q0 (w_store w) = (Inr q, w_store w')"
    by (auto simp: on_store_run split: prod.splits)
  from SavePeer [OF this] found fresh given q0 show ?thesis by blast
qed

lemma UpdatePeer_Inr:
  assumes "svc_store sv = S" "UpdatePeer sv ctx up w = (Inr q, w')"
  shows "\<exists>p t t' q0. peer_at (w_store w) (trim_space (upp_PeerID up)) = Some p \<and>
    normalize_peer (updated_peer up (currentTime sv) p) t = Inr q0 \<and>
    normalize_peer q0 t' = Inr q \<and> peer_at (w_store w') = (peer_at (w_store w))(peer_ID q \<mapsto> q)"
proof -
  from assms(2) obtain p s1 q0 s2 where
    p: "st_PeerByID S (trim_space (upp_PeerID up)) (w_store w) = (Inr p, s1)"
    and q0: "normalize_peer (updated_peer up (currentTime sv) p) (currentTime sv) = Inr q0"
    and save: "st_SavePeer S q0 s1 = (Inr q, s2)" "w_store w' = s2"
    unfolding UpdatePeer_def Let_def assms(1) io_inv by (auto simp: io_inv split: if_splits)
  from p have "peer_at (w_store w) (trim_space (upp_PeerID up)) = Some p" "s1 = w_store w"
    by (auto simp: PeerByID found_or_run split: option.splits)
  with SavePeer [OF save(1)] q0 save(2) show ?thesis by blast
qed

lemma UpdateLink_Inr:
  assumes "svc_store sv = S" "UpdateLink sv ctx ul w = (Inr m, w')"
  shows "\<exists>l t t' m0. link_at (w_store w) (trim_space (ulp_LinkID ul)) = Some l \<and>
    normalize_link (updated_link ul (currentTime sv) l) t = Inr m0 \<and>
    normalize_link m0 t' = Inr m \<and> link_at (w_store w') = (link_at (w_store w))(link_ID m \<mapsto> m) \<and>
    peer_at (w_store w') = peer_at (w_store w)"
proof -
  from assms(2) obtain l s1 m0 s2 where
    l: "st_LinkByID S (trim_space (ulp_LinkID ul)) (w_store w) = (Inr l, s1)"
    and m0: "normalize_link (updated_link ul (currentTime sv) l) (currentTime sv) = Inr m0"
    and save: "st_SaveLink S m0 s1 = (Inr m, s2)" "w_store w' = s2"
    unfolding UpdateLink_def Let_def assms(1) io_inv by (auto simp: io_inv split: if_splits)
  from l have "link_at (w_store w) (trim_space (ulp_LinkID ul)) = Some l" "s1 = w_store w"
    by (auto simp: LinkByID found_or_run split: option.splits)
  with SaveLink [OF save(1)] m0 save(2) show ?thesis by blast
qed

end

lemma normalize_link_state:
  assumes "normalize_link l now = Inr k"
  shows "link_State k = or_default (link_State l) LinkStateActive \<and> link_ID k = trim_space (link_ID l) \<and>
    link_PeerID k = trim_space (link_PeerID l)"
  using assms unfolding normalize_link_def Let_def io_inv by clarsimp

subsection \<open>Rotating the signing key\<close>

lemma normalize_peer_secret: "normalize_peer x now = Inr q \<Longrightarrow> peer_SigningSecret q \<noteq> []"
  unfolding normalize_peer_def Let_def io_inv by clarsimp

lemma rotation_stores:
  assumes "mem_ok (w_store w)" "svc_store sv = memory_store clock"
    and "RotatePeerSigningKey sv ctx i j w = (Inr (q, secret, generated), w')"
  shows "\<exists>p. lookup (peersByID (w_store w)) (trim_space i) = Some p \<and>
    lookup (peersByID (w_store w')) (trim_space i) = Some q \<and>
    peer_SigningSecret q = secret \<and> peer_SigningSecret p \<noteq> secret \<and>
    peer_PreviousSigningSecret q = peer_SigningSecret p \<and>
    peer_SigningKeyVersion q = or_version (peer_SigningKeyVersion p + 1) \<and>
    (\<forall>l b. verifyBundle q l (signBundle p l b) = Inr () \<and> verifyBundle q l (signBundle q l b) = Inr ())"
proof -
  from mem.RotatePeerSigningKey_Inr [OF assms(2,3)] obtain p t t' q0 where
    p: "lookup (peersByID (w_store w)) (trim_space i) = Some p"
    and hash: "secretHash (peer_SigningSecret p) \<noteq> secretHash secret"
    and secret: "trim_space secret = secret" "secret \<noteq> []"
    and q0: "normalize_peer (rotated_peer secret (currentTime sv) p) t = Inr q0"
    and q: "normalize_peer q0 t' = Inr q"
    and at: "lookup (peersByID (w_store w')) = (lookup (peersByID (w_store w)))(peer_ID q \<mapsto> q)"
    by blast
  from mem_ok_peer [OF assms(1) p] have id: "peer_ID p = trim_space i" and "peer_settled p" by auto
  then obtain t0 where settled: "normalize_peer p t0 = Inr p" by (auto simp: peer_settled_def)
  note old = normalize_peer_fields [OF settled]
  note secret_ne = normalize_peer_secret [OF settled]
  have new: "peer_ID q = trim_space i" "peer_ServerName q = peer_ServerName p"
      "peer_SigningSecret q = secret" "peer_PreviousSigningSecret q = peer_SigningSecret p"
      "peer_SigningKeyVersion q = or_version (peer_SigningKeyVersion p + 1)"
    using normalize_peer_fields [OF q0] normalize_peer_fields [OF q] old id secret
    by (auto simp: rotated_peer_def) (metis or_default_def trim_space_idem)+
  have trimmed: "trim_space (peer_SigningSecret p) = peer_SigningSecret p"
    using old by (metis trim_space_idem trim_space_or_default)
  have "verifyBundle q l (signBundle p l b) = Inr ()" for l b
    by (rule verify_signed [where p = p and l = l and b = b])
      (use new trimmed secret_ne in \<open>simp_all add: same_signed_def\<close>)
  moreover have "verifyBundle q l (signBundle q l b) = Inr ()" for l b
    by (rule verify_signed [where p = q and l = l and b = b]) (simp_all add: same_signed_def)
  ultimately show ?thesis using p at new hash by auto
qed

text \<open>rotating the signing key of a peer either fails and changes nothing, or stores a new
  secret and keeps the one it replaces as the previous secret; then it cuts nobody off: every
  bundle signed with the old record still verifies with the stored one, and so does every
  bundle signed with the new record.\<close>

theorem rotation_keeps_old_bundles_valid:
  assumes "mem_ok (w_store w)" "svc_store sv = memory_store clock"
  shows "case RotatePeerSigningKey sv ctx i j w of
      (Inl e, w') \<Rightarrow> w_store w' = w_store w
    | (Inr (q, secret, generated), w') \<Rightarrow> \<exists>p.
        lookup (peersByID (w_store w)) (trim_space i) = Some p \<and>
        lookup (peersByID (w_store w')) (trim_space i) = Some q \<and>
        peer_SigningSecret q = secret \<and> peer_SigningSecret p \<noteq> secret \<and>
        peer_PreviousSigningSecret q = peer_SigningSecret p \<and>
        peer_SigningKeyVersion q = or_version (peer_SigningKeyVersion p + 1) \<and>
        (\<forall>l b. verifyBundle q l (signBundle p l b) = Inr () \<and>
           verifyBundle q l (signBundle q l b) = Inr ())"
proof (cases "RotatePeerSigningKey sv ctx i j w" rule: prod.exhaust)
  case (Pair r w')
  show ?thesis
  proof (cases r)
    case (Inl e)
    have "on_world (\<lambda>s s'. s' = s) w w'"
      by (rule cleanD [OF mem.clean_operations(3) [OF assms(2)]]) (use Pair Inl in simp)
    with Pair Inl show ?thesis by (simp add: on_world_def)
  next
    case (Inr x)
    obtain q secret generated where x: "x = (q, secret, generated)" by (cases x)
    from rotation_stores [OF assms Pair [unfolded Inr x]] show ?thesis using Pair Inr x by simp
  qed
qed

lemma rotation_keeps_old_bundles_valid_witness:
  "case RotatePeerSigningKey sample_service LiveContext ''p1'' ''new'' sample_world of
      (Inl e, w') \<Rightarrow> w_store w' = sample_store
    | (Inr (q, secret, generated), w') \<Rightarrow> peer_PreviousSigningSecret q = ''key'' \<and>
        (\<forall>l b. verifyBundle q l (signBundle sample_peer l b) = Inr ())"
proof -
  have ok: "mem_ok (w_store sample_world)" using sample_store_ok by (simp add: sample_world_def)
  have st: "svc_store sample_service = memory_store 50" by (simp add: sample_service_def)
  have "lookup (peersByID (w_store sample_world)) (trim_space ''p1'') = Some sample_peer"
    by (simp add: sample_world_def sample_store_def literal_simps)
  moreover have "peer_SigningSecret sample_peer = ''key''" "w_store sample_world = sample_store"
    by (simp_all add: sample_peer_def sample_world_def)
  ultimately show ?thesis
    using rotation_keeps_old_bundles_valid [where ctx = LiveContext and i = "''p1''" and j = "''new''", OF ok st]
    by (auto split: prod.splits sum.splits)
qed

subsection \<open>Trust and deletion\<close>





text \<open>C14: Resuming a link does not ask whether it was paused: a link that was deleted becomes
  active again, under the same peer, and passes the authorization of that peer.\<close>

theorem resume_revives_deleted_link:
  assumes "mem_ok (w_store w)" "svc_store sv = memory_store clock"
    and "lookup (linksByID (w_store w)) (trim_space i) = Some l" "link_State l = LinkStateDeleted"
    and "ResumeLink sv ctx i w = (Inr m, w')"
  shows "link_State m = LinkStateActive \<and> link_PeerID m = link_PeerID l \<and>
    lookup (linksByID (w_store w')) (trim_space i) = Some m \<and>
    authorizeLinkForPeer sv (link_PeerID l) (trim_space i) False w' = (Inr m, w')"
proof -
  from mem.UpdateLink_Inr [OF assms(2) assms(5) [unfolded ResumeLink_def]] assms(3)
  obtain t t' m0 where
    m: "normalize_link (updated_link (only_state i LinkStateActive) (currentTime sv) l) t = Inr m0"
       "normalize_link m0 t' = Inr m"
    and at: "lookup (linksByID (w_store w')) = (lookup (linksByID (w_store w)))(link_ID m \<mapsto> m)"
    by (auto simp: only_state_def)
  from mem_ok_link [OF assms(1,3)] have l: "link_ID l = trim_space i" "trim_space (link_PeerID l) = link_PeerID l"
    by (auto simp: link_valid_def)
  have "link_State m = LinkStateActive" "link_ID m = trim_space i" "link_PeerID m = link_PeerID l"
    using normalize_link_state [OF m(1)] normalize_link_state [OF m(2)] l
    by (simp_all add: updated_link_def only_state_def with_option_def)
  with at show ?thesis
    by (simp add: authorizeLinkForPeer_def io_simps assms(2) mem_LinkByID_def found_or_def)
qed

definition deleted_world :: "mem world" where
  "deleted_world = sample_world\<lparr>w_store := sample_store\<lparr>linksByID :=
     [(''l1'', sample_link\<lparr>link_State := LinkStateDeleted, link_UpdatedAt := 50\<rparr>)]\<rparr>\<rparr>"

lemmas link_eval = UpdateLink_def only_state_def updated_link_def with_option_def io_simps Let_def
  sample_service_def literal_simps mem_LinkByID_def found_or_def sample_store_def mem_SaveLink_def
  normalize_link_def sample_link_def valid_transport_def valid_delivery_class_def valid_discovery_def
  valid_media_policy_def valid_link_state_def normalizeConversationKinds_def normalizeEventFamilies_def
  normalizeMessageKinds_def normalized_values_def accepted_def conversation_kinds_def
  event_families_def message_kinds_def taken_by_other_def put_def remove_def currentTime_def
  peerNameKey_def

lemma sample_delete:
  "DeleteLink sample_service LiveContext ''l1'' sample_world =
    (Inr (sample_link\<lparr>link_State := LinkStateDeleted, link_UpdatedAt := 50\<rparr>), deleted_world)"
  by (simp add: DeleteLink_def sample_world_def deleted_world_def link_eval)

lemma sample_resume:
  "\<exists>m w'. ResumeLink sample_service LiveContext ''l1'' deleted_world = (Inr m, w')"
  by (simp add: ResumeLink_def sample_world_def deleted_world_def link_eval)

lemma resume_revives_deleted_link_witness:
  "\<exists>w1 m w2. DeleteLink sample_service LiveContext ''l1'' sample_world =
       (Inr (sample_link\<lparr>link_State := LinkStateDeleted, link_UpdatedAt := 50\<rparr>), w1) \<and>
     ResumeLink sample_service LiveContext ''l1'' w1 = (Inr m, w2) \<and> link_State m = LinkStateActive \<and>
     authorizeLinkForPeer sample_service ''p1'' ''l1'' False w2 = (Inr m, w2)"
proof -
  obtain m w2 where run: "ResumeLink sample_service LiveContext ''l1'' deleted_world = (Inr m, w2)"
    using sample_resume by blast
  have st: "svc_store sample_service = memory_store 50" by (simp add: sample_service_def)
  have "svc_run sample_world deleted_world"
    by (rule svc_run.step [OF svc_run.stay st svc_step.delete_link [OF sample_delete]])
  from svc_run_advances [OF this] sample_store_ok have ok: "mem_ok (w_store deleted_world)"
    by (simp add: advances_def sample_world_def)
  have l: "lookup (linksByID (w_store deleted_world)) (trim_space ''l1'') =
      Some (sample_link\<lparr>link_State := LinkStateDeleted, link_UpdatedAt := 50\<rparr>)"
    by (simp add: deleted_world_def literal_simps)
  from resume_revives_deleted_link [OF ok st l _ run] sample_delete run show ?thesis
    by (auto simp: literal_simps sample_link_def)
qed

subsection \<open>Two peers, one bundle identifier\<close>

text \<open>
  Two peers with a bridge link each. Alpha has sent the first of two fragments of the bundle
  it calls \<open>b1\<close>; then beta sends a fragment that names the same bundle.
\<close>

definition beta_peer :: peer where
  "beta_peer = sample_peer\<lparr>peer_ID := ''p2'', peer_ServerName := ''beta''\<rparr>"

definition beta_link :: link where
  "beta_link = sample_link\<lparr>link_ID := ''l2'', link_PeerID := ''p2'', link_Name := ''mesh''\<rparr>"

definition alpha_fragment :: fragment where
  "alpha_fragment = \<lparr>frag_ID = ''f1'', frag_PeerID = ''p1'',
     frag_LinkID = ''l1'', frag_BundleID = ''b1'', frag_DedupKey = ''a0'',
     frag_Direction = BundleDirectionInbound, frag_CursorFrom = 1, frag_CursorTo = 2,
     frag_EventCount = 1, frag_PayloadType = ''json'', frag_Compression = CompressionKindNone,
     frag_IntegrityHash = ''aa'', frag_AuthTag = ''bb'', frag_FragmentIndex = 0,
     frag_FragmentCount = 2, frag_Payload = ''he'', frag_State = FragmentStateAccepted,
     frag_LeaseToken = [], frag_LeaseExpiresAt = 0, frag_AttemptCount = 0, frag_CreatedAt = 1,
     frag_AvailableAt = 1, frag_AckedAt = 0\<rparr>"

definition two_peers :: "link \<Rightarrow> fragment \<Rightarrow> mem" where
  "two_peers l f = NewMemoryStore\<lparr>
     peersByID := [(''p1'', sample_peer), (''p2'', beta_peer)],
     peerIDsByServer := [(''alpha'', ''p1''), (''beta'', ''p2'')],
     linksByID := [(''l1'', l), (''l2'', beta_link)],
     linkIDsByPeerName := [(''p2:mesh'', ''l2''), (''p1:radio'', ''l1'')],
     fragmentsByID := [(''f1'', f)], fragmentIDsByDedup := [(''a0'', ''f1'')]\<rparr>"




lemma two_peers_fields [simp]:
  "lookup (peersByID (two_peers l f)) = [''p1'' \<mapsto> sample_peer, ''p2'' \<mapsto> beta_peer]"
  "lookup (peerIDsByServer (two_peers l f)) = [''alpha'' \<mapsto> ''p1'', ''beta'' \<mapsto> ''p2'']"
  "lookup (linksByID (two_peers l f)) = [''l1'' \<mapsto> l, ''l2'' \<mapsto> beta_link]"
  "lookup (linkIDsByPeerName (two_peers l f)) = [''p1:radio'' \<mapsto> ''l1'', ''p2:mesh'' \<mapsto> ''l2'']"
  "fragmentsByID (two_peers l f) = [(''f1'', f)]"
  "lookup (fragmentIDsByDedup (two_peers l f)) = [''a0'' \<mapsto> ''f1'']"
  "lookup (cursorsByKey (two_peers l f)) = Map.empty"
  by (auto simp: two_peers_def NewMemoryStore_def)

lemma bridge_link_fields [simp]:
  "link_ID sample_link = ''l1''" "link_PeerID sample_link = ''p1''" "link_ID beta_link = ''l2''"
  "link_PeerID beta_link = ''p2''" "link_TransportKind beta_link = TransportKindMeshtastic"
  "link_TransportKind sample_link = TransportKindMeshtastic" "link_State beta_link = LinkStateActive"
  "link_State sample_link = LinkStateActive"
  "link_MaxFragmentBytes sample_link = 4" "link_MaxFragmentBytes beta_link = 4"
  "peer_ID sample_peer = ''p1''" "peer_ID beta_peer = ''p2''"
  by (simp_all add: sample_link_def beta_link_def sample_peer_def beta_peer_def)

lemma alpha_fragment_fields [simp]:
  "frag_LinkID alpha_fragment = ''l1''" "frag_PeerID alpha_fragment = ''p1''"
  "frag_Direction alpha_fragment = BundleDirectionInbound" "frag_BundleID alpha_fragment = ''b1''"
  "frag_FragmentCount alpha_fragment = 2" "frag_DedupKey alpha_fragment = ''a0''"
  "frag_State alpha_fragment = FragmentStateAccepted"
  by (simp_all add: alpha_fragment_def)








end
