(* ===== verification/MeshEnvelope.thy ===== *)
theory MeshEnvelope
  imports GoStrings GoEffects
begin

section \<open>The Meshtastic text frame (\<open>internal/platform/federation/transport/meshtastic/envelope.go\<close>)\<close>

text \<open>
  A fragment travels over the mesh as a text: a prefix and the URL base64 of a binary frame of
  length-prefixed fields and variable-length integers. The theory models the writers and the
  reader of the frame, the checks on both sides, and the fall-back to the older JSON form,
  whose parser \<open>json.Unmarshal\<close> is an argument of the decoder. A reader is a computation
  over the bytes that are left.
\<close>

unbundle bit_operations_syntax

subsection \<open>Variable-length integers (\<open>encoding/binary\<close>)\<close>

function put_uvarint :: "uint64 \<Rightarrow> bytes" where
  "put_uvarint x =
     (if 128 \<le> x then char_of (unat x mod 128 + 128) # put_uvarint (drop_bit 7 x)
      else [char_of (unat x)])"
  by pat_completeness auto

lemma unat_drop_7: "unat (drop_bit 7 (x :: uint64)) = unat x div 128"
  by (simp add: drop_bit_eq_div unat_div_distrib)

termination put_uvarint
proof (relation "measure unat", goal_cases)
  case (2 x)
  then have "128 \<le> unat x" by (simp add: word_le_nat_alt)
  then show ?case by (simp add: unat_drop_7)
qed simp

declare put_uvarint.simps [simp del]

fun uvarint_from :: "nat \<Rightarrow> uint64 \<Rightarrow> bytes \<Rightarrow> uint64 \<times> int" where
  "uvarint_from i x [] = (0, 0)"
| "uvarint_from i x (b # buf) =
     (if i = 10 then (0, - (int i + 1))
      else if code b < 128 then
        (if i = 9 \<and> 1 < code b then (0, - (int i + 1))
         else (x OR push_bit (7 * i) (of_nat (code b)), int i + 1))
      else uvarint_from (i + 1) (x OR push_bit (7 * i) (of_nat (code b mod 128))) buf)"

definition uvarint :: "bytes \<Rightarrow> uint64 \<times> int" where
  "uvarint buf = uvarint_from 0 0 buf"

subsection \<open>Fragments and errors\<close>

type_synonym uint32 = "32 word"

text \<open>The fields of the generated message \<open>federationv1.BundleFragment\<close> that the codec uses.\<close>

record proto_fragment =
  pf_BundleId :: string
  pf_DedupKey :: string
  pf_CursorFrom :: uint64
  pf_CursorTo :: uint64
  pf_EventCount :: uint32
  pf_PayloadType :: string
  pf_Compression :: uint32
  pf_IntegrityHash :: string
  pf_AuthTag :: string
  pf_FragmentIndex :: uint32
  pf_FragmentCount :: uint32
  pf_Payload :: bytes

record received_frame =
  rf_PeerServerName :: string
  rf_LinkName :: string
  rf_Fragment :: proto_fragment

abbreviation errInvalidConfig :: error where
  "errInvalidConfig \<equiv> Sentinel Meshtastic (OtherKind ''invalid meshtastic config'')"

abbreviation errEnvelopePrefix :: error where
  "errEnvelopePrefix \<equiv> Sentinel Meshtastic (OtherKind ''unsupported meshtastic frame prefix'')"

abbreviation errUnsupportedEnvelope :: error where
  "errUnsupportedEnvelope \<equiv> Sentinel Meshtastic (OtherKind ''unsupported meshtastic envelope version'')"

abbreviation errMalformedEnvelope :: error where
  "errMalformedEnvelope \<equiv> Sentinel Meshtastic (OtherKind ''malformed meshtastic envelope'')"

abbreviation illegal_base64 :: error where
  "illegal_base64 \<equiv> Sentinel Meshtastic (OtherKind ''illegal base64 data'')"

subsection \<open>Writing a frame\<close>

definition binaryEnvelopeMagic :: bytes where
  "binaryEnvelopeMagic = ''ZVF''"

definition writeUvarint :: "uint64 \<Rightarrow> bytes \<Rightarrow> bytes" where
  "writeUvarint v buf = buf @ put_uvarint v"

definition writeFrameBytes :: "bytes \<Rightarrow> bytes \<Rightarrow> bytes" where
  "writeFrameBytes v buf = writeUvarint (of_nat (length v)) buf @ v"

definition writeFrameString :: "string \<Rightarrow> bytes \<Rightarrow> bytes" where
  "writeFrameString v buf = writeFrameBytes v buf"

definition encodeBinaryEnvelope :: "string \<Rightarrow> string \<Rightarrow> proto_fragment \<Rightarrow> error + bytes" where
  "encodeBinaryEnvelope peerServerName linkName f =
     (let bundleID = trim_space (pf_BundleId f);
        dedupKey = trim_space (pf_DedupKey f);
        payloadType = trim_space (pf_PayloadType f);
        integrityHash = trim_space (pf_IntegrityHash f);
        authTag = trim_space (pf_AuthTag f)
      in if bundleID = [] \<or> dedupKey = [] \<or> pf_FragmentCount f = 0 \<or> integrityHash = [] \<or> authTag = []
         then Inl errInvalidConfig
      else Inr (fold (\<lambda>write buf. write buf)
        [writeFrameString peerServerName, writeFrameString linkName, writeFrameString bundleID,
         writeFrameString dedupKey, writeUvarint (pf_CursorFrom f), writeUvarint (pf_CursorTo f),
         writeUvarint (ucast (pf_EventCount f)), writeFrameString payloadType,
         writeUvarint (scast (pf_Compression f)), writeFrameString integrityHash,
         writeFrameString authTag, writeUvarint (ucast (pf_FragmentIndex f)),
         writeUvarint (ucast (pf_FragmentCount f)), writeFrameBytes (pf_Payload f)]
        (binaryEnvelopeMagic @ [CHR 0x01])))"

definition EncodeTextEnvelope ::
    "string \<Rightarrow> string \<Rightarrow> proto_fragment option \<Rightarrow> string \<Rightarrow> error + string" where
  "EncodeTextEnvelope peerServerName0 linkName0 fragment prefix0 =
     (case fragment of None \<Rightarrow> Inl errInvalidConfig
      | Some f \<Rightarrow>
        let peerServerName = norm_name peerServerName0; linkName = norm_name linkName0;
          pre = trim_space prefix0
        in if peerServerName = [] \<or> linkName = [] \<or> pre = [] then Inl errInvalidConfig
        else (case encodeBinaryEnvelope peerServerName linkName f of
            Inl e \<Rightarrow> Inl e
          | Inr frame \<Rightarrow> Inr (pre @ b64_encode frame)))"

subsection \<open>Reading a frame\<close>

definition readUvarint :: "(bytes, uint64) io" where
  "readUvarint = (\<lambda>raw. case uvarint raw of (v, n) \<Rightarrow>
     if n \<le> 0 then (Inl errMalformedEnvelope, raw) else (Inr v, drop (nat n) raw))"

definition readBytes :: "(bytes, bytes) io" where
  "readBytes = andThen readUvarint (\<lambda>len raw.
     if length raw < unat len then (Inl errMalformedEnvelope, raw)
     else (Inr (take (unat len) raw), drop (unat len) raw))"

definition readString :: "(bytes, string) io" where
  "readString = readBytes"

definition buildReceivedFragment ::
    "string \<Rightarrow> string \<Rightarrow> string \<Rightarrow> string \<Rightarrow> uint64 \<Rightarrow> uint64 \<Rightarrow> uint64 \<Rightarrow> string \<Rightarrow> uint64 \<Rightarrow> string \<Rightarrow>
     string \<Rightarrow> uint64 \<Rightarrow> uint64 \<Rightarrow> bytes \<Rightarrow> error + received_frame" where
  "buildReceivedFragment peer0 link0 bundle0 dedup0 cursorFrom cursorTo eventCount type0
      compression hash0 tag0 fragmentIndex fragmentCount payload =
     (let peerServerName = norm_name peer0; linkName = norm_name link0;
        bundleID = trim_space bundle0; dedupKey = trim_space dedup0;
        payloadType = trim_space type0; integrityHash = trim_space hash0; authTag = trim_space tag0
      in if peerServerName = [] \<or> linkName = [] \<or> bundleID = [] \<or> dedupKey = [] \<or> fragmentCount = 0 \<or>
           integrityHash = [] \<or> authTag = [] then Inl errMalformedEnvelope
      else if 4294967295 < eventCount \<or> 2147483647 < compression \<or> 4294967295 < fragmentIndex \<or>
           4294967295 < fragmentCount then Inl errMalformedEnvelope
      else Inr \<lparr>rf_PeerServerName = peerServerName, rf_LinkName = linkName, rf_Fragment = \<lparr>
        pf_BundleId = bundleID, pf_DedupKey = dedupKey,
        pf_CursorFrom = cursorFrom, pf_CursorTo = cursorTo, pf_EventCount = ucast eventCount,
        pf_PayloadType = payloadType, pf_Compression = ucast compression,
        pf_IntegrityHash = integrityHash, pf_AuthTag = authTag,
        pf_FragmentIndex = ucast fragmentIndex, pf_FragmentCount = ucast fragmentCount,
        pf_Payload = payload\<rparr>\<rparr>)"

definition read_frame :: "(bytes, received_frame) io" where
  "read_frame =
     andThen readString (\<lambda>peerServerName.
     andThen readString (\<lambda>linkName.
     andThen readString (\<lambda>bundleID.
     andThen readString (\<lambda>dedupKey.
     andThen readUvarint (\<lambda>cursorFrom.
     andThen readUvarint (\<lambda>cursorTo.
     andThen readUvarint (\<lambda>eventCount.
     andThen readString (\<lambda>payloadType.
     andThen readUvarint (\<lambda>compression.
     andThen readString (\<lambda>integrityHash.
     andThen readString (\<lambda>authTag.
     andThen readUvarint (\<lambda>fragmentIndex.
     andThen readUvarint (\<lambda>fragmentCount.
     andThen readBytes (\<lambda>payload raw.
     if raw \<noteq> [] then (Inl errMalformedEnvelope, raw)
     else (buildReceivedFragment peerServerName linkName bundleID dedupKey cursorFrom cursorTo
       eventCount payloadType compression integrityHash authTag fragmentIndex fragmentCount
       payload, raw)))))))))))))))"

definition decodeBinaryEnvelope :: "bytes \<Rightarrow> error + received_frame" where
  "decodeBinaryEnvelope raw =
     (if length raw < length binaryEnvelopeMagic + 1 \<or>
         take (length binaryEnvelopeMagic) raw \<noteq> binaryEnvelopeMagic then Inl errUnsupportedEnvelope
      else if raw ! length binaryEnvelopeMagic \<noteq> CHR 0x01 then Inl errUnsupportedEnvelope
      else fst (read_frame (drop (length binaryEnvelopeMagic + 1) raw)))"

text \<open>The older form: what \<open>json.Unmarshal\<close> makes of the text is an argument.\<close>

record legacyEnvelope =
  le_Version :: int
  le_PeerServerName :: string
  le_LinkName :: string
  le_BundleID :: string
  le_DedupKey :: string
  le_CursorFrom :: uint64
  le_CursorTo :: uint64
  le_EventCount :: uint32
  le_PayloadType :: string
  le_Compression :: uint32
  le_IntegrityHash :: string
  le_AuthTag :: string
  le_FragmentIndex :: uint32
  le_FragmentCount :: uint32
  le_PayloadBase64 :: string

definition decodeLegacyEnvelope ::
    "(bytes \<Rightarrow> error + legacyEnvelope) \<Rightarrow> bytes \<Rightarrow> error + received_frame" where
  "decodeLegacyEnvelope unmarshal raw =
     (case unmarshal raw of
        Inl e \<Rightarrow> Inl (Wrapped ''unmarshal meshtastic frame envelope'' e)
      | Inr envelope \<Rightarrow>
          if le_Version envelope \<noteq> 2 then Inl errUnsupportedEnvelope
          else (case b64_decode (le_PayloadBase64 envelope) of
              None \<Rightarrow> Inl (Wrapped ''decode meshtastic fragment payload'' illegal_base64)
            | Some payload \<Rightarrow> buildReceivedFragment (le_PeerServerName envelope)
                (le_LinkName envelope) (le_BundleID envelope) (le_DedupKey envelope)
                (le_CursorFrom envelope) (le_CursorTo envelope) (ucast (le_EventCount envelope))
                (le_PayloadType envelope) (ucast (le_Compression envelope))
                (le_IntegrityHash envelope) (le_AuthTag envelope) (ucast (le_FragmentIndex envelope))
                (ucast (le_FragmentCount envelope)) payload))"

definition DecodeTextEnvelope ::
    "(bytes \<Rightarrow> error + legacyEnvelope) \<Rightarrow> string \<Rightarrow> string \<Rightarrow> error + received_frame" where
  "DecodeTextEnvelope unmarshal text0 prefix0 =
     (let text = trim_space text0; pre = trim_space prefix0 in
      if text = [] \<or> pre = [] \<or> \<not> prefix pre text then Inl errEnvelopePrefix
      else case b64_decode (drop (length pre) text) of
        None \<Rightarrow> Inl (Wrapped ''decode meshtastic frame envelope'' illegal_base64)
      | Some raw \<Rightarrow> (case decodeBinaryEnvelope raw of
            Inr frame \<Rightarrow> Inr frame
          | Inl frameErr \<Rightarrow> (case decodeLegacyEnvelope unmarshal raw of
                Inr legacy \<Rightarrow> Inr legacy
              | Inl legacyErr \<Rightarrow>
                  if error_is frameErr errUnsupportedEnvelope then Inl legacyErr else Inl frameErr)))"

text \<open>The writer of the older form is kept for comparison; \<open>json.Marshal\<close> is an argument.\<close>

definition encodeLegacyTextEnvelope ::
    "(legacyEnvelope \<Rightarrow> error + bytes) \<Rightarrow> string \<Rightarrow> string \<Rightarrow> proto_fragment option \<Rightarrow> string \<Rightarrow>
     error + string" where
  "encodeLegacyTextEnvelope marshal peerServerName0 linkName0 fragment prefix0 =
     (case fragment of None \<Rightarrow> Inl errInvalidConfig
      | Some f \<Rightarrow>
        let peerServerName = norm_name peerServerName0; linkName = norm_name linkName0;
          pre = trim_space prefix0
        in if peerServerName = [] \<or> linkName = [] \<or> pre = [] then Inl errInvalidConfig
        else let envelope = \<lparr>
            le_Version = 2, le_PeerServerName = peerServerName, le_LinkName = linkName,
            le_BundleID = trim_space (pf_BundleId f), le_DedupKey = trim_space (pf_DedupKey f),
            le_CursorFrom = pf_CursorFrom f, le_CursorTo = pf_CursorTo f,
            le_EventCount = pf_EventCount f, le_PayloadType = trim_space (pf_PayloadType f),
            le_Compression = pf_Compression f, le_IntegrityHash = trim_space (pf_IntegrityHash f),
            le_AuthTag = trim_space (pf_AuthTag f), le_FragmentIndex = pf_FragmentIndex f,
            le_FragmentCount = pf_FragmentCount f, le_PayloadBase64 = b64_encode (pf_Payload f)\<rparr>
        in if le_BundleID envelope = [] \<or> le_DedupKey envelope = [] \<or> le_FragmentCount envelope = 0 \<or>
             le_IntegrityHash envelope = [] \<or> le_AuthTag envelope = [] then Inl errInvalidConfig
        else (case marshal envelope of
            Inl e \<Rightarrow> Inl (Wrapped ''marshal meshtastic fragment envelope'' e)
          | Inr raw \<Rightarrow> Inr (pre @ b64_encode raw)))"

end
