(* ===== verification/MeshEnvelopeProps.thy ===== *)
theory MeshEnvelopeProps
  imports MeshEnvelope
begin

section \<open>Frames are decoded as they were encoded\<close>

text \<open>
  What is written is read back, for the integers, the strings, the whole frame and the text;
  a frame can neither be cut short nor extended; and what the decoder accepts is well formed.
\<close>

unbundle bit_operations_syntax

subsection \<open>Integers\<close>

lemma low_7_bits: "(of_nat (unat x mod 128) :: uint64) = take_bit 7 x"
  by (rule word_unat_eq_iff [THEN iffD2]) (simp add: take_bit_eq_mod unat_of_nat unat_mod_distrib)

lemma word_split_7: "take_bit 7 x OR push_bit 7 (drop_bit 7 x) = (x :: uint64)"
proof (rule bit_word_eqI)
  fix n
  assume "n < LENGTH(64)"
  then show "bit (take_bit 7 x OR push_bit 7 (drop_bit 7 x)) n = bit x n"
    by (cases "n < 7") (simp_all add: bit_simps not_less)
qed

lemma put_uvarint_unfold:
  "128 \<le> x \<Longrightarrow> put_uvarint x = char_of (unat x mod 128 + 128) # put_uvarint (drop_bit 7 x)"
  "\<not> 128 \<le> x \<Longrightarrow> put_uvarint x = [char_of (unat x)]"
  by (simp_all add: put_uvarint.simps [of x])

lemma uvarint_from_put:
  "i \<le> 9 \<Longrightarrow> unat y < 2 ^ (64 - 7 * i) \<Longrightarrow>
   uvarint_from i acc (put_uvarint y @ rest) =
     (acc OR push_bit (7 * i) y, int i + int (length (put_uvarint y)))"
proof (induction y arbitrary: i acc rule: put_uvarint.induct)
  case (1 y)
  show ?case
  proof (cases "128 \<le> y")
    case False
    then have y: "unat y < 128" by (simp add: word_le_nat_alt)
    moreover have "\<not> (i = 9 \<and> 1 < unat y)" using 1 by auto
    ultimately show ?thesis using 1 False by (auto simp: put_uvarint_unfold(2))
  next
    case True
    then have y: "128 \<le> unat y" by (simp add: word_le_nat_alt)
    have i: "i \<le> 8"
    proof (rule ccontr)
      assume "\<not> i \<le> 8"
      with 1 have "i = 9" by simp
      with 1 y show False by simp
    qed
    have "(2 :: nat) ^ (64 - 7 * i) = 128 * 2 ^ (64 - 7 * Suc i)"
    proof -
      have "64 - 7 * i = 7 + (64 - 7 * Suc i)" using i by simp
      then show ?thesis by (simp only: power_add) simp
    qed
    then have small: "unat (drop_bit 7 y) < 2 ^ (64 - 7 * Suc i)"
      using 1(3) by (simp add: unat_drop_7)
    have "acc OR push_bit (7 * i) (take_bit 7 y) OR push_bit (7 * Suc i) (drop_bit 7 y) =
        acc OR push_bit (7 * i) (take_bit 7 y OR push_bit 7 (drop_bit 7 y))"
      by (simp add: or.assoc add.commute)
    also have "\<dots> = acc OR push_bit (7 * i) y" by (simp only: word_split_7)
    finally show ?thesis
      using 1(1) [OF True _ small] i True
      by (simp add: put_uvarint_unfold(1) low_7_bits or.assoc)
  qed
qed

lemma uvarint_put: "uvarint (put_uvarint x @ rest) = (x, int (length (put_uvarint x)))"
  using uvarint_from_put [of 0 x 0 rest] unsigned_less [of x] by (simp add: uvarint_def)

subsection \<open>Readers that know where their input ends\<close>

text \<open>
  A reader consumes a text when it reads it off the front of any input and reports every
  shorter beginning of it as malformed. A reader is exact when it consumes whatever it reads;
  readers in sequence stay exact, and so does the reader of all fields of a frame.
\<close>

definition consumes :: "(bytes, 'a) io \<Rightarrow> bytes \<Rightarrow> 'a \<Rightarrow> bool" where
  "consumes m c v \<longleftrightarrow> (\<forall>rest. m (c @ rest) = (Inr v, rest)) \<and>
     (\<forall>t. strict_prefix t c \<longrightarrow> fst (m t) = Inl errMalformedEnvelope)"

definition exact :: "(bytes, 'a) io \<Rightarrow> bool" where
  "exact m \<longleftrightarrow> (\<forall>s v r. m s = (Inr v, r) \<longrightarrow> (\<exists>c. s = c @ r \<and> consumes m c v))"

lemma exactD: "exact m \<Longrightarrow> m s = (Inr v, r) \<Longrightarrow> \<exists>c. s = c @ r \<and> consumes m c v"
  by (simp add: exact_def)

lemma strict_prefix_append_cases:
  assumes "strict_prefix t (c @ d)"
  obtains "strict_prefix t c" | t' where "t = c @ t'" "strict_prefix t' d"
proof -
  from assms have p: "prefix t (c @ d)" "t \<noteq> c @ d" by (auto simp: strict_prefix_def)
  from p(1) consider "prefix t c" | t' where "t = c @ t'" "prefix t' d"
    by (auto simp: prefix_append)
  then show ?thesis
  proof cases
    case 1
    then show ?thesis using that p(2) by (cases "t = c") (auto simp: strict_prefix_def)
  next
    case (2 t')
    then show ?thesis using that(2) p(2) by (auto simp: strict_prefix_def)
  qed
qed

lemma consumes_andThen:
  assumes "consumes m c v" "consumes (f v) d u"
  shows "consumes (andThen m f) (c @ d) u"
  unfolding consumes_def
proof (intro conjI allI impI)
  show "andThen m f ((c @ d) @ rest) = (Inr u, rest)" for rest
    using assms by (simp add: consumes_def andThen_run)
next
  fix t
  assume "strict_prefix t (c @ d)"
  then show "fst (andThen m f t) = Inl errMalformedEnvelope"
  proof (cases rule: strict_prefix_append_cases)
    case 1
    with assms(1) have "fst (m t) = Inl errMalformedEnvelope" by (simp add: consumes_def)
    then show ?thesis by (cases "m t") (simp add: andThen_run)
  next
    case (2 t')
    with assms show ?thesis by (simp add: consumes_def andThen_run)
  qed
qed

lemma exact_andThen:
  assumes "exact m" "\<And>v. exact (f v)"
  shows "exact (andThen m f)"
  unfolding exact_def
proof (intro allI impI)
  fix s u r
  assume "andThen m f s = (Inr u, r)"
  then obtain v s1 where "m s = (Inr v, s1)" "f v s1 = (Inr u, r)" by (auto simp: andThen_Inr)
  with exactD [OF assms(1)] exactD [OF assms(2)] obtain c d where
    "s = c @ s1" "consumes m c v" "s1 = d @ r" "consumes (f v) d u" by blast
  then show "\<exists>c. s = c @ r \<and> consumes (andThen m f) c u"
    using consumes_andThen by (metis append.assoc)
qed

lemma exact_ret: "exact (ret x)"
  by (auto simp: exact_def consumes_def)

lemma uvarint_from_result:
  "uvarint_from i acc s = (v, n) \<Longrightarrow> 0 < n \<Longrightarrow>
   \<exists>k. n = int i + int k \<and> 0 < k \<and> k \<le> length s \<and>
     (\<forall>rest. uvarint_from i acc (take k s @ rest) = (v, n)) \<and>
     (\<forall>j < k. uvarint_from i acc (take j s) = (0, 0))"
proof (induction i acc s rule: uvarint_from.induct)
  case (2 i x b buf)
  show ?case
  proof (cases "code b < 128")
    case True
    with 2(2,3) show ?thesis by (intro exI [of _ 1]) (auto split: if_splits)
  next
    case False
    with 2(2,3) have i: "i \<noteq> 10" and
      rec: "uvarint_from (i + 1) (x OR push_bit (7 * i) (of_nat (code b mod 128))) buf = (v, n)"
      by (auto split: if_splits)
    from 2(1) [OF i False rec 2(3)] obtain k where
      k: "n = int (i + 1) + int k" "0 < k" "k \<le> length buf"
      "\<forall>rest. uvarint_from (i + 1) (x OR push_bit (7 * i) (of_nat (code b mod 128))) (take k buf @ rest) = (v, n)"
      "\<forall>j < k. uvarint_from (i + 1) (x OR push_bit (7 * i) (of_nat (code b mod 128))) (take j buf) = (0, 0)"
      by blast
    have "uvarint_from i x (take j (b # buf)) = (0, 0)" if "j < Suc k" for j
      using that k(5) i False by (cases j) simp_all
    with k i False show ?thesis by (intro exI [of _ "Suc k"]) simp
  qed
qed simp

lemma exact_readUvarint: "exact readUvarint"
  unfolding exact_def
proof (intro allI impI)
  fix s v r
  assume "readUvarint s = (Inr v, r)"
  then obtain n where n: "uvarint s = (v, n)" "0 < n" "r = drop (nat n) s"
    by (auto simp: readUvarint_def split: prod.splits if_splits)
  from uvarint_from_result [OF n(1) [unfolded uvarint_def] n(2)] obtain k where
    k: "n = int k" "0 < k" "k \<le> length s" "\<And>rest. uvarint (take k s @ rest) = (v, n)"
    "\<And>j. j < k \<Longrightarrow> uvarint (take j s) = (0, 0)"
    by (auto simp: uvarint_def)
  have "readUvarint (take k s @ rest) = (Inr v, rest)" for rest
    using k by (simp add: readUvarint_def)
  moreover have "fst (readUvarint t) = Inl errMalformedEnvelope" if "strict_prefix t (take k s)" for t
  proof -
    from that have "length t < k" "prefix t s"
      using prefix_length_less [OF that] k(3) take_is_prefix [of k s]
      by (auto simp: strict_prefix_def intro: prefix_order.trans)
    then have "t = take (length t) s" "length t < k" by (auto simp: prefix_def)
    then show ?thesis using k(5) [of "length t"] by (simp add: readUvarint_def)
  qed
  ultimately have "consumes readUvarint (take k s) v" by (simp add: consumes_def)
  then show "\<exists>c. s = c @ r \<and> consumes readUvarint c v"
    using n(3) k(1) by (intro exI [of _ "take k s"]) simp
qed

lemma exact_readBytes: "exact readBytes" "exact readString"
proof -
  have "exact (\<lambda>raw. if length raw < unat len then (Inl errMalformedEnvelope, raw)
     else (Inr (take (unat len) raw), drop (unat len) raw))" for len :: uint64
    unfolding exact_def
  proof (intro allI impI)
    fix s v r :: bytes
    assume "(if length s < unat len then (Inl errMalformedEnvelope, s)
      else (Inr (take (unat len) s), drop (unat len) s)) = (Inr v, r)"
    then have "v = take (unat len) s" "r = drop (unat len) s" "unat len \<le> length s"
      by (auto split: if_splits)
    then show "\<exists>c. s = c @ r \<and> consumes (\<lambda>raw. if length raw < unat len
        then (Inl errMalformedEnvelope, raw) else (Inr (take (unat len) raw), drop (unat len) raw)) c v"
      by (intro exI [of _ v]) (auto simp: consumes_def dest: prefix_length_less)
  qed
  then show "exact readBytes" unfolding readBytes_def by (rule exact_andThen [OF exact_readUvarint])
  then show "exact readString" by (simp add: readString_def)
qed

subsection \<open>The frame\<close>

abbreviation frame_string :: "bytes \<Rightarrow> bytes" where
  "frame_string v \<equiv> put_uvarint (of_nat (length v)) @ v"

abbreviation sized :: "bytes \<Rightarrow> bool" where
  "sized v \<equiv> length v < 2 ^ 63"

lemma read_put [simp]: "readUvarint (put_uvarint x @ rest) = (Inr x, rest)"
proof -
  have "put_uvarint x \<noteq> []" by (simp add: put_uvarint.simps [of x])
  then show ?thesis by (simp add: readUvarint_def uvarint_put)
qed

lemma read_frame_string [simp]:
  assumes "sized v"
  shows "readBytes (put_uvarint (of_nat (length v)) @ v @ rest) = (Inr v, rest)"
    "readString (put_uvarint (of_nat (length v)) @ v @ rest) = (Inr v, rest)"
proof -
  have "unat (of_nat (length v) :: uint64) = length v" using assms by (simp add: unat_of_nat)
  then show "readBytes (put_uvarint (of_nat (length v)) @ v @ rest) = (Inr v, rest)"
    by (simp add: readBytes_def andThen_run)
  then show "readString (put_uvarint (of_nat (length v)) @ v @ rest) = (Inr v, rest)"
    by (simp add: readString_def)
qed

lemma encodeBinaryEnvelope_bytes:
  "encodeBinaryEnvelope p l f = Inr raw \<longleftrightarrow>
     trim_space (pf_BundleId f) \<noteq> [] \<and> trim_space (pf_DedupKey f) \<noteq> [] \<and> pf_FragmentCount f \<noteq> 0 \<and>
     trim_space (pf_IntegrityHash f) \<noteq> [] \<and> trim_space (pf_AuthTag f) \<noteq> [] \<and>
     raw = ''ZVF'' @ [CHR 0x01] @ frame_string p @ frame_string l @
       frame_string (trim_space (pf_BundleId f)) @ frame_string (trim_space (pf_DedupKey f)) @
       put_uvarint (pf_CursorFrom f) @ put_uvarint (pf_CursorTo f) @
       put_uvarint (ucast (pf_EventCount f)) @ frame_string (trim_space (pf_PayloadType f)) @
       put_uvarint (scast (pf_Compression f)) @ frame_string (trim_space (pf_IntegrityHash f)) @
       frame_string (trim_space (pf_AuthTag f)) @ put_uvarint (ucast (pf_FragmentIndex f)) @
       put_uvarint (ucast (pf_FragmentCount f)) @ frame_string (pf_Payload f)"
  by (auto simp: encodeBinaryEnvelope_def Let_def writeFrameString_def writeFrameBytes_def
      writeUvarint_def binaryEnvelopeMagic_def)

text \<open>A fragment with its texts trimmed, and what a frame can carry.\<close>

definition trimmed_fragment :: "proto_fragment \<Rightarrow> proto_fragment" where
  "trimmed_fragment f = f\<lparr>
     pf_BundleId := trim_space (pf_BundleId f), pf_DedupKey := trim_space (pf_DedupKey f),
     pf_PayloadType := trim_space (pf_PayloadType f),
     pf_IntegrityHash := trim_space (pf_IntegrityHash f), pf_AuthTag := trim_space (pf_AuthTag f)\<rparr>"

definition frame_sized :: "string \<Rightarrow> string \<Rightarrow> proto_fragment \<Rightarrow> bool" where
  "frame_sized p l f \<longleftrightarrow> sized (norm_name p) \<and> sized (norm_name l) \<and>
     sized (trim_space (pf_BundleId f)) \<and> sized (trim_space (pf_DedupKey f)) \<and>
     sized (trim_space (pf_PayloadType f)) \<and> sized (trim_space (pf_IntegrityHash f)) \<and>
     sized (trim_space (pf_AuthTag f)) \<and> sized (pf_Payload f)"

lemma unat32: "unat (x :: uint32) < 4294967296"
  using unsigned_less [of x, where 'a = nat] by simp

lemma unat_up [simp]: "unat (ucast (x :: uint32) :: uint64) = unat x"
proof -
  have "unat x < 2 ^ 64" using unat32 [of x] by simp
  then show ?thesis by (simp add: unsigned_ucast_eq take_bit_nat_eq_self)
qed

lemma uint32_bounds [simp]: "\<not> (4294967295 :: uint64) < ucast (x :: uint32)"
  using unat32 [of x] by (simp add: word_less_nat_alt not_less)

lemma ucast_count [simp]: "(ucast (x :: uint32) :: uint64) = 0 \<longleftrightarrow> x = 0"
  by (simp add: word_unat_eq_iff)

lemma down_up [simp]: "(ucast (ucast (x :: uint32) :: uint64) :: uint32) = x"
  by (rule bit_word_eqI) (auto simp: bit_simps)

lemma compression_up:
  assumes "0 \<le> sint (x :: uint32)"
  shows "(scast x :: uint64) = ucast x" "\<not> (2147483647 :: uint64) < ucast x"
proof -
  have bound: "sint x < 2 ^ 31" using sint_lt [of x] by simp
  have "uint x = take_bit 32 (sint x)" using uint_sint [of x] by simp
  also have "\<dots> = sint x" using assms bound by (simp add: take_bit_int_eq_self)
  finally have s: "uint x = sint x" .
  then show "(scast x :: uint64) = ucast x" by (metis of_int_sint of_int_uint)
  have "unat x < 2 ^ 31" using s bound by (simp add: nat_less_iff unat_eq_nat_uint)
  then show "\<not> (2147483647 :: uint64) < ucast x"
    by (simp add: word_less_nat_alt not_less)
qed

lemma binary_roundtrip:
  assumes "encodeBinaryEnvelope (norm_name p) (norm_name l) f = Inr raw"
    and "norm_name p \<noteq> []" "norm_name l \<noteq> []" "frame_sized p l f" "0 \<le> sint (pf_Compression f)"
  shows "decodeBinaryEnvelope raw = Inr \<lparr>rf_PeerServerName = norm_name p, rf_LinkName = norm_name l,
    rf_Fragment = trimmed_fragment f\<rparr>"
proof -
  note raw = assms(1) [unfolded encodeBinaryEnvelope_bytes]
  have last: "readBytes (frame_string v) = (Inr v, [])" if "sized v" for v
    using read_frame_string(1) [OF that, of "[]"] by simp
  have "fst (read_frame (drop 4 raw)) = Inr \<lparr>rf_PeerServerName = norm_name p,
      rf_LinkName = norm_name l, rf_Fragment = trimmed_fragment f\<rparr>"
    using raw assms(2-5) compression_up [OF assms(5)]
    by (simp add: read_frame_def andThen_run frame_sized_def last buildReceivedFragment_def
        trimmed_fragment_def)
  with raw show ?thesis by (simp add: decodeBinaryEnvelope_def binaryEnvelopeMagic_def)
qed

text \<open>The fields as one reading, and the checks after it.\<close>

definition read_fields where
  "read_fields =
     andThen readString (\<lambda>peerServerName.
     andThen readString (\<lambda>linkName.
     andThen readString (\<lambda>bundleID.
     andThen readString (\<lambda>dedupKey.
     andThen readUvarint (\<lambda>cursorFrom.
     andThen readUvarint (\<lambda>cursorTo.
     andThen readUvarint (\<lambda>eventCount.
     andThen readString (\<lambda>payloadType.
     andThen readUvarint (\<lambda>compression.
     andThen readString (\<lambda>integrityHash.
     andThen readString (\<lambda>authTag.
     andThen readUvarint (\<lambda>fragmentIndex.
     andThen readUvarint (\<lambda>fragmentCount.
     andThen readBytes (\<lambda>payload.
     ret (buildReceivedFragment peerServerName linkName bundleID dedupKey cursorFrom cursorTo
       eventCount payloadType compression integrityHash authTag fragmentIndex fragmentCount
       payload)))))))))))))))"

lemma andThen_assoc: "andThen (andThen m f) g = andThen m (\<lambda>x. andThen (f x) g)"
  by (rule ext) (simp add: andThen_run split: prod.splits sum.splits)

lemma andThen_ret: "andThen (ret x) g = g x"
  by (rule ext) (simp add: andThen_run)

lemma read_frame_fields:
  "read_frame = andThen read_fields (\<lambda>r raw. if raw \<noteq> [] then (Inl errMalformedEnvelope, raw) else (r, raw))"
  unfolding read_frame_def read_fields_def andThen_assoc andThen_ret ..

lemma exact_read_fields: "exact read_fields"
  unfolding read_fields_def
  by (intro exact_andThen exact_readUvarint exact_readBytes exact_ret)

lemma decode_shape:
  "decodeBinaryEnvelope raw =
     (if length raw < 4 \<or> take 4 raw \<noteq> ''ZVF'' @ [CHR 0x01] then Inl errUnsupportedEnvelope
      else fst (read_frame (drop 4 raw)))"
proof (cases "length raw < 4")
  case False
  then obtain a b c d rest where "raw = a # b # c # d # rest"
    by (cases raw; cases "tl raw"; cases "tl (tl raw)"; cases "tl (tl (tl raw))") auto
  then show ?thesis by (auto simp: decodeBinaryEnvelope_def binaryEnvelopeMagic_def)
qed (simp add: decodeBinaryEnvelope_def binaryEnvelopeMagic_def)

text \<open>C17: a frame can be neither cut short nor extended: when the decoder accepts a frame, it
  rejects every proper beginning of it, and every frame that continues it.\<close>

theorem accepted_frames_prefix_free:
  assumes "decodeBinaryEnvelope raw = Inr r"
  shows "(\<forall>n < length raw. decodeBinaryEnvelope (take n raw) = Inl errUnsupportedEnvelope \<or>
      decodeBinaryEnvelope (take n raw) = Inl errMalformedEnvelope) \<and>
    (\<forall>extra. extra \<noteq> [] \<longrightarrow> decodeBinaryEnvelope (raw @ extra) = Inl errMalformedEnvelope)"
proof -
  let ?body = "drop 4 raw"
  from assms have head: "4 \<le> length raw" "take 4 raw = ''ZVF'' @ [CHR 0x01]"
    and run: "fst (read_frame ?body) = Inr r"
    by (auto simp: decode_shape split: if_splits)
  from run obtain x where "read_fields ?body = (Inr x, [])"
    by (auto simp: read_frame_fields andThen_run split: prod.splits sum.splits if_splits)
  with exactD [OF exact_read_fields this] have use: "consumes read_fields ?body x" by simp
  have "decodeBinaryEnvelope (take n raw) = Inl errUnsupportedEnvelope \<or>
      decodeBinaryEnvelope (take n raw) = Inl errMalformedEnvelope" if "n < length raw" for n
  proof (cases "n < 4")
    case True
    then show ?thesis by (auto simp: decode_shape min_def)
  next
    case False
    have "strict_prefix (take (n - 4) ?body) ?body"
      using that False by (intro strict_prefixI) (auto simp: take_is_prefix dest: arg_cong [where f = length])
    with use have "fst (read_fields (take (n - 4) ?body)) = Inl errMalformedEnvelope"
      by (simp add: consumes_def)
    then have "fst (read_frame (take (n - 4) ?body)) = Inl errMalformedEnvelope"
      by (cases "read_fields (take (n - 4) ?body)") (simp add: read_frame_fields andThen_run)
    then show ?thesis using False that head by (simp add: decode_shape drop_take min_def)
  qed
  moreover have "decodeBinaryEnvelope (raw @ extra) = Inl errMalformedEnvelope" if "extra \<noteq> []" for extra
    using use head that by (simp add: decode_shape read_frame_fields andThen_run consumes_def)
  ultimately show ?thesis by blast
qed

subsection \<open>The text\<close>

lemma unstripped_back: "s \<noteq> [] \<Longrightarrow> visible (last s) \<Longrightarrow> unstripped (List.map rev space_runes) (rev s)"
  using space_runes_invisible
  by (auto simp: unstripped_def list_all_iff prefix_def hd_rev rev_swap last_append)

lemma trim_space_append_visible:
  assumes "trim_space p = p" "p \<noteq> []" "list_all visible s" "s \<noteq> []"
  shows "trim_space (p @ s) = p @ s"
proof -
  have front: "unstripped space_runes p"
    using unstripped_prefix [OF strip_all_unstripped trim_space_prefix] assms(1) by metis
  have "\<not> prefix r (p @ s)" if r: "r \<in> set space_runes" "r \<noteq> []" for r
  proof
    assume "prefix r (p @ s)"
    then consider "prefix r p" | s' where "r = p @ s'" "prefix s' s" by (auto simp: prefix_append)
    then show False
    proof cases
      case 1
      with front r show ?thesis by (auto simp: unstripped_def)
    next
      case (2 s')
      show ?thesis
      proof (cases "s' = []")
        case True
        with 2 front r show ?thesis by (auto simp: unstripped_def)
      next
        case False
        then have "last r \<in> set s" using 2 by (auto simp: prefix_def)
        with assms(3) have "visible (last r)" by (simp add: list_all_iff)
        with space_runes_invisible r show ?thesis by (auto simp: list_all_iff)
      qed
    qed
  qed
  then have "unstripped space_runes (p @ s)" by (simp add: unstripped_def)
  moreover have "unstripped (List.map rev space_runes) (rev (p @ s))"
    using assms(3,4) by (intro unstripped_back) (simp_all add: list_all_iff)
  ultimately show ?thesis by (simp add: trim_space_def strip_all_id)
qed

lemma DecodeTextEnvelope_encoded:
  assumes "trim_space prefix0 \<noteq> []" "raw \<noteq> []" "decodeBinaryEnvelope raw = Inr r"
  shows "DecodeTextEnvelope unmarshal (trim_space prefix0 @ b64_encode raw) prefix0 = Inr r"
proof -
  have "trim_space (trim_space prefix0 @ b64_encode raw) = trim_space prefix0 @ b64_encode raw"
    using assms(1,2) by (intro trim_space_append_visible) simp_all
  with assms show ?thesis by (simp add: DecodeTextEnvelope_def Let_def)
qed

lemma encoded_text:
  assumes "EncodeTextEnvelope p l (Some f) prefix0 = Inr text" "frame_sized p l f" "0 \<le> sint (pf_Compression f)"
  shows "DecodeTextEnvelope unmarshal text prefix0 = Inr \<lparr>rf_PeerServerName = norm_name p,
    rf_LinkName = norm_name l, rf_Fragment = trimmed_fragment f\<rparr>"
proof -
  from assms(1) obtain raw where raw: "encodeBinaryEnvelope (norm_name p) (norm_name l) f = Inr raw"
    and enc: "text = trim_space prefix0 @ b64_encode raw"
    and ne: "norm_name p \<noteq> []" "norm_name l \<noteq> []" "trim_space prefix0 \<noteq> []"
    by (auto simp: EncodeTextEnvelope_def Let_def split: if_splits sum.splits)
  note dec = binary_roundtrip [OF raw ne(1,2) assms(2,3)]
  have "raw \<noteq> []" using raw by (simp add: encodeBinaryEnvelope_bytes)
  from DecodeTextEnvelope_encoded [OF ne(3) this dec] show ?thesis by (simp add: enc)
qed

text \<open>C16: a frame round trip: whatever fragment is encoded with a compression kind that is not
  negative and texts of any length a machine can hold, the text decodes, under the same
  prefix and whatever the JSON parser would do, to the same fragment with its texts trimmed
  and the two names in lower case.\<close>

theorem text_envelope_roundtrip:
  assumes "EncodeTextEnvelope p l (Some f) prefix0 = Inr text"
    and "frame_sized p l f" "0 \<le> sint (pf_Compression f)"
  shows "DecodeTextEnvelope unmarshal text prefix0 = Inr \<lparr>rf_PeerServerName = norm_name p,
    rf_LinkName = norm_name l, rf_Fragment = trimmed_fragment f\<rparr>"
  using assms by (rule encoded_text)

definition sample_proto :: proto_fragment where
  "sample_proto = \<lparr>pf_BundleId = ''b1'', pf_DedupKey = ''d1'', pf_CursorFrom = 1, pf_CursorTo = 300,
     pf_EventCount = 2, pf_PayloadType = ''json'', pf_Compression = 1, pf_IntegrityHash = ''aa'',
     pf_AuthTag = ''bb'', pf_FragmentIndex = 0, pf_FragmentCount = 1, pf_Payload = ''hello''\<rparr>"

lemmas envelope_literals = lower_text_def visible_def

lemma text_envelope_roundtrip_witness:
  "\<exists>text. EncodeTextEnvelope ''mesh'' ''l1'' (Some sample_proto) ''zv1:'' = Inr text \<and>
     DecodeTextEnvelope (\<lambda>_. Inl illegal_base64) text ''zv1:'' =
       Inr \<lparr>rf_PeerServerName = ''mesh'', rf_LinkName = ''l1'', rf_Fragment = sample_proto\<rparr>"
proof -
  obtain t where enc: "EncodeTextEnvelope ''mesh'' ''l1'' (Some sample_proto) ''zv1:'' = Inr t"
    by (simp add: EncodeTextEnvelope_def encodeBinaryEnvelope_def sample_proto_def Let_def envelope_literals)
  have "frame_sized ''mesh'' ''l1'' sample_proto" "0 \<le> sint (pf_Compression sample_proto)"
    by (simp_all add: frame_sized_def sample_proto_def envelope_literals)
  from text_envelope_roundtrip [OF enc this] enc show ?thesis
    by (simp add: envelope_literals) (simp add: trimmed_fragment_def sample_proto_def envelope_literals)
qed

lemma sample_frame:
  "\<exists>raw. encodeBinaryEnvelope (norm_name ''mesh'') (norm_name ''l1'') sample_proto = Inr raw \<and>
     decodeBinaryEnvelope raw = Inr \<lparr>rf_PeerServerName = ''mesh'', rf_LinkName = ''l1'', rf_Fragment = sample_proto\<rparr>"
proof -
  obtain raw where raw: "encodeBinaryEnvelope (norm_name ''mesh'') (norm_name ''l1'') sample_proto = Inr raw"
    by (simp add: encodeBinaryEnvelope_def sample_proto_def Let_def envelope_literals)
  have "norm_name ''mesh'' \<noteq> []" "norm_name ''l1'' \<noteq> []" "frame_sized ''mesh'' ''l1'' sample_proto"
      "0 \<le> sint (pf_Compression sample_proto)"
    by (simp_all add: frame_sized_def sample_proto_def envelope_literals)
  from binary_roundtrip [OF raw this] raw show ?thesis
    by (simp add: trimmed_fragment_def envelope_literals) (simp add: sample_proto_def envelope_literals)
qed

lemma accepted_frames_prefix_free_witness:
  "\<exists>raw. decodeBinaryEnvelope raw = Inr \<lparr>rf_PeerServerName = ''mesh'', rf_LinkName = ''l1'',
       rf_Fragment = sample_proto\<rparr> \<and> decodeBinaryEnvelope (raw @ ''x'') = Inl errMalformedEnvelope"
proof -
  obtain raw where "decodeBinaryEnvelope raw = Inr \<lparr>rf_PeerServerName = ''mesh'', rf_LinkName = ''l1'',
       rf_Fragment = sample_proto\<rparr>" using sample_frame by blast
  with accepted_frames_prefix_free [OF this] show ?thesis by blast
qed

lemma down_bounded:
  assumes "(x :: uint64) \<le> 4294967295"
  shows "unat (ucast x :: uint32) = unat x"
proof -
  have "unat x < 2 ^ 32" using assms by (simp add: word_le_nat_alt)
  then show ?thesis by (simp add: unsigned_ucast_eq take_bit_nat_eq_self)
qed

lemma signed_small: "(n :: nat) < 2 ^ 31 \<Longrightarrow> signed_take_bit 31 (int n) = int n"
  by (rule signed_take_bit_int_eq_self) simp_all

lemma sint_small: "unat (y :: uint32) < 2 ^ 31 \<Longrightarrow> sint y = int (unat y)"
  using signed_small [of "unat y"] sint_uint [of y] by simp

lemma down_not_negative:
  assumes "(x :: uint64) \<le> 2147483647"
  shows "0 \<le> sint (ucast x :: uint32)"
proof -
  have "x \<le> 4294967295" "unat x < 2 ^ 31" using assms by (simp_all add: word_le_nat_alt)
  with down_bounded sint_small show ?thesis by (metis of_nat_0_le_iff)
qed

lemma built_frame:
  assumes "buildReceivedFragment p l b d c1 c2 ev ty co ih tag idx cnt pay = Inr r"
  shows "norm_name (rf_PeerServerName r) = rf_PeerServerName r" "rf_PeerServerName r \<noteq> []"
    "norm_name (rf_LinkName r) = rf_LinkName r" "rf_LinkName r \<noteq> []"
    "trimmed_fragment (rf_Fragment r) = rf_Fragment r" "0 \<le> sint (pf_Compression (rf_Fragment r))"
    "pf_BundleId (rf_Fragment r) \<noteq> []" "pf_DedupKey (rf_Fragment r) \<noteq> []"
    "pf_IntegrityHash (rf_Fragment r) \<noteq> []" "pf_AuthTag (rf_Fragment r) \<noteq> []"
    "pf_FragmentCount (rf_Fragment r) \<noteq> 0"
proof -
  from assms have r: "r = \<lparr>rf_PeerServerName = norm_name p, rf_LinkName = norm_name l, rf_Fragment = \<lparr>
      pf_BundleId = trim_space b, pf_DedupKey = trim_space d, pf_CursorFrom = c1, pf_CursorTo = c2,
      pf_EventCount = ucast ev, pf_PayloadType = trim_space ty, pf_Compression = ucast co,
      pf_IntegrityHash = trim_space ih, pf_AuthTag = trim_space tag, pf_FragmentIndex = ucast idx,
      pf_FragmentCount = ucast cnt, pf_Payload = pay\<rparr>\<rparr>"
    and ne: "norm_name p \<noteq> []" "norm_name l \<noteq> []" "trim_space b \<noteq> []" "trim_space d \<noteq> []"
      "trim_space ih \<noteq> []" "trim_space tag \<noteq> []" "cnt \<noteq> 0"
    and bounds: "co \<le> 2147483647" "cnt \<le> 4294967295"
    by (auto simp: buildReceivedFragment_def Let_def not_less split: if_splits)
  have "(ucast cnt :: uint32) \<noteq> 0"
    using down_bounded [OF bounds(2)] ne(7) by (metis unsigned_eq_0_iff)
  then show "pf_FragmentCount (rf_Fragment r) \<noteq> 0" by (simp add: r)
  show "0 \<le> sint (pf_Compression (rf_Fragment r))" using down_not_negative [OF bounds(1)] by (simp add: r)
  show "norm_name (rf_PeerServerName r) = rf_PeerServerName r" "rf_PeerServerName r \<noteq> []"
    "norm_name (rf_LinkName r) = rf_LinkName r" "rf_LinkName r \<noteq> []"
    "trimmed_fragment (rf_Fragment r) = rf_Fragment r"
    "pf_BundleId (rf_Fragment r) \<noteq> []" "pf_DedupKey (rf_Fragment r) \<noteq> []"
    "pf_IntegrityHash (rf_Fragment r) \<noteq> []" "pf_AuthTag (rf_Fragment r) \<noteq> []"
    using ne by (simp_all add: r trimmed_fragment_def)
qed

definition frame_built :: "received_frame \<Rightarrow> bool" where
  "frame_built r \<longleftrightarrow> (\<exists>p l b d c1 c2 ev ty co ih tag idx cnt pay.
     buildReceivedFragment p l b d c1 c2 ev ty co ih tag idx cnt pay = Inr r)"

lemma frame_builtI: "buildReceivedFragment p l b d c1 c2 ev ty co ih tag idx cnt pay = Inr r \<Longrightarrow> frame_built r"
  unfolding frame_built_def by blast

text \<open>what a gateway accepts it can pass on: every received frame, of the binary or of the JSON
  form, is normalised and complete, so encoding its fragment again under the same names
  succeeds, and the new text decodes to the same frame.\<close>

theorem received_frames_reencode:
  assumes "DecodeTextEnvelope unmarshal t prefix0 = Inr r"
    and "frame_sized (rf_PeerServerName r) (rf_LinkName r) (rf_Fragment r)"
  shows "\<exists>t'. EncodeTextEnvelope (rf_PeerServerName r) (rf_LinkName r) (Some (rf_Fragment r)) prefix0 = Inr t' \<and>
    (\<forall>unmarshal'. DecodeTextEnvelope unmarshal' t' prefix0 = Inr r)"
proof -
  from assms(1) obtain raw where ne: "trim_space prefix0 \<noteq> []"
    and dec: "decodeBinaryEnvelope raw = Inr r \<or> decodeLegacyEnvelope unmarshal raw = Inr r"
    by (auto simp: DecodeTextEnvelope_def Let_def split: if_splits option.splits sum.splits)
  have "frame_built r"
  proof (rule disjE [OF dec])
    assume "decodeBinaryEnvelope raw = Inr r"
    then have "fst (read_frame (drop 4 raw)) = Inr r" by (simp add: decode_shape split: if_splits)
    then show ?thesis
      by (auto simp: read_frame_def andThen_run dest: frame_builtI
          split: prod.splits sum.splits if_splits)
  next
    assume "decodeLegacyEnvelope unmarshal raw = Inr r"
    then show ?thesis
      by (auto simp: decodeLegacyEnvelope_def dest: frame_builtI
          split: sum.splits option.splits if_splits)
  qed
  then obtain p l b d c1 c2 ev ty co ih tag idx cnt pay where
    "buildReceivedFragment p l b d c1 c2 ev ty co ih tag idx cnt pay = Inr r"
    unfolding frame_built_def by blast
  note built = built_frame [OF this]
  have trims: "trim_space (pf_BundleId (rf_Fragment r)) = pf_BundleId (rf_Fragment r)"
    "trim_space (pf_DedupKey (rf_Fragment r)) = pf_DedupKey (rf_Fragment r)"
    "trim_space (pf_IntegrityHash (rf_Fragment r)) = pf_IntegrityHash (rf_Fragment r)"
    "trim_space (pf_AuthTag (rf_Fragment r)) = pf_AuthTag (rf_Fragment r)"
    using arg_cong [OF built(5), of pf_BundleId] arg_cong [OF built(5), of pf_DedupKey]
      arg_cong [OF built(5), of pf_IntegrityHash] arg_cong [OF built(5), of pf_AuthTag]
    by (simp_all add: trimmed_fragment_def)
  obtain t' where t': "EncodeTextEnvelope (rf_PeerServerName r) (rf_LinkName r) (Some (rf_Fragment r)) prefix0 = Inr t'"
    using built trims ne by (simp add: EncodeTextEnvelope_def encodeBinaryEnvelope_def Let_def)
  from encoded_text [OF t' assms(2) built(6)] built t' show ?thesis by auto
qed

lemma received_frames_reencode_witness:
  "\<exists>t t'. DecodeTextEnvelope (\<lambda>_. Inl illegal_base64) t ''zv1:'' = Inr \<lparr>rf_PeerServerName = ''mesh'',
       rf_LinkName = ''l1'', rf_Fragment = sample_proto\<rparr> \<and>
     EncodeTextEnvelope ''mesh'' ''l1'' (Some sample_proto) ''zv1:'' = Inr t' \<and>
     DecodeTextEnvelope (\<lambda>_. Inl illegal_base64) t' ''zv1:'' = Inr \<lparr>rf_PeerServerName = ''mesh'',
       rf_LinkName = ''l1'', rf_Fragment = sample_proto\<rparr>"
proof -
  let ?r = "\<lparr>rf_PeerServerName = ''mesh'', rf_LinkName = ''l1'', rf_Fragment = sample_proto\<rparr>"
  obtain raw where raw: "encodeBinaryEnvelope (norm_name ''mesh'') (norm_name ''l1'') sample_proto = Inr raw"
    and dec: "decodeBinaryEnvelope raw = Inr ?r" using sample_frame by blast
  have "raw \<noteq> []" using raw by (simp add: encodeBinaryEnvelope_bytes)
  from DecodeTextEnvelope_encoded [OF _ this dec, of "''zv1:''"]
  have t: "DecodeTextEnvelope (\<lambda>_. Inl illegal_base64) (trim_space ''zv1:'' @ b64_encode raw) ''zv1:'' = Inr ?r"
    by (simp add: envelope_literals)
  have "frame_sized (rf_PeerServerName ?r) (rf_LinkName ?r) (rf_Fragment ?r)"
    by (simp add: frame_sized_def sample_proto_def envelope_literals)
  from received_frames_reencode [OF t this] t show ?thesis by auto
qed

end
