(* ===== verification/IdentityModels.thy ===== *)
theory IdentityModels
  imports GoStrings
begin

section \<open>Accounts, devices and sessions (\<open>internal/domain/identity/models.go\<close>)\<close>

text \<open>
  The records of the identity domain that the presence and notification domains read, with the
  source's fields, and the table of the reads they perform. The tables of the identity store
  are an argument of the components that use them: theorems hold whatever the reads answer.
\<close>

abbreviation IdentityErrNotFound :: error where
  "IdentityErrNotFound \<equiv> Sentinel Identity NotFound"

type_synonym AccountKind = string

abbreviation AccountKindUnspecified :: AccountKind where
  "AccountKindUnspecified \<equiv> []"

abbreviation AccountKindUser :: AccountKind where
  "AccountKindUser \<equiv> ''user''"

abbreviation AccountKindBot :: AccountKind where
  "AccountKindBot \<equiv> ''bot''"

type_synonym Role = string

abbreviation RoleOwner :: Role where
  "RoleOwner \<equiv> ''owner''"

abbreviation RoleAdmin :: Role where
  "RoleAdmin \<equiv> ''admin''"

abbreviation RoleModerator :: Role where
  "RoleModerator \<equiv> ''moderator''"

abbreviation RoleSupport :: Role where
  "RoleSupport \<equiv> ''support''"

abbreviation RoleAuditor :: Role where
  "RoleAuditor \<equiv> ''auditor''"

type_synonym AccountStatus = string

abbreviation AccountStatusActive :: AccountStatus where
  "AccountStatusActive \<equiv> ''active''"

abbreviation AccountStatusSuspended :: AccountStatus where
  "AccountStatusSuspended \<equiv> ''suspended''"

abbreviation AccountStatusRevoked :: AccountStatus where
  "AccountStatusRevoked \<equiv> ''revoked''"

type_synonym DevicePlatform = string

abbreviation DevicePlatformUnspecified :: DevicePlatform where
  "DevicePlatformUnspecified \<equiv> []"

abbreviation DevicePlatformIOS :: DevicePlatform where
  "DevicePlatformIOS \<equiv> ''ios''"

abbreviation DevicePlatformAndroid :: DevicePlatform where
  "DevicePlatformAndroid \<equiv> ''android''"

abbreviation DevicePlatformWeb :: DevicePlatform where
  "DevicePlatformWeb \<equiv> ''web''"

abbreviation DevicePlatformDesktop :: DevicePlatform where
  "DevicePlatformDesktop \<equiv> ''desktop''"

abbreviation DevicePlatformServer :: DevicePlatform where
  "DevicePlatformServer \<equiv> ''server''"

type_synonym DeviceStatus = string

abbreviation DeviceStatusActive :: DeviceStatus where
  "DeviceStatusActive \<equiv> ''active''"

abbreviation DeviceStatusSuspended :: DeviceStatus where
  "DeviceStatusSuspended \<equiv> ''suspended''"

abbreviation DeviceStatusRevoked :: DeviceStatus where
  "DeviceStatusRevoked \<equiv> ''revoked''"

abbreviation DeviceStatusUnverified :: DeviceStatus where
  "DeviceStatusUnverified \<equiv> ''unverified''"

type_synonym SessionStatus = string

abbreviation SessionStatusActive :: SessionStatus where
  "SessionStatusActive \<equiv> ''active''"

abbreviation SessionStatusRevoked :: SessionStatus where
  "SessionStatusRevoked \<equiv> ''revoked''"

record account =
  acct_ID :: string
  acct_Kind :: AccountKind
  acct_Username :: string
  acct_DisplayName :: string
  acct_Bio :: string
  acct_Email :: string
  acct_Phone :: string
  acct_Roles :: "Role list"
  acct_Status :: AccountStatus
  acct_BotTokenHash :: string
  acct_CreatedBy :: string
  acct_CreatedAt :: time
  acct_UpdatedAt :: time
  acct_DisabledAt :: time
  acct_LastAuthAt :: time
  acct_CustomBadgeEmoji :: string

record device =
  dev_ID :: string
  dev_AccountID :: string
  dev_SessionID :: string
  dev_Name :: string
  dev_Platform :: DevicePlatform
  dev_Status :: DeviceStatus
  dev_PublicKey :: string
  dev_PushToken :: string
  dev_CreatedAt :: time
  dev_LastSeenAt :: time
  dev_RevokedAt :: time
  dev_LastRotatedAt :: time

record session =
  sess_ID :: string
  sess_AccountID :: string
  sess_DeviceID :: string
  sess_DeviceName :: string
  sess_DevicePlatform :: DevicePlatform
  sess_IPAddress :: string
  sess_UserAgent :: string
  sess_Status :: SessionStatus
  sess_Current :: bool
  sess_CreatedAt :: time
  sess_LastSeenAt :: time
  sess_RevokedAt :: time

text \<open>The reads of \<open>identity.Store\<close> that other domains perform.\<close>

record identity_reads =
  id_AccountByID :: "string \<Rightarrow> error + account"
  id_SessionsByAccountID :: "string \<Rightarrow> error + session list"
  id_DevicesByAccountID :: "string \<Rightarrow> error + device list"

end
