(* ===== verification/Presence.thy ===== *)
theory Presence
  imports IdentityModels GoWorld GoIndex
begin

section \<open>Presence (\<open>internal/domain/presence\<close>)\<close>

text \<open>
  The explicit presence record of an account, its normalisation, the in-memory store, and the
  service that merges the record with the last-seen times of the identity domain. The store is
  a table of methods over a hidden state; \<open>presence_store\<close> is what the service relies on, and
  the in-memory store provides it. \<open>quote\<close> is the \<open>%q\<close> verb of \<open>fmt.Errorf\<close>: it only shapes
  the text of one error.
\<close>

subsection \<open>Data (\<open>state.go\<close>)\<close>

abbreviation PresenceErrInvalidInput :: error where
  "PresenceErrInvalidInput \<equiv> Sentinel Presence InvalidInput"

abbreviation PresenceErrNotFound :: error where
  "PresenceErrNotFound \<equiv> Sentinel Presence NotFound"

type_synonym PresenceState = string

abbreviation PresenceStateUnspecified :: PresenceState where
  "PresenceStateUnspecified \<equiv> []"

abbreviation PresenceStateOffline :: PresenceState where
  "PresenceStateOffline \<equiv> ''offline''"

abbreviation PresenceStateOnline :: PresenceState where
  "PresenceStateOnline \<equiv> ''online''"

abbreviation PresenceStateAway :: PresenceState where
  "PresenceStateAway \<equiv> ''away''"

abbreviation PresenceStateBusy :: PresenceState where
  "PresenceStateBusy \<equiv> ''busy''"

abbreviation PresenceStateInvisible :: PresenceState where
  "PresenceStateInvisible \<equiv> ''invisible''"

record presence =
  prs_AccountID :: string
  prs_State :: PresenceState
  prs_CustomStatus :: string
  prs_HiddenUntil :: time
  prs_UpdatedAt :: time

record presence_snapshot =
  snap_AccountID :: string
  snap_State :: PresenceState
  snap_CustomStatus :: string
  snap_LastSeenAt :: time
  snap_LastSeenHidden :: bool
  snap_UpdatedAt :: time

record set_presence_params =
  spp_AccountID :: string
  spp_State :: PresenceState
  spp_CustomStatus :: string
  spp_HideLastSeenFor :: duration
  spp_RecordedAt :: time

record get_presence_params =
  gpp_AccountID :: string
  gpp_ViewerAccountID :: string

text \<open>The zero value of the Go struct.\<close>

definition zero_presence :: presence where
  "zero_presence = \<lparr>prs_AccountID = [], prs_State = [], prs_CustomStatus = [],
     prs_HiddenUntil = zero_time, prs_UpdatedAt = zero_time\<rparr>"

definition presence_states :: "PresenceState list" where
  "presence_states = [PresenceStateUnspecified, PresenceStateOffline, PresenceStateOnline,
     PresenceStateAway, PresenceStateBusy, PresenceStateInvisible]"

definition normalizePresenceState ::
    "(string \<Rightarrow> string) \<Rightarrow> PresenceState \<Rightarrow> error + PresenceState" where
  "normalizePresenceState quote value0 =
     (let value = to_lower (trim_space value0) in
      if value \<in> set presence_states then Inr value
      else Inl (Wrapped (''presence state '' @ quote value) PresenceErrInvalidInput))"

definition normalizePresence :: "(string \<Rightarrow> string) \<Rightarrow> presence \<Rightarrow> error + presence" where
  "normalizePresence quote p =
     (case normalizePresenceState quote (prs_State p) of
        Inl e \<Rightarrow> Inl e
      | Inr st \<Rightarrow>
          let accountID = trim_space (prs_AccountID p) in
          if accountID = [] then Inl PresenceErrInvalidInput
          else if prs_UpdatedAt p = zero_time then Inl PresenceErrInvalidInput
          else Inr \<lparr>prs_AccountID = accountID,
            prs_State = (if st = PresenceStateUnspecified then PresenceStateOffline else st),
            prs_CustomStatus = trim_space (prs_CustomStatus p),
            prs_HiddenUntil = (if prs_HiddenUntil p < zero_time then zero_time else prs_HiddenUntil p),
            prs_UpdatedAt = prs_UpdatedAt p\<rparr>)"

definition TrimID :: "string \<Rightarrow> string" where
  "TrimID value = trim_space value"

definition NormalizeIDs :: "string list \<Rightarrow> string list" where
  "NormalizeIDs values = keep_first [] (List.filter (\<lambda>v. v \<noteq> []) (List.map TrimID values))"

text \<open>A presence record the store keeps: named, dated, and in one of the five named states.\<close>

definition presence_settled :: "presence \<Rightarrow> bool" where
  "presence_settled p \<longleftrightarrow> prs_AccountID p \<noteq> [] \<and> trim_space (prs_AccountID p) = prs_AccountID p \<and>
     prs_State p \<in> set (tl presence_states) \<and> prs_UpdatedAt p \<noteq> zero_time \<and>
     trim_space (prs_CustomStatus p) = prs_CustomStatus p \<and> 0 \<le> prs_HiddenUntil p"

lemma normalizePresence_settled:
  "normalizePresence quote p = Inr q \<Longrightarrow> presence_settled q"
  by (auto simp: normalizePresence_def normalizePresenceState_def presence_settled_def
      presence_states_def Let_def split: sum.splits if_splits)

lemma normalizePresence_fixed: "presence_settled p \<Longrightarrow> normalizePresence quote p = Inr p"
  by (auto simp: normalizePresence_def normalizePresenceState_def presence_settled_def
      presence_states_def lower_text_def visible_def)

lemma NormalizeIDs_spec:
  "distinct (NormalizeIDs ids)" "set (NormalizeIDs ids) = trim_space ` set ids - {[]}"
  by (auto simp: NormalizeIDs_def set_keep_first distinct_keep_first TrimID_def)

subsection \<open>The store interface and its contract (\<open>store.go\<close>)\<close>

record 's presence_store_ops =
  ps_SavePresence :: "presence \<Rightarrow> ('s, presence) io"
  ps_PresenceByAccountID :: "string \<Rightarrow> ('s, presence) io"
  ps_PresencesByAccountIDs :: "string list \<Rightarrow> ('s, (string, presence) gomap) io"

text \<open>What a lookup of a trimmed, non-empty account answers.\<close>

definition presence_or :: "presence option \<Rightarrow> error + presence" where
  "presence_or x = (case x of None \<Rightarrow> Inl PresenceErrNotFound | Some p \<Rightarrow> Inr p)"

locale presence_store =
  fixes S :: "'s presence_store_ops"
    and at :: "'s \<Rightarrow> string \<Rightarrow> presence option"
    and quote :: "string \<Rightarrow> string"
  assumes lookup_op: "ps_PresenceByAccountID S i s =
      (if trim_space i = [] then Inl PresenceErrInvalidInput
       else presence_or (at s (trim_space i)), s)"
    and save_ok: "ps_SavePresence S p s = (Inr q, s') \<Longrightarrow>
      normalizePresence quote p = Inr q \<and> at s' = (at s)(prs_AccountID q \<mapsto> q)"
    and save_fails: "ps_SavePresence S p s = (Inl e, s') \<Longrightarrow>
      s' = s \<and> normalizePresence quote p = Inl e"
    and list_pure: "snd (ps_PresencesByAccountIDs S ids s) = s"
begin

lemma lookup_after_save:
  assumes "ps_SavePresence S p s = (Inr q, s')"
  shows "ps_PresenceByAccountID S (prs_AccountID q) s' = (Inr q, s')"
    and "\<And>i. trim_space i \<noteq> prs_AccountID q \<Longrightarrow>
      fst (ps_PresenceByAccountID S i s') = fst (ps_PresenceByAccountID S i s)"
  using save_ok [OF assms] normalizePresence_settled [of quote p q]
  by (auto simp: lookup_op presence_or_def presence_settled_def)

end

subsection \<open>The in-memory store (\<open>teststore/store.go\<close>)\<close>

text \<open>
  One Go map behind a mutex. A transaction works on a clone of the map and replaces the map
  at the end, which is the combinator \<open>within_tx\<close>; the methods of the transaction's store are
  those of the store.
\<close>

type_synonym presence_mem = "(string, presence) gomap"

definition prm_SavePresence ::
    "(string \<Rightarrow> string) \<Rightarrow> presence \<Rightarrow> (presence_mem, presence) io" where
  "prm_SavePresence quote next0 = (\<lambda>s.
     case normalizePresence quote next0 of
       Inl e \<Rightarrow> (Inl e, s)
     | Inr p \<Rightarrow> (Inr p, put (prs_AccountID p) p s))"

definition prm_PresenceByAccountID :: "string \<Rightarrow> (presence_mem, presence) io" where
  "prm_PresenceByAccountID accountID0 = (\<lambda>s.
     let accountID = trim_space accountID0 in
     if accountID = [] then (Inl PresenceErrInvalidInput, s)
     else (case lookup s accountID of
         None \<Rightarrow> (Inl PresenceErrNotFound, s)
       | Some p \<Rightarrow> (Inr p, s)))"

definition prm_PresencesByAccountIDs ::
    "string list \<Rightarrow> (presence_mem, (string, presence) gomap) io" where
  "prm_PresencesByAccountIDs accountIDs = (\<lambda>s.
     (Inr (fold (\<lambda>i result. case lookup s i of None \<Rightarrow> result | Some p \<Rightarrow> put i p result)
        (NormalizeIDs accountIDs) []), s))"

definition presence_memory :: "(string \<Rightarrow> string) \<Rightarrow> presence_mem presence_store_ops" where
  "presence_memory quote = \<lparr>
     ps_SavePresence = prm_SavePresence quote,
     ps_PresenceByAccountID = prm_PresenceByAccountID,
     ps_PresencesByAccountIDs = prm_PresencesByAccountIDs\<rparr>"

interpretation prm: presence_store "presence_memory quote" "lookup" quote for quote
  by unfold_locales
    (auto simp: presence_memory_def prm_PresenceByAccountID_def prm_SavePresence_def
      prm_PresencesByAccountIDs_def presence_or_def Let_def split: option.splits sum.splits)

end
