(* ===== verification/PresenceService.thy ===== *)
theory PresenceService
  imports Presence
begin

section \<open>The presence service (\<open>service.go\<close>, \<open>resolve.go\<close>, \<open>settings.go\<close>)\<close>

text \<open>
  The service resolves what a viewer may see of an account: the explicit record, hidden or
  rewritten where the account asks for it, and the last-seen time derived from the identity
  domain. \<open>psv_now\<close> is the clock reading of the operation at hand.
\<close>

abbreviation minute :: duration where
  "minute \<equiv> 60 * second"

record 's presence_service =
  psv_store :: "'s presence_store_ops"
  psv_identity :: identity_reads
  psv_now :: time
  psv_OnlineWindow :: duration

definition DefaultOnlineWindow :: duration where
  "DefaultOnlineWindow = 5 * minute"

definition normalize_presence_settings :: "duration \<Rightarrow> duration" where
  "normalize_presence_settings window = (if window \<le> 0 then DefaultOnlineWindow else window)"

definition NewPresenceService ::
    "time \<Rightarrow> 's presence_store_ops option \<Rightarrow> identity_reads option \<Rightarrow>
     ('s presence_service \<Rightarrow> 's presence_service) option list \<Rightarrow> error + 's presence_service" where
  "NewPresenceService system_time store identityStore opts =
     (case (store, identityStore) of
        (Some st, Some ids) \<Rightarrow>
          let sv = fold (\<lambda>opt sv. case opt of None \<Rightarrow> sv | Some f \<Rightarrow> f sv) opts
            \<lparr>psv_store = st, psv_identity = ids, psv_now = system_time,
             psv_OnlineWindow = DefaultOnlineWindow\<rparr>
          in Inr (sv\<lparr>psv_OnlineWindow := normalize_presence_settings (psv_OnlineWindow sv)\<rparr>)
      | _ \<Rightarrow> Inl PresenceErrInvalidInput)"

definition presence_WithNow ::
    "time option \<Rightarrow> 's presence_service \<Rightarrow> 's presence_service" where
  "presence_WithNow clock sv = (case clock of None \<Rightarrow> sv | Some now \<Rightarrow> sv\<lparr>psv_now := now\<rparr>)"

definition presence_WithSettings :: "duration \<Rightarrow> 's presence_service \<Rightarrow> 's presence_service" where
  "presence_WithSettings window sv = sv\<lparr>psv_OnlineWindow := normalize_presence_settings window\<rparr>"

subsection \<open>Reading the identity domain\<close>

definition presence_activeAccount :: "'s presence_service \<Rightarrow> string \<Rightarrow> error + account" where
  "presence_activeAccount sv accountID =
     (case id_AccountByID (psv_identity sv) accountID of
        Inl e \<Rightarrow> if error_is e IdentityErrNotFound then Inl PresenceErrNotFound
          else Inl (Wrapped (''load account '' @ accountID) e)
      | Inr a \<Rightarrow> if acct_Status a \<noteq> AccountStatusActive then Inl PresenceErrNotFound else Inr a)"

text \<open>The loop over sessions or devices: the latest time among the active ones.\<close>

fun latest_seen :: "('a \<Rightarrow> bool) \<Rightarrow> ('a \<Rightarrow> time) \<Rightarrow> 'a list \<Rightarrow> time \<Rightarrow> time" where
  "latest_seen active seen [] t = t"
| "latest_seen active seen (x # xs) t =
     (if \<not> active x then latest_seen active seen xs t
      else if t < seen x then latest_seen active seen xs (seen x)
      else latest_seen active seen xs t)"

lemma latest_seen_Max:
  "latest_seen active seen xs t = Max (insert t (seen ` {x \<in> set xs. active x}))"
proof (induction xs arbitrary: t)
  case (Cons x xs)
  let ?S = "seen ` {x \<in> set xs. active x}"
  have conv: "{y \<in> set (x # xs). active y} =
      (if active x then insert x {y \<in> set xs. active y} else {y \<in> set xs. active y})" by auto
  have max2: "Max (insert t (insert u A)) = Max (insert (max t u) A)" if "finite A" for u A
    using that by (cases "A = {}") (simp_all add: max.assoc)
  have step: "Max (insert t (insert (seen x) ?S)) = Max (insert (max t (seen x)) ?S)"
    by (rule max2) simp
  show ?case
    unfolding conv by (simp add: Cons.IH step max_def del: Max_insert set_simps)
qed simp

definition lastSeenAt :: "'s presence_service \<Rightarrow> account \<Rightarrow> error + time" where
  "lastSeenAt sv a =
     (case id_SessionsByAccountID (psv_identity sv) (acct_ID a) of
        Inl e \<Rightarrow> Inl e
      | Inr sessions \<Rightarrow>
          let t1 = latest_seen (\<lambda>s. sess_Status s = SessionStatusActive) sess_LastSeenAt sessions
            (acct_LastAuthAt a)
          in (case id_DevicesByAccountID (psv_identity sv) (acct_ID a) of
                Inl e \<Rightarrow> Inl e
              | Inr devices \<Rightarrow>
                  Inr (latest_seen (\<lambda>d. dev_Status d = DeviceStatusActive) dev_LastSeenAt devices t1)))"

subsection \<open>What a viewer sees\<close>

definition shown_state :: "presence \<Rightarrow> string \<Rightarrow> bool \<Rightarrow> PresenceState" where
  "shown_state record viewer online =
     (if prs_State record = PresenceStateInvisible
      then (if viewer \<noteq> prs_AccountID record then PresenceStateOffline else PresenceStateInvisible)
      else if prs_State record \<in> {PresenceStateOffline, PresenceStateOnline, PresenceStateAway,
        PresenceStateBusy} then prs_State record
      else if trim_space (prs_AccountID record) \<noteq> [] then PresenceStateOffline
      else if online then PresenceStateOnline else PresenceStateOffline)"

definition snapshot :: "'s presence_service \<Rightarrow> string \<Rightarrow> presence \<Rightarrow> time \<Rightarrow> presence_snapshot" where
  "snapshot sv viewer record lastSeen =
     (let now = psv_now sv;
        online = (lastSeen \<noteq> zero_time \<and> time_sub now lastSeen \<le> psv_OnlineWindow sv);
        state = shown_state record viewer online;
        hidden = (viewer \<noteq> prs_AccountID record \<and> prs_HiddenUntil record \<noteq> zero_time \<and>
             now < prs_HiddenUntil record \<or>
           viewer \<noteq> prs_AccountID record \<and> state = PresenceStateInvisible)
      in \<lparr>snap_AccountID = prs_AccountID record, snap_State = state,
          snap_CustomStatus = prs_CustomStatus record,
          snap_LastSeenAt = (if hidden then zero_time else lastSeen),
          snap_LastSeenHidden = hidden, snap_UpdatedAt = prs_UpdatedAt record\<rparr>)"

subsection \<open>The operations\<close>

definition presence_validateContext :: "go_context \<Rightarrow> string \<Rightarrow> ('s, unit) io" where
  "presence_validateContext ctx operation =
     of_result (validate_context_with PresenceErrInvalidInput ctx operation)"

lemma presence_validateContext_Inr [io_inv]:
  "presence_validateContext ctx operation w = (Inr u, w') \<longleftrightarrow> ctx = LiveContext \<and> w' = w"
  by (cases ctx) (auto simp: presence_validateContext_def)

text \<open>The record of an account, or the zero record when there is none.\<close>

definition presence_or_zero :: "'s presence_service \<Rightarrow> string \<Rightarrow> ('s, presence) io" where
  "presence_or_zero sv accountID =
     andThen (attempt (ps_PresenceByAccountID (psv_store sv) accountID)) (\<lambda>r.
     case r of
       Inr p \<Rightarrow> ret p
     | Inl e \<Rightarrow> if error_is e PresenceErrNotFound then ret zero_presence
         else raise (Wrapped (''load presence for account '' @ accountID) e))"

text \<open>The record that an update with the normalised state \<open>st0\<close> stores.\<close>

definition next_presence ::
    "presence \<Rightarrow> string \<Rightarrow> set_presence_params \<Rightarrow> time \<Rightarrow> PresenceState \<Rightarrow> presence" where
  "next_presence existing accountID params recordedAt st0 =
     (let st1 = (if st0 = PresenceStateUnspecified \<and> prs_State existing \<noteq> PresenceStateUnspecified
         then prs_State existing else st0)
      in existing\<lparr>
          prs_AccountID := accountID,
          prs_State := (if st1 = PresenceStateUnspecified then PresenceStateOffline else st1),
          prs_CustomStatus := trim_space (spp_CustomStatus params),
          prs_HiddenUntil := (if 0 < spp_HideLastSeenFor params
            then recordedAt + spp_HideLastSeenFor params else zero_time),
          prs_UpdatedAt := recordedAt\<rparr>)"

definition SetPresence :: "(string \<Rightarrow> string) \<Rightarrow> 's presence_service \<Rightarrow> go_context \<Rightarrow>
    set_presence_params \<Rightarrow> ('s, presence) io" where
  "SetPresence quote sv ctx params =
     andThen (presence_validateContext ctx ''set presence'') (\<lambda>_.
     let accountID = trim_space (spp_AccountID params) in
     andThen (reject_if (accountID = []) PresenceErrInvalidInput) (\<lambda>_.
     andThen (reject_if (spp_HideLastSeenFor params < 0) PresenceErrInvalidInput) (\<lambda>_.
     andThen (of_result (presence_activeAccount sv accountID)) (\<lambda>_.
     andThen (presence_or_zero sv accountID) (\<lambda>existing.
     let recordedAt = or_time (spp_RecordedAt params) (psv_now sv) in
     andThen (of_result (normalizePresenceState quote (spp_State params))) (\<lambda>st.
     wrapping (''save presence for account '' @ accountID)
       (ps_SavePresence (psv_store sv) (next_presence existing accountID params recordedAt st))))))))"

definition GetPresence ::
    "'s presence_service \<Rightarrow> go_context \<Rightarrow> get_presence_params \<Rightarrow> ('s, presence_snapshot) io" where
  "GetPresence sv ctx params =
     andThen (presence_validateContext ctx ''get presence'') (\<lambda>_.
     let accountID = trim_space (gpp_AccountID params);
       viewer = trim_space (gpp_ViewerAccountID params) in
     andThen (reject_if (accountID = []) PresenceErrInvalidInput) (\<lambda>_.
     andThen (of_result (presence_activeAccount sv accountID)) (\<lambda>a.
     andThen (presence_or_zero sv accountID) (\<lambda>record.
     andThen (of_result (lastSeenAt sv a)) (\<lambda>lastSeen.
     ret ((snapshot sv viewer record lastSeen)\<lparr>snap_AccountID := accountID\<rparr>))))))"

fun list_snapshots :: "'s presence_service \<Rightarrow> go_context \<Rightarrow> string \<Rightarrow> string list \<Rightarrow>
    (string, presence_snapshot) gomap \<Rightarrow> ('s, (string, presence_snapshot) gomap) io" where
  "list_snapshots sv ctx viewer [] snapshots = ret snapshots"
| "list_snapshots sv ctx viewer (i # ids) snapshots =
     andThen (attempt (GetPresence sv ctx \<lparr>gpp_AccountID = i, gpp_ViewerAccountID = viewer\<rparr>)) (\<lambda>r.
     case r of
       Inr snap \<Rightarrow> list_snapshots sv ctx viewer ids (put i snap snapshots)
     | Inl e \<Rightarrow> if error_is e PresenceErrNotFound then list_snapshots sv ctx viewer ids snapshots
         else raise (Wrapped (''resolve presence for account '' @ i) e))"

definition ListPresence :: "'s presence_service \<Rightarrow> go_context \<Rightarrow> string list \<Rightarrow> string \<Rightarrow>
    ('s, (string, presence_snapshot) gomap) io" where
  "ListPresence sv ctx accountIDs viewer =
     andThen (presence_validateContext ctx ''list presence'') (\<lambda>_.
     let ids = NormalizeIDs accountIDs in
     if ids = [] then ret [] else list_snapshots sv ctx viewer ids [])"

subsection \<open>Over any store that keeps its contract\<close>

context presence_store
begin

lemma presence_or_zero_at:
  assumes "psv_store sv = S" "trim_space i = i" "i \<noteq> []"
  shows "presence_or_zero sv i s = (Inr (case at s i of None \<Rightarrow> zero_presence | Some p \<Rightarrow> p), s)"
  using assms
  by (auto simp: presence_or_zero_def lookup_op presence_or_def io_simps split: option.splits)

end

end
