(* ===== verification/PresenceProps.thy ===== *)
theory PresenceProps
  imports PresenceService
begin

section \<open>What presence promises and what it discloses\<close>

text \<open>
  The resolution of a snapshot as a closed specification, the effect of setting a presence as
  other viewers see it, and the list operation as the collection of the single ones. The state
  of the store is sound when it holds settled records under their account; every operation
  keeps that.
\<close>

subsection \<open>Sound stores\<close>

abbreviation presence_ok :: "presence_mem \<Rightarrow> bool" where
  "presence_ok \<equiv> keyed_by prs_AccountID presence_settled"

lemma prm_SavePresence_ok:
  assumes "presence_ok s" "prm_SavePresence quote p s = (r, s')"
  shows "presence_ok s'"
  using assms
  by (cases "normalizePresence quote p")
    (auto simp: prm_SavePresence_def intro!: keyed_by_put normalizePresence_settled [OF sym])

lemma presence_or_zero_memory:
  assumes "psv_store sv = presence_memory quote" and "trim_space i = i" "i \<noteq> []"
  shows "presence_or_zero sv i s =
    (Inr (case lookup s i of None \<Rightarrow> zero_presence | Some p \<Rightarrow> p), s)"
  by (rule prm.presence_or_zero_at [OF assms])

lemma normal_state_fixed:
  "normalizePresenceState quote x = Inr st \<Longrightarrow> to_lower (trim_space st) = st"
  by (auto simp: normalizePresenceState_def presence_states_def Let_def lower_text_def
      visible_def split: if_splits)

lemma SetPresence_run:
  assumes store: "psv_store sv = presence_memory quote"
    and run: "SetPresence quote sv ctx params s = (Inr p, s')"
  obtains st where "trim_space (spp_AccountID params) \<noteq> []"
    and "normalizePresenceState quote (spp_State params) = Inr st"
    and "normalizePresence quote (next_presence
        (case lookup s (trim_space (spp_AccountID params)) of None \<Rightarrow> zero_presence | Some q \<Rightarrow> q)
        (trim_space (spp_AccountID params)) params
        (or_time (spp_RecordedAt params) (psv_now sv)) st) = Inr p"
    and "s' = put (prs_AccountID p) p s"
proof -
  let ?i = "trim_space (spp_AccountID params)"
  from run have i: "?i \<noteq> []"
    by (auto simp: SetPresence_def andThen_reject_Inr andThen_Inr Let_def)
  note zero = presence_or_zero_memory [OF store _ i, of s, simplified]
  from run i obtain st where "normalizePresenceState quote (spp_State params) = Inr st"
    and "prm_SavePresence quote (next_presence
        (case lookup s ?i of None \<Rightarrow> zero_presence | Some q \<Rightarrow> q) ?i params
        (or_time (spp_RecordedAt params) (psv_now sv)) st) s = (Inr p, s')"
    by (auto simp: SetPresence_def andThen_reject_Inr andThen_Inr wrapping_Inr Let_def zero store
        presence_memory_def presence_validateContext_Inr split: if_splits)
  with i show thesis
    by (intro that) (auto simp: prm_SavePresence_def split: sum.splits)
qed

lemma normalizePresence_fields:
  "normalizePresence quote p = Inr q \<Longrightarrow>
     prs_AccountID q = trim_space (prs_AccountID p) \<and>
     prs_CustomStatus q = trim_space (prs_CustomStatus p) \<and>
     prs_HiddenUntil q = max 0 (prs_HiddenUntil p) \<and> prs_UpdatedAt q = prs_UpdatedAt p \<and>
     (prs_State p \<noteq> [] \<longrightarrow> to_lower (trim_space (prs_State p)) = prs_State p \<longrightarrow>
        prs_State q = prs_State p)"
  by (auto simp: normalizePresence_def normalizePresenceState_def Let_def split: if_splits)

subsection \<open>The resolution of a snapshot\<close>

text \<open>The instants at which an account was active, as the identity domain answers them.\<close>

definition seen_times :: "account \<Rightarrow> session list \<Rightarrow> device list \<Rightarrow> time set" where
  "seen_times a sessions devices = insert (acct_LastAuthAt a)
     (sess_LastSeenAt ` {x \<in> set sessions. sess_Status x = SessionStatusActive} \<union>
      dev_LastSeenAt ` {x \<in> set devices. dev_Status x = DeviceStatusActive})"

lemma Max_insert_Max: "finite A \<Longrightarrow> A \<noteq> {} \<Longrightarrow> finite B \<Longrightarrow> Max (insert (Max A) B) = Max (A \<union> B)"
  by (cases "B = {}") (simp_all add: Max_Un)

lemma lastSeenAt_Max:
  assumes "lastSeenAt sv a = Inr t"
  shows "\<exists>sessions devices. id_SessionsByAccountID (psv_identity sv) (acct_ID a) = Inr sessions \<and>
    id_DevicesByAccountID (psv_identity sv) (acct_ID a) = Inr devices \<and>
    t = Max (seen_times a sessions devices)"
  using assms unfolding lastSeenAt_def Let_def io_inv
  by (auto simp: latest_seen_Max seen_times_def Max_insert_Max simp del: Max_insert split: sum.splits)

definition recently_seen :: "'s presence_service \<Rightarrow> time \<Rightarrow> bool" where
  "recently_seen sv t \<longleftrightarrow> t \<noteq> 0 \<and> time_sub (psv_now sv) t \<le> psv_OnlineWindow sv"

lemma GetPresence_run:
  assumes store: "psv_store sv = presence_memory quote"
    and run: "GetPresence sv ctx params s = (Inr snap, s')"
  obtains a t where "s' = s" "ctx = LiveContext" "trim_space (gpp_AccountID params) \<noteq> []"
    and "presence_activeAccount sv (trim_space (gpp_AccountID params)) = Inr a"
    and "lastSeenAt sv a = Inr t"
    and "snap = (snapshot sv (trim_space (gpp_ViewerAccountID params))
        (case lookup s (trim_space (gpp_AccountID params)) of None \<Rightarrow> zero_presence | Some p \<Rightarrow> p) t)
      \<lparr>snap_AccountID := trim_space (gpp_AccountID params)\<rparr>"
proof -
  let ?i = "trim_space (gpp_AccountID params)"
  from run have i: "?i \<noteq> []"
    by (auto simp: GetPresence_def andThen_Inr Let_def split: if_splits)
  note zero = presence_or_zero_memory [OF store _ i, of s, simplified]
  from run i zero obtain a t where "s' = s" "ctx = LiveContext"
    "presence_activeAccount sv ?i = Inr a" "lastSeenAt sv a = Inr t"
    "snap = (snapshot sv (trim_space (gpp_ViewerAccountID params))
        (case lookup s ?i of None \<Rightarrow> zero_presence | Some p \<Rightarrow> p) t)\<lparr>snap_AccountID := ?i\<rparr>"
    by (auto simp: GetPresence_def andThen_Inr Let_def presence_validateContext_Inr split: if_splits)
  with i show thesis by (intro that)
qed

lemma active_accountD:
  "presence_activeAccount sv i = Inr a \<Longrightarrow>
   id_AccountByID (psv_identity sv) i = Inr a \<and> acct_Status a = AccountStatusActive"
  by (auto simp: presence_activeAccount_def split: sum.splits if_splits)

lemma settled_states: "presence_settled p \<Longrightarrow> prs_State p \<in> {PresenceStateOffline,
    PresenceStateOnline, PresenceStateAway, PresenceStateBusy, PresenceStateInvisible}"
  by (auto simp: presence_settled_def presence_states_def)

text \<open>The snapshot of a stored record, and of an account without one.\<close>

lemma snapshot_record:
  assumes "presence_settled p"
  shows "snap_State (snapshot sv v p t) = (if v \<noteq> prs_AccountID p \<and>
      prs_State p = PresenceStateInvisible then PresenceStateOffline else prs_State p)"
    and "snap_CustomStatus (snapshot sv v p t) = prs_CustomStatus p"
    and "snap_LastSeenHidden (snapshot sv v p t) \<longleftrightarrow> v \<noteq> prs_AccountID p \<and>
      psv_now sv < prs_HiddenUntil p \<and> prs_HiddenUntil p \<noteq> 0"
    and "snap_LastSeenAt (snapshot sv v p t) = (if snap_LastSeenHidden (snapshot sv v p t) then 0 else t)"
  using settled_states [OF assms] by (auto simp: snapshot_def shown_state_def Let_def)

lemma snapshot_no_record:
  "snap_State (snapshot sv v zero_presence t) =
     (if recently_seen sv t then PresenceStateOnline else PresenceStateOffline)"
  "\<not> snap_LastSeenHidden (snapshot sv v zero_presence t)"
  "snap_LastSeenAt (snapshot sv v zero_presence t) = t"
  by (simp_all add: snapshot_def shown_state_def zero_presence_def recently_seen_def Let_def)

text \<open>C18: A resolved presence does not change the store, belongs to an active account, and is
  determined by the stored record, the viewer and the identity domain. Without a record the
  account is online exactly when it was seen within the online window, and its last-seen time
  is shown. With a record the state is the recorded one, except that others see an invisible
  account as offline; the last-seen time is withheld exactly from others and exactly while the
  record hides it. The last-seen time is the latest of the last authentication and the active
  sessions and devices.\<close>

theorem presence_resolution:
  assumes "psv_store sv = presence_memory quote" and "presence_ok s"
    and "GetPresence sv ctx params s = (Inr snap, s')"
  shows "s' = s \<and> snap_AccountID snap = trim_space (gpp_AccountID params) \<and>
    (\<exists>a sessions devices.
       id_AccountByID (psv_identity sv) (snap_AccountID snap) = Inr a \<and>
       acct_Status a = AccountStatusActive \<and>
       id_SessionsByAccountID (psv_identity sv) (acct_ID a) = Inr sessions \<and>
       id_DevicesByAccountID (psv_identity sv) (acct_ID a) = Inr devices \<and>
       (let seen = Max (seen_times a sessions devices);
            others = (trim_space (gpp_ViewerAccountID params) \<noteq> snap_AccountID snap) in
        case lookup s (snap_AccountID snap) of
          None \<Rightarrow> snap_State snap =
              (if recently_seen sv seen then PresenceStateOnline else PresenceStateOffline) \<and>
            snap_LastSeenAt snap = seen \<and> \<not> snap_LastSeenHidden snap
        | Some p \<Rightarrow> snap_State snap =
              (if others \<and> prs_State p = PresenceStateInvisible then PresenceStateOffline
               else prs_State p) \<and>
            snap_CustomStatus snap = prs_CustomStatus p \<and>
            snap_LastSeenHidden snap = (others \<and> psv_now sv < prs_HiddenUntil p \<and>
              prs_HiddenUntil p \<noteq> 0) \<and>
            snap_LastSeenAt snap = (if snap_LastSeenHidden snap then 0 else seen)))"
proof -
  from assms(1,3) obtain a t where run: "s' = s"
    "presence_activeAccount sv (trim_space (gpp_AccountID params)) = Inr a" "lastSeenAt sv a = Inr t"
    "snap = (snapshot sv (trim_space (gpp_ViewerAccountID params))
        (case lookup s (trim_space (gpp_AccountID params)) of None \<Rightarrow> zero_presence | Some p \<Rightarrow> p) t)
      \<lparr>snap_AccountID := trim_space (gpp_AccountID params)\<rparr>"
    by (rule GetPresence_run)
  let ?i = "trim_space (gpp_AccountID params)"
  have i: "snap_AccountID snap = ?i" by (simp add: run(4))
  from lastSeenAt_Max [OF run(3)] obtain sessions devices where
    ids: "id_SessionsByAccountID (psv_identity sv) (acct_ID a) = Inr sessions"
    "id_DevicesByAccountID (psv_identity sv) (acct_ID a) = Inr devices"
    "t = Max (seen_times a sessions devices)" by blast
  have rec: "prs_AccountID p = ?i" "presence_settled p" if "lookup s ?i = Some p" for p
    using keyed_byD [OF assms(2) that] by auto
  show ?thesis
    using run(1) i ids active_accountD [OF run(2)] rec
    by (auto simp: run(4) Let_def snapshot_record snapshot_no_record split: option.split)
qed

subsection \<open>Sample accounts\<close>

definition sample_account :: account where
  "sample_account = \<lparr>acct_ID = ''u1'', acct_Kind = AccountKindUser, acct_Username = ''ann'',
     acct_DisplayName = ''Ann'', acct_Bio = [], acct_Email = [], acct_Phone = [], acct_Roles = [],
     acct_Status = AccountStatusActive, acct_BotTokenHash = [], acct_CreatedBy = [],
     acct_CreatedAt = 1, acct_UpdatedAt = 1, acct_DisabledAt = 0, acct_LastAuthAt = 90,
     acct_CustomBadgeEmoji = []\<rparr>"

definition sample_identity :: identity_reads where
  "sample_identity = \<lparr>
     id_AccountByID = (\<lambda>i. if i = ''u1'' then Inr sample_account
       else if i = ''u2'' then Inr (sample_account\<lparr>acct_ID := ''u2''\<rparr>)
       else Inl IdentityErrNotFound),
     id_SessionsByAccountID = (\<lambda>i. Inr []),
     id_DevicesByAccountID = (\<lambda>i. Inr [])\<rparr>"

definition sample_presence_service :: "presence_mem presence_service" where
  "sample_presence_service = \<lparr>psv_store = presence_memory id, psv_identity = sample_identity,
     psv_now = 100, psv_OnlineWindow = DefaultOnlineWindow\<rparr>"

lemmas presence_eval = GetPresence_def SetPresence_def andThen_run presence_validateContext_def
  presence_activeAccount_def presence_or_zero_def attempt_run wrapping_run
  presence_memory_def prm_PresenceByAccountID_def prm_SavePresence_def
  sample_presence_service_def sample_identity_def sample_account_def visible_def lower_text_def

lemma sample_get:
  assumes "lookup s ''u1'' = None"
  shows "GetPresence sample_presence_service LiveContext
     \<lparr>gpp_AccountID = ''u1'', gpp_ViewerAccountID = ''u2''\<rparr> s =
     (Inr \<lparr>snap_AccountID = ''u1'', snap_State = PresenceStateOnline, snap_CustomStatus = [],
        snap_LastSeenAt = 90, snap_LastSeenHidden = False, snap_UpdatedAt = 0\<rparr>, s)"
  using assms by (simp add: presence_eval lastSeenAt_def snapshot_def shown_state_def
      zero_presence_def time_sub_def DefaultOnlineWindow_def Let_def)

theorem presence_resolution_witness:
  "GetPresence sample_presence_service LiveContext
     \<lparr>gpp_AccountID = ''u1'', gpp_ViewerAccountID = ''u2''\<rparr> [] =
   (Inr \<lparr>snap_AccountID = ''u1'', snap_State = PresenceStateOnline, snap_CustomStatus = [],
        snap_LastSeenAt = 90, snap_LastSeenHidden = False, snap_UpdatedAt = 0\<rparr>, [])
   \<and> (\<exists>a. id_AccountByID sample_identity ''u1'' = Inr a \<and> acct_Status a = AccountStatusActive)"
proof -
  have store: "psv_store sample_presence_service = presence_memory id"
    "psv_identity sample_presence_service = sample_identity"
    by (simp_all add: sample_presence_service_def)
  have run: "GetPresence sample_presence_service LiveContext
     \<lparr>gpp_AccountID = ''u1'', gpp_ViewerAccountID = ''u2''\<rparr> [] =
   (Inr \<lparr>snap_AccountID = ''u1'', snap_State = PresenceStateOnline, snap_CustomStatus = [],
        snap_LastSeenAt = 90, snap_LastSeenHidden = False, snap_UpdatedAt = 0\<rparr>, [])"
    by (rule sample_get) simp
  from presence_resolution [OF store(1) _ run] run store(2) show ?thesis by auto
qed

subsection \<open>Setting a presence and seeing it\<close>

text \<open>Setting a presence and then resolving it: the account itself sees the state it asked
  for and its last-seen time; another viewer sees the same state, offline instead of invisible,
  and the last-seen time unless the update asked to hide it for longer than has passed.\<close>

theorem set_presence_then_seen:
  assumes "psv_store sv = presence_memory quote" and "psv_store sv' = presence_memory quote"
    and "presence_ok s"
    and "SetPresence quote sv ctx params s = (Inr p, s1)"
    and "GetPresence sv' ctx' \<lparr>gpp_AccountID = spp_AccountID params, gpp_ViewerAccountID = v\<rparr> s1 =
      (Inr snap, s2)"
    and "normalizePresenceState quote (spp_State params) = Inr st" "st \<noteq> PresenceStateUnspecified"
  shows "presence_ok s1 \<and> s2 = s1 \<and> snap_CustomStatus snap = trim_space (spp_CustomStatus params) \<and>
    snap_State snap = (if trim_space v \<noteq> trim_space (spp_AccountID params) \<and>
      st = PresenceStateInvisible then PresenceStateOffline else st) \<and>
    (snap_LastSeenHidden snap \<longleftrightarrow> trim_space v \<noteq> trim_space (spp_AccountID params) \<and>
      0 < spp_HideLastSeenFor params \<and>
      0 < or_time (spp_RecordedAt params) (psv_now sv) + spp_HideLastSeenFor params \<and>
      psv_now sv' < or_time (spp_RecordedAt params) (psv_now sv) + spp_HideLastSeenFor params)"
proof -
  let ?i = "trim_space (spp_AccountID params)"
  let ?ex = "case lookup s ?i of None \<Rightarrow> zero_presence | Some q \<Rightarrow> q"
  let ?t = "or_time (spp_RecordedAt params) (psv_now sv)"
  from SetPresence_run [OF assms(1,4)] assms(6) have norm:
      "normalizePresence quote (next_presence ?ex ?i params ?t st) = Inr p"
    and s1: "s1 = put (prs_AccountID p) p s" by auto
  have p: "prs_AccountID p = ?i" "prs_State p = st"
    "prs_CustomStatus p = trim_space (spp_CustomStatus params)"
    "prs_HiddenUntil p = (if 0 < spp_HideLastSeenFor params
       then max 0 (?t + spp_HideLastSeenFor params) else 0)"
    using normalizePresence_fields [OF norm] normal_state_fixed [OF assms(6)] assms(7)
    by (auto simp: next_presence_def Let_def)
  have ok: "presence_ok s1"
    unfolding s1 using assms(3) normalizePresence_settled [OF norm] by (intro keyed_by_put) auto
  have settled: "presence_settled p" by (rule normalizePresence_settled [OF norm])
  from assms(2,5) obtain a t where "s2 = s1"
    "snap = (snapshot sv' (trim_space v) p t)\<lparr>snap_AccountID := ?i\<rparr>"
    by (rule GetPresence_run) (simp add: s1 p)
  with ok p show ?thesis
    by (auto simp: snapshot_record [OF settled] max_def split: if_splits)
qed

definition invisible_params :: set_presence_params where
  "invisible_params = \<lparr>spp_AccountID = ''u1'', spp_State = PresenceStateInvisible,
     spp_CustomStatus = ''away'', spp_HideLastSeenFor = 0, spp_RecordedAt = 95\<rparr>"

definition invisible_record :: presence where
  "invisible_record = \<lparr>prs_AccountID = ''u1'', prs_State = PresenceStateInvisible,
     prs_CustomStatus = ''away'', prs_HiddenUntil = 0, prs_UpdatedAt = 95\<rparr>"

definition invisible_seen :: presence_snapshot where
  "invisible_seen = \<lparr>snap_AccountID = ''u1'', snap_State = PresenceStateOffline,
     snap_CustomStatus = ''away'', snap_LastSeenAt = 90, snap_LastSeenHidden = False,
     snap_UpdatedAt = 95\<rparr>"

lemma invisible_set:
  "SetPresence id sample_presence_service LiveContext invisible_params [] =
     (Inr invisible_record, [(''u1'', invisible_record)])"
  by (simp add: presence_eval invisible_params_def invisible_record_def next_presence_def
      normalizePresenceState_def normalizePresence_def presence_states_def zero_presence_def put_def
      Let_def)

lemma invisible_get:
  "GetPresence sample_presence_service LiveContext
     \<lparr>gpp_AccountID = ''u1'', gpp_ViewerAccountID = ''u2''\<rparr> [(''u1'', invisible_record)] =
     (Inr invisible_seen, [(''u1'', invisible_record)])"
  by (simp add: presence_eval invisible_record_def invisible_seen_def lastSeenAt_def snapshot_def
      shown_state_def Let_def)

theorem set_presence_then_seen_witness:
  "snap_State invisible_seen = PresenceStateOffline \<and> \<not> snap_LastSeenHidden invisible_seen"
proof -
  have store: "psv_store sample_presence_service = presence_memory id"
    by (simp add: sample_presence_service_def)
  have i: "spp_AccountID invisible_params = ''u1''" by (simp add: invisible_params_def)
  have st: "normalizePresenceState id (spp_State invisible_params) = Inr PresenceStateInvisible"
    by (simp add: invisible_params_def normalizePresenceState_def presence_states_def lower_text_def
        visible_def)
  show ?thesis
    using set_presence_then_seen [OF store store _ invisible_set, of LiveContext "''u2''", unfolded i,
        OF _ invisible_get st]
    by (simp add: invisible_params_def visible_def)
qed

text \<open>C19: An account that sets itself invisible, without also hiding its last-seen time, is shown
  to every other viewer as offline but with its current last-seen time: the branch that should
  withhold the time of an invisible account tests a state that has just been rewritten to
  offline, so it never applies.\<close>

theorem invisible_account_discloses_last_seen:
  assumes "psv_store sv = presence_memory quote" and "psv_store sv' = presence_memory quote"
    and "SetPresence quote sv ctx params s = (Inr p, s1)"
    and "normalizePresenceState quote (spp_State params) = Inr PresenceStateInvisible"
    and "spp_HideLastSeenFor params = 0"
    and "GetPresence sv' ctx' \<lparr>gpp_AccountID = spp_AccountID params, gpp_ViewerAccountID = v\<rparr> s1 =
      (Inr snap, s2)"
    and "trim_space v \<noteq> trim_space (spp_AccountID params)"
  shows "snap_State snap = PresenceStateOffline \<and> \<not> snap_LastSeenHidden snap \<and>
    (\<exists>a sessions devices.
       id_AccountByID (psv_identity sv') (trim_space (spp_AccountID params)) = Inr a \<and>
       id_SessionsByAccountID (psv_identity sv') (acct_ID a) = Inr sessions \<and>
       id_DevicesByAccountID (psv_identity sv') (acct_ID a) = Inr devices \<and>
       snap_LastSeenAt snap = Max (seen_times a sessions devices))"
proof -
  let ?i = "trim_space (spp_AccountID params)"
  let ?ex = "case lookup s ?i of None \<Rightarrow> zero_presence | Some q \<Rightarrow> q"
  let ?t = "or_time (spp_RecordedAt params) (psv_now sv)"
  from SetPresence_run [OF assms(1,3)] assms(4) have norm:
      "normalizePresence quote (next_presence ?ex ?i params ?t PresenceStateInvisible) = Inr p"
    and s1: "s1 = put (prs_AccountID p) p s" by auto
  have p: "prs_AccountID p = ?i" "prs_State p = PresenceStateInvisible" "prs_HiddenUntil p = 0"
    using normalizePresence_fields [OF norm] normal_state_fixed [OF assms(4)] assms(5)
    by (auto simp: next_presence_def Let_def)
  have settled: "presence_settled p" by (rule normalizePresence_settled [OF norm])
  from assms(2,6) obtain a t where "snap = (snapshot sv' (trim_space v) p t)\<lparr>snap_AccountID := ?i\<rparr>"
    "presence_activeAccount sv' ?i = Inr a" "lastSeenAt sv' a = Inr t"
    by (rule GetPresence_run) (simp add: s1 p)
  with p assms(7) lastSeenAt_Max [of sv' a t] active_accountD [of sv' ?i a] show ?thesis
    by (auto simp: snapshot_record [OF settled])
qed

theorem invisible_account_discloses_last_seen_witness:
  "snap_State invisible_seen = PresenceStateOffline \<and> snap_LastSeenAt invisible_seen = 90 \<and>
   \<not> snap_LastSeenHidden invisible_seen"
proof -
  have store: "psv_store sample_presence_service = presence_memory id"
    by (simp add: sample_presence_service_def)
  have i: "spp_AccountID invisible_params = ''u1''" by (simp add: invisible_params_def)
  have st: "normalizePresenceState id (spp_State invisible_params) = Inr PresenceStateInvisible"
    by (simp add: invisible_params_def normalizePresenceState_def presence_states_def lower_text_def
        visible_def)
  have hide: "spp_HideLastSeenFor invisible_params = 0" by (simp add: invisible_params_def)
  have other: "trim_space ''u2'' \<noteq> trim_space ''u1''" by (simp add: visible_def)
  from invisible_account_discloses_last_seen [OF store store invisible_set st hide, unfolded i,
      OF invisible_get other]
  show ?thesis by (simp add: invisible_seen_def)
qed

subsection \<open>The list operation\<close>

lemma unchanged_preorder: "preorder_on_states (\<lambda>s s'. s' = s)"
  by (simp add: preorder_on_states_def)

lemma prm_lookup_keeps: "keeps (\<lambda>s s'. s' = s) (prm_PresenceByAccountID i)"
  by (auto simp: keeps_def prm_PresenceByAccountID_def Let_def split: option.splits if_splits)

lemma GetPresence_unchanged:
  assumes "psv_store sv = presence_memory quote" "GetPresence sv ctx params s = (r, s')"
  shows "s' = s"
proof -
  have "keeps (\<lambda>s s'. s' = s) (GetPresence sv ctx params)"
    unfolding GetPresence_def presence_or_zero_def presence_validateContext_def assms(1) Let_def
    by (intro keeps_rules unchanged_preorder) (simp add: presence_memory_def prm_lookup_keeps)
  from keepsD [OF this assms(2)] show ?thesis .
qed

lemma list_snapshots_run:
  assumes "psv_store sv = presence_memory quote"
    and "list_snapshots sv ctx viewer ids m0 s = (Inr m, s')"
  shows "s' = s \<and> (\<forall>i \<in> set ids. \<forall>e s1.
      GetPresence sv ctx \<lparr>gpp_AccountID = i, gpp_ViewerAccountID = viewer\<rparr> s = (Inl e, s1) \<longrightarrow>
        error_is e PresenceErrNotFound) \<and>
    (\<forall>i snap. lookup m i = Some snap \<longleftrightarrow>
      (if i \<in> set ids \<and> (\<exists>x. fst (GetPresence sv ctx
           \<lparr>gpp_AccountID = i, gpp_ViewerAccountID = viewer\<rparr> s) = Inr x)
       then fst (GetPresence sv ctx \<lparr>gpp_AccountID = i, gpp_ViewerAccountID = viewer\<rparr> s) = Inr snap
       else lookup m0 i = Some snap))"
  using assms(2)
proof (induction ids arbitrary: m0)
  case Nil
  then show ?case by simp
next
  case (Cons j ids)
  let ?get = "\<lambda>i. GetPresence sv ctx \<lparr>gpp_AccountID = i, gpp_ViewerAccountID = viewer\<rparr> s"
  obtain r where r: "?get j = (r, s)"
    using GetPresence_unchanged [OF assms(1)] by (metis surj_pair)
  show ?case
  proof (cases r)
    case (Inl e)
    with Cons.prems r have "error_is e PresenceErrNotFound"
      and rest: "list_snapshots sv ctx viewer ids m0 s = (Inr m, s')"
      by (auto simp: andThen_run attempt_run split: if_splits)
    with Cons.IH [OF rest] r Inl show ?thesis by auto
  next
    case (Inr x)
    with Cons.prems r have
      "list_snapshots sv ctx viewer ids (put j x m0) s = (Inr m, s')"
      by (auto simp: andThen_run attempt_run)
    from Cons.IH [OF this] r Inr show ?thesis by auto
  qed
qed

text \<open>Listing presence answers, for every distinct non-empty trimmed identifier, exactly what
  resolving that account alone answers: its snapshot when it resolves, and no entry when the
  account is unknown or not active; any other failure fails the whole list. The store is not
  changed.\<close>

theorem list_presence_pointwise:
  assumes "psv_store sv = presence_memory quote"
    and "ListPresence sv ctx accountIDs viewer s = (Inr m, s')"
  shows "s' = s \<and>
    (\<forall>i snap. lookup m i = Some snap \<longleftrightarrow> i \<in> trim_space ` set accountIDs \<and> i \<noteq> [] \<and>
      fst (GetPresence sv ctx \<lparr>gpp_AccountID = i, gpp_ViewerAccountID = viewer\<rparr> s) = Inr snap) \<and>
    (\<forall>i. i \<in> trim_space ` set accountIDs \<and> i \<noteq> [] \<and> lookup m i = None \<longrightarrow>
      (\<exists>e. fst (GetPresence sv ctx \<lparr>gpp_AccountID = i, gpp_ViewerAccountID = viewer\<rparr> s) = Inl e \<and>
        error_is e PresenceErrNotFound))"
proof -
  let ?get = "\<lambda>i. GetPresence sv ctx \<lparr>gpp_AccountID = i, gpp_ViewerAccountID = viewer\<rparr> s"
  note ids = NormalizeIDs_spec(2) [of accountIDs]
  have "list_snapshots sv ctx viewer (NormalizeIDs accountIDs) [] s = (Inr m, s')"
    using assms(2) by (auto simp: ListPresence_def andThen_Inr presence_validateContext_Inr Let_def
        split: if_splits)
  note run = list_snapshots_run [OF assms(1) this, unfolded ids]
  have found: "lookup m i = Some snap \<longleftrightarrow>
      i \<in> trim_space ` set accountIDs - {[]} \<and> fst (?get i) = Inr snap" for i snap
    using run by auto
  have missing: "\<exists>e. fst (?get i) = Inl e \<and> error_is e PresenceErrNotFound"
    if "i \<in> trim_space ` set accountIDs - {[]}" "lookup m i = None" for i
  proof (cases "fst (?get i)")
    case (Inl e)
    with run that(1) show ?thesis by (metis prod.collapse)
  next
    case (Inr x)
    have "lookup m i = Some x" using found [of i x] that(1) Inr by blast
    with that(2) show ?thesis by simp
  qed
  have "s' = s" using run by blast
  with found missing show ?thesis by (simp add: conj_assoc)
qed

theorem list_presence_pointwise_witness:
  "\<exists>m. ListPresence sample_presence_service LiveContext [''u1'', ''nobody'', ''u1''] ''u2'' [] = (Inr m, []) \<and>
     lookup m ''nobody'' = None"
proof -
  have store: "psv_store sample_presence_service = presence_memory id"
    by (simp add: sample_presence_service_def)
  have ids: "NormalizeIDs [''u1'', ''nobody'', ''u1''] = [''u1'', ''nobody'']"
    by (simp add: NormalizeIDs_def TrimID_def visible_def)
  have none: "GetPresence sample_presence_service LiveContext
     \<lparr>gpp_AccountID = ''nobody'', gpp_ViewerAccountID = ''u2''\<rparr> [] = (Inl PresenceErrNotFound, [])"
    by (simp add: presence_eval Let_def)
  obtain m where run: "ListPresence sample_presence_service LiveContext [''u1'', ''nobody'', ''u1''] ''u2'' [] =
      (Inr m, [])"
    by (auto simp: ListPresence_def ids presence_validateContext_def andThen_run attempt_run
        sample_get none)
  from list_presence_pointwise [OF store run] none have "lookup m ''nobody'' = None"
    by (metis Inl_Inr_False fst_conv not_None_eq)
  with run show ?thesis by blast
qed

end
