(* ===== verification/ConvModels.thy ===== *)
theory ConvModels
  imports GoStrings
begin

section \<open>Conversations and messages (\<open>internal/domain/conversation/models.go\<close>)\<close>

text \<open>
  The records of the conversation domain that the other domains read, with the source's
  fields. Enumerations are the strings of the source: any string can arrive.
\<close>

type_synonym ConversationKind = string

abbreviation ConversationKindUnspecified :: ConversationKind where
  "ConversationKindUnspecified \<equiv> []"

abbreviation ConversationKindDirect :: ConversationKind where
  "ConversationKindDirect \<equiv> ''direct''"

abbreviation ConversationKindGroup :: ConversationKind where
  "ConversationKindGroup \<equiv> ''group''"

abbreviation ConversationKindChannel :: ConversationKind where
  "ConversationKindChannel \<equiv> ''channel''"

abbreviation ConversationKindSavedMessages :: ConversationKind where
  "ConversationKindSavedMessages \<equiv> ''saved_messages''"

type_synonym MemberRole = string

abbreviation MemberRoleUnspecified :: MemberRole where
  "MemberRoleUnspecified \<equiv> []"

abbreviation MemberRoleOwner :: MemberRole where
  "MemberRoleOwner \<equiv> ''owner''"

abbreviation MemberRoleAdmin :: MemberRole where
  "MemberRoleAdmin \<equiv> ''admin''"

abbreviation MemberRoleMember :: MemberRole where
  "MemberRoleMember \<equiv> ''member''"

abbreviation MemberRoleGuest :: MemberRole where
  "MemberRoleGuest \<equiv> ''guest''"

type_synonym MessageKind = string

abbreviation MessageKindUnspecified :: MessageKind where
  "MessageKindUnspecified \<equiv> []"

abbreviation MessageKindText :: MessageKind where
  "MessageKindText \<equiv> ''text''"

abbreviation MessageKindImage :: MessageKind where
  "MessageKindImage \<equiv> ''image''"

abbreviation MessageKindVideo :: MessageKind where
  "MessageKindVideo \<equiv> ''video''"

abbreviation MessageKindDocument :: MessageKind where
  "MessageKindDocument \<equiv> ''document''"

abbreviation MessageKindVoice :: MessageKind where
  "MessageKindVoice \<equiv> ''voice''"

abbreviation MessageKindSticker :: MessageKind where
  "MessageKindSticker \<equiv> ''sticker''"

abbreviation MessageKindGIF :: MessageKind where
  "MessageKindGIF \<equiv> ''gif''"

abbreviation MessageKindSystem :: MessageKind where
  "MessageKindSystem \<equiv> ''system''"

type_synonym MessageStatus = string

abbreviation MessageStatusUnspecified :: MessageStatus where
  "MessageStatusUnspecified \<equiv> []"

abbreviation MessageStatusPending :: MessageStatus where
  "MessageStatusPending \<equiv> ''pending''"

abbreviation MessageStatusSent :: MessageStatus where
  "MessageStatusSent \<equiv> ''sent''"

abbreviation MessageStatusDelivered :: MessageStatus where
  "MessageStatusDelivered \<equiv> ''delivered''"

abbreviation MessageStatusRead :: MessageStatus where
  "MessageStatusRead \<equiv> ''read''"

abbreviation MessageStatusFailed :: MessageStatus where
  "MessageStatusFailed \<equiv> ''failed''"

abbreviation MessageStatusDeleted :: MessageStatus where
  "MessageStatusDeleted \<equiv> ''deleted''"

type_synonym AttachmentKind = string

abbreviation AttachmentKindUnspecified :: AttachmentKind where
  "AttachmentKindUnspecified \<equiv> []"

abbreviation AttachmentKindImage :: AttachmentKind where
  "AttachmentKindImage \<equiv> ''image''"

abbreviation AttachmentKindVideo :: AttachmentKind where
  "AttachmentKindVideo \<equiv> ''video''"

abbreviation AttachmentKindDocument :: AttachmentKind where
  "AttachmentKindDocument \<equiv> ''document''"

abbreviation AttachmentKindVoice :: AttachmentKind where
  "AttachmentKindVoice \<equiv> ''voice''"

abbreviation AttachmentKindSticker :: AttachmentKind where
  "AttachmentKindSticker \<equiv> ''sticker''"

abbreviation AttachmentKindGIF :: AttachmentKind where
  "AttachmentKindGIF \<equiv> ''gif''"

abbreviation AttachmentKindAvatar :: AttachmentKind where
  "AttachmentKindAvatar \<equiv> ''avatar''"

abbreviation AttachmentKindFile :: AttachmentKind where
  "AttachmentKindFile \<equiv> ''file''"

type_synonym EventType = string

abbreviation EventTypeUnspecified :: EventType where
  "EventTypeUnspecified \<equiv> []"

abbreviation EventTypeConversationCreated :: EventType where
  "EventTypeConversationCreated \<equiv> ''conversation.created''"

abbreviation EventTypeConversationUpdated :: EventType where
  "EventTypeConversationUpdated \<equiv> ''conversation.updated''"

abbreviation EventTypeConversationMembers :: EventType where
  "EventTypeConversationMembers \<equiv> ''conversation.members_changed''"

abbreviation EventTypeUserUpdated :: EventType where
  "EventTypeUserUpdated \<equiv> ''user.updated''"

abbreviation EventTypeAdminActionRecorded :: EventType where
  "EventTypeAdminActionRecorded \<equiv> ''admin_action.recorded''"

abbreviation EventTypeMessageCreated :: EventType where
  "EventTypeMessageCreated \<equiv> ''message.created''"

abbreviation EventTypeMessageDelivered :: EventType where
  "EventTypeMessageDelivered \<equiv> ''message.delivered''"

abbreviation EventTypeMessageRead :: EventType where
  "EventTypeMessageRead \<equiv> ''message.read''"

abbreviation EventTypeMessageEdited :: EventType where
  "EventTypeMessageEdited \<equiv> ''message.edited''"

abbreviation EventTypeMessageDeleted :: EventType where
  "EventTypeMessageDeleted \<equiv> ''message.deleted''"

abbreviation EventTypeMessagePinned :: EventType where
  "EventTypeMessagePinned \<equiv> ''message.pinned''"

abbreviation EventTypeMessageReactionAdded :: EventType where
  "EventTypeMessageReactionAdded \<equiv> ''message.reaction_added''"

abbreviation EventTypeMessageReactionUpdated :: EventType where
  "EventTypeMessageReactionUpdated \<equiv> ''message.reaction_updated''"

abbreviation EventTypeMessageReactionRemoved :: EventType where
  "EventTypeMessageReactionRemoved \<equiv> ''message.reaction_removed''"

abbreviation EventTypeSyncAcknowledged :: EventType where
  "EventTypeSyncAcknowledged \<equiv> ''sync.acknowledged''"

abbreviation EventTypeTopicCreated :: EventType where
  "EventTypeTopicCreated \<equiv> ''topic.created''"

abbreviation EventTypeTopicUpdated :: EventType where
  "EventTypeTopicUpdated \<equiv> ''topic.updated''"

abbreviation EventTypeTopicArchived :: EventType where
  "EventTypeTopicArchived \<equiv> ''topic.archived''"

abbreviation EventTypeTopicPinned :: EventType where
  "EventTypeTopicPinned \<equiv> ''topic.pinned''"

abbreviation EventTypeTopicClosed :: EventType where
  "EventTypeTopicClosed \<equiv> ''topic.closed''"

record conv_settings =
  cset_OnlyAdminsCanWrite :: bool
  cset_OnlyAdminsCanAddMembers :: bool
  cset_AllowReactions :: bool
  cset_AllowForwards :: bool
  cset_AllowThreads :: bool
  cset_RequireEncryptedMessages :: bool
  cset_RequireTrustedDevices :: bool
  cset_RequireJoinApproval :: bool
  cset_PinnedMessagesOnlyAdmins :: bool
  cset_SlowModeInterval :: duration

record conversation =
  conv_ID :: string
  conv_Kind :: ConversationKind
  conv_Title :: string
  conv_Description :: string
  conv_AvatarMediaID :: string
  conv_OwnerAccountID :: string
  conv_Settings :: conv_settings
  conv_Archived :: bool
  conv_Muted :: bool
  conv_Pinned :: bool
  conv_Hidden :: bool
  conv_LastSequence :: uint64
  conv_UnreadCount :: uint64
  conv_UnreadMentionCount :: uint64
  conv_CreatedAt :: time
  conv_UpdatedAt :: time
  conv_LastMessageAt :: time

record conv_member =
  cmem_ConversationID :: string
  cmem_AccountID :: string
  cmem_Role :: MemberRole
  cmem_InvitedByAccountID :: string
  cmem_Muted :: bool
  cmem_Banned :: bool
  cmem_JoinedAt :: time
  cmem_LeftAt :: time

record attachment =
  att_MediaID :: string
  att_Kind :: AttachmentKind
  att_FileName :: string
  att_MimeType :: string
  att_SizeBytes :: uint64
  att_SHA256Hex :: string
  att_Width :: "32 word"
  att_Height :: "32 word"
  att_Duration :: duration
  att_Caption :: string

record enc_payload =
  enc_KeyID :: string
  enc_Algorithm :: string
  enc_Nonce :: bytes
  enc_Ciphertext :: bytes
  enc_AAD :: bytes
  enc_Metadata :: "(string, string) gomap"

record msg_reference =
  mref_ConversationID :: string
  mref_MessageID :: string
  mref_SenderAccountID :: string
  mref_MessageKind :: MessageKind
  mref_Snippet :: string

record msg_reaction =
  mreac_MessageID :: string
  mreac_AccountID :: string
  mreac_Reaction :: string
  mreac_CreatedAt :: time
  mreac_UpdatedAt :: time

record message =
  msg_ID :: string
  msg_ConversationID :: string
  msg_SenderAccountID :: string
  msg_SenderDeviceID :: string
  msg_ClientMessageID :: string
  msg_Sequence :: uint64
  msg_Kind :: MessageKind
  msg_Status :: MessageStatus
  msg_Payload :: enc_payload
  msg_Attachments :: "attachment list"
  msg_MentionAccountIDs :: "string list"
  msg_ReplyTo :: msg_reference
  msg_ThreadID :: string
  msg_Silent :: bool
  msg_Pinned :: bool
  msg_DisableLinkPreviews :: bool
  msg_ViewCount :: uint64
  msg_DeliverAt :: time
  msg_Metadata :: "(string, string) gomap"
  msg_Reactions :: "msg_reaction list"
  msg_CreatedAt :: time
  msg_UpdatedAt :: time
  msg_EditedAt :: time
  msg_DeletedAt :: time

record conv_event =
  ev_EventID :: string
  ev_EventType :: EventType
  ev_ConversationID :: string
  ev_ActorAccountID :: string
  ev_ActorDeviceID :: string
  ev_CausationID :: string
  ev_CorrelationID :: string
  ev_MessageID :: string
  ev_Sequence :: uint64
  ev_PayloadType :: string
  ev_Payload :: enc_payload
  ev_ReadThroughSequence :: uint64
  ev_Metadata :: "(string, string) gomap"
  ev_CreatedAt :: time

end
