(* ===== verification/NotifModels.thy ===== *)
theory NotifModels
  imports IdentityModels ConvModels GoWorld GoIndex
begin

section \<open>Notification data and its normalisation (\<open>internal/domain/notification/models.go\<close>)\<close>

text \<open>
  The records of the notification domain, the parameters of its service (\<open>params.go\<close>), the worker
  settings (\<open>settings.go\<close>) and the five \<open>normalize\<close> methods. A settled value is one that
  normalisation leaves alone; the lemmas show that every accepted value is settled.
\<close>

abbreviation NotifErrInvalidInput :: error where
  "NotifErrInvalidInput \<equiv> Sentinel Notification InvalidInput"

abbreviation NotifErrNotFound :: error where
  "NotifErrNotFound \<equiv> Sentinel Notification NotFound"

abbreviation NotifErrConflict :: error where
  "NotifErrConflict \<equiv> Sentinel Notification Conflict"

subsection \<open>Records\<close>

type_synonym NotificationKind = string

abbreviation NotificationKindUnspecified :: NotificationKind where
  "NotificationKindUnspecified \<equiv> []"

abbreviation NotificationKindDirect :: NotificationKind where
  "NotificationKindDirect \<equiv> ''direct''"

abbreviation NotificationKindGroup :: NotificationKind where
  "NotificationKindGroup \<equiv> ''group''"

abbreviation NotificationKindChannel :: NotificationKind where
  "NotificationKindChannel \<equiv> ''channel''"

abbreviation NotificationKindMention :: NotificationKind where
  "NotificationKindMention \<equiv> ''mention''"

abbreviation NotificationKindReply :: NotificationKind where
  "NotificationKindReply \<equiv> ''reply''"

type_synonym DeliveryMode = string

abbreviation DeliveryModeUnspecified :: DeliveryMode where
  "DeliveryModeUnspecified \<equiv> []"

abbreviation DeliveryModeInApp :: DeliveryMode where
  "DeliveryModeInApp \<equiv> ''in_app''"

abbreviation DeliveryModePush :: DeliveryMode where
  "DeliveryModePush \<equiv> ''push''"

type_synonym DeliveryState = string

abbreviation DeliveryStateUnspecified :: DeliveryState where
  "DeliveryStateUnspecified \<equiv> []"

abbreviation DeliveryStateQueued :: DeliveryState where
  "DeliveryStateQueued \<equiv> ''queued''"

abbreviation DeliveryStateSuppressed :: DeliveryState where
  "DeliveryStateSuppressed \<equiv> ''suppressed''"

abbreviation DeliveryStateDelivered :: DeliveryState where
  "DeliveryStateDelivered \<equiv> ''delivered''"

abbreviation DeliveryStateFailed :: DeliveryState where
  "DeliveryStateFailed \<equiv> ''failed''"

record quiet_hours =
  qh_Enabled :: bool
  qh_StartMinute :: int
  qh_EndMinute :: int
  qh_Timezone :: string

record preference =
  pref_AccountID :: string
  pref_Enabled :: bool
  pref_DirectEnabled :: bool
  pref_GroupEnabled :: bool
  pref_ChannelEnabled :: bool
  pref_MentionEnabled :: bool
  pref_ReplyEnabled :: bool
  pref_QuietHours :: quiet_hours
  pref_MutedUntil :: time
  pref_UpdatedAt :: time

record conv_override =
  ovr_ConversationID :: string
  ovr_AccountID :: string
  ovr_Muted :: bool
  ovr_MentionsOnly :: bool
  ovr_MutedUntil :: time
  ovr_UpdatedAt :: time

record push_token =
  tok_ID :: string
  tok_AccountID :: string
  tok_DeviceID :: string
  tok_Provider :: string
  tok_Token :: string
  tok_Platform :: DevicePlatform
  tok_Enabled :: bool
  tok_CreatedAt :: time
  tok_UpdatedAt :: time
  tok_RevokedAt :: time

record delivery =
  dlv_ID :: string
  dlv_DedupKey :: string
  dlv_EventID :: string
  dlv_ConversationID :: string
  dlv_MessageID :: string
  dlv_AccountID :: string
  dlv_DeviceID :: string
  dlv_PushTokenID :: string
  dlv_Kind :: NotificationKind
  dlv_Reason :: string
  dlv_Mode :: DeliveryMode
  dlv_State :: DeliveryState
  dlv_Priority :: int
  dlv_Attempts :: int
  dlv_NextAttemptAt :: time
  dlv_LeaseToken :: string
  dlv_LeaseExpiresAt :: time
  dlv_LastAttemptAt :: time
  dlv_LastError :: string
  dlv_CreatedAt :: time
  dlv_UpdatedAt :: time

record worker_cursor =
  wcur_Name :: string
  wcur_LastSequence :: uint64
  wcur_UpdatedAt :: time

record notif_settings =
  nset_WorkerPollInterval :: duration
  nset_RetryInitialBackoff :: duration
  nset_RetryMaxBackoff :: duration
  nset_DeliveryLeaseTTL :: duration
  nset_MaxAttempts :: int
  nset_BatchSize :: int

text \<open>The parameters of the operations.\<close>

record set_preference_params =
  snp_AccountID :: string
  snp_Enabled :: bool
  snp_DirectEnabled :: bool
  snp_GroupEnabled :: bool
  snp_ChannelEnabled :: bool
  snp_MentionEnabled :: bool
  snp_ReplyEnabled :: bool
  snp_QuietHours :: quiet_hours
  snp_MutedUntil :: time
  snp_UpdatedAt :: time

record set_override_params =
  sop_ConversationID :: string
  sop_AccountID :: string
  sop_Muted :: bool
  sop_MentionsOnly :: bool
  sop_MutedUntil :: time
  sop_UpdatedAt :: time

record register_token_params =
  rtp_AccountID :: string
  rtp_DeviceID :: string
  rtp_Provider :: string
  rtp_Token :: string
  rtp_Platform :: DevicePlatform
  rtp_CreatedAt :: time

record revoke_token_params =
  rvp_TokenID :: string
  rvp_RevokedAt :: time

record queue_delivery_params =
  qdp_DedupKey :: string
  qdp_EventID :: string
  qdp_ConversationID :: string
  qdp_MessageID :: string
  qdp_AccountID :: string
  qdp_DeviceID :: string
  qdp_PushTokenID :: string
  qdp_Kind :: NotificationKind
  qdp_Reason :: string
  qdp_Mode :: DeliveryMode
  qdp_Priority :: int
  qdp_Attempts :: int
  qdp_NextAttemptAt :: time
  qdp_State :: DeliveryState
  qdp_CreatedAt :: time

record retry_delivery_params =
  rdp_DeliveryID :: string
  rdp_LeaseToken :: string
  rdp_LastError :: string
  rdp_RetryAt :: time
  rdp_MaxAttempts :: int
  rdp_AttemptedAt :: time

record claim_deliveries_params =
  cdp_Before :: time
  cdp_Limit :: int
  cdp_LeaseToken :: string
  cdp_LeaseDuration :: duration

record mark_delivered_params =
  mdp_DeliveryID :: string
  mdp_LeaseToken :: string
  mdp_DeliveredAt :: time

record fail_delivery_params =
  fdp_DeliveryID :: string
  fdp_LeaseToken :: string
  fdp_LastError :: string
  fdp_FailedAt :: time

record save_worker_cursor_params =
  swp_Name :: string
  swp_LastSequence :: uint64
  swp_UpdatedAt :: time

subsection \<open>Settings\<close>

definition DefaultSettings :: notif_settings where
  "DefaultSettings = \<lparr>nset_WorkerPollInterval = 2 * second, nset_RetryInitialBackoff = 10 * second,
     nset_RetryMaxBackoff = 300 * second, nset_DeliveryLeaseTTL = 30 * second, nset_MaxAttempts = 5,
     nset_BatchSize = 200\<rparr>"

definition positive_or :: "int \<Rightarrow> int \<Rightarrow> int" where
  "positive_or x d = (if x \<le> 0 then d else x)"

definition normalize_settings :: "notif_settings \<Rightarrow> notif_settings" where
  "normalize_settings s =
     (let initial = positive_or (nset_RetryInitialBackoff s) (nset_RetryInitialBackoff DefaultSettings);
        maximal = positive_or (nset_RetryMaxBackoff s) (nset_RetryMaxBackoff DefaultSettings)
      in \<lparr>nset_WorkerPollInterval =
            positive_or (nset_WorkerPollInterval s) (nset_WorkerPollInterval DefaultSettings),
          nset_RetryInitialBackoff = initial,
          nset_RetryMaxBackoff = (if maximal < initial then initial else maximal),
          nset_DeliveryLeaseTTL =
            positive_or (nset_DeliveryLeaseTTL s) (nset_DeliveryLeaseTTL DefaultSettings),
          nset_MaxAttempts = positive_or (nset_MaxAttempts s) (nset_MaxAttempts DefaultSettings),
          nset_BatchSize = positive_or (nset_BatchSize s) (nset_BatchSize DefaultSettings)\<rparr>)"

definition settings_ok :: "notif_settings \<Rightarrow> bool" where
  "settings_ok s \<longleftrightarrow> 0 < nset_WorkerPollInterval s \<and> 0 < nset_RetryInitialBackoff s \<and>
     nset_RetryInitialBackoff s \<le> nset_RetryMaxBackoff s \<and> 0 < nset_DeliveryLeaseTTL s \<and>
     0 < nset_MaxAttempts s \<and> 0 < nset_BatchSize s"

lemma normalize_settings_ok: "settings_ok (normalize_settings s)"
  by (auto simp: settings_ok_def normalize_settings_def positive_or_def DefaultSettings_def Let_def)

lemma normalize_settings_fixed: "settings_ok s \<Longrightarrow> normalize_settings s = s"
  by (cases s) (simp add: settings_ok_def normalize_settings_def positive_or_def Let_def)

subsection \<open>Normalisation\<close>

definition no_quiet_hours :: quiet_hours where
  "no_quiet_hours = \<lparr>qh_Enabled = False, qh_StartMinute = 0, qh_EndMinute = 0, qh_Timezone = []\<rparr>"

definition defaultPreference :: "string \<Rightarrow> time \<Rightarrow> preference" where
  "defaultPreference accountID now = \<lparr>pref_AccountID = trim_space accountID, pref_Enabled = True,
     pref_DirectEnabled = True, pref_GroupEnabled = True, pref_ChannelEnabled = True,
     pref_MentionEnabled = True, pref_ReplyEnabled = True, pref_QuietHours = no_quiet_hours,
     pref_MutedUntil = zero_time, pref_UpdatedAt = now\<rparr>"

definition not_before_zero :: "time \<Rightarrow> time" where
  "not_before_zero t = (if t < zero_time then zero_time else t)"

definition minute_of_day :: "int \<Rightarrow> bool" where
  "minute_of_day m \<longleftrightarrow> \<not> (m < 0 \<or> 24 * 60 - 1 < m)"

definition normalize_quiet_hours :: "quiet_hours \<Rightarrow> error + quiet_hours" where
  "normalize_quiet_hours q =
     (if qh_Enabled q then
        let timezone = trim_space (qh_Timezone q);
          q' = q\<lparr>qh_Timezone := (if timezone = [] then ''UTC'' else timezone)\<rparr> in
        if \<not> minute_of_day (qh_StartMinute q') then Inl NotifErrInvalidInput
        else if \<not> minute_of_day (qh_EndMinute q') then Inl NotifErrInvalidInput
        else Inr q'
      else Inr no_quiet_hours)"

definition normalize_preference :: "preference \<Rightarrow> time \<Rightarrow> error + preference" where
  "normalize_preference p now =
     (let accountID = trim_space (pref_AccountID p) in
      if accountID = [] then Inl NotifErrInvalidInput
      else (case normalize_quiet_hours (pref_QuietHours p) of
          Inl e \<Rightarrow> Inl e
        | Inr q \<Rightarrow> Inr (p\<lparr>pref_AccountID := accountID, pref_QuietHours := q,
            pref_MutedUntil := not_before_zero (pref_MutedUntil p),
            pref_UpdatedAt := or_time (pref_UpdatedAt p) now\<rparr>)))"

definition normalize_override :: "conv_override \<Rightarrow> time \<Rightarrow> error + conv_override" where
  "normalize_override ov now =
     (let conversationID = trim_space (ovr_ConversationID ov);
        accountID = trim_space (ovr_AccountID ov) in
      if conversationID = [] \<or> accountID = [] then Inl NotifErrInvalidInput
      else Inr (ov\<lparr>ovr_ConversationID := conversationID, ovr_AccountID := accountID,
        ovr_MutedUntil := not_before_zero (ovr_MutedUntil ov),
        ovr_UpdatedAt := or_time (ovr_UpdatedAt ov) now\<rparr>))"

text \<open>\<open>norm_name\<close> is \<open>strings.TrimSpace(strings.ToLower(s))\<close>.\<close>

definition normalize_push_token :: "push_token \<Rightarrow> time \<Rightarrow> error + push_token" where
  "normalize_push_token t now =
     (let t1 = t\<lparr>tok_ID := trim_space (tok_ID t), tok_AccountID := trim_space (tok_AccountID t),
          tok_DeviceID := trim_space (tok_DeviceID t), tok_Provider := norm_name (tok_Provider t),
          tok_Token := trim_space (tok_Token t)\<rparr> in
      if tok_ID t1 = [] \<or> tok_AccountID t1 = [] \<or> tok_DeviceID t1 = [] \<or> tok_Provider t1 = [] \<or>
        tok_Token t1 = [] then Inl NotifErrInvalidInput
      else if tok_Platform t1 = DevicePlatformUnspecified then Inl NotifErrInvalidInput
      else let created = or_time (tok_CreatedAt t) now
        in Inr (t1\<lparr>tok_CreatedAt := created, tok_UpdatedAt := or_time (tok_UpdatedAt t) created\<rparr>))"

definition normalize_delivery :: "delivery \<Rightarrow> time \<Rightarrow> error + delivery" where
  "normalize_delivery d now =
     (let d1 = d\<lparr>dlv_ID := trim_space (dlv_ID d), dlv_DedupKey := trim_space (dlv_DedupKey d),
          dlv_EventID := trim_space (dlv_EventID d),
          dlv_ConversationID := trim_space (dlv_ConversationID d),
          dlv_AccountID := trim_space (dlv_AccountID d)\<rparr> in
      if dlv_ID d1 = [] \<or> dlv_DedupKey d1 = [] \<or> dlv_EventID d1 = [] \<or> dlv_ConversationID d1 = [] \<or>
        dlv_AccountID d1 = [] then Inl NotifErrInvalidInput
      else let d2 = d1\<lparr>dlv_DeviceID := trim_space (dlv_DeviceID d),
          dlv_PushTokenID := trim_space (dlv_PushTokenID d),
          dlv_MessageID := trim_space (dlv_MessageID d), dlv_Reason := trim_space (dlv_Reason d)\<rparr> in
      if dlv_Kind d2 = NotificationKindUnspecified \<or> dlv_Mode d2 = DeliveryModeUnspecified
        then Inl NotifErrInvalidInput
      else if dlv_Mode d2 = DeliveryModePush \<and> (dlv_DeviceID d2 = [] \<or> dlv_PushTokenID d2 = [])
        then Inl NotifErrInvalidInput
      else let leaseToken = trim_space (dlv_LeaseToken d);
          created = or_time (dlv_CreatedAt d) now;
          d3 = d2\<lparr>
            dlv_State := (if dlv_State d = DeliveryStateUnspecified then DeliveryStateQueued
              else dlv_State d),
            dlv_Attempts := (if dlv_Attempts d < 0 then 0 else dlv_Attempts d),
            dlv_NextAttemptAt := or_time (dlv_NextAttemptAt d) now,
            dlv_LeaseToken := leaseToken\<rparr> in
      if leaseToken \<noteq> [] \<and> dlv_LeaseExpiresAt d = zero_time then Inl NotifErrInvalidInput
      else Inr (d3\<lparr>
        dlv_LeaseExpiresAt := (if leaseToken = [] then zero_time else dlv_LeaseExpiresAt d),
        dlv_CreatedAt := created, dlv_UpdatedAt := or_time (dlv_UpdatedAt d) created\<rparr>))"

definition normalize_worker_cursor :: "worker_cursor \<Rightarrow> time \<Rightarrow> error + worker_cursor" where
  "normalize_worker_cursor c now =
     (let name = norm_name (wcur_Name c) in
      if name = [] then Inl NotifErrInvalidInput
      else Inr (c\<lparr>wcur_Name := name, wcur_UpdatedAt := or_time (wcur_UpdatedAt c) now\<rparr>))"

end
