(* ===== verification/NotifStore.thy ===== *)
theory NotifStore
  imports NotifModels GoEffects
begin

section \<open>The notification store interface (\<open>internal/domain/notification/store.go\<close>)\<close>

text \<open>
  The table of the store's methods over a hidden state, the life of a delivery as an abstract
  state machine, and the contract of the delivery queue that the service and the worker build
  on: what the writing methods do to the deliveries and cursors a client can look up.
\<close>

record 's notif_store_ops =
  nso_SavePreference :: "preference \<Rightarrow> ('s, preference) io"
  nso_PreferenceByAccountID :: "string \<Rightarrow> ('s, preference) io"
  nso_SaveOverride :: "conv_override \<Rightarrow> ('s, conv_override) io"
  nso_OverrideByConversationAndAccount :: "string \<Rightarrow> string \<Rightarrow> ('s, conv_override) io"
  nso_SavePushToken :: "push_token \<Rightarrow> ('s, push_token) io"
  nso_PushTokenByID :: "string \<Rightarrow> ('s, push_token) io"
  nso_PushTokensByAccountID :: "string \<Rightarrow> ('s, push_token list) io"
  nso_DeletePushToken :: "string \<Rightarrow> ('s, unit) io"
  nso_SaveDelivery :: "delivery \<Rightarrow> ('s, delivery) io"
  nso_DeliveryByID :: "string \<Rightarrow> ('s, delivery) io"
  nso_DeliveriesDue :: "time \<Rightarrow> int \<Rightarrow> ('s, delivery list) io"
  nso_ClaimDeliveries :: "claim_deliveries_params \<Rightarrow> ('s, delivery list) io"
  nso_MarkDeliveryDelivered :: "mark_delivered_params \<Rightarrow> ('s, delivery) io"
  nso_FailDelivery :: "fail_delivery_params \<Rightarrow> ('s, delivery) io"
  nso_RetryDelivery :: "retry_delivery_params \<Rightarrow> ('s, delivery) io"
  nso_SaveWorkerCursor :: "worker_cursor \<Rightarrow> ('s, worker_cursor) io"
  nso_WorkerCursorByName :: "string \<Rightarrow> ('s, worker_cursor) io"

definition notif_found_or :: "'a option \<Rightarrow> ('s, 'a) io" where
  "notif_found_or x = (case x of None \<Rightarrow> raise NotifErrNotFound | Some v \<Rightarrow> ret v)"

lemma notif_found_or_run [io_simps]:
  "notif_found_or x s = (case x of None \<Rightarrow> (Inl NotifErrNotFound, s) | Some v \<Rightarrow> (Inr v, s))"
  by (cases x) (simp_all add: notif_found_or_def)

lemma notif_found_or_Inr [io_inv]: "notif_found_or x s = (Inr v, s') \<longleftrightarrow> x = Some v \<and> s' = s"
  by (auto simp: notif_found_or_run split: option.splits)

subsection \<open>The life of a delivery\<close>

definition claimed_delivery :: "string \<Rightarrow> time \<Rightarrow> time \<Rightarrow> delivery \<Rightarrow> delivery" where
  "claimed_delivery leaseToken expires at d = d\<lparr>
     dlv_LeaseToken := leaseToken,
     dlv_LeaseExpiresAt := expires,
     dlv_UpdatedAt := at\<rparr>"

definition delivered_delivery :: "time \<Rightarrow> delivery \<Rightarrow> delivery" where
  "delivered_delivery now d = d\<lparr>
     dlv_Attempts := dlv_Attempts d + 1,
     dlv_State := DeliveryStateDelivered,
     dlv_LastAttemptAt := now,
     dlv_LastError := [],
     dlv_NextAttemptAt := now,
     dlv_LeaseToken := [],
     dlv_LeaseExpiresAt := zero_time,
     dlv_UpdatedAt := now\<rparr>"

definition failed_delivery :: "string \<Rightarrow> time \<Rightarrow> delivery \<Rightarrow> delivery" where
  "failed_delivery lastError now d = d\<lparr>
     dlv_Attempts := dlv_Attempts d + 1,
     dlv_State := DeliveryStateFailed,
     dlv_LastAttemptAt := now,
     dlv_LastError := lastError,
     dlv_NextAttemptAt := now,
     dlv_LeaseToken := [],
     dlv_LeaseExpiresAt := zero_time,
     dlv_UpdatedAt := now\<rparr>"

definition retried_delivery :: "retry_delivery_params \<Rightarrow> time \<Rightarrow> delivery \<Rightarrow> delivery" where
  "retried_delivery p now d =
     (let attempts = dlv_Attempts d + 1;
        exhausted = (0 < rdp_MaxAttempts p \<and> rdp_MaxAttempts p \<le> attempts) in
      d\<lparr>dlv_Attempts := attempts,
        dlv_LastError := rdp_LastError p,
        dlv_LastAttemptAt := now,
        dlv_NextAttemptAt := (if exhausted then now else or_time (rdp_RetryAt p) now),
        dlv_State := (if exhausted then DeliveryStateFailed else DeliveryStateQueued),
        dlv_LeaseToken := [],
        dlv_LeaseExpiresAt := zero_time,
        dlv_UpdatedAt := now\<rparr>)"

text \<open>A delivery that a claim at the given time may take.\<close>

definition delivery_due :: "time \<Rightarrow> delivery \<Rightarrow> bool" where
  "delivery_due at d \<longleftrightarrow> dlv_State d = DeliveryStateQueued \<and> \<not> at < dlv_NextAttemptAt d \<and>
     \<not> (dlv_LeaseExpiresAt d \<noteq> zero_time \<and> at < dlv_LeaseExpiresAt d)"

text \<open>\<open>lockedDeliveryForLeaseAt\<close>: the guard of the methods that finish an attempt.\<close>

definition lease_guard :: "string \<Rightarrow> time \<Rightarrow> delivery \<Rightarrow> error + delivery" where
  "lease_guard leaseToken now d =
     (if dlv_State d \<noteq> DeliveryStateQueued then Inl NotifErrConflict
      else if leaseToken \<noteq> [] then
        (if dlv_LeaseToken d \<noteq> leaseToken then Inl NotifErrConflict
         else if dlv_LeaseExpiresAt d = zero_time \<or> dlv_LeaseExpiresAt d < now
           then Inl NotifErrConflict
         else Inr d)
      else Inr d)"

definition delivery_terminal :: "delivery \<Rightarrow> bool" where
  "delivery_terminal d \<longleftrightarrow> dlv_State d = DeliveryStateDelivered \<or> dlv_State d = DeliveryStateSuppressed"

text \<open>
  The abstract machine. A queued delivery is claimed, delivered or fails; anything but a
  delivered or suppressed one can be retried, also one that failed; and saving under the same
  key replaces a delivery by one with more attempts.
\<close>

inductive delivery_step :: "delivery \<Rightarrow> delivery \<Rightarrow> bool" where
  claimed: "delivery_due at d \<Longrightarrow> delivery_step d (claimed_delivery token expires at d)"
| delivered: "dlv_State d = DeliveryStateQueued \<Longrightarrow> delivery_step d (delivered_delivery now d)"
| failed: "dlv_State d = DeliveryStateQueued \<Longrightarrow> delivery_step d (failed_delivery lastError now d)"
| retried: "\<not> delivery_terminal d \<Longrightarrow> delivery_step d (retried_delivery p now d)"
| replaced: "dlv_ID d' = dlv_ID d \<Longrightarrow> dlv_DedupKey d' = dlv_DedupKey d \<Longrightarrow>
    dlv_Attempts d < dlv_Attempts d' \<Longrightarrow> delivery_step d d'"

inductive_cases delivery_stepE: "delivery_step d d'"

lemmas delivery_changes = claimed_delivery_def delivered_delivery_def failed_delivery_def
  retried_delivery_def

abbreviation delivery_steps :: "delivery \<Rightarrow> delivery \<Rightarrow> bool" where
  "delivery_steps \<equiv> delivery_step\<^sup>*\<^sup>*"

text \<open>Identity and key stay, attempts never decrease, and what is over stays over.\<close>

definition delivery_later :: "delivery \<Rightarrow> delivery \<Rightarrow> bool" where
  "delivery_later d d' \<longleftrightarrow> dlv_ID d' = dlv_ID d \<and> dlv_DedupKey d' = dlv_DedupKey d \<and>
     dlv_Attempts d \<le> dlv_Attempts d' \<and>
     (dlv_State d \<noteq> DeliveryStateQueued \<longrightarrow> d' = d \<or> dlv_Attempts d < dlv_Attempts d')"

lemma delivery_step_later: "delivery_step d d' \<Longrightarrow> delivery_later d d'"
  by (erule delivery_stepE) (auto simp: delivery_later_def delivery_changes delivery_due_def Let_def)

lemma delivery_steps_later: "delivery_steps d d' \<Longrightarrow> delivery_later d d'"
proof (induction rule: rtranclp_induct)
  case (step d' d'')
  from step.hyps(2) have "delivery_later d' d''" by (rule delivery_step_later)
  with step.IH show ?case by (auto simp: delivery_later_def)
qed (simp add: delivery_later_def)

subsection \<open>The contract of the queue\<close>

text \<open>
  A later state has every delivery of an earlier one, further along its life, and every worker
  cursor, at the same or a higher sequence.
\<close>

definition evolves :: "('s \<Rightarrow> string \<Rightarrow> delivery option) \<Rightarrow> ('s \<Rightarrow> string \<Rightarrow> worker_cursor option) \<Rightarrow>
    's \<Rightarrow> 's \<Rightarrow> bool" where
  "evolves dlv_at wcur_at s s' \<longleftrightarrow>
     (\<forall>i d. dlv_at s i = Some d \<longrightarrow> (\<exists>d'. dlv_at s' i = Some d' \<and> delivery_steps d d')) \<and>
     (\<forall>n c. wcur_at s n = Some c \<longrightarrow>
        (\<exists>c'. wcur_at s' n = Some c' \<and> wcur_LastSequence c \<le> wcur_LastSequence c'))"

lemma evolves_refl [simp]: "evolves dlv_at wcur_at s s"
  by (auto simp: evolves_def)

lemma evolves_trans:
  assumes "evolves dlv_at wcur_at s t" "evolves dlv_at wcur_at t u"
  shows "evolves dlv_at wcur_at s u"
  unfolding evolves_def
proof (intro conjI allI impI)
  fix i d
  assume "dlv_at s i = Some d"
  with assms(1) obtain d' where "dlv_at t i = Some d'" "delivery_steps d d'"
    unfolding evolves_def by blast
  with assms(2) show "\<exists>d'. dlv_at u i = Some d' \<and> delivery_steps d d'"
    unfolding evolves_def by (meson rtranclp_trans)
next
  fix n c
  assume "wcur_at s n = Some c"
  with assms(1) obtain c' where "wcur_at t n = Some c'" "wcur_LastSequence c \<le> wcur_LastSequence c'"
    unfolding evolves_def by blast
  with assms(2) show "\<exists>c'. wcur_at u n = Some c' \<and> wcur_LastSequence c \<le> wcur_LastSequence c'"
    unfolding evolves_def by (meson order.trans)
qed

text \<open>A delivery saved under its own deduplication key, as the service and the worker do.\<close>

definition own_key :: "delivery \<Rightarrow> bool" where
  "own_key d \<longleftrightarrow> trim_space (dlv_ID d) = trim_space (dlv_DedupKey d)"

locale notification_queue =
  fixes S :: "'s notif_store_ops"
    and valid :: "'s \<Rightarrow> bool"
    and dlv_at :: "'s \<Rightarrow> string \<Rightarrow> delivery option"
    and wcur_at :: "'s \<Rightarrow> string \<Rightarrow> worker_cursor option"
  assumes DeliveryByID: "nso_DeliveryByID S i s = notif_found_or (dlv_at s i) s"
    and WorkerCursorByName: "nso_WorkerCursorByName S n s = notif_found_or (wcur_at s n) s"
    and reads: "snd (nso_PreferenceByAccountID S i s) = s"
      "snd (nso_OverrideByConversationAndAccount S cv i s) = s"
      "snd (nso_PushTokenByID S i s) = s" "snd (nso_PushTokensByAccountID S i s) = s"
      "snd (nso_DeliveriesDue S before lim s) = s"
    and writes: "valid s \<Longrightarrow> nso_SavePreference S p s = (rp, s') \<Longrightarrow> valid s' \<and> evolves dlv_at wcur_at s s'"
      "valid s \<Longrightarrow> nso_SaveOverride S ov s = (ro, s') \<Longrightarrow> valid s' \<and> evolves dlv_at wcur_at s s'"
      "valid s \<Longrightarrow> nso_SavePushToken S t s = (rt, s') \<Longrightarrow> valid s' \<and> evolves dlv_at wcur_at s s'"
      "valid s \<Longrightarrow> nso_DeletePushToken S i s = (ru, s') \<Longrightarrow> valid s' \<and> evolves dlv_at wcur_at s s'"
      "valid s \<Longrightarrow> own_key d \<Longrightarrow> nso_SaveDelivery S d s = (rd, s') \<Longrightarrow>
         valid s' \<and> evolves dlv_at wcur_at s s'"
      "valid s \<Longrightarrow> nso_ClaimDeliveries S cl s = (rc, s') \<Longrightarrow> valid s' \<and> evolves dlv_at wcur_at s s'"
      "valid s \<Longrightarrow> nso_MarkDeliveryDelivered S md s = (rd, s') \<Longrightarrow>
         valid s' \<and> evolves dlv_at wcur_at s s'"
      "valid s \<Longrightarrow> nso_FailDelivery S fd s = (rd, s') \<Longrightarrow> valid s' \<and> evolves dlv_at wcur_at s s'"
      "valid s \<Longrightarrow> nso_RetryDelivery S rd' s = (rd, s') \<Longrightarrow> valid s' \<and> evolves dlv_at wcur_at s s'"
      "valid s \<Longrightarrow> nso_SaveWorkerCursor S wc s = (rw, s') \<Longrightarrow> valid s' \<and> evolves dlv_at wcur_at s s'"

text \<open>
  The part of the state that the fan-out reads: the settings and push tokens of the accounts.
\<close>

definition fanout_reads :: "'s notif_store_ops \<Rightarrow> 's \<Rightarrow> (string \<Rightarrow> error + preference) \<times>
    (string \<Rightarrow> string \<Rightarrow> error + conv_override) \<times> (string \<Rightarrow> error + push_token list)" where
  "fanout_reads S s =
     (\<lambda>i. fst (nso_PreferenceByAccountID S i s),
      \<lambda>cv i. fst (nso_OverrideByConversationAndAccount S cv i s),
      \<lambda>i. fst (nso_PushTokensByAccountID S i s))"

text \<open>
  What a replay of the fan-out needs besides: a save leads to a delivery with at least the
  attempts that were saved, and once there is one the same save only returns it; likewise for
  the cursor; and neither write changes what the fan-out reads.
\<close>

locale notification_fanout = notification_queue S valid dlv_at wcur_at
  for S :: "'s notif_store_ops" and valid dlv_at wcur_at +
  assumes saved_delivery: "valid s \<Longrightarrow> own_key d \<Longrightarrow> nso_SaveDelivery S d s = (Inr e, s') \<Longrightarrow>
      dlv_at s' (trim_space (dlv_ID d)) = Some e \<and> dlv_Attempts d \<le> dlv_Attempts e"
    and saved_again: "valid s \<Longrightarrow> own_key d \<Longrightarrow> nso_SaveDelivery S d t = (Inr x, t') \<Longrightarrow>
      dlv_at s (trim_space (dlv_ID d)) = Some e \<Longrightarrow> dlv_Attempts d \<le> dlv_Attempts e \<Longrightarrow>
      nso_SaveDelivery S d s = (Inr e, s)"
    and saved_cursor: "valid s \<Longrightarrow> nso_SaveWorkerCursor S wc s = (Inr c, s') \<Longrightarrow>
      wcur_Name c = norm_name (wcur_Name wc) \<and> wcur_at s' (wcur_Name c) = Some c \<and>
      wcur_LastSequence wc \<le> wcur_LastSequence c"
    and saved_cursor_again: "nso_SaveWorkerCursor S wc t = (Inr wx, t') \<Longrightarrow>
      wcur_at s (norm_name (wcur_Name wc)) = Some c \<Longrightarrow>
      wcur_LastSequence wc \<le> wcur_LastSequence c \<Longrightarrow> nso_SaveWorkerCursor S wc s = (Inr c, s)"
    and reads_apart: "nso_SaveDelivery S d s = (rd, s') \<Longrightarrow> fanout_reads S s' = fanout_reads S s"
      "nso_SaveWorkerCursor S wc s = (rw, s') \<Longrightarrow> fanout_reads S s' = fanout_reads S s"

end
