(* ===== verification/NotifMemory.thy ===== *)
theory NotifMemory
  imports NotifStore "HOL-Library.Product_Lexorder"
begin

section \<open>The in-memory notification store (\<open>internal/domain/notification/teststore/store.go\<close>)\<close>

text \<open>
  Nine Go maps behind a mutex. The lock makes each method a function of the state; a
  transaction runs on a clone that replaces the maps at the end, which is \<open>within_tx\<close>. \<open>clock\<close>
  is the reading of \<open>time.Now().UTC()\<close>. The set of token identifiers of an account is the list
  of its members in the order in which Go visits it.
\<close>

record nmem =
  preferencesByAccountID :: "(string, preference) gomap"
  overridesByKey :: "(string, conv_override) gomap"
  pushTokensByID :: "(string, push_token) gomap"
  pushTokenIDsByAccount :: "(string, string list) gomap"
  pushTokenIDsByDevice :: "(string, string) gomap"
  pushTokenIDsByToken :: "(string, string) gomap"
  deliveriesByID :: "(string, delivery) gomap"
  deliveryIDsByDedup :: "(string, string) gomap"
  workerCursorsByName :: "(string, worker_cursor) gomap"

definition nm_NewMemoryStore :: nmem where
  "nm_NewMemoryStore = \<lparr>preferencesByAccountID = [], overridesByKey = [], pushTokensByID = [],
     pushTokenIDsByAccount = [], pushTokenIDsByDevice = [], pushTokenIDsByToken = [],
     deliveriesByID = [], deliveryIDsByDedup = [], workerCursorsByName = []\<rparr>"

definition overrideKey :: "string \<Rightarrow> string \<Rightarrow> string" where
  "overrideKey conversationID accountID = conversationID @ '':'' @ accountID"

subsection \<open>Preferences and overrides\<close>

definition nm_SavePreference :: "time \<Rightarrow> preference \<Rightarrow> (nmem, preference) io" where
  "nm_SavePreference clock p0 = (\<lambda>s.
     case normalize_preference p0 clock of
       Inl e \<Rightarrow> (Inl e, s)
     | Inr p \<Rightarrow> (Inr p, s\<lparr>preferencesByAccountID := put (pref_AccountID p) p (preferencesByAccountID s)\<rparr>))"

definition nm_PreferenceByAccountID :: "string \<Rightarrow> (nmem, preference) io" where
  "nm_PreferenceByAccountID accountID = (\<lambda>s. notif_found_or (lookup (preferencesByAccountID s) accountID) s)"

definition nm_SaveOverride :: "time \<Rightarrow> conv_override \<Rightarrow> (nmem, conv_override) io" where
  "nm_SaveOverride clock o0 = (\<lambda>s.
     case normalize_override o0 clock of
       Inl e \<Rightarrow> (Inl e, s)
     | Inr ov \<Rightarrow> (Inr ov, s\<lparr>overridesByKey :=
         put (overrideKey (ovr_ConversationID ov) (ovr_AccountID ov)) ov (overridesByKey s)\<rparr>))"

definition nm_OverrideByConversationAndAccount :: "string \<Rightarrow> string \<Rightarrow> (nmem, conv_override) io" where
  "nm_OverrideByConversationAndAccount conversationID accountID = (\<lambda>s.
     notif_found_or (lookup (overridesByKey s) (overrideKey conversationID accountID)) s)"

subsection \<open>Push tokens\<close>

definition account_tokens :: "(string, string list) gomap \<Rightarrow> string \<Rightarrow> string list" where
  "account_tokens index accountID = (case lookup index accountID of Some ids \<Rightarrow> ids | None \<Rightarrow> [])"

text \<open>\<open>ensurePushAccountIndexLocked(accountID)[tokenID] = struct\{\}\{\}\<close>.\<close>

definition add_account_token :: "string \<Rightarrow> string \<Rightarrow> (string, string list) gomap \<Rightarrow>
    (string, string list) gomap" where
  "add_account_token accountID tokenID index =
     (let ids = account_tokens index accountID in
      put accountID (if tokenID \<in> set ids then ids else ids @ [tokenID]) index)"

definition drop_account_token :: "string \<Rightarrow> string \<Rightarrow> (string, string list) gomap \<Rightarrow>
    (string, string list) gomap" where
  "drop_account_token accountID tokenID index =
     (case lookup index accountID of
        None \<Rightarrow> index
      | Some ids \<Rightarrow>
          let ids' = List.filter (\<lambda>i. i \<noteq> tokenID) ids in
          if ids' = [] then remove accountID index else put accountID ids' index)"

definition deletePushTokenLocked :: "push_token \<Rightarrow> nmem \<Rightarrow> nmem" where
  "deletePushTokenLocked t s = s\<lparr>
     pushTokensByID := remove (tok_ID t) (pushTokensByID s),
     pushTokenIDsByDevice := remove (tok_DeviceID t) (pushTokenIDsByDevice s),
     pushTokenIDsByToken := remove (tok_Token t) (pushTokenIDsByToken s),
     pushTokenIDsByAccount := drop_account_token (tok_AccountID t) (tok_ID t) (pushTokenIDsByAccount s)\<rparr>"

definition zero_push_token :: push_token where
  "zero_push_token = \<lparr>tok_ID = [], tok_AccountID = [], tok_DeviceID = [], tok_Provider = [],
     tok_Token = [], tok_Platform = [], tok_Enabled = False, tok_CreatedAt = zero_time,
     tok_UpdatedAt = zero_time, tok_RevokedAt = zero_time\<rparr>"

text \<open>The token an index entry of another identifier leads to; a dangling entry reads as zero.\<close>

definition other_token :: "(string, string) gomap \<Rightarrow> string \<Rightarrow> string \<Rightarrow> nmem \<Rightarrow> push_token option" where
  "other_token index key own s =
     (case lookup index key of
        None \<Rightarrow> None
      | Some existingID \<Rightarrow>
          if existingID = own then None
          else Some (case lookup (pushTokensByID s) existingID of
              Some t \<Rightarrow> t | None \<Rightarrow> zero_push_token))"

definition store_push_token :: "push_token \<Rightarrow> nmem \<Rightarrow> nmem" where
  "store_push_token t s0 =
     (let s = (case lookup (pushTokensByID s0) (tok_ID t) of
         Some previous \<Rightarrow> deletePushTokenLocked previous s0 | None \<Rightarrow> s0)
      in s\<lparr>pushTokensByID := put (tok_ID t) t (pushTokensByID s),
        pushTokenIDsByAccount := add_account_token (tok_AccountID t) (tok_ID t) (pushTokenIDsByAccount s),
        pushTokenIDsByDevice := put (tok_DeviceID t) (tok_ID t) (pushTokenIDsByDevice s),
        pushTokenIDsByToken := put (tok_Token t) (tok_ID t) (pushTokenIDsByToken s)\<rparr>)"

text \<open>
  The device check may already have deleted the device's former token when the token check
  rejects the registration; the deletion stays.
\<close>

definition nm_SavePushToken :: "time \<Rightarrow> push_token \<Rightarrow> (nmem, push_token) io" where
  "nm_SavePushToken clock t0 = (\<lambda>s.
     case normalize_push_token t0 clock of
       Inl e \<Rightarrow> (Inl e, s)
     | Inr t \<Rightarrow>
         let onDevice = other_token (pushTokenIDsByDevice s) (tok_DeviceID t) (tok_ID t) s in
         if (case onDevice of None \<Rightarrow> False | Some e \<Rightarrow> tok_AccountID e \<noteq> tok_AccountID t)
         then (Inl NotifErrConflict, s)
         else let s1 = (case onDevice of None \<Rightarrow> s | Some e \<Rightarrow> deletePushTokenLocked e s);
             sameToken = other_token (pushTokenIDsByToken s1) (tok_Token t) (tok_ID t) s1 in
         if (case sameToken of None \<Rightarrow> False
             | Some e \<Rightarrow> tok_AccountID e \<noteq> tok_AccountID t \<or> tok_DeviceID e \<noteq> tok_DeviceID t)
         then (Inl NotifErrConflict, s1)
         else let s2 = (case sameToken of None \<Rightarrow> s1 | Some e \<Rightarrow> deletePushTokenLocked e s1)
           in (Inr t, store_push_token t s2))"

definition nm_PushTokenByID :: "string \<Rightarrow> (nmem, push_token) io" where
  "nm_PushTokenByID tokenID = (\<lambda>s. notif_found_or (lookup (pushTokensByID s) tokenID) s)"

definition nm_PushTokensByAccountID :: "string \<Rightarrow> (nmem, push_token list) io" where
  "nm_PushTokensByAccountID accountID = (\<lambda>s.
     let tokenIDs = account_tokens (pushTokenIDsByAccount s) accountID in
     if tokenIDs = [] then (Inr [], s)
     else (Inr (sort_key (\<lambda>t. (tok_CreatedAt t, tok_ID t))
        (List.filter (\<lambda>t. tok_Enabled t \<and> tok_RevokedAt t = zero_time)
          (List.map_filter (lookup (pushTokensByID s)) tokenIDs))), s))"

definition nm_DeletePushToken :: "string \<Rightarrow> (nmem, unit) io" where
  "nm_DeletePushToken tokenID = (\<lambda>s.
     case lookup (pushTokensByID s) tokenID of
       None \<Rightarrow> (Inl NotifErrNotFound, s)
     | Some t \<Rightarrow> (Inr (), deletePushTokenLocked t s))"

subsection \<open>Deliveries\<close>

definition put_delivery :: "delivery \<Rightarrow> (string, string) gomap \<Rightarrow> nmem \<Rightarrow> nmem" where
  "put_delivery d index s = s\<lparr>deliveriesByID := put (dlv_ID d) d (deliveriesByID s),
     deliveryIDsByDedup := put (dlv_DedupKey d) (dlv_ID d) index\<rparr>"

definition nm_SaveDelivery :: "time \<Rightarrow> delivery \<Rightarrow> (nmem, delivery) io" where
  "nm_SaveDelivery clock d0 = (\<lambda>s.
     case normalize_delivery d0 clock of
       Inl e \<Rightarrow> (Inl e, s)
     | Inr d \<Rightarrow>
         (case lookup (deliveryIDsByDedup s) (dlv_DedupKey d) of
            Some existingID \<Rightarrow>
              if existingID \<noteq> [] then
                (case lookup (deliveriesByID s) existingID of
                   Some existing \<Rightarrow>
                     if dlv_Attempts d \<le> dlv_Attempts existing then (Inr existing, s)
                     else let d' = d\<lparr>dlv_ID := dlv_ID existing\<rparr>
                       in (Inr d', put_delivery d' (deliveryIDsByDedup s) s)
                 | None \<Rightarrow> (Inr d, put_delivery d (deliveryIDsByDedup s) s))
              else (Inr d, put_delivery d (case lookup (deliveriesByID s) (dlv_ID d) of
                  Some previous \<Rightarrow> remove (dlv_DedupKey previous) (deliveryIDsByDedup s)
                | None \<Rightarrow> deliveryIDsByDedup s) s)
          | None \<Rightarrow> (Inr d, put_delivery d (case lookup (deliveriesByID s) (dlv_ID d) of
                  Some previous \<Rightarrow> remove (dlv_DedupKey previous) (deliveryIDsByDedup s)
                | None \<Rightarrow> deliveryIDsByDedup s) s)))"

definition nm_DeliveryByID :: "string \<Rightarrow> (nmem, delivery) io" where
  "nm_DeliveryByID deliveryID = (\<lambda>s. notif_found_or (lookup (deliveriesByID s) deliveryID) s)"

definition delivery_order :: "delivery \<Rightarrow> int \<times> time \<times> time \<times> string" where
  "delivery_order d = (- dlv_Priority d, dlv_NextAttemptAt d, dlv_CreatedAt d, dlv_ID d)"

definition due_batch :: "time \<Rightarrow> int \<Rightarrow> nmem \<Rightarrow> delivery list" where
  "due_batch at limit s = take (nat limit) (sort_key delivery_order
     (List.filter (delivery_due at) (entries (deliveriesByID s))))"

definition nm_DeliveriesDue :: "time \<Rightarrow> int \<Rightarrow> (nmem, delivery list) io" where
  "nm_DeliveriesDue before limit = (\<lambda>s.
     if limit \<le> 0 then (Inr [], s) else (Inr (due_batch before limit s), s))"

definition nm_ClaimDeliveries :: "time \<Rightarrow> claim_deliveries_params \<Rightarrow> (nmem, delivery list) io" where
  "nm_ClaimDeliveries clock p = (\<lambda>s.
     if cdp_Limit p \<le> 0 then (Inr [], s)
     else let claimTime = or_time (cdp_Before p) clock in
     if cdp_LeaseToken p = [] \<or> cdp_LeaseDuration p \<le> 0 then (Inl NotifErrInvalidInput, s)
     else let claimed = List.map
         (claimed_delivery (cdp_LeaseToken p) (claimTime + cdp_LeaseDuration p) claimTime)
         (due_batch claimTime (cdp_Limit p) s)
       in (Inr claimed, s\<lparr>deliveriesByID := put_all dlv_ID claimed (deliveriesByID s)\<rparr>))"

definition lockedDeliveryForLeaseAt ::
    "time \<Rightarrow> string \<Rightarrow> string \<Rightarrow> time \<Rightarrow> nmem \<Rightarrow> error + delivery" where
  "lockedDeliveryForLeaseAt clock deliveryID leaseToken at s =
     (case lookup (deliveriesByID s) deliveryID of
        None \<Rightarrow> Inl NotifErrNotFound
      | Some d \<Rightarrow> lease_guard leaseToken (or_time at clock) d)"

definition nm_MarkDeliveryDelivered :: "time \<Rightarrow> mark_delivered_params \<Rightarrow> (nmem, delivery) io" where
  "nm_MarkDeliveryDelivered clock p = (\<lambda>s.
     let now = or_time (mdp_DeliveredAt p) clock in
     case lockedDeliveryForLeaseAt clock (mdp_DeliveryID p) (mdp_LeaseToken p) now s of
       Inl e \<Rightarrow> (Inl e, s)
     | Inr d \<Rightarrow> let d' = delivered_delivery now d
         in (Inr d', s\<lparr>deliveriesByID := put (dlv_ID d') d' (deliveriesByID s)\<rparr>))"

definition nm_FailDelivery :: "time \<Rightarrow> fail_delivery_params \<Rightarrow> (nmem, delivery) io" where
  "nm_FailDelivery clock p = (\<lambda>s.
     let now = or_time (fdp_FailedAt p) clock in
     case lockedDeliveryForLeaseAt clock (fdp_DeliveryID p) (fdp_LeaseToken p) now s of
       Inl e \<Rightarrow> (Inl e, s)
     | Inr d \<Rightarrow> let d' = failed_delivery (fdp_LastError p) now d
         in (Inr d', s\<lparr>deliveriesByID := put (dlv_ID d') d' (deliveriesByID s)\<rparr>))"

definition nm_RetryDelivery :: "time \<Rightarrow> retry_delivery_params \<Rightarrow> (nmem, delivery) io" where
  "nm_RetryDelivery clock p = (\<lambda>s.
     case lookup (deliveriesByID s) (rdp_DeliveryID p) of
       None \<Rightarrow> (Inl NotifErrNotFound, s)
     | Some d0 \<Rightarrow>
         (case (if rdp_LeaseToken p \<noteq> []
             then lockedDeliveryForLeaseAt clock (rdp_DeliveryID p) (rdp_LeaseToken p)
               (rdp_AttemptedAt p) s
             else Inr d0) of
            Inl e \<Rightarrow> (Inl e, s)
          | Inr d \<Rightarrow>
              if delivery_terminal d then (Inl NotifErrConflict, s)
              else let d' = retried_delivery p (or_time (rdp_AttemptedAt p) clock) d
                in (Inr d', put_delivery d' (deliveryIDsByDedup s) s)))"

subsection \<open>Worker cursors\<close>

definition nm_SaveWorkerCursor :: "time \<Rightarrow> worker_cursor \<Rightarrow> (nmem, worker_cursor) io" where
  "nm_SaveWorkerCursor clock c0 = (\<lambda>s.
     case normalize_worker_cursor c0 clock of
       Inl e \<Rightarrow> (Inl e, s)
     | Inr c \<Rightarrow>
         (case lookup (workerCursorsByName s) (wcur_Name c) of
            Some existing \<Rightarrow>
              if wcur_LastSequence c \<le> wcur_LastSequence existing then (Inr existing, s)
              else (Inr c, s\<lparr>workerCursorsByName := put (wcur_Name c) c (workerCursorsByName s)\<rparr>)
          | None \<Rightarrow> (Inr c, s\<lparr>workerCursorsByName := put (wcur_Name c) c (workerCursorsByName s)\<rparr>)))"

definition nm_WorkerCursorByName :: "string \<Rightarrow> (nmem, worker_cursor) io" where
  "nm_WorkerCursorByName name = (\<lambda>s. notif_found_or (lookup (workerCursorsByName s) name) s)"

definition notif_memory :: "time \<Rightarrow> nmem notif_store_ops" where
  "notif_memory clock = \<lparr>
     nso_SavePreference = nm_SavePreference clock,
     nso_PreferenceByAccountID = nm_PreferenceByAccountID,
     nso_SaveOverride = nm_SaveOverride clock,
     nso_OverrideByConversationAndAccount = nm_OverrideByConversationAndAccount,
     nso_SavePushToken = nm_SavePushToken clock,
     nso_PushTokenByID = nm_PushTokenByID,
     nso_PushTokensByAccountID = nm_PushTokensByAccountID,
     nso_DeletePushToken = nm_DeletePushToken,
     nso_SaveDelivery = nm_SaveDelivery clock,
     nso_DeliveryByID = nm_DeliveryByID,
     nso_DeliveriesDue = nm_DeliveriesDue,
     nso_ClaimDeliveries = nm_ClaimDeliveries clock,
     nso_MarkDeliveryDelivered = nm_MarkDeliveryDelivered clock,
     nso_FailDelivery = nm_FailDelivery clock,
     nso_RetryDelivery = nm_RetryDelivery clock,
     nso_SaveWorkerCursor = nm_SaveWorkerCursor clock,
     nso_WorkerCursorByName = nm_WorkerCursorByName\<rparr>"

end
