(* ===== verification/NotifMemoryProps.thy ===== *)
theory NotifMemoryProps
  imports NotifMemory
begin

section \<open>What the in-memory notification store keeps\<close>

text \<open>
  Sound states: every map holds its records under their key, the device, token and account
  indexes agree with the push tokens, and the index of deduplication keys with the deliveries.
  Every writing method keeps them sound, whether it succeeds or fails.
\<close>

subsection \<open>Push tokens\<close>

definition account_index_ok :: "nmem \<Rightarrow> bool" where
  "account_index_ok s \<longleftrightarrow>
     (\<forall>a. lookup (pushTokenIDsByAccount s) a \<noteq> Some [] \<and> distinct (account_tokens (pushTokenIDsByAccount s) a)) \<and>
     (\<forall>a i. i \<in> set (account_tokens (pushTokenIDsByAccount s) a) \<longleftrightarrow>
        (\<exists>t. lookup (pushTokensByID s) i = Some t \<and> tok_AccountID t = a))"

definition tokens_ok :: "nmem \<Rightarrow> bool" where
  "tokens_ok s \<longleftrightarrow> keyed_by tok_ID (\<lambda>t. tok_AccountID t \<noteq> []) (pushTokensByID s) \<and>
     exact_index tok_DeviceID (pushTokenIDsByDevice s) (pushTokensByID s) \<and>
     exact_index tok_Token (pushTokenIDsByToken s) (pushTokensByID s) \<and> account_index_ok s"

lemma normalize_push_token_account: "normalize_push_token t now = Inr u \<Longrightarrow> tok_AccountID u \<noteq> []"
  by (auto simp: normalize_push_token_def Let_def split: if_splits)

lemma account_tokens_drop:
  "account_tokens (drop_account_token a i index) b =
     (if b = a then List.filter (\<lambda>j. j \<noteq> i) (account_tokens index a) else account_tokens index b)"
  by (cases "lookup index a") (simp_all add: drop_account_token_def account_tokens_def Let_def)

lemma account_tokens_add:
  "account_tokens (add_account_token a i index) b =
     (if b = a then (if i \<in> set (account_tokens index a) then account_tokens index a
        else account_tokens index a @ [i]) else account_tokens index b)"
  by (cases "lookup index a") (auto simp: add_account_token_def account_tokens_def Let_def)

lemma account_index_nonempty:
  assumes "lookup index b \<noteq> Some []"
  shows "lookup (drop_account_token a i index) b \<noteq> Some []"
    "lookup (add_account_token a i index) b \<noteq> Some []"
  using assms
  by (cases "lookup index a"; simp add: drop_account_token_def Let_def)
    (use assms in \<open>auto simp: add_account_token_def account_tokens_def Let_def split: option.split\<close>)

lemma delete_token_ok:
  assumes "tokens_ok s" "lookup (pushTokensByID s) (tok_ID t) = Some t"
  shows "tokens_ok (deletePushTokenLocked t s)"
proof -
  have acc: "account_index_ok s" using assms(1) by (simp add: tokens_ok_def)
  have "account_index_ok (deletePushTokenLocked t s)"
    using acc assms(2)
    by (auto simp: account_index_ok_def deletePushTokenLocked_def account_tokens_drop
        account_index_nonempty)
  with assms show ?thesis
    by (auto simp: tokens_ok_def deletePushTokenLocked_def intro: exact_index_remove)
qed

lemma other_token_Some:
  assumes "exact_index key index (pushTokensByID s)" "keyed_by tok_ID P (pushTokensByID s)"
    and "other_token index k own s = Some e"
  shows "lookup (pushTokensByID s) (tok_ID e) = Some e" "key e = k" "tok_ID e \<noteq> own"
proof -
  from assms(3) obtain i where i: "lookup index k = Some i" "i \<noteq> own"
    and e: "e = (case lookup (pushTokensByID s) i of Some t \<Rightarrow> t | None \<Rightarrow> zero_push_token)"
    by (auto simp: other_token_def split: option.splits if_splits)
  from exact_index_lookup [OF assms(1) i(1)] obtain v where v: "lookup (pushTokensByID s) i = Some v"
    "key v = k" by blast
  with keyed_byD [OF assms(2) v(1)] i(2) e
  show "lookup (pushTokensByID s) (tok_ID e) = Some e" "key e = k" "tok_ID e \<noteq> own" by auto
qed

lemma other_token_None:
  "other_token index k own s = None \<Longrightarrow> \<not> taken_by_other index k own"
  by (auto simp: other_token_def taken_by_other_def split: option.splits if_splits)

lemma other_token_freed:
  assumes "exact_index key index (pushTokensByID s)" "keyed_by tok_ID P (pushTokensByID s)"
  shows "\<not> taken_by_other (case other_token index k own s of None \<Rightarrow> index
      | Some e \<Rightarrow> remove (key e) index) k own"
proof (cases "other_token index k own s")
  case None
  with other_token_None [of index k own s] show ?thesis by simp
next
  case (Some e)
  with other_token_Some(2) [OF assms Some] show ?thesis by (simp add: taken_by_other_def)
qed

lemma store_token_ok:
  assumes "tokens_ok s" "tok_AccountID t \<noteq> []"
    and "\<not> taken_by_other (pushTokenIDsByDevice s) (tok_DeviceID t) (tok_ID t)"
    and "\<not> taken_by_other (pushTokenIDsByToken s) (tok_Token t) (tok_ID t)"
  shows "tokens_ok (store_push_token t s)"
proof -
  define s1 where "s1 = (case lookup (pushTokensByID s) (tok_ID t) of
      Some previous \<Rightarrow> deletePushTokenLocked previous s | None \<Rightarrow> s)"
  have ok1: "tokens_ok s1" and gone: "lookup (pushTokensByID s1) (tok_ID t) = None"
    and free: "\<not> taken_by_other (pushTokenIDsByDevice s1) (tok_DeviceID t) (tok_ID t)"
      "\<not> taken_by_other (pushTokenIDsByToken s1) (tok_Token t) (tok_ID t)"
  proof -
    show "tokens_ok s1"
      using assms(1) delete_token_ok [OF assms(1)] keyed_byD(1) [of tok_ID _ "pushTokensByID s"]
      by (auto simp: s1_def tokens_ok_def split: option.split)
    show "lookup (pushTokensByID s1) (tok_ID t) = None"
      using assms(1) keyed_byD(1) [of tok_ID _ "pushTokensByID s"]
      by (auto simp: s1_def deletePushTokenLocked_def tokens_ok_def split: option.split)
    show "\<not> taken_by_other (pushTokenIDsByDevice s1) (tok_DeviceID t) (tok_ID t)"
      "\<not> taken_by_other (pushTokenIDsByToken s1) (tok_Token t) (tok_ID t)"
      using assms(3,4)
      by (auto simp: s1_def deletePushTokenLocked_def taken_by_other_def split: option.splits if_splits)
  qed
  have s': "store_push_token t s = s1\<lparr>pushTokensByID := put (tok_ID t) t (pushTokensByID s1),
      pushTokenIDsByAccount := add_account_token (tok_AccountID t) (tok_ID t) (pushTokenIDsByAccount s1),
      pushTokenIDsByDevice := put (tok_DeviceID t) (tok_ID t) (pushTokenIDsByDevice s1),
      pushTokenIDsByToken := put (tok_Token t) (tok_ID t) (pushTokenIDsByToken s1)\<rparr>"
    by (simp add: store_push_token_def s1_def Let_def)
  have acc: "account_index_ok s1" using ok1 by (simp add: tokens_ok_def)
  have "account_index_ok (store_push_token t s)"
    using acc gone
    by (auto simp: account_index_ok_def s' account_tokens_add account_index_nonempty)
  then show ?thesis
    using ok1 gone free assms(2)
    by (auto simp: tokens_ok_def s' intro: exact_index_insert keyed_by_put)
qed

lemma SavePushToken_tokens:
  assumes "tokens_ok s" "nm_SavePushToken clock t0 s = (r, s')"
  shows "tokens_ok s'"
proof (cases "normalize_push_token t0 clock")
  case (Inl e)
  with assms show ?thesis by (simp add: nm_SavePushToken_def)
next
  case (Inr t)
  define onDevice where "onDevice = other_token (pushTokenIDsByDevice s) (tok_DeviceID t) (tok_ID t) s"
  define s1 where "s1 = (case onDevice of None \<Rightarrow> s | Some e \<Rightarrow> deletePushTokenLocked e s)"
  define sameToken where "sameToken = other_token (pushTokenIDsByToken s1) (tok_Token t) (tok_ID t) s1"
  define s2 where "s2 = (case sameToken of None \<Rightarrow> s1 | Some e \<Rightarrow> deletePushTokenLocked e s1)"
  note tokens_okD = assms(1) [unfolded tokens_ok_def]
  have ok1: "tokens_ok s1"
    using assms(1) tokens_okD other_token_Some(1)
    by (auto simp: s1_def onDevice_def intro!: delete_token_ok split: option.split)
  have free1: "\<not> taken_by_other (pushTokenIDsByDevice s1) (tok_DeviceID t) (tok_ID t)"
  proof -
    have "pushTokenIDsByDevice s1 = (case onDevice of None \<Rightarrow> pushTokenIDsByDevice s
        | Some e \<Rightarrow> remove (tok_DeviceID e) (pushTokenIDsByDevice s))"
      by (simp add: s1_def deletePushTokenLocked_def split: option.split)
    then show ?thesis using other_token_freed [of tok_DeviceID _ s] tokens_okD
      by (metis onDevice_def)
  qed
  have ok2: "tokens_ok s2"
    using ok1 ok1 [unfolded tokens_ok_def] other_token_Some(1)
    by (auto simp: s2_def sameToken_def intro!: delete_token_ok split: option.split)
  have free2: "\<not> taken_by_other (pushTokenIDsByDevice s2) (tok_DeviceID t) (tok_ID t)"
    using free1 by (auto simp: s2_def deletePushTokenLocked_def taken_by_other_def split: option.splits)
  have free3: "\<not> taken_by_other (pushTokenIDsByToken s2) (tok_Token t) (tok_ID t)"
  proof -
    have "pushTokenIDsByToken s2 = (case sameToken of None \<Rightarrow> pushTokenIDsByToken s1
        | Some e \<Rightarrow> remove (tok_Token e) (pushTokenIDsByToken s1))"
      by (simp add: s2_def deletePushTokenLocked_def split: option.split)
    then show ?thesis using other_token_freed [of tok_Token _ s1] ok1 [unfolded tokens_ok_def]
      by (metis sameToken_def)
  qed
  have "s' = s \<or> s' = s1 \<or> s' = store_push_token t s2"
    using assms(2) by (auto simp: nm_SavePushToken_def Inr Let_def split: if_splits
        simp flip: onDevice_def s1_def sameToken_def s2_def)
  with assms(1) ok1 store_token_ok [OF ok2 normalize_push_token_account [OF Inr] free2 free3]
  show ?thesis by auto
qed

lemma DeletePushToken_tokens:
  assumes "tokens_ok s" "nm_DeletePushToken i s = (r, s')"
  shows "tokens_ok s'"
proof (cases "lookup (pushTokensByID s) i")
  case None
  with assms show ?thesis by (simp add: nm_DeletePushToken_def)
next
  case (Some t)
  have "tok_ID t = i" using assms(1) Some by (auto simp: tokens_ok_def dest: keyed_byD(1))
  with assms Some delete_token_ok [OF assms(1), of t] show ?thesis by (simp add: nm_DeletePushToken_def)
qed

subsection \<open>Deliveries\<close>

abbreviation delivery_sound :: "delivery \<Rightarrow> bool" where
  "delivery_sound d \<equiv> dlv_ID d \<noteq> [] \<and> trim_space (dlv_ID d) = dlv_ID d \<and> 0 \<le> dlv_Attempts d"

definition deliveries_ok :: "nmem \<Rightarrow> bool" where
  "deliveries_ok s \<longleftrightarrow> keyed_by dlv_ID delivery_sound (deliveriesByID s) \<and>
     exact_index dlv_DedupKey (deliveryIDsByDedup s) (deliveriesByID s)"

lemma normalize_delivery_shape:
  assumes "normalize_delivery d now = Inr e"
  shows "dlv_ID e = trim_space (dlv_ID d)" "dlv_DedupKey e = trim_space (dlv_DedupKey d)"
    "dlv_ID e \<noteq> []" "dlv_Attempts e = max 0 (dlv_Attempts d)"
    "dlv_State e = (if dlv_State d = [] then DeliveryStateQueued else dlv_State d)"
    "trim_space (dlv_ID e) = dlv_ID e"
  using assms unfolding normalize_delivery_def Let_def io_inv by auto

lemma deliveries_okD:
  assumes "deliveries_ok s" "lookup (deliveriesByID s) i = Some d"
  shows "dlv_ID d = i" "i \<noteq> []" "0 \<le> dlv_Attempts d" "trim_space i = i"
  using assms keyed_byD [of dlv_ID] by (fastforce simp: deliveries_ok_def)+

lemma update_delivery_ok:
  assumes "deliveries_ok s" "lookup (deliveriesByID s) i = Some d" "dlv_ID d' = i"
    and "dlv_DedupKey d' = dlv_DedupKey d" "0 \<le> dlv_Attempts d'"
  shows "deliveries_ok (s\<lparr>deliveriesByID := put i d' (deliveriesByID s)\<rparr>)"
  using assms deliveries_okD [OF assms(1,2)]
  by (auto simp: deliveries_ok_def intro: exact_index_replace)

text \<open>What saving a delivery does in a sound state.\<close>

lemma SaveDelivery_sound:
  assumes "deliveries_ok s" "normalize_delivery d0 clock = Inr d"
  shows "nm_SaveDelivery clock d0 s =
    (case lookup (deliveryIDsByDedup s) (dlv_DedupKey d) of
       Some i \<Rightarrow> let existing = the (lookup (deliveriesByID s) i) in
         if dlv_Attempts d \<le> dlv_Attempts existing then (Inr existing, s)
         else (Inr (d\<lparr>dlv_ID := i\<rparr>), put_delivery (d\<lparr>dlv_ID := i\<rparr>) (deliveryIDsByDedup s) s)
     | None \<Rightarrow> (Inr d, put_delivery d (case lookup (deliveriesByID s) (dlv_ID d) of
           Some previous \<Rightarrow> remove (dlv_DedupKey previous) (deliveryIDsByDedup s)
         | None \<Rightarrow> deliveryIDsByDedup s) s))"
proof (cases "lookup (deliveryIDsByDedup s) (dlv_DedupKey d)")
  case None
  then show ?thesis by (simp add: nm_SaveDelivery_def assms(2))
next
  case (Some i)
  from assms(1) Some obtain e where "lookup (deliveriesByID s) i = Some e"
    by (auto simp: deliveries_ok_def dest: exact_index_lookup)
  with deliveries_okD [OF assms(1) this] show ?thesis
    by (simp add: nm_SaveDelivery_def assms(2) Some Let_def)
qed

lemma put_delivery_ok:
  assumes "deliveries_ok s" "dlv_ID d \<noteq> []" "trim_space (dlv_ID d) = dlv_ID d" "0 \<le> dlv_Attempts d"
  shows "lookup (deliveryIDsByDedup s) (dlv_DedupKey d) = None \<Longrightarrow>
      deliveries_ok (put_delivery d (case lookup (deliveriesByID s) (dlv_ID d) of
           Some previous \<Rightarrow> remove (dlv_DedupKey previous) (deliveryIDsByDedup s)
         | None \<Rightarrow> deliveryIDsByDedup s) s)"
    and "lookup (deliveryIDsByDedup s) (dlv_DedupKey d) = Some (dlv_ID d) \<Longrightarrow>
      deliveries_ok (put_delivery d (deliveryIDsByDedup s) s)"
proof -
  let ?vals = "deliveriesByID s" and ?index = "deliveryIDsByDedup s"
  have ix: "exact_index dlv_DedupKey ?index ?vals" using assms(1) by (simp add: deliveries_ok_def)
  have free: "lookup ?index (dlv_DedupKey d) \<in> {None, Some (dlv_ID d)} \<Longrightarrow>
      \<not> taken_by_other ?index (dlv_DedupKey d) (dlv_ID d)"
    by (auto simp: taken_by_other_def)
  show "deliveries_ok (put_delivery d (case lookup ?vals (dlv_ID d) of
           Some previous \<Rightarrow> remove (dlv_DedupKey previous) ?index | None \<Rightarrow> ?index) s)"
    if "lookup ?index (dlv_DedupKey d) = None"
    using exact_index_put [OF ix free] that assms
    by (auto simp: deliveries_ok_def put_delivery_def)
  show "deliveries_ok (put_delivery d ?index s)" if "lookup ?index (dlv_DedupKey d) = Some (dlv_ID d)"
  proof -
    from exact_index_lookup [OF ix that] obtain e where e: "lookup ?vals (dlv_ID d) = Some e"
      "dlv_DedupKey e = dlv_DedupKey d" by blast
    have "exact_index dlv_DedupKey (put (dlv_DedupKey d) (dlv_ID d) ?index) (put (dlv_ID d) d ?vals)"
      by (rule exact_index_cong [OF _ exact_index_replace [OF ix e(1)]]) (use that e(2) in auto)
    with assms show ?thesis by (auto simp: deliveries_ok_def put_delivery_def)
  qed
qed

lemma SaveDelivery_ok:
  assumes "deliveries_ok s" "nm_SaveDelivery clock d0 s = (r, s')"
  shows "deliveries_ok s'"
proof (cases "normalize_delivery d0 clock")
  case (Inl e)
  with assms show ?thesis by (simp add: nm_SaveDelivery_def)
next
  case (Inr d)
  note shape = normalize_delivery_shape [OF Inr]
  have attempts: "0 \<le> dlv_Attempts d" by (simp add: shape(4))
  have named: "i \<noteq> [] \<and> trim_space i = i" if "lookup (deliveryIDsByDedup s) k = Some i" for k i
  proof -
    from assms(1) that obtain e where "lookup (deliveriesByID s) i = Some e"
      by (auto simp: deliveries_ok_def dest: exact_index_lookup)
    then show ?thesis using deliveries_okD(2,4) [OF assms(1)] by blast
  qed
  show ?thesis
    using assms(2) SaveDelivery_sound [OF assms(1) Inr] put_delivery_ok(1) [OF assms(1) shape(3,6) attempts]
      put_delivery_ok(2) [OF assms(1), of "d\<lparr>dlv_ID := i\<rparr>" for i] attempts named assms(1)
    by (auto simp: Let_def split: option.splits if_splits)
qed

subsection \<open>The memory store keeps the contract of the queue\<close>

definition queue_ok :: "nmem \<Rightarrow> bool" where
  "queue_ok s \<longleftrightarrow> deliveries_ok s \<and> tokens_ok s \<and>
     (\<forall>i d. lookup (deliveriesByID s) i = Some d \<longrightarrow> dlv_DedupKey d = i) \<and>
     keyed_by wcur_Name (\<lambda>c. True) (workerCursorsByName s)"

abbreviation delivery_at :: "nmem \<Rightarrow> string \<Rightarrow> delivery option" where
  "delivery_at s \<equiv> lookup (deliveriesByID s)"

abbreviation worker_cursor_at :: "nmem \<Rightarrow> string \<Rightarrow> worker_cursor option" where
  "worker_cursor_at s \<equiv> lookup (workerCursorsByName s)"

abbreviation nm_evolves :: "nmem \<Rightarrow> nmem \<Rightarrow> bool" where
  "nm_evolves \<equiv> evolves delivery_at worker_cursor_at"

lemma queue_ok_New: "queue_ok nm_NewMemoryStore"
  by (simp add: queue_ok_def deliveries_ok_def tokens_ok_def account_index_ok_def
      nm_NewMemoryStore_def account_tokens_def)

text \<open>A step that only touches other maps.\<close>

lemma queue_untouched:
  assumes "queue_ok s" "tokens_ok s'" "deliveriesByID s' = deliveriesByID s"
    and "deliveryIDsByDedup s' = deliveryIDsByDedup s" "workerCursorsByName s' = workerCursorsByName s"
  shows "queue_ok s' \<and> nm_evolves s s'"
  using assms by (auto simp: queue_ok_def deliveries_ok_def evolves_def)

lemma tokens_untouched:
  "tokens_ok s \<Longrightarrow> pushTokensByID s' = pushTokensByID s \<Longrightarrow>
   pushTokenIDsByAccount s' = pushTokenIDsByAccount s \<Longrightarrow>
   pushTokenIDsByDevice s' = pushTokenIDsByDevice s \<Longrightarrow>
   pushTokenIDsByToken s' = pushTokenIDsByToken s \<Longrightarrow> tokens_ok s'"
  by (simp add: tokens_ok_def account_index_ok_def)

lemma delete_token_queue:
  "deliveriesByID (deletePushTokenLocked t s) = deliveriesByID s"
  "deliveryIDsByDedup (deletePushTokenLocked t s) = deliveryIDsByDedup s"
  "workerCursorsByName (deletePushTokenLocked t s) = workerCursorsByName s"
  by (simp_all add: deletePushTokenLocked_def)

lemma store_token_queue:
  "deliveriesByID (store_push_token t s) = deliveriesByID s"
  "deliveryIDsByDedup (store_push_token t s) = deliveryIDsByDedup s"
  "workerCursorsByName (store_push_token t s) = workerCursorsByName s"
  by (simp_all add: store_push_token_def Let_def delete_token_queue split: option.split)

lemma SavePushToken_queue:
  assumes "nm_SavePushToken clock t s = (r, s')"
  shows "deliveriesByID s' = deliveriesByID s" "deliveryIDsByDedup s' = deliveryIDsByDedup s"
    "workerCursorsByName s' = workerCursorsByName s"
  using assms by (auto simp: nm_SavePushToken_def Let_def delete_token_queue store_token_queue
      split: sum.splits option.splits if_splits)

lemma DeletePushToken_queue:
  assumes "nm_DeletePushToken i s = (r, s')"
  shows "deliveriesByID s' = deliveriesByID s" "deliveryIDsByDedup s' = deliveryIDsByDedup s"
    "workerCursorsByName s' = workerCursorsByName s"
  using assms by (auto simp: nm_DeletePushToken_def delete_token_queue split: option.splits)

text \<open>A step of one delivery.\<close>

lemma update_delivery_queue:
  assumes "queue_ok s" "delivery_at s i = Some d" "delivery_step d d'" "0 \<le> dlv_Attempts d'"
    and "s' = s\<lparr>deliveriesByID := put i d' (deliveriesByID s)\<rparr>"
  shows "queue_ok s' \<and> nm_evolves s s'"
proof -
  have ok: "deliveries_ok s" using assms(1) by (simp add: queue_ok_def)
  have later: "dlv_ID d' = dlv_ID d" "dlv_DedupKey d' = dlv_DedupKey d"
    using delivery_step_later [OF assms(3)] by (simp_all add: delivery_later_def)
  have "deliveries_ok s'"
    unfolding assms(5) using deliveries_okD(1) [OF ok assms(2)] later assms(4)
    by (intro update_delivery_ok [OF ok assms(2)]) auto
  moreover have "nm_evolves s s'"
    using assms(2,3) by (auto simp: evolves_def assms(5))
  moreover have "tokens_ok s'"
    by (rule tokens_untouched [of s]) (use assms(1) in \<open>simp_all add: assms(5) queue_ok_def\<close>)
  ultimately show ?thesis
    using assms(1,2) later by (auto simp: queue_ok_def assms(5))
qed

lemma lease_guard_Inr: "lease_guard token now d = Inr e \<Longrightarrow> e = d \<and> dlv_State d = DeliveryStateQueued"
  by (auto simp: lease_guard_def split: if_splits)

lemma lockedDelivery_Inr:
  "lockedDeliveryForLeaseAt clock i token at s = Inr d \<Longrightarrow>
     delivery_at s i = Some d \<and> dlv_State d = DeliveryStateQueued"
  by (auto simp: lockedDeliveryForLeaseAt_def dest!: lease_guard_Inr split: option.splits)

lemma finish_queue:
  assumes "queue_ok s" "delivery_at s i = Some d" "delivery_step d d'"
    and "dlv_Attempts d' = dlv_Attempts d + 1"
  shows "queue_ok (s\<lparr>deliveriesByID := put (dlv_ID d') d' (deliveriesByID s)\<rparr>) \<and>
    nm_evolves s (s\<lparr>deliveriesByID := put (dlv_ID d') d' (deliveriesByID s)\<rparr>)"
proof -
  have ok: "deliveries_ok s" using assms(1) by (simp add: queue_ok_def)
  have "dlv_ID d' = i" using delivery_step_later [OF assms(3)] deliveries_okD(1) [OF ok assms(2)]
    by (simp add: delivery_later_def)
  then show ?thesis
    using deliveries_okD(3) [OF ok assms(2)] assms(4)
    by (intro update_delivery_queue [OF assms(1-3)]) simp_all
qed

lemma Mark_queue:
  assumes "queue_ok s" "nm_MarkDeliveryDelivered clock p s = (r, s')"
  shows "queue_ok s' \<and> nm_evolves s s'"
  using assms finish_queue [OF assms(1) _ delivery_step.delivered]
  by (fastforce simp: nm_MarkDeliveryDelivered_def delivered_delivery_def Let_def
      dest!: lockedDelivery_Inr split: sum.splits)

lemma Fail_queue:
  assumes "queue_ok s" "nm_FailDelivery clock p s = (r, s')"
  shows "queue_ok s' \<and> nm_evolves s s'"
  using assms finish_queue [OF assms(1) _ delivery_step.failed]
  by (fastforce simp: nm_FailDelivery_def failed_delivery_def Let_def
      dest!: lockedDelivery_Inr split: sum.splits)

lemma same_index_put: "lookup index k = Some i \<Longrightarrow> lookup (put k i index) = lookup index"
  by auto

text \<open>Writing a delivery under a key that already leads to it leaves the index as it was.\<close>

lemma put_delivery_queue:
  assumes "queue_ok s" "delivery_at s (dlv_ID d') = Some d" "delivery_step d d'"
    and "0 \<le> dlv_Attempts d'"
  shows "queue_ok (put_delivery d' (deliveryIDsByDedup s) s) \<and>
    nm_evolves s (put_delivery d' (deliveryIDsByDedup s) s)"
proof -
  let ?s1 = "s\<lparr>deliveriesByID := put (dlv_ID d') d' (deliveriesByID s)\<rparr>"
  let ?s2 = "put_delivery d' (deliveryIDsByDedup s) s"
  have step: "queue_ok ?s1 \<and> nm_evolves s ?s1"
    by (rule update_delivery_queue [OF assms refl])
  have "dlv_DedupKey d' = dlv_ID d'"
    using assms(1,2) delivery_step_later [OF assms(3)] by (auto simp: queue_ok_def delivery_later_def)
  moreover have "lookup (deliveryIDsByDedup s) (dlv_ID d') = Some (dlv_ID d')"
    using assms(1,2) by (auto simp: queue_ok_def deliveries_ok_def exact_index_def)
  ultimately have ix: "lookup (deliveryIDsByDedup s) = lookup (deliveryIDsByDedup ?s2)"
    by (auto simp: put_delivery_def)
  have "deliveries_ok ?s2"
    using step exact_index_cong [OF ix]
    by (auto simp: queue_ok_def deliveries_ok_def put_delivery_def)
  moreover have "tokens_ok ?s2"
    by (rule tokens_untouched [of s]) (use assms(1) in \<open>simp_all add: put_delivery_def queue_ok_def\<close>)
  ultimately show ?thesis
    using step by (simp add: queue_ok_def put_delivery_def evolves_def)
qed

lemma Retry_queue:
  assumes "queue_ok s" "nm_RetryDelivery clock p s = (r, s')"
  shows "queue_ok s' \<and> nm_evolves s s'"
proof (cases "s' = s")
  case True
  with assms(1) show ?thesis by simp
next
  case False
  have ok: "deliveries_ok s" using assms(1) by (simp add: queue_ok_def)
  from assms(2) False obtain d where d: "delivery_at s (rdp_DeliveryID p) = Some d"
    and live: "\<not> delivery_terminal d"
    and s': "s' = put_delivery (retried_delivery p (or_time (rdp_AttemptedAt p) clock) d)
      (deliveryIDsByDedup s) s"
    by (auto simp: nm_RetryDelivery_def Let_def dest!: lockedDelivery_Inr
        split: option.splits sum.splits if_splits)
  show ?thesis
    unfolding s' using d live deliveries_okD [OF ok d]
    by (intro put_delivery_queue [OF assms(1) _ delivery_step.retried])
      (auto simp: retried_delivery_def Let_def)
qed

lemma claimed_same_ID [simp]: "dlv_ID \<circ> claimed_delivery token expires at = dlv_ID"
  by (rule ext) (simp add: claimed_delivery_def)

lemma Claim_queue:
  assumes "queue_ok s" "nm_ClaimDeliveries clock p s = (r, s')"
  shows "queue_ok s' \<and> nm_evolves s s'"
proof (cases "s' = s")
  case True
  with assms(1) show ?thesis by simp
next
  case False
  let ?t = "or_time (cdp_Before p) clock"
  let ?claim = "claimed_delivery (cdp_LeaseToken p) (?t + cdp_LeaseDuration p) ?t"
  let ?batch = "due_batch ?t (cdp_Limit p) s"
  let ?P = "delivery_sound"
  have ok: "keyed_by dlv_ID ?P (deliveriesByID s)" using assms(1) by (simp add: queue_ok_def deliveries_ok_def)
  from assms(2) False have s': "s' = s\<lparr>deliveriesByID := put_all dlv_ID (List.map ?claim ?batch) (deliveriesByID s)\<rparr>"
    by (auto simp: nm_ClaimDeliveries_def Let_def split: if_splits)
  have dist: "distinct (List.map dlv_ID (List.map ?claim ?batch))"
    using distinct_selection [OF ok, of "nat (cdp_Limit p)" delivery_order "delivery_due ?t"]
    by (simp add: due_batch_def)
  have entry: "delivery_at s (dlv_ID d) = Some d \<and> delivery_due ?t d" if "d \<in> set ?batch" for d
    using selection_entry [OF ok, of d "nat (cdp_Limit p)" delivery_order "delivery_due ?t"] that
    by (simp add: due_batch_def)
  have at': "delivery_at s' i = (if i \<in> dlv_ID ` set ?batch then map_option ?claim (delivery_at s i)
      else delivery_at s i)" for i
  proof (cases "i \<in> dlv_ID ` set ?batch")
    case True
    then obtain d where d: "d \<in> set ?batch" "i = dlv_ID d" by blast
    with lookup_put_all [OF dist, of "?claim d" "deliveriesByID s"] entry [OF d(1)] True show ?thesis
      by (simp add: s' claimed_delivery_def)
  next
    case False
    then have "i \<notin> set (List.map dlv_ID (List.map ?claim ?batch))" by simp
    with False show ?thesis by (simp add: s' lookup_put_all_other)
  qed
  have keys: "(\<exists>w. delivery_at s' j = Some w \<and> dlv_DedupKey w = n) \<longleftrightarrow>
      (\<exists>w. delivery_at s j = Some w \<and> dlv_DedupKey w = n)" for j n
    by (cases "delivery_at s j") (simp_all add: at' claimed_delivery_def)
  have "keyed_by dlv_ID ?P (deliveriesByID s')"
  proof -
    have "?P (?claim d)" if "d \<in> set ?batch" for d
      using keyed_byD(2) [OF ok, of "dlv_ID d" d] entry [OF that] by (simp add: claimed_delivery_def)
    with ok show ?thesis unfolding s' by (auto intro!: keyed_by_put_all)
  qed
  with keys assms(1) have "deliveries_ok s'"
    by (simp add: queue_ok_def deliveries_ok_def exact_index_def s')
  moreover have "tokens_ok s'"
    by (rule tokens_untouched [of s]) (use assms(1) in \<open>simp_all add: s' queue_ok_def\<close>)
  moreover have "nm_evolves s s'"
    unfolding evolves_def
  proof (intro conjI allI impI)
    fix i d
    assume d: "delivery_at s i = Some d"
    show "\<exists>d'. delivery_at s' i = Some d' \<and> delivery_steps d d'"
    proof (cases "i \<in> dlv_ID ` set ?batch")
      case True
      with entry d have "delivery_due ?t d" by auto
      with True d show ?thesis by (auto simp: at' intro!: r_into_rtranclp delivery_step.claimed)
    qed (simp add: at' d)
  qed (simp add: s')
  moreover have "dlv_DedupKey w = i" if "delivery_at s' i = Some w" for i w
    using that keys [of i "dlv_DedupKey w"] assms(1) by (auto simp: queue_ok_def)
  moreover have "workerCursorsByName s' = workerCursorsByName s" by (simp add: s')
  ultimately show ?thesis using assms(1) by (simp add: queue_ok_def)
qed

lemma normalize_delivery_own_key:
  "normalize_delivery d0 now = Inr d \<Longrightarrow> own_key d0 \<Longrightarrow> dlv_ID d = dlv_DedupKey d"
  by (simp add: normalize_delivery_shape own_key_def)

text \<open>Saving under the own key: the entry of that key, or a new one.\<close>

lemma SaveDelivery_own:
  assumes "queue_ok s" "own_key d0" "normalize_delivery d0 clock = Inr d"
  shows "nm_SaveDelivery clock d0 s =
    (case delivery_at s (dlv_ID d) of
       Some existing \<Rightarrow> if dlv_Attempts d \<le> dlv_Attempts existing then (Inr existing, s)
         else (Inr d, put_delivery d (deliveryIDsByDedup s) s)
     | None \<Rightarrow> (Inr d, put_delivery d (deliveryIDsByDedup s) s))"
proof -
  have ok: "deliveries_ok s" using assms(1) by (simp add: queue_ok_def)
  note key = normalize_delivery_own_key [OF assms(3,2)]
  have index: "lookup (deliveryIDsByDedup s) (dlv_DedupKey d) = map_option dlv_ID (delivery_at s (dlv_ID d))"
  proof (cases "delivery_at s (dlv_ID d)")
    case None
    have "\<not> (\<exists>i. lookup (deliveryIDsByDedup s) (dlv_DedupKey d) = Some i)"
      using assms(1) ok None key by (fastforce simp: queue_ok_def deliveries_ok_def dest!: exact_index_lookup)
    with None show ?thesis by simp
  next
    case (Some e)
    with assms(1) ok key deliveries_okD(1) [OF ok Some] show ?thesis
      by (simp add: queue_ok_def deliveries_ok_def exact_index_def)
  qed
  show ?thesis
  proof (cases "delivery_at s (dlv_ID d)")
    case None
    with index show ?thesis by (simp add: SaveDelivery_sound [OF ok assms(3)])
  next
    case (Some e)
    with deliveries_okD(1) [OF ok Some] index show ?thesis
      by (simp add: SaveDelivery_sound [OF ok assms(3)] Let_def)
  qed
qed

lemma Save_queue:
  assumes "queue_ok s" "own_key d0" "nm_SaveDelivery clock d0 s = (r, s')"
  shows "queue_ok s' \<and> nm_evolves s s'"
proof (cases "normalize_delivery d0 clock")
  case (Inl e)
  with assms show ?thesis by (simp add: nm_SaveDelivery_def)
next
  case (Inr d)
  note shape = normalize_delivery_shape [OF Inr]
  note key = normalize_delivery_own_key [OF Inr assms(2)]
  have attempts: "0 \<le> dlv_Attempts d" by (simp add: shape(4))
  have ok: "deliveries_ok s" using assms(1) by (simp add: queue_ok_def)
  show ?thesis
  proof (cases "delivery_at s (dlv_ID d)")
    case (Some e)
    have "delivery_step e d" if "\<not> dlv_Attempts d \<le> dlv_Attempts e"
      using that Some deliveries_okD(1) [OF ok Some] assms(1) key
      by (intro delivery_step.replaced) (auto simp: queue_ok_def)
    with put_delivery_queue [OF assms(1) Some _ attempts] assms(1,3) SaveDelivery_own [OF assms(1,2) Inr] Some
    show ?thesis by (auto split: if_splits)
  next
    case None
    with assms(3) have s': "s' = put_delivery d (deliveryIDsByDedup s) s"
      by (simp add: SaveDelivery_own [OF assms(1,2) Inr])
    have "deliveries_ok s'" by (rule SaveDelivery_ok [OF ok assms(3)])
    moreover have "tokens_ok s'"
      by (rule tokens_untouched [of s]) (use assms(1) in \<open>simp_all add: s' put_delivery_def queue_ok_def\<close>)
    ultimately show ?thesis
      using assms(1) key None by (auto simp: s' queue_ok_def put_delivery_def evolves_def)
  qed
qed

lemma Save_stored:
  assumes "queue_ok s" "own_key d0" "nm_SaveDelivery clock d0 s = (Inr e, s')"
  shows "delivery_at s' (trim_space (dlv_ID d0)) = Some e \<and> dlv_Attempts d0 \<le> dlv_Attempts e"
proof -
  from assms(3) obtain d where n: "normalize_delivery d0 clock = Inr d"
    by (auto simp: nm_SaveDelivery_def split: sum.splits)
  note shape = normalize_delivery_shape [OF n]
  have "dlv_Attempts d0 \<le> dlv_Attempts d" by (simp add: shape(4))
  with assms(3) show ?thesis
    by (auto simp: SaveDelivery_own [OF assms(1,2) n] shape(1) [symmetric] put_delivery_def
        split: option.splits if_splits)
qed

lemma Save_replay:
  assumes "queue_ok s" "own_key d0" "nm_SaveDelivery clock d0 t = (Inr x, t')"
    and at: "delivery_at s (trim_space (dlv_ID d0)) = Some e" and "dlv_Attempts d0 \<le> dlv_Attempts e"
  shows "nm_SaveDelivery clock d0 s = (Inr e, s)"
proof -
  from assms(3) obtain d where n: "normalize_delivery d0 clock = Inr d"
    by (auto simp: nm_SaveDelivery_def split: sum.splits)
  note shape = normalize_delivery_shape [OF n]
  have "deliveries_ok s" using assms(1) by (simp add: queue_ok_def)
  with deliveries_okD(3) [OF _ at] assms(5) show ?thesis
    by (simp add: SaveDelivery_own [OF assms(1,2) n] shape at)
qed

lemma Cursor_queue:
  assumes "queue_ok s" "nm_SaveWorkerCursor clock c s = (r, s')"
  shows "queue_ok s' \<and> nm_evolves s s'"
proof (cases "normalize_worker_cursor c clock")
  case (Inl e)
  with assms show ?thesis by (simp add: nm_SaveWorkerCursor_def)
next
  case (Inr c')
  have "tokens_ok s'"
    by (rule tokens_untouched [of s])
      (use assms in \<open>auto simp: nm_SaveWorkerCursor_def Inr queue_ok_def split: option.splits if_splits\<close>)
  with assms show ?thesis
    by (auto simp: nm_SaveWorkerCursor_def Inr queue_ok_def deliveries_ok_def evolves_def
        split: option.splits if_splits)
qed

lemma Preference_queue:
  assumes "queue_ok s" "nm_SavePreference clock p s = (r, s')"
  shows "queue_ok s' \<and> nm_evolves s s'"
  by (rule queue_untouched [OF assms(1)])
    (use assms in \<open>auto simp: nm_SavePreference_def queue_ok_def elim!: tokens_untouched
      split: sum.splits\<close>)

lemma Override_queue:
  assumes "queue_ok s" "nm_SaveOverride clock ov s = (r, s')"
  shows "queue_ok s' \<and> nm_evolves s s'"
  by (rule queue_untouched [OF assms(1)])
    (use assms in \<open>auto simp: nm_SaveOverride_def queue_ok_def elim!: tokens_untouched
      split: sum.splits\<close>)

lemma SavePushToken_evolves:
  assumes "queue_ok s" "nm_SavePushToken clock t s = (r, s')"
  shows "queue_ok s' \<and> nm_evolves s s'"
  by (rule queue_untouched [OF assms(1) SavePushToken_tokens [OF _ assms(2)]])
    (use assms in \<open>simp_all add: queue_ok_def SavePushToken_queue\<close>)

lemma DeletePushToken_evolves:
  assumes "queue_ok s" "nm_DeletePushToken i s = (r, s')"
  shows "queue_ok s' \<and> nm_evolves s s'"
  by (rule queue_untouched [OF assms(1) DeletePushToken_tokens [OF _ assms(2)]])
    (use assms in \<open>simp_all add: queue_ok_def DeletePushToken_queue\<close>)

lemma SaveWorkerCursor_Inr:
  assumes "nm_SaveWorkerCursor clock wc s = (Inr c, s')" "queue_ok s"
  shows "wcur_Name c = norm_name (wcur_Name wc) \<and> worker_cursor_at s' (wcur_Name c) = Some c \<and>
    wcur_LastSequence wc \<le> wcur_LastSequence c"
proof -
  from assms(1) obtain n where n: "normalize_worker_cursor wc clock = Inr n"
    by (auto simp: nm_SaveWorkerCursor_def split: sum.splits)
  then have name: "wcur_Name n = norm_name (wcur_Name wc)" "wcur_LastSequence n = wcur_LastSequence wc"
    by (auto simp: normalize_worker_cursor_def Let_def split: if_splits)
  have found: "worker_cursor_at s (wcur_Name n) = Some e \<Longrightarrow> wcur_Name e = wcur_Name n" for e
    using assms(2) by (auto simp: queue_ok_def dest: keyed_byD(1))
  consider "c = n" "worker_cursor_at s' (wcur_Name n) = Some n"
    | "worker_cursor_at s (wcur_Name n) = Some c" "s' = s" "wcur_LastSequence n \<le> wcur_LastSequence c"
    using assms(1) by (auto simp: nm_SaveWorkerCursor_def n split: option.splits if_splits)
  then show "wcur_Name c = norm_name (wcur_Name wc) \<and> worker_cursor_at s' (wcur_Name c) = Some c \<and>
      wcur_LastSequence wc \<le> wcur_LastSequence c"
    by cases (use name found [of c] in simp_all)
qed

lemma SaveWorkerCursor_again:
  assumes "nm_SaveWorkerCursor clock wc t = (Inr x, t')"
    and "worker_cursor_at s (norm_name (wcur_Name wc)) = Some c"
    and "wcur_LastSequence wc \<le> wcur_LastSequence c"
  shows "nm_SaveWorkerCursor clock wc s = (Inr c, s)"
proof -
  from assms(1) obtain n where n: "normalize_worker_cursor wc clock = Inr n"
    by (auto simp: nm_SaveWorkerCursor_def split: sum.splits)
  then have "wcur_Name n = norm_name (wcur_Name wc)" "wcur_LastSequence n = wcur_LastSequence wc"
    by (auto simp: normalize_worker_cursor_def Let_def split: if_splits)
  with assms(2,3) show ?thesis by (simp add: nm_SaveWorkerCursor_def n)
qed

lemma queue_write_maps:
  "nm_SaveDelivery clock d s = (r, s') \<Longrightarrow> preferencesByAccountID s' = preferencesByAccountID s \<and>
     overridesByKey s' = overridesByKey s \<and> pushTokensByID s' = pushTokensByID s \<and>
     pushTokenIDsByAccount s' = pushTokenIDsByAccount s"
  "nm_SaveWorkerCursor clock wc s = (rw, s') \<Longrightarrow> preferencesByAccountID s' = preferencesByAccountID s \<and>
     overridesByKey s' = overridesByKey s \<and> pushTokensByID s' = pushTokensByID s \<and>
     pushTokenIDsByAccount s' = pushTokenIDsByAccount s"
  by (auto simp: nm_SaveDelivery_def nm_SaveWorkerCursor_def put_delivery_def Let_def
      split: sum.splits option.splits if_splits)

lemmas nm_read_defs = nm_DeliveryByID_def nm_WorkerCursorByName_def nm_PreferenceByAccountID_def
  nm_OverrideByConversationAndAccount_def nm_PushTokenByID_def nm_PushTokensByAccountID_def
  nm_DeliveriesDue_def

interpretation nmq: notification_queue "notif_memory clock" queue_ok delivery_at worker_cursor_at
  for clock
proof (rule notification_queue.intro, unfold notif_memory_def notif_store_ops.simps)
qed ((erule (1) Preference_queue | erule (1) Override_queue | erule (1) SavePushToken_evolves |
    erule (1) DeletePushToken_evolves | erule (2) Save_queue | erule (1) Claim_queue |
    erule (1) Mark_queue | erule (1) Fail_queue | erule (1) Retry_queue | erule (1) Cursor_queue |
    (simp add: nm_read_defs notif_found_or_run Let_def split: option.split; fail))+)

lemma fanout_reads_same:
  assumes "preferencesByAccountID s' = preferencesByAccountID s \<and> overridesByKey s' = overridesByKey s \<and>
    pushTokensByID s' = pushTokensByID s \<and> pushTokenIDsByAccount s' = pushTokenIDsByAccount s"
  shows "fanout_reads (notif_memory clock) s' = fanout_reads (notif_memory clock) s"
  using assms
  by (auto simp: fanout_reads_def notif_memory_def nm_read_defs notif_found_or_run Let_def fun_eq_iff
      split: option.split)

interpretation nmf: notification_fanout "notif_memory clock" queue_ok delivery_at worker_cursor_at
  for clock
proof (rule notification_fanout.intro [OF nmq.notification_queue_axioms],
    rule notification_fanout_axioms.intro)
  fix s s' d rd wc rw
  show "nso_SaveDelivery (notif_memory clock) d s = (rd, s') \<Longrightarrow>
      fanout_reads (notif_memory clock) s' = fanout_reads (notif_memory clock) s"
    "nso_SaveWorkerCursor (notif_memory clock) wc s = (rw, s') \<Longrightarrow>
      fanout_reads (notif_memory clock) s' = fanout_reads (notif_memory clock) s"
    by (rule fanout_reads_same, simp add: notif_memory_def, erule queue_write_maps)+
qed (unfold notif_memory_def notif_store_ops.simps, erule (2) Save_stored, erule (4) Save_replay,
    (rule SaveWorkerCursor_Inr; assumption), erule (2) SaveWorkerCursor_again)

end
