(* ===== verification/NotifService.thy ===== *)
theory NotifService
  imports NotifMemoryProps
begin

section \<open>The notification service (\<open>service.go\<close>, \<open>options.go\<close>, \<open>id.go\<close>)\<close>

text \<open>
  The service validates and normalises what it is given, checks that the account is active, and
  calls the store. \<open>nsv_now\<close> is the clock reading of the operation at hand; the service pointer
  is never nil in the model. Operations run in the world of the store and the random source.
\<close>

record 's notif_service =
  nsv_store :: "'s notif_store_ops"
  nsv_identity :: identity_reads
  nsv_now :: time
  nsv_settings :: notif_settings

definition notif_NewService :: "time \<Rightarrow> 's notif_store_ops option \<Rightarrow> identity_reads option \<Rightarrow>
    ('s notif_service \<Rightarrow> 's notif_service) option list \<Rightarrow> error + 's notif_service" where
  "notif_NewService system_time store identityStore opts =
     (case (store, identityStore) of
        (Some st, Some ids) \<Rightarrow>
          let sv = fold (\<lambda>opt sv. case opt of None \<Rightarrow> sv | Some f \<Rightarrow> f sv) opts
            \<lparr>nsv_store = st, nsv_identity = ids, nsv_now = system_time,
             nsv_settings = DefaultSettings\<rparr>
          in Inr (sv\<lparr>nsv_settings := normalize_settings (nsv_settings sv)\<rparr>)
      | _ \<Rightarrow> Inl NotifErrInvalidInput)"

definition notif_WithNow :: "time option \<Rightarrow> 's notif_service \<Rightarrow> 's notif_service" where
  "notif_WithNow clock sv = (case clock of None \<Rightarrow> sv | Some now \<Rightarrow> sv\<lparr>nsv_now := now\<rparr>)"

definition notif_WithSettings :: "notif_settings \<Rightarrow> 's notif_service \<Rightarrow> 's notif_service" where
  "notif_WithSettings settings sv = sv\<lparr>nsv_settings := normalize_settings settings\<rparr>"

definition notif_randomToken :: "int \<Rightarrow> ('s world, string) io" where
  "notif_randomToken = random_token NotifErrInvalidInput"

definition notif_newID :: "string \<Rightarrow> ('s world, string) io" where
  "notif_newID = random_id NotifErrInvalidInput"

definition notif_validateContext :: "go_context \<Rightarrow> string \<Rightarrow> ('s world, unit) io" where
  "notif_validateContext ctx operation =
     of_result (validate_context_with NotifErrInvalidInput ctx operation)"

lemma notif_validateContext_Inr [io_inv]:
  "notif_validateContext ctx operation w = (Inr u, w') \<longleftrightarrow> ctx = LiveContext \<and> w' = w"
  by (cases ctx) (auto simp: notif_validateContext_def)

definition notif_activeAccount :: "'s notif_service \<Rightarrow> string \<Rightarrow> ('s world, account) io" where
  "notif_activeAccount sv accountID = of_result
     (case id_AccountByID (nsv_identity sv) accountID of
        Inl e \<Rightarrow> if error_is e IdentityErrNotFound then Inl NotifErrNotFound
          else Inl (Wrapped (''load account '' @ accountID) e)
      | Inr a \<Rightarrow> if acct_Status a \<noteq> AccountStatusActive then Inl NotifErrNotFound else Inr a)"

subsection \<open>Preferences and overrides\<close>

definition preference_of_params :: "set_preference_params \<Rightarrow> string \<Rightarrow> time \<Rightarrow> preference" where
  "preference_of_params p accountID now = \<lparr>
     pref_AccountID = accountID,
     pref_Enabled = snp_Enabled p,
     pref_DirectEnabled = snp_DirectEnabled p,
     pref_GroupEnabled = snp_GroupEnabled p,
     pref_ChannelEnabled = snp_ChannelEnabled p,
     pref_MentionEnabled = snp_MentionEnabled p,
     pref_ReplyEnabled = snp_ReplyEnabled p,
     pref_QuietHours = snp_QuietHours p,
     pref_MutedUntil = snp_MutedUntil p,
     pref_UpdatedAt = or_time (snp_UpdatedAt p) now\<rparr>"

definition SetPreference ::
    "'s notif_service \<Rightarrow> go_context \<Rightarrow> set_preference_params \<Rightarrow> ('s world, preference) io" where
  "SetPreference sv ctx params =
     andThen (notif_validateContext ctx ''set notification preference'') (\<lambda>_.
     let accountID = trim_space (snp_AccountID params) in
     andThen (reject_if (accountID = []) NotifErrInvalidInput) (\<lambda>_.
     andThen (notif_activeAccount sv accountID) (\<lambda>_.
     andThen (of_result (normalize_preference
       (preference_of_params params accountID (nsv_now sv)) (nsv_now sv))) (\<lambda>p.
     wrapping (''save notification preference for account '' @ accountID)
       (on_store (nso_SavePreference (nsv_store sv) p))))))"

definition PreferenceByAccountID ::
    "'s notif_service \<Rightarrow> go_context \<Rightarrow> string \<Rightarrow> ('s world, preference) io" where
  "PreferenceByAccountID sv ctx accountID0 =
     andThen (notif_validateContext ctx ''load notification preference'') (\<lambda>_.
     let accountID = trim_space accountID0 in
     andThen (reject_if (accountID = []) NotifErrInvalidInput) (\<lambda>_.
     andThen (notif_activeAccount sv accountID) (\<lambda>_.
     andThen (attempt (on_store (nso_PreferenceByAccountID (nsv_store sv) accountID))) (\<lambda>r.
     case r of
       Inr p \<Rightarrow> ret p
     | Inl e \<Rightarrow> if error_is e NotifErrNotFound then ret (defaultPreference accountID (nsv_now sv))
         else raise (Wrapped (''load notification preference for account '' @ accountID) e)))))"

definition SetConversationOverride ::
    "'s notif_service \<Rightarrow> go_context \<Rightarrow> set_override_params \<Rightarrow> ('s world, conv_override) io" where
  "SetConversationOverride sv ctx params =
     andThen (notif_validateContext ctx ''set notification override'') (\<lambda>_.
     let conversationID = trim_space (sop_ConversationID params);
       accountID = trim_space (sop_AccountID params) in
     andThen (reject_if (conversationID = [] \<or> accountID = []) NotifErrInvalidInput) (\<lambda>_.
     andThen (notif_activeAccount sv accountID) (\<lambda>_.
     andThen (of_result (normalize_override \<lparr>ovr_ConversationID = conversationID,
       ovr_AccountID = accountID, ovr_Muted = sop_Muted params,
       ovr_MentionsOnly = sop_MentionsOnly params, ovr_MutedUntil = sop_MutedUntil params,
       ovr_UpdatedAt = or_time (sop_UpdatedAt params) (nsv_now sv)\<rparr> (nsv_now sv))) (\<lambda>ov.
     wrapping (''save notification override for conversation '' @ conversationID @
         '' and account '' @ accountID)
       (on_store (nso_SaveOverride (nsv_store sv) ov))))))"

definition ConversationOverrideByConversationAndAccount ::
    "'s notif_service \<Rightarrow> go_context \<Rightarrow> string \<Rightarrow> string \<Rightarrow> ('s world, conv_override) io" where
  "ConversationOverrideByConversationAndAccount sv ctx conversationID0 accountID0 =
     andThen (notif_validateContext ctx ''load notification override'') (\<lambda>_.
     let conversationID = trim_space conversationID0; accountID = trim_space accountID0 in
     andThen (reject_if (conversationID = [] \<or> accountID = []) NotifErrInvalidInput) (\<lambda>_.
     andThen (attempt (on_store (nso_OverrideByConversationAndAccount (nsv_store sv)
       conversationID accountID))) (\<lambda>r.
     case r of
       Inr ov \<Rightarrow> ret ov
     | Inl e \<Rightarrow> if error_is e NotifErrNotFound
         then ret \<lparr>ovr_ConversationID = conversationID, ovr_AccountID = accountID,
           ovr_Muted = False, ovr_MentionsOnly = False, ovr_MutedUntil = zero_time,
           ovr_UpdatedAt = zero_time\<rparr>
         else raise (Wrapped (''load notification override for conversation '' @ conversationID @
           '' and account '' @ accountID) e))))"

subsection \<open>Push tokens\<close>

definition RegisterPushToken ::
    "'s notif_service \<Rightarrow> go_context \<Rightarrow> register_token_params \<Rightarrow> ('s world, push_token) io" where
  "RegisterPushToken sv ctx params =
     andThen (notif_validateContext ctx ''register push token'') (\<lambda>_.
     let accountID = trim_space (rtp_AccountID params);
       deviceID = trim_space (rtp_DeviceID params);
       provider = trim_space (rtp_Provider params);
       token = trim_space (rtp_Token params) in
     andThen (reject_if (accountID = [] \<or> deviceID = [] \<or> provider = [] \<or> token = [])
       NotifErrInvalidInput) (\<lambda>_.
     andThen (notif_activeAccount sv accountID) (\<lambda>_.
     andThen (wrapping ''generate push token id'' (notif_newID ''push'')) (\<lambda>tokenID.
     let created = or_time (rtp_CreatedAt params) (nsv_now sv) in
     andThen (of_result (normalize_push_token \<lparr>tok_ID = tokenID, tok_AccountID = accountID,
       tok_DeviceID = deviceID, tok_Provider = provider, tok_Token = token,
       tok_Platform = rtp_Platform params, tok_Enabled = True, tok_CreatedAt = created,
       tok_UpdatedAt = created, tok_RevokedAt = zero_time\<rparr> (nsv_now sv))) (\<lambda>t.
     wrapping (''save push token for account '' @ accountID @ '' and device '' @ deviceID)
       (on_store (nso_SavePushToken (nsv_store sv) t)))))))"

definition PushTokensByAccountID ::
    "'s notif_service \<Rightarrow> go_context \<Rightarrow> string \<Rightarrow> ('s world, push_token list) io" where
  "PushTokensByAccountID sv ctx accountID0 =
     andThen (notif_validateContext ctx ''list push tokens'') (\<lambda>_.
     let accountID = trim_space accountID0 in
     andThen (reject_if (accountID = []) NotifErrInvalidInput) (\<lambda>_.
     wrapping (''list push tokens for account '' @ accountID)
       (on_store (nso_PushTokensByAccountID (nsv_store sv) accountID))))"

definition PushTokenByID ::
    "'s notif_service \<Rightarrow> go_context \<Rightarrow> string \<Rightarrow> ('s world, push_token) io" where
  "PushTokenByID sv ctx tokenID0 =
     andThen (notif_validateContext ctx ''load push token'') (\<lambda>_.
     let tokenID = trim_space tokenID0 in
     andThen (reject_if (tokenID = []) NotifErrInvalidInput) (\<lambda>_.
     andThen (wrapping (''load push token '' @ tokenID)
       (on_store (nso_PushTokenByID (nsv_store sv) tokenID))) (\<lambda>t.
     andThen (reject_if (\<not> tok_Enabled t \<or> tok_RevokedAt t \<noteq> zero_time) NotifErrNotFound) (\<lambda>_.
     ret t))))"

definition RevokePushToken ::
    "'s notif_service \<Rightarrow> go_context \<Rightarrow> revoke_token_params \<Rightarrow> ('s world, push_token) io" where
  "RevokePushToken sv ctx params =
     andThen (notif_validateContext ctx ''revoke push token'') (\<lambda>_.
     let tokenID = trim_space (rvp_TokenID params) in
     andThen (reject_if (tokenID = []) NotifErrInvalidInput) (\<lambda>_.
     andThen (wrapping (''load push token '' @ tokenID)
       (on_store (nso_PushTokenByID (nsv_store sv) tokenID))) (\<lambda>t.
     let revokedAt = or_time (rvp_RevokedAt params) (nsv_now sv) in
     wrapping (''revoke push token '' @ tokenID)
       (on_store (nso_SavePushToken (nsv_store sv)
         (t\<lparr>tok_Enabled := False, tok_RevokedAt := revokedAt, tok_UpdatedAt := revokedAt\<rparr>))))))"

subsection \<open>Deliveries\<close>

definition delivery_of_params :: "queue_delivery_params \<Rightarrow> time \<Rightarrow> delivery" where
  "delivery_of_params p now =
     (let created = or_time (qdp_CreatedAt p) now in
      \<lparr>dlv_ID = qdp_DedupKey p, dlv_DedupKey = qdp_DedupKey p, dlv_EventID = qdp_EventID p,
       dlv_ConversationID = qdp_ConversationID p, dlv_MessageID = qdp_MessageID p,
       dlv_AccountID = qdp_AccountID p, dlv_DeviceID = qdp_DeviceID p,
       dlv_PushTokenID = qdp_PushTokenID p, dlv_Kind = qdp_Kind p, dlv_Reason = qdp_Reason p,
       dlv_Mode = qdp_Mode p, dlv_State = qdp_State p, dlv_Priority = qdp_Priority p,
       dlv_Attempts = qdp_Attempts p, dlv_NextAttemptAt = or_time (qdp_NextAttemptAt p) created,
       dlv_LeaseToken = [], dlv_LeaseExpiresAt = zero_time, dlv_LastAttemptAt = zero_time,
       dlv_LastError = [], dlv_CreatedAt = created, dlv_UpdatedAt = created\<rparr>)"

definition QueueDelivery ::
    "'s notif_service \<Rightarrow> go_context \<Rightarrow> queue_delivery_params \<Rightarrow> ('s world, delivery) io" where
  "QueueDelivery sv ctx params =
     andThen (notif_validateContext ctx ''queue delivery'') (\<lambda>_.
     andThen (of_result (normalize_delivery (delivery_of_params params (nsv_now sv)) (nsv_now sv))) (\<lambda>d.
     wrapping (''save delivery '' @ dlv_DedupKey d)
       (on_store (nso_SaveDelivery (nsv_store sv) d))))"

definition ClaimDeliveries ::
    "'s notif_service \<Rightarrow> go_context \<Rightarrow> claim_deliveries_params \<Rightarrow> ('s world, delivery list) io" where
  "ClaimDeliveries sv ctx params =
     andThen (notif_validateContext ctx ''claim deliveries'') (\<lambda>_.
     if cdp_Limit params \<le> 0 then ret []
     else let leaseDuration = (if cdp_LeaseDuration params \<le> 0
         then nset_DeliveryLeaseTTL (nsv_settings sv) else cdp_LeaseDuration params) in
     andThen (reject_if (leaseDuration \<le> 0) NotifErrInvalidInput) (\<lambda>_.
     andThen (if trim_space (cdp_LeaseToken params) = []
       then wrapping ''generate delivery lease token'' (notif_newID ''lease'')
       else ret (cdp_LeaseToken params)) (\<lambda>leaseToken.
     wrapping ''claim deliveries'' (on_store (nso_ClaimDeliveries (nsv_store sv)
       \<lparr>cdp_Before = or_time (cdp_Before params) (nsv_now sv), cdp_Limit = cdp_Limit params,
        cdp_LeaseToken = leaseToken, cdp_LeaseDuration = leaseDuration\<rparr>)))))"

definition MarkDeliveryDelivered ::
    "'s notif_service \<Rightarrow> go_context \<Rightarrow> mark_delivered_params \<Rightarrow> ('s world, delivery) io" where
  "MarkDeliveryDelivered sv ctx params =
     andThen (notif_validateContext ctx ''mark delivery delivered'') (\<lambda>_.
     let deliveryID = trim_space (mdp_DeliveryID params);
       leaseToken = trim_space (mdp_LeaseToken params) in
     andThen (reject_if (deliveryID = [] \<or> leaseToken = []) NotifErrInvalidInput) (\<lambda>_.
     wrapping (''mark delivery '' @ deliveryID @ '' delivered'')
       (on_store (nso_MarkDeliveryDelivered (nsv_store sv)
         \<lparr>mdp_DeliveryID = deliveryID, mdp_LeaseToken = leaseToken,
          mdp_DeliveredAt = or_time (mdp_DeliveredAt params) (nsv_now sv)\<rparr>))))"

definition FailDelivery ::
    "'s notif_service \<Rightarrow> go_context \<Rightarrow> fail_delivery_params \<Rightarrow> ('s world, delivery) io" where
  "FailDelivery sv ctx params =
     andThen (notif_validateContext ctx ''fail delivery'') (\<lambda>_.
     let deliveryID = trim_space (fdp_DeliveryID params);
       leaseToken = trim_space (fdp_LeaseToken params);
       lastError = trim_space (fdp_LastError params) in
     andThen (reject_if (deliveryID = [] \<or> leaseToken = [] \<or> lastError = []) NotifErrInvalidInput) (\<lambda>_.
     wrapping (''fail delivery '' @ deliveryID)
       (on_store (nso_FailDelivery (nsv_store sv)
         \<lparr>fdp_DeliveryID = deliveryID, fdp_LeaseToken = leaseToken, fdp_LastError = lastError,
          fdp_FailedAt = or_time (fdp_FailedAt params) (nsv_now sv)\<rparr>))))"

text \<open>The doubling loop; the guards stop it before the maximum is passed.\<close>

fun backoff_from :: "duration \<Rightarrow> nat \<Rightarrow> duration \<Rightarrow> duration" where
  "backoff_from maximal 0 backoff = (if maximal < backoff then maximal else backoff)"
| "backoff_from maximal (Suc n) backoff =
     (if maximal \<le> backoff then maximal
      else if maximal div 2 < backoff then maximal
      else backoff_from maximal n (backoff * 2))"

definition retryBackoff :: "'s notif_service \<Rightarrow> int \<Rightarrow> duration" where
  "retryBackoff sv attempts =
     (let settings = normalize_settings (nsv_settings sv) in
      if attempts \<le> 1 then nset_RetryInitialBackoff settings
      else backoff_from (nset_RetryMaxBackoff settings) (nat (attempts - 1))
        (nset_RetryInitialBackoff settings))"

definition RetryDelivery ::
    "'s notif_service \<Rightarrow> go_context \<Rightarrow> retry_delivery_params \<Rightarrow> ('s world, delivery) io" where
  "RetryDelivery sv ctx params =
     andThen (notif_validateContext ctx ''retry delivery'') (\<lambda>_.
     let deliveryID = trim_space (rdp_DeliveryID params);
       leaseToken = trim_space (rdp_LeaseToken params);
       lastError = trim_space (rdp_LastError params) in
     andThen (reject_if (deliveryID = [] \<or> lastError = []) NotifErrInvalidInput) (\<lambda>_.
     andThen (wrapping (''load delivery '' @ deliveryID)
       (on_store (nso_DeliveryByID (nsv_store sv) deliveryID))) (\<lambda>d.
     andThen (reject_if (delivery_terminal d) NotifErrConflict) (\<lambda>_.
     let now = nsv_now sv;
       attemptedAt = or_time (rdp_AttemptedAt params) now;
       retryAt0 = or_time (rdp_RetryAt params) (now + retryBackoff sv (dlv_Attempts d + 1));
       retryAt = (if retryAt0 < attemptedAt then attemptedAt else retryAt0) in
     wrapping (''retry delivery '' @ deliveryID)
       (on_store (nso_RetryDelivery (nsv_store sv)
         \<lparr>rdp_DeliveryID = deliveryID, rdp_LeaseToken = leaseToken, rdp_LastError = lastError,
          rdp_RetryAt = retryAt, rdp_MaxAttempts = nset_MaxAttempts (nsv_settings sv),
          rdp_AttemptedAt = attemptedAt\<rparr>))))))"

definition svc_DeliveryByID ::
    "'s notif_service \<Rightarrow> go_context \<Rightarrow> string \<Rightarrow> ('s world, delivery) io" where
  "svc_DeliveryByID sv ctx deliveryID0 =
     andThen (notif_validateContext ctx ''load delivery'') (\<lambda>_.
     let deliveryID = trim_space deliveryID0 in
     andThen (reject_if (deliveryID = []) NotifErrInvalidInput) (\<lambda>_.
     wrapping (''load delivery '' @ deliveryID)
       (on_store (nso_DeliveryByID (nsv_store sv) deliveryID))))"

definition svc_DeliveriesDue ::
    "'s notif_service \<Rightarrow> go_context \<Rightarrow> time \<Rightarrow> int \<Rightarrow> ('s world, delivery list) io" where
  "svc_DeliveriesDue sv ctx before limit =
     andThen (notif_validateContext ctx ''list deliveries due'') (\<lambda>_.
     wrapping ''list deliveries due'' (on_store (nso_DeliveriesDue (nsv_store sv) before limit)))"

subsection \<open>Worker cursors\<close>

definition SaveWorkerCursor ::
    "'s notif_service \<Rightarrow> go_context \<Rightarrow> save_worker_cursor_params \<Rightarrow> ('s world, worker_cursor) io" where
  "SaveWorkerCursor sv ctx params =
     andThen (notif_validateContext ctx ''save worker cursor'') (\<lambda>_.
     andThen (of_result (normalize_worker_cursor \<lparr>wcur_Name = swp_Name params,
       wcur_LastSequence = swp_LastSequence params,
       wcur_UpdatedAt = or_time (swp_UpdatedAt params) (nsv_now sv)\<rparr> (nsv_now sv))) (\<lambda>c.
     wrapping (''save worker cursor '' @ wcur_Name c)
       (on_store (nso_SaveWorkerCursor (nsv_store sv) c))))"

definition WorkerCursorByName ::
    "'s notif_service \<Rightarrow> go_context \<Rightarrow> string \<Rightarrow> ('s world, worker_cursor) io" where
  "WorkerCursorByName sv ctx name0 =
     andThen (notif_validateContext ctx ''load worker cursor'') (\<lambda>_.
     let name = norm_name name0 in
     andThen (reject_if (name = []) NotifErrInvalidInput) (\<lambda>_.
     andThen (attempt (on_store (nso_WorkerCursorByName (nsv_store sv) name))) (\<lambda>r.
     case r of
       Inr c \<Rightarrow> ret c
     | Inl e \<Rightarrow> if error_is e NotifErrNotFound
         then ret \<lparr>wcur_Name = name, wcur_LastSequence = 0, wcur_UpdatedAt = nsv_now sv\<rparr>
         else raise (Wrapped (''load worker cursor '' @ name) e))))"

end
