(* ===== verification/NotifRouting.thy ===== *)
theory NotifRouting
  imports NotifModels PresenceService
begin

section \<open>Routing a message to its recipients (\<open>internal/domain/notification/routing.go\<close>)\<close>

text \<open>
  The pure part of the notification domain: who is told of a new message, as what, on which
  device, and whether the account's settings hold the notification back. \<open>load_location\<close> stands
  for \<open>time.LoadLocation\<close> followed by \<open>In\<close>: for a zone name and an instant the minute of the
  local day, or nothing when the zone is unknown. The map from accounts to their data is a
  function here (\<open>None\<close> for a missing key, whose value is the zero value in Go).
\<close>

type_synonym location_fn = "string \<Rightarrow> time \<Rightarrow> int option"

definition utc_minute :: "time \<Rightarrow> int" where
  "utc_minute t = (t div minute) mod 1440"

definition quietHoursActive :: "location_fn \<Rightarrow> time \<Rightarrow> quiet_hours \<Rightarrow> bool" where
  "quietHoursActive load_location now q =
     (if \<not> qh_Enabled q then False
      else if qh_StartMinute q = qh_EndMinute q then False
      else let name = trim_space (qh_Timezone q);
          locationName = (if name = [] then ''UTC'' else name);
          currentMinute = (case load_location locationName now of
              Some m \<Rightarrow> m | None \<Rightarrow> utc_minute now)
        in if qh_StartMinute q < qh_EndMinute q
           then qh_StartMinute q \<le> currentMinute \<and> currentMinute < qh_EndMinute q
           else qh_StartMinute q \<le> currentMinute \<or> currentMinute < qh_EndMinute q)"

definition activeConversationMember :: "conv_member \<Rightarrow> bool" where
  "activeConversationMember m \<longleftrightarrow> cmem_LeftAt m = zero_time \<and> \<not> cmem_Banned m"

definition isMentioned :: "string \<Rightarrow> string list \<Rightarrow> bool" where
  "isMentioned accountID mentions \<longleftrightarrow> list_ex (\<lambda>m. m = accountID) mentions"

definition zero_member :: conv_member where
  "zero_member = \<lparr>cmem_ConversationID = [], cmem_AccountID = [], cmem_Role = [],
     cmem_InvitedByAccountID = [], cmem_Muted = False, cmem_Banned = False,
     cmem_JoinedAt = zero_time, cmem_LeftAt = zero_time\<rparr>"

definition membershipByAccountID :: "conv_member list \<Rightarrow> string \<Rightarrow> conv_member" where
  "membershipByAccountID members accountID =
     (case find (\<lambda>m. cmem_AccountID m = accountID) members of
        Some m \<Rightarrow> m | None \<Rightarrow> zero_member)"

text \<open>
  The recipients are collected in a map and sorted, so the result is the sorted list of the
  distinct accounts.
\<close>

definition recipientIDs :: "conversation \<Rightarrow> message \<Rightarrow> conv_member list \<Rightarrow> string list" where
  "recipientIDs conv message members =
     (if conv_Kind conv = ConversationKindSavedMessages then []
      else let
        fromMembers = List.map cmem_AccountID
          (List.filter (\<lambda>m. \<not> (\<not> activeConversationMember m \<or>
             cmem_AccountID m = msg_SenderAccountID message)) members);
        replyAccountID = trim_space (mref_SenderAccountID (msg_ReplyTo message))
      in sort (remdups (fromMembers @ msg_MentionAccountIDs message @
           (if replyAccountID \<noteq> [] then [replyAccountID] else []))))"

definition routeDecision ::
    "conversation \<Rightarrow> message \<Rightarrow> string \<Rightarrow> (NotificationKind \<times> string \<times> int) option" where
  "routeDecision conv message accountID =
     (let replyAccountID = trim_space (mref_SenderAccountID (msg_ReplyTo message)) in
      if accountID = [] \<or> accountID = msg_SenderAccountID message then None
      else if isMentioned accountID (msg_MentionAccountIDs message)
        then Some (NotificationKindMention, ''mention'', 100)
      else if replyAccountID \<noteq> [] \<and> replyAccountID = accountID
        then Some (NotificationKindReply, ''reply'', 90)
      else if conv_Kind conv = ConversationKindDirect then Some (NotificationKindDirect, ''direct'', 80)
      else if conv_Kind conv = ConversationKindGroup then Some (NotificationKindGroup, ''group'', 60)
      else if conv_Kind conv = ConversationKindChannel
        then Some (NotificationKindChannel, ''channel'', 50)
      else None)"

definition kind_enabled :: "preference \<Rightarrow> NotificationKind \<Rightarrow> bool" where
  "kind_enabled p kind =
     (if kind = NotificationKindDirect then pref_DirectEnabled p
      else if kind = NotificationKindGroup then pref_GroupEnabled p
      else if kind = NotificationKindChannel then pref_ChannelEnabled p
      else if kind = NotificationKindMention then pref_MentionEnabled p
      else if kind = NotificationKindReply then pref_ReplyEnabled p
      else True)"

text \<open>The settings that hold back everything but mentions and replies.\<close>

definition held_back :: "location_fn \<Rightarrow> preference \<Rightarrow> conv_override \<Rightarrow> time \<Rightarrow> bool" where
  "held_back load_location p ov now \<longleftrightarrow>
     ovr_MutedUntil ov \<noteq> zero_time \<and> now < ovr_MutedUntil ov \<or>
     ovr_Muted ov \<or> ovr_MentionsOnly ov \<or>
     pref_MutedUntil p \<noteq> zero_time \<and> now < pref_MutedUntil p \<or>
     quietHoursActive load_location now (pref_QuietHours p)"

definition shouldDeliver :: "location_fn \<Rightarrow> preference \<Rightarrow> conv_override \<Rightarrow> conv_member \<Rightarrow>
    NotificationKind \<Rightarrow> string \<Rightarrow> time \<Rightarrow> bool" where
  "shouldDeliver load_location p ov member kind reason now =
     (if \<not> pref_Enabled p then False
      else if \<not> activeConversationMember member then False
      else if \<not> kind_enabled p kind then False
      else if reason \<noteq> ''mention'' \<and> reason \<noteq> ''reply'' then \<not> held_back load_location p ov now
      else True)"

definition deliveryModeForPresence :: "PresenceState \<Rightarrow> push_token list \<Rightarrow> DeliveryMode" where
  "deliveryModeForPresence presence_state tokens =
     (if presence_state = PresenceStateOnline \<or> presence_state = PresenceStateAway
        then DeliveryModeInApp
      else if tokens \<noteq> [] then DeliveryModePush else DeliveryModeInApp)"

subsection \<open>The deliveries\<close>

definition delivery_key :: "string \<Rightarrow> conversation \<Rightarrow> message \<Rightarrow> string \<Rightarrow> string \<Rightarrow>
    NotificationKind \<Rightarrow> string \<Rightarrow> string" where
  "delivery_key eventID conv message accountID device kind reason =
     join_with '':'' [eventID, conv_ID conv, msg_ID message, accountID, device, kind, reason]"

definition queuedDelivery :: "time \<Rightarrow> string \<Rightarrow> conversation \<Rightarrow> message \<Rightarrow> string \<Rightarrow> string \<Rightarrow>
    string \<Rightarrow> NotificationKind \<Rightarrow> string \<Rightarrow> DeliveryMode \<Rightarrow> int \<Rightarrow> delivery" where
  "queuedDelivery now eventID conv message accountID deviceID pushTokenID kind reason mode priority =
     (let dedupKey = delivery_key eventID conv message accountID deviceID kind reason in
      \<lparr>dlv_ID = dedupKey, dlv_DedupKey = dedupKey, dlv_EventID = eventID,
       dlv_ConversationID = conv_ID conv, dlv_MessageID = msg_ID message,
       dlv_AccountID = accountID, dlv_DeviceID = deviceID, dlv_PushTokenID = pushTokenID,
       dlv_Kind = kind, dlv_Reason = reason, dlv_Mode = mode, dlv_State = DeliveryStateQueued,
       dlv_Priority = priority, dlv_Attempts = 0, dlv_NextAttemptAt = now, dlv_LeaseToken = [],
       dlv_LeaseExpiresAt = zero_time, dlv_LastAttemptAt = zero_time, dlv_LastError = [],
       dlv_CreatedAt = now, dlv_UpdatedAt = now\<rparr>)"

definition suppressedDelivery :: "time \<Rightarrow> string \<Rightarrow> conversation \<Rightarrow> message \<Rightarrow> string \<Rightarrow>
    NotificationKind \<Rightarrow> string \<Rightarrow> int \<Rightarrow> delivery" where
  "suppressedDelivery now eventID conv message accountID kind reason priority =
     (let dedupKey = delivery_key eventID conv message accountID ''muted'' kind reason in
      \<lparr>dlv_ID = dedupKey, dlv_DedupKey = dedupKey, dlv_EventID = eventID,
       dlv_ConversationID = conv_ID conv, dlv_MessageID = msg_ID message,
       dlv_AccountID = accountID, dlv_DeviceID = [], dlv_PushTokenID = [],
       dlv_Kind = kind, dlv_Reason = reason, dlv_Mode = DeliveryModeInApp,
       dlv_State = DeliveryStateSuppressed, dlv_Priority = priority, dlv_Attempts = 0,
       dlv_NextAttemptAt = zero_time, dlv_LeaseToken = [], dlv_LeaseExpiresAt = zero_time,
       dlv_LastAttemptAt = zero_time, dlv_LastError = [], dlv_CreatedAt = now,
       dlv_UpdatedAt = now\<rparr>)"

definition zero_override :: conv_override where
  "zero_override = \<lparr>ovr_ConversationID = [], ovr_AccountID = [], ovr_Muted = False,
     ovr_MentionsOnly = False, ovr_MutedUntil = zero_time, ovr_UpdatedAt = zero_time\<rparr>"

text \<open>What the worker has looked up per account; a missing entry is the zero value.\<close>

record account_data =
  ad_preference :: "(string, preference) gomap"
  ad_override :: "(string, conv_override) gomap"
  ad_presence :: "(string, presence_snapshot) gomap"
  ad_tokens :: "(string, push_token list) gomap"

definition no_account_data :: account_data where
  "no_account_data = \<lparr>ad_preference = [], ad_override = [], ad_presence = [], ad_tokens = []\<rparr>"

definition preference_of :: "account_data \<Rightarrow> time \<Rightarrow> string \<Rightarrow> preference" where
  "preference_of ad now accountID =
     (case lookup (ad_preference ad) accountID of
        Some p \<Rightarrow> if pref_AccountID p = [] then defaultPreference accountID now else p
      | None \<Rightarrow> defaultPreference accountID now)"

definition override_of :: "account_data \<Rightarrow> string \<Rightarrow> conv_override" where
  "override_of ad accountID =
     (case lookup (ad_override ad) accountID of Some ov \<Rightarrow> ov | None \<Rightarrow> zero_override)"

definition tokens_of :: "account_data \<Rightarrow> string \<Rightarrow> push_token list" where
  "tokens_of ad accountID =
     (case lookup (ad_tokens ad) accountID of Some ts \<Rightarrow> ts | None \<Rightarrow> [])"

definition presence_state_of :: "account_data \<Rightarrow> string \<Rightarrow> PresenceState" where
  "presence_state_of ad accountID =
     (case lookup (ad_presence ad) accountID of
        Some snap \<Rightarrow> snap_State snap | None \<Rightarrow> PresenceStateUnspecified)"

text \<open>The deliveries of one recipient.\<close>

definition deliveries_for :: "location_fn \<Rightarrow> time \<Rightarrow> string \<Rightarrow> conversation \<Rightarrow> message \<Rightarrow>
    conv_member list \<Rightarrow> account_data \<Rightarrow> string \<Rightarrow> delivery list" where
  "deliveries_for load_location now eventID conv message members ad accountID =
     (case routeDecision conv message accountID of
        None \<Rightarrow> []
      | Some (kind, reason, priority) \<Rightarrow>
          let tokens = tokens_of ad accountID in
          if \<not> shouldDeliver load_location (preference_of ad now accountID)
            (override_of ad accountID) (membershipByAccountID members accountID) kind reason now
          then [suppressedDelivery now eventID conv message accountID kind reason priority]
          else let mode = deliveryModeForPresence (presence_state_of ad accountID) tokens in
          if tokens = []
          then [queuedDelivery now eventID conv message accountID [] [] kind reason mode priority]
          else List.map (\<lambda>t. queuedDelivery now eventID conv message accountID (tok_DeviceID t)
              (tok_ID t) kind reason mode priority) tokens)"

definition buildDeliveries :: "location_fn \<Rightarrow> time \<Rightarrow> string \<Rightarrow> conversation \<Rightarrow> message \<Rightarrow>
    conv_member list \<Rightarrow> account_data \<Rightarrow> delivery list" where
  "buildDeliveries load_location now eventID conv message members ad =
     concat (List.map (deliveries_for load_location now eventID conv message members ad)
       (recipientIDs conv message members))"

end
