(* ===== verification/NotifWorker.thy ===== *)
theory NotifWorker
  imports NotifService NotifRouting
begin

section \<open>The notification worker (\<open>worker.go\<close>, \<open>executor.go\<close>)\<close>

text \<open>
  The worker reads the conversation event log after its cursor, builds the deliveries of every
  new message, and saves them together with the advanced cursor in one transaction per event.
  With an executor it also claims due deliveries, hands them out, and records how each attempt
  went. The conversation store, the executor and the presence of the accounts are read only:
  \<open>conversation_reads\<close> is the table of the reads, \<open>wk_executor\<close> answers a delivery with an error
  or none (a delivery carries its lease and its attempts, so different attempts may be answered
  differently), and presence is resolved by the presence service on the state its store has
  during the batch.
\<close>

record conversation_reads =
  cvr_EventsAfterSequence :: "uint64 \<Rightarrow> int \<Rightarrow> error + conv_event list"
  cvr_ConversationByID :: "string \<Rightarrow> error + conversation"
  cvr_MessageByID :: "string \<Rightarrow> string \<Rightarrow> error + message"
  cvr_ConversationMembers :: "string \<Rightarrow> error + conv_member list"

type_synonym delivery_executor = "delivery \<Rightarrow> push_token option \<Rightarrow> error option"

record ('s, 'p) notif_worker =
  wk_service :: "'s notif_service"
  wk_conversations :: conversation_reads
  wk_presence :: "'p presence_service"
  wk_presence_state :: 'p
  wk_executor :: "delivery_executor option"
  wk_name :: string
  wk_now :: time
  wk_location :: location_fn

definition defaultWorkerName :: string where
  "defaultWorkerName = ''conversation_notifications''"

definition WithDeliveryExecutor ::
    "delivery_executor option \<Rightarrow> ('s, 'p) notif_worker \<Rightarrow> ('s, 'p) notif_worker" where
  "WithDeliveryExecutor ex w = (case ex of None \<Rightarrow> w | Some f \<Rightarrow> w\<lparr>wk_executor := Some f\<rparr>)"

definition NewNotifWorker :: "time \<Rightarrow> location_fn \<Rightarrow> 's notif_service option \<Rightarrow>
    conversation_reads option \<Rightarrow> ('p presence_service \<times> 'p) option \<Rightarrow>
    (('s, 'p) notif_worker \<Rightarrow> ('s, 'p) notif_worker) option list \<Rightarrow>
    error + ('s, 'p) notif_worker" where
  "NewNotifWorker system_time load_location sv conversations presenceService opts =
     (case (sv, conversations, presenceService) of
        (Some sv', Some cv, Some (pr, prs)) \<Rightarrow>
          Inr (fold (\<lambda>opt w. case opt of None \<Rightarrow> w | Some f \<Rightarrow> f w) opts
            \<lparr>wk_service = sv', wk_conversations = cv, wk_presence = pr, wk_presence_state = prs,
             wk_executor = None, wk_name = defaultWorkerName, wk_now = system_time,
             wk_location = load_location\<rparr>)
      | _ \<Rightarrow> Inl NotifErrInvalidInput)"

subsection \<open>The errors of an attempt (\<open>executor.go\<close>)\<close>

definition PermanentDeliveryError :: "error option \<Rightarrow> error option" where
  "PermanentDeliveryError e = map_option Permanent e"

definition isPermanentDeliveryError :: "error \<Rightarrow> bool" where
  "isPermanentDeliveryError e = error_permanent e"

subsection \<open>Collecting what routing needs\<close>

text \<open>The loop over the members: a member whose account is gone or inactive is not looked up.\<close>

fun load_members :: "('s, 'p) notif_worker \<Rightarrow> go_context \<Rightarrow> string \<Rightarrow> message \<Rightarrow> conv_member list \<Rightarrow>
    account_data \<Rightarrow> ('s world, account_data) io" where
  "load_members w ctx conversationID message [] ad = ret ad"
| "load_members w ctx conversationID message (m # ms) ad =
     (let i = cmem_AccountID m; sv = wk_service w in
      if \<not> activeConversationMember m \<or> i = msg_SenderAccountID message
        then load_members w ctx conversationID message ms ad
      else (case id_AccountByID (nsv_identity sv) i of
          Inl e \<Rightarrow> if error_is e IdentityErrNotFound
            then load_members w ctx conversationID message ms ad
            else raise (Wrapped (''load account '' @ i) e)
        | Inr a \<Rightarrow>
            if acct_Status a \<noteq> AccountStatusActive
              then load_members w ctx conversationID message ms ad
            else andThen (PreferenceByAccountID sv ctx i) (\<lambda>p.
              andThen (ConversationOverrideByConversationAndAccount sv ctx conversationID i) (\<lambda>ov.
              let ad1 = ad\<lparr>ad_preference := put i p (ad_preference ad),
                  ad_override := put i ov (ad_override ad)\<rparr> in
              case fst (GetPresence (wk_presence w) ctx
                \<lparr>gpp_AccountID = i, gpp_ViewerAccountID = i\<rparr> (wk_presence_state w)) of
                Inl e \<Rightarrow> if error_is e PresenceErrNotFound
                  then load_members w ctx conversationID message ms ad1
                  else raise (Wrapped (''resolve presence for account '' @ i) e)
              | Inr snap \<Rightarrow> andThen (PushTokensByAccountID sv ctx i) (\<lambda>tokens.
                  load_members w ctx conversationID message ms
                    (ad1\<lparr>ad_presence := put i snap (ad_presence ad1),
                      ad_tokens := put i tokens (ad_tokens ad1)\<rparr>))))))"

definition buildDeliveriesForEvent ::
    "('s, 'p) notif_worker \<Rightarrow> go_context \<Rightarrow> conv_event \<Rightarrow> ('s world, delivery list) io" where
  "buildDeliveriesForEvent w ctx event =
     (let conversationID = ev_ConversationID event; messageID = ev_MessageID event in
      if conversationID = [] \<or> messageID = [] then ret []
      else
        andThen (wrapping (''load conversation '' @ conversationID)
          (of_result (cvr_ConversationByID (wk_conversations w) conversationID))) (\<lambda>conv.
        andThen (wrapping (''load message '' @ messageID @ '' in conversation '' @ conversationID)
          (of_result (cvr_MessageByID (wk_conversations w) conversationID messageID))) (\<lambda>message.
        andThen (wrapping (''load members for conversation '' @ conversationID)
          (of_result (cvr_ConversationMembers (wk_conversations w) conversationID))) (\<lambda>members.
        andThen (load_members w ctx conversationID message members no_account_data) (\<lambda>ad.
        ret (buildDeliveries (wk_location w) (wk_now w) (ev_EventID event) conv message members ad))))))"

subsection \<open>Fan-out\<close>

definition save_deliveries :: "'s notif_service \<Rightarrow> delivery list \<Rightarrow> ('s world, delivery list) io" where
  "save_deliveries sv ds = for_each (\<lambda>d.
     wrapping (''save notification delivery '' @ dlv_DedupKey d)
       (on_store (nso_SaveDelivery (nsv_store sv) d))) ds"

text \<open>The transaction of one event; the result is the advanced cursor.\<close>

definition fan_out_event ::
    "('s, 'p) notif_worker \<Rightarrow> go_context \<Rightarrow> worker_cursor \<Rightarrow> conv_event \<Rightarrow> ('s world, worker_cursor) io" where
  "fan_out_event w ctx cursor event =
     (let sv = wk_service w in
      within_tx (
        andThen (if ev_EventType event = EventTypeMessageCreated
          then andThen (buildDeliveriesForEvent w ctx event) (save_deliveries sv)
          else ret []) (\<lambda>_.
        let cursor' = cursor\<lparr>
            wcur_LastSequence := maxUint64 [wcur_LastSequence cursor, ev_Sequence event],
            wcur_UpdatedAt := wk_now w\<rparr> in
        andThen (wrapping (''save notification cursor '' @ wcur_Name cursor')
          (on_store (nso_SaveWorkerCursor (nsv_store sv) cursor'))) (\<lambda>_.
        ret cursor'))))"

fun fan_out_events ::
    "('s, 'p) notif_worker \<Rightarrow> go_context \<Rightarrow> worker_cursor \<Rightarrow> conv_event list \<Rightarrow> ('s world, worker_cursor) io" where
  "fan_out_events w ctx cursor [] = ret cursor"
| "fan_out_events w ctx cursor (event # events) =
     andThen (fan_out_event w ctx cursor event) (\<lambda>cursor'. fan_out_events w ctx cursor' events)"

definition processFanout :: "('s, 'p) notif_worker \<Rightarrow> go_context \<Rightarrow> ('s world, unit) io" where
  "processFanout w ctx =
     andThen (WorkerCursorByName (wk_service w) ctx (wk_name w)) (\<lambda>cursor.
     andThen (wrapping (''load conversation events after '' @
         decimal_digits (unat (wcur_LastSequence cursor)))
       (of_result (cvr_EventsAfterSequence (wk_conversations w) (wcur_LastSequence cursor)
         (nset_BatchSize (nsv_settings (wk_service w)))))) (\<lambda>events.
     andThen (fan_out_events w ctx cursor events) (\<lambda>_. ret ())))"

subsection \<open>Dispatch\<close>

definition resolveDeliveryTarget ::
    "('s, 'p) notif_worker \<Rightarrow> go_context \<Rightarrow> delivery \<Rightarrow> ('s world, push_token option) io" where
  "resolveDeliveryTarget w ctx d =
     (if dlv_Mode d \<noteq> DeliveryModePush then ret None
      else andThen (attempt (PushTokenByID (wk_service w) ctx (dlv_PushTokenID d))) (\<lambda>r.
        case r of
          Inr t \<Rightarrow> ret (Some t)
        | Inl e \<Rightarrow> if error_is e NotifErrNotFound
            then raise (Permanent (Sentinel Notification (OtherKind
              (''push token '' @ dlv_PushTokenID d @ '' is unavailable''))))
            else raise (Wrapped (''load push token '' @ dlv_PushTokenID d) e)))"

definition recordDeliveryFailure ::
    "('s, 'p) notif_worker \<Rightarrow> go_context \<Rightarrow> delivery \<Rightarrow> error \<Rightarrow> ('s world, unit) io" where
  "recordDeliveryFailure w ctx d e =
     (if isPermanentDeliveryError e
      then andThen (wrapping (''fail delivery '' @ dlv_ID d @ '' after permanent error'')
        (FailDelivery (wk_service w) ctx \<lparr>fdp_DeliveryID = dlv_ID d,
          fdp_LeaseToken = dlv_LeaseToken d, fdp_LastError = error_text e,
          fdp_FailedAt = zero_time\<rparr>)) (\<lambda>_. ret ())
      else andThen (wrapping (''retry delivery '' @ dlv_ID d)
        (RetryDelivery (wk_service w) ctx \<lparr>rdp_DeliveryID = dlv_ID d,
          rdp_LeaseToken = dlv_LeaseToken d, rdp_LastError = error_text e, rdp_RetryAt = zero_time,
          rdp_MaxAttempts = 0, rdp_AttemptedAt = zero_time\<rparr>)) (\<lambda>_. ret ()))"

definition processClaimedDelivery ::
    "('s, 'p) notif_worker \<Rightarrow> delivery_executor \<Rightarrow> go_context \<Rightarrow> delivery \<Rightarrow> ('s world, unit) io" where
  "processClaimedDelivery w execute ctx d =
     andThen (attempt (resolveDeliveryTarget w ctx d)) (\<lambda>r.
     case r of
       Inl e \<Rightarrow> recordDeliveryFailure w ctx d e
     | Inr target \<Rightarrow>
         (case execute d target of
            Some e \<Rightarrow> recordDeliveryFailure w ctx d e
          | None \<Rightarrow> andThen (wrapping (''acknowledge delivery '' @ dlv_ID d)
              (MarkDeliveryDelivered (wk_service w) ctx \<lparr>mdp_DeliveryID = dlv_ID d,
                mdp_LeaseToken = dlv_LeaseToken d, mdp_DeliveredAt = zero_time\<rparr>)) (\<lambda>_. ret ())))"

text \<open>\<open>result = errors.Join(result, err)\<close>.\<close>

definition join_error :: "error option \<Rightarrow> error + unit \<Rightarrow> error option" where
  "join_error result r =
     (case r of
        Inr _ \<Rightarrow> result
      | Inl e \<Rightarrow> Some (case result of None \<Rightarrow> Joined [e] | Some f \<Rightarrow> Joined [f, e]))"

definition error_result :: "error option \<Rightarrow> ('s, unit) io" where
  "error_result result = (case result of None \<Rightarrow> ret () | Some e \<Rightarrow> raise e)"

fun dispatch_all :: "('s, 'p) notif_worker \<Rightarrow> delivery_executor \<Rightarrow> go_context \<Rightarrow> delivery list \<Rightarrow>
    error option \<Rightarrow> ('s world, error option) io" where
  "dispatch_all w execute ctx [] result = ret result"
| "dispatch_all w execute ctx (d # ds) result =
     andThen (attempt (processClaimedDelivery w execute ctx d)) (\<lambda>r.
     dispatch_all w execute ctx ds (join_error result r))"

definition processDispatch ::
    "('s, 'p) notif_worker \<Rightarrow> delivery_executor \<Rightarrow> go_context \<Rightarrow> ('s world, unit) io" where
  "processDispatch w execute ctx =
     andThen (wrapping ''claim due deliveries'' (ClaimDeliveries (wk_service w) ctx
       \<lparr>cdp_Before = wk_now w, cdp_Limit = nset_BatchSize (nsv_settings (wk_service w)),
        cdp_LeaseToken = [],
        cdp_LeaseDuration = nset_DeliveryLeaseTTL (nsv_settings (wk_service w))\<rparr>)) (\<lambda>ds.
     andThen (dispatch_all w execute ctx ds None) error_result)"

definition processOnce :: "('s, 'p) notif_worker \<Rightarrow> go_context \<Rightarrow> ('s world, unit) io" where
  "processOnce w ctx =
     andThen (attempt (processFanout w ctx)) (\<lambda>r.
     let result = join_error None r in
     case wk_executor w of
       None \<Rightarrow> error_result result
     | Some execute \<Rightarrow> andThen (attempt (processDispatch w execute ctx)) (\<lambda>r2.
         error_result (join_error result r2)))"

text \<open>
  \<open>Run\<close> repeats the round until its context is cancelled and only logs what fails. The rounds
  that fit in before that are a list, each with the clock and the conversation log it meets.
\<close>

fun run_rounds :: "go_context \<Rightarrow> ('s, 'p) notif_worker list \<Rightarrow> ('s world, unit) io" where
  "run_rounds ctx [] = ret ()"
| "run_rounds ctx (w # ws) = andThen (attempt (processOnce w ctx)) (\<lambda>_. run_rounds ctx ws)"

definition worker_Run ::
    "go_context \<Rightarrow> bool \<Rightarrow> ('s, 'p) notif_worker list \<Rightarrow> ('s world, unit) io" where
  "worker_Run ctx has_logger rounds =
     andThen (notif_validateContext ctx ''run notification worker'') (\<lambda>_.
     andThen (reject_if (\<not> has_logger) NotifErrInvalidInput) (\<lambda>_.
     run_rounds ctx rounds))"

end
