(* ===== verification/NotifQueueProps.thy ===== *)
theory NotifQueueProps
  imports NotifMemoryProps
begin

section \<open>Push tokens and the delivery queue of the in-memory store\<close>

text \<open>
  What holds in every state the store's methods can reach, and what a lease on a delivery
  excludes.
\<close>

subsection \<open>Reachable states\<close>

inductive nm_step :: "nmem \<Rightarrow> nmem \<Rightarrow> bool" where
  preference: "nm_SavePreference clock p s = (r, s') \<Longrightarrow> nm_step s s'"
| override: "nm_SaveOverride clock ov s = (r, s') \<Longrightarrow> nm_step s s'"
| token: "nm_SavePushToken clock t s = (r, s') \<Longrightarrow> nm_step s s'"
| delete_token: "nm_DeletePushToken i s = (r, s') \<Longrightarrow> nm_step s s'"
| delivery: "nm_SaveDelivery clock d s = (r, s') \<Longrightarrow> nm_step s s'"
| claim: "nm_ClaimDeliveries clock cl s = (r, s') \<Longrightarrow> nm_step s s'"
| mark: "nm_MarkDeliveryDelivered clock md s = (r, s') \<Longrightarrow> nm_step s s'"
| fail: "nm_FailDelivery clock fd s = (r, s') \<Longrightarrow> nm_step s s'"
| retry: "nm_RetryDelivery clock rd s = (r, s') \<Longrightarrow> nm_step s s'"
| cursor: "nm_SaveWorkerCursor clock wc s = (r, s') \<Longrightarrow> nm_step s s'"

abbreviation nm_reachable :: "nmem \<Rightarrow> bool" where
  "nm_reachable s \<equiv> nm_step\<^sup>*\<^sup>* nm_NewMemoryStore s"

lemma nm_step_tokens: "nm_step s s' \<Longrightarrow> tokens_ok s \<Longrightarrow> tokens_ok s'"
proof (induction rule: nm_step.induct)
  case (token clock t s r s')
  then show ?case by (blast intro: SavePushToken_tokens)
next
  case (delete_token i s r s')
  then show ?case by (blast intro: DeletePushToken_tokens)
qed (auto elim!: tokens_untouched simp: nm_SavePreference_def nm_SaveOverride_def nm_SaveDelivery_def
    nm_ClaimDeliveries_def nm_MarkDeliveryDelivered_def nm_FailDelivery_def nm_RetryDelivery_def
    nm_SaveWorkerCursor_def put_delivery_def Let_def split: sum.splits option.splits if_splits)

lemma reachable_tokens: "nm_reachable s \<Longrightarrow> tokens_ok s"
proof (induction rule: rtranclp_induct)
  case base
  show ?case using queue_ok_New by (simp add: queue_ok_def)
next
  case (step s s')
  then show ?case by (blast intro: nm_step_tokens)
qed

lemma set_map_filter: "set (List.map_filter f xs) = {y. \<exists>x \<in> set xs. f x = Some y}"
  by (induction xs) (auto simp: map_filter_simps split: option.split)

lemma distinct_map_filter_inj:
  assumes "distinct xs"
    and "\<And>x y z. x \<in> set xs \<Longrightarrow> y \<in> set xs \<Longrightarrow> f x = Some z \<Longrightarrow> f y = Some z \<Longrightarrow> x = y"
  shows "distinct (List.map_filter f xs)"
  using assms
proof (induction xs)
  case (Cons x xs)
  then have "distinct (List.map_filter f xs)" by simp
  moreover have "y \<notin> set (List.map_filter f xs)" if "f x = Some y" for y
    using that Cons.prems by (auto simp: set_map_filter)
  ultimately show ?case by (simp add: map_filter_simps split: option.split)
qed (simp add: map_filter_simps)

lemma nm_PushTokens_run:
  "nm_PushTokensByAccountID a s = (Inr (sort_key (\<lambda>t. (tok_CreatedAt t, tok_ID t))
     (List.filter (\<lambda>t. tok_Enabled t \<and> tok_RevokedAt t = zero_time)
       (List.map_filter (lookup (pushTokensByID s)) (account_tokens (pushTokenIDsByAccount s) a)))), s)"
  by (simp add: nm_PushTokensByAccountID_def Let_def map_filter_simps)

lemma account_tokens_listed:
  assumes "tokens_ok s"
  shows "set (List.map_filter (lookup (pushTokensByID s)) (account_tokens (pushTokenIDsByAccount s) a)) =
      {t. lookup (pushTokensByID s) (tok_ID t) = Some t \<and> tok_AccountID t = a}"
    and "distinct (List.map_filter (lookup (pushTokensByID s)) (account_tokens (pushTokenIDsByAccount s) a))"
proof -
  let ?ids = "account_tokens (pushTokenIDsByAccount s) a"
  have keyed: "keyed_by tok_ID (\<lambda>t. tok_AccountID t \<noteq> []) (pushTokensByID s)"
    and ids: "distinct ?ids" "\<And>i. i \<in> set ?ids \<longleftrightarrow>
        (\<exists>t. lookup (pushTokensByID s) i = Some t \<and> tok_AccountID t = a)"
    using assms by (auto simp: tokens_ok_def account_index_ok_def)
  have id: "lookup (pushTokensByID s) i = Some t \<Longrightarrow> tok_ID t = i" for i t
    using keyed by (auto dest: keyed_byD(1))
  show "set (List.map_filter (lookup (pushTokensByID s)) ?ids) =
      {t. lookup (pushTokensByID s) (tok_ID t) = Some t \<and> tok_AccountID t = a}"
    using ids(2) id by (auto simp: set_map_filter)
  show "distinct (List.map_filter (lookup (pushTokensByID s)) ?ids)"
    by (rule distinct_map_filter_inj [OF ids(1)]) (use id in blast)
qed

text \<open>In every state that the methods of the store reach, in whatever order they run and
  whether or not they fail, no two registrations share a device or a token string, and listing
  the tokens of an account returns exactly its enabled, unrevoked registrations, each once, in
  the order of their creation.\<close>

theorem push_registrations_unique:
  assumes "nm_reachable s"
  shows "(\<forall>i j t u. lookup (pushTokensByID s) i = Some t \<and> lookup (pushTokensByID s) j = Some u \<and>
      (tok_DeviceID t = tok_DeviceID u \<or> tok_Token t = tok_Token u) \<longrightarrow> i = j \<and> t = u) \<and>
    (\<forall>a. \<exists>ts. nm_PushTokensByAccountID a s = (Inr ts, s) \<and> distinct ts \<and>
      sorted (List.map (\<lambda>t. (tok_CreatedAt t, tok_ID t)) ts) \<and>
      set ts = {t. lookup (pushTokensByID s) (tok_ID t) = Some t \<and> tok_AccountID t = a \<and>
        tok_Enabled t \<and> tok_RevokedAt t = zero_time})"
proof -
  have ok: "tokens_ok s" by (rule reachable_tokens [OF assms])
  then have ix: "exact_index tok_DeviceID (pushTokenIDsByDevice s) (pushTokensByID s)"
    "exact_index tok_Token (pushTokenIDsByToken s) (pushTokensByID s)" by (simp_all add: tokens_ok_def)
  have "i = j \<and> t = u" if "lookup (pushTokensByID s) i = Some t" "lookup (pushTokensByID s) j = Some u"
    "tok_DeviceID t = tok_DeviceID u \<or> tok_Token t = tok_Token u" for i j t u
    using that exact_index_unique [OF ix(1)] exact_index_unique [OF ix(2)] by fastforce
  moreover have "\<exists>ts. nm_PushTokensByAccountID a s = (Inr ts, s) \<and> distinct ts \<and>
      sorted (List.map (\<lambda>t. (tok_CreatedAt t, tok_ID t)) ts) \<and>
      set ts = {t. lookup (pushTokensByID s) (tok_ID t) = Some t \<and> tok_AccountID t = a \<and>
        tok_Enabled t \<and> tok_RevokedAt t = zero_time}" for a
    by (rule exI, rule conjI, rule nm_PushTokens_run)
      (use account_tokens_listed [OF ok, of a] in auto)
  ultimately show ?thesis by blast
qed

definition sample_token :: push_token where
  "sample_token = \<lparr>tok_ID = ''t1'', tok_AccountID = ''u1'', tok_DeviceID = ''d1'',
     tok_Provider = ''apns'', tok_Token = ''x1'', tok_Platform = DevicePlatformIOS,
     tok_Enabled = True, tok_CreatedAt = 1, tok_UpdatedAt = 1, tok_RevokedAt = 0\<rparr>"

definition other_device_token :: push_token where
  "other_device_token = sample_token\<lparr>tok_ID := ''t2'', tok_AccountID := ''u2'',
     tok_DeviceID := ''d2'', tok_Token := ''x2''\<rparr>"

definition token_store :: nmem where
  "token_store = snd (nm_SavePushToken 1 sample_token nm_NewMemoryStore)"

lemmas notif_literal_simps = lower_text_def visible_def

lemma sample_tokens_normal:
  "normalize_push_token sample_token now = Inr sample_token"
  "normalize_push_token other_device_token now = Inr other_device_token"
  by (simp_all add: normalize_push_token_def sample_token_def other_device_token_def notif_literal_simps Let_def)

lemma token_store_run:
  "nm_SavePushToken 1 sample_token nm_NewMemoryStore = (Inr sample_token, token_store)"
  by (simp add: token_store_def nm_SavePushToken_def sample_tokens_normal other_token_def
      nm_NewMemoryStore_def Let_def)

lemma token_store_reachable: "nm_reachable token_store"
  by (rule r_into_rtranclp) (rule nm_step.token [OF token_store_run])

theorem push_registrations_unique_witness:
  "nm_PushTokensByAccountID ''u1'' token_store = (Inr [sample_token], token_store)"
proof -
  from push_registrations_unique [OF token_store_reachable] obtain ts where
    ts: "nm_PushTokensByAccountID ''u1'' token_store = (Inr ts, token_store)" "distinct ts"
      "set ts = {t. lookup (pushTokensByID token_store) (tok_ID t) = Some t \<and> tok_AccountID t = ''u1'' \<and>
        tok_Enabled t \<and> tok_RevokedAt t = zero_time}"
    by blast
  have "lookup (pushTokensByID token_store) = [''t1'' \<mapsto> sample_token]"
    by (simp add: token_store_def nm_SavePushToken_def sample_tokens_normal other_token_def
        nm_NewMemoryStore_def store_push_token_def Let_def) (simp add: sample_token_def)
  then have "set ts = {sample_token}" unfolding ts(3) by (auto simp: sample_token_def split: if_splits)
  with ts(1,2) show ?thesis
    by (cases ts; cases "tl ts") auto
qed







subsection \<open>Leases on deliveries\<close>

abbreviation claim_time :: "time \<Rightarrow> claim_deliveries_params \<Rightarrow> time" where
  "claim_time clock p \<equiv> or_time (cdp_Before p) clock"

abbreviation claim_expiry :: "time \<Rightarrow> claim_deliveries_params \<Rightarrow> time" where
  "claim_expiry clock p \<equiv> claim_time clock p + cdp_LeaseDuration p"

lemma Claim_Inr:
  assumes "nm_ClaimDeliveries clock p s = (Inr ds, s')" "0 < cdp_Limit p"
  shows "cdp_LeaseToken p \<noteq> []" "0 < cdp_LeaseDuration p"
    and "ds = List.map (claimed_delivery (cdp_LeaseToken p) (claim_expiry clock p) (claim_time clock p))
      (due_batch (claim_time clock p) (cdp_Limit p) s)"
    and "s' = s\<lparr>deliveriesByID := put_all dlv_ID ds (deliveriesByID s)\<rparr>"
  using assms by (auto simp: nm_ClaimDeliveries_def Let_def split: if_splits)

lemma claimed_delivery_stored:
  assumes "queue_ok s" "nm_ClaimDeliveries clock p s = (Inr ds, s')" "d \<in> set ds"
  shows "delivery_at s' (dlv_ID d) = Some d" "dlv_State d = DeliveryStateQueued"
    "dlv_LeaseToken d = cdp_LeaseToken p" "dlv_LeaseExpiresAt d = claim_expiry clock p"
    "cdp_LeaseToken p \<noteq> []"
proof -
  have limit: "0 < cdp_Limit p" using assms(2,3) by (auto simp: nm_ClaimDeliveries_def split: if_splits)
  note run = Claim_Inr [OF assms(2) limit]
  have ok: "keyed_by dlv_ID delivery_sound (deliveriesByID s)"
    using assms(1) by (simp add: queue_ok_def deliveries_ok_def)
  have "distinct (List.map dlv_ID ds)"
    unfolding run(3) using distinct_selection [OF ok] by (simp add: due_batch_def)
  then show "delivery_at s' (dlv_ID d) = Some d"
    unfolding run(4) using assms(3) by (simp add: lookup_put_all)
  show "cdp_LeaseToken p \<noteq> []" by (rule run(1))
  from assms(3) obtain e where e: "e \<in> set (due_batch (claim_time clock p) (cdp_Limit p) s)"
    and d: "d = claimed_delivery (cdp_LeaseToken p) (claim_expiry clock p) (claim_time clock p) e"
    unfolding run(3) by auto
  have "delivery_due (claim_time clock p) e"
    using selection_entry(2) [OF ok] e unfolding due_batch_def by blast
  then show "dlv_State d = DeliveryStateQueued" "dlv_LeaseToken d = cdp_LeaseToken p"
    "dlv_LeaseExpiresAt d = claim_expiry clock p"
    by (simp_all add: d claimed_delivery_def delivery_due_def)
qed

text \<open>A claim takes at most as many deliveries as asked for, only due ones, in the order of
  priority, then time; each carries the token and the expiry of the claim; a due delivery is
  left out only when the limit is reached, and then it does not come before a claimed one;
  what is not claimed stays as it is.\<close>

theorem claim_takes_due_in_order:
  assumes "queue_ok s" "nm_ClaimDeliveries clock p s = (Inr ds, s')" "0 < cdp_Limit p"
  shows "length ds \<le> nat (cdp_Limit p) \<and> distinct (List.map dlv_ID ds) \<and>
    sorted (List.map delivery_order ds) \<and>
    (\<forall>d \<in> set ds. dlv_LeaseToken d = cdp_LeaseToken p \<and> dlv_LeaseExpiresAt d = claim_expiry clock p \<and>
      delivery_at s' (dlv_ID d) = Some d \<and>
      (\<exists>e. delivery_at s (dlv_ID d) = Some e \<and> delivery_due (claim_time clock p) e)) \<and>
    (\<forall>i e. delivery_at s i = Some e \<and> i \<notin> dlv_ID ` set ds \<longrightarrow> delivery_at s' i = Some e \<and>
      (delivery_due (claim_time clock p) e \<longrightarrow> length ds = nat (cdp_Limit p) \<and>
        (\<forall>d \<in> set ds. delivery_order d \<le> delivery_order e)))"
proof -
  let ?t = "claim_time clock p" and ?n = "nat (cdp_Limit p)"
  let ?claim = "claimed_delivery (cdp_LeaseToken p) (claim_expiry clock p) ?t"
  let ?all = "sort_key delivery_order (List.filter (delivery_due ?t) (entries (deliveriesByID s)))"
  note run = Claim_Inr [OF assms(2,3)]
  have ds: "ds = List.map ?claim (take ?n ?all)" by (simp add: run(3) due_batch_def)
  have ok: "keyed_by dlv_ID delivery_sound (deliveriesByID s)"
    using assms(1) by (simp add: queue_ok_def deliveries_ok_def)
  have order: "delivery_order (?claim d) = delivery_order d" "dlv_ID (?claim d) = dlv_ID d" for d
    by (simp_all add: delivery_order_def claimed_delivery_def)
  have srt: "sorted (List.map delivery_order ?all)" by simp
  have bound: "length ds \<le> ?n" by (simp add: ds)
  have dist: "distinct (List.map dlv_ID ds)"
    using distinct_selection [OF ok, of ?n delivery_order "delivery_due ?t"] by (simp add: ds)
  have sorted: "sorted (List.map delivery_order ds)"
    using sorted_wrt_take [OF srt, of ?n] by (simp add: ds order comp_def take_map)
  have each: "dlv_LeaseToken d = cdp_LeaseToken p \<and> dlv_LeaseExpiresAt d = claim_expiry clock p \<and>
      delivery_at s' (dlv_ID d) = Some d \<and>
      (\<exists>e. delivery_at s (dlv_ID d) = Some e \<and> delivery_due ?t e)" if "d \<in> set ds" for d
  proof -
    from that obtain e where e: "e \<in> set (take ?n ?all)" and d: "d = ?claim e" by (auto simp: ds)
    from selection_entry [OF ok e] have "delivery_at s (dlv_ID d) = Some e \<and> delivery_due ?t e"
      by (simp add: d order)
    with claimed_delivery_stored [OF assms(1,2) that] show ?thesis by blast
  qed
  have rest: "delivery_at s' i = Some e \<and> (delivery_due ?t e \<longrightarrow> length ds = ?n \<and>
        (\<forall>d \<in> set ds. delivery_order d \<le> delivery_order e))"
    if "delivery_at s i = Some e" "i \<notin> dlv_ID ` set ds" for i e
  proof (intro conjI impI)
    show "delivery_at s' i = Some e" using that by (simp add: run(4) lookup_put_all_other)
    assume due: "delivery_due ?t e"
    have i: "dlv_ID e = i" using keyed_byD(1) [OF ok that(1)] .
    have "e \<in> set ?all" using keyed_by_entries [OF ok, of e] due that(1) i by auto
    moreover have "e \<notin> set (take ?n ?all)"
    proof
      assume "e \<in> set (take ?n ?all)"
      then have "?claim e \<in> set ds" by (simp add: ds)
      with that(2) i order(2) show False by (metis image_eqI)
    qed
    ultimately have dropped: "e \<in> set (drop ?n ?all)"
      by (metis Un_iff append_take_drop_id set_append)
    then have "?n < length ?all" by (cases "?n < length ?all") auto
    then show "length ds = ?n" by (simp add: ds)
    have "sorted (List.map delivery_order (take ?n ?all) @ List.map delivery_order (drop ?n ?all))"
      using srt by (metis append_take_drop_id map_append)
    then show "\<forall>d \<in> set ds. delivery_order d \<le> delivery_order e"
      using dropped by (auto simp: sorted_append ds order)
  qed
  show ?thesis using bound dist sorted each rest by blast
qed

definition sample_delivery :: delivery where
  "sample_delivery = \<lparr>dlv_ID = ''k1'', dlv_DedupKey = ''k1'', dlv_EventID = ''e1'',
     dlv_ConversationID = ''c1'', dlv_MessageID = ''m1'', dlv_AccountID = ''u1'', dlv_DeviceID = [],
     dlv_PushTokenID = [], dlv_Kind = NotificationKindGroup, dlv_Reason = ''group'',
     dlv_Mode = DeliveryModeInApp, dlv_State = DeliveryStateQueued, dlv_Priority = 60,
     dlv_Attempts = 0, dlv_NextAttemptAt = 1, dlv_LeaseToken = [], dlv_LeaseExpiresAt = 0,
     dlv_LastAttemptAt = 0, dlv_LastError = [], dlv_CreatedAt = 1, dlv_UpdatedAt = 1\<rparr>"

definition sample_queue :: nmem where
  "sample_queue = snd (nm_SaveDelivery 1 sample_delivery nm_NewMemoryStore)"

definition sample_delivery_claim :: claim_deliveries_params where
  "sample_delivery_claim = \<lparr>cdp_Before = 10, cdp_Limit = 1, cdp_LeaseToken = ''lease'', cdp_LeaseDuration = 5\<rparr>"

abbreviation claimed_sample :: delivery where
  "claimed_sample \<equiv> claimed_delivery ''lease'' 15 10 sample_delivery"

lemma sample_delivery_normal: "normalize_delivery sample_delivery now = Inr sample_delivery"
  by (simp add: normalize_delivery_def sample_delivery_def notif_literal_simps Let_def)

lemma sample_queue_value:
  "sample_queue = nm_NewMemoryStore\<lparr>deliveriesByID := [(''k1'', sample_delivery)],
     deliveryIDsByDedup := [(''k1'', ''k1'')]\<rparr>"
proof -
  have f: "dlv_ID sample_delivery = ''k1''" "dlv_DedupKey sample_delivery = ''k1''"
    by (simp_all add: sample_delivery_def)
  show ?thesis
    by (simp add: sample_queue_def nm_SaveDelivery_def sample_delivery_normal nm_NewMemoryStore_def
        put_delivery_def put_def f)
qed

lemma sample_queue_ok: "queue_ok sample_queue"
proof -
  have "own_key sample_delivery" by (simp add: own_key_def sample_delivery_def)
  moreover have "nm_SaveDelivery 1 sample_delivery nm_NewMemoryStore =
      (fst (nm_SaveDelivery 1 sample_delivery nm_NewMemoryStore), sample_queue)"
    by (simp add: sample_queue_def)
  ultimately show ?thesis using Save_queue [OF queue_ok_New] by blast
qed

lemma sample_delivery_claim_run:
  "nm_ClaimDeliveries 0 sample_delivery_claim sample_queue = (Inr [claimed_sample],
     sample_queue\<lparr>deliveriesByID := [(''k1'', claimed_sample)]\<rparr>)"
proof -
  have "due_batch 10 1 sample_queue = [sample_delivery]"
    by (simp add: due_batch_def sample_queue_value delivery_due_def) (simp add: sample_delivery_def)
  moreover have "dlv_ID claimed_sample = ''k1''" by (simp add: claimed_delivery_def sample_delivery_def)
  ultimately show ?thesis
    by (simp add: nm_ClaimDeliveries_def sample_delivery_claim_def sample_queue_value put_def Let_def)
qed

theorem claim_takes_due_in_order_witness:
  "dlv_LeaseToken claimed_sample = ''lease'' \<and> sorted (List.map delivery_order [claimed_sample])"
  using claim_takes_due_in_order [OF sample_queue_ok sample_delivery_claim_run]
  by (simp add: sample_delivery_claim_def claimed_delivery_def)

text \<open>C23: A lease is exclusive. Until it expires a second claim, by whatever caller, takes none of
  the leased deliveries; an attempt to finish one of them under another token is rejected with a
  conflict and changes nothing; and the holder can finish each of them, up to and including the
  instant of expiry.\<close>

theorem delivery_lease_exclusive:
  assumes "queue_ok s" "nm_ClaimDeliveries clock p s = (Inr ds, s1)" "d \<in> set ds"
    and "claim_expiry clock p \<noteq> 0"
  shows "(\<forall>clock2 q es s2. nm_ClaimDeliveries clock2 q s1 = (Inr es, s2) \<and>
      claim_time clock2 q < claim_expiry clock p \<longrightarrow> dlv_ID d \<notin> dlv_ID ` set es) \<and>
    (\<forall>clock2 token at. token \<noteq> [] \<and> token \<noteq> cdp_LeaseToken p \<longrightarrow>
      nm_MarkDeliveryDelivered clock2 \<lparr>mdp_DeliveryID = dlv_ID d, mdp_LeaseToken = token,
        mdp_DeliveredAt = at\<rparr> s1 = (Inl NotifErrConflict, s1) \<and>
      (\<forall>err. nm_FailDelivery clock2 \<lparr>fdp_DeliveryID = dlv_ID d, fdp_LeaseToken = token,
        fdp_LastError = err, fdp_FailedAt = at\<rparr> s1 = (Inl NotifErrConflict, s1)) \<and>
      (\<forall>err again n. nm_RetryDelivery clock2 \<lparr>rdp_DeliveryID = dlv_ID d, rdp_LeaseToken = token,
        rdp_LastError = err, rdp_RetryAt = again, rdp_MaxAttempts = n, rdp_AttemptedAt = at\<rparr> s1 =
          (Inl NotifErrConflict, s1))) \<and>
    (\<forall>clock2 at. or_time at clock2 \<le> claim_expiry clock p \<longrightarrow>
      fst (nm_MarkDeliveryDelivered clock2 \<lparr>mdp_DeliveryID = dlv_ID d,
        mdp_LeaseToken = cdp_LeaseToken p, mdp_DeliveredAt = at\<rparr> s1) =
        Inr (delivered_delivery (or_time at clock2) d))"
proof -
  note d = claimed_delivery_stored [OF assms(1-3)]
  have ok: "queue_ok s1" using Claim_queue [OF assms(1,2)] by blast
  have again: "dlv_ID d \<notin> dlv_ID ` set es"
    if run: "nm_ClaimDeliveries clock2 q s1 = (Inr es, s2)"
      and early: "claim_time clock2 q < claim_expiry clock p" for clock2 q es s2
  proof
    assume "dlv_ID d \<in> dlv_ID ` set es"
    then obtain e where e: "e \<in> set es" "dlv_ID e = dlv_ID d" by auto
    then have limit: "0 < cdp_Limit q" using run by (auto simp: nm_ClaimDeliveries_def split: if_splits)
    from e Claim_Inr(3) [OF run limit] obtain e0 where
      e0: "e0 \<in> set (due_batch (claim_time clock2 q) (cdp_Limit q) s1)" "dlv_ID e0 = dlv_ID d"
      by (auto simp: claimed_delivery_def)
    have keyed: "keyed_by dlv_ID delivery_sound (deliveriesByID s1)"
      using ok by (simp add: queue_ok_def deliveries_ok_def)
    from selection_entry [OF keyed e0(1) [unfolded due_batch_def]] e0(2) d(1)
    have "delivery_due (claim_time clock2 q) d" by simp
    with d(4) early assms(4) show False by (simp add: delivery_due_def)
  qed
  have other: "lease_guard token at d = Inl NotifErrConflict"
    if "token \<noteq> []" "token \<noteq> cdp_LeaseToken p" for token at
    using that d by (simp add: lease_guard_def)
  have holder: "lease_guard (cdp_LeaseToken p) at d = Inr d" if "at \<le> claim_expiry clock p" for at
    using that d assms(4) by (simp add: lease_guard_def)
  have twice: "or_time (or_time at clock2) clock2 = or_time at clock2" for at clock2
    by (simp add: or_time_def)
  show ?thesis
  proof (intro conjI)
    show "\<forall>clock2 q es s2. nm_ClaimDeliveries clock2 q s1 = (Inr es, s2) \<and>
        claim_time clock2 q < claim_expiry clock p \<longrightarrow> dlv_ID d \<notin> dlv_ID ` set es"
      using again by blast
  qed (auto simp: nm_MarkDeliveryDelivered_def nm_FailDelivery_def nm_RetryDelivery_def
      lockedDeliveryForLeaseAt_def Let_def other holder d(1) twice)
qed

theorem delivery_lease_exclusive_witness:
  "fst (nm_MarkDeliveryDelivered 12 \<lparr>mdp_DeliveryID = ''k1'', mdp_LeaseToken = ''stolen'',
     mdp_DeliveredAt = 0\<rparr> (sample_queue\<lparr>deliveriesByID := [(''k1'', claimed_sample)]\<rparr>)) =
   Inl NotifErrConflict"
proof -
  have "dlv_ID claimed_sample = ''k1''" by (simp add: claimed_delivery_def sample_delivery_def)
  with delivery_lease_exclusive [OF sample_queue_ok sample_delivery_claim_run, of claimed_sample]
  show ?thesis by (simp add: sample_delivery_claim_def)
qed

end
