(* ===== verification/NotifWorkerProps.thy ===== *)
theory NotifWorkerProps
  imports NotifWorker NotifQueueProps
begin

section \<open>The notification service and worker over a delivery queue\<close>

text \<open>
  Every operation of the service and every round of the worker is followed over any store that
  keeps the contract \<open>notification_queue\<close>: it only moves deliveries along their life and
  cursors forward. The properties are read off for the in-memory store.
\<close>

lemma for_each_Inr_Cons:
  "for_each f (x # xs) s = (Inr ys, s') \<longleftrightarrow>
     (\<exists>y zs s1. f x s = (Inr y, s1) \<and> for_each f xs s1 = (Inr zs, s') \<and> ys = y # zs)"
  by (auto simp: andThen_Inr)

lemma keeps_for_each_in:
  assumes "preorder_on_states R" "\<And>x. x \<in> set xs \<Longrightarrow> keeps R (f x)"
  shows "keeps R (for_each f xs)"
  using assms by (induction xs) (auto intro!: keeps_andThen keeps_pure)

subsection \<open>Deliveries are saved under their own key\<close>

lemma deliveries_for_own_key:
  "d \<in> set (deliveries_for loc now ev conv message members ad i) \<Longrightarrow> own_key d"
  by (auto simp: deliveries_for_def suppressedDelivery_def queuedDelivery_def own_key_def Let_def
      split: option.splits if_splits)

lemma buildDeliveries_own_key:
  "d \<in> set (buildDeliveries loc now ev conv message members ad) \<Longrightarrow> own_key d"
  by (auto simp: buildDeliveries_def dest: deliveries_for_own_key)

lemma event_deliveries_own_key:
  assumes "buildDeliveriesForEvent w ctx event s = (Inr ds, s')" "d \<in> set ds"
  shows "own_key d"
  using assms buildDeliveries_own_key
  unfolding buildDeliveriesForEvent_def Let_def
  by (auto simp: io_inv andThen_Inr split: if_splits)

lemma params_own_key:
  "normalize_delivery (delivery_of_params p now) now = Inr d \<Longrightarrow> own_key d"
  using normalize_delivery_shape [of "delivery_of_params p now" now d]
  by (simp add: own_key_def delivery_of_params_def Let_def)

subsection \<open>What every operation keeps\<close>

context notification_queue
begin

definition moves :: "'s \<Rightarrow> 's \<Rightarrow> bool" where
  "moves s s' \<longleftrightarrow> (valid s \<longrightarrow> valid s' \<and> evolves dlv_at wcur_at s s')"

lemma movesI: "(valid s \<Longrightarrow> valid s' \<and> evolves dlv_at wcur_at s s') \<Longrightarrow> moves s s'"
  by (simp add: moves_def)

lemma preorder_moves [keeps_rules]: "preorder_on_states moves"
  unfolding preorder_on_states_def moves_def
  using evolves_trans [of dlv_at wcur_at] by auto

lemma preorder_moves_world [keeps_rules]: "preorder_on_states (on_world moves)"
  by (rule preorder_on_world [OF preorder_moves])

lemma keeps_store_ops [keeps_rules]:
  "keeps moves (nso_SavePreference S p)" "keeps moves (nso_SaveOverride S ov)"
  "keeps moves (nso_SavePushToken S t)" "keeps moves (nso_DeletePushToken S i)"
  "keeps moves (nso_ClaimDeliveries S cl)" "keeps moves (nso_MarkDeliveryDelivered S md)"
  "keeps moves (nso_FailDelivery S fd)" "keeps moves (nso_RetryDelivery S rd)"
  "keeps moves (nso_SaveWorkerCursor S wc)"
  by (rule keepsI, rule movesI, erule (1) writes)+

lemma keeps_save_own: "own_key d \<Longrightarrow> keeps moves (nso_SaveDelivery S d)"
  by (rule keepsI, rule movesI, erule (2) writes)

lemma keeps_store_reads [keeps_rules]:
  "keeps moves (nso_PreferenceByAccountID S i)"
  "keeps moves (nso_OverrideByConversationAndAccount S cv i)"
  "keeps moves (nso_PushTokenByID S i)" "keeps moves (nso_PushTokensByAccountID S i)"
  "keeps moves (nso_DeliveriesDue S before lim)" "keeps moves (nso_DeliveryByID S i)"
  "keeps moves (nso_WorkerCursorByName S n)"
  by (rule keeps_same [OF _ preorder_moves],
      simp add: reads DeliveryByID WorkerCursorByName notif_found_or_run split: option.split)+

lemma keeps_service_steps [keeps_rules]:
  "keeps (on_world moves) (notif_validateContext ctx operation)"
  "keeps (on_world moves) (notif_activeAccount sv i)"
  "keeps (on_world moves) (notif_newID pre)"
  by (simp_all add: notif_validateContext_def notif_activeAccount_def notif_newID_def
      keeps_pure keeps_random_id preorder_moves preorder_moves_world)

lemmas service_defs = SetPreference_def PreferenceByAccountID_def SetConversationOverride_def
  ConversationOverrideByConversationAndAccount_def RegisterPushToken_def PushTokensByAccountID_def
  PushTokenByID_def RevokePushToken_def ClaimDeliveries_def MarkDeliveryDelivered_def
  FailDelivery_def RetryDelivery_def SaveWorkerCursor_def WorkerCursorByName_def
  svc_DeliveryByID_def svc_DeliveriesDue_def

lemma keeps_service [keeps_rules]:
  assumes S: "nsv_store sv = S"
  shows "keeps (on_world moves) (SetPreference sv ctx pp)"
    "keeps (on_world moves) (PreferenceByAccountID sv ctx i)"
    "keeps (on_world moves) (SetConversationOverride sv ctx op)"
    "keeps (on_world moves) (ConversationOverrideByConversationAndAccount sv ctx cv i)"
    "keeps (on_world moves) (RegisterPushToken sv ctx rp)"
    "keeps (on_world moves) (PushTokensByAccountID sv ctx i)"
    "keeps (on_world moves) (PushTokenByID sv ctx i)"
    "keeps (on_world moves) (RevokePushToken sv ctx vp)"
    "keeps (on_world moves) (ClaimDeliveries sv ctx cp)"
    "keeps (on_world moves) (MarkDeliveryDelivered sv ctx mp)"
    "keeps (on_world moves) (FailDelivery sv ctx fp)"
    "keeps (on_world moves) (RetryDelivery sv ctx yp)"
    "keeps (on_world moves) (SaveWorkerCursor sv ctx wp)"
    "keeps (on_world moves) (WorkerCursorByName sv ctx n)"
    "keeps (on_world moves) (svc_DeliveryByID sv ctx i)"
    "keeps (on_world moves) (svc_DeliveriesDue sv ctx before lim)"
  unfolding service_defs S by (intro keeps_rules)+

lemma keeps_QueueDelivery [keeps_rules]:
  assumes S: "nsv_store sv = S"
  shows "keeps (on_world moves) (QueueDelivery sv ctx qp)"
  unfolding QueueDelivery_def S
proof (intro keeps_rules)
  fix d
  assume "\<exists>s s1. of_result (normalize_delivery (delivery_of_params qp (nsv_now sv)) (nsv_now sv)) s =
    (Inr d, s1)"
  then show "keeps moves (nso_SaveDelivery S d)" by (auto intro: keeps_save_own params_own_key)
qed

text \<open>The worker, whose service works on the store.\<close>

lemma keeps_load_members [keeps_rules]:
  assumes "nsv_store (wk_service w) = S"
  shows "keeps (on_world moves) (load_members w ctx cv message ms ad)"
  using assms
  by (induction w ctx cv message ms ad rule: load_members.induct)
    (auto simp: Let_def intro!: keeps_pure keeps_andThen keeps_service preorder_moves_world
      split: sum.splits)

lemma keeps_buildDeliveriesForEvent [keeps_rules]:
  assumes S: "nsv_store (wk_service w) = S"
  shows "keeps (on_world moves) (buildDeliveriesForEvent w ctx event)"
  unfolding buildDeliveriesForEvent_def by (intro keeps_rules S)

lemma keeps_save_deliveries:
  assumes "nsv_store sv = S" "\<And>d. d \<in> set ds \<Longrightarrow> own_key d"
  shows "keeps (on_world moves) (save_deliveries sv ds)"
  unfolding save_deliveries_def assms(1)
  by (intro keeps_for_each_in keeps_rules keeps_save_own assms(2))

lemma keeps_fan_out_event [keeps_rules]:
  assumes S: "nsv_store (wk_service w) = S"
  shows "keeps (on_world moves) (fan_out_event w ctx cursor event)"
  unfolding fan_out_event_def Let_def S
  by (intro keeps_rules keeps_save_deliveries S) (auto intro: event_deliveries_own_key)

lemma keeps_fan_out_events [keeps_rules]:
  assumes "nsv_store (wk_service w) = S"
  shows "keeps (on_world moves) (fan_out_events w ctx cursor events)"
  using assms
  by (induction w ctx cursor events rule: fan_out_events.induct)
    (auto intro!: keeps_pure keeps_andThen keeps_fan_out_event preorder_moves_world)

lemma keeps_processClaimedDelivery [keeps_rules]:
  assumes S: "nsv_store (wk_service w) = S"
  shows "keeps (on_world moves) (processClaimedDelivery w execute ctx d)"
  unfolding processClaimedDelivery_def resolveDeliveryTarget_def recordDeliveryFailure_def
  by (intro keeps_rules S)

lemma keeps_dispatch_all [keeps_rules]:
  assumes "nsv_store (wk_service w) = S"
  shows "keeps (on_world moves) (dispatch_all w execute ctx ds result)"
  using assms
  by (induction w execute ctx ds result rule: dispatch_all.induct)
    (auto intro!: keeps_pure keeps_andThen keeps_attempt keeps_processClaimedDelivery preorder_moves_world)

lemma keeps_error_result [keeps_rules]:
  "preorder_on_states R \<Longrightarrow> keeps R (error_result result)"
  by (cases result) (simp_all add: error_result_def keeps_pure)

lemma keeps_processOnce [keeps_rules]:
  assumes S: "nsv_store (wk_service w) = S"
  shows "keeps (on_world moves) (processOnce w ctx)"
  unfolding processOnce_def processFanout_def processDispatch_def
  by (intro keeps_rules S)

lemma keeps_run_rounds:
  assumes "\<And>w. w \<in> set ws \<Longrightarrow> nsv_store (wk_service w) = S"
  shows "keeps (on_world moves) (run_rounds ctx ws)"
  using assms by (induction ws) (auto intro!: keeps_rules)

lemma keeps_worker_Run:
  assumes "\<And>w. w \<in> set ws \<Longrightarrow> nsv_store (wk_service w) = S"
  shows "keeps (on_world moves) (worker_Run ctx has_logger ws)"
  unfolding worker_Run_def by (intro keeps_rules keeps_run_rounds assms)

end

subsection \<open>Replaying an event\<close>

context notification_fanout
begin

text \<open>A computation that only looks, and only at what the fan-out reads.\<close>

definition looks :: "('s world, 'a) io \<Rightarrow> bool" where
  "looks m \<longleftrightarrow> (\<exists>g. \<forall>st. m st = (g (fanout_reads S (w_store st)), st))"

lemma looksI: "(\<And>st. m st = (g (fanout_reads S (w_store st)), st)) \<Longrightarrow> looks m"
  unfolding looks_def by blast

lemma looksE:
  assumes "looks m"
  obtains g where "\<And>st. m st = (g (fanout_reads S (w_store st)), st)"
  using assms unfolding looks_def by blast

lemma looks_pure: "looks (ret x)" "looks (raise e)" "looks (of_result r)" "looks (reject_if c e)"
  by (auto simp: looks_def reject_if_def)

lemma looks_andThen:
  assumes "looks m" "\<And>x. looks (f x)"
  shows "looks (andThen m f)"
proof -
  obtain g where g: "\<And>st. m st = (g (fanout_reads S (w_store st)), st)"
    using looksE [OF assms(1)] by blast
  from assms(2) obtain h where h: "\<And>x st. f x st = (h x (fanout_reads S (w_store st)), st)"
    unfolding looks_def by metis
  show ?thesis
    by (rule looksI [where g = "\<lambda>r. case g r of Inl e \<Rightarrow> Inl e | Inr x \<Rightarrow> h x r"])
      (simp add: andThen_def g h split: sum.split)
qed

lemma looks_wrapping:
  assumes "looks m"
  shows "looks (wrapping p m)"
proof -
  obtain g where g: "\<And>st. m st = (g (fanout_reads S (w_store st)), st)"
    using looksE [OF assms] by blast
  show ?thesis
    by (rule looksI [where g = "\<lambda>r. case g r of Inl e \<Rightarrow> Inl (Wrapped p e) | Inr x \<Rightarrow> Inr x"])
      (simp add: wrapping_def g split: sum.split)
qed

lemma looks_attempt:
  assumes "looks m"
  shows "looks (attempt m)"
proof -
  obtain g where g: "\<And>st. m st = (g (fanout_reads S (w_store st)), st)"
    using looksE [OF assms] by blast
  show ?thesis by (rule looksI [where g = "\<lambda>r. Inr (g r)"]) (simp add: attempt_def g)
qed

lemma looks_store: "(\<And>s. m s = (g (fanout_reads S s), s)) \<Longrightarrow> looks (on_store m)"
  by (rule looksI [where g = g]) (simp add: on_store_def)

lemma looks_reads:
  "looks (on_store (nso_PreferenceByAccountID S i))"
  "looks (on_store (nso_OverrideByConversationAndAccount S cv i))"
  "looks (on_store (nso_PushTokensByAccountID S i))"
  by (rule looks_store [where g = "\<lambda>(p, ov, t). p i"]
      looks_store [where g = "\<lambda>(p, ov, t). ov cv i"]
      looks_store [where g = "\<lambda>(p, ov, t). t i"],
      simp add: fanout_reads_def reads prod_eq_iff)+

lemma looks_case_sum:
  "(\<And>e. looks (f e)) \<Longrightarrow> (\<And>x. looks (g x)) \<Longrightarrow> looks (case r of Inl e \<Rightarrow> f e | Inr x \<Rightarrow> g x)"
  by (cases r) simp_all

lemma looks_Let: "(\<And>x. looks (f x)) \<Longrightarrow> looks (let x = v in f x)"
  by simp

lemma looks_if: "looks m \<Longrightarrow> looks n \<Longrightarrow> looks (if c then m else n)"
  by simp

lemmas looks_rules = looks_pure looks_andThen looks_wrapping looks_attempt looks_reads
  looks_case_sum looks_Let looks_if

lemma looks_service:
  assumes S: "nsv_store sv = S"
  shows "looks (PreferenceByAccountID sv ctx i)"
    "looks (ConversationOverrideByConversationAndAccount sv ctx cv i)"
    "looks (PushTokensByAccountID sv ctx i)"
  unfolding PreferenceByAccountID_def ConversationOverrideByConversationAndAccount_def
    PushTokensByAccountID_def notif_validateContext_def notif_activeAccount_def S
  by (intro looks_rules)+

lemma looks_load_members:
  assumes "nsv_store (wk_service w) = S"
  shows "looks (load_members w ctx cv message ms ad)"
proof (induction ms arbitrary: ad)
  case Nil
  show ?case unfolding load_members.simps by (rule looks_pure)
next
  case (Cons m ms)
  show ?case unfolding load_members.simps Let_def
    by (intro looks_rules looks_service Cons.IH assms)
qed

lemma looks_buildDeliveriesForEvent:
  assumes S: "nsv_store (wk_service w) = S"
  shows "looks (buildDeliveriesForEvent w ctx event)"
  unfolding buildDeliveriesForEvent_def by (intro looks_rules looks_load_members S)

lemma looks_again:
  "looks m \<Longrightarrow> m st = (r, st') \<Longrightarrow> fanout_reads S (w_store t) = fanout_reads S (w_store st) \<Longrightarrow>
   st' = st \<and> m t = (r, t)"
  by (auto simp: looks_def)

text \<open>A delivery that is in the queue with the attempts it would be saved with.\<close>

definition queued_already :: "'s \<Rightarrow> delivery \<Rightarrow> bool" where
  "queued_already s d \<longleftrightarrow> own_key d \<and> (\<exists>t x t'. nso_SaveDelivery S d t = (Inr x, t')) \<and>
     (\<exists>e. dlv_at s (trim_space (dlv_ID d)) = Some e \<and> dlv_Attempts d \<le> dlv_Attempts e)"

lemma queued_already_later:
  assumes "queued_already s d" "evolves dlv_at wcur_at s s'"
  shows "queued_already s' d"
proof -
  from assms(1) obtain e where e: "dlv_at s (trim_space (dlv_ID d)) = Some e"
    "dlv_Attempts d \<le> dlv_Attempts e" unfolding queued_already_def by blast
  from assms(2) e(1) obtain e' where e': "dlv_at s' (trim_space (dlv_ID d)) = Some e'"
    "delivery_steps e e'" unfolding evolves_def by blast
  from delivery_steps_later [OF e'(2)] have "dlv_Attempts e \<le> dlv_Attempts e'"
    by (simp add: delivery_later_def)
  with e(2) e'(1) assms(1) show ?thesis unfolding queued_already_def by force
qed

lemma save_delivery_run:
  assumes "nsv_store sv = S"
  shows "wrapping p (on_store (nso_SaveDelivery (nsv_store sv) d)) st = (Inr e, st') \<longleftrightarrow>
    (\<exists>s'. nso_SaveDelivery S d (w_store st) = (Inr e, s') \<and> st' = st\<lparr>w_store := s'\<rparr>)"
  by (auto simp: wrapping_Inr on_store_Inr assms)

lemma saved_deliveries_queued:
  assumes S: "nsv_store sv = S"
  shows "save_deliveries sv ds st = (Inr es, st') \<Longrightarrow> valid (w_store st) \<Longrightarrow>
    (\<And>d. d \<in> set ds \<Longrightarrow> own_key d) \<Longrightarrow>
    valid (w_store st') \<and> evolves dlv_at wcur_at (w_store st) (w_store st') \<and>
    fanout_reads S (w_store st') = fanout_reads S (w_store st) \<and>
    (\<forall>d \<in> set ds. queued_already (w_store st') d)"
proof (induction ds arbitrary: st es)
  case Nil
  then show ?case by (simp add: save_deliveries_def)
next
  case (Cons d ds)
  from Cons.prems(1) obtain e es' s1 where
    one: "nso_SaveDelivery S d (w_store st) = (Inr e, s1)" and
    rest: "save_deliveries sv ds (st\<lparr>w_store := s1\<rparr>) = (Inr es', st')"
    unfolding save_deliveries_def by (auto simp: andThen_Inr save_delivery_run [OF S])
  have own: "own_key d" using Cons.prems(3) by simp
  from writes(5) [OF Cons.prems(2) own one] have
    s1: "valid s1" "evolves dlv_at wcur_at (w_store st) s1" by auto
  from Cons.IH [OF rest] s1(1) Cons.prems(3) have
    ih: "valid (w_store st')" "evolves dlv_at wcur_at s1 (w_store st')"
      "fanout_reads S (w_store st') = fanout_reads S s1" "\<forall>d \<in> set ds. queued_already (w_store st') d"
    by auto
  from saved_delivery [OF Cons.prems(2) own one] own one have "queued_already s1 d"
    unfolding queued_already_def by blast
  from queued_already_later [OF this ih(2)] ih evolves_trans [OF s1(2) ih(2)] reads_apart(1) [OF one]
  show ?case by simp
qed

lemma save_deliveries_again:
  assumes S: "nsv_store sv = S" and "valid (w_store st)"
  shows "\<forall>d \<in> set ds. queued_already (w_store st) d \<Longrightarrow> \<exists>es. save_deliveries sv ds st = (Inr es, st)"
proof (induction ds)
  case Nil
  show ?case by (simp add: save_deliveries_def)
next
  case (Cons d ds)
  then obtain es where es: "save_deliveries sv ds st = (Inr es, st)" by auto
  from Cons.prems obtain e where "nso_SaveDelivery S d (w_store st) = (Inr e, w_store st)"
    unfolding queued_already_def using saved_again [OF assms(2)] by auto
  then have "wrapping p (on_store (nso_SaveDelivery (nsv_store sv) d)) st = (Inr e, st)" for p
    by (simp add: save_delivery_run [OF S])
  with es show ?case by (auto simp: save_deliveries_def andThen_Inr)
qed

text \<open>
  An event that was fanned out is fanned out again, from the same cursor, in a later state with
  the same settings: the run succeeds and changes nothing, whatever became of the deliveries.
\<close>

lemma fan_out_event_again:
  assumes S: "nsv_store (wk_service w) = S"
    and run: "fan_out_event w ctx cursor event st = (Inr c, st1)" and valid: "valid (w_store st)"
    and later: "valid (w_store st2)" "evolves dlv_at wcur_at (w_store st1) (w_store st2)"
      "fanout_reads S (w_store st2) = fanout_reads S (w_store st)"
  shows "fan_out_event w ctx cursor event st2 = (Inr c, st2)"
proof -
  let ?created = "ev_EventType event = EventTypeMessageCreated"
  let ?body = "if ?created then andThen (buildDeliveriesForEvent w ctx event) (save_deliveries (wk_service w))
    else ret []"
  let ?cursor = "cursor\<lparr>wcur_LastSequence := maxUint64 [wcur_LastSequence cursor, ev_Sequence event],
    wcur_UpdatedAt := wk_now w\<rparr>"
  from run obtain es sta x s1 where body: "?body st = (Inr es, sta)"
    and saved: "nso_SaveWorkerCursor S ?cursor (w_store sta) = (Inr x, s1)"
    and c: "c = ?cursor" and st1: "st1 = sta\<lparr>w_store := s1\<rparr>"
    unfolding fan_out_event_def Let_def within_tx_Inr
    by (auto simp: andThen_Inr wrapping_Inr on_store_Inr ret_Inr S)
  have again: "\<exists>es'. ?body st2 = (Inr es', st2) \<and> valid (w_store sta)"
  proof (cases ?created)
    case True
    with body obtain ds stb where built: "buildDeliveriesForEvent w ctx event st = (Inr ds, stb)"
      and kept: "save_deliveries (wk_service w) ds stb = (Inr es, sta)"
      by (auto simp: andThen_Inr)
    from looks_again [OF looks_buildDeliveriesForEvent [OF S] built, of st2] later(3)
    have stb: "stb = st" and rebuilt: "buildDeliveriesForEvent w ctx event st2 = (Inr ds, st2)" by auto
    note queued = saved_deliveries_queued [OF S kept [unfolded stb] valid event_deliveries_own_key [OF built]]
    have "evolves dlv_at wcur_at (w_store sta) s1" using queued writes(10) [OF _ saved] by blast
    with later(2) st1 have "evolves dlv_at wcur_at (w_store sta) (w_store st2)"
      by (auto intro: evolves_trans)
    with queued have "\<forall>d \<in> set ds. queued_already (w_store st2) d" by (auto intro: queued_already_later)
    from save_deliveries_again [OF S later(1) this] obtain es' where
      "save_deliveries (wk_service w) ds st2 = (Inr es', st2)" by blast
    with True rebuilt queued show ?thesis by (auto simp: andThen_Inr)
  next
    case False
    with body valid show ?thesis by simp
  qed
  then obtain es' where body2: "?body st2 = (Inr es', st2)" and "valid (w_store sta)" by blast
  from saved_cursor [OF this(2) saved] have x: "wcur_at s1 (norm_name (wcur_Name ?cursor)) = Some x"
    "wcur_LastSequence ?cursor \<le> wcur_LastSequence x" by auto
  with later(2) st1 obtain x' where x': "wcur_at (w_store st2) (norm_name (wcur_Name ?cursor)) = Some x'"
    "wcur_LastSequence x \<le> wcur_LastSequence x'" unfolding evolves_def by force
  have "nso_SaveWorkerCursor S ?cursor (w_store st2) = (Inr x', w_store st2)"
    by (rule saved_cursor_again [OF saved x'(1)]) (use x(2) x'(2) in simp)
  with body2 show ?thesis
    unfolding fan_out_event_def Let_def within_tx_Inr
    by (auto simp: andThen_Inr wrapping_Inr on_store_Inr ret_Inr S c)
qed

lemma fan_out_event_reads:
  assumes S: "nsv_store (wk_service w) = S"
    and run: "fan_out_event w ctx cursor event st = (Inr c, st1)" and valid: "valid (w_store st)"
  shows "fanout_reads S (w_store st1) = fanout_reads S (w_store st)"
proof -
  let ?created = "ev_EventType event = EventTypeMessageCreated"
  let ?body = "if ?created then andThen (buildDeliveriesForEvent w ctx event) (save_deliveries (wk_service w))
    else ret []"
  from run obtain es sta wc x s1 where body: "?body st = (Inr es, sta)"
    and saved: "nso_SaveWorkerCursor S wc (w_store sta) = (Inr x, s1)" and st1: "st1 = sta\<lparr>w_store := s1\<rparr>"
    unfolding fan_out_event_def Let_def within_tx_Inr
    by (auto simp: andThen_Inr wrapping_Inr on_store_Inr ret_Inr S)
  have "fanout_reads S (w_store sta) = fanout_reads S (w_store st)"
  proof (cases ?created)
    case True
    with body obtain ds stb where built: "buildDeliveriesForEvent w ctx event st = (Inr ds, stb)"
      and kept: "save_deliveries (wk_service w) ds stb = (Inr es, sta)" by (auto simp: andThen_Inr)
    have "stb = st" using looks_again [OF looks_buildDeliveriesForEvent [OF S] built refl] by blast
    with saved_deliveries_queued [OF S kept] valid event_deliveries_own_key [OF built] show ?thesis by blast
  next
    case False
    with body show ?thesis by simp
  qed
  with reads_apart(2) [OF saved] show ?thesis by (simp add: st1)
qed

end

end
