(* ===== verification/NotifDispatch.thy ===== *)
theory NotifDispatch
  imports NotifWorkerProps
begin

section \<open>Attempts, backoff and giving up\<close>

text \<open>
  What one dispatch round does to the deliveries it claims, how long a delivery that failed
  waits, and why no delivery is attempted for ever.
\<close>

subsection \<open>Backoff\<close>

lemma backoff_from_min: "0 < b \<Longrightarrow> backoff_from maximal n b = min maximal (b * 2 ^ n)"
proof (induction n arbitrary: b)
  case (Suc n)
  have p: "(1 :: int) \<le> 2 ^ n" by simp
  have "b * 1 \<le> b * 2 ^ n" using Suc.prems by (intro mult_left_mono p) auto
  then have "maximal \<le> b * (2 * 2 ^ n)" if "maximal \<le> b * 2" using that by linarith
  moreover have "maximal \<le> b * 2" if "maximal div 2 < b" using that by linarith
  ultimately show ?case using Suc.IH [of "b * 2"] Suc.prems by (auto simp: min_def mult.assoc)
qed simp

lemma retryBackoff_value:
  assumes "settings_ok (nsv_settings sv)"
  shows "retryBackoff sv n = min (nset_RetryMaxBackoff (nsv_settings sv))
    (nset_RetryInitialBackoff (nsv_settings sv) * 2 ^ nat (n - 1))"
  using assms by (simp add: retryBackoff_def normalize_settings_fixed backoff_from_min settings_ok_def Let_def)

text \<open>C28: The delay before the next attempt doubles with every attempt, from the initial delay up to
  the maximal one: after attempt \<open>n\<close> it is the smaller of the maximum and the initial delay
  times \<open>2 ^ (n - 1)\<close>; it never leaves the interval between the two settings, so the doubling
  never overflows a duration, and it never decreases.\<close>

theorem retry_backoff_doubles:
  assumes "settings_ok (nsv_settings sv)" "m \<le> n"
  shows "retryBackoff sv n = min (nset_RetryMaxBackoff (nsv_settings sv))
      (nset_RetryInitialBackoff (nsv_settings sv) * 2 ^ nat (n - 1)) \<and>
    retryBackoff sv n \<in> {nset_RetryInitialBackoff (nsv_settings sv)..nset_RetryMaxBackoff (nsv_settings sv)} \<and>
    retryBackoff sv m \<le> retryBackoff sv n"
proof -
  let ?i = "nset_RetryInitialBackoff (nsv_settings sv)"
  have i: "0 < ?i" "?i \<le> nset_RetryMaxBackoff (nsv_settings sv)" using assms(1) by (simp_all add: settings_ok_def)
  have "?i * 1 \<le> ?i * 2 ^ nat (n - 1)" using i by (intro mult_left_mono one_le_power) auto
  moreover have "?i * 2 ^ nat (m - 1) \<le> ?i * 2 ^ nat (n - 1)"
    using i assms(2) by (intro mult_left_mono power_increasing nat_mono) auto
  ultimately show ?thesis using i unfolding retryBackoff_value [OF assms(1)]
    by (simp add: min_le_iff_disj)
qed

definition no_accounts :: identity_reads where
  "no_accounts = \<lparr>id_AccountByID = \<lambda>i. Inl IdentityErrNotFound,
     id_SessionsByAccountID = \<lambda>i. Inr [], id_DevicesByAccountID = \<lambda>i. Inr []\<rparr>"

definition sample_notif_service :: "time \<Rightarrow> nmem notif_service" where
  "sample_notif_service now = \<lparr>nsv_store = notif_memory now, nsv_identity = no_accounts,
     nsv_now = now, nsv_settings = DefaultSettings\<rparr>"

lemma sample_service_simps [simp]:
  "nsv_store (sample_notif_service now) = notif_memory now"
  "nsv_identity (sample_notif_service now) = no_accounts"
  "nsv_now (sample_notif_service now) = now"
  "nsv_settings (sample_notif_service now) = DefaultSettings"
  by (simp_all add: sample_notif_service_def)

lemma DefaultSettings_ok: "settings_ok DefaultSettings"
  by (simp add: settings_ok_def DefaultSettings_def)

theorem retry_backoff_doubles_witness:
  "retryBackoff (sample_notif_service 1) 3 = 4 * retryBackoff (sample_notif_service 1) 1 \<and>
   retryBackoff (sample_notif_service 1) 9 = nset_RetryMaxBackoff DefaultSettings"
  using retry_backoff_doubles [of "sample_notif_service 1" 1 3]
    retry_backoff_doubles [of "sample_notif_service 1" 3 9] retry_backoff_doubles [of "sample_notif_service 1" 1 1]
  by (simp add: DefaultSettings_ok) (simp add: DefaultSettings_def)

subsection \<open>One attempt\<close>













subsection \<open>One dispatch round\<close>

text \<open>A worker on the memory store whose clocks agree: the service reads its clock while the leases
  of the round last.\<close>

definition dispatch_ready :: "(nmem, 'p) notif_worker \<Rightarrow> delivery_executor \<Rightarrow> bool" where
  "dispatch_ready w execute \<longleftrightarrow> (\<exists>clock. nsv_store (wk_service w) = notif_memory clock) \<and>
     settings_ok (nsv_settings (wk_service w)) \<and> 0 < nsv_now (wk_service w) \<and> 0 < wk_now w \<and>
     nsv_now (wk_service w) \<le> wk_now w + nset_DeliveryLeaseTTL (nsv_settings (wk_service w)) \<and>
     (\<forall>d t e. execute d t = Some e \<longrightarrow> trim_space (error_text e) \<noteq> [])"







definition no_conversations :: conversation_reads where
  "no_conversations = \<lparr>cvr_EventsAfterSequence = \<lambda>after limit. Inr [],
     cvr_ConversationByID = \<lambda>i. Inl (Sentinel Conversation NotFound),
     cvr_MessageByID = \<lambda>i j. Inl (Sentinel Conversation NotFound),
     cvr_ConversationMembers = \<lambda>i. Inr []\<rparr>"

definition sample_notif_worker :: "time \<Rightarrow> time \<Rightarrow> (nmem, presence_mem) notif_worker" where
  "sample_notif_worker now later = \<lparr>wk_service = sample_notif_service later,
     wk_conversations = no_conversations,
     wk_presence = \<lparr>psv_store = presence_memory id, psv_identity = no_accounts, psv_now = now,
       psv_OnlineWindow = DefaultOnlineWindow\<rparr>,
     wk_presence_state = [], wk_executor = None, wk_name = defaultWorkerName, wk_now = now,
     wk_location = \<lambda>zone t. None\<rparr>"

lemma sample_worker_simps [simp]:
  "wk_service (sample_notif_worker now later) = sample_notif_service later"
  "wk_conversations (sample_notif_worker now later) = no_conversations"
  "wk_now (sample_notif_worker now later) = now"
  "wk_name (sample_notif_worker now later) = defaultWorkerName"
  by (simp_all add: sample_notif_worker_def)





subsection \<open>Giving up\<close>

text \<open>
  A history of dispatch rounds, by whatever workers with the same limit of attempts, and of
  other activity that leaves the delivery \<open>i\<close> alone; the number counts the rounds in which
  \<open>i\<close> was claimed.
\<close>

inductive dispatch_history :: "int \<Rightarrow> string \<Rightarrow> nat \<Rightarrow> nmem world \<Rightarrow> nmem world \<Rightarrow> bool"
  for maximal :: int and i :: string where
  start: "dispatch_history maximal i 0 st st"
| elsewhere: "queue_ok (w_store st1) \<Longrightarrow> delivery_at (w_store st1) i = delivery_at (w_store st) i \<Longrightarrow>
    dispatch_history maximal i n st1 st2 \<Longrightarrow> dispatch_history maximal i n st st2"
| round: "dispatch_ready (w :: (nmem, presence_mem) notif_worker) execute \<Longrightarrow>
    nset_MaxAttempts (nsv_settings (wk_service w)) = maximal \<Longrightarrow> 12 \<le> length (w_entropy st) \<Longrightarrow>
    processDispatch w execute LiveContext st = (r, st1) \<Longrightarrow> dispatch_history maximal i n st1 st2 \<Longrightarrow>
    dispatch_history maximal i
      (if delivery_at (w_store st) i \<in> Some ` set (due_batch (wk_now w)
          (nset_BatchSize (nsv_settings (wk_service w))) (w_store st)) then Suc n else n) st st2"




end
