(* ===== verification/NotifRoutingProps.thy ===== *)
theory NotifRoutingProps
  imports NotifRouting
begin

section \<open>What routing decides\<close>

text \<open>
  Every recipient is decided exactly once, as the settings say; quiet hours are a cyclic
  interval of the local day; and the two ways in which an account is told of a message against
  the intention of the code.
\<close>

subsection \<open>Recipients\<close>

lemma isMentioned_iff [simp]: "isMentioned i ms \<longleftrightarrow> i \<in> set ms"
  by (auto simp: isMentioned_def list_ex_iff)

definition reply_account :: "message \<Rightarrow> string" where
  "reply_account message = trim_space (mref_SenderAccountID (msg_ReplyTo message))"

lemma recipientIDs_iff:
  "i \<in> set (recipientIDs conv message members) \<longleftrightarrow> conv_Kind conv \<noteq> ConversationKindSavedMessages \<and>
    ((\<exists>m \<in> set members. activeConversationMember m \<and> cmem_AccountID m = i \<and>
        i \<noteq> msg_SenderAccountID message) \<or>
     i \<in> set (msg_MentionAccountIDs message) \<or> i = reply_account message \<and> i \<noteq> [])"
  by (auto simp: recipientIDs_def reply_account_def Let_def)

lemma recipientIDs_distinct: "distinct (recipientIDs conv message members)"
  by (simp add: recipientIDs_def Let_def)


lemma deliveries_for_account:
  "d \<in> set (deliveries_for loc now ev conv message members ad i) \<Longrightarrow> dlv_AccountID d = i"
  by (auto simp: deliveries_for_def queuedDelivery_def suppressedDelivery_def Let_def
      split: option.splits if_splits)

lemma filter_concat_map_key:
  assumes "distinct xs" "\<And>x y. y \<in> set (f x) \<Longrightarrow> k y = x"
  shows "List.filter (\<lambda>y. k y = i) (concat (List.map f xs)) = (if i \<in> set xs then f i else [])"
proof -
  have "List.filter (\<lambda>y. k y = i) (f x) = (if x = i then f x else [])" for x
    using assms(2) [of _ x] by (auto simp: filter_id_conv filter_empty_conv)
  then have step: "List.filter (\<lambda>y. k y = i) (concat (List.map f xs)) =
      concat (List.map (\<lambda>x. if x = i then f x else []) xs)"
    by (simp add: filter_concat comp_def)
  show ?thesis unfolding step using assms(1) by (induction xs) auto
qed

lemma buildDeliveries_of:
  "List.filter (\<lambda>d. dlv_AccountID d = i) (buildDeliveries loc now ev conv message members ad) =
     (if i \<in> set (recipientIDs conv message members)
      then deliveries_for loc now ev conv message members ad i else [])"
  unfolding buildDeliveries_def
  by (rule filter_concat_map_key [OF recipientIDs_distinct deliveries_for_account])


subsection \<open>Quiet hours\<close>

lemma cyclic_interval:
  fixes m s e n :: int
  assumes "0 \<le> m" "m < n" "0 \<le> s" "s < n" "0 \<le> e" "e < n" "s \<noteq> e"
  shows "(m - s) mod n < (e - s) mod n \<longleftrightarrow> (if s < e then s \<le> m \<and> m < e else s \<le> m \<or> m < e)"
proof -
  have wrap: "(a - s) mod n = (if s \<le> a then a - s else a - s + n)" if "0 \<le> a" "a < n" for a
  proof (cases "s \<le> a")
    case False
    have "(a - s + n) mod n = a - s + n" by (rule mod_pos_pos_trivial) (use that assms False in auto)
    then show ?thesis using False by simp
  qed (use that assms in \<open>simp add: mod_pos_pos_trivial\<close>)
  show ?thesis using assms by (simp add: wrap)
qed

text \<open>The quiet hours of a stored preference are a cyclic interval of the local day: a
  notification is held back exactly when the number of minutes since the start, counted around
  midnight, is smaller than the length of the interval, the start included and the end not; with
  equal ends the interval is empty. An unknown zone counts as UTC.\<close>

theorem quiet_hours_cyclic:
  assumes "normalize_quiet_hours q0 = Inr q"
    and "\<And>zone m. loc zone now = Some m \<Longrightarrow> 0 \<le> m \<and> m < 1440"
  shows "quietHoursActive loc now q \<longleftrightarrow> qh_Enabled q \<and> qh_StartMinute q \<noteq> qh_EndMinute q \<and>
    (let m = (case loc (qh_Timezone q) now of Some m \<Rightarrow> m | None \<Rightarrow> utc_minute now) in
     (m - qh_StartMinute q) mod 1440 < (qh_EndMinute q - qh_StartMinute q) mod 1440)"
proof (cases "qh_Enabled q")
  case False
  then show ?thesis by (simp add: quietHoursActive_def)
next
  case True
  with assms(1) have range: "0 \<le> qh_StartMinute q" "qh_StartMinute q < 1440"
      "0 \<le> qh_EndMinute q" "qh_EndMinute q < 1440"
    and zone: "trim_space (qh_Timezone q) = qh_Timezone q" "qh_Timezone q \<noteq> []"
    by (auto simp: normalize_quiet_hours_def minute_of_day_def no_quiet_hours_def Let_def
        visible_def split: if_splits)
  let ?m = "case loc (qh_Timezone q) now of Some m \<Rightarrow> m | None \<Rightarrow> utc_minute now"
  have m: "0 \<le> ?m" "?m < 1440" using assms(2) by (auto simp: utc_minute_def split: option.split)
  show ?thesis
    using cyclic_interval [OF m range(1,2) range(3,4)] True zone
    by (auto simp: quietHoursActive_def Let_def)
qed

definition night :: quiet_hours where
  "night = \<lparr>qh_Enabled = True, qh_StartMinute = 1380, qh_EndMinute = 420, qh_Timezone = ''Mars''\<rparr>"

theorem quiet_hours_cyclic_witness:
  "quietHoursActive (\<lambda>zone t. None) (30 * minute) night \<and>
   \<not> quietHoursActive (\<lambda>zone t. None) (420 * minute) night"
proof -
  have n: "normalize_quiet_hours night = Inr night"
    by (simp add: normalize_quiet_hours_def night_def minute_of_day_def visible_def)
  note active = quiet_hours_cyclic [OF n, of "\<lambda>zone t. None", simplified]
  show ?thesis by (simp only: active) (simp add: night_def utc_minute_def)
qed

subsection \<open>Accounts outside the conversation\<close>

lemma default_preference_enabled:
  "pref_Enabled (defaultPreference i now)" "kind_enabled (defaultPreference i now) kind"
  by (simp_all add: defaultPreference_def kind_enabled_def)

lemma outsider_zero_member:
  "i \<notin> cmem_AccountID ` set members \<Longrightarrow> membershipByAccountID members i = zero_member"
  by (auto simp: membershipByAccountID_def find_None_iff2 image_iff split: option.split dest: find_Some_in)

text \<open>C21: An account that is not in the member list, but that the message mentions or names as the
  author replied to, gets a queued notification: the missing membership is the zero value, which
  counts as an active one. A member who left or was banned gets at most a suppressed entry.\<close>

theorem outsider_is_notified:
  assumes "conv_Kind conv \<noteq> ConversationKindSavedMessages"
    and "i \<in> set (msg_MentionAccountIDs message) \<or>
      i = trim_space (mref_SenderAccountID (msg_ReplyTo message))"
    and "i \<noteq> []" "i \<noteq> msg_SenderAccountID message"
    and "lookup (ad_preference ad) i = None"
  shows "(i \<notin> cmem_AccountID ` set members \<longrightarrow>
      (\<exists>d \<in> set (buildDeliveries loc now ev conv message members ad).
         dlv_AccountID d = i \<and> dlv_State d = DeliveryStateQueued)) \<and>
    ((\<exists>m. find (\<lambda>m. cmem_AccountID m = i) members = Some m \<and> \<not> activeConversationMember m) \<longrightarrow>
      (\<forall>d \<in> set (buildDeliveries loc now ev conv message members ad).
         dlv_AccountID d = i \<longrightarrow> dlv_State d = DeliveryStateSuppressed))"
proof -
  let ?ds = "buildDeliveries loc now ev conv message members ad"
  let ?mine = "deliveries_for loc now ev conv message members ad i"
  have rec: "i \<in> set (recipientIDs conv message members)"
    using assms(1-3) by (auto simp: recipientIDs_iff reply_account_def)
  have mine: "d \<in> set ?ds \<and> dlv_AccountID d = i \<longleftrightarrow> d \<in> set ?mine" for d
    using arg_cong [OF buildDeliveries_of, of set i loc now ev conv message members ad] rec by auto
  obtain kind reason priority where route: "routeDecision conv message i = Some (kind, reason, priority)"
    and reason: "reason = ''mention'' \<or> reason = ''reply''"
    using assms(2-4)
    by (cases "i \<in> set (msg_MentionAccountIDs message)") (simp_all add: routeDecision_def Let_def)
  have deliver: "shouldDeliver loc (preference_of ad now i) ov member kind reason now \<longleftrightarrow>
      activeConversationMember member" for ov member
    using reason by (auto simp: shouldDeliver_def preference_of_def assms(5) default_preference_enabled)
  have zero: "activeConversationMember zero_member"
    by (simp add: activeConversationMember_def zero_member_def)
  have queued: "\<exists>d \<in> set ?mine. dlv_State d = DeliveryStateQueued"
    if "i \<notin> cmem_AccountID ` set members"
    by (auto simp: deliveries_for_def route deliver outsider_zero_member [OF that] zero Let_def
        queuedDelivery_def neq_Nil_conv)
  have suppressed: "\<forall>d \<in> set ?mine. dlv_State d = DeliveryStateSuppressed"
    if "find (\<lambda>m. cmem_AccountID m = i) members = Some m" "\<not> activeConversationMember m" for m
    using that by (simp add: deliveries_for_def route deliver membershipByAccountID_def Let_def
        suppressedDelivery_def)
  show ?thesis using mine queued suppressed by blast
qed

definition sample_conversation :: conversation where
  "sample_conversation = \<lparr>conv_ID = ''c1'', conv_Kind = ConversationKindGroup, conv_Title = ''team'',
     conv_Description = [], conv_AvatarMediaID = [], conv_OwnerAccountID = ''u1'',
     conv_Settings = \<lparr>cset_OnlyAdminsCanWrite = False, cset_OnlyAdminsCanAddMembers = False,
       cset_AllowReactions = True, cset_AllowForwards = True, cset_AllowThreads = True,
       cset_RequireEncryptedMessages = False, cset_RequireTrustedDevices = False,
       cset_RequireJoinApproval = False, cset_PinnedMessagesOnlyAdmins = False,
       cset_SlowModeInterval = 0\<rparr>,
     conv_Archived = False, conv_Muted = False, conv_Pinned = False, conv_Hidden = False,
     conv_LastSequence = 1, conv_UnreadCount = 0, conv_UnreadMentionCount = 0, conv_CreatedAt = 1,
     conv_UpdatedAt = 1, conv_LastMessageAt = 1\<rparr>"

definition sample_message :: message where
  "sample_message = \<lparr>msg_ID = ''m1'', msg_ConversationID = ''c1'', msg_SenderAccountID = ''u1'',
     msg_SenderDeviceID = ''d1'', msg_ClientMessageID = [], msg_Sequence = 1,
     msg_Kind = MessageKindText, msg_Status = MessageStatusSent,
     msg_Payload = \<lparr>enc_KeyID = [], enc_Algorithm = [], enc_Nonce = [], enc_Ciphertext = [],
       enc_AAD = [], enc_Metadata = []\<rparr>,
     msg_Attachments = [], msg_MentionAccountIDs = [''u9''],
     msg_ReplyTo = \<lparr>mref_ConversationID = [], mref_MessageID = [], mref_SenderAccountID = [],
       mref_MessageKind = [], mref_Snippet = []\<rparr>,
     msg_ThreadID = [], msg_Silent = False, msg_Pinned = False, msg_DisableLinkPreviews = False,
     msg_ViewCount = 0, msg_DeliverAt = 0, msg_Metadata = [], msg_Reactions = [],
     msg_CreatedAt = 1, msg_UpdatedAt = 1, msg_EditedAt = 0, msg_DeletedAt = 0\<rparr>"

definition sample_member :: "string \<Rightarrow> conv_member" where
  "sample_member accountID = \<lparr>cmem_ConversationID = ''c1'', cmem_AccountID = accountID,
     cmem_Role = MemberRoleMember, cmem_InvitedByAccountID = [], cmem_Muted = False,
     cmem_Banned = False, cmem_JoinedAt = 1, cmem_LeftAt = 0\<rparr>"

theorem outsider_is_notified_witness:
  "\<exists>d \<in> set (buildDeliveries (\<lambda>zone t. None) 5 ''e1'' sample_conversation sample_message
     [sample_member ''u1'', sample_member ''u2''] no_account_data).
     dlv_AccountID d = ''u9'' \<and> dlv_State d = DeliveryStateQueued"
proof -
  have c: "conv_Kind sample_conversation \<noteq> ConversationKindSavedMessages"
    by (simp add: sample_conversation_def)
  have i: "''u9'' \<in> set (msg_MentionAccountIDs sample_message) \<or>
      ''u9'' = trim_space (mref_SenderAccountID (msg_ReplyTo sample_message))"
    by (simp add: sample_message_def)
  have s: "''u9'' \<noteq> []" "''u9'' \<noteq> msg_SenderAccountID sample_message"
    by (simp_all add: sample_message_def)
  have p: "lookup (ad_preference no_account_data) ''u9'' = None" by (simp add: no_account_data_def)
  have out: "''u9'' \<notin> cmem_AccountID ` set [sample_member ''u1'', sample_member ''u2'']"
    by (simp add: sample_member_def)
  show ?thesis using outsider_is_notified [OF c i s p] out by blast
qed


end
