(* ===== verification/NotifHistory.thy ===== *)
theory NotifHistory
  imports NotifDispatch NotifRoutingProps
begin

section \<open>Histories of the notification domain over the memory store\<close>

text \<open>
  Any sequence of service operations and worker runs refines the delivery machine, and fanning
  an event out again changes nothing.
\<close>

subsection \<open>Refinement of the delivery machine\<close>






subsection \<open>Fanning out again\<close>


text \<open>A conversation log with one message to a group of two, whose accounts are unknown.\<close>

definition one_message_log :: conversation_reads where
  "one_message_log = \<lparr>cvr_EventsAfterSequence = \<lambda>after limit. Inr [],
     cvr_ConversationByID = \<lambda>i. Inr sample_conversation, cvr_MessageByID = \<lambda>i j. Inr sample_message,
     cvr_ConversationMembers = \<lambda>i. Inr [sample_member ''u1'', sample_member ''u2'']\<rparr>"

definition one_message_worker :: "(nmem, presence_mem) notif_worker" where
  "one_message_worker = (sample_notif_worker 10 12)\<lparr>wk_conversations := one_message_log\<rparr>"

definition message_event :: conv_event where
  "message_event = \<lparr>ev_EventID = ''e1'', ev_EventType = EventTypeMessageCreated, ev_ConversationID = ''c1'',
     ev_ActorAccountID = ''u1'', ev_ActorDeviceID = [], ev_CausationID = [], ev_CorrelationID = [],
     ev_MessageID = ''m1'', ev_Sequence = 7, ev_PayloadType = [], ev_Payload = msg_Payload sample_message,
     ev_ReadThroughSequence = 0, ev_Metadata = [], ev_CreatedAt = 1\<rparr>"


lemma one_message_worker_simps [simp]:
  "wk_service one_message_worker = sample_notif_service 12"
  "wk_conversations one_message_worker = one_message_log"
  "wk_now one_message_worker = 10"
  by (simp_all add: one_message_worker_def)

lemma message_event_simps [simp]:
  "ev_ConversationID message_event = ''c1''" "ev_MessageID message_event = ''m1''"
  "ev_EventType message_event = EventTypeMessageCreated" "ev_Sequence message_event = 7"
  "ev_EventID message_event = ''e1''"
  by (simp_all add: message_event_def)

lemma one_message_log_simps [simp]:
  "cvr_ConversationByID one_message_log i = Inr sample_conversation"
  "cvr_MessageByID one_message_log i j = Inr sample_message"
  "cvr_ConversationMembers one_message_log i = Inr [sample_member ''u1'', sample_member ''u2'']"
  by (simp_all add: one_message_log_def)

lemma one_message_built:
  "buildDeliveriesForEvent one_message_worker LiveContext message_event st =
     (Inr (buildDeliveries (wk_location one_message_worker) 10 ''e1'' sample_conversation sample_message
        [sample_member ''u1'', sample_member ''u2''] no_account_data), st)"
  by (simp add: buildDeliveriesForEvent_def andThen_run wrapping_run no_accounts_def Let_def)

subsection \<open>Inactive accounts\<close>

text \<open>One turn of the loop: what it collects belongs to the member at hand, whose account is active.\<close>

lemma load_members_turn:
  assumes "load_members w ctx cv message (m # ms) ad st = (Inr ad', st')"
  obtains ad1 st1 where "load_members w ctx cv message ms ad1 st1 = (Inr ad', st')"
    and "ad1 = ad \<or> (\<exists>a p ov. id_AccountByID (nsv_identity (wk_service w)) (cmem_AccountID m) = Inr a \<and>
      acct_Status a = AccountStatusActive \<and>
      ad_preference ad1 = put (cmem_AccountID m) p (ad_preference ad) \<and>
      ad_override ad1 = put (cmem_AccountID m) ov (ad_override ad))"
proof (cases "\<not> activeConversationMember m \<or> cmem_AccountID m = msg_SenderAccountID message")
  case True
  with assms that [of ad st] show ?thesis by (simp add: Let_def)
next
  case member: False
  show ?thesis
  proof (cases "id_AccountByID (nsv_identity (wk_service w)) (cmem_AccountID m)")
    case (Inl e)
    with assms member that [of ad st] show ?thesis by (simp add: Let_def split: if_splits)
  next
    case (Inr a)
    show ?thesis
    proof (cases "acct_Status a = AccountStatusActive")
      case False
      with assms member Inr that [of ad st] show ?thesis by (simp add: Let_def)
    next
      case True
      let ?i = "cmem_AccountID m"
      from assms member Inr True obtain p ov st1 where
        rest: "(let ad1 = ad\<lparr>ad_preference := put ?i p (ad_preference ad),
            ad_override := put ?i ov (ad_override ad)\<rparr> in
          case fst (GetPresence (wk_presence w) ctx \<lparr>gpp_AccountID = ?i, gpp_ViewerAccountID = ?i\<rparr>
            (wk_presence_state w)) of
            Inl e \<Rightarrow> if error_is e PresenceErrNotFound then load_members w ctx cv message ms ad1
              else raise (Wrapped (''resolve presence for account '' @ ?i) e)
          | Inr snap \<Rightarrow> andThen (PushTokensByAccountID (wk_service w) ctx ?i) (\<lambda>tokens.
              load_members w ctx cv message ms
                (ad1\<lparr>ad_presence := put ?i snap (ad_presence ad1),
                  ad_tokens := put ?i tokens (ad_tokens ad1)\<rparr>))) st1 = (Inr ad', st')"
        by (auto simp: Let_def andThen_Inr simp del: load_members.simps(1))
      show ?thesis
      proof (cases "fst (GetPresence (wk_presence w) ctx \<lparr>gpp_AccountID = ?i, gpp_ViewerAccountID = ?i\<rparr>
            (wk_presence_state w))")
        case (Inl e)
        with rest Inr True show ?thesis
          by (intro that [of "ad\<lparr>ad_preference := put ?i p (ad_preference ad),
              ad_override := put ?i ov (ad_override ad)\<rparr>" st1])
              (auto simp: Let_def split: if_splits)
      next
        case (Inr snap)
        with rest obtain tokens st2 where "load_members w ctx cv message ms
            (ad\<lparr>ad_preference := put ?i p (ad_preference ad), ad_override := put ?i ov (ad_override ad),
              ad_presence := put ?i snap (ad_presence ad), ad_tokens := put ?i tokens (ad_tokens ad)\<rparr>) st2 =
            (Inr ad', st')"
          by (auto simp: Let_def andThen_Inr)
        then show ?thesis
          by (rule that) (use \<open>id_AccountByID _ _ = Inr a\<close> True in auto)
      qed
    qed
  qed
qed

text \<open>Nothing is collected for an account that is not active.\<close>

lemma load_members_inactive:
  assumes "\<And>a. id_AccountByID (nsv_identity (wk_service w)) i = Inr a \<Longrightarrow> acct_Status a \<noteq> AccountStatusActive"
  shows "load_members w ctx cv message ms ad st = (Inr ad', st') \<Longrightarrow>
    lookup (ad_preference ad') i = lookup (ad_preference ad) i \<and>
    lookup (ad_override ad') i = lookup (ad_override ad) i"
proof (induction ms arbitrary: ad st)
  case Nil
  then show ?case by simp
next
  case (Cons m ms)
  from Cons.prems obtain ad1 st1 where
    rest: "load_members w ctx cv message ms ad1 st1 = (Inr ad', st')" and
    turn: "ad1 = ad \<or> (\<exists>a p ov. id_AccountByID (nsv_identity (wk_service w)) (cmem_AccountID m) = Inr a \<and>
      acct_Status a = AccountStatusActive \<and>
      ad_preference ad1 = put (cmem_AccountID m) p (ad_preference ad) \<and>
      ad_override ad1 = put (cmem_AccountID m) ov (ad_override ad))"
    by (rule load_members_turn)
  from turn assms have "lookup (ad_preference ad1) i = lookup (ad_preference ad) i \<and>
      lookup (ad_override ad1) i = lookup (ad_override ad) i"
    by (cases "cmem_AccountID m = i") auto
  with Cons.IH [OF rest] show ?case by simp
qed

lemma default_preference_quiet:
  "pref_MutedUntil (defaultPreference i now) = zero_time"
  "\<not> quietHoursActive loc now (pref_QuietHours (defaultPreference i now'))"
  by (simp_all add: defaultPreference_def no_quiet_hours_def quietHoursActive_def)

text \<open>C29: An account that is suspended, revoked or gone, but still an active member of the conversation,
  is notified of every message: the collection skips it, so the fan-out queues a delivery with
  the default settings, even when the account had muted the conversation or all notifications.\<close>

theorem inactive_account_is_notified:
  assumes "\<And>a. id_AccountByID (nsv_identity (wk_service w)) i = Inr a \<Longrightarrow> acct_Status a \<noteq> AccountStatusActive"
    and "cvr_ConversationByID (wk_conversations w) (ev_ConversationID event) = Inr conv"
    and "conv_Kind conv \<in> {ConversationKindDirect, ConversationKindGroup, ConversationKindChannel}"
    and "cvr_MessageByID (wk_conversations w) (ev_ConversationID event) (ev_MessageID event) = Inr message"
    and "cvr_ConversationMembers (wk_conversations w) (ev_ConversationID event) = Inr members"
    and "find (\<lambda>m. cmem_AccountID m = i) members = Some m" "activeConversationMember m"
    and "i \<noteq> []" "i \<noteq> msg_SenderAccountID message"
    and "ev_ConversationID event \<noteq> []" "ev_MessageID event \<noteq> []"
    and "buildDeliveriesForEvent w ctx event st = (Inr ds, st')"
  shows "\<exists>d \<in> set ds. dlv_AccountID d = i \<and> dlv_State d = DeliveryStateQueued"
proof -
  from assms(12) obtain ad where
    load: "load_members w ctx (ev_ConversationID event) message members no_account_data st = (Inr ad, st')"
    and ds: "ds = buildDeliveries (wk_location w) (wk_now w) (ev_EventID event) conv message members ad"
    by (auto simp: buildDeliveriesForEvent_def assms(2,4,5,10,11) andThen_Inr wrapping_Inr ret_Inr Let_def)
  from load_members_inactive [OF assms(1) load] have
    none: "lookup (ad_preference ad) i = None" "lookup (ad_override ad) i = None"
    by (simp_all add: no_account_data_def)
  have m: "m \<in> set members" "cmem_AccountID m = i" using find_Some_in [OF assms(6)] by auto
  have rec: "i \<in> set (recipientIDs conv message members)"
    using m assms(3,7,9) by (auto simp: recipientIDs_iff)
  obtain kind reason priority where route: "routeDecision conv message i = Some (kind, reason, priority)"
    using assms(3,8,9) by (fastforce simp: routeDecision_def Let_def)
  have "shouldDeliver (wk_location w) (preference_of ad (wk_now w) i) (override_of ad i)
      (membershipByAccountID members i) kind reason (wk_now w)"
    using assms(6,7) none
    by (auto simp: shouldDeliver_def preference_of_def override_of_def default_preference_enabled
        membershipByAccountID_def held_back_def zero_override_def default_preference_quiet)
  then have "\<exists>d \<in> set (deliveries_for (wk_location w) (wk_now w) (ev_EventID event) conv message members ad i).
      dlv_State d = DeliveryStateQueued"
    by (auto simp: deliveries_for_def route Let_def queuedDelivery_def neq_Nil_conv)
  moreover have "set (deliveries_for (wk_location w) (wk_now w) (ev_EventID event) conv message members ad i) =
      {d \<in> set ds. dlv_AccountID d = i}"
    using arg_cong [OF buildDeliveries_of, of set] rec unfolding ds by auto
  ultimately show ?thesis by auto
qed

theorem inactive_account_is_notified_witness:
  "\<exists>d \<in> set (buildDeliveries (wk_location one_message_worker) 10 ''e1'' sample_conversation sample_message
      [sample_member ''u1'', sample_member ''u2''] no_account_data).
     dlv_AccountID d = ''u2'' \<and> dlv_State d = DeliveryStateQueued"
proof (rule inactive_account_is_notified [where w = one_message_worker and event = message_event and
      conv = sample_conversation and message = sample_message and
      members = "[sample_member ''u1'', sample_member ''u2'']" and m = "sample_member ''u2''" and
      ctx = LiveContext])
  show "buildDeliveriesForEvent one_message_worker LiveContext message_event st =
      (Inr (buildDeliveries (wk_location one_message_worker) 10 ''e1'' sample_conversation sample_message
        [sample_member ''u1'', sample_member ''u2''] no_account_data), st)" for st
    by (rule one_message_built)
  show "conv_Kind sample_conversation \<in>
      {ConversationKindDirect, ConversationKindGroup, ConversationKindChannel}"
    by (simp add: sample_conversation_def)
  show "''u2'' \<noteq> msg_SenderAccountID sample_message" by (simp add: sample_message_def)
  show "activeConversationMember (sample_member ''u2'')"
    by (simp add: activeConversationMember_def sample_member_def)
  show "find (\<lambda>m. cmem_AccountID m = ''u2'')
      [sample_member ''u1'', sample_member ''u2''] = Some (sample_member ''u2'')"
    by (simp add: sample_member_def)
qed (simp_all add: no_accounts_def)









end
