(* ===== verification/ConvRecords.thy ===== *)
theory ConvRecords
  imports ConvModels GoEffects
begin

section \<open>The remaining records of the conversation domain\<close>

text \<open>
  The records of \<open>internal/domain/conversation/models.go\<close> that only the conversation domain
  reads, the moderation records (\<open>moderation.go\<close>), the parameters of the operations
  (\<open>params.go\<close>) and the sentinel errors (\<open>errors.go\<close>), with the source's fields. An optional
  pointer is an \<open>option\<close>; a Go map is an association list.
\<close>

subsection \<open>Errors\<close>

abbreviation ConvErrNotFound :: error where
  "ConvErrNotFound \<equiv> Sentinel Conversation NotFound"

abbreviation ConvErrConflict :: error where
  "ConvErrConflict \<equiv> Sentinel Conversation Conflict"

abbreviation ConvErrInvalidInput :: error where
  "ConvErrInvalidInput \<equiv> Sentinel Conversation InvalidInput"

abbreviation ConvErrForbidden :: error where
  "ConvErrForbidden \<equiv> Sentinel Conversation Forbidden"

abbreviation ConvErrRateLimited :: error where
  "ConvErrRateLimited \<equiv> Sentinel Conversation RateLimited"

subsection \<open>Topics, invites, drafts, read and sync states\<close>

record topic =
  top_ConversationID :: string
  top_ID :: string
  top_RootMessageID :: string
  top_Title :: string
  top_CreatedByAccountID :: string
  top_IsGeneral :: bool
  top_Archived :: bool
  top_Pinned :: bool
  top_Closed :: bool
  top_LastSequence :: uint64
  top_MessageCount :: uint64
  top_CreatedAt :: time
  top_UpdatedAt :: time
  top_LastMessageAt :: time
  top_ArchivedAt :: time
  top_ClosedAt :: time

record conv_invite =
  cinv_ID :: string
  cinv_ConversationID :: string
  cinv_Code :: string
  cinv_CreatedByAccountID :: string
  cinv_AllowedRoles :: "MemberRole list"
  cinv_ExpiresAt :: time
  cinv_MaxUses :: "32 word"
  cinv_UseCount :: "32 word"
  cinv_Revoked :: bool
  cinv_RevokedAt :: time
  cinv_CreatedAt :: time
  cinv_UpdatedAt :: time

record msg_draft =
  draft_ClientMessageID :: string
  draft_Kind :: MessageKind
  draft_Payload :: enc_payload
  draft_Attachments :: "attachment list"
  draft_MentionAccountIDs :: "string list"
  draft_ReplyTo :: msg_reference
  draft_ThreadID :: string
  draft_DeliverAt :: time
  draft_Silent :: bool
  draft_DisableLinkPreviews :: bool
  draft_Metadata :: "(string, string) gomap"

record read_state =
  rst_ConversationID :: string
  rst_AccountID :: string
  rst_DeviceID :: string
  rst_LastReadSequence :: uint64
  rst_LastDeliveredSequence :: uint64
  rst_LastAckedSequence :: uint64
  rst_UpdatedAt :: time

record sync_state =
  syn_DeviceID :: string
  syn_AccountID :: string
  syn_LastAppliedSequence :: uint64
  syn_LastAckedSequence :: uint64
  syn_ServerTime :: time
  syn_ConversationWatermarks :: "(string, uint64) gomap"

record conv_counters =
  ctr_ConversationID :: string
  ctr_UnreadCount :: uint64
  ctr_UnreadMentionCount :: uint64

subsection \<open>Moderation\<close>

type_synonym ModerationTargetKind = string

abbreviation ModerationTargetKindUnspecified :: ModerationTargetKind where
  "ModerationTargetKindUnspecified \<equiv> []"

abbreviation ModerationTargetKindConversation :: ModerationTargetKind where
  "ModerationTargetKindConversation \<equiv> ''conversation''"

abbreviation ModerationTargetKindTopic :: ModerationTargetKind where
  "ModerationTargetKindTopic \<equiv> ''topic''"

abbreviation ModerationTargetKindChannel :: ModerationTargetKind where
  "ModerationTargetKindChannel \<equiv> ''channel''"

record mod_policy =
  pol_TargetKind :: ModerationTargetKind
  pol_TargetID :: string
  pol_OnlyAdminsCanWrite :: bool
  pol_OnlyAdminsCanAddMembers :: bool
  pol_AllowReactions :: bool
  pol_AllowForwards :: bool
  pol_AllowThreads :: bool
  pol_RequireEncryptedMessages :: bool
  pol_RequireTrustedDevices :: bool
  pol_RequireJoinApproval :: bool
  pol_PinnedMessagesOnlyAdmins :: bool
  pol_SlowModeInterval :: duration
  pol_AntiSpamWindow :: duration
  pol_AntiSpamBurstLimit :: int
  pol_ShadowMode :: bool
  pol_CreatedAt :: time
  pol_UpdatedAt :: time

type_synonym ModerationReportStatus = string

abbreviation ModerationReportStatusUnspecified :: ModerationReportStatus where
  "ModerationReportStatusUnspecified \<equiv> []"

abbreviation ModerationReportStatusPending :: ModerationReportStatus where
  "ModerationReportStatusPending \<equiv> ''pending''"

abbreviation ModerationReportStatusResolved :: ModerationReportStatus where
  "ModerationReportStatusResolved \<equiv> ''resolved''"

abbreviation ModerationReportStatusRejected :: ModerationReportStatus where
  "ModerationReportStatusRejected \<equiv> ''rejected''"

record mod_report =
  rep_ID :: string
  rep_TargetKind :: ModerationTargetKind
  rep_TargetID :: string
  rep_ReporterAccountID :: string
  rep_TargetAccountID :: string
  rep_Reason :: string
  rep_Details :: string
  rep_Status :: ModerationReportStatus
  rep_ReviewedByAccountID :: string
  rep_ReviewedAt :: time
  rep_Resolution :: string
  rep_CreatedAt :: time
  rep_UpdatedAt :: time

type_synonym ModerationActionType = string

abbreviation ModerationActionTypeUnspecified :: ModerationActionType where
  "ModerationActionTypeUnspecified \<equiv> []"

abbreviation ModerationActionTypeBan :: ModerationActionType where
  "ModerationActionTypeBan \<equiv> ''ban''"

abbreviation ModerationActionTypeKick :: ModerationActionType where
  "ModerationActionTypeKick \<equiv> ''kick''"

abbreviation ModerationActionTypeMute :: ModerationActionType where
  "ModerationActionTypeMute \<equiv> ''mute''"

abbreviation ModerationActionTypeUnmute :: ModerationActionType where
  "ModerationActionTypeUnmute \<equiv> ''unmute''"

abbreviation ModerationActionTypeShadowBan :: ModerationActionType where
  "ModerationActionTypeShadowBan \<equiv> ''shadow_ban''"

abbreviation ModerationActionTypeShadowUnban :: ModerationActionType where
  "ModerationActionTypeShadowUnban \<equiv> ''shadow_unban''"

abbreviation ModerationActionTypePolicySet :: ModerationActionType where
  "ModerationActionTypePolicySet \<equiv> ''policy_set''"

abbreviation ModerationActionTypeReportSet :: ModerationActionType where
  "ModerationActionTypeReportSet \<equiv> ''report_set''"

abbreviation ModerationActionTypeReportResolve :: ModerationActionType where
  "ModerationActionTypeReportResolve \<equiv> ''report_resolve''"

abbreviation ModerationActionTypeReportReject :: ModerationActionType where
  "ModerationActionTypeReportReject \<equiv> ''report_reject''"

abbreviation ModerationActionTypeSlowModeSet :: ModerationActionType where
  "ModerationActionTypeSlowModeSet \<equiv> ''slow_mode_set''"

abbreviation ModerationActionTypeAntiSpamSet :: ModerationActionType where
  "ModerationActionTypeAntiSpamSet \<equiv> ''anti_spam_set''"

record mod_action =
  mact_ID :: string
  mact_TargetKind :: ModerationTargetKind
  mact_TargetID :: string
  mact_ActorAccountID :: string
  mact_TargetAccountID :: string
  mact_Type :: ModerationActionType
  mact_Duration :: duration
  mact_Reason :: string
  mact_Metadata :: "(string, string) gomap"
  mact_CreatedAt :: time

type_synonym ModerationRestrictionState = string

abbreviation ModerationRestrictionStateUnspecified :: ModerationRestrictionState where
  "ModerationRestrictionStateUnspecified \<equiv> []"

abbreviation ModerationRestrictionStateMuted :: ModerationRestrictionState where
  "ModerationRestrictionStateMuted \<equiv> ''muted''"

abbreviation ModerationRestrictionStateBanned :: ModerationRestrictionState where
  "ModerationRestrictionStateBanned \<equiv> ''banned''"

abbreviation ModerationRestrictionStateShadowed :: ModerationRestrictionState where
  "ModerationRestrictionStateShadowed \<equiv> ''shadowed''"

record restriction =
  rsn_TargetKind :: ModerationTargetKind
  rsn_TargetID :: string
  rsn_AccountID :: string
  rsn_State :: ModerationRestrictionState
  rsn_AppliedByAccountID :: string
  rsn_Reason :: string
  rsn_ExpiresAt :: time
  rsn_CreatedAt :: time
  rsn_UpdatedAt :: time

record rate_state =
  rate_TargetKind :: ModerationTargetKind
  rate_TargetID :: string
  rate_AccountID :: string
  rate_LastWriteAt :: time
  rate_WindowStartedAt :: time
  rate_WindowCount :: uint64
  rate_UpdatedAt :: time

record mod_decision =
  dec_Allowed :: bool
  dec_ShadowHidden :: bool
  dec_RetryAfter :: duration

subsection \<open>Parameters\<close>

record create_conversation_params =
  ccp_OwnerAccountID :: string
  ccp_Kind :: ConversationKind
  ccp_Title :: string
  ccp_Description :: string
  ccp_AvatarMediaID :: string
  ccp_MemberAccountIDs :: "string list"
  ccp_Settings :: conv_settings
  ccp_CreatedAt :: time

record get_conversation_params =
  gcp_ConversationID :: string
  gcp_AccountID :: string

record get_message_params =
  gmp_ConversationID :: string
  gmp_MessageID :: string
  gmp_AccountID :: string

record list_conversations_params =
  lcp_AccountID :: string
  lcp_IncludeArchived :: bool
  lcp_IncludeMuted :: bool
  lcp_IncludeHidden :: bool

record update_conversation_params =
  ucp_ConversationID :: string
  ucp_ActorAccountID :: string
  ucp_Title :: "string option"
  ucp_Description :: "string option"
  ucp_AvatarMediaID :: "string option"
  ucp_Settings :: "conv_settings option"
  ucp_UpdatedAt :: time

record add_members_params =
  adp_ConversationID :: string
  adp_ActorAccountID :: string
  adp_InvitedByAccountID :: string
  adp_AccountIDs :: "string list"
  adp_Role :: MemberRole
  adp_CreatedAt :: time

record remove_members_params =
  rmp_ConversationID :: string
  rmp_ActorAccountID :: string
  rmp_AccountIDs :: "string list"
  rmp_Reason :: string
  rmp_RemovedAt :: time

record update_role_params =
  urp_ConversationID :: string
  urp_ActorAccountID :: string
  urp_TargetAccountID :: string
  urp_Role :: MemberRole
  urp_Reason :: string
  urp_UpdatedAt :: time

record create_invite_params =
  cip_ConversationID :: string
  cip_ActorAccountID :: string
  cip_AllowedRoles :: "MemberRole list"
  cip_ExpiresAt :: time
  cip_MaxUses :: "32 word"
  cip_CreatedAt :: time

record list_invites_params =
  lip_ConversationID :: string
  lip_AccountID :: string

record revoke_invite_params =
  rip_ConversationID :: string
  rip_InviteID :: string
  rip_ActorAccountID :: string
  rip_Reason :: string
  rip_RevokedAt :: time

record list_messages_params =
  lmp_AccountID :: string
  lmp_ConversationID :: string
  lmp_ThreadID :: string
  lmp_FromSequence :: uint64
  lmp_Limit :: int
  lmp_IncludeDeleted :: bool

record list_scheduled_params =
  lsp_AccountID :: string
  lsp_ConversationID :: string
  lsp_ThreadID :: string
  lsp_Limit :: int
  lsp_IncludeFailed :: bool

record send_message_params =
  smp_ConversationID :: string
  smp_SenderAccountID :: string
  smp_SenderDeviceID :: string
  smp_Draft :: msg_draft
  smp_CausationID :: string
  smp_CorrelationID :: string
  smp_CreatedAt :: time

record reply_message_params =
  rlp_ConversationID :: string
  rlp_SenderAccountID :: string
  rlp_SenderDeviceID :: string
  rlp_ReplyToMessageID :: string
  rlp_Draft :: msg_draft
  rlp_CausationID :: string
  rlp_CorrelationID :: string
  rlp_CreatedAt :: time

record edit_message_params =
  emp_ConversationID :: string
  emp_MessageID :: string
  emp_ActorAccountID :: string
  emp_ActorDeviceID :: string
  emp_Draft :: msg_draft
  emp_EditedAt :: time

record delete_message_params =
  dmp_ConversationID :: string
  dmp_MessageID :: string
  dmp_ActorAccountID :: string
  dmp_ActorDeviceID :: string
  dmp_DeletedAt :: time

record pin_message_params =
  pmp_ConversationID :: string
  pmp_MessageID :: string
  pmp_ActorAccountID :: string
  pmp_ActorDeviceID :: string
  pmp_Pinned :: bool
  pmp_UpdatedAt :: time

record add_reaction_params =
  arp_ConversationID :: string
  arp_MessageID :: string
  arp_ActorAccountID :: string
  arp_ActorDeviceID :: string
  arp_Reaction :: string
  arp_CreatedAt :: time

record remove_reaction_params =
  rrp_ConversationID :: string
  rrp_MessageID :: string
  rrp_ActorAccountID :: string
  rrp_ActorDeviceID :: string
  rrp_Reaction :: string
  rrp_RemovedAt :: time

record record_delivery_params =
  rcd_ConversationID :: string
  rcd_AccountID :: string
  rcd_DeviceID :: string
  rcd_MessageID :: string
  rcd_DeliveredThroughSequence :: uint64
  rcd_CausationID :: string
  rcd_CorrelationID :: string
  rcd_CreatedAt :: time

record mark_read_params =
  mrp_ConversationID :: string
  mrp_AccountID :: string
  mrp_DeviceID :: string
  mrp_ReadThroughSequence :: uint64
  mrp_CausationID :: string
  mrp_CorrelationID :: string
  mrp_CreatedAt :: time

record pull_events_params =
  pep_AccountID :: string
  pep_DeviceID :: string
  pep_FromSequence :: uint64
  pep_Limit :: int
  pep_ConversationIDs :: "string list"

record ack_events_params =
  aep_AccountID :: string
  aep_DeviceID :: string
  aep_AckedSequence :: uint64
  aep_EventIDs :: "string list"

record get_sync_state_params =
  gsp_AccountID :: string
  gsp_DeviceID :: string

record publish_user_update_params =
  pup_AccountID :: string
  pup_DeviceID :: string
  pup_PayloadType :: string
  pup_Metadata :: "(string, string) gomap"
  pup_CreatedAt :: time

record publish_conversation_update_params =
  pcp_ConversationID :: string
  pcp_AccountID :: string
  pcp_DeviceID :: string
  pcp_PayloadType :: string
  pcp_Metadata :: "(string, string) gomap"
  pcp_CreatedAt :: time

record create_topic_params =
  ctp_ConversationID :: string
  ctp_RootMessageID :: string
  ctp_CreatorAccountID :: string
  ctp_Title :: string
  ctp_CreatedAt :: time

record get_topic_params =
  gtp_ConversationID :: string
  gtp_TopicID :: string
  gtp_AccountID :: string

record list_topics_params =
  ltp_ConversationID :: string
  ltp_AccountID :: string
  ltp_IncludeArchived :: bool
  ltp_IncludeClosed :: bool

record rename_topic_params =
  rtp_ConversationID :: string
  rtp_TopicID :: string
  rtp_ActorAccountID :: string
  rtp_Title :: string
  rtp_UpdatedAt :: time

record archive_topic_params =
  atp_ConversationID :: string
  atp_TopicID :: string
  atp_ActorAccountID :: string
  atp_Archived :: bool
  atp_UpdatedAt :: time

record pin_topic_params =
  ptp_ConversationID :: string
  ptp_TopicID :: string
  ptp_ActorAccountID :: string
  ptp_Pinned :: bool
  ptp_UpdatedAt :: time

record close_topic_params =
  xtp_ConversationID :: string
  xtp_TopicID :: string
  xtp_ActorAccountID :: string
  xtp_Closed :: bool
  xtp_UpdatedAt :: time

record set_policy_params =
  spp_TargetKind :: ModerationTargetKind
  spp_TargetID :: string
  spp_ActorAccountID :: string
  spp_OnlyAdminsCanWrite :: bool
  spp_OnlyAdminsCanAddMembers :: bool
  spp_AllowReactions :: bool
  spp_AllowForwards :: bool
  spp_AllowThreads :: bool
  spp_RequireEncryptedMessages :: bool
  spp_RequireTrustedDevices :: bool
  spp_RequireJoinApproval :: bool
  spp_PinnedMessagesOnlyAdmins :: bool
  spp_SlowModeInterval :: duration
  spp_AntiSpamWindow :: duration
  spp_AntiSpamBurstLimit :: int
  spp_ShadowMode :: bool
  spp_CreatedAt :: time

record submit_report_params =
  srp_TargetKind :: ModerationTargetKind
  srp_TargetID :: string
  srp_ReporterAccountID :: string
  srp_TargetAccountID :: string
  srp_Reason :: string
  srp_Details :: string
  srp_CreatedAt :: time

record resolve_report_params =
  rsp_ReportID :: string
  rsp_ResolverAccountID :: string
  rsp_Resolved :: bool
  rsp_Resolution :: string
  rsp_ReviewedAt :: time

record apply_restriction_params =
  apr_TargetKind :: ModerationTargetKind
  apr_TargetID :: string
  apr_ActorAccountID :: string
  apr_TargetAccountID :: string
  apr_State :: ModerationRestrictionState
  apr_Reason :: string
  apr_Duration :: duration
  apr_CreatedAt :: time

record lift_restriction_params =
  lrp_TargetKind :: ModerationTargetKind
  lrp_TargetID :: string
  lrp_ActorAccountID :: string
  lrp_TargetAccountID :: string
  lrp_Reason :: string
  lrp_CreatedAt :: time

record check_write_params =
  cwp_TargetKind :: ModerationTargetKind
  cwp_TargetID :: string
  cwp_ActorAccountID :: string
  cwp_ActorRole :: MemberRole
  cwp_BasePolicy :: mod_policy
  cwp_CreatedAt :: time

record record_write_params =
  rwp_TargetKind :: ModerationTargetKind
  rwp_TargetID :: string
  rwp_ActorAccountID :: string
  rwp_AntiSpamWindow :: duration
  rwp_CreatedAt :: time

end
