(* ===== verification/ConvStore.thy ===== *)
theory ConvStore
  imports ConvRecords
begin

section \<open>The conversation store interface (\<open>internal/domain/conversation/store.go\<close>)\<close>

text \<open>
  The table of the store's methods over a hidden state, and the checks of a message payload
  (\<open>encryption.go\<close>) that the service and the stores share. The context is validated before
  the store is called and passes every later check, so the methods do not take it.
\<close>

record 's conv_store_ops =
  cso_SaveConversation :: "conversation \<Rightarrow> ('s, conversation) io"
  cso_ConversationByID :: "string \<Rightarrow> ('s, conversation) io"
  cso_ConversationsByAccountID :: "string \<Rightarrow> ('s, conversation list) io"
  cso_SaveTopic :: "topic \<Rightarrow> ('s, topic) io"
  cso_TopicByConversationAndID :: "string \<Rightarrow> string \<Rightarrow> ('s, topic) io"
  cso_TopicsByConversationID :: "string \<Rightarrow> ('s, topic list) io"
  cso_SaveConversationMember :: "conv_member \<Rightarrow> ('s, conv_member) io"
  cso_ConversationMemberByConversationAndAccount :: "string \<Rightarrow> string \<Rightarrow> ('s, conv_member) io"
  cso_ConversationMembersByConversationID :: "string \<Rightarrow> ('s, conv_member list) io"
  cso_SaveConversationInvite :: "conv_invite \<Rightarrow> ('s, conv_invite) io"
  cso_ConversationInviteByConversationAndID :: "string \<Rightarrow> string \<Rightarrow> ('s, conv_invite) io"
  cso_ConversationInvitesByConversationID :: "string \<Rightarrow> ('s, conv_invite list) io"
  cso_SaveMessage :: "message \<Rightarrow> ('s, message) io"
  cso_MessageByID :: "string \<Rightarrow> string \<Rightarrow> ('s, message) io"
  cso_MessagesByConversationID :: "string \<Rightarrow> string \<Rightarrow> uint64 \<Rightarrow> int \<Rightarrow> ('s, message list) io"
  cso_ScheduledMessagesByConversationAndSender :: "string \<Rightarrow> string \<Rightarrow> string \<Rightarrow> bool \<Rightarrow> int \<Rightarrow> ('s, message list) io"
  cso_DueScheduledMessages :: "time \<Rightarrow> int \<Rightarrow> ('s, message list) io"
  cso_SaveMessageReaction :: "msg_reaction \<Rightarrow> ('s, msg_reaction) io"
  cso_DeleteMessageReaction :: "string \<Rightarrow> string \<Rightarrow> ('s, unit) io"
  cso_SaveReadState :: "read_state \<Rightarrow> ('s, read_state) io"
  cso_ReadStateByConversationAndDevice :: "string \<Rightarrow> string \<Rightarrow> ('s, read_state) io"
  cso_ReadStatesByDevice :: "string \<Rightarrow> ('s, read_state list) io"
  cso_ConversationCountersByAccount :: "string \<Rightarrow> string list \<Rightarrow> ('s, (string, conv_counters) gomap) io"
  cso_SaveSyncState :: "sync_state \<Rightarrow> ('s, sync_state) io"
  cso_SyncStateByDevice :: "string \<Rightarrow> ('s, sync_state) io"
  cso_SaveEvent :: "conv_event \<Rightarrow> ('s, conv_event) io"
  cso_EventsAfterSequence :: "uint64 \<Rightarrow> int \<Rightarrow> string list \<Rightarrow> ('s, conv_event list) io"
  cso_SaveModerationPolicy :: "mod_policy \<Rightarrow> ('s, mod_policy) io"
  cso_ModerationPolicyByTarget :: "ModerationTargetKind \<Rightarrow> string \<Rightarrow> ('s, mod_policy) io"
  cso_SaveModerationReport :: "mod_report \<Rightarrow> ('s, mod_report) io"
  cso_ModerationReportByID :: "string \<Rightarrow> ('s, mod_report) io"
  cso_ModerationReportsByTarget :: "ModerationTargetKind \<Rightarrow> string \<Rightarrow> ('s, mod_report list) io"
  cso_SaveModerationAction :: "mod_action \<Rightarrow> ('s, mod_action) io"
  cso_ModerationActionsByTarget :: "ModerationTargetKind \<Rightarrow> string \<Rightarrow> ('s, mod_action list) io"
  cso_SaveModerationRestriction :: "restriction \<Rightarrow> ('s, restriction) io"
  cso_ModerationRestrictionByTargetAndAccount :: "ModerationTargetKind \<Rightarrow> string \<Rightarrow> string \<Rightarrow> ('s, restriction) io"
  cso_ModerationRestrictionsByTarget :: "ModerationTargetKind \<Rightarrow> string \<Rightarrow> ('s, restriction list) io"
  cso_DeleteModerationRestriction :: "ModerationTargetKind \<Rightarrow> string \<Rightarrow> string \<Rightarrow> ('s, unit) io"
  cso_SaveModerationRateState :: "rate_state \<Rightarrow> ('s, rate_state) io"
  cso_ModerationRateStateByTargetAndAccount :: "ModerationTargetKind \<Rightarrow> string \<Rightarrow> string \<Rightarrow> ('s, rate_state) io"

definition conv_found_or :: "'a option \<Rightarrow> ('s, 'a) io" where
  "conv_found_or x = (case x of None \<Rightarrow> raise ConvErrNotFound | Some v \<Rightarrow> ret v)"

lemma conv_found_or_run [io_simps]:
  "conv_found_or x s = (case x of None \<Rightarrow> (Inl ConvErrNotFound, s) | Some v \<Rightarrow> (Inr v, s))"
  by (cases x) (simp_all add: conv_found_or_def)

lemma conv_found_or_Inr [io_inv]: "conv_found_or x s = (Inr v, s') \<longleftrightarrow> x = Some v \<and> s' = s"
  by (auto simp: conv_found_or_run split: option.splits)

subsection \<open>Identifiers and payloads\<close>

definition uniqueIDs :: "string list \<Rightarrow> string list" where
  "uniqueIDs values = keep_first [] (List.filter (\<lambda>v. v \<noteq> []) (List.map trim_space values))"

definition ValidateEncryptedPayload :: "enc_payload \<Rightarrow> error + unit" where
  "ValidateEncryptedPayload p =
     (if trim_space (enc_KeyID p) = [] then Inl ConvErrInvalidInput
      else if trim_space (enc_Algorithm p) = [] then Inl ConvErrInvalidInput
      else if enc_Nonce p = [] then Inl ConvErrInvalidInput
      else if enc_Ciphertext p = [] then Inl ConvErrInvalidInput
      else Inr ())"

definition ValidateMessagePayload :: "enc_payload \<Rightarrow> bool \<Rightarrow> error + unit" where
  "ValidateMessagePayload p requireEncrypted =
     (if enc_Ciphertext p = [] then Inl ConvErrInvalidInput
      else if \<not> requireEncrypted then Inr ()
      else ValidateEncryptedPayload p)"

definition StripMessageHints :: "message \<Rightarrow> message" where
  "StripMessageHints m = m\<lparr>msg_Attachments :=
     List.map (\<lambda>a. a\<lparr>att_Caption := []\<rparr>) (msg_Attachments m)\<rparr>"

end
