(* ===== verification/ConvService.thy ===== *)
theory ConvService
  imports ConvStore GoWorld "HOL-Library.Product_Lexorder"
begin

section \<open>The conversation service: shared parts (\<open>service.go\<close>, \<open>options.go\<close>, \<open>id.go\<close>, \<open>event.go\<close>)\<close>

text \<open>
  The service over any store table, its clock and whether a search indexer is configured. The
  calls to the indexer are best effort: their results are ignored, so a call is recorded in
  the world and changes nothing else; what \<open>search.go\<close> puts into the documents is not modelled.
\<close>

datatype index_call =
    IndexConversation conversation "conv_member list"
  | IndexTopic topic
  | IndexMessage message
  | DeleteMessageIndex message

record 's conv_world = "'s world" +
  w_indexed :: "index_call list"

record 's conv_service =
  csv_store :: "'s conv_store_ops"
  csv_now :: time
  csv_indexer :: bool

text \<open>An absent store is \<open>None\<close>, and so is an absent option.\<close>

definition conv_NewService ::
    "'s conv_store_ops option \<Rightarrow> time \<Rightarrow> ('s conv_service \<Rightarrow> 's conv_service) option list \<Rightarrow>
     error + 's conv_service" where
  "conv_NewService st clock options =
     (case st of
        None \<Rightarrow> Inl ConvErrInvalidInput
      | Some S \<Rightarrow> Inr (fold (\<lambda>opt sv. case opt of None \<Rightarrow> sv | Some f \<Rightarrow> f sv) options
          \<lparr>csv_store = S, csv_now = clock, csv_indexer = False\<rparr>))"

definition conv_WithNow :: "time option \<Rightarrow> 's conv_service \<Rightarrow> 's conv_service" where
  "conv_WithNow now sv = (case now of None \<Rightarrow> sv | Some t \<Rightarrow> sv\<lparr>csv_now := t\<rparr>)"

definition conv_WithIndexer :: "bool \<Rightarrow> 's conv_service \<Rightarrow> 's conv_service" where
  "conv_WithIndexer indexer sv = sv\<lparr>csv_indexer := indexer\<rparr>"

definition conv_validateContext :: "go_context \<Rightarrow> string \<Rightarrow> ('w, unit) io" where
  "conv_validateContext ctx operation = of_result (validate_context_with ConvErrInvalidInput ctx operation)"

definition runTx :: "go_context \<Rightarrow> ('w, 'a) io \<Rightarrow> ('w, 'a) io" where
  "runTx ctx f = andThen (conv_validateContext ctx ''conversation tx'') (\<lambda>_. within_tx f)"

subsection \<open>Identifiers\<close>

definition conv_randomToken :: "int \<Rightarrow> (('s, 'm) world_scheme, string) io" where
  "conv_randomToken = random_token ConvErrInvalidInput"

definition conv_newID :: "string \<Rightarrow> (('s, 'm) world_scheme, string) io" where
  "conv_newID = random_id ConvErrInvalidInput"

definition eventID :: "(('s, 'm) world_scheme, string) io" where
  "eventID = andThen (attempt (conv_newID ''evt''))
     (\<lambda>r. ret (case r of Inl _ \<Rightarrow> [] | Inr i \<Rightarrow> i))"

text \<open>A lookup whose \<open>not found\<close> stands for the zero record; the test is an argument.\<close>

definition or_zero :: "(error \<Rightarrow> bool) \<Rightarrow> string \<Rightarrow> 'a \<Rightarrow> ('w, 'a) io \<Rightarrow> ('w, 'a) io" where
  "or_zero missing what zero m = andThen (attempt m) (\<lambda>r. case r of
       Inr x \<Rightarrow> ret x
     | Inl e \<Rightarrow> if missing e then ret zero else raise (Wrapped what e))"

subsection \<open>Metadata\<close>

definition trimMetadata :: "(string, string) gomap \<Rightarrow> (string, string) gomap" where
  "trimMetadata metadata = fold (\<lambda>(key, value) result.
     let k = trim_space key; v = trim_space value in
     if k = [] \<or> v = [] then result else put k v result) metadata []"

definition put_nonempty :: "string \<Rightarrow> string \<Rightarrow> (string, string) gomap \<Rightarrow> (string, string) gomap" where
  "put_nonempty key value metadata = (if value \<noteq> [] then put key value metadata else metadata)"

definition conversationEventMetadata ::
    "string \<Rightarrow> string \<Rightarrow> (string, string) gomap \<Rightarrow> (string, string) gomap" where
  "conversationEventMetadata messageID threadID extra =
     put_nonempty ''thread_id'' threadID (put_nonempty ''message_id'' messageID (trimMetadata extra))"

definition messageEventMetadata ::
    "string \<Rightarrow> string \<Rightarrow> msg_reference \<Rightarrow> (string, string) gomap \<Rightarrow> (string, string) gomap" where
  "messageEventMetadata messageID threadID replyTo extra =
     (let metadata = conversationEventMetadata messageID threadID extra in
      if mref_MessageID replyTo = [] then metadata
      else put_nonempty ''reply_kind'' (mref_MessageKind replyTo)
        (put_nonempty ''reply_sender_account_id'' (mref_SenderAccountID replyTo)
          (put_nonempty ''reply_conversation_id'' (mref_ConversationID replyTo)
            (put ''reply_message_id'' (mref_MessageID replyTo) metadata))))"

definition format_bool :: "bool \<Rightarrow> string" where
  "format_bool b = (if b then ''true'' else ''false'')"

definition messageSnapshotMetadata :: "message \<Rightarrow> (string, string) gomap \<Rightarrow> (string, string) gomap" where
  "messageSnapshotMetadata m extra =
     fold (\<lambda>(key, value). put key value) (trimMetadata extra)
       (put ''disable_link_previews'' (format_bool (msg_DisableLinkPreviews m))
         (put ''message_kind'' (msg_Kind m) (trimMetadata (msg_Metadata m))))"

subsection \<open>Small helpers\<close>

definition isActiveMember :: "conv_member \<Rightarrow> bool" where
  "isActiveMember m \<longleftrightarrow> cmem_LeftAt m = zero_time \<and> \<not> cmem_Banned m"

definition ensureMemberIDs :: "string \<Rightarrow> string list \<Rightarrow> error + string list" where
  "ensureMemberIDs ownerID memberIDs =
     (let ids = uniqueIDs memberIDs in
      if ownerID \<in> set ids then Inl ConvErrConflict else Inr ids)"

definition clampLimit :: "int \<Rightarrow> int \<Rightarrow> int \<Rightarrow> int" where
  "clampLimit limit defaultLimit maxLimit =
     (let l = (if limit \<le> 0 then defaultLimit else limit) in
      if 0 < maxLimit \<and> maxLimit < l then maxLimit else l)"

definition loadConversationActor ::
    "'s conv_service \<Rightarrow> string \<Rightarrow> string \<Rightarrow> ('s conv_world, conversation \<times> conv_member) io" where
  "loadConversationActor sv conversationID0 accountID0 =
     (let conversationID = trim_space conversationID0; accountID = trim_space accountID0 in
      andThen (reject_if (conversationID = [] \<or> accountID = []) ConvErrInvalidInput) (\<lambda>_.
      andThen (wrapping (''load conversation '' @ conversationID)
        (on_store (cso_ConversationByID (csv_store sv) conversationID))) (\<lambda>row.
      andThen (wrapping (''authorize conversation '' @ conversationID @ '' for account '' @ accountID)
        (on_store (cso_ConversationMemberByConversationAndAccount (csv_store sv) conversationID accountID))) (\<lambda>member.
      andThen (reject_if (\<not> isActiveMember member) ConvErrForbidden) (\<lambda>_.
      ret (row, member))))))"

text \<open>An event with the fields of the source's literal; the others are zero.\<close>

definition no_payload :: enc_payload where
  "no_payload = \<lparr>enc_KeyID = [], enc_Algorithm = [], enc_Nonce = [], enc_Ciphertext = [], enc_AAD = [],
     enc_Metadata = []\<rparr>"

definition event_of ::
    "string \<Rightarrow> EventType \<Rightarrow> string \<Rightarrow> string \<Rightarrow> (string, string) gomap \<Rightarrow> time \<Rightarrow> conv_event" where
  "event_of eid etype conversationID actorAccountID metadata createdAt = \<lparr>
     ev_EventID = eid, ev_EventType = etype, ev_ConversationID = conversationID,
     ev_ActorAccountID = actorAccountID, ev_ActorDeviceID = [], ev_CausationID = [], ev_CorrelationID = [],
     ev_MessageID = [], ev_Sequence = 0, ev_PayloadType = [], ev_Payload = no_payload,
     ev_ReadThroughSequence = 0, ev_Metadata = metadata, ev_CreatedAt = createdAt\<rparr>"

definition appendConversationEvent ::
    "'s conv_service \<Rightarrow> conversation \<Rightarrow> string \<Rightarrow> string \<Rightarrow> EventType \<Rightarrow> string \<Rightarrow> (string, string) gomap \<Rightarrow>
     time \<Rightarrow> ('s conv_world, conversation \<times> conv_event) io" where
  "appendConversationEvent sv row actorAccountID actorDeviceID etype payloadType metadata createdAt0 =
     (let createdAt = or_time createdAt0 (csv_now sv) in
      andThen eventID (\<lambda>eid.
      andThen (wrapping (''save conversation event '' @ etype @ '' for '' @ conv_ID row)
        (on_store (cso_SaveEvent (csv_store sv)
          ((event_of eid etype (conv_ID row) (trim_space actorAccountID) (trimMetadata metadata) createdAt)
            \<lparr>ev_ActorDeviceID := trim_space actorDeviceID, ev_PayloadType := trim_space payloadType\<rparr>)))) (\<lambda>event.
      andThen (wrapping (''update conversation sequence '' @ conv_ID row)
        (on_store (cso_SaveConversation (csv_store sv)
          (row\<lparr>conv_LastSequence := ev_Sequence event, conv_UpdatedAt := createdAt\<rparr>)))) (\<lambda>saved.
      ret (saved, event)))))"

subsection \<open>Calls of the search indexer\<close>

definition indexing :: "'s conv_service \<Rightarrow> index_call \<Rightarrow> ('s conv_world, unit) io" where
  "indexing sv call = (\<lambda>w. (Inr (),
     if csv_indexer sv then w\<lparr>w_indexed := w_indexed w @ [call]\<rparr> else w))"

definition indexConversation ::
    "'s conv_service \<Rightarrow> conversation \<Rightarrow> conv_member list \<Rightarrow> ('s conv_world, unit) io" where
  "indexConversation sv c members =
     (if conv_ID c = [] then ret () else indexing sv (IndexConversation c members))"

definition indexConversationByID :: "'s conv_service \<Rightarrow> string \<Rightarrow> ('s conv_world, unit) io" where
  "indexConversationByID sv conversationID =
     (if \<not> csv_indexer sv \<or> trim_space conversationID = [] then ret ()
      else andThen (attempt (on_store (cso_ConversationByID (csv_store sv) conversationID))) (\<lambda>rc. case rc of
          Inl _ \<Rightarrow> ret ()
        | Inr c \<Rightarrow> andThen (attempt (on_store
            (cso_ConversationMembersByConversationID (csv_store sv) conversationID))) (\<lambda>rm. case rm of
              Inl _ \<Rightarrow> ret ()
            | Inr members \<Rightarrow> indexConversation sv c members)))"

definition indexTopic :: "'s conv_service \<Rightarrow> topic \<Rightarrow> ('s conv_world, unit) io" where
  "indexTopic sv t = (if top_ConversationID t = [] then ret () else indexing sv (IndexTopic t))"

definition indexMessage :: "'s conv_service \<Rightarrow> message \<Rightarrow> ('s conv_world, unit) io" where
  "indexMessage sv m = (if msg_ID m = [] then ret () else indexing sv (IndexMessage m))"

definition deleteMessageIndex :: "'s conv_service \<Rightarrow> message \<Rightarrow> ('s conv_world, unit) io" where
  "deleteMessageIndex sv m = (if msg_ID m = [] then ret () else indexing sv (DeleteMessageIndex m))"

end
