(* ===== verification/ConvPolicy.thy ===== *)
theory ConvPolicy
  imports ConvService
begin

section \<open>Moderation policies and the audit log (\<open>policy.go\<close>, \<open>audit.go\<close>)\<close>

text \<open>
  The effective moderation policy of a conversation or topic, how it is set, and the audit log
  with the event that tells the members of a visible action.
\<close>

subsection \<open>Targets\<close>

definition moderationTargetSeparator :: char where
  "moderationTargetSeparator = CHR 0x1F"

definition moderationKey :: "string \<Rightarrow> string \<Rightarrow> string" where
  "moderationKey conversationID0 topicID0 =
     (let conversationID = trim_space conversationID0; topicID = trim_space topicID0 in
      if topicID = [] then conversationID
      else conversationID @ [moderationTargetSeparator] @ topicID)"

text \<open>\<open>strings.Cut\<close> at the first separator.\<close>

definition splitModerationKey :: "string \<Rightarrow> string \<times> string" where
  "splitModerationKey targetID0 =
     (let targetID = trim_space targetID0 in
      if targetID = [] then ([], [])
      else case dropWhile (\<lambda>c. c \<noteq> moderationTargetSeparator) targetID of
          [] \<Rightarrow> (targetID, [])
        | _ # topicID \<Rightarrow> (takeWhile (\<lambda>c. c \<noteq> moderationTargetSeparator) targetID, topicID))"

definition moderationTarget :: "conversation \<Rightarrow> string \<Rightarrow> ModerationTargetKind \<times> string" where
  "moderationTarget c threadID0 =
     (let threadID = trim_space threadID0 in
      if threadID \<noteq> [] then (ModerationTargetKindTopic, moderationKey (conv_ID c) threadID)
      else if conv_Kind c = ConversationKindChannel then (ModerationTargetKindChannel, conv_ID c)
      else (ModerationTargetKindConversation, conv_ID c))"

definition baseModerationPolicy :: "conversation \<Rightarrow> ModerationTargetKind \<Rightarrow> string \<Rightarrow> mod_policy" where
  "baseModerationPolicy c targetKind targetID = \<lparr>
     pol_TargetKind = targetKind,
     pol_TargetID = targetID,
     pol_OnlyAdminsCanWrite = cset_OnlyAdminsCanWrite (conv_Settings c),
     pol_OnlyAdminsCanAddMembers = cset_OnlyAdminsCanAddMembers (conv_Settings c),
     pol_AllowReactions = cset_AllowReactions (conv_Settings c),
     pol_AllowForwards = cset_AllowForwards (conv_Settings c),
     pol_AllowThreads = cset_AllowThreads (conv_Settings c),
     pol_RequireEncryptedMessages = cset_RequireEncryptedMessages (conv_Settings c),
     pol_RequireTrustedDevices = cset_RequireTrustedDevices (conv_Settings c),
     pol_RequireJoinApproval = cset_RequireJoinApproval (conv_Settings c),
     pol_PinnedMessagesOnlyAdmins = cset_PinnedMessagesOnlyAdmins (conv_Settings c),
     pol_SlowModeInterval = cset_SlowModeInterval (conv_Settings c),
     pol_AntiSpamWindow = 0,
     pol_AntiSpamBurstLimit = 0,
     pol_ShadowMode = False,
     pol_CreatedAt = conv_CreatedAt c,
     pol_UpdatedAt = conv_UpdatedAt c\<rparr>"

subsection \<open>The effective policy\<close>

text \<open>\<open>load moderation policy for kind:id\<close>, the prefix of several errors.\<close>

definition target_text :: "ModerationTargetKind \<Rightarrow> string \<Rightarrow> string" where
  "target_text targetKind targetID = targetKind @ '':'' @ targetID"

definition policyForConversation ::
    "'s conv_service \<Rightarrow> conversation \<Rightarrow> string \<Rightarrow> ('s conv_world, mod_policy) io" where
  "policyForConversation sv c threadID =
     (let (targetKind, targetID) = moderationTarget c threadID;
        base = baseModerationPolicy c targetKind targetID in
      andThen (attempt (on_store (cso_ModerationPolicyByTarget (csv_store sv) targetKind targetID))) (\<lambda>r. case r of
          Inr policy \<Rightarrow> ret policy
        | Inl e \<Rightarrow>
            if error_is e ConvErrNotFound then
              (if targetKind = ModerationTargetKindTopic then
                 andThen (attempt (on_store (cso_ModerationPolicyByTarget (csv_store sv)
                   ModerationTargetKindConversation (conv_ID c)))) (\<lambda>rf. case rf of
                     Inr fallback \<Rightarrow> ret fallback
                   | Inl fe \<Rightarrow> if error_is fe ConvErrNotFound then ret base
                       else raise (Wrapped (''load moderation policy for '' @
                         target_text ModerationTargetKindConversation (conv_ID c)) fe))
               else ret base)
            else raise (Wrapped (''load moderation policy for '' @ target_text targetKind targetID) e)))"

definition existingModerationPolicy ::
    "'s conv_service \<Rightarrow> conversation \<Rightarrow> ModerationTargetKind \<Rightarrow> string \<Rightarrow> ('s conv_world, mod_policy \<times> bool) io" where
  "existingModerationPolicy sv c targetKind targetID =
     andThen (attempt (on_store (cso_ModerationPolicyByTarget (csv_store sv) targetKind targetID))) (\<lambda>r. case r of
         Inr policy \<Rightarrow> ret (policy, True)
       | Inl e \<Rightarrow>
           if \<not> error_is e ConvErrNotFound then
             raise (Wrapped (''load moderation policy for '' @ target_text targetKind targetID) e)
           else if targetKind = ModerationTargetKindTopic then
             andThen (policyForConversation sv c (snd (splitModerationKey targetID))) (\<lambda>inherited.
             ret (inherited, False))
           else if targetKind = ModerationTargetKindConversation \<or> targetKind = ModerationTargetKindChannel then
             ret (baseModerationPolicy c targetKind targetID, False)
           else raise ConvErrInvalidInput)"

definition preserveInheritedTopicThreads :: "set_policy_params \<Rightarrow> mod_policy \<Rightarrow> bool" where
  "preserveInheritedTopicThreads p inherited =
     (if spp_TargetKind p \<noteq> ModerationTargetKindTopic then False
      else if spp_AllowThreads p \<or> \<not> pol_AllowThreads inherited then False
      else spp_OnlyAdminsCanWrite p \<or> spp_OnlyAdminsCanAddMembers p \<or> spp_AllowReactions p \<or>
        spp_AllowForwards p \<or> spp_RequireEncryptedMessages p \<or> spp_RequireJoinApproval p \<or>
        spp_PinnedMessagesOnlyAdmins p \<or> spp_SlowModeInterval p \<noteq> 0 \<or> spp_AntiSpamWindow p \<noteq> 0 \<or>
        spp_AntiSpamBurstLimit p \<noteq> 0 \<or> spp_ShadowMode p)"

definition lookupModerationConversation ::
    "'s conv_service \<Rightarrow> ModerationTargetKind \<Rightarrow> string \<Rightarrow> ('s conv_world, conversation) io" where
  "lookupModerationConversation sv targetKind targetID =
     (if targetKind = ModerationTargetKindConversation \<or> targetKind = ModerationTargetKindChannel then
        andThen (wrapping (''load moderation conversation '' @ targetID)
          (on_store (cso_ConversationByID (csv_store sv) targetID))) (\<lambda>c.
        andThen (reject_if (targetKind = ModerationTargetKindChannel \<and> conv_Kind c \<noteq> ConversationKindChannel)
          ConvErrInvalidInput) (\<lambda>_. ret c))
      else if targetKind = ModerationTargetKindTopic then
        (let (conversationID, topicID) = splitModerationKey targetID in
         andThen (reject_if (conversationID = [] \<or> topicID = []) ConvErrInvalidInput) (\<lambda>_.
         andThen (wrapping (''load moderation conversation '' @ conversationID)
           (on_store (cso_ConversationByID (csv_store sv) conversationID))) (\<lambda>c.
         andThen (wrapping (''load moderation topic '' @ topicID @ '' in conversation '' @ conv_ID c)
           (on_store (cso_TopicByConversationAndID (csv_store sv) (conv_ID c) topicID))) (\<lambda>t.
         andThen (reject_if (top_ConversationID t \<noteq> conv_ID c) ConvErrInvalidInput) (\<lambda>_. ret c)))))
      else raise ConvErrInvalidInput)"

definition canModerate :: "conv_member \<Rightarrow> string \<Rightarrow> bool" where
  "canModerate m actorAccountID \<longleftrightarrow> cmem_AccountID m = actorAccountID \<and>
     (cmem_Role m = MemberRoleOwner \<or> cmem_Role m = MemberRoleAdmin)"

subsection \<open>The audit log\<close>

definition syncVisibleModerationAction :: "ModerationActionType \<Rightarrow> bool" where
  "syncVisibleModerationAction t \<longleftrightarrow> t \<in> {ModerationActionTypeBan, ModerationActionTypeKick,
     ModerationActionTypeMute, ModerationActionTypeUnmute, ModerationActionTypeShadowBan,
     ModerationActionTypeShadowUnban, ModerationActionTypePolicySet, ModerationActionTypeSlowModeSet,
     ModerationActionTypeAntiSpamSet}"

definition moderationEventMetadata :: "mod_action \<Rightarrow> (string, string) gomap" where
  "moderationEventMetadata a =
     (let metadata = [(''action_id'', mact_ID a), (''action_type'', mact_Type a),
          (''target_kind'', mact_TargetKind a), (''target_id'', mact_TargetID a)];
        metadata' = put_nonempty ''target_account_id'' (mact_TargetAccountID a) metadata in
      if 0 < mact_Duration a then put ''duration_nanos'' (itoa (mact_Duration a)) metadata' else metadata')"

definition moderationConversationID :: "ModerationTargetKind \<Rightarrow> string \<Rightarrow> error + string" where
  "moderationConversationID targetKind targetID0 =
     (let targetID = trim_space targetID0 in
      if targetKind = ModerationTargetKindConversation \<or> targetKind = ModerationTargetKindChannel then
        (if targetID = [] then Inl ConvErrInvalidInput else Inr targetID)
      else if targetKind = ModerationTargetKindTopic then
        (let (conversationID, topicID) = splitModerationKey targetID in
         if conversationID = [] \<or> topicID = [] then Inl ConvErrInvalidInput else Inr conversationID)
      else Inl ConvErrInvalidInput)"

definition action_incomplete :: "mod_action \<Rightarrow> bool" where
  "action_incomplete a \<longleftrightarrow> mact_TargetKind a = ModerationTargetKindUnspecified \<or> mact_TargetID a = [] \<or>
     mact_ActorAccountID a = [] \<or> mact_Type a = ModerationActionTypeUnspecified"

definition trimmed_action :: "mod_action \<Rightarrow> mod_action" where
  "trimmed_action a = a\<lparr>mact_TargetID := trim_space (mact_TargetID a),
     mact_ActorAccountID := trim_space (mact_ActorAccountID a),
     mact_TargetAccountID := trim_space (mact_TargetAccountID a),
     mact_Reason := trim_space (mact_Reason a)\<rparr>"

text \<open>The clock of \<open>saveModerationAction\<close> is \<open>time.Now()\<close>, not the service's.\<close>

definition saveModerationAction ::
    "'s conv_service \<Rightarrow> time \<Rightarrow> mod_action \<Rightarrow> ('s conv_world, mod_action) io" where
  "saveModerationAction sv clock a0 =
     (let a = (trimmed_action a0)\<lparr>mact_Metadata := trimMetadata (mact_Metadata a0)\<rparr> in
      andThen (reject_if (action_incomplete a) ConvErrInvalidInput) (\<lambda>_.
      andThen (if mact_ID a = [] then wrapping ''generate moderation action id'' (conv_newID ''mod'')
               else ret (mact_ID a)) (\<lambda>i.
      let a' = a\<lparr>mact_ID := i, mact_CreatedAt := or_time (mact_CreatedAt a) clock\<rparr> in
      wrapping (''save moderation action '' @ mact_ID a')
        (on_store (cso_SaveModerationAction (csv_store sv) a')))))"

definition saveModerationActionWithSyncEvent ::
    "'s conv_service \<Rightarrow> time \<Rightarrow> string \<Rightarrow> mod_action \<Rightarrow> ('s conv_world, mod_action) io" where
  "saveModerationActionWithSyncEvent sv clock conversationID a =
     andThen (saveModerationAction sv clock a) (\<lambda>saved.
     if \<not> syncVisibleModerationAction (mact_Type saved) then ret saved
     else andThen eventID (\<lambda>eid.
       andThen (wrapping (''save moderation sync event for action '' @ mact_ID saved)
         (on_store (cso_SaveEvent (csv_store sv)
           ((event_of eid EventTypeAdminActionRecorded conversationID (mact_ActorAccountID saved)
             (moderationEventMetadata saved) (mact_CreatedAt saved))\<lparr>ev_PayloadType := ''moderation_action''\<rparr>)))) (\<lambda>_.
       ret saved)))"

definition LogModerationAction ::
    "'s conv_service \<Rightarrow> time \<Rightarrow> go_context \<Rightarrow> mod_action \<Rightarrow> ('s conv_world, mod_action) io" where
  "LogModerationAction sv clock ctx a0 =
     andThen (conv_validateContext ctx ''log moderation action'') (\<lambda>_.
     let a = trimmed_action a0 in
     andThen (reject_if (action_incomplete a) ConvErrInvalidInput) (\<lambda>_.
     let a' = a\<lparr>mact_CreatedAt := or_time (mact_CreatedAt a) (csv_now sv)\<rparr> in
     runTx ctx
       (andThen (of_result (moderationConversationID (mact_TargetKind a') (mact_TargetID a'))) (\<lambda>conversationID.
        saveModerationActionWithSyncEvent sv clock conversationID a'))))"

definition ModerationActionsByTarget ::
    "'s conv_service \<Rightarrow> go_context \<Rightarrow> ModerationTargetKind \<Rightarrow> string \<Rightarrow> ('s conv_world, mod_action list) io" where
  "ModerationActionsByTarget sv ctx targetKind targetID0 =
     andThen (conv_validateContext ctx ''list moderation actions'') (\<lambda>_.
     let targetID = trim_space targetID0 in
     andThen (reject_if (targetKind = ModerationTargetKindUnspecified \<or> targetID = []) ConvErrInvalidInput) (\<lambda>_.
     wrapping (''list moderation actions for '' @ target_text targetKind targetID)
       (on_store (cso_ModerationActionsByTarget (csv_store sv) targetKind targetID))))"

text \<open>An action with the fields that every caller sets; the others are zero.\<close>

definition action_of ::
    "string \<Rightarrow> ModerationTargetKind \<Rightarrow> string \<Rightarrow> string \<Rightarrow> ModerationActionType \<Rightarrow> (string, string) gomap \<Rightarrow>
     time \<Rightarrow> mod_action" where
  "action_of i targetKind targetID actorAccountID t metadata createdAt = \<lparr>mact_ID = i,
     mact_TargetKind = targetKind, mact_TargetID = targetID, mact_ActorAccountID = actorAccountID,
     mact_TargetAccountID = [], mact_Type = t, mact_Duration = 0, mact_Reason = [],
     mact_Metadata = metadata, mact_CreatedAt = createdAt\<rparr>"

text \<open>The identifier of an audit entry, generated before the entry is saved.\<close>

definition new_action_id :: "('s conv_world, string) io" where
  "new_action_id = wrapping ''generate moderation action id'' (conv_newID ''mod'')"

text \<open>The member record that authorises the actor of a moderation operation.\<close>

definition moderation_member ::
    "'s conv_service \<Rightarrow> string \<Rightarrow> conversation \<Rightarrow> string \<Rightarrow> ('s conv_world, conv_member) io" where
  "moderation_member sv what c accountID =
     wrapping (''authorize '' @ what @ '' for account '' @ accountID @ '' in conversation '' @ conv_ID c)
       (on_store (cso_ConversationMemberByConversationAndAccount (csv_store sv) (conv_ID c) accountID))"

subsection \<open>Setting a policy\<close>

definition policy_of_params :: "set_policy_params \<Rightarrow> bool \<Rightarrow> time \<Rightarrow> mod_policy" where
  "policy_of_params p allowThreads now = \<lparr>
     pol_TargetKind = spp_TargetKind p,
     pol_TargetID = spp_TargetID p,
     pol_OnlyAdminsCanWrite = spp_OnlyAdminsCanWrite p,
     pol_OnlyAdminsCanAddMembers = spp_OnlyAdminsCanAddMembers p,
     pol_AllowReactions = spp_AllowReactions p,
     pol_AllowForwards = spp_AllowForwards p,
     pol_AllowThreads = allowThreads,
     pol_RequireEncryptedMessages = spp_RequireEncryptedMessages p,
     pol_RequireTrustedDevices = spp_RequireTrustedDevices p,
     pol_RequireJoinApproval = spp_RequireJoinApproval p,
     pol_PinnedMessagesOnlyAdmins = spp_PinnedMessagesOnlyAdmins p,
     pol_SlowModeInterval = spp_SlowModeInterval p,
     pol_AntiSpamWindow = spp_AntiSpamWindow p,
     pol_AntiSpamBurstLimit = spp_AntiSpamBurstLimit p,
     pol_ShadowMode = spp_ShadowMode p,
     pol_CreatedAt = now,
     pol_UpdatedAt = now\<rparr>"

definition SetModerationPolicy ::
    "'s conv_service \<Rightarrow> time \<Rightarrow> go_context \<Rightarrow> set_policy_params \<Rightarrow> ('s conv_world, mod_policy) io" where
  "SetModerationPolicy sv clock ctx p0 =
     andThen (conv_validateContext ctx ''set moderation policy'') (\<lambda>_.
     let p = p0\<lparr>spp_TargetID := trim_space (spp_TargetID p0), spp_ActorAccountID := trim_space (spp_ActorAccountID p0)\<rparr> in
     andThen (reject_if (spp_TargetKind p = ModerationTargetKindUnspecified \<or> spp_TargetID p = [] \<or>
       spp_ActorAccountID p = []) ConvErrInvalidInput) (\<lambda>_.
     let now = or_time (spp_CreatedAt p) (csv_now sv) in
     runTx ctx
       (andThen (lookupModerationConversation sv (spp_TargetKind p) (spp_TargetID p)) (\<lambda>c.
        andThen (existingModerationPolicy sv c (spp_TargetKind p) (spp_TargetID p)) (\<lambda>(inherited, existing).
        andThen (moderation_member sv ''policy update'' c (spp_ActorAccountID p)) (\<lambda>member.
        andThen (reject_if (\<not> canModerate member (spp_ActorAccountID p)) ConvErrForbidden) (\<lambda>_.
        let allowThreads = (if preserveInheritedTopicThreads p inherited then pol_AllowThreads inherited
              else spp_AllowThreads p);
          policy = policy_of_params p allowThreads now;
          policy' = (if existing then policy\<lparr>pol_CreatedAt := pol_CreatedAt inherited\<rparr> else policy) in
        andThen (wrapping (''save moderation policy for '' @ target_text (spp_TargetKind p) (spp_TargetID p))
          (on_store (cso_SaveModerationPolicy (csv_store sv) policy'))) (\<lambda>saved.
        andThen new_action_id (\<lambda>i.
        andThen (wrapping (''log moderation policy action for '' @ target_text (spp_TargetKind p) (spp_TargetID p))
          (saveModerationActionWithSyncEvent sv clock (conv_ID c)
            (action_of i (spp_TargetKind p) (spp_TargetID p) (spp_ActorAccountID p) ModerationActionTypePolicySet
              [(''target_kind'', spp_TargetKind p)] now))) (\<lambda>_.
        ret saved))))))))))"

definition svc_ModerationPolicyByTarget ::
    "'s conv_service \<Rightarrow> go_context \<Rightarrow> ModerationTargetKind \<Rightarrow> string \<Rightarrow> ('s conv_world, mod_policy) io" where
  "svc_ModerationPolicyByTarget sv ctx targetKind0 targetID0 =
     andThen (conv_validateContext ctx ''load moderation policy'') (\<lambda>_.
     let targetKind = trim_space targetKind0; targetID = trim_space targetID0 in
     andThen (reject_if (targetKind = [] \<or> targetID = []) ConvErrInvalidInput) (\<lambda>_.
     wrapping (''load moderation policy for '' @ target_text targetKind targetID)
       (on_store (cso_ModerationPolicyByTarget (csv_store sv) targetKind targetID))))"

end
