(* ===== verification/ConvModeration.thy ===== *)
theory ConvModeration
  imports ConvPolicy
begin

section \<open>Restrictions, rate limits and reports (\<open>restrictions.go\<close>, \<open>ratelimit.go\<close>, \<open>reports.go\<close>)\<close>

text \<open>
  The restrictions of an account in a conversation or topic, the check of a write against the
  restrictions, the policy and the rate state, and the complaints of members.
\<close>

subsection \<open>Restrictions\<close>

definition timeOrZero :: "duration \<Rightarrow> time \<Rightarrow> time" where
  "timeOrZero d base = (if d \<le> 0 then zero_time else base + d)"

definition restrictionActionType :: "ModerationRestrictionState \<Rightarrow> ModerationActionType" where
  "restrictionActionType state =
     (if state = ModerationRestrictionStateMuted then ModerationActionTypeMute
      else if state = ModerationRestrictionStateBanned then ModerationActionTypeBan
      else if state = ModerationRestrictionStateShadowed then ModerationActionTypeShadowBan
      else ModerationActionTypeUnspecified)"

definition moderationLiftActionType :: "ModerationTargetKind \<Rightarrow> ModerationActionType" where
  "moderationLiftActionType targetKind = ModerationActionTypeUnmute"

definition restriction_of_params :: "apply_restriction_params \<Rightarrow> time \<Rightarrow> restriction" where
  "restriction_of_params p now = \<lparr>
     rsn_TargetKind = apr_TargetKind p,
     rsn_TargetID = apr_TargetID p,
     rsn_AccountID = apr_TargetAccountID p,
     rsn_State = apr_State p,
     rsn_AppliedByAccountID = apr_ActorAccountID p,
     rsn_Reason = apr_Reason p,
     rsn_ExpiresAt = timeOrZero (apr_Duration p) now,
     rsn_CreatedAt = now,
     rsn_UpdatedAt = now\<rparr>"

definition ApplyModerationRestriction ::
    "'s conv_service \<Rightarrow> time \<Rightarrow> go_context \<Rightarrow> apply_restriction_params \<Rightarrow> ('s conv_world, restriction) io" where
  "ApplyModerationRestriction sv clock ctx p0 =
     andThen (conv_validateContext ctx ''apply moderation restriction'') (\<lambda>_.
     let p = p0\<lparr>apr_TargetID := trim_space (apr_TargetID p0),
         apr_ActorAccountID := trim_space (apr_ActorAccountID p0),
         apr_TargetAccountID := trim_space (apr_TargetAccountID p0),
         apr_Reason := trim_space (apr_Reason p0)\<rparr> in
     andThen (reject_if (apr_TargetKind p = ModerationTargetKindUnspecified \<or> apr_TargetID p = [] \<or>
       apr_ActorAccountID p = [] \<or> apr_TargetAccountID p = [] \<or>
       apr_State p = ModerationRestrictionStateUnspecified) ConvErrInvalidInput) (\<lambda>_.
     let now = or_time (apr_CreatedAt p) (csv_now sv) in
     runTx ctx
       (andThen (lookupModerationConversation sv (apr_TargetKind p) (apr_TargetID p)) (\<lambda>c.
        andThen (moderation_member sv ''restriction change'' c (apr_ActorAccountID p)) (\<lambda>member.
        andThen (reject_if (\<not> canModerate member (apr_ActorAccountID p)) ConvErrForbidden) (\<lambda>_.
        andThen (wrapping (''save moderation restriction for '' @ apr_TargetAccountID p @ '' in '' @
            target_text (apr_TargetKind p) (apr_TargetID p))
          (on_store (cso_SaveModerationRestriction (csv_store sv) (restriction_of_params p now)))) (\<lambda>saved.
        andThen new_action_id (\<lambda>i.
        andThen (wrapping (''log moderation restriction for '' @ target_text (apr_TargetKind p) (apr_TargetID p))
          (saveModerationActionWithSyncEvent sv clock (conv_ID c)
            ((action_of i (apr_TargetKind p) (apr_TargetID p) (apr_ActorAccountID p)
              (restrictionActionType (apr_State p)) [(''state'', apr_State p)] now)
              \<lparr>mact_TargetAccountID := apr_TargetAccountID p, mact_Duration := apr_Duration p,
                mact_Reason := apr_Reason p\<rparr>))) (\<lambda>_.
        ret saved)))))))))"

definition LiftModerationRestriction ::
    "'s conv_service \<Rightarrow> time \<Rightarrow> go_context \<Rightarrow> lift_restriction_params \<Rightarrow> ('s conv_world, unit) io" where
  "LiftModerationRestriction sv clock ctx p0 =
     andThen (conv_validateContext ctx ''lift moderation restriction'') (\<lambda>_.
     let p = p0\<lparr>lrp_TargetID := trim_space (lrp_TargetID p0),
         lrp_ActorAccountID := trim_space (lrp_ActorAccountID p0),
         lrp_TargetAccountID := trim_space (lrp_TargetAccountID p0),
         lrp_Reason := trim_space (lrp_Reason p0)\<rparr> in
     andThen (reject_if (lrp_TargetKind p = ModerationTargetKindUnspecified \<or> lrp_TargetID p = [] \<or>
       lrp_ActorAccountID p = [] \<or> lrp_TargetAccountID p = []) ConvErrInvalidInput) (\<lambda>_.
     let now = or_time (lrp_CreatedAt p) (csv_now sv) in
     runTx ctx
       (andThen (lookupModerationConversation sv (lrp_TargetKind p) (lrp_TargetID p)) (\<lambda>c.
        andThen (moderation_member sv ''restriction removal'' c (lrp_ActorAccountID p)) (\<lambda>member.
        andThen (reject_if (\<not> canModerate member (lrp_ActorAccountID p)) ConvErrForbidden) (\<lambda>_.
        andThen (wrapping (''delete moderation restriction for '' @ lrp_TargetAccountID p @ '' in '' @
            target_text (lrp_TargetKind p) (lrp_TargetID p))
          (on_store (cso_DeleteModerationRestriction (csv_store sv) (lrp_TargetKind p) (lrp_TargetID p)
            (lrp_TargetAccountID p)))) (\<lambda>_.
        andThen new_action_id (\<lambda>i.
        andThen (wrapping (''log moderation restriction lift for '' @ target_text (lrp_TargetKind p) (lrp_TargetID p))
          (saveModerationActionWithSyncEvent sv clock (conv_ID c)
            ((action_of i (lrp_TargetKind p) (lrp_TargetID p) (lrp_ActorAccountID p)
              (moderationLiftActionType (lrp_TargetKind p)) [(''state'', ''lifted'')] now)
              \<lparr>mact_TargetAccountID := lrp_TargetAccountID p, mact_Reason := lrp_Reason p\<rparr>))) (\<lambda>_.
        ret ())))))))))"

definition restriction_expired :: "time \<Rightarrow> restriction \<Rightarrow> bool" where
  "restriction_expired now r \<longleftrightarrow> rsn_ExpiresAt r \<noteq> zero_time \<and> \<not> now < rsn_ExpiresAt r"

definition svc_ModerationRestrictionByTargetAndAccount ::
    "'s conv_service \<Rightarrow> go_context \<Rightarrow> ModerationTargetKind \<Rightarrow> string \<Rightarrow> string \<Rightarrow> ('s conv_world, restriction) io" where
  "svc_ModerationRestrictionByTargetAndAccount sv ctx targetKind targetID0 accountID0 =
     andThen (conv_validateContext ctx ''load moderation restriction'') (\<lambda>_.
     let targetID = trim_space targetID0; accountID = trim_space accountID0 in
     andThen (reject_if (targetKind = ModerationTargetKindUnspecified \<or> targetID = [] \<or> accountID = [])
       ConvErrInvalidInput) (\<lambda>_.
     andThen (wrapping (''load moderation restriction for '' @ target_text targetKind targetID @
         '' and account '' @ accountID)
       (on_store (cso_ModerationRestrictionByTargetAndAccount (csv_store sv) targetKind targetID accountID))) (\<lambda>r.
     andThen (reject_if (restriction_expired (csv_now sv) r) ConvErrNotFound) (\<lambda>_. ret r))))"

definition svc_ModerationRestrictionsByTarget ::
    "'s conv_service \<Rightarrow> go_context \<Rightarrow> ModerationTargetKind \<Rightarrow> string \<Rightarrow> ('s conv_world, restriction list) io" where
  "svc_ModerationRestrictionsByTarget sv ctx targetKind targetID0 =
     andThen (conv_validateContext ctx ''list moderation restrictions'') (\<lambda>_.
     let targetID = trim_space targetID0 in
     andThen (reject_if (targetKind = ModerationTargetKindUnspecified \<or> targetID = []) ConvErrInvalidInput) (\<lambda>_.
     andThen (wrapping (''list moderation restrictions for '' @ target_text targetKind targetID)
       (on_store (cso_ModerationRestrictionsByTarget (csv_store sv) targetKind targetID))) (\<lambda>rs.
     ret (List.filter (\<lambda>r. \<not> restriction_expired (csv_now sv) r) rs))))"

subsection \<open>The check of a write\<close>

definition zero_restriction :: restriction where
  "zero_restriction = \<lparr>rsn_TargetKind = [], rsn_TargetID = [], rsn_AccountID = [], rsn_State = [],
     rsn_AppliedByAccountID = [], rsn_Reason = [], rsn_ExpiresAt = zero_time, rsn_CreatedAt = zero_time,
     rsn_UpdatedAt = zero_time\<rparr>"

definition zero_rate_state :: rate_state where
  "zero_rate_state = \<lparr>rate_TargetKind = [], rate_TargetID = [], rate_AccountID = [],
     rate_LastWriteAt = zero_time, rate_WindowStartedAt = zero_time, rate_WindowCount = 0,
     rate_UpdatedAt = zero_time\<rparr>"

definition in_force :: "time \<Rightarrow> restriction \<Rightarrow> restriction" where
  "in_force now r = (if restriction_expired now r then zero_restriction else r)"

text \<open>
  A verdict is the decision together with the error the code returns beside it: the caller of
  a rate limited write reads the delay from the decision.
\<close>

type_synonym verdict = "mod_decision \<times> error option"

definition write_allowed :: "bool \<Rightarrow> verdict" where
  "write_allowed shadowHidden = (\<lparr>dec_Allowed = True, dec_ShadowHidden = shadowHidden, dec_RetryAfter = 0\<rparr>, None)"

definition no_decision :: mod_decision where
  "no_decision = \<lparr>dec_Allowed = False, dec_ShadowHidden = False, dec_RetryAfter = 0\<rparr>"

definition rate_limited :: "duration \<Rightarrow> verdict" where
  "rate_limited retryAfter = (no_decision\<lparr>dec_RetryAfter := retryAfter\<rparr>, Some ConvErrRateLimited)"

definition window_over :: "duration \<Rightarrow> rate_state \<Rightarrow> time \<Rightarrow> bool" where
  "window_over window r now \<longleftrightarrow> rate_WindowStartedAt r = zero_time \<or> window \<le> time_sub now (rate_WindowStartedAt r)"

definition rate_verdict :: "mod_policy \<Rightarrow> rate_state \<Rightarrow> time \<Rightarrow> verdict" where
  "rate_verdict p r now =
     (let nextSlow = rate_LastWriteAt r + pol_SlowModeInterval p in
      if 0 < pol_SlowModeInterval p \<and> rate_LastWriteAt r \<noteq> zero_time \<and> now < nextSlow
        then rate_limited (time_sub nextSlow now)
      else if 0 < pol_AntiSpamWindow p \<and> 0 < pol_AntiSpamBurstLimit p then
        (let over = window_over (pol_AntiSpamWindow p) r now;
           started = (if over then now else rate_WindowStartedAt r);
           used = (if over then 0 else rate_WindowCount r) in
         if word_of_int (pol_AntiSpamBurstLimit p) \<le> used
           then rate_limited (time_sub (started + pol_AntiSpamWindow p) now)
         else write_allowed False)
      else write_allowed False)"

text \<open>The restriction that counts: the topic's, or else the conversation's.\<close>

definition restriction_lookup ::
    "'s conv_service \<Rightarrow> time \<Rightarrow> ModerationTargetKind \<Rightarrow> string \<Rightarrow> string \<Rightarrow> ('s conv_world, restriction) io" where
  "restriction_lookup sv now targetKind targetID accountID =
     andThen (or_zero (\<lambda>e. e = ConvErrNotFound)
       (''load moderation restriction for '' @ target_text targetKind targetID @ '' and account '' @ accountID)
       zero_restriction
       (on_store (cso_ModerationRestrictionByTargetAndAccount (csv_store sv) targetKind targetID accountID))) (\<lambda>r.
     ret (in_force now r))"

definition write_restriction :: "'s conv_service \<Rightarrow> time \<Rightarrow> check_write_params \<Rightarrow> ('s conv_world, restriction) io" where
  "write_restriction sv now p =
     andThen (restriction_lookup sv now (cwp_TargetKind p) (cwp_TargetID p) (cwp_ActorAccountID p)) (\<lambda>r.
     if rsn_State r = ModerationRestrictionStateUnspecified \<and> cwp_TargetKind p = ModerationTargetKindTopic then
       (let (conversationID, topicID) = splitModerationKey (cwp_TargetID p) in
        if conversationID \<noteq> [] \<and> topicID \<noteq> [] then
          restriction_lookup sv now ModerationTargetKindConversation conversationID (cwp_ActorAccountID p)
        else ret r)
     else ret r)"

definition checkModerationWrite ::
    "'s conv_service \<Rightarrow> go_context \<Rightarrow> check_write_params \<Rightarrow> ('s conv_world, verdict) io" where
  "checkModerationWrite sv ctx p0 =
     andThen (conv_validateContext ctx ''check moderation write'') (\<lambda>_.
     let p = p0\<lparr>cwp_TargetID := trim_space (cwp_TargetID p0), cwp_ActorAccountID := trim_space (cwp_ActorAccountID p0)\<rparr> in
     andThen (reject_if (cwp_TargetKind p = ModerationTargetKindUnspecified \<or> cwp_TargetID p = [] \<or>
       cwp_ActorAccountID p = []) ConvErrInvalidInput) (\<lambda>_.
     let now = or_time (cwp_CreatedAt p) (csv_now sv); policy = cwp_BasePolicy p in
     andThen (write_restriction sv now p) (\<lambda>r.
     if rsn_State r = ModerationRestrictionStateBanned \<or> rsn_State r = ModerationRestrictionStateMuted
       then raise ConvErrForbidden
     else if rsn_State r = ModerationRestrictionStateShadowed then ret (write_allowed True)
     else if pol_OnlyAdminsCanWrite policy \<and> cwp_ActorRole p \<noteq> MemberRoleOwner \<and> cwp_ActorRole p \<noteq> MemberRoleAdmin
       then raise ConvErrForbidden
     else if 0 < pol_SlowModeInterval policy \<or> 0 < pol_AntiSpamWindow policy \<or> 0 < pol_AntiSpamBurstLimit policy then
       andThen (or_zero (\<lambda>e. e = ConvErrNotFound)
         (''load moderation rate state for '' @ target_text (cwp_TargetKind p) (cwp_TargetID p) @
           '' and account '' @ cwp_ActorAccountID p) zero_rate_state
         (on_store (cso_ModerationRateStateByTargetAndAccount (csv_store sv) (cwp_TargetKind p)
           (cwp_TargetID p) (cwp_ActorAccountID p)))) (\<lambda>rate.
       ret (rate_verdict policy rate now))
     else ret (write_allowed False))))"

definition CheckModerationWrite ::
    "'s conv_service \<Rightarrow> go_context \<Rightarrow> check_write_params \<Rightarrow> ('s conv_world, verdict) io" where
  "CheckModerationWrite sv ctx p = checkModerationWrite sv ctx p"

subsection \<open>The rate state\<close>

definition rate_after :: "duration \<Rightarrow> time \<Rightarrow> rate_state \<Rightarrow> rate_state" where
  "rate_after window now r0 =
     (let r = r0\<lparr>rate_LastWriteAt := now\<rparr>;
        r' = (if window_over window r now then r\<lparr>rate_WindowStartedAt := now, rate_WindowCount := 1\<rparr>
          else r\<lparr>rate_WindowCount := rate_WindowCount r + 1\<rparr>) in
      r'\<lparr>rate_UpdatedAt := now\<rparr>)"

definition RecordModerationWrite ::
    "'s conv_service \<Rightarrow> go_context \<Rightarrow> record_write_params \<Rightarrow> ('s conv_world, rate_state) io" where
  "RecordModerationWrite sv ctx p0 =
     andThen (conv_validateContext ctx ''record moderation write'') (\<lambda>_.
     let p = p0\<lparr>rwp_TargetID := trim_space (rwp_TargetID p0), rwp_ActorAccountID := trim_space (rwp_ActorAccountID p0)\<rparr> in
     andThen (reject_if (rwp_TargetKind p = ModerationTargetKindUnspecified \<or> rwp_TargetID p = [] \<or>
       rwp_ActorAccountID p = []) ConvErrInvalidInput) (\<lambda>_.
     let now = or_time (rwp_CreatedAt p) (csv_now sv);
       what = target_text (rwp_TargetKind p) (rwp_TargetID p) @ '' and account '' @ rwp_ActorAccountID p in
     andThen (or_zero (\<lambda>e. e = ConvErrNotFound) (''load moderation rate state for '' @ what) zero_rate_state
       (on_store (cso_ModerationRateStateByTargetAndAccount (csv_store sv) (rwp_TargetKind p)
         (rwp_TargetID p) (rwp_ActorAccountID p)))) (\<lambda>state.
     let state' = (if rate_TargetID state = [] then state\<lparr>rate_TargetKind := rwp_TargetKind p,
           rate_TargetID := rwp_TargetID p, rate_AccountID := rwp_ActorAccountID p\<rparr> else state);
       window = (if rwp_AntiSpamWindow p \<le> 0 then 3600 * second else rwp_AntiSpamWindow p) in
     wrapping (''save moderation rate state for '' @ what)
       (on_store (cso_SaveModerationRateState (csv_store sv) (rate_after window now state'))))))"

definition svc_ModerationRateStateByTargetAndAccount ::
    "'s conv_service \<Rightarrow> go_context \<Rightarrow> ModerationTargetKind \<Rightarrow> string \<Rightarrow> string \<Rightarrow> ('s conv_world, rate_state) io" where
  "svc_ModerationRateStateByTargetAndAccount sv ctx targetKind0 targetID0 accountID0 =
     andThen (conv_validateContext ctx ''load moderation rate state'') (\<lambda>_.
     let targetKind = trim_space targetKind0; targetID = trim_space targetID0; accountID = trim_space accountID0 in
     andThen (reject_if (targetKind = ModerationTargetKindUnspecified \<or> targetID = [] \<or> accountID = [])
       ConvErrInvalidInput) (\<lambda>_.
     wrapping (''load moderation rate state for '' @ target_text targetKind targetID @ '' and account '' @ accountID)
       (on_store (cso_ModerationRateStateByTargetAndAccount (csv_store sv) targetKind targetID accountID))))"

subsection \<open>Reports\<close>

definition report_of_params :: "submit_report_params \<Rightarrow> string \<Rightarrow> time \<Rightarrow> mod_report" where
  "report_of_params p i now = \<lparr>rep_ID = i, rep_TargetKind = srp_TargetKind p, rep_TargetID = srp_TargetID p,
     rep_ReporterAccountID = srp_ReporterAccountID p, rep_TargetAccountID = srp_TargetAccountID p,
     rep_Reason = srp_Reason p, rep_Details = srp_Details p, rep_Status = ModerationReportStatusPending,
     rep_ReviewedByAccountID = [], rep_ReviewedAt = zero_time, rep_Resolution = [],
     rep_CreatedAt = now, rep_UpdatedAt = now\<rparr>"

definition SubmitModerationReport ::
    "'s conv_service \<Rightarrow> time \<Rightarrow> go_context \<Rightarrow> submit_report_params \<Rightarrow> ('s conv_world, mod_report) io" where
  "SubmitModerationReport sv clock ctx p0 =
     andThen (conv_validateContext ctx ''submit moderation report'') (\<lambda>_.
     let p = p0\<lparr>srp_TargetID := trim_space (srp_TargetID p0),
         srp_ReporterAccountID := trim_space (srp_ReporterAccountID p0),
         srp_TargetAccountID := trim_space (srp_TargetAccountID p0),
         srp_Reason := trim_space (srp_Reason p0),
         srp_Details := trim_space (srp_Details p0)\<rparr> in
     andThen (reject_if (srp_TargetKind p = ModerationTargetKindUnspecified \<or> srp_TargetID p = [] \<or>
       srp_ReporterAccountID p = [] \<or> srp_Reason p = []) ConvErrInvalidInput) (\<lambda>_.
     let now = or_time (srp_CreatedAt p) (csv_now sv) in
     runTx ctx
       (andThen (lookupModerationConversation sv (srp_TargetKind p) (srp_TargetID p)) (\<lambda>c.
        andThen (moderation_member sv ''report submission'' c (srp_ReporterAccountID p)) (\<lambda>member.
        andThen (reject_if (\<not> isActiveMember member) ConvErrForbidden) (\<lambda>_.
        andThen (wrapping ''generate moderation report id'' (conv_newID ''rep'')) (\<lambda>reportID.
        andThen (wrapping (''save moderation report '' @ reportID)
          (on_store (cso_SaveModerationReport (csv_store sv) (report_of_params p reportID now)))) (\<lambda>saved.
        andThen new_action_id (\<lambda>i.
        andThen (wrapping (''log moderation report '' @ reportID)
          (saveModerationActionWithSyncEvent sv clock (conv_ID c)
            ((action_of i (srp_TargetKind p) (srp_TargetID p) (srp_ReporterAccountID p)
              ModerationActionTypeReportSet [(''report_id'', reportID)] now)
              \<lparr>mact_TargetAccountID := srp_TargetAccountID p, mact_Reason := srp_Reason p\<rparr>))) (\<lambda>_.
        ret saved))))))))))"

definition svc_ModerationReportByID ::
    "'s conv_service \<Rightarrow> go_context \<Rightarrow> string \<Rightarrow> ('s conv_world, mod_report) io" where
  "svc_ModerationReportByID sv ctx reportID0 =
     andThen (conv_validateContext ctx ''load moderation report'') (\<lambda>_.
     let reportID = trim_space reportID0 in
     andThen (reject_if (reportID = []) ConvErrInvalidInput) (\<lambda>_.
     wrapping (''load moderation report '' @ reportID)
       (on_store (cso_ModerationReportByID (csv_store sv) reportID))))"

definition svc_ModerationReportsByTarget ::
    "'s conv_service \<Rightarrow> go_context \<Rightarrow> ModerationTargetKind \<Rightarrow> string \<Rightarrow> ('s conv_world, mod_report list) io" where
  "svc_ModerationReportsByTarget sv ctx targetKind targetID0 =
     andThen (conv_validateContext ctx ''list moderation reports'') (\<lambda>_.
     let targetID = trim_space targetID0 in
     andThen (reject_if (targetKind = ModerationTargetKindUnspecified \<or> targetID = []) ConvErrInvalidInput) (\<lambda>_.
     wrapping (''list moderation reports for '' @ target_text targetKind targetID)
       (on_store (cso_ModerationReportsByTarget (csv_store sv) targetKind targetID))))"

definition ResolveModerationReport ::
    "'s conv_service \<Rightarrow> time \<Rightarrow> go_context \<Rightarrow> resolve_report_params \<Rightarrow> ('s conv_world, mod_report) io" where
  "ResolveModerationReport sv clock ctx p0 =
     andThen (conv_validateContext ctx ''resolve moderation report'') (\<lambda>_.
     let p = p0\<lparr>rsp_ReportID := trim_space (rsp_ReportID p0),
         rsp_ResolverAccountID := trim_space (rsp_ResolverAccountID p0),
         rsp_Resolution := trim_space (rsp_Resolution p0)\<rparr> in
     andThen (reject_if (rsp_ReportID p = [] \<or> rsp_ResolverAccountID p = []) ConvErrInvalidInput) (\<lambda>_.
     let now = or_time (rsp_ReviewedAt p) (csv_now sv) in
     runTx ctx
       (andThen (wrapping (''load moderation report '' @ rsp_ReportID p)
          (on_store (cso_ModerationReportByID (csv_store sv) (rsp_ReportID p)))) (\<lambda>report.
        andThen (lookupModerationConversation sv (rep_TargetKind report) (rep_TargetID report)) (\<lambda>c.
        andThen (moderation_member sv ''report resolution'' c (rsp_ResolverAccountID p)) (\<lambda>member.
        andThen (reject_if (\<not> canModerate member (rsp_ResolverAccountID p)) ConvErrForbidden) (\<lambda>_.
        let report' = report\<lparr>rep_Status := (if rsp_Resolved p then ModerationReportStatusResolved
                else ModerationReportStatusRejected),
              rep_ReviewedByAccountID := rsp_ResolverAccountID p,
              rep_ReviewedAt := now,
              rep_Resolution := rsp_Resolution p,
              rep_UpdatedAt := now\<rparr> in
        andThen (wrapping (''update moderation report '' @ rep_ID report')
          (on_store (cso_SaveModerationReport (csv_store sv) report'))) (\<lambda>saved.
        andThen new_action_id (\<lambda>i.
        andThen (wrapping (''log moderation report resolution '' @ rep_ID report')
          (saveModerationActionWithSyncEvent sv clock (conv_ID c)
            ((action_of i (rep_TargetKind report') (rep_TargetID report') (rsp_ResolverAccountID p)
              (if rsp_Resolved p then ModerationActionTypeReportResolve else ModerationActionTypeReportReject)
              [(''report_id'', rep_ID report')] now)
              \<lparr>mact_TargetAccountID := rep_TargetAccountID report', mact_Reason := rsp_Resolution p\<rparr>))) (\<lambda>_.
        ret saved))))))))))"

end
