(* ===== verification/ConvMessages.thy ===== *)
theory ConvMessages
  imports ConvModeration
begin

section \<open>Sending messages (\<open>messages.go\<close>, \<open>publish.go\<close>, \<open>reply.go\<close>, \<open>mentions.go\<close>, \<open>read.go\<close>, \<open>scheduled_worker.go\<close>)\<close>

text \<open>
  A message is checked against the conversation, the topic, the reply target and the moderation
  state and then published: the message, its event, the rate state, the topic, the read state,
  the conversation and the sync state are written in one transaction. A message scheduled for
  later is only stored; the dispatch publishes it, moves it or marks it failed.
\<close>

definition conv_admin :: "conv_member \<Rightarrow> bool" where
  "conv_admin m \<longleftrightarrow> cmem_Role m = MemberRoleOwner \<or> cmem_Role m = MemberRoleAdmin"

text \<open>A message that is deleted, and one that is not published yet.\<close>

definition message_deleted :: "message \<Rightarrow> bool" where
  "message_deleted m \<longleftrightarrow> msg_DeletedAt m \<noteq> zero_time \<or> msg_Status m = MessageStatusDeleted"

definition message_unpublished :: "message \<Rightarrow> bool" where
  "message_unpublished m \<longleftrightarrow> msg_Status m = MessageStatusPending \<or> msg_Status m = MessageStatusFailed"

definition validateMentionTargets :: "conv_member list \<Rightarrow> string list \<Rightarrow> error + unit" where
  "validateMentionTargets members mentionAccountIDs =
     (let allowed = List.map cmem_AccountID (List.filter isActiveMember members) in
      if list_all (\<lambda>i. i \<in> set allowed) mentionAccountIDs then Inr () else Inl ConvErrForbidden)"

text \<open>The check of the mentions that sending and editing share.\<close>

definition check_mentions ::
    "'s conv_service \<Rightarrow> string \<Rightarrow> string list \<Rightarrow> ('s conv_world, unit) io" where
  "check_mentions sv conversationID mentionAccountIDs =
     (if mentionAccountIDs = [] then ret ()
      else andThen (wrapping (''load members for conversation '' @ conversationID)
          (on_store (cso_ConversationMembersByConversationID (csv_store sv) conversationID))) (\<lambda>members.
        of_result (validateMentionTargets members mentionAccountIDs)))"

definition normalizeMessageDraft :: "msg_draft \<Rightarrow> msg_draft" where
  "normalizeMessageDraft d = d\<lparr>draft_MentionAccountIDs := uniqueIDs (draft_MentionAccountIDs d),
     draft_DeliverAt := (if draft_DeliverAt d < zero_time then zero_time else draft_DeliverAt d)\<rparr>"

subsection \<open>Publishing\<close>

record publish_state =
  pst_Conversation :: conversation
  pst_Topic :: topic
  pst_Policy :: mod_policy

record publish_params =
  pmg_Message :: message
  pmg_State :: publish_state
  pmg_ActorAccountID :: string
  pmg_ActorDeviceID :: string
  pmg_CausationID :: string
  pmg_CorrelationID :: string
  pmg_PublishedAt :: time

text \<open>The reply target must be visible in the same topic.\<close>

definition check_reply_target ::
    "'s conv_service \<Rightarrow> conversation \<Rightarrow> topic \<Rightarrow> message \<Rightarrow> ('s conv_world, unit) io" where
  "check_reply_target sv c t m =
     (let i = mref_MessageID (msg_ReplyTo m) in
      if i = [] then ret ()
      else andThen (wrapping (''load reply target '' @ i @ '' in conversation '' @ conv_ID c)
          (on_store (cso_MessageByID (csv_store sv) (conv_ID c) i))) (\<lambda>target.
        andThen (reject_if (message_deleted target) ConvErrConflict) (\<lambda>_.
        reject_if (msg_ThreadID target \<noteq> top_ID t) ConvErrConflict)))"

text \<open>
  The state of the publication, or the error of the check of the write with its decision;
  every other error has the zero decision.
\<close>

definition validateMessageForPublication ::
    "'s conv_service \<Rightarrow> go_context \<Rightarrow> message \<Rightarrow> time \<Rightarrow>
     ('s conv_world, publish_state \<times> verdict) io" where
  "validateMessageForPublication sv ctx m publishedAt =
     (let S = csv_store sv in
      andThen (wrapping (''load conversation '' @ msg_ConversationID m)
        (on_store (cso_ConversationByID S (msg_ConversationID m)))) (\<lambda>c.
      andThen (wrapping (''authorize sender '' @ msg_SenderAccountID m @ '' for conversation '' @ conv_ID c)
        (on_store (cso_ConversationMemberByConversationAndAccount S (conv_ID c) (msg_SenderAccountID m)))) (\<lambda>member.
      andThen (reject_if (\<not> isActiveMember member) ConvErrForbidden) (\<lambda>_.
      andThen (wrapping (''load topic '' @ msg_ThreadID m @ '' in conversation '' @ conv_ID c)
        (on_store (cso_TopicByConversationAndID S (conv_ID c) (msg_ThreadID m)))) (\<lambda>t.
      andThen (reject_if (top_Archived t \<or> top_Closed t) ConvErrForbidden) (\<lambda>_.
      andThen (policyForConversation sv c (top_ID t)) (\<lambda>policy.
      andThen (reject_if (msg_ThreadID m \<noteq> [] \<and> \<not> pol_AllowThreads policy) ConvErrForbidden) (\<lambda>_.
      andThen (reject_if (ValidateMessagePayload (msg_Payload m) (pol_RequireEncryptedMessages policy) \<noteq> Inr ())
        ConvErrInvalidInput) (\<lambda>_.
      andThen (check_reply_target sv c t m) (\<lambda>_.
      let (targetKind, targetID) = moderationTarget c (top_ID t) in
      andThen (checkModerationWrite sv ctx \<lparr>cwp_TargetKind = targetKind, cwp_TargetID = targetID,
        cwp_ActorAccountID = msg_SenderAccountID m, cwp_ActorRole = cmem_Role member, cwp_BasePolicy = policy,
        cwp_CreatedAt = publishedAt\<rparr>) (\<lambda>verdict.
      ret (\<lparr>pst_Conversation = c, pst_Topic = t, pst_Policy = policy\<rparr>, verdict))))))))))))"

definition published_message :: "time \<Rightarrow> message \<Rightarrow> message" where
  "published_message now m = m\<lparr>msg_Status := MessageStatusSent, msg_Sequence := 0, msg_CreatedAt := now,
     msg_UpdatedAt := now\<rparr>"

definition zero_read_state :: read_state where
  "zero_read_state = \<lparr>rst_ConversationID = [], rst_AccountID = [], rst_DeviceID = [],
     rst_LastReadSequence = 0, rst_LastDeliveredSequence = 0, rst_LastAckedSequence = 0,
     rst_UpdatedAt = zero_time\<rparr>"

text \<open>A sync state without watermarks, as the writers other than the cursor operations save it.\<close>

definition device_sync :: "string \<Rightarrow> string \<Rightarrow> uint64 \<Rightarrow> uint64 \<Rightarrow> time \<Rightarrow> sync_state" where
  "device_sync deviceID accountID applied acked now = \<lparr>syn_DeviceID = deviceID, syn_AccountID = accountID,
     syn_LastAppliedSequence = applied, syn_LastAckedSequence = acked, syn_ServerTime = now,
     syn_ConversationWatermarks = []\<rparr>"

definition publishMessage ::
    "'s conv_service \<Rightarrow> publish_params \<Rightarrow> ('s conv_world, message \<times> conv_event) io" where
  "publishMessage sv p =
     (let S = csv_store sv; now = or_time (pmg_PublishedAt p) (csv_now sv);
        c = pst_Conversation (pmg_State p); t = pst_Topic (pmg_State p);
        actor = pmg_ActorAccountID p; device = pmg_ActorDeviceID p in
      andThen (wrapping ''save message'' (on_store (cso_SaveMessage S (published_message now (pmg_Message p))))) (\<lambda>saved.
      andThen eventID (\<lambda>eid.
      andThen (wrapping ''save message event'' (on_store (cso_SaveEvent S
        ((event_of eid EventTypeMessageCreated (conv_ID c) actor
            (messageEventMetadata (msg_ID saved) (msg_ThreadID saved) (msg_ReplyTo saved)
              (messageSnapshotMetadata saved [])) now)
          \<lparr>ev_ActorDeviceID := device, ev_CausationID := pmg_CausationID p,
            ev_CorrelationID := pmg_CorrelationID p, ev_MessageID := msg_ID saved,
            ev_PayloadType := ''message'', ev_Payload := msg_Payload saved\<rparr>)))) (\<lambda>event.
      let (targetKind, targetID) = moderationTarget c (top_ID t) in
      andThen (or_zero (\<lambda>e. error_is e ConvErrNotFound) ''load moderation rate state'' zero_rate_state
        (on_store (cso_ModerationRateStateByTargetAndAccount S targetKind targetID actor))) (\<lambda>rate.
      andThen (wrapping ''save moderation rate state'' (on_store (cso_SaveModerationRateState S
        (rate_after (pol_AntiSpamWindow (pst_Policy (pmg_State p))) now
          (rate\<lparr>rate_TargetKind := targetKind, rate_TargetID := targetID, rate_AccountID := actor\<rparr>))))) (\<lambda>_.
      andThen (wrapping (''update topic '' @ top_ID t @ '' after message'') (on_store (cso_SaveTopic S
        (t\<lparr>top_LastSequence := ev_Sequence event, top_MessageCount := top_MessageCount t + 1,
           top_LastMessageAt := now, top_UpdatedAt := now\<rparr>)))) (\<lambda>_.
      andThen (wrapping ''update message sequence'' (on_store (cso_SaveMessage S
        (saved\<lparr>msg_Sequence := ev_Sequence event, msg_UpdatedAt := now\<rparr>)))) (\<lambda>saved'.
      andThen (wrapping ''save sender read state'' (on_store (cso_SaveReadState S
        \<lparr>rst_ConversationID = conv_ID c, rst_AccountID = actor, rst_DeviceID = device,
         rst_LastReadSequence = ev_Sequence event, rst_LastDeliveredSequence = ev_Sequence event,
         rst_LastAckedSequence = ev_Sequence event, rst_UpdatedAt = now\<rparr>))) (\<lambda>_.
      andThen (wrapping (''update conversation '' @ conv_ID c @ '' after message'') (on_store (cso_SaveConversation S
        (c\<lparr>conv_LastSequence := ev_Sequence event, conv_LastMessageAt := now, conv_UpdatedAt := now\<rparr>)))) (\<lambda>_.
      andThen (wrapping ''save sync state'' (on_store (cso_SaveSyncState S
        (device_sync device actor (ev_Sequence event) (ev_Sequence event) now)))) (\<lambda>_.
      ret (saved', event))))))))))))"

subsection \<open>Sending\<close>

text \<open>The reference that is stored with a reply; the first check of the reply target.\<close>

definition resolve_reply ::
    "'s conv_service \<Rightarrow> conversation \<Rightarrow> topic \<Rightarrow> msg_reference \<Rightarrow> ('s conv_world, msg_reference) io" where
  "resolve_reply sv c t replyTo =
     (if mref_MessageID replyTo = [] then ret replyTo
      else andThen (wrapping (''load reply target '' @ mref_MessageID replyTo @ '' in conversation '' @ conv_ID c)
          (on_store (cso_MessageByID (csv_store sv) (conv_ID c) (mref_MessageID replyTo)))) (\<lambda>target.
        andThen (reject_if (message_deleted target) ConvErrConflict) (\<lambda>_.
        andThen (reject_if (trim_space (mref_ConversationID replyTo) \<noteq> [] \<and>
          trim_space (mref_ConversationID replyTo) \<noteq> conv_ID c) ConvErrConflict) (\<lambda>_.
        andThen (reject_if (trim_space (msg_ThreadID target) \<noteq> top_ID t) ConvErrConflict) (\<lambda>_.
        ret \<lparr>mref_ConversationID = conv_ID c, mref_MessageID = msg_ID target,
          mref_SenderAccountID = msg_SenderAccountID target, mref_MessageKind = msg_Kind target,
          mref_Snippet = trim_space (mref_Snippet replyTo)\<rparr>)))))"

definition drafted_message ::
    "send_message_params \<Rightarrow> string \<Rightarrow> conversation \<Rightarrow> msg_reference \<Rightarrow> time \<Rightarrow> message" where
  "drafted_message p i c replyTo now =
     (let d = smp_Draft p in \<lparr>msg_ID = i, msg_ConversationID = conv_ID c,
        msg_SenderAccountID = smp_SenderAccountID p, msg_SenderDeviceID = smp_SenderDeviceID p,
        msg_ClientMessageID = trim_space (draft_ClientMessageID d), msg_Sequence = 0, msg_Kind = draft_Kind d,
        msg_Status = MessageStatusSent, msg_Payload = draft_Payload d, msg_Attachments = draft_Attachments d,
        msg_MentionAccountIDs = draft_MentionAccountIDs d, msg_ReplyTo = replyTo,
        msg_ThreadID = trim_space (draft_ThreadID d), msg_Silent = draft_Silent d, msg_Pinned = False,
        msg_DisableLinkPreviews = draft_DisableLinkPreviews d, msg_ViewCount = 0,
        msg_DeliverAt = draft_DeliverAt d, msg_Metadata = trimMetadata (draft_Metadata d), msg_Reactions = [],
        msg_CreatedAt = now, msg_UpdatedAt = now, msg_EditedAt = zero_time, msg_DeletedAt = zero_time\<rparr>)"

text \<open>
  The transaction of \<open>SendMessage\<close>: the message, the event it produced if it was published, and
  whether it is hidden from the others.
\<close>

definition verdict_ok :: "verdict \<Rightarrow> ('w, mod_decision) io" where
  "verdict_ok v = (case snd v of None \<Rightarrow> ret (fst v) | Some e \<Rightarrow> raise e)"

definition send_tx ::
    "'s conv_service \<Rightarrow> go_context \<Rightarrow> send_message_params \<Rightarrow> time \<Rightarrow> bool \<Rightarrow>
     ('s conv_world, message \<times> conv_event option \<times> mod_decision) io" where
  "send_tx sv ctx p now scheduled =
     (let S = csv_store sv; d = smp_Draft p; topicID = draft_ThreadID d in
      andThen (wrapping (''load conversation '' @ smp_ConversationID p)
        (on_store (cso_ConversationByID S (smp_ConversationID p)))) (\<lambda>c.
      andThen (wrapping (''authorize sender '' @ smp_SenderAccountID p @ '' for conversation '' @ conv_ID c)
        (on_store (cso_ConversationMemberByConversationAndAccount S (conv_ID c) (smp_SenderAccountID p)))) (\<lambda>member.
      andThen (reject_if (\<not> isActiveMember member) ConvErrForbidden) (\<lambda>_.
      andThen (check_mentions sv (conv_ID c) (draft_MentionAccountIDs d)) (\<lambda>_.
      andThen (if topicID \<noteq> [] then
          andThen (policyForConversation sv c topicID) (\<lambda>policy.
          reject_if (conv_Kind c \<noteq> ConversationKindGroup \<or> \<not> pol_AllowThreads policy) ConvErrForbidden)
        else ret ()) (\<lambda>_.
      andThen (wrapping (''load topic '' @ topicID @ '' in conversation '' @ conv_ID c)
        (on_store (cso_TopicByConversationAndID S (conv_ID c) topicID))) (\<lambda>t.
      andThen (reject_if (top_Archived t \<or> top_Closed t) ConvErrForbidden) (\<lambda>_.
      andThen (resolve_reply sv c t (draft_ReplyTo d)) (\<lambda>replyTo.
      andThen (wrapping ''generate message id'' (conv_newID ''msg'')) (\<lambda>i.
      let m = drafted_message p i c replyTo now in
      if scheduled then
        andThen (wrapping ''save scheduled message''
          (on_store (cso_SaveMessage S (m\<lparr>msg_Status := MessageStatusPending\<rparr>)))) (\<lambda>saved.
        ret (saved, None, no_decision))
      else
        andThen (validateMessageForPublication sv ctx m now) (\<lambda>(state, verdict).
        andThen (verdict_ok verdict) (\<lambda>decision.
        andThen (publishMessage sv \<lparr>pmg_Message = m, pmg_State = state, pmg_ActorAccountID = smp_SenderAccountID p,
          pmg_ActorDeviceID = smp_SenderDeviceID p, pmg_CausationID = smp_CausationID p,
          pmg_CorrelationID = smp_CorrelationID p, pmg_PublishedAt = now\<rparr>) (\<lambda>(saved, event).
        ret (saved, Some event, decision))))))))))))))"

definition SendMessage ::
    "'s conv_service \<Rightarrow> go_context \<Rightarrow> send_message_params \<Rightarrow> ('s conv_world, message \<times> conv_event option) io" where
  "SendMessage sv ctx p0 =
     andThen (conv_validateContext ctx ''send message'') (\<lambda>_.
     let d = normalizeMessageDraft (smp_Draft p0);
       p = p0\<lparr>smp_ConversationID := trim_space (smp_ConversationID p0),
         smp_SenderAccountID := trim_space (smp_SenderAccountID p0),
         smp_SenderDeviceID := trim_space (smp_SenderDeviceID p0),
         smp_Draft := d\<lparr>draft_ThreadID := trim_space (draft_ThreadID d)\<rparr>\<rparr> in
     andThen (reject_if (smp_ConversationID p = [] \<or> smp_SenderAccountID p = [] \<or> smp_SenderDeviceID p = [])
       ConvErrInvalidInput) (\<lambda>_.
     andThen (reject_if (draft_Kind (smp_Draft p) = MessageKindUnspecified) ConvErrInvalidInput) (\<lambda>_.
     let now = or_time (smp_CreatedAt p) (csv_now sv);
       scheduled = (draft_DeliverAt (smp_Draft p) \<noteq> zero_time \<and> now < draft_DeliverAt (smp_Draft p)) in
     andThen (runTx ctx (send_tx sv ctx p now scheduled)) (\<lambda>(saved, event, decision).
     andThen (if scheduled then ret ()
       else andThen (if dec_ShadowHidden decision then ret () else indexMessage sv saved) (\<lambda>_.
         indexConversationByID sv (msg_ConversationID saved))) (\<lambda>_.
     ret (saved, event))))))"

definition no_reference :: msg_reference where
  "no_reference = \<lparr>mref_ConversationID = [], mref_MessageID = [], mref_SenderAccountID = [],
     mref_MessageKind = [], mref_Snippet = []\<rparr>"

definition ReplyMessage ::
    "'s conv_service \<Rightarrow> go_context \<Rightarrow> reply_message_params \<Rightarrow> ('s conv_world, message \<times> conv_event option) io" where
  "ReplyMessage sv ctx p =
     (let replyTo = trim_space (rlp_ReplyToMessageID p) in
      if replyTo = [] then raise ConvErrInvalidInput
      else SendMessage sv ctx \<lparr>smp_ConversationID = trim_space (rlp_ConversationID p),
        smp_SenderAccountID = trim_space (rlp_SenderAccountID p),
        smp_SenderDeviceID = trim_space (rlp_SenderDeviceID p),
        smp_Draft = (rlp_Draft p)\<lparr>draft_ReplyTo := no_reference\<lparr>mref_MessageID := replyTo\<rparr>\<rparr>,
        smp_CausationID = rlp_CausationID p, smp_CorrelationID = rlp_CorrelationID p,
        smp_CreatedAt = rlp_CreatedAt p\<rparr>)"

subsection \<open>Scheduled messages\<close>

definition scheduledFailureReason :: "error \<Rightarrow> string" where
  "scheduledFailureReason e =
     (if error_is e ConvErrForbidden then ''forbidden''
      else if error_is e ConvErrConflict then ''conflict''
      else if error_is e ConvErrInvalidInput then ''invalid_input''
      else if error_is e ConvErrNotFound then ''not_found''
      else ''internal_error'')"

definition markScheduledMessageFailed ::
    "'s conv_service \<Rightarrow> message \<Rightarrow> time \<Rightarrow> string \<Rightarrow> ('s conv_world, message) io" where
  "markScheduledMessageFailed sv m failedAt reason =
     (let m' = m\<lparr>msg_Status := MessageStatusFailed, msg_UpdatedAt := or_time failedAt (csv_now sv),
          msg_Metadata := put_nonempty ''scheduled_failure_reason'' reason (trimMetadata (msg_Metadata m))\<rparr> in
      wrapping (''save failed scheduled message '' @ msg_ID m') (on_store (cso_SaveMessage (csv_store sv) m')))"

definition rescheduleScheduledMessage ::
    "'s conv_service \<Rightarrow> message \<Rightarrow> time \<Rightarrow> ('s conv_world, message) io" where
  "rescheduleScheduledMessage sv m nextAttemptAt =
     (if nextAttemptAt = zero_time then ret m
      else let m' = m\<lparr>msg_DeliverAt := nextAttemptAt, msg_UpdatedAt := csv_now sv\<rparr> in
        wrapping (''reschedule message '' @ msg_ID m') (on_store (cso_SaveMessage (csv_store sv) m')))"

text \<open>The errors of the domain, for which a due message is marked failed.\<close>

definition scheduling_fails :: "error \<Rightarrow> bool" where
  "scheduling_fails e \<longleftrightarrow> error_is e ConvErrForbidden \<or> error_is e ConvErrConflict \<or>
     error_is e ConvErrInvalidInput \<or> error_is e ConvErrNotFound"

text \<open>
  One round of the dispatch loop. The validation gives a state and a verdict or fails; either
  failure comes with a decision, from which the delay of a rate limited message is read.
\<close>

definition dispatch_message ::
    "'s conv_service \<Rightarrow> go_context \<Rightarrow> time \<Rightarrow> message \<Rightarrow> ('s conv_world, (message \<times> conv_event \<times> bool) option) io" where
  "dispatch_message sv ctx due m =
     andThen (attempt (validateMessageForPublication sv ctx m due)) (\<lambda>r.
     let (failure, decision) = (case r of
           Inl e \<Rightarrow> (Some e, no_decision)
         | Inr (state, decision, err) \<Rightarrow> (err, decision)) in
     case failure of
       Some e \<Rightarrow>
         if error_is e ConvErrRateLimited \<and> 0 < dec_RetryAfter decision then
           andThen (rescheduleScheduledMessage sv m (due + dec_RetryAfter decision)) (\<lambda>_. ret None)
         else if scheduling_fails e then
           andThen (markScheduledMessageFailed sv m due (scheduledFailureReason e)) (\<lambda>_. ret None)
         else raise e
     | None \<Rightarrow>
         (case r of
            Inl e \<Rightarrow> raise e
          | Inr (state, _) \<Rightarrow>
              andThen (publishMessage sv \<lparr>pmg_Message = m, pmg_State = state,
                pmg_ActorAccountID = msg_SenderAccountID m, pmg_ActorDeviceID = msg_SenderDeviceID m,
                pmg_CausationID = [], pmg_CorrelationID = [], pmg_PublishedAt = due\<rparr>) (\<lambda>(saved, event).
              ret (Some (saved, event, dec_ShadowHidden decision)))))"

definition index_dispatched ::
    "'s conv_service \<Rightarrow> message \<times> conv_event \<times> bool \<Rightarrow> ('s conv_world, conv_event) io" where
  "index_dispatched sv = (\<lambda>(m, event, hidden).
     andThen (if hidden then ret () else indexMessage sv m) (\<lambda>_.
     andThen (indexConversationByID sv (msg_ConversationID m)) (\<lambda>_.
     ret event)))"

definition DispatchDueMessages ::
    "'s conv_service \<Rightarrow> go_context \<Rightarrow> time \<Rightarrow> int \<Rightarrow> ('s conv_world, conv_event list) io" where
  "DispatchDueMessages sv ctx due0 limit0 =
     andThen (conv_validateContext ctx ''dispatch scheduled messages'') (\<lambda>_.
     let due = or_time due0 (csv_now sv); limit = clampLimit limit0 100 500 in
     andThen (runTx ctx
       (andThen (wrapping ''load due scheduled messages''
          (on_store (cso_DueScheduledMessages (csv_store sv) due limit))) (\<lambda>messages.
        for_each (dispatch_message sv ctx due) messages))) (\<lambda>dispatched.
     for_each (index_dispatched sv) (List.map_filter id dispatched)))"

text \<open>
  The worker hands the events of a batch to a handler, which is not part of the domain: a
  function from the events to an optional error. \<open>Run\<close> logs an error and goes on; the
  number of rounds until the context is done is an argument.
\<close>

record 's scheduled_worker =
  swk_service :: "'s conv_service"
  swk_handler :: "conv_event list \<Rightarrow> error option"
  swk_PollInterval :: duration
  swk_BatchSize :: int

definition NewScheduledMessageWorker ::
    "'s conv_service option \<Rightarrow> (conv_event list \<Rightarrow> error option) option \<Rightarrow> duration \<Rightarrow> int \<Rightarrow>
     error + 's scheduled_worker" where
  "NewScheduledMessageWorker service handler pollInterval batchSize =
     (case (service, handler) of
        (Some sv, Some h) \<Rightarrow> Inr \<lparr>swk_service = sv, swk_handler = h,
          swk_PollInterval = (if pollInterval \<le> 0 then 2 * second else pollInterval),
          swk_BatchSize = (if batchSize \<le> 0 then 100 else batchSize)\<rparr>
      | _ \<Rightarrow> Inl ConvErrInvalidInput)"

definition scheduled_processOnce :: "'s scheduled_worker \<Rightarrow> go_context \<Rightarrow> ('s conv_world, unit) io" where
  "scheduled_processOnce w ctx =
     andThen (DispatchDueMessages (swk_service w) ctx zero_time (swk_BatchSize w)) (\<lambda>events.
     if events = [] then ret ()
     else case swk_handler w events of None \<Rightarrow> ret () | Some e \<Rightarrow> raise e)"

fun scheduled_rounds :: "'s scheduled_worker \<Rightarrow> go_context \<Rightarrow> nat \<Rightarrow> ('s conv_world, unit) io" where
  "scheduled_rounds w ctx 0 = ret ()"
| "scheduled_rounds w ctx (Suc n) =
     andThen (attempt (scheduled_processOnce w ctx)) (\<lambda>_. scheduled_rounds w ctx n)"

definition scheduled_Run :: "'s scheduled_worker \<Rightarrow> go_context \<Rightarrow> nat \<Rightarrow> ('s conv_world, unit) io" where
  "scheduled_Run w ctx rounds =
     (if ctx = NilContext then raise ConvErrInvalidInput else scheduled_rounds w ctx rounds)"

subsection \<open>Reading messages\<close>

definition GetMessage ::
    "'s conv_service \<Rightarrow> go_context \<Rightarrow> get_message_params \<Rightarrow> ('s conv_world, message) io" where
  "GetMessage sv ctx p =
     andThen (conv_validateContext ctx ''get message'') (\<lambda>_.
     let conversationID = trim_space (gmp_ConversationID p); messageID = trim_space (gmp_MessageID p);
       accountID = trim_space (gmp_AccountID p); S = csv_store sv in
     andThen (reject_if (conversationID = [] \<or> messageID = [] \<or> accountID = []) ConvErrInvalidInput) (\<lambda>_.
     andThen (wrapping (''authorize message read for conversation '' @ conversationID @ '' and account '' @ accountID)
       (on_store (cso_ConversationMemberByConversationAndAccount S conversationID accountID))) (\<lambda>member.
     andThen (reject_if (\<not> isActiveMember member) ConvErrForbidden) (\<lambda>_.
     andThen (wrapping (''load message '' @ messageID @ '' in conversation '' @ conversationID)
       (on_store (cso_MessageByID S conversationID messageID))) (\<lambda>m.
     andThen (reject_if (message_unpublished m \<and> msg_SenderAccountID m \<noteq> accountID) ConvErrNotFound) (\<lambda>_.
     andThen (reject_if (msg_DeletedAt m \<noteq> zero_time \<and> \<not> conv_admin member) ConvErrNotFound) (\<lambda>_.
     ret m)))))))"

definition shadowed_accounts :: "time \<Rightarrow> restriction list \<Rightarrow> string list" where
  "shadowed_accounts now rs = List.map rsn_AccountID (List.filter (\<lambda>r.
     rsn_State r = ModerationRestrictionStateShadowed \<and> \<not> restriction_expired now r) rs)"

definition ListMessages ::
    "'s conv_service \<Rightarrow> go_context \<Rightarrow> list_messages_params \<Rightarrow> ('s conv_world, message list) io" where
  "ListMessages sv ctx p =
     andThen (conv_validateContext ctx ''list messages'') (\<lambda>_.
     let now = csv_now sv; S = csv_store sv; conversationID = trim_space (lmp_ConversationID p);
       accountID = trim_space (lmp_AccountID p); threadID = trim_space (lmp_ThreadID p) in
     andThen (reject_if (conversationID = [] \<or> accountID = []) ConvErrInvalidInput) (\<lambda>_.
     andThen (wrapping (''authorize conversation '' @ conversationID @ '' for account '' @ accountID)
       (on_store (cso_ConversationMemberByConversationAndAccount S conversationID accountID))) (\<lambda>member.
     andThen (reject_if (\<not> isActiveMember member) ConvErrForbidden) (\<lambda>_.
     andThen (wrapping (''load conversation '' @ conversationID) (on_store (cso_ConversationByID S conversationID))) (\<lambda>c.
     andThen (if threadID \<noteq> [] then
         andThen (policyForConversation sv c threadID) (\<lambda>policy.
         andThen (reject_if (conv_Kind c \<noteq> ConversationKindGroup \<or> \<not> pol_AllowThreads policy) ConvErrForbidden) (\<lambda>_.
         andThen (wrapping (''load topic '' @ threadID @ '' in conversation '' @ conversationID)
           (on_store (cso_TopicByConversationAndID S conversationID threadID))) (\<lambda>_. ret ())))
       else ret ()) (\<lambda>_.
     let (targetKind, targetID) = moderationTarget c threadID in
     andThen (wrapping (''load moderation restrictions for '' @ target_text targetKind targetID)
       (on_store (cso_ModerationRestrictionsByTarget S targetKind targetID))) (\<lambda>rs.
     andThen (if threadID \<noteq> [] then
         wrapping (''load moderation restrictions for '' @ target_text ModerationTargetKindConversation (conv_ID c))
           (on_store (cso_ModerationRestrictionsByTarget S ModerationTargetKindConversation (conv_ID c)))
       else ret []) (\<lambda>fallback.
     let shadowed = shadowed_accounts now (rs @ fallback) in
     andThen (wrapping (''load messages for conversation '' @ conversationID)
       (on_store (cso_MessagesByConversationID S conversationID threadID (lmp_FromSequence p)
         (clampLimit (lmp_Limit p) 100 500)))) (\<lambda>messages.
     ret (List.filter (\<lambda>m. \<not> (\<not> lmp_IncludeDeleted p \<and> msg_DeletedAt m \<noteq> zero_time) \<and>
         \<not> (msg_SenderAccountID m \<in> set shadowed \<and> msg_SenderAccountID m \<noteq> accountID)) messages))))))))))"

definition ListScheduledMessages ::
    "'s conv_service \<Rightarrow> go_context \<Rightarrow> list_scheduled_params \<Rightarrow> ('s conv_world, message list) io" where
  "ListScheduledMessages sv ctx p =
     andThen (conv_validateContext ctx ''list scheduled messages'') (\<lambda>_.
     let S = csv_store sv; conversationID = trim_space (lsp_ConversationID p);
       accountID = trim_space (lsp_AccountID p); threadID = trim_space (lsp_ThreadID p) in
     andThen (reject_if (conversationID = [] \<or> accountID = []) ConvErrInvalidInput) (\<lambda>_.
     andThen (wrapping (''authorize scheduled message list for conversation '' @ conversationID @ '' and account '' @ accountID)
       (on_store (cso_ConversationMemberByConversationAndAccount S conversationID accountID))) (\<lambda>member.
     andThen (reject_if (\<not> isActiveMember member) ConvErrForbidden) (\<lambda>_.
     andThen (if threadID \<noteq> [] then
         andThen (wrapping (''load topic '' @ threadID @ '' in conversation '' @ conversationID)
           (on_store (cso_TopicByConversationAndID S conversationID threadID))) (\<lambda>_. ret ())
       else ret ()) (\<lambda>_.
     wrapping (''load scheduled messages for conversation '' @ conversationID)
       (on_store (cso_ScheduledMessagesByConversationAndSender S conversationID accountID threadID
         (lsp_IncludeFailed p) (clampLimit (lsp_Limit p) 100 500))))))))"

end
