(* ===== verification/ConvActions.thy ===== *)
theory ConvActions
  imports ConvMessages
begin

section \<open>Editing, deleting, pinning and reacting (\<open>actions.go\<close>, \<open>reactions.go\<close>)\<close>

text \<open>
  The operations on a stored message. Each loads the conversation, the actor's membership, the
  message and its topic, checks the rights, writes, appends an event and advances the topic
  and the conversation to the event's sequence number.
\<close>

record action_state =
  ast_conversation :: conversation
  ast_member :: conv_member
  ast_message :: message
  ast_topic :: topic

definition loadMessageActionState ::
    "'s conv_service \<Rightarrow> go_context \<Rightarrow> string \<Rightarrow> string \<Rightarrow> string \<Rightarrow> string \<Rightarrow> ('s conv_world, action_state) io" where
  "loadMessageActionState sv ctx operation conversationID0 messageID0 actorAccountID0 =
     andThen (conv_validateContext ctx operation) (\<lambda>_.
     let S = csv_store sv; conversationID = trim_space conversationID0; messageID = trim_space messageID0;
       actorAccountID = trim_space actorAccountID0 in
     andThen (reject_if (conversationID = [] \<or> messageID = [] \<or> actorAccountID = []) ConvErrInvalidInput) (\<lambda>_.
     andThen (wrapping (''load conversation '' @ conversationID) (on_store (cso_ConversationByID S conversationID))) (\<lambda>c.
     andThen (wrapping (''authorize actor '' @ actorAccountID @ '' for conversation '' @ conv_ID c)
       (on_store (cso_ConversationMemberByConversationAndAccount S (conv_ID c) actorAccountID))) (\<lambda>member.
     andThen (reject_if (\<not> isActiveMember member) ConvErrForbidden) (\<lambda>_.
     andThen (wrapping (''load message '' @ messageID @ '' in conversation '' @ conv_ID c)
       (on_store (cso_MessageByID S (conv_ID c) messageID))) (\<lambda>m.
     let topicID = trim_space (msg_ThreadID m) in
     andThen (wrapping (''load topic '' @ topicID @ '' in conversation '' @ conv_ID c)
       (on_store (cso_TopicByConversationAndID S (conv_ID c) topicID))) (\<lambda>t.
     ret \<lparr>ast_conversation = c, ast_member = member, ast_message = m, ast_topic = t\<rparr>)))))))"

definition finalizeMessageAction ::
    "'s conv_service \<Rightarrow> action_state \<Rightarrow> time \<Rightarrow> conv_event \<Rightarrow> ('s conv_world, unit) io" where
  "finalizeMessageAction sv st now event =
     (let S = csv_store sv; t = ast_topic st; c = ast_conversation st in
      andThen (wrapping (''update topic '' @ top_ID t @ '' after message action'') (on_store (cso_SaveTopic S
        (t\<lparr>top_LastSequence := ev_Sequence event, top_UpdatedAt := now\<rparr>)))) (\<lambda>_.
      andThen (wrapping (''update conversation '' @ conv_ID c @ '' after message action'') (on_store (cso_SaveConversation S
        (c\<lparr>conv_LastSequence := ev_Sequence event, conv_UpdatedAt := now\<rparr>)))) (\<lambda>_.
      ret ())))"

definition canEditMessage :: "conv_member \<Rightarrow> message \<Rightarrow> bool" where
  "canEditMessage member m \<longleftrightarrow> cmem_AccountID member = msg_SenderAccountID m \<or> conv_admin member"

definition canDeleteMessage :: "conv_member \<Rightarrow> message \<Rightarrow> bool" where
  "canDeleteMessage member m \<longleftrightarrow> canEditMessage member m"

definition canPinMessage :: "conv_member \<Rightarrow> mod_policy \<Rightarrow> bool" where
  "canPinMessage member policy \<longleftrightarrow> (if pol_PinnedMessagesOnlyAdmins policy then conv_admin member else True)"

text \<open>The event of an action on a message, saved under the given description.\<close>

definition save_message_event ::
    "'s conv_service \<Rightarrow> string \<Rightarrow> EventType \<Rightarrow> conversation \<Rightarrow> string \<Rightarrow> string \<Rightarrow> string \<Rightarrow> enc_payload \<Rightarrow>
     (string, string) gomap \<Rightarrow> time \<Rightarrow> ('s conv_world, conv_event) io" where
  "save_message_event sv what etype c actor device messageID payload metadata now =
     andThen eventID (\<lambda>eid.
     wrapping what (on_store (cso_SaveEvent (csv_store sv)
       ((event_of eid etype (conv_ID c) actor metadata now)
         \<lparr>ev_ActorDeviceID := device, ev_MessageID := messageID, ev_PayloadType := ''message'',
           ev_Payload := payload\<rparr>))))"

subsection \<open>Editing\<close>

definition edited_message :: "msg_draft \<Rightarrow> time \<Rightarrow> message \<Rightarrow> message" where
  "edited_message d now m =
     (StripMessageHints (m\<lparr>msg_Kind := draft_Kind d, msg_Payload := draft_Payload d,
        msg_Attachments := draft_Attachments d, msg_MentionAccountIDs := draft_MentionAccountIDs d\<rparr>))
      \<lparr>msg_Silent := draft_Silent d, msg_DisableLinkPreviews := draft_DisableLinkPreviews d,
        msg_Metadata := trimMetadata (draft_Metadata d), msg_UpdatedAt := now, msg_EditedAt := now\<rparr>"

definition edit_tx ::
    "'s conv_service \<Rightarrow> go_context \<Rightarrow> edit_message_params \<Rightarrow> time \<Rightarrow> ('s conv_world, message \<times> conv_event) io" where
  "edit_tx sv ctx p now =
     andThen (loadMessageActionState sv ctx ''load message for edit'' (emp_ConversationID p) (emp_MessageID p)
       (emp_ActorAccountID p)) (\<lambda>st.
     let c = ast_conversation st; m = ast_message st; d = emp_Draft p in
     andThen (reject_if (\<not> canEditMessage (ast_member st) m) ConvErrForbidden) (\<lambda>_.
     andThen (reject_if (message_unpublished m) ConvErrConflict) (\<lambda>_.
     andThen (reject_if (message_deleted m) ConvErrConflict) (\<lambda>_.
     andThen (reject_if (ValidateMessagePayload (draft_Payload d)
       (cset_RequireEncryptedMessages (conv_Settings c)) \<noteq> Inr ()) ConvErrInvalidInput) (\<lambda>_.
     andThen (check_mentions sv (conv_ID c) (draft_MentionAccountIDs d)) (\<lambda>_.
     andThen (wrapping (''save edited message '' @ msg_ID m)
       (on_store (cso_SaveMessage (csv_store sv) (edited_message d now m)))) (\<lambda>saved.
     andThen (save_message_event sv ''save edited message event'' EventTypeMessageEdited c (emp_ActorAccountID p)
       (emp_ActorDeviceID p) (msg_ID saved) (draft_Payload d)
       (messageEventMetadata (msg_ID saved) (msg_ThreadID saved) (msg_ReplyTo saved)
         (messageSnapshotMetadata saved [(''action'', ''edit'')])) now) (\<lambda>event.
     andThen (finalizeMessageAction sv st now event) (\<lambda>_.
     ret (saved, event))))))))))"

definition EditMessage ::
    "'s conv_service \<Rightarrow> go_context \<Rightarrow> edit_message_params \<Rightarrow> ('s conv_world, message \<times> conv_event) io" where
  "EditMessage sv ctx p0 =
     andThen (conv_validateContext ctx ''edit message'') (\<lambda>_.
     let p = p0\<lparr>emp_ConversationID := trim_space (emp_ConversationID p0), emp_MessageID := trim_space (emp_MessageID p0),
         emp_ActorAccountID := trim_space (emp_ActorAccountID p0), emp_ActorDeviceID := trim_space (emp_ActorDeviceID p0),
         emp_Draft := normalizeMessageDraft (emp_Draft p0)\<rparr> in
     andThen (reject_if (emp_ConversationID p = [] \<or> emp_MessageID p = [] \<or> emp_ActorAccountID p = []) ConvErrInvalidInput) (\<lambda>_.
     andThen (reject_if (draft_Kind (emp_Draft p) = MessageKindUnspecified) ConvErrInvalidInput) (\<lambda>_.
     andThen (runTx ctx (edit_tx sv ctx p (or_time (emp_EditedAt p) (csv_now sv)))) (\<lambda>(saved, event).
     andThen (deleteMessageIndex sv saved) (\<lambda>_.
     andThen (indexConversationByID sv (msg_ConversationID saved)) (\<lambda>_.
     ret (saved, event)))))))"

subsection \<open>Deleting\<close>

definition deleted_message :: "time \<Rightarrow> message \<Rightarrow> message" where
  "deleted_message now m = m\<lparr>msg_Status := MessageStatusDeleted, msg_Pinned := False, msg_UpdatedAt := now,
     msg_DeletedAt := now\<rparr>"

text \<open>No event is the zero event of the source: it stands for a deletion that published nothing.\<close>

definition delete_tx ::
    "'s conv_service \<Rightarrow> go_context \<Rightarrow> delete_message_params \<Rightarrow> time \<Rightarrow>
     ('s conv_world, message \<times> conv_event option) io" where
  "delete_tx sv ctx p now =
     andThen (loadMessageActionState sv ctx ''load message for delete'' (dmp_ConversationID p) (dmp_MessageID p)
       (dmp_ActorAccountID p)) (\<lambda>st.
     let c = ast_conversation st; m = ast_message st in
     andThen (reject_if (\<not> canDeleteMessage (ast_member st) m) ConvErrForbidden) (\<lambda>_.
     if message_deleted m then ret (m, None)
     else if message_unpublished m then
       andThen (wrapping (''save deleted scheduled message '' @ msg_ID m)
         (on_store (cso_SaveMessage (csv_store sv) (deleted_message now m)))) (\<lambda>saved.
       ret (saved, None))
     else
       andThen (wrapping (''save deleted message '' @ msg_ID m)
         (on_store (cso_SaveMessage (csv_store sv) (deleted_message now m)))) (\<lambda>saved.
       andThen (save_message_event sv ''save deleted message event'' EventTypeMessageDeleted c (dmp_ActorAccountID p)
         (dmp_ActorDeviceID p) (msg_ID saved) no_payload
         (messageEventMetadata (msg_ID saved) (msg_ThreadID saved) (msg_ReplyTo saved) [(''action'', ''delete'')]) now) (\<lambda>event.
       andThen (finalizeMessageAction sv st now event) (\<lambda>_.
       ret (saved, Some event))))))"

definition DeleteMessage ::
    "'s conv_service \<Rightarrow> go_context \<Rightarrow> delete_message_params \<Rightarrow> ('s conv_world, message \<times> conv_event option) io" where
  "DeleteMessage sv ctx p0 =
     andThen (conv_validateContext ctx ''delete message'') (\<lambda>_.
     let p = p0\<lparr>dmp_ConversationID := trim_space (dmp_ConversationID p0), dmp_MessageID := trim_space (dmp_MessageID p0),
         dmp_ActorAccountID := trim_space (dmp_ActorAccountID p0), dmp_ActorDeviceID := trim_space (dmp_ActorDeviceID p0)\<rparr> in
     andThen (reject_if (dmp_ConversationID p = [] \<or> dmp_MessageID p = [] \<or> dmp_ActorAccountID p = []) ConvErrInvalidInput) (\<lambda>_.
     andThen (runTx ctx (delete_tx sv ctx p (or_time (dmp_DeletedAt p) (csv_now sv)))) (\<lambda>(saved, event).
     andThen (indexMessage sv saved) (\<lambda>_.
     andThen (indexConversationByID sv (msg_ConversationID saved)) (\<lambda>_.
     ret (saved, event))))))"

subsection \<open>Pinning\<close>

definition pin_tx ::
    "'s conv_service \<Rightarrow> go_context \<Rightarrow> pin_message_params \<Rightarrow> time \<Rightarrow>
     ('s conv_world, message \<times> conv_event option) io" where
  "pin_tx sv ctx p now =
     andThen (loadMessageActionState sv ctx ''load message for pin'' (pmp_ConversationID p) (pmp_MessageID p)
       (pmp_ActorAccountID p)) (\<lambda>st.
     let c = ast_conversation st; m = ast_message st in
     andThen (policyForConversation sv c (top_ID (ast_topic st))) (\<lambda>policy.
     andThen (reject_if (\<not> canPinMessage (ast_member st) policy) ConvErrForbidden) (\<lambda>_.
     andThen (reject_if (message_unpublished m) ConvErrConflict) (\<lambda>_.
     andThen (reject_if (message_deleted m) ConvErrConflict) (\<lambda>_.
     if msg_Pinned m = pmp_Pinned p then ret (m, None)
     else
       andThen (wrapping (''save pinned message '' @ msg_ID m) (on_store (cso_SaveMessage (csv_store sv)
         (m\<lparr>msg_Pinned := pmp_Pinned p, msg_UpdatedAt := now\<rparr>)))) (\<lambda>saved.
       andThen (save_message_event sv ''save pinned message event'' EventTypeMessagePinned c (pmp_ActorAccountID p)
         (pmp_ActorDeviceID p) (msg_ID saved) no_payload
         (messageEventMetadata (msg_ID saved) (msg_ThreadID saved) (msg_ReplyTo saved)
           [(''action'', ''pin''), (''pinned'', format_bool (pmp_Pinned p))]) now) (\<lambda>event.
       andThen (finalizeMessageAction sv st now event) (\<lambda>_.
       ret (saved, Some event)))))))))"

definition PinMessage ::
    "'s conv_service \<Rightarrow> go_context \<Rightarrow> pin_message_params \<Rightarrow> ('s conv_world, message \<times> conv_event option) io" where
  "PinMessage sv ctx p0 =
     andThen (conv_validateContext ctx ''pin message'') (\<lambda>_.
     let p = p0\<lparr>pmp_ConversationID := trim_space (pmp_ConversationID p0), pmp_MessageID := trim_space (pmp_MessageID p0),
         pmp_ActorAccountID := trim_space (pmp_ActorAccountID p0), pmp_ActorDeviceID := trim_space (pmp_ActorDeviceID p0)\<rparr> in
     andThen (reject_if (pmp_ConversationID p = [] \<or> pmp_MessageID p = [] \<or> pmp_ActorAccountID p = []) ConvErrInvalidInput) (\<lambda>_.
     runTx ctx (pin_tx sv ctx p (or_time (pmp_UpdatedAt p) (csv_now sv)))))"

subsection \<open>Reactions\<close>

definition findMessageReaction :: "msg_reaction list \<Rightarrow> string \<Rightarrow> msg_reaction option" where
  "findMessageReaction reactions accountID = List.find (\<lambda>r. mreac_AccountID r = accountID) reactions"

text \<open>What adding and removing a reaction check before they look at the reactions.\<close>

definition reaction_guard ::
    "'s conv_service \<Rightarrow> go_context \<Rightarrow> action_state \<Rightarrow> string \<Rightarrow> time \<Rightarrow> ('s conv_world, unit) io" where
  "reaction_guard sv ctx st actorAccountID now =
     (let c = ast_conversation st; m = ast_message st; topicID = top_ID (ast_topic st) in
      andThen (policyForConversation sv c topicID) (\<lambda>policy.
      andThen (reject_if (\<not> pol_AllowReactions policy) ConvErrForbidden) (\<lambda>_.
      let checkPolicy = policy\<lparr>pol_SlowModeInterval := 0, pol_AntiSpamWindow := 0, pol_AntiSpamBurstLimit := 0\<rparr>;
        (targetKind, targetID) = moderationTarget c topicID in
      andThen (checkModerationWrite sv ctx \<lparr>cwp_TargetKind = targetKind, cwp_TargetID = targetID,
        cwp_ActorAccountID = actorAccountID, cwp_ActorRole = cmem_Role (ast_member st), cwp_BasePolicy = checkPolicy,
        cwp_CreatedAt = now\<rparr>) (\<lambda>verdict.
      andThen (verdict_ok verdict) (\<lambda>decision.
      andThen (reject_if (\<not> dec_Allowed decision) ConvErrForbidden) (\<lambda>_.
      andThen (reject_if (message_unpublished m) ConvErrConflict) (\<lambda>_.
      reject_if (message_deleted m) ConvErrConflict)))))))"

text \<open>The event of a changed reaction, the topic and conversation after it, and the message anew.\<close>

definition finish_reaction ::
    "'s conv_service \<Rightarrow> action_state \<Rightarrow> string \<Rightarrow> EventType \<Rightarrow> string \<Rightarrow> string \<Rightarrow> string \<Rightarrow> time \<Rightarrow>
     ('s conv_world, message \<times> conv_event) io" where
  "finish_reaction sv st what etype actor device reaction now =
     (let c = ast_conversation st; m = ast_message st in
      andThen (save_message_event sv what etype c actor device (msg_ID m) no_payload
        (messageEventMetadata (msg_ID m) (msg_ThreadID m) (msg_ReplyTo m)
          [(''action'', ''reaction''), (''reaction'', reaction)]) now) (\<lambda>event.
      andThen (finalizeMessageAction sv st now event) (\<lambda>_.
      andThen (wrapping (''reload reacted message '' @ msg_ID m)
        (on_store (cso_MessageByID (csv_store sv) (conv_ID c) (msg_ID m)))) (\<lambda>reloaded.
      ret (reloaded, event)))))"

definition add_reaction_tx ::
    "'s conv_service \<Rightarrow> go_context \<Rightarrow> add_reaction_params \<Rightarrow> time \<Rightarrow>
     ('s conv_world, message \<times> conv_event option) io" where
  "add_reaction_tx sv ctx p now =
     andThen (loadMessageActionState sv ctx ''load message for reaction'' (arp_ConversationID p) (arp_MessageID p)
       (arp_ActorAccountID p)) (\<lambda>st.
     let m = ast_message st; actor = arp_ActorAccountID p in
     andThen (reaction_guard sv ctx st actor now) (\<lambda>_.
     let existing = findMessageReaction (msg_Reactions m) actor in
     if (case existing of Some r \<Rightarrow> mreac_Reaction r = arp_Reaction p | None \<Rightarrow> False) then ret (m, None)
     else
       andThen (wrapping (''save message reaction '' @ msg_ID m @ ''/'' @ actor)
         (on_store (cso_SaveMessageReaction (csv_store sv) \<lparr>mreac_MessageID = msg_ID m, mreac_AccountID = actor,
           mreac_Reaction = arp_Reaction p,
           mreac_CreatedAt = (case existing of Some r \<Rightarrow> mreac_CreatedAt r | None \<Rightarrow> now),
           mreac_UpdatedAt = now\<rparr>))) (\<lambda>saved.
       andThen (finish_reaction sv st ''save message reaction event''
         (if existing = None then EventTypeMessageReactionAdded else EventTypeMessageReactionUpdated)
         actor (arp_ActorDeviceID p) (mreac_Reaction saved) now) (\<lambda>(reloaded, event).
       ret (reloaded, Some event)))))"

definition AddMessageReaction ::
    "'s conv_service \<Rightarrow> go_context \<Rightarrow> add_reaction_params \<Rightarrow> ('s conv_world, message \<times> conv_event option) io" where
  "AddMessageReaction sv ctx p0 =
     andThen (conv_validateContext ctx ''add message reaction'') (\<lambda>_.
     let p = p0\<lparr>arp_ConversationID := trim_space (arp_ConversationID p0), arp_MessageID := trim_space (arp_MessageID p0),
         arp_ActorAccountID := trim_space (arp_ActorAccountID p0), arp_ActorDeviceID := trim_space (arp_ActorDeviceID p0),
         arp_Reaction := trim_space (arp_Reaction p0)\<rparr> in
     andThen (reject_if (arp_ConversationID p = [] \<or> arp_MessageID p = [] \<or> arp_ActorAccountID p = [] \<or>
       arp_Reaction p = []) ConvErrInvalidInput) (\<lambda>_.
     andThen (runTx ctx (add_reaction_tx sv ctx p (or_time (arp_CreatedAt p) (csv_now sv)))) (\<lambda>(saved, event).
     andThen (indexMessage sv saved) (\<lambda>_.
     andThen (indexConversationByID sv (msg_ConversationID saved)) (\<lambda>_.
     ret (saved, event))))))"

definition remove_reaction_tx ::
    "'s conv_service \<Rightarrow> go_context \<Rightarrow> remove_reaction_params \<Rightarrow> time \<Rightarrow>
     ('s conv_world, message \<times> conv_event option) io" where
  "remove_reaction_tx sv ctx p now =
     andThen (loadMessageActionState sv ctx ''load message for reaction removal'' (rrp_ConversationID p)
       (rrp_MessageID p) (rrp_ActorAccountID p)) (\<lambda>st.
     let m = ast_message st; actor = rrp_ActorAccountID p in
     andThen (reaction_guard sv ctx st actor now) (\<lambda>_.
     case findMessageReaction (msg_Reactions m) actor of
       None \<Rightarrow> ret (m, None)
     | Some existing \<Rightarrow>
       andThen (reject_if (rrp_Reaction p \<noteq> [] \<and> mreac_Reaction existing \<noteq> rrp_Reaction p) ConvErrConflict) (\<lambda>_.
       andThen (wrapping (''delete message reaction '' @ msg_ID m @ ''/'' @ actor)
         (on_store (cso_DeleteMessageReaction (csv_store sv) (msg_ID m) actor))) (\<lambda>_.
       andThen (finish_reaction sv st ''save message reaction removal event'' EventTypeMessageReactionRemoved
         actor (rrp_ActorDeviceID p) (mreac_Reaction existing) now) (\<lambda>(reloaded, event).
       ret (reloaded, Some event))))))"

definition RemoveMessageReaction ::
    "'s conv_service \<Rightarrow> go_context \<Rightarrow> remove_reaction_params \<Rightarrow> ('s conv_world, message \<times> conv_event option) io" where
  "RemoveMessageReaction sv ctx p0 =
     andThen (conv_validateContext ctx ''remove message reaction'') (\<lambda>_.
     let p = p0\<lparr>rrp_ConversationID := trim_space (rrp_ConversationID p0), rrp_MessageID := trim_space (rrp_MessageID p0),
         rrp_ActorAccountID := trim_space (rrp_ActorAccountID p0), rrp_ActorDeviceID := trim_space (rrp_ActorDeviceID p0),
         rrp_Reaction := trim_space (rrp_Reaction p0)\<rparr> in
     andThen (reject_if (rrp_ConversationID p = [] \<or> rrp_MessageID p = [] \<or> rrp_ActorAccountID p = []) ConvErrInvalidInput) (\<lambda>_.
     andThen (runTx ctx (remove_reaction_tx sv ctx p (or_time (rrp_RemovedAt p) (csv_now sv)))) (\<lambda>(saved, event).
     andThen (indexMessage sv saved) (\<lambda>_.
     andThen (indexConversationByID sv (msg_ConversationID saved)) (\<lambda>_.
     ret (saved, event))))))"

end
