(* ===== verification/ConvSync.thy ===== *)
theory ConvSync
  imports ConvMessages
begin

section \<open>Synchronisation of devices (\<open>sync.go\<close>, \<open>user_events.go\<close>)\<close>

text \<open>
  The delivery and read marks of a device, its cursors over the event log, and the events that
  tell an account's conversations of a change of its profile.
\<close>

subsection \<open>Marks\<close>

text \<open>The read state of the device, or a new one; its account and device are the caller's.\<close>

definition device_read_state ::
    "'s conv_service \<Rightarrow> string \<Rightarrow> string \<Rightarrow> string \<Rightarrow> ('s conv_world, read_state) io" where
  "device_read_state sv conversationID accountID deviceID =
     andThen (or_zero (\<lambda>e. error_is e ConvErrNotFound) ''load read state'' zero_read_state
       (on_store (cso_ReadStateByConversationAndDevice (csv_store sv) conversationID deviceID))) (\<lambda>r.
     let r' = (if rst_ConversationID r = [] then zero_read_state\<lparr>rst_ConversationID := conversationID,
           rst_AccountID := accountID, rst_DeviceID := deviceID\<rparr> else r) in
     ret (r'\<lparr>rst_AccountID := accountID, rst_DeviceID := deviceID\<rparr>))"

definition RecordDelivery ::
    "'s conv_service \<Rightarrow> go_context \<Rightarrow> record_delivery_params \<Rightarrow> ('s conv_world, read_state \<times> conv_event) io" where
  "RecordDelivery sv ctx p =
     andThen (conv_validateContext ctx ''record delivery'') (\<lambda>_.
     let S = csv_store sv; conversationID = trim_space (rcd_ConversationID p); accountID = trim_space (rcd_AccountID p);
       deviceID = trim_space (rcd_DeviceID p); messageID = trim_space (rcd_MessageID p) in
     andThen (reject_if (conversationID = [] \<or> accountID = [] \<or> deviceID = [] \<or> messageID = []) ConvErrInvalidInput) (\<lambda>_.
     let now = or_time (rcd_CreatedAt p) (csv_now sv) in
     runTx ctx
       (andThen (wrapping (''authorize device delivery for account '' @ accountID @ '' in conversation '' @ conversationID)
          (on_store (cso_ConversationMemberByConversationAndAccount S conversationID accountID))) (\<lambda>member.
        andThen (reject_if (\<not> isActiveMember member) ConvErrForbidden) (\<lambda>_.
        andThen (device_read_state sv conversationID accountID deviceID) (\<lambda>r.
        andThen (wrapping ''save delivery state'' (on_store (cso_SaveReadState S
          (r\<lparr>rst_LastDeliveredSequence := maxUint64 [rst_LastDeliveredSequence r, rcd_DeliveredThroughSequence p],
             rst_UpdatedAt := now\<rparr>)))) (\<lambda>saved.
        andThen eventID (\<lambda>eid.
        andThen (wrapping ''save delivery event'' (on_store (cso_SaveEvent S
          ((event_of eid EventTypeMessageDelivered conversationID accountID [(''message_id'', messageID)] now)
            \<lparr>ev_ActorDeviceID := deviceID, ev_CausationID := rcd_CausationID p, ev_CorrelationID := rcd_CorrelationID p,
              ev_MessageID := messageID, ev_PayloadType := ''delivery'',
              ev_ReadThroughSequence := rcd_DeliveredThroughSequence p\<rparr>)))) (\<lambda>event.
        andThen (wrapping ''save sync state after delivery'' (on_store (cso_SaveSyncState S
          (device_sync deviceID accountID (ev_Sequence event) (rst_LastAckedSequence saved) now)))) (\<lambda>_.
        ret (saved, event)))))))))))"

definition MarkRead ::
    "'s conv_service \<Rightarrow> go_context \<Rightarrow> mark_read_params \<Rightarrow> ('s conv_world, read_state \<times> conv_event) io" where
  "MarkRead sv ctx p =
     andThen (conv_validateContext ctx ''mark read'') (\<lambda>_.
     let S = csv_store sv; conversationID = trim_space (mrp_ConversationID p); accountID = trim_space (mrp_AccountID p);
       deviceID = trim_space (mrp_DeviceID p); through = mrp_ReadThroughSequence p in
     andThen (reject_if (conversationID = [] \<or> accountID = [] \<or> deviceID = []) ConvErrInvalidInput) (\<lambda>_.
     let now = or_time (mrp_CreatedAt p) (csv_now sv) in
     runTx ctx
       (andThen (wrapping (''authorize read for account '' @ accountID @ '' in conversation '' @ conversationID)
          (on_store (cso_ConversationMemberByConversationAndAccount S conversationID accountID))) (\<lambda>member.
        andThen (reject_if (\<not> isActiveMember member) ConvErrForbidden) (\<lambda>_.
        andThen (device_read_state sv conversationID accountID deviceID) (\<lambda>r.
        andThen (wrapping ''save read state'' (on_store (cso_SaveReadState S
          (r\<lparr>rst_LastDeliveredSequence := maxUint64 [rst_LastDeliveredSequence r, through],
             rst_LastReadSequence := maxUint64 [rst_LastReadSequence r, through], rst_UpdatedAt := now\<rparr>)))) (\<lambda>saved.
        andThen eventID (\<lambda>eid.
        andThen (wrapping ''save read event'' (on_store (cso_SaveEvent S
          ((event_of eid EventTypeMessageRead conversationID accountID [] now)
            \<lparr>ev_ActorDeviceID := deviceID, ev_CausationID := mrp_CausationID p, ev_CorrelationID := mrp_CorrelationID p,
              ev_PayloadType := ''read'', ev_ReadThroughSequence := through\<rparr>)))) (\<lambda>event.
        andThen (wrapping ''save sync state after read'' (on_store (cso_SaveSyncState S
          (device_sync deviceID accountID (ev_Sequence event) (maxUint64 [rst_LastAckedSequence saved, through]) now)))) (\<lambda>_.
        ret (saved, event)))))))))))"

subsection \<open>Cursors\<close>

definition zero_sync_state :: sync_state where
  "zero_sync_state = \<lparr>syn_DeviceID = [], syn_AccountID = [], syn_LastAppliedSequence = 0,
     syn_LastAckedSequence = 0, syn_ServerTime = zero_time, syn_ConversationWatermarks = []\<rparr>"

text \<open>The watermark of each conversation with a read state of the device; the last one visited counts.\<close>

definition derived_watermarks :: "read_state list \<Rightarrow> (string, uint64) gomap" where
  "derived_watermarks rs = fold (\<lambda>r. put (rst_ConversationID r)
     (maxUint64 [rst_LastDeliveredSequence r, rst_LastReadSequence r, rst_LastAckedSequence r])) rs []"

definition raise_watermarks :: "(string, uint64) gomap \<Rightarrow> (string, uint64) gomap \<Rightarrow> (string, uint64) gomap" where
  "raise_watermarks derived watermarks = fold (\<lambda>(conversationID, mark) ws.
     case lookup ws conversationID of
       None \<Rightarrow> put conversationID mark ws
     | Some existing \<Rightarrow> if existing < mark then put conversationID mark ws else ws) derived watermarks"

definition first_nonempty :: "string list \<Rightarrow> string" where
  "first_nonempty xs = (case List.filter (\<lambda>x. x \<noteq> []) xs of [] \<Rightarrow> [] | x # _ \<Rightarrow> x)"

definition resolved_sync_state :: "sync_state \<Rightarrow> read_state list \<Rightarrow> string \<Rightarrow> string \<Rightarrow> time \<Rightarrow> sync_state" where
  "resolved_sync_state state readStates deviceID accountID now = state\<lparr>
     syn_DeviceID := (if syn_DeviceID state = [] then deviceID else syn_DeviceID state),
     syn_AccountID := first_nonempty [syn_AccountID state,
       (case readStates of [] \<Rightarrow> [] | r # _ \<Rightarrow> rst_AccountID r), accountID],
     syn_ConversationWatermarks := raise_watermarks (derived_watermarks readStates) (syn_ConversationWatermarks state),
     syn_ServerTime := or_time (syn_ServerTime state) now\<rparr>"

definition watermark_of :: "sync_state \<Rightarrow> string \<Rightarrow> uint64" where
  "watermark_of state conversationID = (case lookup (syn_ConversationWatermarks state) conversationID of
     None \<Rightarrow> 0 | Some w \<Rightarrow> w)"

definition GetSyncState ::
    "'s conv_service \<Rightarrow> go_context \<Rightarrow> get_sync_state_params \<Rightarrow> ('s conv_world, sync_state \<times> string list) io" where
  "GetSyncState sv ctx p =
     andThen (conv_validateContext ctx ''get sync state'') (\<lambda>_.
     let S = csv_store sv; deviceID = trim_space (gsp_DeviceID p); accountID = trim_space (gsp_AccountID p) in
     andThen (reject_if (deviceID = []) ConvErrInvalidInput) (\<lambda>_.
     andThen (or_zero (\<lambda>e. error_is e ConvErrNotFound) (''load sync state for device '' @ deviceID) zero_sync_state
       (on_store (cso_SyncStateByDevice S deviceID))) (\<lambda>state0.
     andThen (wrapping (''load read states for device '' @ deviceID)
       (on_store (cso_ReadStatesByDevice S deviceID))) (\<lambda>readStates.
     let state = resolved_sync_state state0 readStates deviceID accountID (csv_now sv) in
     if syn_AccountID state = [] then ret (state, [])
     else andThen (wrapping (''load conversations for sync state '' @ deviceID)
         (on_store (cso_ConversationsByAccountID S (syn_AccountID state)))) (\<lambda>conversations.
       ret (state, List.map conv_ID (List.filter
         (\<lambda>c. watermark_of state (conv_ID c) < conv_LastSequence c) conversations)))))))"

definition PullEvents ::
    "'s conv_service \<Rightarrow> go_context \<Rightarrow> pull_events_params \<Rightarrow> ('s conv_world, conv_event list \<times> sync_state) io" where
  "PullEvents sv ctx p =
     andThen (conv_validateContext ctx ''pull events'') (\<lambda>_.
     let S = csv_store sv; deviceID = trim_space (pep_DeviceID p); accountID = trim_space (pep_AccountID p);
       conversationIDs = uniqueIDs (pep_ConversationIDs p) in
     andThen (reject_if (deviceID = []) ConvErrInvalidInput) (\<lambda>_.
     andThen (wrapping (''load events after '' @ format_uint (pep_FromSequence p))
       (on_store (cso_EventsAfterSequence S (pep_FromSequence p) (clampLimit (pep_Limit p) 100 1000) conversationIDs))) (\<lambda>events.
     andThen (GetSyncState sv ctx \<lparr>gsp_AccountID = accountID, gsp_DeviceID = deviceID\<rparr>) (\<lambda>(state, _).
     if events = [] then ret (events, state)
     else
       let state' = state\<lparr>syn_LastAppliedSequence := ev_Sequence (last events), syn_ServerTime := csv_now sv\<rparr> in
       andThen (wrapping ''advance sync state'' (on_store (cso_SaveSyncState S state'))) (\<lambda>_.
       ret (events, state'))))))"

definition AcknowledgeEvents ::
    "'s conv_service \<Rightarrow> go_context \<Rightarrow> ack_events_params \<Rightarrow> ('s conv_world, sync_state) io" where
  "AcknowledgeEvents sv ctx p =
     andThen (conv_validateContext ctx ''acknowledge events'') (\<lambda>_.
     let S = csv_store sv; deviceID = trim_space (aep_DeviceID p); accountID = trim_space (aep_AccountID p) in
     andThen (reject_if (deviceID = []) ConvErrInvalidInput) (\<lambda>_.
     andThen (GetSyncState sv ctx \<lparr>gsp_AccountID = accountID, gsp_DeviceID = deviceID\<rparr>) (\<lambda>(state, _).
     let state' = state\<lparr>syn_LastAckedSequence := maxUint64 [syn_LastAckedSequence state, aep_AckedSequence p],
         syn_ServerTime := csv_now sv\<rparr> in
     andThen (wrapping ''save acknowledged sync state'' (on_store (cso_SaveSyncState S state'))) (\<lambda>_.
     ret state'))))"

subsection \<open>Profile updates\<close>

definition PublishUserUpdate ::
    "'s conv_service \<Rightarrow> go_context \<Rightarrow> publish_user_update_params \<Rightarrow> ('s conv_world, conv_event list) io" where
  "PublishUserUpdate sv ctx p =
     andThen (conv_validateContext ctx ''publish user update'') (\<lambda>_.
     let S = csv_store sv; accountID = trim_space (pup_AccountID p); deviceID = trim_space (pup_DeviceID p);
       payloadType = trim_space (pup_PayloadType p); extra = trimMetadata (pup_Metadata p) in
     andThen (reject_if (accountID = [] \<or> payloadType = []) ConvErrInvalidInput) (\<lambda>_.
     let now = or_time (pup_CreatedAt p) (csv_now sv) in
     runTx ctx
       (andThen (wrapping (''load conversations for account '' @ accountID)
          (on_store (cso_ConversationsByAccountID S accountID))) (\<lambda>conversations.
        for_each (\<lambda>c.
          andThen eventID (\<lambda>eid.
          wrapping (''save user update event for account '' @ accountID @ '' in conversation '' @ conv_ID c)
            (on_store (cso_SaveEvent S
              ((event_of eid EventTypeUserUpdated (conv_ID c) accountID
                  (fold (\<lambda>(key, value). put key value) extra [(''user_id'', accountID)]) now)
                \<lparr>ev_ActorDeviceID := deviceID, ev_PayloadType := payloadType\<rparr>))))) conversations))))"

end
