(* ===== verification/ConvMembers.thy ===== *)
theory ConvMembers
  imports ConvPolicy
begin

section \<open>Conversations, members and invites (\<open>service.go\<close>, \<open>conversation.go\<close>, \<open>members.go\<close>, \<open>invites.go\<close>, \<open>counters.go\<close>, \<open>settings.go\<close>)\<close>

text \<open>
  Creating, reading and updating conversations, and the membership operations with their role
  checks. The operations run in a transaction, append an event and then refresh the search
  document of the conversation.
\<close>

subsection \<open>Settings\<close>

definition DefaultConversationSettings :: conv_settings where
  "DefaultConversationSettings = \<lparr>cset_OnlyAdminsCanWrite = False, cset_OnlyAdminsCanAddMembers = False,
     cset_AllowReactions = True, cset_AllowForwards = True, cset_AllowThreads = True,
     cset_RequireEncryptedMessages = False, cset_RequireTrustedDevices = False,
     cset_RequireJoinApproval = False, cset_PinnedMessagesOnlyAdmins = False, cset_SlowModeInterval = 0\<rparr>"

definition zero_settings :: conv_settings where
  "zero_settings = \<lparr>cset_OnlyAdminsCanWrite = False, cset_OnlyAdminsCanAddMembers = False,
     cset_AllowReactions = False, cset_AllowForwards = False, cset_AllowThreads = False,
     cset_RequireEncryptedMessages = False, cset_RequireTrustedDevices = False,
     cset_RequireJoinApproval = False, cset_PinnedMessagesOnlyAdmins = False, cset_SlowModeInterval = 0\<rparr>"

definition normalizeConversationSettings :: "conv_settings \<Rightarrow> conv_settings" where
  "normalizeConversationSettings settings =
     (if settings = zero_settings then DefaultConversationSettings
      else let s1 = (if cset_SlowModeInterval settings < 0 then settings\<lparr>cset_SlowModeInterval := 0\<rparr> else settings) in
        if cset_RequireTrustedDevices s1 then s1\<lparr>cset_RequireEncryptedMessages := True\<rparr> else s1)"

subsection \<open>Roles\<close>

definition normalizeMemberRole :: "MemberRole \<Rightarrow> MemberRole" where
  "normalizeMemberRole role =
     (let r = to_lower (trim_space role) in
      if r \<in> {MemberRoleOwner, MemberRoleAdmin, MemberRoleMember, MemberRoleGuest} then r
      else MemberRoleUnspecified)"

definition canModerateRole :: "MemberRole \<Rightarrow> bool" where
  "canModerateRole role \<longleftrightarrow> role = MemberRoleOwner \<or> role = MemberRoleAdmin"

definition canAddMembers :: "conv_member \<Rightarrow> string \<Rightarrow> mod_policy \<Rightarrow> MemberRole \<Rightarrow> bool" where
  "canAddMembers actor actorAccountID policy targetRole =
     (if cmem_AccountID actor \<noteq> actorAccountID \<or> \<not> isActiveMember actor then False
      else if pol_OnlyAdminsCanAddMembers policy \<and> \<not> canModerateRole (cmem_Role actor) then False
      else if targetRole = MemberRoleAdmin then canModerateRole (cmem_Role actor)
      else True)"

definition canRemoveMember :: "conv_member \<Rightarrow> conv_member \<Rightarrow> string \<Rightarrow> string \<Rightarrow> bool" where
  "canRemoveMember actor target actorAccountID ownerAccountID =
     (if cmem_AccountID actor \<noteq> actorAccountID \<or> \<not> isActiveMember actor \<or> \<not> isActiveMember target then False
      else if cmem_AccountID target = ownerAccountID then False
      else if cmem_AccountID target = actorAccountID then cmem_Role actor \<noteq> MemberRoleOwner
      else if cmem_Role actor = MemberRoleOwner then True
      else if cmem_Role actor \<noteq> MemberRoleAdmin then False
      else cmem_Role target \<noteq> MemberRoleOwner \<and> cmem_Role target \<noteq> MemberRoleAdmin)"

definition canUpdateMemberRole :: "conv_member \<Rightarrow> conv_member \<Rightarrow> string \<Rightarrow> MemberRole \<Rightarrow> bool" where
  "canUpdateMemberRole actor target actorAccountID role =
     (if cmem_AccountID actor \<noteq> actorAccountID \<or> \<not> isActiveMember actor \<or> \<not> isActiveMember target then False
      else if cmem_Role actor = MemberRoleOwner then cmem_Role target \<noteq> MemberRoleOwner \<and> role \<noteq> MemberRoleOwner
      else if cmem_Role actor = MemberRoleAdmin then
        \<not> (cmem_Role target = MemberRoleOwner \<or> cmem_Role target = MemberRoleAdmin \<or>
           role = MemberRoleAdmin \<or> role = MemberRoleOwner)
      else False)"

definition canManageConversation :: "conv_member \<Rightarrow> string \<Rightarrow> ConversationKind \<Rightarrow> bool" where
  "canManageConversation member actorAccountID kind =
     (if cmem_AccountID member \<noteq> actorAccountID \<or> \<not> isActiveMember member then False
      else if kind = ConversationKindDirect \<or> kind = ConversationKindSavedMessages
        then cmem_Role member = MemberRoleOwner
      else cmem_Role member = MemberRoleOwner \<or> cmem_Role member = MemberRoleAdmin)"

text \<open>Direct conversations and saved messages have a fixed membership.\<close>

definition fixed_membership :: "conversation \<Rightarrow> bool" where
  "fixed_membership c \<longleftrightarrow> conv_Kind c = ConversationKindDirect \<or> conv_Kind c = ConversationKindSavedMessages"

subsection \<open>Creating a conversation\<close>

definition generalTopicTitle :: string where
  "generalTopicTitle = ''General''"

definition new_member :: "string \<Rightarrow> string \<Rightarrow> MemberRole \<Rightarrow> time \<Rightarrow> conv_member" where
  "new_member conversationID accountID role joinedAt = \<lparr>cmem_ConversationID = conversationID,
     cmem_AccountID = accountID, cmem_Role = role, cmem_InvitedByAccountID = [], cmem_Muted = False,
     cmem_Banned = False, cmem_JoinedAt = joinedAt, cmem_LeftAt = zero_time\<rparr>"

definition new_topic :: "string \<Rightarrow> string \<Rightarrow> string \<Rightarrow> string \<Rightarrow> string \<Rightarrow> bool \<Rightarrow> time \<Rightarrow> topic" where
  "new_topic conversationID i rootMessageID title createdBy general now = \<lparr>top_ConversationID = conversationID,
     top_ID = i, top_RootMessageID = rootMessageID, top_Title = title, top_CreatedByAccountID = createdBy,
     top_IsGeneral = general, top_Archived = False, top_Pinned = False, top_Closed = False,
     top_LastSequence = 0, top_MessageCount = 0, top_CreatedAt = now, top_UpdatedAt = now,
     top_LastMessageAt = zero_time, top_ArchivedAt = zero_time, top_ClosedAt = zero_time\<rparr>"

definition new_conversation :: "create_conversation_params \<Rightarrow> string \<Rightarrow> time \<Rightarrow> conversation" where
  "new_conversation p i createdAt = \<lparr>conv_ID = i, conv_Kind = ccp_Kind p, conv_Title = ccp_Title p,
     conv_Description = ccp_Description p, conv_AvatarMediaID = ccp_AvatarMediaID p,
     conv_OwnerAccountID = ccp_OwnerAccountID p, conv_Settings = ccp_Settings p, conv_Archived = False,
     conv_Muted = False, conv_Pinned = False, conv_Hidden = False, conv_LastSequence = 0,
     conv_UnreadCount = 0, conv_UnreadMentionCount = 0, conv_CreatedAt = createdAt,
     conv_UpdatedAt = createdAt, conv_LastMessageAt = zero_time\<rparr>"

definition normalize_create :: "create_conversation_params \<Rightarrow> create_conversation_params" where
  "normalize_create p = p\<lparr>ccp_OwnerAccountID := trim_space (ccp_OwnerAccountID p),
     ccp_Title := trim_space (ccp_Title p),
     ccp_Description := trim_space (ccp_Description p),
     ccp_AvatarMediaID := trim_space (ccp_AvatarMediaID p),
     ccp_MemberAccountIDs := uniqueIDs (ccp_MemberAccountIDs p),
     ccp_Settings := normalizeConversationSettings (ccp_Settings p)\<rparr>"

text \<open>The numbers of members that the kinds with a fixed membership have besides the owner.\<close>

definition wrong_member_number :: "ConversationKind \<Rightarrow> string list \<Rightarrow> bool" where
  "wrong_member_number kind memberIDs =
     (if kind = ConversationKindSavedMessages then length memberIDs \<noteq> 0
      else if kind = ConversationKindDirect then length memberIDs \<noteq> 1
      else False)"

definition create_tx ::
    "'s conv_service \<Rightarrow> create_conversation_params \<Rightarrow> string list \<Rightarrow> string \<Rightarrow> time \<Rightarrow>
     ('s conv_world, conversation \<times> conv_member list) io" where
  "create_tx sv p memberIDs conversationID createdAt =
     (let S = csv_store sv in
      andThen (wrapping ''save conversation''
        (on_store (cso_SaveConversation S (new_conversation p conversationID createdAt)))) (\<lambda>c.
      andThen (wrapping ''save owner membership''
        (on_store (cso_SaveConversationMember S (new_member (conv_ID c) (ccp_OwnerAccountID p) MemberRoleOwner createdAt)))) (\<lambda>owner.
      andThen (wrapping ''save general topic''
        (on_store (cso_SaveTopic S (new_topic (conv_ID c) [] [] generalTopicTitle (ccp_OwnerAccountID p) True createdAt)))) (\<lambda>_.
      andThen (for_each (\<lambda>memberID. wrapping (''save member '' @ memberID)
        (on_store (cso_SaveConversationMember S (new_member (conv_ID c) memberID MemberRoleMember createdAt)))) memberIDs) (\<lambda>members.
      andThen eventID (\<lambda>eid.
      andThen (wrapping ''save conversation event'' (on_store (cso_SaveEvent S
        (event_of eid EventTypeConversationCreated (conv_ID c) (ccp_OwnerAccountID p)
          [(''kind'', ccp_Kind p), (''title'', ccp_Title p)] createdAt)))) (\<lambda>event.
      andThen (wrapping ''update conversation sequence'' (on_store (cso_SaveConversation S
        (c\<lparr>conv_LastSequence := ev_Sequence event, conv_LastMessageAt := createdAt, conv_UpdatedAt := createdAt\<rparr>)))) (\<lambda>saved.
      ret (saved, owner # members)))))))))"

definition CreateConversation ::
    "'s conv_service \<Rightarrow> go_context \<Rightarrow> create_conversation_params \<Rightarrow>
     ('s conv_world, conversation \<times> conv_member list) io" where
  "CreateConversation sv ctx p0 =
     andThen (conv_validateContext ctx ''create conversation'') (\<lambda>_.
     let p = normalize_create p0 in
     andThen (reject_if (ccp_OwnerAccountID p = []) ConvErrInvalidInput) (\<lambda>_.
     andThen (reject_if (ccp_Kind p = ConversationKindUnspecified) ConvErrInvalidInput) (\<lambda>_.
     andThen (of_result (ensureMemberIDs (ccp_OwnerAccountID p) (ccp_MemberAccountIDs p))) (\<lambda>memberIDs.
     andThen (reject_if (wrong_member_number (ccp_Kind p) memberIDs) ConvErrConflict) (\<lambda>_.
     let createdAt = or_time (ccp_CreatedAt p) (csv_now sv) in
     andThen (wrapping ''generate conversation id'' (conv_newID ''conv'')) (\<lambda>conversationID.
     andThen (runTx ctx (create_tx sv p memberIDs conversationID createdAt)) (\<lambda>(saved, members).
     andThen (indexConversation sv saved members) (\<lambda>_.
     ret (saved, members)))))))))"

subsection \<open>Reading conversations\<close>

definition decorate :: "(string, conv_counters) gomap \<Rightarrow> conversation \<Rightarrow> conversation" where
  "decorate counters c = (case lookup counters (conv_ID c) of
       None \<Rightarrow> c
     | Some k \<Rightarrow> c\<lparr>conv_UnreadCount := ctr_UnreadCount k, conv_UnreadMentionCount := ctr_UnreadMentionCount k\<rparr>)"

definition decorateConversationCounters ::
    "'s conv_service \<Rightarrow> string \<Rightarrow> conversation list \<Rightarrow> ('s conv_world, conversation list) io" where
  "decorateConversationCounters sv accountID0 conversations =
     (let accountID = trim_space accountID0 in
      if accountID = [] \<or> conversations = [] then ret conversations
      else andThen (wrapping (''load conversation counters for account '' @ accountID)
          (on_store (cso_ConversationCountersByAccount (csv_store sv) accountID (List.map conv_ID conversations)))) (\<lambda>counters.
        ret (List.map (decorate counters) conversations)))"

definition GetConversation ::
    "'s conv_service \<Rightarrow> go_context \<Rightarrow> get_conversation_params \<Rightarrow>
     ('s conv_world, conversation \<times> conv_member list) io" where
  "GetConversation sv ctx p =
     andThen (conv_validateContext ctx ''get conversation'') (\<lambda>_.
     let conversationID = trim_space (gcp_ConversationID p); accountID = trim_space (gcp_AccountID p); S = csv_store sv in
     andThen (reject_if (conversationID = []) ConvErrInvalidInput) (\<lambda>_.
     andThen (wrapping (''load conversation '' @ conversationID)
       (on_store (cso_ConversationByID S conversationID))) (\<lambda>c.
     andThen (wrapping (''load members for conversation '' @ conv_ID c)
       (on_store (cso_ConversationMembersByConversationID S (conv_ID c)))) (\<lambda>members.
     andThen (if accountID \<noteq> [] then
         andThen (wrapping (''authorize conversation '' @ conv_ID c @ '' for account '' @ accountID)
           (on_store (cso_ConversationMemberByConversationAndAccount S (conv_ID c) accountID))) (\<lambda>member.
         reject_if (\<not> isActiveMember member) ConvErrForbidden)
       else ret ()) (\<lambda>_.
     andThen (decorateConversationCounters sv accountID [c]) (\<lambda>decorated.
     ret (hd decorated, members)))))))"

definition list_shows :: "list_conversations_params \<Rightarrow> conversation \<Rightarrow> bool" where
  "list_shows p c \<longleftrightarrow> \<not> (\<not> lcp_IncludeArchived p \<and> conv_Archived c) \<and>
     \<not> (\<not> lcp_IncludeMuted p \<and> conv_Muted c) \<and> \<not> (\<not> lcp_IncludeHidden p \<and> conv_Hidden c)"

definition list_order :: "conversation \<Rightarrow> int \<times> int \<times> string" where
  "list_order c = (- uint (conv_LastSequence c), - conv_UpdatedAt c, conv_ID c)"

definition ListConversations ::
    "'s conv_service \<Rightarrow> go_context \<Rightarrow> list_conversations_params \<Rightarrow> ('s conv_world, conversation list) io" where
  "ListConversations sv ctx p =
     andThen (conv_validateContext ctx ''list conversations'') (\<lambda>_.
     let accountID = trim_space (lcp_AccountID p) in
     andThen (reject_if (accountID = []) ConvErrInvalidInput) (\<lambda>_.
     andThen (wrapping (''load conversations for account '' @ accountID)
       (on_store (cso_ConversationsByAccountID (csv_store sv) accountID))) (\<lambda>conversations.
     decorateConversationCounters sv accountID
       (sort_key list_order (List.filter (list_shows p) conversations)))))"

subsection \<open>Updating a conversation\<close>

definition or_keep :: "('a \<Rightarrow> 'a) \<Rightarrow> 'a option \<Rightarrow> 'a \<Rightarrow> 'a" where
  "or_keep f new old = (case new of None \<Rightarrow> old | Some x \<Rightarrow> f x)"

definition updated_conversation :: "update_conversation_params \<Rightarrow> time \<Rightarrow> conversation \<Rightarrow> conversation" where
  "updated_conversation p updatedAt c = c\<lparr>
     conv_Title := or_keep trim_space (ucp_Title p) (conv_Title c),
     conv_Description := or_keep trim_space (ucp_Description p) (conv_Description c),
     conv_AvatarMediaID := or_keep trim_space (ucp_AvatarMediaID p) (conv_AvatarMediaID c),
     conv_Settings := or_keep normalizeConversationSettings (ucp_Settings p) (conv_Settings c),
     conv_UpdatedAt := updatedAt\<rparr>"

definition UpdateConversation ::
    "'s conv_service \<Rightarrow> go_context \<Rightarrow> update_conversation_params \<Rightarrow> ('s conv_world, conversation) io" where
  "UpdateConversation sv ctx p =
     andThen (conv_validateContext ctx ''update conversation'') (\<lambda>_.
     let conversationID = trim_space (ucp_ConversationID p); actorAccountID = trim_space (ucp_ActorAccountID p) in
     andThen (reject_if (conversationID = [] \<or> actorAccountID = []) ConvErrInvalidInput) (\<lambda>_.
     let updatedAt = or_time (ucp_UpdatedAt p) (csv_now sv) in
     andThen (runTx ctx
       (andThen (loadConversationActor sv conversationID actorAccountID) (\<lambda>(row, actor).
        andThen (reject_if (\<not> canManageConversation actor actorAccountID (conv_Kind row)) ConvErrForbidden) (\<lambda>_.
        andThen (wrapping (''save conversation '' @ conv_ID row)
          (on_store (cso_SaveConversation (csv_store sv) (updated_conversation p updatedAt row)))) (\<lambda>saved.
        andThen (appendConversationEvent sv saved actorAccountID [] EventTypeConversationUpdated ''conversation''
          [(''scope'', ''conversation'')] updatedAt) (\<lambda>(saved', _).
        ret saved')))))) (\<lambda>saved.
     andThen (indexConversationByID sv (conv_ID saved)) (\<lambda>_.
     ret saved))))"

definition PublishConversationUpdate ::
    "'s conv_service \<Rightarrow> go_context \<Rightarrow> publish_conversation_update_params \<Rightarrow>
     ('s conv_world, conversation \<times> conv_event) io" where
  "PublishConversationUpdate sv ctx p =
     andThen (conv_validateContext ctx ''publish conversation update'') (\<lambda>_.
     let conversationID = trim_space (pcp_ConversationID p); accountID = trim_space (pcp_AccountID p);
       deviceID = trim_space (pcp_DeviceID p); payloadType = trim_space (pcp_PayloadType p) in
     andThen (reject_if (conversationID = [] \<or> accountID = [] \<or> payloadType = []) ConvErrInvalidInput) (\<lambda>_.
     within_tx
       (andThen (loadConversationActor sv conversationID accountID) (\<lambda>(row, _).
        appendConversationEvent sv row accountID deviceID EventTypeConversationUpdated payloadType
          (pcp_Metadata p) (pcp_CreatedAt p)))))"

subsection \<open>Members\<close>

definition joinMemberAccountIDs :: "conv_member list \<Rightarrow> string" where
  "joinMemberAccountIDs members =
     join_with '','' (List.filter (\<lambda>v. v \<noteq> []) (List.map (\<lambda>m. trim_space (cmem_AccountID m)) members))"

definition upsertConversationMember ::
    "'s conv_service \<Rightarrow> string \<Rightarrow> string \<Rightarrow> ('s conv_world, conv_member \<times> bool) io" where
  "upsertConversationMember sv conversationID accountID =
     andThen (attempt (on_store (cso_ConversationMemberByConversationAndAccount (csv_store sv) conversationID accountID))) (\<lambda>r.
     case r of
       Inr member \<Rightarrow> ret (member, True)
     | Inl e \<Rightarrow>
         if e \<noteq> ConvErrNotFound then raise (Wrapped (''load member '' @ accountID @ '' in '' @ conversationID) e)
         else ret (new_member conversationID accountID [] zero_time, False))"

text \<open>One round of the loop of \<open>AddMembers\<close>: the member record and whether it was written.\<close>

definition added_member :: "MemberRole \<Rightarrow> string \<Rightarrow> bool \<Rightarrow> time \<Rightarrow> conv_member \<Rightarrow> conv_member" where
  "added_member role invitedBy existed createdAt m0 =
     (let m = m0\<lparr>cmem_Role := role, cmem_Banned := False, cmem_LeftAt := zero_time,
          cmem_InvitedByAccountID := invitedBy\<rparr> in
      if \<not> existed \<or> \<not> isActiveMember m then m\<lparr>cmem_JoinedAt := createdAt\<rparr> else m)"

definition add_member ::
    "'s conv_service \<Rightarrow> conversation \<Rightarrow> MemberRole \<Rightarrow> string \<Rightarrow> time \<Rightarrow> string \<Rightarrow> ('s conv_world, conv_member \<times> bool) io" where
  "add_member sv row role invitedBy createdAt accountID =
     andThen (reject_if (accountID = conv_OwnerAccountID row) ConvErrConflict) (\<lambda>_.
     andThen (upsertConversationMember sv (conv_ID row) accountID) (\<lambda>(member, existed).
     if existed \<and> isActiveMember member \<and> cmem_Role member = role \<and> cmem_InvitedByAccountID member = invitedBy
       then ret (member, False)
     else andThen (wrapping (''save member '' @ accountID @ '' in '' @ conv_ID row)
         (on_store (cso_SaveConversationMember (csv_store sv) (added_member role invitedBy existed createdAt member)))) (\<lambda>saved.
       ret (saved, True))))"

text \<open>The metadata of a membership event; a missing map entry reads as the empty string.\<close>

definition members_metadata :: "string \<Rightarrow> nat \<Rightarrow> string list \<Rightarrow> string \<Rightarrow> (string, string) gomap" where
  "members_metadata change n targets joined =
     [(''change'', change), (''member_count'', decimal_digits n),
      (''target_account_id'', (case targets of [i] \<Rightarrow> i | _ \<Rightarrow> [])), (''target_account_ids'', joined)]"

definition AddMembers ::
    "'s conv_service \<Rightarrow> go_context \<Rightarrow> add_members_params \<Rightarrow> ('s conv_world, conv_member list) io" where
  "AddMembers sv ctx p =
     andThen (conv_validateContext ctx ''add members'') (\<lambda>_.
     let conversationID = trim_space (adp_ConversationID p); actorAccountID = trim_space (adp_ActorAccountID p);
       invitedBy0 = trim_space (adp_InvitedByAccountID p); accountIDs = uniqueIDs (adp_AccountIDs p);
       role0 = normalizeMemberRole (adp_Role p);
       role = (if role0 = MemberRoleUnspecified then MemberRoleMember else role0) in
     andThen (reject_if (conversationID = [] \<or> actorAccountID = [] \<or> accountIDs = []) ConvErrInvalidInput) (\<lambda>_.
     andThen (reject_if (role = MemberRoleOwner) ConvErrInvalidInput) (\<lambda>_.
     let invitedBy = (if invitedBy0 = [] then actorAccountID else invitedBy0);
       createdAt = or_time (adp_CreatedAt p) (csv_now sv) in
     andThen (runTx ctx
       (andThen (loadConversationActor sv conversationID actorAccountID) (\<lambda>(row, actor).
        andThen (reject_if (fixed_membership row) ConvErrForbidden) (\<lambda>_.
        andThen (policyForConversation sv row []) (\<lambda>policy.
        andThen (reject_if (\<not> canAddMembers actor actorAccountID policy role) ConvErrForbidden) (\<lambda>_.
        andThen (for_each (add_member sv row role invitedBy createdAt) accountIDs) (\<lambda>results.
        let saved = List.map fst results in
        if \<not> list_ex snd results then ret saved
        else andThen (appendConversationEvent sv row actorAccountID [] EventTypeConversationMembers ''members''
            (members_metadata ''added'' (length saved) (List.map cmem_AccountID saved) (joinMemberAccountIDs saved))
            createdAt) (\<lambda>_.
          ret saved)))))))) (\<lambda>saved.
     andThen (indexConversationByID sv conversationID) (\<lambda>_.
     ret saved)))))"

text \<open>One round of the loop of \<open>RemoveMembers\<close>: whether a member was removed.\<close>

definition remove_member ::
    "'s conv_service \<Rightarrow> conversation \<Rightarrow> conv_member \<Rightarrow> string \<Rightarrow> string \<Rightarrow> time \<Rightarrow> string \<Rightarrow> ('s conv_world, bool) io" where
  "remove_member sv row actor conversationID actorAccountID removedAt accountID =
     andThen (attempt (on_store (cso_ConversationMemberByConversationAndAccount (csv_store sv) conversationID accountID))) (\<lambda>r.
     case r of
       Inl e \<Rightarrow>
         if e = ConvErrNotFound then ret False
         else raise (Wrapped (''load member '' @ accountID @ '' in '' @ conversationID) e)
     | Inr member \<Rightarrow>
         andThen (reject_if (\<not> canRemoveMember actor member actorAccountID (conv_OwnerAccountID row)) ConvErrForbidden) (\<lambda>_.
         if cmem_LeftAt member \<noteq> zero_time \<and> \<not> cmem_Banned member then ret False
         else andThen (wrapping (''remove member '' @ accountID @ '' in '' @ conversationID)
             (on_store (cso_SaveConversationMember (csv_store sv)
               (member\<lparr>cmem_LeftAt := removedAt, cmem_Banned := False, cmem_Muted := False\<rparr>)))) (\<lambda>_.
           ret True)))"

definition RemoveMembers ::
    "'s conv_service \<Rightarrow> go_context \<Rightarrow> remove_members_params \<Rightarrow> ('s conv_world, 32 word) io" where
  "RemoveMembers sv ctx p =
     andThen (conv_validateContext ctx ''remove members'') (\<lambda>_.
     let conversationID = trim_space (rmp_ConversationID p); actorAccountID = trim_space (rmp_ActorAccountID p);
       accountIDs = uniqueIDs (rmp_AccountIDs p) in
     andThen (reject_if (conversationID = [] \<or> actorAccountID = [] \<or> accountIDs = []) ConvErrInvalidInput) (\<lambda>_.
     let removedAt = or_time (rmp_RemovedAt p) (csv_now sv) in
     andThen (runTx ctx
       (andThen (loadConversationActor sv conversationID actorAccountID) (\<lambda>(row, actor).
        andThen (reject_if (conv_Kind row = ConversationKindSavedMessages) ConvErrForbidden) (\<lambda>_.
        andThen (for_each (remove_member sv row actor conversationID actorAccountID removedAt) accountIDs) (\<lambda>results.
        let removed = (of_nat (length (List.filter id results)) :: 32 word) in
        if removed = 0 then ret removed
        else andThen (appendConversationEvent sv row actorAccountID [] EventTypeConversationMembers ''members''
            (members_metadata ''removed'' (unat removed) accountIDs (join_with '','' accountIDs)) removedAt) (\<lambda>_.
          ret removed)))))) (\<lambda>removed.
     andThen (indexConversationByID sv conversationID) (\<lambda>_.
     ret removed))))"

definition UpdateMemberRole ::
    "'s conv_service \<Rightarrow> go_context \<Rightarrow> update_role_params \<Rightarrow> ('s conv_world, conv_member) io" where
  "UpdateMemberRole sv ctx p =
     andThen (conv_validateContext ctx ''update member role'') (\<lambda>_.
     let conversationID = trim_space (urp_ConversationID p); actorAccountID = trim_space (urp_ActorAccountID p);
       targetAccountID = trim_space (urp_TargetAccountID p); role = normalizeMemberRole (urp_Role p) in
     andThen (reject_if (conversationID = [] \<or> actorAccountID = [] \<or> targetAccountID = [] \<or>
       role = MemberRoleUnspecified) ConvErrInvalidInput) (\<lambda>_.
     andThen (reject_if (role = MemberRoleOwner \<or> targetAccountID = actorAccountID) ConvErrForbidden) (\<lambda>_.
     let updatedAt = or_time (urp_UpdatedAt p) (csv_now sv) in
     runTx ctx
       (andThen (loadConversationActor sv conversationID actorAccountID) (\<lambda>(row, actor).
        andThen (reject_if (fixed_membership row) ConvErrForbidden) (\<lambda>_.
        andThen (wrapping (''load target member '' @ targetAccountID @ '' in '' @ conversationID)
          (on_store (cso_ConversationMemberByConversationAndAccount (csv_store sv) conversationID targetAccountID))) (\<lambda>target.
        andThen (reject_if (\<not> isActiveMember target \<or> cmem_AccountID target = conv_OwnerAccountID row) ConvErrForbidden) (\<lambda>_.
        andThen (reject_if (\<not> canUpdateMemberRole actor target actorAccountID role) ConvErrForbidden) (\<lambda>_.
        if cmem_Role target = role then ret target
        else andThen (wrapping (''save target member '' @ targetAccountID @ '' in '' @ conversationID)
            (on_store (cso_SaveConversationMember (csv_store sv) (target\<lparr>cmem_Role := role\<rparr>)))) (\<lambda>saved.
          andThen (appendConversationEvent sv row actorAccountID [] EventTypeConversationMembers ''members''
            [(''change'', ''role_updated''), (''target_account_id'', targetAccountID), (''role'', role),
             (''previous_role'', cmem_Role target)] updatedAt) (\<lambda>_.
          ret saved)))))))))))"

definition ListMembers ::
    "'s conv_service \<Rightarrow> go_context \<Rightarrow> get_conversation_params \<Rightarrow> ('s conv_world, conv_member list) io" where
  "ListMembers sv ctx p =
     andThen (conv_validateContext ctx ''list conversation members'') (\<lambda>_.
     let conversationID = trim_space (gcp_ConversationID p); accountID = trim_space (gcp_AccountID p); S = csv_store sv in
     andThen (reject_if (conversationID = [] \<or> accountID = []) ConvErrInvalidInput) (\<lambda>_.
     andThen (wrapping (''authorize member list for conversation '' @ conversationID @ '' and account '' @ accountID)
       (on_store (cso_ConversationMemberByConversationAndAccount S conversationID accountID))) (\<lambda>member.
     andThen (reject_if (\<not> isActiveMember member) ConvErrForbidden) (\<lambda>_.
     wrapping (''list members for conversation '' @ conversationID)
       (on_store (cso_ConversationMembersByConversationID S conversationID))))))"

subsection \<open>Invites\<close>

definition normalizeInviteRoles :: "MemberRole list \<Rightarrow> MemberRole list" where
  "normalizeInviteRoles roles = sort (keep_first []
     (List.filter (\<lambda>r. \<not> (r = MemberRoleUnspecified \<or> r = MemberRoleOwner)) (List.map normalizeMemberRole roles)))"

definition inviteHighestRole :: "MemberRole list \<Rightarrow> MemberRole" where
  "inviteHighestRole roles =
     (if MemberRoleAdmin \<in> set roles then MemberRoleAdmin
      else if MemberRoleMember \<in> set roles then MemberRoleMember
      else if MemberRoleGuest \<in> set roles then MemberRoleGuest
      else MemberRoleUnspecified)"

text \<open>The checks that the three invite operations share, for the role they hand out.\<close>

definition invite_actor ::
    "'s conv_service \<Rightarrow> string \<Rightarrow> string \<Rightarrow> MemberRole \<Rightarrow> ('s conv_world, conversation) io" where
  "invite_actor sv conversationID actorAccountID role =
     andThen (loadConversationActor sv conversationID actorAccountID) (\<lambda>(row, actor).
     andThen (reject_if (fixed_membership row) ConvErrForbidden) (\<lambda>_.
     andThen (policyForConversation sv row []) (\<lambda>policy.
     andThen (reject_if (\<not> canAddMembers actor actorAccountID policy role) ConvErrForbidden) (\<lambda>_.
     ret row))))"

definition CreateInvite ::
    "'s conv_service \<Rightarrow> go_context \<Rightarrow> create_invite_params \<Rightarrow> ('s conv_world, conv_invite) io" where
  "CreateInvite sv ctx p =
     andThen (conv_validateContext ctx ''create invite'') (\<lambda>_.
     let conversationID = trim_space (cip_ConversationID p); actorAccountID = trim_space (cip_ActorAccountID p);
       roles0 = normalizeInviteRoles (cip_AllowedRoles p) in
     andThen (reject_if (conversationID = [] \<or> actorAccountID = []) ConvErrInvalidInput) (\<lambda>_.
     let roles = (if roles0 = [] then [MemberRoleMember] else roles0);
       createdAt = or_time (cip_CreatedAt p) (csv_now sv) in
     runTx ctx
       (andThen (invite_actor sv conversationID actorAccountID (inviteHighestRole roles)) (\<lambda>row.
        andThen (wrapping ''generate invite id'' (conv_newID ''inv'')) (\<lambda>inviteID.
        andThen (wrapping ''generate invite code'' (conv_randomToken 18)) (\<lambda>token.
        andThen (wrapping (''save invite for conversation '' @ conv_ID row)
          (on_store (cso_SaveConversationInvite (csv_store sv) \<lparr>cinv_ID = inviteID,
            cinv_ConversationID = conv_ID row, cinv_Code = token, cinv_CreatedByAccountID = actorAccountID,
            cinv_AllowedRoles = roles, cinv_ExpiresAt = cip_ExpiresAt p, cinv_MaxUses = cip_MaxUses p,
            cinv_UseCount = 0, cinv_Revoked = False, cinv_RevokedAt = zero_time, cinv_CreatedAt = createdAt,
            cinv_UpdatedAt = createdAt\<rparr>))) (\<lambda>saved.
        andThen (appendConversationEvent sv row actorAccountID [] EventTypeConversationUpdated ''invite''
          [(''change'', ''created''), (''invite_id'', cinv_ID saved)] createdAt) (\<lambda>_.
        ret saved))))))))"

definition ListInvites ::
    "'s conv_service \<Rightarrow> go_context \<Rightarrow> list_invites_params \<Rightarrow> ('s conv_world, conv_invite list) io" where
  "ListInvites sv ctx p =
     andThen (conv_validateContext ctx ''list invites'') (\<lambda>_.
     let conversationID = trim_space (lip_ConversationID p); accountID = trim_space (lip_AccountID p) in
     andThen (reject_if (conversationID = [] \<or> accountID = []) ConvErrInvalidInput) (\<lambda>_.
     andThen (invite_actor sv conversationID accountID MemberRoleMember) (\<lambda>_.
     wrapping (''list invites for conversation '' @ conversationID)
       (on_store (cso_ConversationInvitesByConversationID (csv_store sv) conversationID)))))"

definition RevokeInvite ::
    "'s conv_service \<Rightarrow> go_context \<Rightarrow> revoke_invite_params \<Rightarrow> ('s conv_world, conv_invite) io" where
  "RevokeInvite sv ctx p =
     andThen (conv_validateContext ctx ''revoke invite'') (\<lambda>_.
     let conversationID = trim_space (rip_ConversationID p); inviteID = trim_space (rip_InviteID p);
       actorAccountID = trim_space (rip_ActorAccountID p) in
     andThen (reject_if (conversationID = [] \<or> inviteID = [] \<or> actorAccountID = []) ConvErrInvalidInput) (\<lambda>_.
     let revokedAt = or_time (rip_RevokedAt p) (csv_now sv) in
     runTx ctx
       (andThen (invite_actor sv conversationID actorAccountID MemberRoleMember) (\<lambda>row.
        andThen (wrapping (''load invite '' @ inviteID @ '' in '' @ conversationID)
          (on_store (cso_ConversationInviteByConversationAndID (csv_store sv) conversationID inviteID))) (\<lambda>invite.
        if cinv_Revoked invite then ret invite
        else andThen (wrapping (''save revoked invite '' @ inviteID @ '' in '' @ conversationID)
            (on_store (cso_SaveConversationInvite (csv_store sv)
              (invite\<lparr>cinv_Revoked := True, cinv_RevokedAt := revokedAt, cinv_UpdatedAt := revokedAt\<rparr>)))) (\<lambda>saved.
          andThen (appendConversationEvent sv row actorAccountID [] EventTypeConversationUpdated ''invite''
            [(''change'', ''revoked''), (''invite_id'', cinv_ID saved)] revokedAt) (\<lambda>_.
          ret saved)))))))"

end
