(* ===== verification/ConvTopics.thy ===== *)
theory ConvTopics
  imports ConvMembers
begin

section \<open>Topics (\<open>topics.go\<close>)\<close>

text \<open>
  The topics of a group conversation. The four updates share one transaction, \<open>updateTopic\<close>,
  and differ in the function from the topic to its next version, the event and its metadata; no
  event means that nothing changes.
\<close>

definition canManageTopics :: "conv_member \<Rightarrow> bool" where
  "canManageTopics m \<longleftrightarrow> cmem_Role m = MemberRoleOwner \<or> cmem_Role m = MemberRoleAdmin"

definition topicEventMetadata :: "string \<Rightarrow> (string, string) gomap \<Rightarrow> (string, string) gomap" where
  "topicEventMetadata topicID extra = put_nonempty ''topic_id'' topicID (trimMetadata extra)"

text \<open>
  The event of a topic, the topic's sequence and the conversation's; shared by creation and
  updates. The text of the second error names the topic that the failed save returned, which
  is the zero record.
\<close>

definition finish_topic ::
    "'s conv_service \<Rightarrow> string \<Rightarrow> string \<Rightarrow> conversation \<Rightarrow> string \<Rightarrow> EventType \<Rightarrow> topic \<Rightarrow>
     (string, string) gomap \<Rightarrow> time \<Rightarrow> ('s conv_world, topic \<times> conv_event) io" where
  "finish_topic sv what after c actor etype t metadata now =
     (let S = csv_store sv in
      andThen eventID (\<lambda>eid.
      andThen (wrapping what (on_store (cso_SaveEvent S
        (event_of eid etype (conv_ID c) actor (topicEventMetadata (top_ID t) metadata) now)))) (\<lambda>event.
      andThen (wrapping ''update topic  sequence'' (on_store (cso_SaveTopic S
        (t\<lparr>top_LastSequence := ev_Sequence event, top_UpdatedAt := now\<rparr>)))) (\<lambda>saved.
      andThen (wrapping (''update conversation '' @ conv_ID c @ after) (on_store (cso_SaveConversation S
        (c\<lparr>conv_LastSequence := ev_Sequence event, conv_UpdatedAt := now\<rparr>)))) (\<lambda>_.
      ret (saved, event))))))"

definition CreateTopic ::
    "'s conv_service \<Rightarrow> go_context \<Rightarrow> create_topic_params \<Rightarrow> ('s conv_world, topic \<times> conv_event) io" where
  "CreateTopic sv ctx p =
     andThen (conv_validateContext ctx ''create topic'') (\<lambda>_.
     let S = csv_store sv; conversationID = trim_space (ctp_ConversationID p);
       rootMessageID = trim_space (ctp_RootMessageID p); creator = trim_space (ctp_CreatorAccountID p);
       title = trim_space (ctp_Title p) in
     andThen (reject_if (conversationID = [] \<or> creator = [] \<or> title = []) ConvErrInvalidInput) (\<lambda>_.
     let now = or_time (ctp_CreatedAt p) (csv_now sv) in
     andThen (runTx ctx
       (andThen (wrapping (''load conversation '' @ conversationID) (on_store (cso_ConversationByID S conversationID))) (\<lambda>c.
        andThen (policyForConversation sv c []) (\<lambda>policy.
        andThen (reject_if (conv_Kind c \<noteq> ConversationKindGroup \<or> \<not> pol_AllowThreads policy) ConvErrForbidden) (\<lambda>_.
        andThen (wrapping (''authorize topic creator '' @ creator @ '' in conversation '' @ conv_ID c)
          (on_store (cso_ConversationMemberByConversationAndAccount S (conv_ID c) creator))) (\<lambda>member.
        andThen (reject_if (\<not> isActiveMember member \<or> \<not> canManageTopics member) ConvErrForbidden) (\<lambda>_.
        andThen (if rootMessageID \<noteq> [] then
            andThen (wrapping (''load root message '' @ rootMessageID @ '' in conversation '' @ conv_ID c)
              (on_store (cso_MessageByID S (conv_ID c) rootMessageID))) (\<lambda>root.
            reject_if (trim_space (msg_ThreadID root) \<noteq> []) ConvErrInvalidInput)
          else ret ()) (\<lambda>_.
        andThen (wrapping ''generate topic id'' (conv_newID ''top'')) (\<lambda>i.
        andThen (wrapping (''save topic '' @ i) (on_store (cso_SaveTopic S
          (new_topic (conv_ID c) i rootMessageID title creator False now)))) (\<lambda>saved.
        finish_topic sv ''save topic created event'' '' after topic create'' c creator EventTypeTopicCreated saved
          [(''title'', top_Title saved), (''root_message_id'', top_RootMessageID saved)] now)))))))))) (\<lambda>(t, event).
     andThen (indexTopic sv t) (\<lambda>_.
     andThen (indexConversationByID sv (top_ConversationID t)) (\<lambda>_.
     ret (t, event))))))"

definition GetTopic ::
    "'s conv_service \<Rightarrow> go_context \<Rightarrow> get_topic_params \<Rightarrow> ('s conv_world, topic) io" where
  "GetTopic sv ctx p =
     andThen (conv_validateContext ctx ''get topic'') (\<lambda>_.
     let S = csv_store sv; conversationID = trim_space (gtp_ConversationID p); topicID = trim_space (gtp_TopicID p);
       accountID = trim_space (gtp_AccountID p) in
     andThen (reject_if (conversationID = [] \<or> accountID = []) ConvErrInvalidInput) (\<lambda>_.
     andThen (wrapping (''load conversation '' @ conversationID) (on_store (cso_ConversationByID S conversationID))) (\<lambda>c.
     andThen (reject_if (conv_Kind c \<noteq> ConversationKindGroup) ConvErrForbidden) (\<lambda>_.
     andThen (wrapping (''authorize conversation '' @ conv_ID c @ '' for account '' @ accountID)
       (on_store (cso_ConversationMemberByConversationAndAccount S (conv_ID c) accountID))) (\<lambda>member.
     andThen (reject_if (\<not> isActiveMember member) ConvErrForbidden) (\<lambda>_.
     andThen (policyForConversation sv c topicID) (\<lambda>policy.
     andThen (reject_if (\<not> pol_AllowThreads policy) ConvErrForbidden) (\<lambda>_.
     wrapping (''load topic '' @ topicID @ '' in conversation '' @ conv_ID c)
       (on_store (cso_TopicByConversationAndID S (conv_ID c) topicID))))))))))"

definition topic_shown :: "list_topics_params \<Rightarrow> topic \<Rightarrow> bool" where
  "topic_shown p t \<longleftrightarrow> \<not> (\<not> ltp_IncludeArchived p \<and> top_Archived t) \<and> \<not> (\<not> ltp_IncludeClosed p \<and> top_Closed t)"

definition topic_list_order :: "topic \<Rightarrow> bool \<times> bool \<times> int \<times> int \<times> string" where
  "topic_list_order t = (\<not> top_IsGeneral t, \<not> top_Pinned t, - uint (top_LastSequence t), - top_UpdatedAt t, top_ID t)"

definition ListTopics ::
    "'s conv_service \<Rightarrow> go_context \<Rightarrow> list_topics_params \<Rightarrow> ('s conv_world, topic list) io" where
  "ListTopics sv ctx p =
     andThen (conv_validateContext ctx ''list topics'') (\<lambda>_.
     let S = csv_store sv; conversationID = trim_space (ltp_ConversationID p); accountID = trim_space (ltp_AccountID p) in
     andThen (reject_if (conversationID = [] \<or> accountID = []) ConvErrInvalidInput) (\<lambda>_.
     andThen (wrapping (''load conversation '' @ conversationID) (on_store (cso_ConversationByID S conversationID))) (\<lambda>c.
     andThen (reject_if (conv_Kind c \<noteq> ConversationKindGroup) ConvErrForbidden) (\<lambda>_.
     andThen (wrapping (''authorize conversation '' @ conv_ID c @ '' for account '' @ accountID)
       (on_store (cso_ConversationMemberByConversationAndAccount S (conv_ID c) accountID))) (\<lambda>member.
     andThen (reject_if (\<not> isActiveMember member) ConvErrForbidden) (\<lambda>_.
     andThen (policyForConversation sv c []) (\<lambda>policy.
     andThen (reject_if (\<not> pol_AllowThreads policy) ConvErrForbidden) (\<lambda>_.
     andThen (wrapping (''load topics for conversation '' @ conv_ID c)
       (on_store (cso_TopicsByConversationID S (conv_ID c)))) (\<lambda>topics.
     ret (sort_key topic_list_order (List.filter (topic_shown p) topics)))))))))))"

subsection \<open>Updates\<close>

text \<open>The next version of a topic and, if it changed, the event with its metadata.\<close>

type_synonym topic_change = "topic \<times> (EventType \<times> (string, string) gomap) option"

definition renamed_topic :: "string \<Rightarrow> topic \<Rightarrow> time \<Rightarrow> error + topic_change" where
  "renamed_topic title0 t now =
     (if top_IsGeneral t then Inl ConvErrConflict
      else let title = trim_space title0 in
        if title = [] then Inl ConvErrInvalidInput
        else if top_Title t = title then Inr (t, None)
        else Inr (t\<lparr>top_Title := title, top_UpdatedAt := now\<rparr>,
          Some (EventTypeTopicUpdated, [(''topic_id'', top_ID t), (''title'', title)])))"

definition archived_topic :: "bool \<Rightarrow> topic \<Rightarrow> time \<Rightarrow> error + topic_change" where
  "archived_topic archived t now =
     (if top_IsGeneral t then Inl ConvErrConflict
      else if top_Archived t = archived then Inr (t, None)
      else Inr (t\<lparr>top_Archived := archived, top_UpdatedAt := now,
          top_ArchivedAt := (if archived then now else zero_time)\<rparr>,
        Some (if archived then EventTypeTopicArchived else EventTypeTopicUpdated,
          [(''topic_id'', top_ID t), (''archived'', format_bool archived)])))"

definition closed_topic :: "bool \<Rightarrow> topic \<Rightarrow> time \<Rightarrow> error + topic_change" where
  "closed_topic closed t now =
     (if top_IsGeneral t then Inl ConvErrConflict
      else if top_Closed t = closed then Inr (t, None)
      else Inr (t\<lparr>top_Closed := closed, top_UpdatedAt := now,
          top_ClosedAt := (if closed then now else zero_time)\<rparr>,
        Some (if closed then EventTypeTopicClosed else EventTypeTopicUpdated,
          [(''topic_id'', top_ID t), (''closed'', format_bool closed)])))"

definition pinned_topic :: "bool \<Rightarrow> topic \<Rightarrow> time \<Rightarrow> error + topic_change" where
  "pinned_topic pinned t now =
     (if top_IsGeneral t then Inl ConvErrConflict
      else if top_Pinned t = pinned then Inr (t, None)
      else Inr (t\<lparr>top_Pinned := pinned, top_UpdatedAt := now\<rparr>,
        Some (EventTypeTopicPinned, [(''topic_id'', top_ID t), (''pinned'', format_bool pinned)])))"

definition update_topic_tx ::
    "'s conv_service \<Rightarrow> string \<Rightarrow> string \<Rightarrow> string \<Rightarrow> time \<Rightarrow> (topic \<Rightarrow> time \<Rightarrow> error + topic_change) \<Rightarrow>
     ('s conv_world, topic \<times> conv_event option) io" where
  "update_topic_tx sv conversationID topicID actor now change =
     (let S = csv_store sv in
      andThen (wrapping (''load conversation '' @ conversationID) (on_store (cso_ConversationByID S conversationID))) (\<lambda>c.
      andThen (reject_if (conv_Kind c \<noteq> ConversationKindGroup) ConvErrForbidden) (\<lambda>_.
      andThen (policyForConversation sv c topicID) (\<lambda>policy.
      andThen (reject_if (\<not> pol_AllowThreads policy) ConvErrForbidden) (\<lambda>_.
      andThen (wrapping (''authorize topic actor '' @ actor @ '' in conversation '' @ conv_ID c)
        (on_store (cso_ConversationMemberByConversationAndAccount S (conv_ID c) actor))) (\<lambda>member.
      andThen (reject_if (\<not> isActiveMember member \<or> \<not> canManageTopics member) ConvErrForbidden) (\<lambda>_.
      andThen (wrapping (''load topic '' @ topicID @ '' in conversation '' @ conv_ID c)
        (on_store (cso_TopicByConversationAndID S (conv_ID c) topicID))) (\<lambda>t.
      andThen (of_result (change t now)) (\<lambda>(t', eff). case eff of
          None \<Rightarrow> ret (t', None)
        | Some (etype, metadata) \<Rightarrow>
            andThen (wrapping (''save topic '' @ top_ID t') (on_store (cso_SaveTopic S t'))) (\<lambda>saved.
            andThen (finish_topic sv ''save topic event'' '' after topic update'' c actor etype saved metadata now)
              (\<lambda>(final, event). ret (final, Some event))))))))))))"

definition updateTopic ::
    "'s conv_service \<Rightarrow> go_context \<Rightarrow> string \<Rightarrow> string \<Rightarrow> string \<Rightarrow> string \<Rightarrow> time \<Rightarrow>
     (topic \<Rightarrow> time \<Rightarrow> error + topic_change) \<Rightarrow> ('s conv_world, topic \<times> conv_event option) io" where
  "updateTopic sv ctx operation conversationID0 topicID0 actorAccountID0 updatedAt change =
     andThen (conv_validateContext ctx operation) (\<lambda>_.
     let conversationID = trim_space conversationID0; topicID = trim_space topicID0;
       actor = trim_space actorAccountID0 in
     andThen (reject_if (conversationID = [] \<or> actor = []) ConvErrInvalidInput) (\<lambda>_.
     andThen (runTx ctx (update_topic_tx sv conversationID topicID actor (or_time updatedAt (csv_now sv)) change))
       (\<lambda>(t, event).
     andThen (indexTopic sv t) (\<lambda>_.
     andThen (indexConversationByID sv (top_ConversationID t)) (\<lambda>_.
     ret (t, event))))))"

definition RenameTopic ::
    "'s conv_service \<Rightarrow> go_context \<Rightarrow> rename_topic_params \<Rightarrow> ('s conv_world, topic \<times> conv_event option) io" where
  "RenameTopic sv ctx p = updateTopic sv ctx ''rename topic'' (rtp_ConversationID p) (rtp_TopicID p)
     (rtp_ActorAccountID p) (rtp_UpdatedAt p) (renamed_topic (rtp_Title p))"

definition ArchiveTopic ::
    "'s conv_service \<Rightarrow> go_context \<Rightarrow> archive_topic_params \<Rightarrow> ('s conv_world, topic \<times> conv_event option) io" where
  "ArchiveTopic sv ctx p = updateTopic sv ctx ''archive topic'' (atp_ConversationID p) (atp_TopicID p)
     (atp_ActorAccountID p) (atp_UpdatedAt p) (archived_topic (atp_Archived p))"

definition CloseTopic ::
    "'s conv_service \<Rightarrow> go_context \<Rightarrow> close_topic_params \<Rightarrow> ('s conv_world, topic \<times> conv_event option) io" where
  "CloseTopic sv ctx p = updateTopic sv ctx ''close topic'' (xtp_ConversationID p) (xtp_TopicID p)
     (xtp_ActorAccountID p) (xtp_UpdatedAt p) (closed_topic (xtp_Closed p))"

definition PinTopic ::
    "'s conv_service \<Rightarrow> go_context \<Rightarrow> pin_topic_params \<Rightarrow> ('s conv_world, topic \<times> conv_event option) io" where
  "PinTopic sv ctx p = updateTopic sv ctx ''pin topic'' (ptp_ConversationID p) (ptp_TopicID p)
     (ptp_ActorAccountID p) (ptp_UpdatedAt p) (pinned_topic (ptp_Pinned p))"

end
