(* ===== verification/ConvRequests.thy ===== *)
theory ConvRequests
  imports ConvActions ConvSync ConvTopics
begin

section \<open>The operations of the conversation service as requests\<close>

text \<open>
  A request is one call of the service with its parameters; a history is a list of requests,
  each with its context, the reading of the system clock and the service it meets, which may
  differ in the clock and the indexer. What every operation keeps is proved once, over any
  store whose methods keep it.
\<close>

datatype conv_request =
    DoCreateConversation create_conversation_params
  | DoGetConversation get_conversation_params
  | DoListConversations list_conversations_params
  | DoUpdateConversation update_conversation_params
  | DoPublishConversationUpdate publish_conversation_update_params
  | DoAddMembers add_members_params
  | DoRemoveMembers remove_members_params
  | DoUpdateMemberRole update_role_params
  | DoListMembers get_conversation_params
  | DoCreateInvite create_invite_params
  | DoListInvites list_invites_params
  | DoRevokeInvite revoke_invite_params
  | DoSetModerationPolicy set_policy_params
  | DoLogModerationAction mod_action
  | DoApplyModerationRestriction apply_restriction_params
  | DoLiftModerationRestriction lift_restriction_params
  | DoSubmitModerationReport submit_report_params
  | DoResolveModerationReport resolve_report_params
  | DoCheckModerationWrite check_write_params
  | DoRecordModerationWrite record_write_params
  | DoSendMessage send_message_params
  | DoReplyMessage reply_message_params
  | DoGetMessage get_message_params
  | DoListMessages list_messages_params
  | DoListScheduledMessages list_scheduled_params
  | DoDispatchDueMessages time int
  | DoEditMessage edit_message_params
  | DoDeleteMessage delete_message_params
  | DoPinMessage pin_message_params
  | DoAddMessageReaction add_reaction_params
  | DoRemoveMessageReaction remove_reaction_params
  | DoRecordDelivery record_delivery_params
  | DoMarkRead mark_read_params
  | DoGetSyncState get_sync_state_params
  | DoPullEvents pull_events_params
  | DoAcknowledgeEvents ack_events_params
  | DoPublishUserUpdate publish_user_update_params
  | DoCreateTopic create_topic_params
  | DoGetTopic get_topic_params
  | DoListTopics list_topics_params
  | DoRenameTopic rename_topic_params
  | DoArchiveTopic archive_topic_params
  | DoCloseTopic close_topic_params
  | DoPinTopic pin_topic_params
  | DoModerationPolicyByTarget string string
  | DoModerationActionsByTarget string string
  | DoModerationRestrictionByTargetAndAccount string string string
  | DoModerationRestrictionsByTarget string string
  | DoModerationRateStateByTargetAndAccount string string string
  | DoModerationReportByID string
  | DoModerationReportsByTarget string string

text \<open>The request's result is dropped; its error is kept.\<close>

definition silent :: "('w, 'a) io \<Rightarrow> ('w, unit) io" where
  "silent m = andThen m (\<lambda>_. ret ())"

primrec run_request :: "'s conv_service \<Rightarrow> time \<Rightarrow> go_context \<Rightarrow> conv_request \<Rightarrow> ('s conv_world, unit) io" where
  "run_request sv clock ctx (DoCreateConversation x) = silent (CreateConversation sv ctx x)"
| "run_request sv clock ctx (DoGetConversation x) = silent (GetConversation sv ctx x)"
| "run_request sv clock ctx (DoListConversations x) = silent (ListConversations sv ctx x)"
| "run_request sv clock ctx (DoUpdateConversation x) = silent (UpdateConversation sv ctx x)"
| "run_request sv clock ctx (DoPublishConversationUpdate x) = silent (PublishConversationUpdate sv ctx x)"
| "run_request sv clock ctx (DoAddMembers x) = silent (AddMembers sv ctx x)"
| "run_request sv clock ctx (DoRemoveMembers x) = silent (RemoveMembers sv ctx x)"
| "run_request sv clock ctx (DoUpdateMemberRole x) = silent (UpdateMemberRole sv ctx x)"
| "run_request sv clock ctx (DoListMembers x) = silent (ListMembers sv ctx x)"
| "run_request sv clock ctx (DoCreateInvite x) = silent (CreateInvite sv ctx x)"
| "run_request sv clock ctx (DoListInvites x) = silent (ListInvites sv ctx x)"
| "run_request sv clock ctx (DoRevokeInvite x) = silent (RevokeInvite sv ctx x)"
| "run_request sv clock ctx (DoSetModerationPolicy x) = silent (SetModerationPolicy sv clock ctx x)"
| "run_request sv clock ctx (DoLogModerationAction x) = silent (LogModerationAction sv clock ctx x)"
| "run_request sv clock ctx (DoApplyModerationRestriction x) = silent (ApplyModerationRestriction sv clock ctx x)"
| "run_request sv clock ctx (DoLiftModerationRestriction x) = silent (LiftModerationRestriction sv clock ctx x)"
| "run_request sv clock ctx (DoSubmitModerationReport x) = silent (SubmitModerationReport sv clock ctx x)"
| "run_request sv clock ctx (DoResolveModerationReport x) = silent (ResolveModerationReport sv clock ctx x)"
| "run_request sv clock ctx (DoCheckModerationWrite x) = silent (CheckModerationWrite sv ctx x)"
| "run_request sv clock ctx (DoRecordModerationWrite x) = silent (RecordModerationWrite sv ctx x)"
| "run_request sv clock ctx (DoSendMessage x) = silent (SendMessage sv ctx x)"
| "run_request sv clock ctx (DoReplyMessage x) = silent (ReplyMessage sv ctx x)"
| "run_request sv clock ctx (DoGetMessage x) = silent (GetMessage sv ctx x)"
| "run_request sv clock ctx (DoListMessages x) = silent (ListMessages sv ctx x)"
| "run_request sv clock ctx (DoListScheduledMessages x) = silent (ListScheduledMessages sv ctx x)"
| "run_request sv clock ctx (DoDispatchDueMessages x y) = silent (DispatchDueMessages sv ctx x y)"
| "run_request sv clock ctx (DoEditMessage x) = silent (EditMessage sv ctx x)"
| "run_request sv clock ctx (DoDeleteMessage x) = silent (DeleteMessage sv ctx x)"
| "run_request sv clock ctx (DoPinMessage x) = silent (PinMessage sv ctx x)"
| "run_request sv clock ctx (DoAddMessageReaction x) = silent (AddMessageReaction sv ctx x)"
| "run_request sv clock ctx (DoRemoveMessageReaction x) = silent (RemoveMessageReaction sv ctx x)"
| "run_request sv clock ctx (DoRecordDelivery x) = silent (RecordDelivery sv ctx x)"
| "run_request sv clock ctx (DoMarkRead x) = silent (MarkRead sv ctx x)"
| "run_request sv clock ctx (DoGetSyncState x) = silent (GetSyncState sv ctx x)"
| "run_request sv clock ctx (DoPullEvents x) = silent (PullEvents sv ctx x)"
| "run_request sv clock ctx (DoAcknowledgeEvents x) = silent (AcknowledgeEvents sv ctx x)"
| "run_request sv clock ctx (DoPublishUserUpdate x) = silent (PublishUserUpdate sv ctx x)"
| "run_request sv clock ctx (DoCreateTopic x) = silent (CreateTopic sv ctx x)"
| "run_request sv clock ctx (DoGetTopic x) = silent (GetTopic sv ctx x)"
| "run_request sv clock ctx (DoListTopics x) = silent (ListTopics sv ctx x)"
| "run_request sv clock ctx (DoRenameTopic x) = silent (RenameTopic sv ctx x)"
| "run_request sv clock ctx (DoArchiveTopic x) = silent (ArchiveTopic sv ctx x)"
| "run_request sv clock ctx (DoCloseTopic x) = silent (CloseTopic sv ctx x)"
| "run_request sv clock ctx (DoPinTopic x) = silent (PinTopic sv ctx x)"
| "run_request sv clock ctx (DoModerationPolicyByTarget x y) = silent (svc_ModerationPolicyByTarget sv ctx x y)"
| "run_request sv clock ctx (DoModerationActionsByTarget x y) = silent (ModerationActionsByTarget sv ctx x y)"
| "run_request sv clock ctx (DoModerationRestrictionByTargetAndAccount x y z) = silent (svc_ModerationRestrictionByTargetAndAccount sv ctx x y z)"
| "run_request sv clock ctx (DoModerationRestrictionsByTarget x y) = silent (svc_ModerationRestrictionsByTarget sv ctx x y)"
| "run_request sv clock ctx (DoModerationRateStateByTargetAndAccount x y z) = silent (svc_ModerationRateStateByTargetAndAccount sv ctx x y z)"
| "run_request sv clock ctx (DoModerationReportByID x) = silent (svc_ModerationReportByID sv ctx x)"
| "run_request sv clock ctx (DoModerationReportsByTarget x y) = silent (svc_ModerationReportsByTarget sv ctx x y)"

record 's conv_call =
  call_service :: "'s conv_service"
  call_clock :: time
  call_context :: go_context
  call_request :: conv_request

fun run_calls :: "'s conv_call list \<Rightarrow> 's conv_world \<Rightarrow> 's conv_world" where
  "run_calls [] w = w"
| "run_calls (c # cs) w =
     run_calls cs (snd (run_request (call_service c) (call_clock c) (call_context c) (call_request c) w))"

subsection \<open>What the store's methods keep, every operation keeps\<close>

locale conversation_steps =
  fixes S :: "'s conv_store_ops" and R :: "'s \<Rightarrow> 's \<Rightarrow> bool"
  assumes preorder: "preorder_on_states R"
    and store_keeps:
      "keeps R (cso_SaveConversation S x1)" "keeps R (cso_ConversationByID S x2)"
      "keeps R (cso_ConversationsByAccountID S x3)" "keeps R (cso_SaveTopic S x4)"
      "keeps R (cso_TopicByConversationAndID S x5 x6)" "keeps R (cso_TopicsByConversationID S x7)"
      "keeps R (cso_SaveConversationMember S x8)" "keeps R (cso_ConversationMemberByConversationAndAccount S x9 x10)"
      "keeps R (cso_ConversationMembersByConversationID S x11)" "keeps R (cso_SaveConversationInvite S x12)"
      "keeps R (cso_ConversationInviteByConversationAndID S x13 x14)" "keeps R (cso_ConversationInvitesByConversationID S x15)"
      "keeps R (cso_SaveMessage S x16)" "keeps R (cso_MessageByID S x17 x18)"
      "keeps R (cso_MessagesByConversationID S x19 x20 x21 x22)" "keeps R (cso_ScheduledMessagesByConversationAndSender S x23 x24 x25 x26 x27)"
      "keeps R (cso_DueScheduledMessages S x28 x29)" "keeps R (cso_SaveMessageReaction S x30)"
      "keeps R (cso_DeleteMessageReaction S x31 x32)" "keeps R (cso_SaveReadState S x33)"
      "keeps R (cso_ReadStateByConversationAndDevice S x34 x35)" "keeps R (cso_ReadStatesByDevice S x36)"
      "keeps R (cso_ConversationCountersByAccount S x37 x38)" "keeps R (cso_SaveSyncState S x39)"
      "keeps R (cso_SyncStateByDevice S x40)" "keeps R (cso_SaveEvent S x41)"
      "keeps R (cso_EventsAfterSequence S x42 x43 x44)" "keeps R (cso_SaveModerationPolicy S x45)"
      "keeps R (cso_ModerationPolicyByTarget S x46 x47)" "keeps R (cso_SaveModerationReport S x48)"
      "keeps R (cso_ModerationReportByID S x49)" "keeps R (cso_ModerationReportsByTarget S x50 x51)"
      "keeps R (cso_SaveModerationAction S x52)" "keeps R (cso_ModerationActionsByTarget S x53 x54)"
      "keeps R (cso_SaveModerationRestriction S x55)" "keeps R (cso_ModerationRestrictionByTargetAndAccount S x56 x57 x58)"
      "keeps R (cso_ModerationRestrictionsByTarget S x59 x60)" "keeps R (cso_DeleteModerationRestriction S x61 x62 x63)"
      "keeps R (cso_SaveModerationRateState S x64)" "keeps R (cso_ModerationRateStateByTargetAndAccount S x65 x66 x67)"
begin

lemma preorder_world [keeps_rules]: "preorder_on_states (on_world R)"
  by (rule preorder_on_world [OF preorder])

lemmas keeps_store [keeps_rules] = preorder store_keeps

lemma keeps_context [keeps_rules]: "keeps (on_world R) (conv_validateContext ctx operation)"
  by (simp add: conv_validateContext_def keeps_pure(3) preorder_world)

lemma keeps_runTx [keeps_rules]: "keeps (on_world R) m \<Longrightarrow> keeps (on_world R) (runTx ctx m)"
  unfolding runTx_def by (intro keeps_rules)

lemma keeps_ids [keeps_rules]:
  "keeps (on_world R) (conv_newID pre)" "keeps (on_world R) (conv_randomToken n)" "keeps (on_world R) eventID"
  unfolding conv_newID_def conv_randomToken_def eventID_def
  by (intro keeps_rules keeps_random_id keeps_random_token preorder)+

lemma keeps_action_id [keeps_rules]: "keeps (on_world R) new_action_id"
  unfolding new_action_id_def by (intro keeps_rules)

lemma keeps_or_zero [keeps_rules]: "keeps (on_world R) m \<Longrightarrow> keeps (on_world R) (or_zero missing what zero m)"
  unfolding or_zero_def by (intro keeps_rules)

lemma keeps_indexing [keeps_rules]: "keeps (on_world R) (indexing sv call)"
  using preorder by (auto simp: keeps_def indexing_def on_world_def preorder_on_states_def)

lemma keeps_policies [keeps_rules]:
  assumes S: "csv_store sv = S"
  shows "keeps (on_world R) (loadConversationActor sv x1 x2)"
    "keeps (on_world R) (appendConversationEvent sv c x3 x4 x5 x6 x7 x8)"
    "keeps (on_world R) (indexConversation sv c ms)"
    "keeps (on_world R) (indexConversationByID sv x9)"
    "keeps (on_world R) (indexTopic sv t)" "keeps (on_world R) (indexMessage sv m)"
    "keeps (on_world R) (deleteMessageIndex sv m)"
    "keeps (on_world R) (policyForConversation sv c x10)"
    "keeps (on_world R) (lookupModerationConversation sv x11 x12)"
    "keeps (on_world R) (moderation_member sv x13 c x14)"
    "keeps (on_world R) (saveModerationAction sv x15 x16)"
  unfolding loadConversationActor_def appendConversationEvent_def indexConversation_def
    indexConversationByID_def indexTopic_def indexMessage_def deleteMessageIndex_def
    policyForConversation_def lookupModerationConversation_def moderation_member_def
    saveModerationAction_def Let_def S
  by (intro keeps_rules)+

lemma keeps_policy_writes [keeps_rules]:
  assumes S: "csv_store sv = S"
  shows "keeps (on_world R) (existingModerationPolicy sv c x1 x2)"
    "keeps (on_world R) (saveModerationActionWithSyncEvent sv x3 x4 x5)"
  unfolding existingModerationPolicy_def saveModerationActionWithSyncEvent_def S
  by (intro keeps_rules S)+

lemma keeps_moderation [keeps_rules]:
  assumes S: "csv_store sv = S"
  shows "keeps (on_world R) (SetModerationPolicy sv clock ctx p1)"
    "keeps (on_world R) (LogModerationAction sv clock ctx p2)"
    "keeps (on_world R) (ApplyModerationRestriction sv clock ctx p3)"
    "keeps (on_world R) (LiftModerationRestriction sv clock ctx p4)"
    "keeps (on_world R) (SubmitModerationReport sv clock ctx p5)"
    "keeps (on_world R) (ResolveModerationReport sv clock ctx p6)"
    "keeps (on_world R) (RecordModerationWrite sv ctx p7)"
    "keeps (on_world R) (svc_ModerationPolicyByTarget sv ctx x1 x2)"
    "keeps (on_world R) (ModerationActionsByTarget sv ctx x3 x4)"
    "keeps (on_world R) (svc_ModerationRestrictionByTargetAndAccount sv ctx x5 x6 x7)"
    "keeps (on_world R) (svc_ModerationRestrictionsByTarget sv ctx x8 x9)"
    "keeps (on_world R) (svc_ModerationRateStateByTargetAndAccount sv ctx x10 x11 x12)"
    "keeps (on_world R) (svc_ModerationReportByID sv ctx x13)"
    "keeps (on_world R) (svc_ModerationReportsByTarget sv ctx x14 x15)"
    "keeps (on_world R) (restriction_lookup sv now x16 x17 x18)"
  unfolding SetModerationPolicy_def LogModerationAction_def ApplyModerationRestriction_def
    LiftModerationRestriction_def SubmitModerationReport_def ResolveModerationReport_def
    RecordModerationWrite_def svc_ModerationPolicyByTarget_def ModerationActionsByTarget_def
    svc_ModerationRestrictionByTargetAndAccount_def svc_ModerationRestrictionsByTarget_def
    svc_ModerationRateStateByTargetAndAccount_def svc_ModerationReportByID_def
    svc_ModerationReportsByTarget_def restriction_lookup_def S
  by (intro keeps_rules S)+

lemma keeps_check [keeps_rules]:
  assumes S: "csv_store sv = S"
  shows "keeps (on_world R) (write_restriction sv now p)" "keeps (on_world R) (checkModerationWrite sv ctx p)"
proof -
  show restriction: "keeps (on_world R) (write_restriction sv now p)" for now p
    unfolding write_restriction_def by (intro keeps_rules S)
  show "keeps (on_world R) (checkModerationWrite sv ctx p)"
    unfolding checkModerationWrite_def S by (intro keeps_rules restriction)
qed

lemma keeps_member_steps [keeps_rules]:
  assumes S: "csv_store sv = S"
  shows "keeps (on_world R) (create_tx sv p1 x1 x2 x3)"
    "keeps (on_world R) (decorateConversationCounters sv x4 x5)"
    "keeps (on_world R) (upsertConversationMember sv x6 x7)"
    "keeps (on_world R) (remove_member sv c a x8 x9 x10 x11)"
    "keeps (on_world R) (invite_actor sv x12 x13 x14)"
  unfolding create_tx_def decorateConversationCounters_def upsertConversationMember_def remove_member_def invite_actor_def Let_def S
  by (intro keeps_rules S)+

lemma keeps_add_member [keeps_rules]:
  assumes S: "csv_store sv = S"
  shows "keeps (on_world R) (add_member sv c x1 x2 x3 x4)"
  unfolding add_member_def Let_def S
  by (intro keeps_rules S)+

lemma keeps_members [keeps_rules]:
  assumes S: "csv_store sv = S"
  shows "keeps (on_world R) (CreateConversation sv ctx p0)"
    "keeps (on_world R) (GetConversation sv ctx p1)"
    "keeps (on_world R) (ListConversations sv ctx p2)"
    "keeps (on_world R) (UpdateConversation sv ctx p3)"
    "keeps (on_world R) (PublishConversationUpdate sv ctx p4)"
    "keeps (on_world R) (AddMembers sv ctx p5)"
    "keeps (on_world R) (RemoveMembers sv ctx p6)"
    "keeps (on_world R) (UpdateMemberRole sv ctx p7)"
    "keeps (on_world R) (ListMembers sv ctx p8)"
    "keeps (on_world R) (CreateInvite sv ctx p9)"
    "keeps (on_world R) (ListInvites sv ctx p10)"
    "keeps (on_world R) (RevokeInvite sv ctx p11)"
  unfolding CreateConversation_def GetConversation_def ListConversations_def UpdateConversation_def PublishConversationUpdate_def AddMembers_def RemoveMembers_def UpdateMemberRole_def ListMembers_def CreateInvite_def ListInvites_def RevokeInvite_def Let_def S
  by (intro keeps_rules S)+

lemma keeps_topic_steps [keeps_rules]:
  assumes S: "csv_store sv = S"
  shows "keeps (on_world R) (finish_topic sv x1 x2 c x3 x4 t x5 x6)"
  unfolding finish_topic_def Let_def S
  by (intro keeps_rules S)+

lemma keeps_topic_tx [keeps_rules]:
  assumes S: "csv_store sv = S"
  shows "keeps (on_world R) (update_topic_tx sv x1 x2 x3 x4 change)"
  unfolding update_topic_tx_def Let_def S
  by (intro keeps_rules S)+

lemma keeps_update_topic [keeps_rules]:
  assumes S: "csv_store sv = S"
  shows "keeps (on_world R) (updateTopic sv ctx x1 x2 x3 x4 x5 change)"
  unfolding updateTopic_def Let_def S
  by (intro keeps_rules S)+

lemma keeps_topics [keeps_rules]:
  assumes S: "csv_store sv = S"
  shows "keeps (on_world R) (CreateTopic sv ctx p0)"
    "keeps (on_world R) (GetTopic sv ctx p1)"
    "keeps (on_world R) (ListTopics sv ctx p2)"
    "keeps (on_world R) (RenameTopic sv ctx p3)"
    "keeps (on_world R) (ArchiveTopic sv ctx p4)"
    "keeps (on_world R) (CloseTopic sv ctx p5)"
    "keeps (on_world R) (PinTopic sv ctx p6)"
  unfolding CreateTopic_def GetTopic_def ListTopics_def RenameTopic_def ArchiveTopic_def CloseTopic_def PinTopic_def Let_def S
  by (intro keeps_rules S)+

lemma keeps_verdict_ok [keeps_rules]: "keeps (on_world R) (verdict_ok v)"
  unfolding verdict_ok_def by (intro keeps_rules)

lemma keeps_message_steps [keeps_rules]:
  assumes S: "csv_store sv = S"
  shows "keeps (on_world R) (check_mentions sv x1 x2)"
    "keeps (on_world R) (check_reply_target sv c t m)"
    "keeps (on_world R) (resolve_reply sv c t x3)"
    "keeps (on_world R) (publishMessage sv pp)"
    "keeps (on_world R) (markScheduledMessageFailed sv m x4 x5)"
    "keeps (on_world R) (rescheduleScheduledMessage sv m x6)"
  unfolding check_mentions_def check_reply_target_def resolve_reply_def publishMessage_def markScheduledMessageFailed_def rescheduleScheduledMessage_def Let_def S
  by (intro keeps_rules S)+

lemma keeps_validate [keeps_rules]:
  assumes S: "csv_store sv = S"
  shows "keeps (on_world R) (validateMessageForPublication sv ctx m x1)"
  unfolding validateMessageForPublication_def Let_def S
  by (intro keeps_rules S)+

lemma keeps_send_tx [keeps_rules]:
  assumes S: "csv_store sv = S"
  shows "keeps (on_world R) (send_tx sv ctx p x1 x2)"
    "keeps (on_world R) (dispatch_message sv ctx x3 m)"
    "keeps (on_world R) (index_dispatched sv x4)"
  unfolding send_tx_def dispatch_message_def index_dispatched_def Let_def S
  by (intro keeps_rules S)+

lemma keeps_send [keeps_rules]:
  assumes S: "csv_store sv = S"
  shows "keeps (on_world R) (SendMessage sv ctx p)"
  unfolding SendMessage_def Let_def S
  by (intro keeps_rules S)+

lemma keeps_messages [keeps_rules]:
  assumes S: "csv_store sv = S"
  shows "keeps (on_world R) (ReplyMessage sv ctx p0)"
    "keeps (on_world R) (GetMessage sv ctx p1)"
    "keeps (on_world R) (ListMessages sv ctx p2)"
    "keeps (on_world R) (ListScheduledMessages sv ctx p3)"
    "keeps (on_world R) (DispatchDueMessages sv ctx x1 x2)"
    "keeps (on_world R) (CheckModerationWrite sv ctx x3)"
  unfolding ReplyMessage_def GetMessage_def ListMessages_def ListScheduledMessages_def DispatchDueMessages_def CheckModerationWrite_def Let_def S
  by (intro keeps_rules S)+

lemma keeps_action_steps [keeps_rules]:
  assumes S: "csv_store sv = S"
  shows "keeps (on_world R) (loadMessageActionState sv ctx x1 x2 x3 x4)"
    "keeps (on_world R) (finalizeMessageAction sv st x5 ev)"
    "keeps (on_world R) (save_message_event sv x6 x7 c x8 x9 x10 x11 x12 x13)"
    "keeps (on_world R) (reaction_guard sv ctx st x14 x15)"
  unfolding loadMessageActionState_def finalizeMessageAction_def save_message_event_def reaction_guard_def Let_def S
  by (intro keeps_rules S)+

lemma keeps_finish_reaction [keeps_rules]:
  assumes S: "csv_store sv = S"
  shows "keeps (on_world R) (finish_reaction sv st x1 x2 x3 x4 x5 x6)"
  unfolding finish_reaction_def Let_def S
  by (intro keeps_rules S)+

lemma keeps_action_tx [keeps_rules]:
  assumes S: "csv_store sv = S"
  shows "keeps (on_world R) (edit_tx sv ctx p1 x1)"
    "keeps (on_world R) (delete_tx sv ctx p2 x2)"
    "keeps (on_world R) (pin_tx sv ctx p3 x3)"
    "keeps (on_world R) (add_reaction_tx sv ctx p4 x4)"
    "keeps (on_world R) (remove_reaction_tx sv ctx p5 x5)"
  unfolding edit_tx_def delete_tx_def pin_tx_def add_reaction_tx_def remove_reaction_tx_def Let_def S
  by (intro keeps_rules S)+

lemma keeps_actions [keeps_rules]:
  assumes S: "csv_store sv = S"
  shows "keeps (on_world R) (EditMessage sv ctx p0)"
    "keeps (on_world R) (DeleteMessage sv ctx p1)"
    "keeps (on_world R) (PinMessage sv ctx p2)"
    "keeps (on_world R) (AddMessageReaction sv ctx p3)"
    "keeps (on_world R) (RemoveMessageReaction sv ctx p4)"
  unfolding EditMessage_def DeleteMessage_def PinMessage_def AddMessageReaction_def RemoveMessageReaction_def Let_def S
  by (intro keeps_rules S)+

lemma keeps_read_state [keeps_rules]:
  assumes S: "csv_store sv = S"
  shows "keeps (on_world R) (device_read_state sv x1 x2 x3)"
  unfolding device_read_state_def Let_def S
  by (intro keeps_rules S)+

lemma keeps_sync [keeps_rules]:
  assumes S: "csv_store sv = S"
  shows "keeps (on_world R) (RecordDelivery sv ctx p0)"
    "keeps (on_world R) (MarkRead sv ctx p1)"
    "keeps (on_world R) (GetSyncState sv ctx p2)"
  unfolding RecordDelivery_def MarkRead_def GetSyncState_def Let_def S
  by (intro keeps_rules S)+

lemma keeps_cursors [keeps_rules]:
  assumes S: "csv_store sv = S"
  shows "keeps (on_world R) (PullEvents sv ctx p0)"
    "keeps (on_world R) (AcknowledgeEvents sv ctx p1)"
    "keeps (on_world R) (PublishUserUpdate sv ctx p2)"
  unfolding PullEvents_def AcknowledgeEvents_def PublishUserUpdate_def Let_def S
  by (intro keeps_rules S)+

lemma keeps_silent [keeps_rules]: "keeps (on_world R) m \<Longrightarrow> keeps (on_world R) (silent m)"
  unfolding silent_def by (intro keeps_rules)

text \<open>Whatever a call does, returns or fails with, the stores before and after are related.\<close>

lemma keeps_request: "csv_store sv = S \<Longrightarrow> keeps (on_world R) (run_request sv clock ctx req)"
  by (cases req; simp only: run_request.simps; intro keeps_rules; assumption)

end

text \<open>A history over stores that all keep the relation; the stores may read different clocks.\<close>

lemma calls_related:
  assumes pre: "preorder_on_states R"
    and steps: "\<And>c. c \<in> set cs \<Longrightarrow> conversation_steps (csv_store (call_service c)) R"
  shows "R (w_store w) (w_store (run_calls cs w))"
  using steps
proof (induction cs arbitrary: w)
  case Nil
  then show ?case using pre by (simp add: preorder_on_states_def)
next
  case (Cons c cs)
  let ?m = "run_request (call_service c) (call_clock c) (call_context c) (call_request c)"
  obtain r w1 where run: "?m w = (r, w1)" by fastforce
  have "keeps (on_world R) ?m"
    by (rule conversation_steps.keeps_request [OF Cons.prems]) simp_all
  then have "on_world R w w1" using run by (rule keepsD)
  moreover have "R (w_store w1) (w_store (run_calls cs w1))" by (rule Cons.IH) (simp add: Cons.prems)
  ultimately show ?case using pre run unfolding preorder_on_states_def on_world_def by auto
qed

end
