(* ===== verification/GatewaySync.thy ===== *)
theory GatewaySync
  imports ConvRequests
begin

section \<open>Synchronisation over the gateway (\<open>internal/app/gateway/sync.go\<close>, \<open>realtime.go\<close>)\<close>

text \<open>
  The handlers through which devices read the event log: one page (\<open>PullEvents\<close>), and the
  stream (\<open>SubscribeEvents\<close>), which replays the log and is woken by signals of the process.
  The authentication is done by the identity domain: its outcome, the account and the device or
  an error, is an argument. The conversion of records to protocol messages and of errors to
  status codes is left out: the handlers return the records and errors themselves.
\<close>

record auth_context =
  auth_AccountID :: string
  auth_DeviceID :: string

subsection \<open>Pages\<close>

record pull_request =
  prq_DeviceId :: string
  prq_FromSequence :: uint64
  prq_Page :: "32 word option"
  prq_ConversationIds :: "string list"
  prq_IncludePresence :: bool
  prq_IncludeModeration :: bool

record pull_response =
  prs_Events :: "conv_event list"
  prs_NextSequence :: uint64
  prs_HasMore :: bool
  prs_State :: sync_state

definition defaultPageSize :: int where
  "defaultPageSize = 50"

definition maxPageSize :: int where
  "maxPageSize = 200"

text \<open>The size field of an optional page request.\<close>

definition pageSize :: "32 word option \<Rightarrow> int" where
  "pageSize page = (case page of
       None \<Rightarrow> defaultPageSize
     | Some n \<Rightarrow>
         if n = 0 then defaultPageSize
         else if maxPageSize < uint n then maxPageSize
         else uint n)"

definition syncPullBatchLimit :: "int \<Rightarrow> int" where
  "syncPullBatchLimit limit =
     (if limit \<le> 0 then 128
      else if limit < 32 then 32
      else if 128 < limit then limit
      else limit * 4)"

definition syncDeviceID :: "auth_context \<Rightarrow> string \<Rightarrow> error + string" where
  "syncDeviceID auth requested =
     (if requested = [] \<or> requested = auth_DeviceID auth then Inr (auth_DeviceID auth)
      else Inl ConvErrForbidden)"

definition includeSyncEvent :: "conv_event \<Rightarrow> bool \<Rightarrow> bool \<Rightarrow> bool" where
  "includeSyncEvent e includePresence includeModeration =
     (if ev_EventType e = EventTypeUserUpdated \<and> ev_PayloadType e = ''presence'' then includePresence
      else if ev_EventType e = EventTypeAdminActionRecorded \<and> ev_PayloadType e = ''moderation_action''
        then includeModeration
      else True)"

text \<open>The loop over batches; the response holds the state of the loop.\<close>

fun pull_batches ::
    "'s conv_service \<Rightarrow> go_context \<Rightarrow> string \<Rightarrow> string \<Rightarrow> pull_request \<Rightarrow> nat \<Rightarrow> pull_response \<Rightarrow>
     ('s conv_world, pull_response) io" where
  "pull_batches sv ctx accountID deviceID req 0 r = ret r"
| "pull_batches sv ctx accountID deviceID req (Suc n) r =
     (let limit = pageSize (prq_Page req); rawBatchLimit = syncPullBatchLimit limit in
      if limit \<le> int (length (prs_Events r)) then ret r
      else andThen (PullEvents sv ctx \<lparr>pep_AccountID = accountID, pep_DeviceID = deviceID,
          pep_FromSequence = prs_NextSequence r, pep_Limit = rawBatchLimit,
          pep_ConversationIDs = prq_ConversationIds req\<rparr>) (\<lambda>(events, state).
        if events = [] then ret (r\<lparr>prs_HasMore := False, prs_State := state\<rparr>)
        else
          let rows = List.filter (\<lambda>e. includeSyncEvent e (prq_IncludePresence req) (prq_IncludeModeration req)) events;
            r' = r\<lparr>prs_Events := prs_Events r @ take (nat limit - length (prs_Events r)) rows,
              prs_NextSequence := ev_Sequence (last events),
              prs_HasMore := int (length events) = rawBatchLimit,
              prs_State := state\<rparr> in
          if int (length events) < rawBatchLimit then ret r'
          else pull_batches sv ctx accountID deviceID req n r'))"

definition maxPullBatches :: nat where
  "maxPullBatches = 8"

definition gateway_PullEvents ::
    "'s conv_service \<Rightarrow> go_context \<Rightarrow> error + auth_context \<Rightarrow> pull_request \<Rightarrow> ('s conv_world, pull_response) io" where
  "gateway_PullEvents sv ctx requireAuth req =
     andThen (of_result requireAuth) (\<lambda>auth.
     andThen (of_result (syncDeviceID auth (prq_DeviceId req))) (\<lambda>deviceID.
     pull_batches sv ctx (auth_AccountID auth) deviceID req maxPullBatches
       \<lparr>prs_Events = [], prs_NextSequence = prq_FromSequence req, prs_HasMore = False,
        prs_State = zero_sync_state\<rparr>))"

subsection \<open>Signals\<close>

text \<open>
  A signal carries an event or nothing; a synthetic one is not in the log. A subscriber is its
  channel, the list of the signals that wait in it; a full channel drops what is sent to it.
\<close>

record sync_signal =
  sig_event :: "conv_event option"
  sig_synthetic :: bool

type_synonym sync_notifier = "(nat \<times> sync_signal list) list"

definition signalBuffer :: nat where
  "signalBuffer = 32"

definition subscribe :: "nat \<Rightarrow> sync_notifier \<Rightarrow> sync_notifier" where
  "subscribe channel n = put channel [] n"

definition unsubscribe :: "nat \<Rightarrow> sync_notifier \<Rightarrow> sync_notifier" where
  "unsubscribe channel n = remove channel n"

definition broadcast :: "sync_signal \<Rightarrow> sync_notifier \<Rightarrow> sync_notifier" where
  "broadcast signal n = map_entries (\<lambda>_ waiting.
     if length waiting < signalBuffer then waiting @ [signal] else waiting) n"

definition notify :: "sync_notifier \<Rightarrow> sync_notifier" where
  "notify n = broadcast \<lparr>sig_event = None, sig_synthetic = False\<rparr> n"

definition publish_signal :: "conv_event \<Rightarrow> sync_notifier \<Rightarrow> sync_notifier" where
  "publish_signal e n = (if ev_EventID e = [] then n
     else broadcast \<lparr>sig_event = Some e, sig_synthetic = False\<rparr> n)"

definition publishSynthetic :: "conv_event \<Rightarrow> sync_notifier \<Rightarrow> sync_notifier" where
  "publishSynthetic e n = (if ev_EventID e = [] then n
     else broadcast \<lparr>sig_event = Some e, sig_synthetic = True\<rparr> n)"

definition publishSyncEvents :: "conv_event list \<Rightarrow> sync_notifier \<Rightarrow> sync_notifier" where
  "publishSyncEvents events n = fold (\<lambda>e n. if ev_EventID e = [] then n else publish_signal e n) events n"

subsection \<open>The stream\<close>

record subscribe_request =
  sbr_DeviceId :: string
  sbr_FromSequence :: uint64
  sbr_ConversationIds :: "string list"
  sbr_IncludePresence :: bool
  sbr_IncludeModeration :: bool

definition syncConversationAllowed :: "string \<Rightarrow> string list \<Rightarrow> bool" where
  "syncConversationAllowed conversationID allowed \<longleftrightarrow> allowed = [] \<or>
     list_ex (\<lambda>candidate. trim_space candidate = trim_space conversationID) allowed"

text \<open>
  What the client of a stream has received, each event with the mark of a synthetic signal,
  beside the world. The transport decides whether an event can be sent.
\<close>

type_synonym 's stream_world = "'s conv_world \<times> (conv_event \<times> bool) list"

definition in_world :: "('s conv_world, 'a) io \<Rightarrow> ('s stream_world, 'a) io" where
  "in_world m = (\<lambda>(w, sent). case m w of (r, w') \<Rightarrow> (r, (w', sent)))"

definition stream_send :: "(conv_event \<Rightarrow> error option) \<Rightarrow> bool \<Rightarrow> conv_event \<Rightarrow> ('s stream_world, unit) io" where
  "stream_send transport synthetic e = (\<lambda>(w, sent). case transport e of
       None \<Rightarrow> (Inr (), (w, sent @ [(e, synthetic)]))
     | Some err \<Rightarrow> (Inl err, (w, sent)))"

definition sub_includes :: "subscribe_request \<Rightarrow> conv_event \<Rightarrow> bool" where
  "sub_includes req e = includeSyncEvent e (sbr_IncludePresence req) (sbr_IncludeModeration req)"

fun send_backlog ::
    "(conv_event \<Rightarrow> error option) \<Rightarrow> subscribe_request \<Rightarrow> conv_event list \<Rightarrow> uint64 \<Rightarrow> bool \<Rightarrow>
     ('s stream_world, uint64 \<times> bool) io" where
  "send_backlog transport req [] nextSequence sentAny = ret (nextSequence, sentAny)"
| "send_backlog transport req (e # es) nextSequence sentAny =
     (if \<not> sub_includes req e then send_backlog transport req es (ev_Sequence e) sentAny
      else andThen (stream_send transport False e) (\<lambda>_.
        send_backlog transport req es (ev_Sequence e) True))"

definition streamSyncBacklog ::
    "'s conv_service \<Rightarrow> go_context \<Rightarrow> (conv_event \<Rightarrow> error option) \<Rightarrow> subscribe_request \<Rightarrow> string \<Rightarrow> string \<Rightarrow>
     uint64 \<Rightarrow> ('s stream_world, uint64 \<times> bool) io" where
  "streamSyncBacklog sv ctx transport req accountID deviceID fromSequence =
     andThen (in_world (PullEvents sv ctx \<lparr>pep_AccountID = accountID, pep_DeviceID = deviceID,
       pep_FromSequence = fromSequence, pep_Limit = defaultPageSize,
       pep_ConversationIDs = sbr_ConversationIds req\<rparr>)) (\<lambda>(events, _).
     send_backlog transport req events fromSequence False)"

definition tryDirectSyncSignal ::
    "(conv_event \<Rightarrow> error option) \<Rightarrow> subscribe_request \<Rightarrow> uint64 \<Rightarrow> sync_signal \<Rightarrow>
     ('s stream_world, uint64 \<times> bool) io" where
  "tryDirectSyncSignal transport req fromSequence signal =
     (case sig_event signal of
        None \<Rightarrow> ret (fromSequence, False)
      | Some e \<Rightarrow>
          if sig_synthetic signal then
            (if \<not> syncConversationAllowed (ev_ConversationID e) (sbr_ConversationIds req) then ret (fromSequence, False)
             else if \<not> sub_includes req e then ret (fromSequence, False)
             else andThen (stream_send transport True e) (\<lambda>_. ret (fromSequence, True)))
          else if ev_Sequence e \<le> fromSequence then ret (fromSequence, False)
          else if ev_Sequence e \<noteq> fromSequence + 1 then ret (fromSequence, False)
          else if \<not> syncConversationAllowed (ev_ConversationID e) (sbr_ConversationIds req) then ret (fromSequence, False)
          else if \<not> sub_includes req e then ret (fromSequence, False)
          else andThen (stream_send transport False e) (\<lambda>_. ret (ev_Sequence e, True)))"

text \<open>
  One turn of the loop of \<open>SubscribeEvents\<close>: what other requests do to the world before it, the
  service it meets (its clock), and what the wait yields if the turn gets there. The context of
  the stream is done when the wait ends with \<open>StreamDone\<close>; an error of the backlog ends the
  stream, silently if the context is done by then.
\<close>

datatype wakeup = StreamDone | Signal sync_signal | ReconcileTick

record 's stream_turn =
  turn_calls :: "'s conv_call list"
  turn_service :: "'s conv_service"
  turn_context :: go_context
  turn_wakeup :: wakeup

definition done_context :: "go_context \<Rightarrow> bool" where
  "done_context ctx = (case ctx of DoneContext _ \<Rightarrow> True | _ \<Rightarrow> False)"

definition stream_turn_step ::
    "(conv_event \<Rightarrow> error option) \<Rightarrow> subscribe_request \<Rightarrow> string \<Rightarrow> string \<Rightarrow> 's stream_turn \<Rightarrow> uint64 \<Rightarrow>
     ('s stream_world, uint64 \<times> bool) io" where
  "stream_turn_step transport req accountID deviceID turn fromSequence = (\<lambda>(w, sent).
     andThen (attempt (streamSyncBacklog (turn_service turn) (turn_context turn) transport req accountID deviceID fromSequence))
       (\<lambda>r. case r of
         Inl e \<Rightarrow> if done_context (turn_context turn) then ret (fromSequence, False) else raise e
       | Inr (nextSequence, sentAny) \<Rightarrow>
           let from' = (if fromSequence < nextSequence then nextSequence else fromSequence) in
           if sentAny then ret (from', True)
           else case turn_wakeup turn of
               StreamDone \<Rightarrow> ret (from', False)
             | Signal signal \<Rightarrow>
                 andThen (tryDirectSyncSignal transport req from' signal) (\<lambda>(directNext, sentDirect).
                 ret (if sentDirect then directNext else from', True))
             | ReconcileTick \<Rightarrow> ret (from', True)) (run_calls (turn_calls turn) w, sent))"

text \<open>The loop over the turns; the result is the sequence number it has reached.\<close>

fun stream_turns ::
    "(conv_event \<Rightarrow> error option) \<Rightarrow> subscribe_request \<Rightarrow> string \<Rightarrow> string \<Rightarrow> 's stream_turn list \<Rightarrow> uint64 \<Rightarrow>
     ('s stream_world, uint64) io" where
  "stream_turns transport req accountID deviceID [] fromSequence = ret fromSequence"
| "stream_turns transport req accountID deviceID (t # ts) fromSequence =
     andThen (stream_turn_step transport req accountID deviceID t fromSequence) (\<lambda>(from', going).
     if going then stream_turns transport req accountID deviceID ts from' else ret from')"

definition SubscribeEvents ::
    "(conv_event \<Rightarrow> error option) \<Rightarrow> error + auth_context \<Rightarrow> subscribe_request \<Rightarrow> 's stream_turn list \<Rightarrow>
     ('s stream_world, uint64) io" where
  "SubscribeEvents transport requireAuth req turns =
     andThen (of_result requireAuth) (\<lambda>auth.
     andThen (of_result (syncDeviceID auth (sbr_DeviceId req))) (\<lambda>deviceID.
     stream_turns transport req (auth_AccountID auth) deviceID turns (sbr_FromSequence req)))"

end
