(* ===== verification/ConvMemory.thy ===== *)
theory ConvMemory
  imports ConvStore "HOL-Library.Product_Lexorder"
begin

section \<open>The in-memory conversation store (\<open>internal/domain/conversation/teststore\<close>)\<close>

text \<open>
  Fourteen Go maps, the order of the events and the last sequence number behind a mutex. The
  lock makes each method a function of the state; a transaction runs on a clone that replaces
  the maps at the end, which is \<open>within_tx\<close>, and the clones of records are copies of values.
  \<open>clock\<close> is the reading of \<open>time.Now().UTC()\<close>. Every sort of a listing ends in the
  identifier, so its order is fixed.
\<close>

record cmem =
  cm_conversationsByID :: "(string, conversation) gomap"
  cm_topicsByKey :: "(string, topic) gomap"
  cm_membersByKey :: "(string, conv_member) gomap"
  cm_invitesByKey :: "(string, conv_invite) gomap"
  cm_messagesByID :: "(string, message) gomap"
  cm_reactionsByKey :: "(string, msg_reaction) gomap"
  cm_readStatesByKey :: "(string, read_state) gomap"
  cm_syncStatesByDevice :: "(string, sync_state) gomap"
  cm_eventsByID :: "(string, conv_event) gomap"
  cm_moderationPoliciesByKey :: "(string, mod_policy) gomap"
  cm_moderationReportsByID :: "(string, mod_report) gomap"
  cm_moderationActionsByID :: "(string, mod_action) gomap"
  cm_moderationRestrictions :: "(string, restriction) gomap"
  cm_moderationRateStates :: "(string, rate_state) gomap"
  cm_eventOrder :: "string list"
  cm_nextSequence :: uint64

definition cm_NewMemoryStore :: cmem where
  "cm_NewMemoryStore = \<lparr>cm_conversationsByID = [], cm_topicsByKey = [], cm_membersByKey = [],
     cm_invitesByKey = [], cm_messagesByID = [], cm_reactionsByKey = [], cm_readStatesByKey = [],
     cm_syncStatesByDevice = [], cm_eventsByID = [], cm_moderationPoliciesByKey = [],
     cm_moderationReportsByID = [], cm_moderationActionsByID = [], cm_moderationRestrictions = [],
     cm_moderationRateStates = [], cm_eventOrder = [], cm_nextSequence = 0\<rparr>"

definition conversationMemberKey :: "string \<Rightarrow> string \<Rightarrow> string" where
  "conversationMemberKey conversationID accountID = conversationID @ ''|'' @ accountID"

definition topicKey :: "string \<Rightarrow> string \<Rightarrow> string" where
  "topicKey conversationID topicID = conversationID @ ''|'' @ topicID"

definition inviteKey :: "string \<Rightarrow> string \<Rightarrow> string" where
  "inviteKey conversationID inviteID = conversationID @ ''|'' @ inviteID"

definition readStateKey :: "string \<Rightarrow> string \<Rightarrow> string \<Rightarrow> string" where
  "readStateKey conversationID accountID deviceID =
     conversationID @ ''|'' @ accountID @ ''|'' @ deviceID"

definition reactionKey :: "string \<Rightarrow> string \<Rightarrow> string" where
  "reactionKey messageID accountID = messageID @ ''|'' @ accountID"

definition moderationPolicyKey :: "ModerationTargetKind \<Rightarrow> string \<Rightarrow> string" where
  "moderationPolicyKey targetKind targetID = trim_space targetKind @ ''|'' @ trim_space targetID"

definition moderationRestrictionKey :: "ModerationTargetKind \<Rightarrow> string \<Rightarrow> string \<Rightarrow> string" where
  "moderationRestrictionKey targetKind targetID accountID =
     moderationPolicyKey targetKind targetID @ ''|'' @ trim_space accountID"

definition topicModerationTargetID :: "string \<Rightarrow> string \<Rightarrow> string" where
  "topicModerationTargetID conversationID topicID =
     trim_space conversationID @ [CHR 0x1F] @ trim_space topicID"

subsection \<open>Conversations, members and invites\<close>

definition cm_SaveConversation :: "conversation \<Rightarrow> (cmem, conversation) io" where
  "cm_SaveConversation c = (\<lambda>s.
     if trim_space (conv_ID c) = [] then (Inl ConvErrInvalidInput, s)
     else (Inr c, s\<lparr>cm_conversationsByID := put (conv_ID c) c (cm_conversationsByID s)\<rparr>))"

definition cm_ConversationByID :: "string \<Rightarrow> (cmem, conversation) io" where
  "cm_ConversationByID conversationID = (\<lambda>s.
     let i = trim_space conversationID in
     if i = [] then (Inl ConvErrNotFound, s)
     else conv_found_or (lookup (cm_conversationsByID s) i) s)"

text \<open>The conversations of the account's active memberships, each once.\<close>

definition account_conversations :: "cmem \<Rightarrow> string \<Rightarrow> conversation list" where
  "account_conversations s accountID =
     List.map_filter (lookup (cm_conversationsByID s))
       (keep_first [] (List.map cmem_ConversationID
         (List.filter (\<lambda>m. \<not> (cmem_AccountID m \<noteq> accountID \<or> cmem_LeftAt m \<noteq> zero_time \<or> cmem_Banned m))
           (entries (cm_membersByKey s)))))"

definition conversation_order :: "conversation \<Rightarrow> int \<times> int \<times> string" where
  "conversation_order c = (- uint (conv_LastSequence c), - conv_UpdatedAt c, conv_ID c)"

definition cm_ConversationsByAccountID :: "string \<Rightarrow> (cmem, conversation list) io" where
  "cm_ConversationsByAccountID accountID0 = (\<lambda>s.
     let accountID = trim_space accountID0 in
     if accountID = [] then (Inl ConvErrInvalidInput, s)
     else (Inr (sort_key conversation_order (account_conversations s accountID)), s))"

definition cm_SaveConversationMember :: "conv_member \<Rightarrow> (cmem, conv_member) io" where
  "cm_SaveConversationMember m0 = (\<lambda>s.
     let m = m0\<lparr>cmem_ConversationID := trim_space (cmem_ConversationID m0),
         cmem_AccountID := trim_space (cmem_AccountID m0)\<rparr> in
     if cmem_ConversationID m = [] \<or> cmem_AccountID m = [] then (Inl ConvErrInvalidInput, s)
     else (Inr m, s\<lparr>cm_membersByKey :=
       put (conversationMemberKey (cmem_ConversationID m) (cmem_AccountID m)) m (cm_membersByKey s)\<rparr>))"

definition cm_ConversationMemberByConversationAndAccount ::
    "string \<Rightarrow> string \<Rightarrow> (cmem, conv_member) io" where
  "cm_ConversationMemberByConversationAndAccount conversationID accountID = (\<lambda>s.
     conv_found_or (lookup (cm_membersByKey s)
       (conversationMemberKey (trim_space conversationID) (trim_space accountID))) s)"

definition cm_ConversationMembersByConversationID :: "string \<Rightarrow> (cmem, conv_member list) io" where
  "cm_ConversationMembersByConversationID conversationID0 = (\<lambda>s.
     let conversationID = trim_space conversationID0 in
     if conversationID = [] then (Inl ConvErrInvalidInput, s)
     else (Inr (List.filter (\<lambda>m. cmem_ConversationID m = conversationID)
       (entries (cm_membersByKey s))), s))"

definition cm_SaveConversationInvite :: "conv_invite \<Rightarrow> (cmem, conv_invite) io" where
  "cm_SaveConversationInvite i0 = (\<lambda>s.
     let i = i0\<lparr>cinv_ConversationID := trim_space (cinv_ConversationID i0),
         cinv_ID := trim_space (cinv_ID i0),
         cinv_Code := trim_space (cinv_Code i0)\<rparr> in
     if cinv_ConversationID i = [] \<or> cinv_ID i = [] \<or> cinv_Code i = [] \<or> cinv_AllowedRoles i = []
       then (Inl ConvErrInvalidInput, s)
     else (Inr i, s\<lparr>cm_invitesByKey :=
       put (inviteKey (cinv_ConversationID i) (cinv_ID i)) i (cm_invitesByKey s)\<rparr>))"

definition cm_ConversationInviteByConversationAndID :: "string \<Rightarrow> string \<Rightarrow> (cmem, conv_invite) io" where
  "cm_ConversationInviteByConversationAndID conversationID inviteID = (\<lambda>s.
     conv_found_or (lookup (cm_invitesByKey s)
       (inviteKey (trim_space conversationID) (trim_space inviteID))) s)"

definition invite_order :: "conv_invite \<Rightarrow> int \<times> string" where
  "invite_order i = (- cinv_CreatedAt i, cinv_ID i)"

definition cm_ConversationInvitesByConversationID :: "string \<Rightarrow> (cmem, conv_invite list) io" where
  "cm_ConversationInvitesByConversationID conversationID0 = (\<lambda>s.
     let conversationID = trim_space conversationID0 in
     if conversationID = [] then (Inl ConvErrInvalidInput, s)
     else (Inr (sort_key invite_order (List.filter (\<lambda>i. cinv_ConversationID i = conversationID)
       (entries (cm_invitesByKey s)))), s))"

subsection \<open>Topics\<close>

definition cm_SaveTopic :: "topic \<Rightarrow> (cmem, topic) io" where
  "cm_SaveTopic t0 = (\<lambda>s.
     let t = t0\<lparr>top_ConversationID := trim_space (top_ConversationID t0),
         top_ID := trim_space (top_ID t0),
         top_RootMessageID := trim_space (top_RootMessageID t0),
         top_Title := trim_space (top_Title t0),
         top_CreatedByAccountID := trim_space (top_CreatedByAccountID t0)\<rparr> in
     if top_ConversationID t = [] \<or> top_CreatedByAccountID t = [] \<or> top_Title t = []
       then (Inl ConvErrInvalidInput, s)
     else if top_IsGeneral t \<and> top_ID t \<noteq> [] then (Inl ConvErrInvalidInput, s)
     else if top_IsGeneral t \<and> top_RootMessageID t \<noteq> [] then (Inl ConvErrInvalidInput, s)
     else if \<not> top_IsGeneral t \<and> top_ID t = [] then (Inl ConvErrInvalidInput, s)
     else if top_CreatedAt t = zero_time \<or> top_UpdatedAt t = zero_time \<or> top_UpdatedAt t < top_CreatedAt t
       then (Inl ConvErrInvalidInput, s)
     else (Inr t, s\<lparr>cm_topicsByKey := put (topicKey (top_ConversationID t) (top_ID t)) t (cm_topicsByKey s)\<rparr>))"

definition cm_TopicByConversationAndID :: "string \<Rightarrow> string \<Rightarrow> (cmem, topic) io" where
  "cm_TopicByConversationAndID conversationID topicID = (\<lambda>s.
     conv_found_or (lookup (cm_topicsByKey s) (topicKey (trim_space conversationID) (trim_space topicID))) s)"

definition topic_order :: "topic \<Rightarrow> bool \<times> bool \<times> int \<times> int \<times> string" where
  "topic_order t = (\<not> top_IsGeneral t, \<not> top_Pinned t, - uint (top_LastSequence t), - top_UpdatedAt t, top_ID t)"

definition cm_TopicsByConversationID :: "string \<Rightarrow> (cmem, topic list) io" where
  "cm_TopicsByConversationID conversationID0 = (\<lambda>s.
     let conversationID = trim_space conversationID0 in
     if conversationID = [] then (Inl ConvErrInvalidInput, s)
     else (Inr (sort_key topic_order (List.filter (\<lambda>t. top_ConversationID t = conversationID)
       (entries (cm_topicsByKey s)))), s))"

subsection \<open>Messages and reactions\<close>

definition reaction_order :: "msg_reaction \<Rightarrow> int \<times> string" where
  "reaction_order r = (- mreac_UpdatedAt r, mreac_AccountID r)"

definition reactionsByMessageIDs :: "cmem \<Rightarrow> string list \<Rightarrow> string \<Rightarrow> msg_reaction list" where
  "reactionsByMessageIDs s messageIDs i =
     (let allowed = List.filter (\<lambda>v. v \<noteq> []) (List.map trim_space messageIDs) in
      if i \<in> set allowed
      then sort_key reaction_order (List.filter (\<lambda>r. mreac_MessageID r = i) (entries (cm_reactionsByKey s)))
      else [])"

definition with_reactions :: "cmem \<Rightarrow> message list \<Rightarrow> message list" where
  "with_reactions s ms = List.map (\<lambda>m. m\<lparr>msg_Reactions :=
     reactionsByMessageIDs s (List.map msg_ID ms) (msg_ID m)\<rparr>) ms"

definition trimmed_message :: "message \<Rightarrow> message" where
  "trimmed_message m = m\<lparr>msg_ID := trim_space (msg_ID m),
     msg_ConversationID := trim_space (msg_ConversationID m),
     msg_SenderAccountID := trim_space (msg_SenderAccountID m),
     msg_SenderDeviceID := trim_space (msg_SenderDeviceID m),
     msg_MentionAccountIDs := uniqueIDs (msg_MentionAccountIDs m)\<rparr>"

definition cm_SaveMessage :: "message \<Rightarrow> (cmem, message) io" where
  "cm_SaveMessage m0 = (\<lambda>s.
     let m = trimmed_message m0 in
     if msg_ID m = [] \<or> msg_ConversationID m = [] \<or> msg_SenderAccountID m = [] \<or> msg_SenderDeviceID m = []
       then (Inl ConvErrInvalidInput, s)
     else if msg_Kind m = MessageKindUnspecified then (Inl ConvErrInvalidInput, s)
     else if msg_Status m = MessageStatusUnspecified then (Inl ConvErrInvalidInput, s)
     else case ValidateMessagePayload (msg_Payload m) False of
       Inl e \<Rightarrow> (Inl e, s)
     | Inr _ \<Rightarrow>
        let stored = StripMessageHints m;
          s' = s\<lparr>cm_messagesByID := put (msg_ID stored) stored (cm_messagesByID s)\<rparr> in
        (Inr (stored\<lparr>msg_Reactions := reactionsByMessageIDs s' [msg_ID stored] (msg_ID stored)\<rparr>), s'))"

definition cm_MessageByID :: "string \<Rightarrow> string \<Rightarrow> (cmem, message) io" where
  "cm_MessageByID conversationID messageID = (\<lambda>s.
     case lookup (cm_messagesByID s) (trim_space messageID) of
       None \<Rightarrow> (Inl ConvErrNotFound, s)
     | Some m \<Rightarrow>
        if msg_ConversationID m \<noteq> trim_space conversationID then (Inl ConvErrNotFound, s)
        else (Inr (m\<lparr>msg_Reactions := reactionsByMessageIDs s [msg_ID m] (msg_ID m)\<rparr>), s))"

definition message_order :: "message \<Rightarrow> uint64 \<times> int \<times> string" where
  "message_order m = (msg_Sequence m, msg_CreatedAt m, msg_ID m)"

text \<open>\<open>limit > 0\<close> bounds a listing.\<close>

definition limited :: "int \<Rightarrow> 'a list \<Rightarrow> 'a list" where
  "limited limit xs = (if 0 < limit then take (nat limit) xs else xs)"

definition published_after :: "uint64 \<Rightarrow> message \<Rightarrow> bool" where
  "published_after fromSequence m \<longleftrightarrow> \<not> (msg_Status m = MessageStatusPending \<or> msg_Status m = MessageStatusFailed) \<and>
     \<not> msg_Sequence m \<le> fromSequence"

definition cm_MessagesByConversationID ::
    "string \<Rightarrow> string \<Rightarrow> uint64 \<Rightarrow> int \<Rightarrow> (cmem, message list) io" where
  "cm_MessagesByConversationID conversationID0 threadID0 fromSequence limit = (\<lambda>s.
     let conversationID = trim_space conversationID0; threadID = trim_space threadID0 in
     if conversationID = [] then (Inl ConvErrInvalidInput, s)
     else let rows = sort_key message_order (List.filter (\<lambda>m. msg_ConversationID m = conversationID \<and>
         trim_space (msg_ThreadID m) = threadID) (entries (cm_messagesByID s))) in
       (Inr (with_reactions s (limited limit (List.filter (published_after fromSequence) rows))), s))"

definition scheduled_order :: "message \<Rightarrow> bool \<times> int \<times> int \<times> string" where
  "scheduled_order m =
     (msg_Status m \<noteq> MessageStatusPending, msg_DeliverAt m, msg_CreatedAt m, msg_ID m)"

definition cm_ScheduledMessagesByConversationAndSender ::
    "string \<Rightarrow> string \<Rightarrow> string \<Rightarrow> bool \<Rightarrow> int \<Rightarrow> (cmem, message list) io" where
  "cm_ScheduledMessagesByConversationAndSender conversationID0 senderAccountID0 threadID0 includeFailed limit = (\<lambda>s.
     let conversationID = trim_space conversationID0; senderAccountID = trim_space senderAccountID0;
       threadID = trim_space threadID0 in
     if conversationID = [] \<or> senderAccountID = [] then (Inl ConvErrInvalidInput, s)
     else let rows = sort_key scheduled_order (List.filter (\<lambda>m.
         msg_ConversationID m = conversationID \<and> msg_SenderAccountID m = senderAccountID \<and>
         trim_space (msg_ThreadID m) = threadID \<and>
         (msg_Status m = MessageStatusPending \<or> includeFailed \<and> msg_Status m = MessageStatusFailed))
         (entries (cm_messagesByID s))) in
       (Inr (with_reactions s (limited limit rows)), s))"

definition message_due :: "time \<Rightarrow> message \<Rightarrow> bool" where
  "message_due due m \<longleftrightarrow> \<not> (msg_Status m \<noteq> MessageStatusPending \<or> msg_DeliverAt m = zero_time \<or>
     due < msg_DeliverAt m)"

definition due_order :: "message \<Rightarrow> int \<times> int \<times> string" where
  "due_order m = (msg_DeliverAt m, msg_CreatedAt m, msg_ID m)"

definition cm_DueScheduledMessages :: "time \<Rightarrow> time \<Rightarrow> int \<Rightarrow> (cmem, message list) io" where
  "cm_DueScheduledMessages clock due limit = (\<lambda>s.
     (Inr (limited limit (sort_key due_order
       (List.filter (message_due (or_time due clock)) (entries (cm_messagesByID s))))), s))"

definition cm_SaveMessageReaction :: "msg_reaction \<Rightarrow> (cmem, msg_reaction) io" where
  "cm_SaveMessageReaction r0 = (\<lambda>s.
     let r = r0\<lparr>mreac_MessageID := trim_space (mreac_MessageID r0),
         mreac_AccountID := trim_space (mreac_AccountID r0),
         mreac_Reaction := trim_space (mreac_Reaction r0)\<rparr> in
     if mreac_MessageID r = [] \<or> mreac_AccountID r = [] \<or> mreac_Reaction r = [] then (Inl ConvErrInvalidInput, s)
     else if mreac_CreatedAt r = zero_time \<or> mreac_UpdatedAt r = zero_time \<or> mreac_UpdatedAt r < mreac_CreatedAt r
       then (Inl ConvErrInvalidInput, s)
     else if lookup (cm_messagesByID s) (mreac_MessageID r) = None then (Inl ConvErrNotFound, s)
     else (Inr r, s\<lparr>cm_reactionsByKey :=
       put (reactionKey (mreac_MessageID r) (mreac_AccountID r)) r (cm_reactionsByKey s)\<rparr>))"

definition cm_DeleteMessageReaction :: "string \<Rightarrow> string \<Rightarrow> (cmem, unit) io" where
  "cm_DeleteMessageReaction messageID0 accountID0 = (\<lambda>s.
     let messageID = trim_space messageID0; accountID = trim_space accountID0 in
     if messageID = [] \<or> accountID = [] then (Inl ConvErrInvalidInput, s)
     else (Inr (), s\<lparr>cm_reactionsByKey := remove (reactionKey messageID accountID) (cm_reactionsByKey s)\<rparr>))"

subsection \<open>Read states, sync states and events\<close>

definition cm_SaveReadState :: "read_state \<Rightarrow> (cmem, read_state) io" where
  "cm_SaveReadState r0 = (\<lambda>s.
     let r = r0\<lparr>rst_ConversationID := trim_space (rst_ConversationID r0),
         rst_AccountID := trim_space (rst_AccountID r0),
         rst_DeviceID := trim_space (rst_DeviceID r0)\<rparr> in
     if rst_ConversationID r = [] \<or> rst_AccountID r = [] \<or> rst_DeviceID r = []
       then (Inl ConvErrInvalidInput, s)
     else (Inr r, s\<lparr>cm_readStatesByKey :=
       put (readStateKey (rst_ConversationID r) (rst_AccountID r) (rst_DeviceID r)) r (cm_readStatesByKey s)\<rparr>))"

definition cm_ReadStateByConversationAndDevice :: "string \<Rightarrow> string \<Rightarrow> (cmem, read_state) io" where
  "cm_ReadStateByConversationAndDevice conversationID deviceID = (\<lambda>s.
     conv_found_or (List.find (\<lambda>r. rst_ConversationID r = trim_space conversationID \<and>
       rst_DeviceID r = trim_space deviceID) (entries (cm_readStatesByKey s))) s)"

definition cm_ReadStatesByDevice :: "string \<Rightarrow> (cmem, read_state list) io" where
  "cm_ReadStatesByDevice deviceID0 = (\<lambda>s.
     let deviceID = trim_space deviceID0 in
     if deviceID = [] then (Inl ConvErrInvalidInput, s)
     else (Inr (List.filter (\<lambda>r. rst_DeviceID r = deviceID) (entries (cm_readStatesByKey s))), s))"

definition cm_SaveSyncState :: "sync_state \<Rightarrow> (cmem, sync_state) io" where
  "cm_SaveSyncState y0 = (\<lambda>s.
     let y = y0\<lparr>syn_DeviceID := trim_space (syn_DeviceID y0), syn_AccountID := trim_space (syn_AccountID y0)\<rparr> in
     if syn_DeviceID y = [] then (Inl ConvErrInvalidInput, s)
     else (Inr y, s\<lparr>cm_syncStatesByDevice := put (syn_DeviceID y) y (cm_syncStatesByDevice s)\<rparr>))"

definition cm_SyncStateByDevice :: "string \<Rightarrow> (cmem, sync_state) io" where
  "cm_SyncStateByDevice deviceID = (\<lambda>s. conv_found_or (lookup (cm_syncStatesByDevice s) (trim_space deviceID)) s)"

definition cm_SaveEvent :: "conv_event \<Rightarrow> (cmem, conv_event) io" where
  "cm_SaveEvent e0 = (\<lambda>s.
     let e = e0\<lparr>ev_EventID := trim_space (ev_EventID e0),
         ev_ConversationID := trim_space (ev_ConversationID e0),
         ev_ActorAccountID := trim_space (ev_ActorAccountID e0)\<rparr> in
     if ev_EventID e = [] \<or> ev_ConversationID e = [] \<or> ev_ActorAccountID e = [] then (Inl ConvErrInvalidInput, s)
     else case (if ev_EventType e = EventTypeMessageCreated \<or> ev_EventType e = EventTypeMessageEdited
         then ValidateMessagePayload (ev_Payload e) False else Inr ()) of
       Inl err \<Rightarrow> (Inl err, s)
     | Inr _ \<Rightarrow>
        (case lookup (cm_eventsByID s) (ev_EventID e) of
           Some existing \<Rightarrow> (Inr existing, s)
         | None \<Rightarrow>
            let sequence = cm_nextSequence s + 1;
              stored = e\<lparr>ev_Sequence := sequence\<rparr> in
            (Inr stored, s\<lparr>cm_nextSequence := sequence,
              cm_eventsByID := put (ev_EventID stored) stored (cm_eventsByID s),
              cm_eventOrder := cm_eventOrder s @ [ev_EventID stored]\<rparr>)))"

definition wanted_event :: "uint64 \<Rightarrow> string list \<Rightarrow> conv_event \<Rightarrow> bool" where
  "wanted_event fromSequence only e \<longleftrightarrow> \<not> ev_Sequence e \<le> fromSequence \<and>
     (only = [] \<or> ev_ConversationID e \<in> set only)"

definition cm_EventsAfterSequence :: "uint64 \<Rightarrow> int \<Rightarrow> string list \<Rightarrow> (cmem, conv_event list) io" where
  "cm_EventsAfterSequence fromSequence limit conversationIDs = (\<lambda>s.
     let only = List.filter (\<lambda>v. v \<noteq> []) (List.map trim_space conversationIDs) in
     (Inr (limited limit (List.filter (wanted_event fromSequence only)
       (List.map_filter (lookup (cm_eventsByID s)) (cm_eventOrder s)))), s))"

subsection \<open>Moderation\<close>

definition cm_SaveModerationPolicy :: "mod_policy \<Rightarrow> (cmem, mod_policy) io" where
  "cm_SaveModerationPolicy p0 = (\<lambda>s.
     let p = p0\<lparr>pol_TargetKind := trim_space (pol_TargetKind p0), pol_TargetID := trim_space (pol_TargetID p0)\<rparr> in
     if pol_TargetKind p = ModerationTargetKindUnspecified \<or> pol_TargetID p = [] then (Inl ConvErrInvalidInput, s)
     else if pol_CreatedAt p = zero_time \<or> pol_UpdatedAt p = zero_time \<or> pol_UpdatedAt p < pol_CreatedAt p
       then (Inl ConvErrInvalidInput, s)
     else if (pol_AntiSpamWindow p = 0) \<noteq> (pol_AntiSpamBurstLimit p = 0) then (Inl ConvErrInvalidInput, s)
     else (Inr p, s\<lparr>cm_moderationPoliciesByKey :=
       put (moderationPolicyKey (pol_TargetKind p) (pol_TargetID p)) p (cm_moderationPoliciesByKey s)\<rparr>))"

definition cm_ModerationPolicyByTarget :: "ModerationTargetKind \<Rightarrow> string \<Rightarrow> (cmem, mod_policy) io" where
  "cm_ModerationPolicyByTarget targetKind0 targetID0 = (\<lambda>s.
     let targetKind = trim_space targetKind0; targetID = trim_space targetID0 in
     if targetKind = ModerationTargetKindUnspecified \<or> targetID = [] then (Inl ConvErrNotFound, s)
     else conv_found_or (lookup (cm_moderationPoliciesByKey s) (moderationPolicyKey targetKind targetID)) s)"

definition trimmed_report :: "mod_report \<Rightarrow> mod_report" where
  "trimmed_report r = r\<lparr>rep_ID := trim_space (rep_ID r),
     rep_TargetKind := trim_space (rep_TargetKind r),
     rep_TargetID := trim_space (rep_TargetID r),
     rep_ReporterAccountID := trim_space (rep_ReporterAccountID r),
     rep_TargetAccountID := trim_space (rep_TargetAccountID r),
     rep_Reason := trim_space (rep_Reason r),
     rep_Details := trim_space (rep_Details r),
     rep_Resolution := trim_space (rep_Resolution r),
     rep_ReviewedByAccountID := trim_space (rep_ReviewedByAccountID r)\<rparr>"

definition report_review_ok :: "mod_report \<Rightarrow> bool" where
  "report_review_ok r \<longleftrightarrow>
     (if rep_Status r = ModerationReportStatusPending
        then \<not> (rep_ReviewedByAccountID r \<noteq> [] \<or> rep_ReviewedAt r \<noteq> zero_time)
      else if rep_Status r = ModerationReportStatusResolved \<or> rep_Status r = ModerationReportStatusRejected
        then \<not> (rep_ReviewedByAccountID r = [] \<or> rep_ReviewedAt r = zero_time)
      else False)"

definition cm_SaveModerationReport :: "mod_report \<Rightarrow> (cmem, mod_report) io" where
  "cm_SaveModerationReport r0 = (\<lambda>s.
     let r = trimmed_report r0 in
     if rep_ID r = [] \<or> rep_TargetKind r = ModerationTargetKindUnspecified \<or> rep_TargetID r = [] \<or>
       rep_ReporterAccountID r = [] \<or> rep_Reason r = [] then (Inl ConvErrInvalidInput, s)
     else if rep_Status r = ModerationReportStatusUnspecified then (Inl ConvErrInvalidInput, s)
     else if rep_CreatedAt r = zero_time \<or> rep_UpdatedAt r = zero_time \<or> rep_UpdatedAt r < rep_CreatedAt r
       then (Inl ConvErrInvalidInput, s)
     else if \<not> report_review_ok r then (Inl ConvErrInvalidInput, s)
     else (Inr r, s\<lparr>cm_moderationReportsByID := put (rep_ID r) r (cm_moderationReportsByID s)\<rparr>))"

definition cm_ModerationReportByID :: "string \<Rightarrow> (cmem, mod_report) io" where
  "cm_ModerationReportByID reportID = (\<lambda>s.
     let i = trim_space reportID in
     if i = [] then (Inl ConvErrNotFound, s)
     else conv_found_or (lookup (cm_moderationReportsByID s) i) s)"

definition report_order :: "mod_report \<Rightarrow> int \<times> string" where
  "report_order r = (- rep_CreatedAt r, rep_ID r)"

definition cm_ModerationReportsByTarget :: "ModerationTargetKind \<Rightarrow> string \<Rightarrow> (cmem, mod_report list) io" where
  "cm_ModerationReportsByTarget targetKind0 targetID0 = (\<lambda>s.
     let targetKind = trim_space targetKind0; targetID = trim_space targetID0 in
     if targetKind = ModerationTargetKindUnspecified \<or> targetID = [] then (Inl ConvErrInvalidInput, s)
     else (Inr (sort_key report_order (List.filter (\<lambda>r. \<not> (rep_TargetKind r \<noteq> targetKind \<or> rep_TargetID r \<noteq> targetID))
       (entries (cm_moderationReportsByID s)))), s))"

definition cm_SaveModerationAction :: "mod_action \<Rightarrow> (cmem, mod_action) io" where
  "cm_SaveModerationAction a0 = (\<lambda>s.
     let a = a0\<lparr>mact_ID := trim_space (mact_ID a0),
         mact_TargetKind := trim_space (mact_TargetKind a0),
         mact_TargetID := trim_space (mact_TargetID a0),
         mact_ActorAccountID := trim_space (mact_ActorAccountID a0),
         mact_TargetAccountID := trim_space (mact_TargetAccountID a0),
         mact_Reason := trim_space (mact_Reason a0)\<rparr> in
     if mact_ID a = [] \<or> mact_TargetKind a = ModerationTargetKindUnspecified \<or> mact_TargetID a = [] \<or>
       mact_ActorAccountID a = [] \<or> mact_Type a = ModerationActionTypeUnspecified then (Inl ConvErrInvalidInput, s)
     else if mact_CreatedAt a = zero_time then (Inl ConvErrInvalidInput, s)
     else if lookup (cm_moderationActionsByID s) (mact_ID a) \<noteq> None then (Inl ConvErrConflict, s)
     else (Inr a, s\<lparr>cm_moderationActionsByID := put (mact_ID a) a (cm_moderationActionsByID s)\<rparr>))"

definition action_order :: "mod_action \<Rightarrow> int \<times> string" where
  "action_order a = (- mact_CreatedAt a, mact_ID a)"

definition cm_ModerationActionsByTarget :: "ModerationTargetKind \<Rightarrow> string \<Rightarrow> (cmem, mod_action list) io" where
  "cm_ModerationActionsByTarget targetKind0 targetID0 = (\<lambda>s.
     let targetKind = trim_space targetKind0; targetID = trim_space targetID0 in
     if targetKind = ModerationTargetKindUnspecified \<or> targetID = [] then (Inl ConvErrInvalidInput, s)
     else (Inr (sort_key action_order (List.filter (\<lambda>a. \<not> (mact_TargetKind a \<noteq> targetKind \<or> mact_TargetID a \<noteq> targetID))
       (entries (cm_moderationActionsByID s)))), s))"

definition cm_SaveModerationRestriction :: "restriction \<Rightarrow> (cmem, restriction) io" where
  "cm_SaveModerationRestriction r0 = (\<lambda>s.
     let r = r0\<lparr>rsn_TargetKind := trim_space (rsn_TargetKind r0),
         rsn_TargetID := trim_space (rsn_TargetID r0),
         rsn_AccountID := trim_space (rsn_AccountID r0),
         rsn_AppliedByAccountID := trim_space (rsn_AppliedByAccountID r0),
         rsn_Reason := trim_space (rsn_Reason r0)\<rparr> in
     if rsn_TargetKind r = ModerationTargetKindUnspecified \<or> rsn_TargetID r = [] \<or> rsn_AccountID r = [] \<or>
       rsn_State r = ModerationRestrictionStateUnspecified then (Inl ConvErrInvalidInput, s)
     else if rsn_CreatedAt r = zero_time \<or> rsn_UpdatedAt r = zero_time \<or> rsn_UpdatedAt r < rsn_CreatedAt r
       then (Inl ConvErrInvalidInput, s)
     else if rsn_ExpiresAt r \<noteq> zero_time \<and> rsn_ExpiresAt r < rsn_CreatedAt r then (Inl ConvErrInvalidInput, s)
     else (Inr r, s\<lparr>cm_moderationRestrictions :=
       put (moderationRestrictionKey (rsn_TargetKind r) (rsn_TargetID r) (rsn_AccountID r)) r
         (cm_moderationRestrictions s)\<rparr>))"

definition cm_ModerationRestrictionByTargetAndAccount ::
    "ModerationTargetKind \<Rightarrow> string \<Rightarrow> string \<Rightarrow> (cmem, restriction) io" where
  "cm_ModerationRestrictionByTargetAndAccount targetKind0 targetID0 accountID0 = (\<lambda>s.
     let targetKind = trim_space targetKind0; targetID = trim_space targetID0; accountID = trim_space accountID0 in
     if targetKind = ModerationTargetKindUnspecified \<or> targetID = [] \<or> accountID = [] then (Inl ConvErrNotFound, s)
     else conv_found_or (lookup (cm_moderationRestrictions s)
       (moderationRestrictionKey targetKind targetID accountID)) s)"

definition restriction_order :: "restriction \<Rightarrow> int \<times> string" where
  "restriction_order r = (- rsn_CreatedAt r, rsn_AccountID r)"

definition cm_ModerationRestrictionsByTarget :: "ModerationTargetKind \<Rightarrow> string \<Rightarrow> (cmem, restriction list) io" where
  "cm_ModerationRestrictionsByTarget targetKind0 targetID0 = (\<lambda>s.
     let targetKind = trim_space targetKind0; targetID = trim_space targetID0 in
     if targetKind = ModerationTargetKindUnspecified \<or> targetID = [] then (Inl ConvErrInvalidInput, s)
     else (Inr (sort_key restriction_order (List.filter (\<lambda>r. \<not> (rsn_TargetKind r \<noteq> targetKind \<or> rsn_TargetID r \<noteq> targetID))
       (entries (cm_moderationRestrictions s)))), s))"

definition cm_DeleteModerationRestriction ::
    "ModerationTargetKind \<Rightarrow> string \<Rightarrow> string \<Rightarrow> (cmem, unit) io" where
  "cm_DeleteModerationRestriction targetKind0 targetID0 accountID0 = (\<lambda>s.
     let targetKind = trim_space targetKind0; targetID = trim_space targetID0; accountID = trim_space accountID0 in
     if targetKind = ModerationTargetKindUnspecified \<or> targetID = [] \<or> accountID = [] then (Inl ConvErrInvalidInput, s)
     else (Inr (), s\<lparr>cm_moderationRestrictions :=
       remove (moderationRestrictionKey targetKind targetID accountID) (cm_moderationRestrictions s)\<rparr>))"

definition cm_SaveModerationRateState :: "rate_state \<Rightarrow> (cmem, rate_state) io" where
  "cm_SaveModerationRateState r0 = (\<lambda>s.
     let r = r0\<lparr>rate_TargetKind := trim_space (rate_TargetKind r0),
         rate_TargetID := trim_space (rate_TargetID r0),
         rate_AccountID := trim_space (rate_AccountID r0)\<rparr> in
     if rate_TargetKind r = ModerationTargetKindUnspecified \<or> rate_TargetID r = [] \<or> rate_AccountID r = []
       then (Inl ConvErrInvalidInput, s)
     else if rate_UpdatedAt r = zero_time then (Inl ConvErrInvalidInput, s)
     else (Inr r, s\<lparr>cm_moderationRateStates :=
       put (moderationRestrictionKey (rate_TargetKind r) (rate_TargetID r) (rate_AccountID r)) r
         (cm_moderationRateStates s)\<rparr>))"

definition cm_ModerationRateStateByTargetAndAccount ::
    "ModerationTargetKind \<Rightarrow> string \<Rightarrow> string \<Rightarrow> (cmem, rate_state) io" where
  "cm_ModerationRateStateByTargetAndAccount targetKind0 targetID0 accountID0 = (\<lambda>s.
     let targetKind = trim_space targetKind0; targetID = trim_space targetID0; accountID = trim_space accountID0 in
     if targetKind = ModerationTargetKindUnspecified \<or> targetID = [] \<or> accountID = [] then (Inl ConvErrNotFound, s)
     else conv_found_or (lookup (cm_moderationRateStates s)
       (moderationRestrictionKey targetKind targetID accountID)) s)"

definition isShadowed :: "time \<Rightarrow> cmem \<Rightarrow> ModerationTargetKind \<Rightarrow> string \<Rightarrow> string \<Rightarrow> bool" where
  "isShadowed now s targetKind targetID accountID \<longleftrightarrow>
     list_ex (\<lambda>r. \<not> (rsn_TargetKind r \<noteq> targetKind \<or> rsn_TargetID r \<noteq> trim_space targetID \<or>
         rsn_AccountID r \<noteq> trim_space accountID) \<and>
       rsn_State r = ModerationRestrictionStateShadowed \<and>
       \<not> (rsn_ExpiresAt r \<noteq> zero_time \<and> \<not> now < rsn_ExpiresAt r))
       (entries (cm_moderationRestrictions s))"

subsection \<open>Unread counters\<close>

definition read_watermark :: "cmem \<Rightarrow> string \<Rightarrow> string \<Rightarrow> uint64" where
  "read_watermark s accountID conversationID =
     maxUint64 (List.map rst_LastReadSequence (List.filter (\<lambda>r. rst_AccountID r = accountID \<and>
       rst_ConversationID r = conversationID) (entries (cm_readStatesByKey s))))"

text \<open>The checks of the loop over the messages, for an account and its member record.\<close>

definition counts_unread :: "time \<Rightarrow> cmem \<Rightarrow> string \<Rightarrow> message \<Rightarrow> bool" where
  "counts_unread now s accountID m =
     (case lookup (cm_membersByKey s) (conversationMemberKey (msg_ConversationID m) accountID) of
        None \<Rightarrow> False
      | Some mb \<Rightarrow>
          let admin = (cmem_Role mb = MemberRoleOwner \<or> cmem_Role mb = MemberRoleAdmin);
            threadID = trim_space (msg_ThreadID m) in
          \<not> (cmem_LeftAt mb \<noteq> zero_time \<or> cmem_Banned mb) \<and>
          \<not> (msg_DeletedAt m \<noteq> zero_time \<or> msg_Status m = MessageStatusDeleted) \<and>
          msg_SenderAccountID m \<noteq> accountID \<and>
          \<not> msg_CreatedAt m < cmem_JoinedAt mb \<and>
          \<not> (isShadowed now s ModerationTargetKindConversation (msg_ConversationID m) (msg_SenderAccountID m) \<and> \<not> admin) \<and>
          \<not> (threadID \<noteq> [] \<and> isShadowed now s ModerationTargetKindTopic
              (topicModerationTargetID (msg_ConversationID m) threadID) (msg_SenderAccountID m) \<and> \<not> admin) \<and>
          \<not> msg_Sequence m \<le> read_watermark s accountID (msg_ConversationID m))"

definition cm_ConversationCountersByAccount ::
    "time \<Rightarrow> string \<Rightarrow> string list \<Rightarrow> (cmem, (string, conv_counters) gomap) io" where
  "cm_ConversationCountersByAccount clock accountID0 conversationIDs0 = (\<lambda>s.
     let accountID = trim_space accountID0; conversationIDs = uniqueIDs conversationIDs0 in
     if accountID = [] then (Inl ConvErrInvalidInput, s)
     else (Inr (List.map (\<lambda>c.
         let unread = List.filter (\<lambda>m. msg_ConversationID m = c \<and> counts_unread clock s accountID m)
             (entries (cm_messagesByID s)) in
         (c, \<lparr>ctr_ConversationID = c, ctr_UnreadCount = of_nat (length unread),
              ctr_UnreadMentionCount = of_nat (length (List.filter
                (\<lambda>m. accountID \<in> set (msg_MentionAccountIDs m)) unread))\<rparr>)) conversationIDs), s))"

subsection \<open>The store\<close>

definition conv_memory :: "time \<Rightarrow> cmem conv_store_ops" where
  "conv_memory clock = \<lparr>
     cso_SaveConversation = cm_SaveConversation,
     cso_ConversationByID = cm_ConversationByID,
     cso_ConversationsByAccountID = cm_ConversationsByAccountID,
     cso_SaveTopic = cm_SaveTopic,
     cso_TopicByConversationAndID = cm_TopicByConversationAndID,
     cso_TopicsByConversationID = cm_TopicsByConversationID,
     cso_SaveConversationMember = cm_SaveConversationMember,
     cso_ConversationMemberByConversationAndAccount = cm_ConversationMemberByConversationAndAccount,
     cso_ConversationMembersByConversationID = cm_ConversationMembersByConversationID,
     cso_SaveConversationInvite = cm_SaveConversationInvite,
     cso_ConversationInviteByConversationAndID = cm_ConversationInviteByConversationAndID,
     cso_ConversationInvitesByConversationID = cm_ConversationInvitesByConversationID,
     cso_SaveMessage = cm_SaveMessage,
     cso_MessageByID = cm_MessageByID,
     cso_MessagesByConversationID = cm_MessagesByConversationID,
     cso_ScheduledMessagesByConversationAndSender = cm_ScheduledMessagesByConversationAndSender,
     cso_DueScheduledMessages = cm_DueScheduledMessages clock,
     cso_SaveMessageReaction = cm_SaveMessageReaction,
     cso_DeleteMessageReaction = cm_DeleteMessageReaction,
     cso_SaveReadState = cm_SaveReadState,
     cso_ReadStateByConversationAndDevice = cm_ReadStateByConversationAndDevice,
     cso_ReadStatesByDevice = cm_ReadStatesByDevice,
     cso_ConversationCountersByAccount = cm_ConversationCountersByAccount clock,
     cso_SaveSyncState = cm_SaveSyncState,
     cso_SyncStateByDevice = cm_SyncStateByDevice,
     cso_SaveEvent = cm_SaveEvent,
     cso_EventsAfterSequence = cm_EventsAfterSequence,
     cso_SaveModerationPolicy = cm_SaveModerationPolicy,
     cso_ModerationPolicyByTarget = cm_ModerationPolicyByTarget,
     cso_SaveModerationReport = cm_SaveModerationReport,
     cso_ModerationReportByID = cm_ModerationReportByID,
     cso_ModerationReportsByTarget = cm_ModerationReportsByTarget,
     cso_SaveModerationAction = cm_SaveModerationAction,
     cso_ModerationActionsByTarget = cm_ModerationActionsByTarget,
     cso_SaveModerationRestriction = cm_SaveModerationRestriction,
     cso_ModerationRestrictionByTargetAndAccount = cm_ModerationRestrictionByTargetAndAccount,
     cso_ModerationRestrictionsByTarget = cm_ModerationRestrictionsByTarget,
     cso_DeleteModerationRestriction = cm_DeleteModerationRestriction,
     cso_SaveModerationRateState = cm_SaveModerationRateState,
     cso_ModerationRateStateByTargetAndAccount = cm_ModerationRateStateByTargetAndAccount\<rparr>"

text \<open>The methods of the table.\<close>

lemma conv_memory_methods:
  "cso_SaveConversation (conv_memory clock) = cm_SaveConversation"
  "cso_ConversationByID (conv_memory clock) = cm_ConversationByID"
  "cso_ConversationsByAccountID (conv_memory clock) = cm_ConversationsByAccountID"
  "cso_SaveTopic (conv_memory clock) = cm_SaveTopic"
  "cso_TopicByConversationAndID (conv_memory clock) = cm_TopicByConversationAndID"
  "cso_TopicsByConversationID (conv_memory clock) = cm_TopicsByConversationID"
  "cso_SaveConversationMember (conv_memory clock) = cm_SaveConversationMember"
  "cso_ConversationMemberByConversationAndAccount (conv_memory clock) = cm_ConversationMemberByConversationAndAccount"
  "cso_ConversationMembersByConversationID (conv_memory clock) = cm_ConversationMembersByConversationID"
  "cso_SaveConversationInvite (conv_memory clock) = cm_SaveConversationInvite"
  "cso_ConversationInviteByConversationAndID (conv_memory clock) = cm_ConversationInviteByConversationAndID"
  "cso_ConversationInvitesByConversationID (conv_memory clock) = cm_ConversationInvitesByConversationID"
  "cso_SaveMessage (conv_memory clock) = cm_SaveMessage"
  "cso_MessageByID (conv_memory clock) = cm_MessageByID"
  "cso_MessagesByConversationID (conv_memory clock) = cm_MessagesByConversationID"
  "cso_ScheduledMessagesByConversationAndSender (conv_memory clock) = cm_ScheduledMessagesByConversationAndSender"
  "cso_DueScheduledMessages (conv_memory clock) = cm_DueScheduledMessages clock"
  "cso_SaveMessageReaction (conv_memory clock) = cm_SaveMessageReaction"
  "cso_DeleteMessageReaction (conv_memory clock) = cm_DeleteMessageReaction"
  "cso_SaveReadState (conv_memory clock) = cm_SaveReadState"
  "cso_ReadStateByConversationAndDevice (conv_memory clock) = cm_ReadStateByConversationAndDevice"
  "cso_ReadStatesByDevice (conv_memory clock) = cm_ReadStatesByDevice"
  "cso_ConversationCountersByAccount (conv_memory clock) = cm_ConversationCountersByAccount clock"
  "cso_SaveSyncState (conv_memory clock) = cm_SaveSyncState"
  "cso_SyncStateByDevice (conv_memory clock) = cm_SyncStateByDevice"
  "cso_SaveEvent (conv_memory clock) = cm_SaveEvent"
  "cso_EventsAfterSequence (conv_memory clock) = cm_EventsAfterSequence"
  "cso_SaveModerationPolicy (conv_memory clock) = cm_SaveModerationPolicy"
  "cso_ModerationPolicyByTarget (conv_memory clock) = cm_ModerationPolicyByTarget"
  "cso_SaveModerationReport (conv_memory clock) = cm_SaveModerationReport"
  "cso_ModerationReportByID (conv_memory clock) = cm_ModerationReportByID"
  "cso_ModerationReportsByTarget (conv_memory clock) = cm_ModerationReportsByTarget"
  "cso_SaveModerationAction (conv_memory clock) = cm_SaveModerationAction"
  "cso_ModerationActionsByTarget (conv_memory clock) = cm_ModerationActionsByTarget"
  "cso_SaveModerationRestriction (conv_memory clock) = cm_SaveModerationRestriction"
  "cso_ModerationRestrictionByTargetAndAccount (conv_memory clock) = cm_ModerationRestrictionByTargetAndAccount"
  "cso_ModerationRestrictionsByTarget (conv_memory clock) = cm_ModerationRestrictionsByTarget"
  "cso_DeleteModerationRestriction (conv_memory clock) = cm_DeleteModerationRestriction"
  "cso_SaveModerationRateState (conv_memory clock) = cm_SaveModerationRateState"
  "cso_ModerationRateStateByTargetAndAccount (conv_memory clock) = cm_ModerationRateStateByTargetAndAccount"
  by (simp_all add: conv_memory_def)

end
