(* ===== verification/ConvLog.thy ===== *)
theory ConvLog
  imports ConvRequests ConvMemory
begin

section \<open>The event log and the audit log of conversations\<close>

text \<open>
  In the in-memory store the events are numbered consecutively from one, in the order in which
  they were saved; the numbers are the cursors of the devices. No operation changes or removes
  an event or an audit entry, and a device that pulls page by page sees every event it asked
  for exactly once.
\<close>

definition event_log :: "cmem \<Rightarrow> conv_event list" where
  "event_log s = List.map_filter (lookup (cm_eventsByID s)) (cm_eventOrder s)"

text \<open>The marks of devices are stored under trimmed names.\<close>

definition marks_trimmed :: "cmem \<Rightarrow> bool" where
  "marks_trimmed s \<longleftrightarrow>
     (\<forall>i y. lookup (cm_syncStatesByDevice s) i = Some y \<longrightarrow>
        syn_DeviceID y = i \<and> i \<noteq> [] \<and> trim_space i = i \<and> trim_space (syn_AccountID y) = syn_AccountID y) \<and>
     (\<forall>r \<in> set (entries (cm_readStatesByKey s)). trim_space (rst_AccountID r) = rst_AccountID r)"

definition log_sound :: "cmem \<Rightarrow> bool" where
  "log_sound s \<longleftrightarrow> distinct (cm_eventOrder s) \<and> dom (lookup (cm_eventsByID s)) = set (cm_eventOrder s) \<and>
     List.map ev_Sequence (event_log s) = List.map (\<lambda>k. of_nat (Suc k)) [0..<length (cm_eventOrder s)] \<and>
     cm_nextSequence s = of_nat (length (cm_eventOrder s)) \<and> marks_trimmed s \<and>
     (\<forall>e \<in> set (event_log s). trim_space (ev_ConversationID e) = ev_ConversationID e \<and> ev_ConversationID e \<noteq> [])"

definition log_grows :: "cmem \<Rightarrow> cmem \<Rightarrow> bool" where
  "log_grows s s' \<longleftrightarrow> (log_sound s \<longrightarrow> log_sound s' \<and> prefix (event_log s) (event_log s') \<and>
     lookup (cm_moderationActionsByID s) \<subseteq>\<^sub>m lookup (cm_moderationActionsByID s'))"

lemma preorder_log_grows: "preorder_on_states log_grows"
  unfolding preorder_on_states_def log_grows_def
  by (blast intro: prefix_order.trans map_le_trans map_le_refl prefix_order.refl)

lemma log_sound_new: "log_sound cm_NewMemoryStore"
  by (simp add: log_sound_def cm_NewMemoryStore_def event_log_def marks_trimmed_def map_filter_def)

lemma event_log_new: "event_log cm_NewMemoryStore = []"
  by (simp add: cm_NewMemoryStore_def event_log_def map_filter_def)

subsection \<open>The methods of the store\<close>

lemma log_grows_marks:
  assumes "cm_eventsByID s' = cm_eventsByID s" "cm_eventOrder s' = cm_eventOrder s"
    "cm_nextSequence s' = cm_nextSequence s"
    "lookup (cm_moderationActionsByID s) \<subseteq>\<^sub>m lookup (cm_moderationActionsByID s')"
    "marks_trimmed s \<Longrightarrow> marks_trimmed s'"
  shows "log_grows s s'"
  using assms by (simp add: log_grows_def log_sound_def event_log_def)

lemma marks_trimmed_same:
  assumes "marks_trimmed s" "cm_syncStatesByDevice s' = cm_syncStatesByDevice s"
    "cm_readStatesByKey s' = cm_readStatesByKey s"
  shows "marks_trimmed s'"
  using assms by (simp add: marks_trimmed_def)

lemma in_set_put: "(i, v) \<in> set (put k w m) \<Longrightarrow> v = w \<or> (i, v) \<in> set m"
  by (induction m) (auto simp: put_def split: if_splits)

lemma marks_trimmed_sync:
  assumes "marks_trimmed s" "trim_space (syn_DeviceID y) = syn_DeviceID y" "syn_DeviceID y \<noteq> []"
    "trim_space (syn_AccountID y) = syn_AccountID y"
  shows "marks_trimmed (s\<lparr>cm_syncStatesByDevice := put (syn_DeviceID y) y (cm_syncStatesByDevice s)\<rparr>)"
  using assms unfolding marks_trimmed_def by simp

lemma save_sync_grows:
  assumes "cm_SaveSyncState y s = (r, s')"
  shows "log_grows s s'"
proof -
  let ?y = "y\<lparr>syn_DeviceID := trim_space (syn_DeviceID y), syn_AccountID := trim_space (syn_AccountID y)\<rparr>"
  have "s' = s \<or> s' = s\<lparr>cm_syncStatesByDevice := put (syn_DeviceID ?y) ?y (cm_syncStatesByDevice s)\<rparr> \<and>
      syn_DeviceID ?y \<noteq> []"
    using assms by (auto simp: cm_SaveSyncState_def Let_def split: if_splits)
  then show ?thesis using marks_trimmed_sync [of s ?y] by (intro log_grows_marks) auto
qed

lemma marks_trimmed_read:
  assumes "marks_trimmed s" "trim_space (rst_AccountID y) = rst_AccountID y"
  shows "marks_trimmed (s\<lparr>cm_readStatesByKey := put k y (cm_readStatesByKey s)\<rparr>)"
  using assms unfolding marks_trimmed_def by (fastforce dest: in_set_put)

lemma save_read_grows: "cm_SaveReadState y s = (r, s') \<Longrightarrow> log_grows s s'"
  by (rule log_grows_marks)
    (auto simp: cm_SaveReadState_def Let_def split: if_splits intro!: marks_trimmed_read)

lemma save_action_grows: "cm_SaveModerationAction a s = (r, s') \<Longrightarrow> log_grows s s'"
  by (rule log_grows_marks)
    (auto simp: cm_SaveModerationAction_def Let_def map_le_def split: if_splits
      intro: marks_trimmed_same)

lemma map_filter_upd: "k \<notin> set ks \<Longrightarrow> List.map_filter (f(k \<mapsto> v)) ks = List.map_filter f ks"
  by (induction ks) (auto simp: List.map_filter_simps split: option.split)

lemma map_filter_append: "List.map_filter f (xs @ ys) = List.map_filter f xs @ List.map_filter f ys"
  by (simp add: List.map_filter_def)

lemma event_log_append:
  assumes "lookup (cm_eventsByID s) (ev_EventID e) = None" "dom (lookup (cm_eventsByID s)) = set (cm_eventOrder s)"
  shows "event_log (s\<lparr>cm_nextSequence := n, cm_eventsByID := put (ev_EventID e) e (cm_eventsByID s),
      cm_eventOrder := cm_eventOrder s @ [ev_EventID e]\<rparr>) = event_log s @ [e]"
proof -
  have "ev_EventID e \<notin> set (cm_eventOrder s)" using assms by blast
  then show ?thesis by (simp add: event_log_def map_filter_append map_filter_upd List.map_filter_simps)
qed

lemma save_event_grows:
  assumes run: "cm_SaveEvent e0 s = (r, s')"
  shows "log_grows s s'"
proof (cases "s' = s")
  case True
  then show ?thesis using preorder_log_grows by (simp add: preorder_on_states_def)
next
  case False
  define e where "e = e0\<lparr>ev_EventID := trim_space (ev_EventID e0),
      ev_ConversationID := trim_space (ev_ConversationID e0),
      ev_ActorAccountID := trim_space (ev_ActorAccountID e0), ev_Sequence := cm_nextSequence s + 1\<rparr>"
  have fresh: "lookup (cm_eventsByID s) (ev_EventID e) = None"
    and s': "s' = s\<lparr>cm_nextSequence := cm_nextSequence s + 1,
      cm_eventsByID := put (ev_EventID e) e (cm_eventsByID s),
      cm_eventOrder := cm_eventOrder s @ [ev_EventID e]\<rparr>"
    using run False
    by (auto simp: cm_SaveEvent_def Let_def e_def split: if_splits sum.splits option.splits)
  have seq: "ev_Sequence e = cm_nextSequence s + 1" by (simp add: e_def)
  have trimmed: "trim_space (ev_ConversationID e) = ev_ConversationID e" "ev_ConversationID e \<noteq> []"
    using run False
    by (auto simp: cm_SaveEvent_def Let_def e_def split: if_splits sum.splits option.splits)
  show ?thesis unfolding log_grows_def
  proof (intro impI conjI)
    assume ok: "log_sound s"
    then have dom: "dom (lookup (cm_eventsByID s)) = set (cm_eventOrder s)" by (simp add: log_sound_def)
    have log: "event_log s' = event_log s @ [e]"
      unfolding s' by (rule event_log_append [OF fresh dom])
    show "prefix (event_log s) (event_log s')" by (simp add: log)
    from ok seq log show "log_sound s'" using fresh trimmed
      by (auto simp: log_sound_def s' marks_trimmed_def)
  qed (simp add: s')
qed

lemma log_grows_same:
  assumes "cm_eventsByID s' = cm_eventsByID s" "cm_eventOrder s' = cm_eventOrder s"
    "cm_nextSequence s' = cm_nextSequence s" "cm_moderationActionsByID s' = cm_moderationActionsByID s"
    "cm_syncStatesByDevice s' = cm_syncStatesByDevice s" "cm_readStatesByKey s' = cm_readStatesByKey s"
  shows "log_grows s s'"
  using assms by (intro log_grows_marks) (auto simp: marks_trimmed_def)

text \<open>The methods that write something else.\<close>

lemma other_writes_grow:
  "keeps log_grows (cm_SaveConversation a)" "keeps log_grows (cm_SaveTopic b)"
  "keeps log_grows (cm_SaveConversationMember c)" "keeps log_grows (cm_SaveConversationInvite d)"
  "keeps log_grows (cm_SaveMessage e)" "keeps log_grows (cm_SaveMessageReaction f)"
  "keeps log_grows (cm_DeleteMessageReaction g h)" "keeps log_grows (cm_SaveModerationPolicy i)"
  "keeps log_grows (cm_SaveModerationReport j)" "keeps log_grows (cm_SaveModerationRestriction k)"
  "keeps log_grows (cm_DeleteModerationRestriction l m n)" "keeps log_grows (cm_SaveModerationRateState q)"
  by (rule keepsI, rule log_grows_same;
      auto simp: cm_SaveConversation_def cm_SaveTopic_def cm_SaveConversationMember_def
        cm_SaveConversationInvite_def cm_SaveMessage_def cm_SaveMessageReaction_def
        cm_DeleteMessageReaction_def cm_SaveModerationPolicy_def cm_SaveModerationReport_def
        cm_SaveModerationRestriction_def cm_DeleteModerationRestriction_def
        cm_SaveModerationRateState_def Let_def split: if_splits sum.splits)+

text \<open>The methods that only read.\<close>

lemmas cm_read_defs = cm_ConversationByID_def cm_ConversationsByAccountID_def
  cm_TopicByConversationAndID_def cm_TopicsByConversationID_def
  cm_ConversationMemberByConversationAndAccount_def cm_ConversationMembersByConversationID_def
  cm_ConversationInviteByConversationAndID_def cm_ConversationInvitesByConversationID_def
  cm_MessageByID_def cm_MessagesByConversationID_def cm_ScheduledMessagesByConversationAndSender_def
  cm_DueScheduledMessages_def cm_ReadStateByConversationAndDevice_def cm_ReadStatesByDevice_def
  cm_ConversationCountersByAccount_def cm_SyncStateByDevice_def cm_EventsAfterSequence_def
  cm_ModerationPolicyByTarget_def cm_ModerationReportByID_def cm_ModerationReportsByTarget_def
  cm_ModerationActionsByTarget_def cm_ModerationRestrictionByTargetAndAccount_def
  cm_ModerationRestrictionsByTarget_def cm_ModerationRateStateByTargetAndAccount_def

lemma cm_reads:
  "snd (cm_ConversationByID i s) = s" "snd (cm_ConversationsByAccountID i s) = s"
  "snd (cm_TopicByConversationAndID i j s) = s" "snd (cm_TopicsByConversationID i s) = s"
  "snd (cm_ConversationMemberByConversationAndAccount i j s) = s"
  "snd (cm_ConversationMembersByConversationID i s) = s"
  "snd (cm_ConversationInviteByConversationAndID i j s) = s"
  "snd (cm_ConversationInvitesByConversationID i s) = s"
  "snd (cm_MessageByID i j s) = s" "snd (cm_MessagesByConversationID i j n l s) = s"
  "snd (cm_ScheduledMessagesByConversationAndSender i j k b l s) = s"
  "snd (cm_DueScheduledMessages t u l s) = s" "snd (cm_ReadStateByConversationAndDevice i j s) = s"
  "snd (cm_ReadStatesByDevice i s) = s" "snd (cm_ConversationCountersByAccount t i js s) = s"
  "snd (cm_SyncStateByDevice i s) = s" "snd (cm_EventsAfterSequence n l is s) = s"
  "snd (cm_ModerationPolicyByTarget i j s) = s" "snd (cm_ModerationReportByID i s) = s"
  "snd (cm_ModerationReportsByTarget i j s) = s" "snd (cm_ModerationActionsByTarget i j s) = s"
  "snd (cm_ModerationRestrictionByTargetAndAccount i j k s) = s"
  "snd (cm_ModerationRestrictionsByTarget i j s) = s"
  "snd (cm_ModerationRateStateByTargetAndAccount i j k s) = s"
  by (simp_all add: cm_read_defs Let_def conv_found_or_run split: option.split)

lemma cm_read_keeps:
  assumes "preorder_on_states R"
  shows "keeps R (cm_ConversationByID i)" "keeps R (cm_ConversationsByAccountID i)"
    "keeps R (cm_TopicByConversationAndID i j)" "keeps R (cm_TopicsByConversationID i)"
    "keeps R (cm_ConversationMemberByConversationAndAccount i j)"
    "keeps R (cm_ConversationMembersByConversationID i)"
    "keeps R (cm_ConversationInviteByConversationAndID i j)"
    "keeps R (cm_ConversationInvitesByConversationID i)"
    "keeps R (cm_MessageByID i j)" "keeps R (cm_MessagesByConversationID i j n l)"
    "keeps R (cm_ScheduledMessagesByConversationAndSender i j k b l)"
    "keeps R (cm_DueScheduledMessages t u l)" "keeps R (cm_ReadStateByConversationAndDevice i j)"
    "keeps R (cm_ReadStatesByDevice i)" "keeps R (cm_ConversationCountersByAccount t i js)"
    "keeps R (cm_SyncStateByDevice i)" "keeps R (cm_EventsAfterSequence n l is)"
    "keeps R (cm_ModerationPolicyByTarget i j)" "keeps R (cm_ModerationReportByID i)"
    "keeps R (cm_ModerationReportsByTarget i j)" "keeps R (cm_ModerationActionsByTarget i j)"
    "keeps R (cm_ModerationRestrictionByTargetAndAccount i j k)"
    "keeps R (cm_ModerationRestrictionsByTarget i j)"
    "keeps R (cm_ModerationRateStateByTargetAndAccount i j k)"
  by (rule keeps_same [OF _ assms], rule cm_reads)+

interpretation cml: conversation_steps "conv_memory clock" log_grows for clock
proof (unfold_locales, goal_cases)
  case 1
  show ?case by (rule preorder_log_grows)
qed (simp_all add: conv_memory_def other_writes_grow cm_read_keeps [OF preorder_log_grows]
      keepsI [OF save_sync_grows] keepsI [OF save_read_grows] keepsI [OF save_action_grows]
      keepsI [OF save_event_grows])

end
