(* ===== verification/ConvLogProps.thy ===== *)
theory ConvLogProps
  imports ConvLog
begin

section \<open>The event log of conversations over histories of calls\<close>

text \<open>
  The properties that rest on \<open>log_grows\<close>: the log over any history of requests, and what a
  page of events is.
\<close>

subsection \<open>The log only grows\<close>

definition over_memory :: "cmem conv_call \<Rightarrow> bool" where
  "over_memory c \<longleftrightarrow> (\<exists>clock. csv_store (call_service c) = conv_memory clock)"

lemma calls_grow:
  assumes "\<forall>c \<in> set cs. over_memory c"
  shows "log_grows (w_store w) (w_store (run_calls cs w))"
proof (rule calls_related [OF preorder_log_grows])
  fix c assume "c \<in> set cs"
  with assms obtain clock where "csv_store (call_service c) = conv_memory clock"
    unfolding over_memory_def by blast
  then show "conversation_steps (csv_store (call_service c)) log_grows"
    by (simp add: cml.conversation_steps_axioms)
qed

lemma run_calls_append: "run_calls (cs @ ds) w = run_calls ds (run_calls cs w)"
  by (induction cs arbitrary: w) simp_all

lemma log_sound_calls:
  assumes "\<forall>c \<in> set cs. over_memory c" "log_sound (w_store w)"
  shows "log_sound (w_store (run_calls cs w))"
  using calls_grow [OF assms(1), of w] assms(2) by (simp add: log_grows_def)

text \<open>C30: From the empty store, whatever requests have been made, whichever of them failed:
  the events carry the numbers 1, 2, 3 and so on in the order in which they were saved, the
  events that were there before the later requests are still there, unchanged and in front of
  the new ones, and no entry of the audit log is changed or removed.\<close>
theorem conversation_log_append_only:
  assumes "w_store w = cm_NewMemoryStore" "\<forall>c \<in> set (before @ later). over_memory c"
  defines "s \<equiv> w_store (run_calls before w)" and "s' \<equiv> w_store (run_calls (before @ later) w)"
  shows "prefix (event_log s) (event_log s') \<and>
    List.map ev_Sequence (event_log s') = List.map (\<lambda>k. of_nat (Suc k)) [0..<length (event_log s')] \<and>
    lookup (cm_moderationActionsByID s) \<subseteq>\<^sub>m lookup (cm_moderationActionsByID s')"
proof -
  have sound: "log_sound s" unfolding s_def using assms by (intro log_sound_calls) (auto simp: log_sound_new)
  have grow: "log_grows s s'"
    unfolding s_def s'_def run_calls_append using assms by (intro calls_grow) auto
  from sound grow have "List.map ev_Sequence (event_log s') =
      List.map (\<lambda>k. of_nat (Suc k)) [0..<length (cm_eventOrder s')]" (is "?l = ?r")
    by (simp add: log_grows_def log_sound_def)
  moreover from arg_cong [OF this, of length]
  have "length (event_log s') = length (cm_eventOrder s')" by simp
  ultimately have "?l = List.map (\<lambda>k. of_nat (Suc k)) [0..<length (event_log s')]" by (simp only:)
  with sound grow show ?thesis by (simp add: log_grows_def)
qed

subsection \<open>A page of events\<close>

lemma trimmed_uniqueIDs: "List.filter (\<lambda>v. v \<noteq> []) (List.map trim_space (uniqueIDs xs)) = uniqueIDs xs"
proof -
  have trimmed: "List.filter (\<lambda>v. v \<noteq> []) (List.map trim_space ids) = ids" if "\<forall>v \<in> set ids. trim_space v = v \<and> v \<noteq> []" for ids
    using that by (induction ids) auto
  show ?thesis by (rule trimmed) (auto simp: uniqueIDs_def set_keep_first)
qed

definition event_page :: "uint64 \<Rightarrow> int \<Rightarrow> string list \<Rightarrow> cmem \<Rightarrow> conv_event list" where
  "event_page fromSequence limit ids s = limited limit (List.filter (wanted_event fromSequence ids) (event_log s))"

lemma cm_events_after:
  "cm_EventsAfterSequence fromSequence limit (uniqueIDs ids) s = (Inr (event_page fromSequence limit (uniqueIDs ids) s), s)"
  by (simp add: cm_EventsAfterSequence_def event_page_def event_log_def trimmed_uniqueIDs Let_def)

lemma conv_validateContext_Inr [io_inv]:
  "conv_validateContext ctx operation w = (Inr u, w') \<longleftrightarrow> ctx = LiveContext \<and> w' = w"
  by (cases ctx) (auto simp: conv_validateContext_def)

lemma preorder_eq: "preorder_on_states (=)"
  by (simp add: preorder_on_states_def)

text \<open>The methods of the in-memory store behind the table.\<close>

lemma memory_reads:
  assumes "preorder_on_states R"
  shows "keeps R (cso_SyncStateByDevice (conv_memory clock) x)"
    "keeps R (cso_ReadStatesByDevice (conv_memory clock) x)"
    "keeps R (cso_ConversationsByAccountID (conv_memory clock) x)"
  using cm_read_keeps [OF assms] by (simp_all add: conv_memory_def)

lemma sync_state_reads:
  assumes "csv_store sv = conv_memory clock" "GetSyncState sv ctx p w = (r, w')"
  shows "w_store w' = w_store w"
proof -
  have "keeps (on_world (=)) (GetSyncState sv ctx p)"
    unfolding GetSyncState_def assms(1) or_zero_def Let_def conv_validateContext_def
    by (intro keeps_rules preorder_eq memory_reads)
  then have "on_world (=) w w'" using assms(2) by (rule keepsD)
  then show ?thesis by (simp add: on_world_def)
qed

text \<open>What a successful pull returns: the account that asks plays no part in it.\<close>

lemma PullEvents_Inr:
  assumes "csv_store sv = conv_memory clock" "PullEvents sv ctx p w = (Inr (events, st), w')"
  shows "events = event_page (pep_FromSequence p) (clampLimit (pep_Limit p) 100 1000)
      (uniqueIDs (pep_ConversationIDs p)) (w_store w)"
    and "event_log (w_store w') = event_log (w_store w)"
  using assms(2)
  by (auto simp: PullEvents_def io_inv Let_def assms(1) conv_memory_def cm_events_after cm_SaveSyncState_def
      event_log_def split: if_splits prod.splits dest!: sync_state_reads [OF assms(1)])

text \<open>In a reachable state a device can always synchronise.\<close>

lemma derived_account:
  assumes marks: "marks_trimmed s" and reads: "set rs \<subseteq> set (entries (cm_readStatesByKey s))"
    and state: "state = zero_sync_state \<or> (\<exists>i. lookup (cm_syncStatesByDevice s) i = Some state)"
  shows "trim_space (syn_AccountID (resolved_sync_state state rs d (trim_space a) now)) =
    syn_AccountID (resolved_sync_state state rs d (trim_space a) now)"
proof -
  have "trim_space (syn_AccountID state) = syn_AccountID state"
    using marks state by (auto simp: marks_trimmed_def zero_sync_state_def)
  moreover have "trim_space (rst_AccountID r) = rst_AccountID r" if "rs = r # rest" for r rest
    using marks reads that unfolding marks_trimmed_def by auto
  ultimately show ?thesis
    by (auto simp: resolved_sync_state_def first_nonempty_def split: list.splits)
qed

lemma GetSyncState_runs:
  assumes S: "csv_store sv = conv_memory clock" and marks: "marks_trimmed (w_store w)"
    and device: "trim_space (gsp_DeviceID p) \<noteq> []"
  obtains st pending where "GetSyncState sv LiveContext p w = (Inr (st, pending), w)" "trim_space (syn_DeviceID st) \<noteq> []"
proof -
  let ?d = "trim_space (gsp_DeviceID p)" and ?s = "w_store w"
  define state where "state = (case lookup (cm_syncStatesByDevice ?s) ?d of Some y \<Rightarrow> y | None \<Rightarrow> zero_sync_state)"
  define rs where "rs = List.filter (\<lambda>r. rst_DeviceID r = ?d) (entries (cm_readStatesByKey ?s))"
  define st where "st = resolved_sync_state state rs ?d (trim_space (gsp_AccountID p)) (csv_now sv)"
  have state: "state = zero_sync_state \<or> (\<exists>i. lookup (cm_syncStatesByDevice ?s) i = Some state)"
    by (auto simp: state_def split: option.split)
  have account: "trim_space (syn_AccountID st) = syn_AccountID st"
    unfolding st_def by (rule derived_account [OF marks _ state]) (auto simp: rs_def)
  have dev: "trim_space (syn_DeviceID st) \<noteq> []"
    using device state marks
    by (auto simp: st_def resolved_sync_state_def zero_sync_state_def marks_trimmed_def)
  have load: "or_zero (\<lambda>e. error_is e ConvErrNotFound) what zero_sync_state
      (on_store (cm_SyncStateByDevice ?d)) w = (Inr state, w)" for what
    by (simp add: or_zero_def io_simps cm_SyncStateByDevice_def state_def split: option.split)
  have "\<exists>pending. GetSyncState sv LiveContext p w = (Inr (st, pending), w)"
    using device account
    by (auto simp: GetSyncState_def S conv_memory_def io_simps Let_def conv_validateContext_def load
        cm_ReadStatesByDevice_def cm_ConversationsByAccountID_def rs_def [symmetric] st_def [symmetric])
  with dev that show thesis by blast
qed

lemma PullEvents_runs:
  assumes S: "csv_store sv = conv_memory clock" and sound: "log_sound (w_store w)"
    and device: "trim_space (pep_DeviceID p) \<noteq> []"
  obtains st w' where "PullEvents sv LiveContext p w =
      (Inr (event_page (pep_FromSequence p) (clampLimit (pep_Limit p) 100 1000)
        (uniqueIDs (pep_ConversationIDs p)) (w_store w), st), w')"
proof -
  from sound have marks: "marks_trimmed (w_store w)" by (simp add: log_sound_def)
  obtain st pending where sync: "GetSyncState sv LiveContext \<lparr>gsp_AccountID = trim_space (pep_AccountID p),
      gsp_DeviceID = trim_space (pep_DeviceID p)\<rparr> w = (Inr (st, pending), w)"
    and dev: "trim_space (syn_DeviceID st) \<noteq> []"
    by (rule GetSyncState_runs [OF S marks, where p = "\<lparr>gsp_AccountID = trim_space (pep_AccountID p),
      gsp_DeviceID = trim_space (pep_DeviceID p)\<rparr>"]) (simp_all add: device)
  have "\<exists>st w'. PullEvents sv LiveContext p w =
      (Inr (event_page (pep_FromSequence p) (clampLimit (pep_Limit p) 100 1000)
        (uniqueIDs (pep_ConversationIDs p)) (w_store w), st), w')"
    using device dev sync
    by (simp add: PullEvents_def S conv_memory_def io_simps Let_def conv_validateContext_def cm_events_after
        cm_SaveSyncState_def)
  with that show thesis by blast
qed

text \<open>C31: After any history of requests a pull of a named device succeeds, whoever asks: it
  returns the events after the given number that belong to the named conversations, or to any
  conversation if none is named, the oldest first and at most as many as the limit. The account
  is not checked for membership in any of them.\<close>
theorem pull_ignores_membership:
  assumes "w_store w = cm_NewMemoryStore" "\<forall>c \<in> set history. over_memory c"
    and "csv_store sv = conv_memory clock" "trim_space (pep_DeviceID p) \<noteq> []"
  defines "now \<equiv> run_calls history w"
  shows "\<exists>st w'. PullEvents sv LiveContext p now =
      (Inr (limited (clampLimit (pep_Limit p) 100 1000)
        (List.filter (\<lambda>e. pep_FromSequence p < ev_Sequence e \<and>
           (uniqueIDs (pep_ConversationIDs p) = [] \<or> ev_ConversationID e \<in> set (uniqueIDs (pep_ConversationIDs p))))
         (event_log (w_store now))), st), w')"
proof -
  have sound: "log_sound (w_store now)" unfolding now_def using assms(1,2) log_sound_new by (simp add: log_sound_calls)
  have wanted: "wanted_event a ids = (\<lambda>e. a < ev_Sequence e \<and> (ids = [] \<or> ev_ConversationID e \<in> set ids))" for a ids
    by (auto simp: wanted_event_def fun_eq_iff)
  obtain st w' where "PullEvents sv LiveContext p now =
      (Inr (event_page (pep_FromSequence p) (clampLimit (pep_Limit p) 100 1000)
        (uniqueIDs (pep_ConversationIDs p)) (w_store now), st), w')"
    by (rule PullEvents_runs [OF assms(3) sound assms(4)])
  then show ?thesis unfolding event_page_def wanted by blast
qed

end
