(* ===== verification/ConvSamples.thy ===== *)
theory ConvSamples
  imports ConvLogProps
begin

section \<open>A small history of requests\<close>

text \<open>
  The concrete worlds on which the properties of conversations are applied: alice creates a
  group with bob in an empty store.
\<close>

definition sample_entropy :: bytes where
  "sample_entropy = replicate 12 (CHR ''a'') @ replicate 12 (CHR ''b'') @ replicate 12 (CHR ''c'') @
     replicate 12 (CHR ''d'') @ replicate 12 (CHR ''e'') @ replicate 12 (CHR ''f'')"

definition sample_world :: "cmem conv_world" where
  "sample_world = \<lparr>w_store = cm_NewMemoryStore, w_entropy = sample_entropy, w_indexed = []\<rparr>"

definition sample_service :: "cmem conv_service" where
  "sample_service = \<lparr>csv_store = conv_memory 1000, csv_now = 1000, csv_indexer = False\<rparr>"

definition sample_create :: create_conversation_params where
  "sample_create = \<lparr>ccp_OwnerAccountID = ''alice'', ccp_Kind = ConversationKindGroup, ccp_Title = ''t'',
     ccp_Description = [], ccp_AvatarMediaID = [], ccp_MemberAccountIDs = [''bob''],
     ccp_Settings = zero_settings, ccp_CreatedAt = 1000\<rparr>"

definition sample_call :: "conv_request \<Rightarrow> cmem conv_call" where
  "sample_call request = \<lparr>call_service = sample_service, call_clock = 1000, call_context = LiveContext,
     call_request = request\<rparr>"

definition sample_history :: "cmem conv_call list" where
  "sample_history = [sample_call (DoCreateConversation sample_create)]"

definition sample_created_event :: "string \<Rightarrow> string \<Rightarrow> uint64 \<Rightarrow> conv_event" where
  "sample_created_event i c number = \<lparr>ev_EventID = i,
     ev_EventType = EventTypeConversationCreated, ev_ConversationID = c,
     ev_ActorAccountID = ''alice'', ev_ActorDeviceID = [], ev_CausationID = [], ev_CorrelationID = [],
     ev_MessageID = [], ev_Sequence = number, ev_PayloadType = [], ev_Payload = no_payload,
     ev_ReadThroughSequence = 0,
     ev_Metadata = [(''kind'', ConversationKindGroup), (''title'', ''t'')], ev_CreatedAt = 1000\<rparr>"

text \<open>The identifiers are made of the random bytes; here each takes twelve equal ones.\<close>

definition token :: "char \<Rightarrow> string" where
  "token c = b64_encode (replicate 12 c)"

lemma token_fold: "b64_encode (replicate 12 c) = token c"
  by (simp add: token_def)

lemma token_visible [simp]: "list_all visible (token c)" "token c \<noteq> []"
  by (simp_all add: token_def)

lemma token_differ [simp]:
  "token (CHR ''a'') \<noteq> token (CHR ''c'')" "token (CHR ''c'') \<noteq> token (CHR ''a'')"
  "token (CHR ''b'') \<noteq> token (CHR ''d'')" "token (CHR ''d'') \<noteq> token (CHR ''b'')"
  unfolding token_def by code_simp+

definition sample_conversation :: string where
  "sample_conversation = ''conv_'' @ token (CHR ''a'')"

definition sample_event :: conv_event where
  "sample_event = sample_created_event (''evt_'' @ token (CHR ''b'')) sample_conversation 1"

definition second_event :: conv_event where
  "second_event = sample_created_event (''evt_'' @ token (CHR ''d'')) (''conv_'' @ token (CHR ''c'')) 2"

lemma sample_over_memory [simp]: "over_memory (sample_call request)"
  by (auto simp: over_memory_def sample_call_def sample_service_def)

text \<open>What the evaluation of a creation unfolds.\<close>

lemmas creation = CreateConversation_def silent_def normalize_create_def visible_def uniqueIDs_def
  ensureMemberIDs_def wrong_member_number_def conv_validateContext_def io_simps or_time_def conv_newID_def
  random_id_def random_token_def runTx_def create_tx_def conv_memory_methods cm_SaveConversation_def
  cm_SaveConversationMember_def cm_SaveTopic_def cm_SaveEvent_def eventID_def new_conversation_def
  new_member_def new_topic_def event_of_def conversationMemberKey_def topicKey_def generalTopicTitle_def
  cm_NewMemoryStore_def put_def Let_def indexConversation_def indexing_def

lemmas sample_run = sample_history_def sample_call_def sample_service_def sample_create_def sample_world_def
  sample_entropy_def token_fold creation event_log_def List.map_filter_simps sample_event_def
  sample_created_event_def sample_conversation_def second_event_def

text \<open>The store after the creation.\<close>

definition sample_store :: cmem where
  "sample_store = cm_NewMemoryStore\<lparr>
     cm_conversationsByID := [(sample_conversation, (new_conversation sample_create sample_conversation 1000)
       \<lparr>conv_Settings := normalizeConversationSettings zero_settings, conv_LastSequence := 1,
         conv_LastMessageAt := 1000\<rparr>)],
     cm_topicsByKey := [(topicKey sample_conversation [],
       new_topic sample_conversation [] [] generalTopicTitle ''alice'' True 1000)],
     cm_membersByKey := [(conversationMemberKey sample_conversation ''alice'',
         new_member sample_conversation ''alice'' MemberRoleOwner 1000),
       (conversationMemberKey sample_conversation ''bob'', new_member sample_conversation ''bob'' MemberRoleMember 1000)],
     cm_eventsByID := [(ev_EventID sample_event, sample_event)],
     cm_eventOrder := [ev_EventID sample_event],
     cm_nextSequence := 1\<rparr>"

definition sample_after :: "cmem conv_world" where
  "sample_after = \<lparr>w_store = sample_store, w_entropy = replicate 12 (CHR ''c'') @ replicate 12 (CHR ''d'') @
     replicate 12 (CHR ''e'') @ replicate 12 (CHR ''f''), w_indexed = []\<rparr>"

lemma sample_history_run: "run_calls sample_history sample_world = sample_after"
  by (simp add: sample_run sample_after_def sample_store_def)

lemma sample_created: "event_log (w_store (run_calls sample_history sample_world)) = [sample_event]"
  by (simp add: sample_history_run sample_after_def sample_store_def event_log_def List.map_filter_simps)

lemma sample_created_twice:
  "event_log (w_store (run_calls (sample_history @ sample_history) sample_world)) = [sample_event, second_event]"
  unfolding run_calls_append sample_history_run
  by (simp add: sample_run sample_after_def sample_store_def)

lemma sample_start [simp]: "w_store sample_world = cm_NewMemoryStore"
  by (simp add: sample_world_def)

lemma sample_history_over: "\<forall>c \<in> set sample_history. over_memory c"
  by (simp add: sample_history_def)

lemma sample_twice_over: "\<forall>c \<in> set (sample_history @ sample_history). over_memory c"
  by (simp add: sample_history_def)

lemma sample_numbers [simp]: "ev_Sequence sample_event = 1" "ev_Sequence second_event = 2"
  by (simp_all add: sample_event_def second_event_def sample_created_event_def)

lemma sample_service_store: "csv_store sample_service = conv_memory 1000"
  by (simp add: sample_service_def)

lemma conversation_log_append_only_witness:
  "prefix [sample_event] (event_log (w_store (run_calls (sample_history @ sample_history) sample_world)))"
  using conversation_log_append_only [OF sample_start, of sample_history sample_history] sample_history_over
  by (simp add: sample_created ball_Un)

text \<open>A stranger reads the log of the group.\<close>

lemma pull_ignores_membership_witness:
  "\<exists>st w'. PullEvents sample_service LiveContext \<lparr>pep_AccountID = ''mallory'', pep_DeviceID = ''dev'',
      pep_FromSequence = 0, pep_Limit = 0, pep_ConversationIDs = []\<rparr> (run_calls sample_history sample_world) =
    (Inr ([sample_event], st), w')"
  using pull_ignores_membership [OF sample_start sample_history_over sample_service_store, of
      "\<lparr>pep_AccountID = ''mallory'', pep_DeviceID = ''dev'', pep_FromSequence = 0, pep_Limit = 0,
        pep_ConversationIDs = []\<rparr>"]
  by (simp add: sample_created limited_def clampLimit_def uniqueIDs_def visible_def)

end
