(* ===== verification/GatewaySyncProps.thy ===== *)
theory GatewaySyncProps
  imports GatewaySync ConvSamples
begin

section \<open>What a synchronising device receives\<close>

text \<open>
  A stream delivers every event of the log that its request asks for exactly once and in the
  order of the log. A page of \<open>PullEvents\<close> does not: the events of a batch that no longer fit on
  the page are skipped by the sequence number it ends with.
\<close>

subsection \<open>Intervals of the log\<close>

definition span :: "(conv_event \<Rightarrow> bool) \<Rightarrow> uint64 \<Rightarrow> uint64 \<Rightarrow> conv_event list \<Rightarrow> conv_event list" where
  "span P a b es = List.filter (\<lambda>e. P e \<and> a < ev_Sequence e \<and> ev_Sequence e \<le> b) es"

abbreviation by_sequence :: "conv_event list \<Rightarrow> bool" where
  "by_sequence es \<equiv> sorted_wrt (\<lambda>x y. ev_Sequence x < ev_Sequence y) es"

lemma span_empty [simp]: "span P a a es = []"
  by (auto simp: span_def filter_empty_conv)

lemma span_append:
  assumes "by_sequence es" "a \<le> b" "b \<le> c"
  shows "span P a b es @ span P b c es = span P a c es"
  using assms
proof (induction es)
  case (Cons e es)
  have "span P a b es = []" if "b < ev_Sequence e"
    using Cons.prems(1) that by (fastforce simp: span_def filter_empty_conv)
  with Cons show ?case by (auto simp: span_def)
qed (simp add: span_def)

lemma span_filter: "List.filter Q (span P a b es) = span (\<lambda>e. P e \<and> Q e) a b es"
  by (auto simp: span_def intro: filter_cong)

text \<open>The first events after a number, taken from a prefix of the log.\<close>

lemma span_take:
  assumes sorted: "by_sequence es" and pre: "prefix now es"
    and taken: "taken = take n (List.filter (\<lambda>e. P e \<and> a < ev_Sequence e) now)" and ne: "taken \<noteq> []"
  shows "taken = span P a (ev_Sequence (last taken)) es"
proof -
  let ?ys = "List.filter (\<lambda>e. P e \<and> a < ev_Sequence e) es"
  obtain more where es: "es = now @ more" using pre by (auto simp: prefix_def)
  have split: "?ys = taken @ (drop n (List.filter (\<lambda>e. P e \<and> a < ev_Sequence e) now) @
      List.filter (\<lambda>e. P e \<and> a < ev_Sequence e) more)" (is "_ = _ @ ?rest")
    by (simp add: es taken append_take_drop_id flip: append_assoc)
  have order: "by_sequence (taken @ ?rest)"
    using sorted_wrt_filter [OF sorted] unfolding split [symmetric] .
  have front: "ev_Sequence x \<le> ev_Sequence (last taken)" if "x \<in> set taken" for x
  proof -
    obtain init z where ends: "taken = init @ [z]" using ne by (meson rev_exhaust)
    with order that show ?thesis by (auto simp: sorted_wrt_append)
  qed
  have rear: "ev_Sequence (last taken) < ev_Sequence x" if "x \<in> set ?rest" for x
    using order that ne by (auto simp: sorted_wrt_append)
  have "span P a (ev_Sequence (last taken)) es =
      List.filter (\<lambda>e. ev_Sequence e \<le> ev_Sequence (last taken)) ?ys"
    by (auto simp: span_def intro: filter_cong)
  also have "List.filter (\<lambda>e. ev_Sequence e \<le> ev_Sequence (last taken)) ?ys = taken"
    unfolding split using front rear by (force simp: filter_id_conv filter_empty_conv)
  finally show ?thesis by simp
qed

lemma span_next:
  assumes "by_sequence es" "e \<in> set es" "ev_Sequence e = a + 1" "a < ev_Sequence e" "P e"
  shows "span P a (ev_Sequence e) es = [e]"
proof -
  have only: "x = e" if "x \<in> set es" "a < ev_Sequence x" "ev_Sequence x \<le> ev_Sequence e" for x
  proof -
    have "ev_Sequence x = ev_Sequence e" using that assms(3)
      by (metis inc_le order_antisym)
    moreover have "distinct (List.map ev_Sequence es)"
      using assms(1) by (induction es) fastforce+
    ultimately show ?thesis using that(1) assms(2) by (meson distinct_map inj_onD)
  qed
  have "distinct es" using assms(1) by (induction es) fastforce+
  then have "List.filter (\<lambda>x. x = e) es = [e]" using assms(2)
    by (induction es) (auto simp: filter_empty_conv)
  moreover have "span P a (ev_Sequence e) es = List.filter (\<lambda>x. x = e) es"
    unfolding span_def
  proof (rule filter_cong [OF refl])
    fix x assume "x \<in> set es"
    then show "(P x \<and> a < ev_Sequence x \<and> ev_Sequence x \<le> ev_Sequence e) = (x = e)"
      using only [of x] assms(4,5) by blast
  qed
  ultimately show ?thesis by simp
qed

lemma log_by_sequence:
  assumes "log_sound s" "length (event_log s) < 2 ^ 64"
  shows "by_sequence (event_log s)"
proof -
  let ?n = "length (cm_eventOrder s)"
  have seq: "List.map ev_Sequence (event_log s) = List.map (\<lambda>k. of_nat (Suc k)) [0..<?n]"
    using assms(1) by (simp add: log_sound_def)
  have n: "?n = length (event_log s)" using arg_cong [OF seq, of length] by simp
  have "sorted_wrt (<) (List.map (\<lambda>k. of_nat (Suc k) :: uint64) [0..<?n])"
    unfolding sorted_wrt_map
  proof (rule sorted_wrt_mono_rel [of _ "(<)"])
    fix i j assume "i \<in> set [0..<?n]" "j \<in> set [0..<?n]" "i < j"
    then have "Suc i < 2 ^ 64" "Suc j < 2 ^ 64" using assms(2) n by auto
    with \<open>i < j\<close> show "(of_nat (Suc i) :: uint64) < of_nat (Suc j)"
      by (simp add: word_less_nat_alt unat_of_nat take_bit_nat_eq_self del: of_nat_Suc)
  qed simp
  then have "sorted_wrt (<) (List.map ev_Sequence (event_log s))" by (simp only: seq)
  then show ?thesis by (simp add: sorted_wrt_map)
qed

subsection \<open>Streams\<close>

text \<open>The events of the log that the client of a stream has received.\<close>

definition received :: "(conv_event \<times> bool) list \<Rightarrow> conv_event list" where
  "received sent = List.map fst (List.filter (\<lambda>(e, synthetic). \<not> synthetic) sent)"

definition in_conversations :: "string list \<Rightarrow> conv_event \<Rightarrow> bool" where
  "in_conversations ids e \<longleftrightarrow> uniqueIDs ids = [] \<or> ev_ConversationID e \<in> set (uniqueIDs ids)"

definition stream_wants :: "subscribe_request \<Rightarrow> conv_event \<Rightarrow> bool" where
  "stream_wants req e \<longleftrightarrow> in_conversations (sbr_ConversationIds req) e \<and> sub_includes req e"

lemma received_append [simp]: "received (xs @ ys) = received xs @ received ys"
  by (simp add: received_def)

lemma send_backlog_Inr:
  "send_backlog transport req es nextSequence sentAny (w, sent) = (Inr (next', any'), (w', sent')) \<Longrightarrow>
   w' = w \<and> sent' = sent @ List.map (\<lambda>e. (e, False)) (List.filter (sub_includes req) es) \<and>
   next' = (if es = [] then nextSequence else ev_Sequence (last es))"
proof (induction es arbitrary: nextSequence sentAny sent)
  case (Cons e es)
  then show ?case
    by (cases "es = []")
      (fastforce simp: io_inv stream_send_def split: if_splits option.splits)+
qed simp

lemma wanted_page: "event_page fromSequence 50 (uniqueIDs ids) s =
    take 50 (List.filter (\<lambda>e. in_conversations ids e \<and> fromSequence < ev_Sequence e) (event_log s))"
proof -
  have "wanted_event fromSequence (uniqueIDs ids) =
      (\<lambda>e. in_conversations ids e \<and> fromSequence < ev_Sequence e)"
    by (auto simp: fun_eq_iff wanted_event_def in_conversations_def)
  then show ?thesis by (simp add: event_page_def limited_def)
qed

lemma allowed_in_conversations:
  "syncConversationAllowed i ids \<Longrightarrow> trim_space i = i \<Longrightarrow> i \<noteq> [] \<Longrightarrow>
   uniqueIDs ids = [] \<or> i \<in> set (uniqueIDs ids)"
  by (fastforce simp: syncConversationAllowed_def list_ex_iff uniqueIDs_def set_keep_first)

text \<open>The log under the steps of a stream.\<close>

definition stream_grows :: "cmem stream_world \<Rightarrow> cmem stream_world \<Rightarrow> bool" where
  "stream_grows x y \<longleftrightarrow> log_grows (w_store (fst x)) (w_store (fst y))"

lemma preorder_stream_grows: "preorder_on_states stream_grows"
  using preorder_log_grows unfolding preorder_on_states_def stream_grows_def by blast

lemma PullEvents_grows:
  assumes "csv_store sv = conv_memory clock"
  shows "keeps (on_world log_grows) (PullEvents sv ctx p)"
  by (rule cml.keeps_cursors(1) [OF assms])

lemma keeps_in_world: "keeps (on_world log_grows) m \<Longrightarrow> keeps stream_grows (in_world m)"
  by (auto simp: keeps_def in_world_def stream_grows_def on_world_def split: prod.splits)

lemma keeps_stream_send: "keeps stream_grows (stream_send transport synthetic e)"
  using preorder_stream_grows
  by (auto simp: keeps_def stream_send_def stream_grows_def preorder_on_states_def
      split: prod.splits option.splits)

lemmas stream_rules = keeps_rules preorder_stream_grows keeps_in_world keeps_stream_send PullEvents_grows

lemma keeps_send_backlog: "keeps stream_grows (send_backlog transport req es nextSequence sentAny)"
proof (induction es arbitrary: nextSequence sentAny)
  case Nil
  show ?case by (simp only: send_backlog.simps) (rule keeps_pure [OF preorder_stream_grows])
next
  case (Cons e es)
  show ?case
    by (simp only: send_backlog.simps)
      (intro keeps_if keeps_andThen preorder_stream_grows keeps_stream_send Cons.IH)
qed

lemma keeps_direct: "keeps stream_grows (tryDirectSyncSignal transport req fromSequence signal)"
  unfolding tryDirectSyncSignal_def by (intro stream_rules)

lemma keeps_backlog:
  "csv_store sv = conv_memory clock \<Longrightarrow>
   keeps stream_grows (streamSyncBacklog sv ctx transport req accountID deviceID fromSequence)"
  unfolding streamSyncBacklog_def by (intro stream_rules keeps_send_backlog; assumption)

definition turn_over_memory :: "cmem stream_turn \<Rightarrow> bool" where
  "turn_over_memory t \<longleftrightarrow> (\<forall>c \<in> set (turn_calls t). over_memory c) \<and>
     (\<exists>clock. csv_store (turn_service t) = conv_memory clock)"

lemma keeps_turn:
  assumes "turn_over_memory t"
  shows "keeps stream_grows (stream_turn_step transport req accountID deviceID t fromSequence)"
proof -
  from assms obtain clock where S: "csv_store (turn_service t) = conv_memory clock"
    unfolding turn_over_memory_def by blast
  have calls: "stream_grows (w, sent) (run_calls (turn_calls t) w, sent)" for w sent
    using calls_grow [of "turn_calls t" w] assms by (simp add: stream_grows_def turn_over_memory_def)
  have first: "keeps R (\<lambda>(w, sent). m (f w, sent))"
    if "preorder_on_states R" "keeps R m" "\<And>w sent. R (w, sent) (f w, sent)" for R m and f :: "cmem conv_world \<Rightarrow> cmem conv_world"
    using that unfolding keeps_def preorder_on_states_def by fastforce
  show ?thesis unfolding stream_turn_step_def Let_def
    by (rule first [OF preorder_stream_grows _ calls], cases "turn_wakeup t"; simp only: wakeup.case)
      (intro keeps_andThen keeps_attempt keeps_case_sum keeps_case_prod keeps_if keeps_pure preorder_stream_grows
        keeps_backlog [OF S] keeps_direct)+
qed

text \<open>A client that started at one number and has received everything up to another.\<close>

definition caught_up :: "subscribe_request \<Rightarrow> conv_event list \<Rightarrow> uint64 \<Rightarrow> uint64 \<Rightarrow> (conv_event \<times> bool) list \<Rightarrow> bool" where
  "caught_up req L a n sent \<longleftrightarrow> a \<le> n \<and> received sent = span (stream_wants req) a n L"

lemma caught_up_more:
  assumes "caught_up req L a b sent" "by_sequence L" "b \<le> c"
    "received new = span (stream_wants req) b c L"
  shows "caught_up req L a c (sent @ new)"
  using assms span_append [of L a b c "stream_wants req"] by (auto simp: caught_up_def)

lemma received_logged [simp]: "received (List.map (\<lambda>e. (e, False)) es) = es"
  by (simp add: received_def filter_map comp_def)

lemma received_synthetic [simp]: "received [(e, True)] = []"
  by (simp add: received_def)

lemma send_backlog_any:
  "send_backlog transport req es nextSequence sentAny (w, sent) = (r, (w', sent')) \<Longrightarrow>
   w' = w \<and> (\<exists>k. sent' = sent @ List.map (\<lambda>e. (e, False)) (List.filter (sub_includes req) (take k es)) \<and>
     (\<forall>next' any'. r = Inr (next', any') \<longrightarrow> take k es = es \<and>
        next' = (if es = [] then nextSequence else ev_Sequence (last es))))"
proof (induction es arbitrary: nextSequence sentAny sent)
  case Nil
  then show ?case by (auto simp: ret_def)
next
  case (Cons e es)
  show ?case
  proof (cases "sub_includes req e")
    case False
    with Cons.prems have "send_backlog transport req es (ev_Sequence e) sentAny (w, sent) = (r, (w', sent'))" by simp
    from Cons.IH [OF this] obtain k where "w' = w"
      and "sent' = sent @ List.map (\<lambda>e. (e, False)) (List.filter (sub_includes req) (take k es))"
      and "\<forall>next' any'. r = Inr (next', any') \<longrightarrow> take k es = es \<and>
        next' = (if es = [] then ev_Sequence e else ev_Sequence (last es))" by blast
    with False show ?thesis by (intro conjI exI [of _ "Suc k"]) auto
  next
    case included: True
    show ?thesis
    proof (cases "transport e")
      case None
      with Cons.prems included
      have "send_backlog transport req es (ev_Sequence e) True (w, sent @ [(e, False)]) = (r, (w', sent'))"
        by (simp add: andThen_run stream_send_def)
      from Cons.IH [OF this] obtain k where "w' = w"
        and "sent' = (sent @ [(e, False)]) @ List.map (\<lambda>e. (e, False)) (List.filter (sub_includes req) (take k es))"
        and "\<forall>next' any'. r = Inr (next', any') \<longrightarrow> take k es = es \<and>
          next' = (if es = [] then ev_Sequence e else ev_Sequence (last es))" by blast
      with included show ?thesis by (intro conjI exI [of _ "Suc k"]) auto
    next
      case (Some err)
      with Cons.prems included show ?thesis
        by (intro conjI exI [of _ 0]) (auto simp: andThen_run stream_send_def)
    qed
  qed
qed

text \<open>A batch of the backlog, sent as a whole or up to a failure of the transport.\<close>

lemma page_part_caught_up:
  assumes L: "by_sequence L" "prefix now L" and up: "caught_up req L a b sent"
    and page: "page = take 50 (List.filter (\<lambda>e. in_conversations (sbr_ConversationIds req) e \<and> b < ev_Sequence e) now)"
    and part: "taken = take k page"
    and sent': "sent' = sent @ List.map (\<lambda>e. (e, False)) (List.filter (sub_includes req) taken)"
  shows "\<exists>n \<ge> b. caught_up req L a n sent' \<and> n = (if taken = [] then b else ev_Sequence (last taken))"
proof (cases "taken = []")
  case True
  with up sent' show ?thesis by simp
next
  case False
  have taken: "taken = take (min k 50)
      (List.filter (\<lambda>e. in_conversations (sbr_ConversationIds req) e \<and> b < ev_Sequence e) now)"
    by (simp add: part page take_take)
  let ?n = "ev_Sequence (last taken)"
  have "set taken \<subseteq> set (List.filter (\<lambda>e. in_conversations (sbr_ConversationIds req) e \<and> b < ev_Sequence e) now)"
    unfolding taken by (rule set_take_subset)
  moreover have "last taken \<in> set taken" using False by (rule last_in_set)
  ultimately have "b \<le> ?n" by fastforce
  have "taken = span (in_conversations (sbr_ConversationIds req)) b ?n L"
    by (rule span_take [OF L taken False])
  then have "List.filter (sub_includes req) taken = span (stream_wants req) b ?n L"
    using span_filter [of "sub_includes req" "in_conversations (sbr_ConversationIds req)" b ?n L]
    by (simp add: stream_wants_def span_def)
  with \<open>b \<le> ?n\<close> up L(1) show ?thesis
    by (intro exI [of _ ?n]) (simp add: sent' False caught_up_more)
qed

lemma backlog_keeps_up:
  assumes S: "csv_store sv = conv_memory clock" and L: "by_sequence L" "prefix (event_log (w_store w')) L"
    and sound: "log_sound (w_store w)" and up: "caught_up req L a b sent"
    and run: "streamSyncBacklog sv ctx transport req accountID deviceID b (w, sent) = (r, (w', sent'))"
  shows "\<exists>n \<ge> b. caught_up req L a n sent' \<and> (\<forall>next any. r = Inr (next, any) \<longrightarrow> n = next)"
proof -
  let ?pull = "PullEvents sv ctx \<lparr>pep_AccountID = accountID, pep_DeviceID = deviceID, pep_FromSequence = b,
    pep_Limit = defaultPageSize, pep_ConversationIDs = sbr_ConversationIds req\<rparr>"
  have "log_grows (w_store w) (w_store w')"
    using keepsD [OF keeps_backlog [OF S] run] by (simp add: stream_grows_def)
  with sound L(2) have now: "prefix (event_log (w_store w)) L"
    unfolding log_grows_def using prefix_order.trans by blast
  obtain pr w1 where pull: "?pull w = (pr, w1)" by fastforce
  show ?thesis
  proof (cases pr)
    case (Inl e)
    with run pull have "sent' = sent" "r = Inl e"
      by (auto simp: streamSyncBacklog_def andThen_run in_world_def)
    with up show ?thesis by (intro exI [of _ b]) simp
  next
    case (Inr pulled)
    then obtain events st where pulled: "pr = Inr (events, st)" by (cases pulled) simp
    from PullEvents_Inr(1) [OF S pull [unfolded pulled]]
    have page: "events = take 50 (List.filter (\<lambda>e. in_conversations (sbr_ConversationIds req) e \<and> b < ev_Sequence e)
        (event_log (w_store w)))"
      by (simp add: wanted_page defaultPageSize_def clampLimit_def)
    from run pull pulled have "send_backlog transport req events b False (w1, sent) = (r, (w', sent'))"
      by (simp add: streamSyncBacklog_def andThen_run in_world_def)
    from send_backlog_any [OF this] obtain k
      where sent': "sent' = sent @ List.map (\<lambda>e. (e, False)) (List.filter (sub_includes req) (take k events))"
        and all: "\<forall>next any. r = Inr (next, any) \<longrightarrow> take k events = events \<and>
          next = (if events = [] then b else ev_Sequence (last events))" by blast
    from page_part_caught_up [OF L(1) now up page refl sent'] obtain n
      where "b \<le> n" "caught_up req L a n sent'"
        "n = (if take k events = [] then b else ev_Sequence (last (take k events)))" by blast
    with all show ?thesis by (intro exI [of _ n]) auto
  qed
qed

text \<open>An event that a signal brings is sent if it is the next one of the log.\<close>

lemma direct_keeps_up:
  assumes L: "by_sequence L"
      "\<forall>e \<in> set L. trim_space (ev_ConversationID e) = ev_ConversationID e \<and> ev_ConversationID e \<noteq> []"
    and signal: "\<And>e. sig_event signal = Some e \<Longrightarrow> \<not> sig_synthetic signal \<Longrightarrow> e \<in> set L"
    and up: "caught_up req L a b sent"
    and run: "tryDirectSyncSignal transport req b signal (w, sent) = (r, (w', sent'))"
  shows "w' = w \<and> (\<exists>n \<ge> b. caught_up req L a n sent' \<and> (\<forall>next any. r = Inr (next, any) \<longrightarrow> n = next))"
proof (cases "sig_event signal")
  case None
  with run up show ?thesis by (auto simp: tryDirectSyncSignal_def ret_def)
next
  case (Some e)
  show ?thesis
  proof (cases "sig_synthetic signal")
    case True
    with run Some up show ?thesis
      by (auto simp: tryDirectSyncSignal_def ret_def andThen_run stream_send_def caught_up_def
          split: if_splits option.splits)
  next
    case False
    have unsent: ?thesis if "sent' = sent" "w' = w" "\<forall>next any. r = Inr (next, any) \<longrightarrow> next = b"
      using that up by blast
    show ?thesis
    proof (cases "b < ev_Sequence e \<and> ev_Sequence e = b + 1 \<and>
        syncConversationAllowed (ev_ConversationID e) (sbr_ConversationIds req) \<and> sub_includes req e \<and> transport e = None")
      case True
      then have "e \<in> set L" using signal Some False by blast
      with L(2) True have "stream_wants req e"
        unfolding stream_wants_def in_conversations_def using allowed_in_conversations by blast
      with span_next [OF L(1) \<open>e \<in> set L\<close>] True
      have "span (stream_wants req) b (ev_Sequence e) L = [e]" by blast
      then have "received [(e, False)] = span (stream_wants req) b (ev_Sequence e) L" by (simp add: received_def)
      with True up L(1) have "caught_up req L a (ev_Sequence e) (sent @ [(e, False)])"
        by (blast intro: caught_up_more less_imp_le)
      moreover have "\<not> b + 1 \<le> b" using True by (metis not_le)
      with True Some False have "tryDirectSyncSignal transport req b signal (w, sent) =
          (Inr (ev_Sequence e, True), (w, sent @ [(e, False)]))"
        by (simp add: tryDirectSyncSignal_def andThen_run stream_send_def ret_def)
      ultimately show ?thesis using run True by (auto intro: less_imp_le)
    next
      case stays: False
      have "sent' = sent \<and> w' = w \<and> (\<forall>next any. r = Inr (next, any) \<longrightarrow> next = b)"
        using run Some False stays
        by (simp add: tryDirectSyncSignal_def andThen_run stream_send_def ret_def not_less
            split: if_splits option.splits) auto
      with unsent show ?thesis by blast
    qed
  qed
qed

lemma keeps_turns:
  "\<forall>t \<in> set ts. turn_over_memory t \<Longrightarrow> keeps stream_grows (stream_turns transport req accountID deviceID ts b)"
proof (induction ts arbitrary: b)
  case Nil
  show ?case by (simp only: stream_turns.simps) (rule keeps_pure [OF preorder_stream_grows])
next
  case (Cons t ts)
  then show ?case
    by (simp only: stream_turns.simps)
      (intro keeps_andThen preorder_stream_grows keeps_turn keeps_case_prod keeps_if keeps_pure Cons.IH; simp)
qed

lemma direct_world: "tryDirectSyncSignal transport req b signal (w, sent) = (r, (w', sent')) \<Longrightarrow> w' = w"
  by (auto simp: tryDirectSyncSignal_def andThen_run stream_send_def ret_def split: option.splits if_splits)

lemma direct_stays:
  "tryDirectSyncSignal transport req b signal (w, sent) = (d, (w', sent')) \<Longrightarrow> d = Inr (next', False) \<Longrightarrow> next' = b"
  by (auto simp: tryDirectSyncSignal_def andThen_run stream_send_def ret_def split: option.splits if_splits)

definition signals_logged :: "conv_event list \<Rightarrow> 's stream_turn \<Rightarrow> bool" where
  "signals_logged L t \<longleftrightarrow> (\<forall>signal e. turn_wakeup t = Signal signal \<longrightarrow> sig_event signal = Some e \<longrightarrow>
     \<not> sig_synthetic signal \<longrightarrow> e \<in> set L)"

lemma turn_keeps_up:
  assumes t: "turn_over_memory t" "signals_logged L t"
    and L: "by_sequence L" "prefix (event_log (w_store w')) L"
      "\<forall>e \<in> set L. trim_space (ev_ConversationID e) = ev_ConversationID e \<and> ev_ConversationID e \<noteq> []"
    and sound: "log_sound (w_store w)" and up: "caught_up req L a b sent"
    and run: "stream_turn_step transport req accountID deviceID t b (w, sent) = (r, (w', sent'))"
  shows "\<exists>n. caught_up req L a n sent' \<and> (\<forall>next. r = Inr (next, True) \<longrightarrow> n = next)"
proof -
  from t(1) obtain clock where S: "csv_store (turn_service t) = conv_memory clock"
    unfolding turn_over_memory_def by blast
  define w0 where "w0 = run_calls (turn_calls t) w"
  have sound0: "log_sound (w_store w0)"
    unfolding w0_def using t(1) sound by (intro log_sound_calls) (simp_all add: turn_over_memory_def)
  obtain q w1 sent1 where backlog: "streamSyncBacklog (turn_service t) (turn_context t) transport req accountID deviceID b
      (w0, sent) = (q, (w1, sent1))" by (metis prod.exhaust)
  have rest: "(case q of
         Inl e \<Rightarrow> if done_context (turn_context t) then ret (b, False) else raise e
       | Inr (nextSequence, sentAny) \<Rightarrow>
           let from' = (if b < nextSequence then nextSequence else b) in
           if sentAny then ret (from', True)
           else case turn_wakeup t of
               StreamDone \<Rightarrow> ret (from', False)
             | Signal signal \<Rightarrow>
                 andThen (tryDirectSyncSignal transport req from' signal) (\<lambda>(directNext, sentDirect).
                 ret (if sentDirect then directNext else from', True))
             | ReconcileTick \<Rightarrow> ret (from', True)) (w1, sent1) = (r, (w', sent'))"
    using run backlog by (simp add: stream_turn_step_def andThen_run attempt_def w0_def)
  have caught: "\<exists>n \<ge> b. caught_up req L a n sent1 \<and> (\<forall>next any. q = Inr (next, any) \<longrightarrow> n = next)"
    if "w' = w1"
    using backlog_keeps_up [OF S L(1) _ sound0 up backlog] L(2) that by simp
  show ?thesis
  proof (cases q)
    case (Inl e)
    with rest have same: "w' = w1" "sent' = sent1" "\<forall>next. r \<noteq> Inr (next, True)"
      by (auto simp: ret_def raise_def split: if_splits)
    with caught show ?thesis by blast
  next
    case (Inr p)
    then obtain next1 any where q: "q = Inr (next1, any)" by (cases p) simp
    have up1: "b \<le> next1 \<and> caught_up req L a next1 sent1" if "w' = w1"
      using caught [OF that] q by blast
    have from': "(if b < next1 then next1 else b) = next1" if "w' = w1"
      using up1 [OF that] by auto
    show ?thesis
    proof (cases "\<exists>signal. \<not> any \<and> turn_wakeup t = Signal signal")
      case True
      then obtain signal where wake: "\<not> any" "turn_wakeup t = Signal signal" by blast
      obtain d w2 sent2 where direct: "tryDirectSyncSignal transport req (if b < next1 then next1 else b) signal
          (w1, sent1) = (d, (w2, sent2))" by (metis prod.exhaust)
      with rest q wake have r: "w' = w2" "sent' = sent2"
          "r = (case d of Inl e \<Rightarrow> Inl e | Inr (n, s) \<Rightarrow> Inr (if s then n else (if b < next1 then next1 else b), True))"
        by (auto simp: andThen_run ret_def Let_def split: sum.splits prod.splits)
      have signal: "\<And>e. sig_event signal = Some e \<Longrightarrow> \<not> sig_synthetic signal \<Longrightarrow> e \<in> set L"
        using t(2) wake unfolding signals_logged_def by blast
      have "w2 = w1" by (rule direct_world [OF direct])
      with r have same: "w' = w1" by simp
      from direct_keeps_up [OF L(1) L(3) signal conjunct2 [OF up1 [OF same]] direct [unfolded from' [OF same]]]
      obtain n where n: "n \<ge> next1" "caught_up req L a n sent2" "\<forall>next any. d = Inr (next, any) \<longrightarrow> n = next" by blast
      have "n = f" if "r = Inr (f, True)" for f
        using that r(3) n direct_stays [OF direct] from' [OF same] by (auto split: sum.splits)
      with n r show ?thesis by blast
    next
      case False
      with rest q have same: "w' = w1" "sent' = sent1" "\<forall>f. r = Inr (f, True) \<longrightarrow> f = (if b < next1 then next1 else b)"
        by (auto simp: ret_def Let_def split: if_splits wakeup.splits)
      with up1 from' show ?thesis by auto
    qed
  qed
qed

lemma turns_keep_up:
  assumes "\<forall>t \<in> set ts. turn_over_memory t \<and> signals_logged (event_log (w_store w')) t"
    and "by_sequence (event_log (w_store w'))" and "log_sound (w_store w)"
    and "caught_up req (event_log (w_store w')) a b sent"
    and "stream_turns transport req accountID deviceID ts b (w, sent) = (r, (w', sent'))"
  shows "\<exists>n. caught_up req (event_log (w_store w')) a n sent'"
  using assms
proof (induction ts arbitrary: b w sent)
  case Nil
  then show ?case by (auto simp: ret_def)
next
  case (Cons t ts)
  let ?L = "event_log (w_store w')"
  have grows: "stream_grows (w, sent) (w', sent')"
    using keepsD [OF keeps_turns Cons.prems(5)] Cons.prems(1) by blast
  with Cons.prems(3) have sound': "log_sound (w_store w')" by (simp add: stream_grows_def log_grows_def)
  then have trimmed: "\<forall>e \<in> set ?L. trim_space (ev_ConversationID e) = ev_ConversationID e \<and> ev_ConversationID e \<noteq> []"
    by (simp add: log_sound_def)
  have t: "turn_over_memory t" "signals_logged ?L t" using Cons.prems(1) by simp_all
  obtain q w1 sent1 where step: "stream_turn_step transport req accountID deviceID t b (w, sent) = (q, (w1, sent1))"
    by (metis prod.exhaust)
  have sound1: "log_sound (w_store w1)"
    using keepsD [OF keeps_turn [OF t(1)] step] Cons.prems(3) by (simp add: stream_grows_def log_grows_def)
  show ?case
  proof (cases "\<exists>f. q = Inr (f, True)")
    case True
    then obtain f where q: "q = Inr (f, True)" by blast
    with step Cons.prems(5) have rest: "stream_turns transport req accountID deviceID ts f (w1, sent1) = (r, (w', sent'))"
      by (simp add: andThen_run)
    have "stream_grows (w1, sent1) (w', sent')"
      using keepsD [OF keeps_turns rest] Cons.prems(1) by simp
    with sound1 have "prefix (event_log (w_store w1)) ?L" by (simp add: stream_grows_def log_grows_def)
    from turn_keeps_up [OF t Cons.prems(2) this trimmed Cons.prems(3,4) step] q
    have "caught_up req ?L a f sent1" by blast
    with Cons.IH [OF _ Cons.prems(2) sound1 _ rest] Cons.prems(1) show ?thesis by simp
  next
    case False
    with step Cons.prems(5) have same: "w' = w1" "sent' = sent1"
      by (auto simp: andThen_run ret_def split: sum.splits prod.splits if_splits bool.splits)
    from turn_keeps_up [OF t Cons.prems(2) _ trimmed Cons.prems(3,4) step] same show ?thesis by auto
  qed
qed

text \<open>C32: A stream that starts after any history of requests and goes through any turns, with
  any requests, failures and signals between them: however it ends, the events of the log that
  the client has received are exactly those it asked for, from the sequence number it named up
  to some point of the log, each once and in the order of the log. Only a signal that brings an
  event of the log is assumed, and a log of fewer than two to the power of 64 events.\<close>
theorem stream_exactly_once:
  assumes "w_store w = cm_NewMemoryStore" "\<forall>c \<in> set history. over_memory c"
    and run: "SubscribeEvents transport requireAuth req turns (run_calls history w, []) = (r, (w', sent))"
    and "\<forall>t \<in> set turns. turn_over_memory t \<and> signals_logged (event_log (w_store w')) t"
    and "length (event_log (w_store w')) < 2 ^ 64"
  shows "\<exists>n \<ge> sbr_FromSequence req. received sent =
    List.filter (\<lambda>e. stream_wants req e \<and> sbr_FromSequence req < ev_Sequence e \<and> ev_Sequence e \<le> n)
      (event_log (w_store w'))"
proof -
  have sound: "log_sound (w_store (run_calls history w))" using assms(1,2) log_sound_new by (simp add: log_sound_calls)
  let ?a = "sbr_FromSequence req"
  have start: "caught_up req L ?a ?a []" for L by (simp add: caught_up_def received_def)
  have "\<exists>n. caught_up req (event_log (w_store w')) ?a n sent"
  proof (cases "\<exists>auth deviceID. requireAuth = Inr auth \<and> syncDeviceID auth (sbr_DeviceId req) = Inr deviceID")
    case True
    then obtain auth deviceID where "requireAuth = Inr auth" "syncDeviceID auth (sbr_DeviceId req) = Inr deviceID" by blast
    with run have turns: "stream_turns transport req (auth_AccountID auth) deviceID turns ?a
        (run_calls history w, []) = (r, (w', sent))" by (simp add: SubscribeEvents_def andThen_run)
    have "log_sound (w_store w')"
      using keepsD [OF keeps_turns turns] assms(4) sound by (simp add: stream_grows_def log_grows_def)
    then have "by_sequence (event_log (w_store w'))" using assms(5) by (rule log_by_sequence)
    with turns_keep_up [OF assms(4) _ sound start turns] show ?thesis .
  next
    case False
    with run have "sent = []" by (auto simp: SubscribeEvents_def andThen_run of_result_def split: sum.splits)
    with start show ?thesis by blast
  qed
  then show ?thesis by (auto simp: caught_up_def span_def)
qed

end
