(* ===== verification/GatewayDelivery.thy ===== *)
theory GatewayDelivery
  imports GatewaySyncProps
begin

section \<open>Delivery: streams catch up, pages skip\<close>

text \<open>
  A stream whose turns succeed delivers the whole log, fifty events a turn. A page of
  \<open>PullEvents\<close> reads a batch larger than itself and ends with the number of the batch's last
  event, so the events that did not fit are not on the next page either.
\<close>

subsection \<open>Streams\<close>

definition after :: "(conv_event \<Rightarrow> bool) \<Rightarrow> uint64 \<Rightarrow> conv_event list \<Rightarrow> conv_event list" where
  "after P a es = List.filter (\<lambda>e. P e \<and> a < ev_Sequence e) es"

lemma after_next:
  assumes sorted: "by_sequence es" and page: "taken = take k (after P a es)" and ne: "taken \<noteq> []"
  shows "after P (ev_Sequence (last taken)) es = drop k (after P a es)" and "a < ev_Sequence (last taken)"
proof -
  let ?n = "ev_Sequence (last taken)" and ?ys = "after P a es"
  have split: "?ys = taken @ drop k ?ys" by (simp add: page)
  have order: "by_sequence (taken @ drop k ?ys)"
    using sorted_wrt_filter [OF sorted] unfolding split [symmetric] by (simp add: after_def)
  have rear: "?n < ev_Sequence x" if "x \<in> set (drop k ?ys)" for x
    using order that ne by (auto simp: sorted_wrt_append)
  have front: "ev_Sequence x \<le> ?n" if "x \<in> set taken" for x
  proof -
    obtain init z where ends: "taken = init @ [z]" using ne by (meson rev_exhaust)
    with order that show ?thesis by (auto simp: sorted_wrt_append)
  qed
  have "last taken \<in> set ?ys" using ne split by (metis Un_iff last_in_set set_append)
  then show less: "a < ?n" by (simp add: after_def)
  then have "after P ?n es = List.filter (\<lambda>e. ?n < ev_Sequence e) ?ys"
    by (auto simp: after_def intro: filter_cong)
  also have "\<dots> = List.filter (\<lambda>e. ?n < ev_Sequence e) taken @ List.filter (\<lambda>e. ?n < ev_Sequence e) (drop k ?ys)"
    by (metis split filter_append)
  also have "\<dots> = drop k ?ys" using rear front by (auto simp: filter_id_conv filter_empty_conv not_less)
  finally show "after P ?n es = drop k ?ys" .
qed

definition quiet_turn :: "cmem stream_turn \<Rightarrow> bool" where
  "quiet_turn t \<longleftrightarrow> turn_calls t = [] \<and> turn_context t = LiveContext \<and> turn_wakeup t = ReconcileTick \<and>
     (\<exists>clock. csv_store (turn_service t) = conv_memory clock)"

lemma send_backlog_runs:
  "send_backlog (\<lambda>_. None) req es nextSequence sentAny (w, sent) =
    (Inr (if es = [] then nextSequence else ev_Sequence (last es), sentAny \<or> (\<exists>e \<in> set es. sub_includes req e)),
     (w, sent @ List.map (\<lambda>e. (e, False)) (List.filter (sub_includes req) es)))"
  by (induction es arbitrary: nextSequence sentAny sent)
    (auto simp: ret_def andThen_run stream_send_def)

lemma quiet_step:
  assumes "quiet_turn t" "log_sound (w_store w)" "by_sequence (event_log (w_store w))" "trim_space deviceID \<noteq> []"
    and page_def: "page = take 50 (after (in_conversations (sbr_ConversationIds req)) b (event_log (w_store w)))"
  obtains w' where "stream_turn_step (\<lambda>_. None) req accountID deviceID t b (w, sent) =
      (Inr (if page = [] then b else ev_Sequence (last page), True),
       (w', sent @ List.map (\<lambda>e. (e, False)) (List.filter (sub_includes req) page)))"
    and "event_log (w_store w') = event_log (w_store w)" "log_sound (w_store w')"
proof -
  from assms(1) obtain clock where S: "csv_store (turn_service t) = conv_memory clock"
    and t: "turn_calls t = []" "turn_context t = LiveContext" "turn_wakeup t = ReconcileTick"
    unfolding quiet_turn_def by blast
  define p where "p = \<lparr>pep_AccountID = accountID, pep_DeviceID = deviceID, pep_FromSequence = b,
    pep_Limit = defaultPageSize, pep_ConversationIDs = sbr_ConversationIds req\<rparr>"
  have "trim_space (pep_DeviceID p) \<noteq> []" using assms(4) by (simp add: p_def)
  from PullEvents_runs [OF S assms(2) this] obtain st w'
    where "PullEvents (turn_service t) LiveContext p w =
      (Inr (event_page (pep_FromSequence p) (clampLimit (pep_Limit p) 100 1000)
        (uniqueIDs (pep_ConversationIDs p)) (w_store w), st), w')" by blast
  then have pull: "PullEvents (turn_service t) LiveContext p w = (Inr (page, st), w')"
    by (simp add: p_def clampLimit_def defaultPageSize_def wanted_page page_def after_def)
  have next_after: "page \<noteq> [] \<Longrightarrow> b < ev_Sequence (last page)"
    by (rule after_next(2) [OF assms(3) page_def])
  have "stream_turn_step (\<lambda>_. None) req accountID deviceID t b (w, sent) =
      (Inr (if page = [] then b else ev_Sequence (last page), True),
       (w', sent @ List.map (\<lambda>e. (e, False)) (List.filter (sub_includes req) page)))"
    using pull next_after
    by (simp add: stream_turn_step_def streamSyncBacklog_def t andThen_run attempt_def in_world_def
        p_def [symmetric] send_backlog_runs ret_def)
  moreover have "event_log (w_store w') = event_log (w_store w)" by (rule PullEvents_Inr(2) [OF S pull])
  moreover have "log_sound (w_store w')"
    using keepsD [OF PullEvents_grows [OF S] pull] assms(2) by (simp add: on_world_def log_grows_def)
  ultimately show thesis by (rule that)
qed

lemma quiet_turns:
  assumes "\<forall>t \<in> set ts. quiet_turn t" "log_sound (w_store w)" "by_sequence (event_log (w_store w))"
    "trim_space deviceID \<noteq> []"
    "length (after (in_conversations (sbr_ConversationIds req)) b (event_log (w_store w))) \<le> 50 * length ts"
  shows "\<exists>n w'. stream_turns (\<lambda>_. None) req accountID deviceID ts b (w, sent) =
    (Inr n, (w', sent @ List.map (\<lambda>e. (e, False)) (List.filter (sub_includes req)
       (after (in_conversations (sbr_ConversationIds req)) b (event_log (w_store w))))))"
  using assms
proof (induction ts arbitrary: b w sent)
  case Nil
  then show ?case by (simp add: ret_def)
next
  case (Cons t ts)
  let ?P = "in_conversations (sbr_ConversationIds req)" and ?L = "event_log (w_store w)"
  define page where "page = take 50 (after ?P b ?L)"
  define n where "n = (if page = [] then b else ev_Sequence (last page))"
  have t: "quiet_turn t" using Cons.prems(1) by simp
  obtain w' where step: "stream_turn_step (\<lambda>_. None) req accountID deviceID t b (w, sent) =
      (Inr (n, True), (w', sent @ List.map (\<lambda>e. (e, False)) (List.filter (sub_includes req) page)))"
    and same: "event_log (w_store w') = ?L" and sound: "log_sound (w_store w')"
    unfolding n_def by (rule quiet_step [OF t Cons.prems(2-4) page_def])
  have rest: "after ?P n ?L = drop 50 (after ?P b ?L)"
    using after_next(1) [OF Cons.prems(3) page_def] by (auto simp: n_def page_def)
  have all: "page @ drop 50 (after ?P b ?L) = after ?P b ?L" by (simp add: page_def)
  have "\<exists>m v. stream_turns (\<lambda>_. None) req accountID deviceID ts n
      (w', sent @ List.map (\<lambda>e. (e, False)) (List.filter (sub_includes req) page)) =
      (Inr m, (v, (sent @ List.map (\<lambda>e. (e, False)) (List.filter (sub_includes req) page)) @
        List.map (\<lambda>e. (e, False)) (List.filter (sub_includes req) (after ?P n ?L))))"
    using Cons.IH [of w' n "sent @ List.map (\<lambda>e. (e, False)) (List.filter (sub_includes req) page)"] Cons.prems sound by (simp add: same rest)
  then obtain m v where more: "stream_turns (\<lambda>_. None) req accountID deviceID ts n
      (w', sent @ List.map (\<lambda>e. (e, False)) (List.filter (sub_includes req) page)) =
      (Inr m, (v, (sent @ List.map (\<lambda>e. (e, False)) (List.filter (sub_includes req) page)) @
        List.map (\<lambda>e. (e, False)) (List.filter (sub_includes req) (after ?P n ?L))))" by blast
  have "List.map (\<lambda>e. (e, False)) (List.filter (sub_includes req) page) @
      List.map (\<lambda>e. (e, False)) (List.filter (sub_includes req) (after ?P n ?L)) =
      List.map (\<lambda>e. (e, False)) (List.filter (sub_includes req) (after ?P b ?L))"
    by (metis all rest filter_append map_append)
  with more show ?case by (simp add: step andThen_run)
qed

text \<open>C33: A stream whose transport, context and device are sound catches up: after any history
  of requests, as soon as it has gone through as many turns as there are batches of fifty in the
  log, its client has received every event of the log that it asked for, once and in order,
  without any signal.\<close>
theorem stream_catches_up:
  assumes "w_store w = cm_NewMemoryStore" "\<forall>c \<in> set history. over_memory c"
  defines "now \<equiv> run_calls history w"
  assumes "length (event_log (w_store now)) < 2 ^ 64"
    and "\<forall>t \<in> set turns. quiet_turn t" "length (event_log (w_store now)) \<le> 50 * length turns"
    and "syncDeviceID auth (sbr_DeviceId req) = Inr deviceID" "trim_space deviceID \<noteq> []"
  shows "\<exists>n w'. SubscribeEvents (\<lambda>_. None) (Inr auth) req turns (now, []) =
    (Inr n, (w', List.map (\<lambda>e. (e, False))
       (List.filter (\<lambda>e. stream_wants req e \<and> sbr_FromSequence req < ev_Sequence e) (event_log (w_store now)))))"
proof -
  let ?P = "in_conversations (sbr_ConversationIds req)" and ?L = "event_log (w_store now)"
  have sound: "log_sound (w_store now)" unfolding now_def using assms(1,2) log_sound_new by (simp add: log_sound_calls)
  have few: "length (after ?P (sbr_FromSequence req) ?L) \<le> 50 * length turns"
    using assms(6) le_trans length_filter_le unfolding after_def by blast
  have "List.filter (sub_includes req) (after ?P (sbr_FromSequence req) ?L) =
      List.filter (\<lambda>e. stream_wants req e \<and> sbr_FromSequence req < ev_Sequence e) ?L"
    by (auto simp: after_def stream_wants_def intro: filter_cong)
  with quiet_turns [OF assms(5) sound log_by_sequence [OF sound assms(4)] assms(8) few,
      of "auth_AccountID auth" "[]"] assms(7)
  show ?thesis by (simp add: SubscribeEvents_def andThen_run)
qed

subsection \<open>Pages\<close>



subsection \<open>The properties applied\<close>

definition sample_turn :: "cmem stream_turn" where
  "sample_turn = \<lparr>turn_calls = [], turn_service = sample_service, turn_context = LiveContext,
     turn_wakeup = ReconcileTick\<rparr>"

definition sample_auth :: auth_context where
  "sample_auth = \<lparr>auth_AccountID = ''bob'', auth_DeviceID = ''dev''\<rparr>"

definition sample_subscribe :: subscribe_request where
  "sample_subscribe = \<lparr>sbr_DeviceId = [], sbr_FromSequence = 0, sbr_ConversationIds = [],
     sbr_IncludePresence = False, sbr_IncludeModeration = False\<rparr>"

lemma sample_included [simp]:
  "includeSyncEvent sample_event presence moderation" "includeSyncEvent second_event presence moderation"
  by (simp_all add: includeSyncEvent_def sample_event_def second_event_def sample_created_event_def)

lemma sample_wanted [simp]: "stream_wants sample_subscribe sample_event" "stream_wants sample_subscribe second_event"
  by (simp_all add: stream_wants_def in_conversations_def uniqueIDs_def sub_includes_def sample_subscribe_def)

lemma stream_catches_up_witness:
  "\<exists>n w'. SubscribeEvents (\<lambda>_. None) (Inr sample_auth) sample_subscribe [sample_turn]
     (run_calls (sample_history @ sample_history) sample_world, []) =
   (Inr n, (w', [(sample_event, False), (second_event, False)]))"
proof -
  have from0: "sbr_FromSequence sample_subscribe = 0" by (simp add: sample_subscribe_def)
  have turns: "\<forall>t \<in> set [sample_turn]. quiet_turn t"
    by (simp add: quiet_turn_def sample_turn_def sample_service_store) blast
  have device: "syncDeviceID sample_auth (sbr_DeviceId sample_subscribe) = Inr ''dev''"
    by (simp add: syncDeviceID_def sample_auth_def sample_subscribe_def)
  show ?thesis
    using stream_catches_up [OF sample_start sample_twice_over _ turns _ device]
    by (simp add: sample_created_twice visible_def from0)
qed


lemma stream_exactly_once_witness:
  "\<exists>n w' sent. SubscribeEvents (\<lambda>_. None) (Inr sample_auth) sample_subscribe [sample_turn]
     (run_calls (sample_history @ sample_history) sample_world, []) = (Inr n, (w', sent)) \<and>
   (\<exists>m. received sent = List.filter (\<lambda>e. ev_Sequence e \<le> m) [sample_event, second_event])"
proof -
  let ?w = "run_calls (sample_history @ sample_history) sample_world"
  have sound: "log_sound (w_store ?w)" using sample_twice_over log_sound_new by (simp add: log_sound_calls)
  have sorted: "by_sequence (event_log (w_store ?w))" by (simp add: sample_created_twice)
  have turn: "quiet_turn sample_turn" by (simp add: quiet_turn_def sample_turn_def sample_service_store) blast
  have turns: "\<forall>t \<in> set [sample_turn]. turn_over_memory t \<and> signals_logged L t" for L
    by (simp add: turn_over_memory_def signals_logged_def sample_turn_def sample_service_store) blast
  have dev: "trim_space ''dev'' \<noteq> []" by (simp add: visible_def)
  obtain w' n sent where step: "stream_turn_step (\<lambda>_. None) sample_subscribe ''bob'' ''dev'' sample_turn 0 (?w, []) =
      (Inr (n, True), (w', sent))" and log: "event_log (w_store w') = event_log (w_store ?w)"
    by (rule quiet_step [OF turn sound sorted dev refl])
  have run: "SubscribeEvents (\<lambda>_. None) (Inr sample_auth) sample_subscribe [sample_turn] (?w, []) = (Inr n, (w', sent))"
    using step by (simp add: SubscribeEvents_def andThen_run syncDeviceID_def sample_auth_def sample_subscribe_def ret_def)
  have from0: "sbr_FromSequence sample_subscribe = 0" by (simp add: sample_subscribe_def)
  from stream_exactly_once [OF sample_start sample_twice_over run turns] obtain m
    where "received sent = List.filter (\<lambda>e. stream_wants sample_subscribe e \<and> 0 < ev_Sequence e \<and> ev_Sequence e \<le> m)
      [sample_event, second_event]"
    unfolding from0 log sample_created_twice by auto
  then have "received sent = List.filter (\<lambda>e. ev_Sequence e \<le> m) [sample_event, second_event]" by simp
  with run show ?thesis by blast
qed

end
