(* ===== verification/ConvRate.thy ===== *)
theory ConvRate
  imports ConvModeration
begin

section \<open>What slow mode and the anti-spam window allow\<close>

text \<open>
  One account writes to one target under one policy, at any times that do not go backwards. A
  write that the limiter allows is recorded in the rate state, one that it refuses is not.
\<close>

definition write_attempt :: "mod_policy \<Rightarrow> rate_state \<Rightarrow> time \<Rightarrow> bool" where
  "write_attempt p r now \<longleftrightarrow> snd (rate_verdict p r now) = None"

fun accepted_writes :: "mod_policy \<Rightarrow> rate_state \<Rightarrow> time list \<Rightarrow> time list" where
  "accepted_writes p r [] = []"
| "accepted_writes p r (t # ts) =
     (if write_attempt p r t then t # accepted_writes p (rate_after (pol_AntiSpamWindow p) t r) ts
      else accepted_writes p r ts)"

lemma write_attempt_iff:
  assumes "0 < pol_AntiSpamWindow p" "0 < pol_AntiSpamBurstLimit p"
  shows "write_attempt p r t \<longleftrightarrow>
    \<not> (0 < pol_SlowModeInterval p \<and> rate_LastWriteAt r \<noteq> zero_time \<and> t < rate_LastWriteAt r + pol_SlowModeInterval p) \<and>
    (if window_over (pol_AntiSpamWindow p) r t then word_of_int (pol_AntiSpamBurstLimit p) \<noteq> (0 :: uint64)
     else rate_WindowCount r < word_of_int (pol_AntiSpamBurstLimit p))"
  using assms
  by (auto simp: write_attempt_def rate_verdict_def Let_def rate_limited_def write_allowed_def not_le word_neq_0_conv)

lemma slow_write: "write_attempt p r t \<Longrightarrow> 0 < pol_SlowModeInterval p \<Longrightarrow> rate_LastWriteAt r \<noteq> zero_time \<Longrightarrow>
    rate_LastWriteAt r + pol_SlowModeInterval p \<le> t"
  by (auto simp: write_attempt_def rate_verdict_def Let_def rate_limited_def split: if_splits)

lemma last_write [simp]: "rate_LastWriteAt (rate_after W t r) = t"
  by (simp add: rate_after_def Let_def)

lemma accepted_subset: "set (accepted_writes p r ts) \<subseteq> set ts"
  by (induction ts arbitrary: r) auto

subsection \<open>Slow mode\<close>

lemma accepted_after_last:
  assumes "0 < pol_SlowModeInterval p" "rate_LastWriteAt r \<noteq> zero_time" "\<forall>t \<in> set ts. 0 < t"
    "x \<in> set (accepted_writes p r ts)" "sorted ts"
  shows "rate_LastWriteAt r + pol_SlowModeInterval p \<le> x"
  using assms
proof (induction ts arbitrary: r)
  case (Cons t ts)
  show ?case
  proof (cases "write_attempt p r t")
    case True
    have first: "rate_LastWriteAt r + pol_SlowModeInterval p \<le> t" by (rule slow_write [OF True Cons.prems(1,2)])
    from True Cons.prems(4) have "x = t \<or> x \<in> set ts" using accepted_subset by fastforce
    with Cons.prems(5) have "t \<le> x" by auto
    with first show ?thesis by simp
  next
    case False
    with Cons show ?thesis by simp
  qed
qed simp

lemma accepted_spaced:
  assumes "0 < pol_SlowModeInterval p" "\<forall>t \<in> set ts. 0 < t" "sorted ts"
  shows "sorted_wrt (\<lambda>x y. x + pol_SlowModeInterval p \<le> y) (accepted_writes p r ts)"
  using assms
proof (induction ts arbitrary: r)
  case (Cons t ts)
  have "t + pol_SlowModeInterval p \<le> x" if "x \<in> set (accepted_writes p (rate_after W t r) ts)" for x W
    using accepted_after_last [of p "rate_after W t r" ts x] Cons.prems that by simp
  with Cons show ?case by simp
qed simp

subsection \<open>Bursts\<close>

text \<open>The rate state of an account whose writes were recorded, before attempts from some time on.\<close>

definition bounds_bursts :: "mod_policy \<Rightarrow> bool" where
  "bounds_bursts p \<longleftrightarrow> 0 < pol_AntiSpamWindow p \<and> pol_AntiSpamWindow p < 2 ^ 63 \<and>
     0 < pol_AntiSpamBurstLimit p \<and> pol_AntiSpamBurstLimit p < 2 ^ 63"

definition rate_ok :: "mod_policy \<Rightarrow> rate_state \<Rightarrow> time list \<Rightarrow> bool" where
  "rate_ok p r ts \<longleftrightarrow> bounds_bursts p \<and> (\<forall>t \<in> set ts. 0 < t) \<and> sorted ts \<and>
     (rate_WindowStartedAt r \<noteq> zero_time \<longrightarrow> (\<forall>t \<in> set ts. rate_WindowStartedAt r \<le> t) \<and>
        1 \<le> uint (rate_WindowCount r) \<and> uint (rate_WindowCount r) \<le> pol_AntiSpamBurstLimit p)"

lemma burst_bounds:
  assumes "rate_ok p r ts"
  shows "0 < pol_AntiSpamWindow p" "pol_AntiSpamWindow p < 2 ^ 63"
    "0 < pol_AntiSpamBurstLimit p" "pol_AntiSpamBurstLimit p < 2 ^ 63"
  using assms by (simp_all add: rate_ok_def bounds_bursts_def)

lemma limit_word: "rate_ok p r ts \<Longrightarrow> uint (word_of_int (pol_AntiSpamBurstLimit p) :: uint64) = pol_AntiSpamBurstLimit p"
  using burst_bounds by (fastforce simp: uint_word_of_int)

lemma window_over_iff:
  "rate_ok p r (t # ts) \<Longrightarrow> window_over (pol_AntiSpamWindow p) r t \<longleftrightarrow>
     rate_WindowStartedAt r = zero_time \<or> rate_WindowStartedAt r + pol_AntiSpamWindow p \<le> t"
  using burst_bounds [of p r "t # ts"] by (auto simp: window_over_def time_sub_def rate_ok_def)

lemma write_in_window:
  assumes "rate_ok p r (t # ts)" "write_attempt p r t" "\<not> window_over (pol_AntiSpamWindow p) r t"
  shows "uint (rate_WindowCount r) < pol_AntiSpamBurstLimit p"
  using assms limit_word [OF assms(1)] burst_bounds [OF assms(1)] by (simp add: write_attempt_iff word_less_def)

lemma recorded_in_window:
  assumes "rate_ok p r (t # ts)" "write_attempt p r t" "\<not> window_over (pol_AntiSpamWindow p) r t"
  shows "uint (rate_WindowCount (rate_after (pol_AntiSpamWindow p) t r)) = uint (rate_WindowCount r) + 1"
    and "rate_WindowStartedAt (rate_after (pol_AntiSpamWindow p) t r) = rate_WindowStartedAt r"
proof -
  have small: "uint (rate_WindowCount r) + 1 < 2 ^ 64" using write_in_window [OF assms] burst_bounds [OF assms(1)] by simp
  have same: "window_over W (r\<lparr>rate_LastWriteAt := t\<rparr>) t = window_over W r t" for W by (simp add: window_over_def)
  from small show "uint (rate_WindowCount (rate_after (pol_AntiSpamWindow p) t r)) = uint (rate_WindowCount r) + 1"
    using assms(3) by (simp add: rate_after_def Let_def same uint_word_ariths)
  show "rate_WindowStartedAt (rate_after (pol_AntiSpamWindow p) t r) = rate_WindowStartedAt r"
    using assms(3) by (simp add: rate_after_def Let_def same)
qed

lemma recorded_new_window:
  assumes "window_over (pol_AntiSpamWindow p) r t"
  shows "rate_WindowCount (rate_after (pol_AntiSpamWindow p) t r) = 1"
    and "rate_WindowStartedAt (rate_after (pol_AntiSpamWindow p) t r) = t"
proof -
  have same: "window_over W (r\<lparr>rate_LastWriteAt := t\<rparr>) t = window_over W r t" for W by (simp add: window_over_def)
  with assms show "rate_WindowCount (rate_after (pol_AntiSpamWindow p) t r) = 1"
    "rate_WindowStartedAt (rate_after (pol_AntiSpamWindow p) t r) = t" by (simp_all add: rate_after_def Let_def)
qed

lemma rate_ok_recorded:
  assumes "rate_ok p r (t # ts)" "write_attempt p r t"
  shows "rate_ok p (rate_after (pol_AntiSpamWindow p) t r) ts"
proof (cases "window_over (pol_AntiSpamWindow p) r t")
  case True
  with assms(1) burst_bounds [OF assms(1)] show ?thesis by (auto simp: rate_ok_def recorded_new_window)
next
  case False
  from write_in_window [OF assms False] recorded_in_window [OF assms False] assms(1)
  show ?thesis by (auto simp: rate_ok_def)
qed

lemma rate_ok_skip: "rate_ok p r (t # ts) \<Longrightarrow> rate_ok p r ts"
  by (auto simp: rate_ok_def)

definition below :: "time \<Rightarrow> time list \<Rightarrow> int" where
  "below b xs = int (length (List.filter (\<lambda>t. t < b) xs))"

lemma below_Cons [simp]: "below b (x # xs) = (if x < b then 1 + below b xs else below b xs)"
  by (simp add: below_def)

lemma below_Nil [simp]: "below b [] = 0"
  by (simp add: below_def)

lemma below_late: "rate_ok p r (t # ts) \<Longrightarrow> b \<le> t \<Longrightarrow> below b (accepted_writes p r' ts) = 0"
  using accepted_subset [of p r' ts] by (fastforce simp: below_def rate_ok_def filter_empty_conv)

text \<open>Within the current window.\<close>

lemma below_window:
  assumes "rate_ok p r ts" "rate_WindowStartedAt r \<noteq> zero_time" "b \<le> rate_WindowStartedAt r + pol_AntiSpamWindow p"
  shows "below b (accepted_writes p r ts) \<le> pol_AntiSpamBurstLimit p - uint (rate_WindowCount r)"
  using assms
proof (induction ts arbitrary: r)
  case Nil
  then show ?case by (simp add: rate_ok_def)
next
  case (Cons t ts)
  have bound: "uint (rate_WindowCount r) \<le> pol_AntiSpamBurstLimit p" using Cons.prems by (simp add: rate_ok_def)
  show ?case
  proof (cases "write_attempt p r t")
    case accepted: True
    show ?thesis
    proof (cases "t < b")
      case True
      with Cons.prems have inside: "\<not> window_over (pol_AntiSpamWindow p) r t"
        by (simp add: window_over_iff)
      note recorded = recorded_in_window [OF Cons.prems(1) accepted inside]
      from Cons.IH [OF rate_ok_recorded [OF Cons.prems(1) accepted]] Cons.prems recorded
      show ?thesis using accepted True by simp
    next
      case False
      with accepted below_late [OF Cons.prems(1)] bound show ?thesis by simp
    qed
  next
    case False
    with Cons.IH [OF rate_ok_skip [OF Cons.prems(1)]] Cons.prems show ?thesis by simp
  qed
qed

text \<open>Within the current window and the next one.\<close>

lemma below_two_windows:
  assumes "rate_ok p r ts" "rate_WindowStartedAt r \<noteq> zero_time"
    "b \<le> rate_WindowStartedAt r + 2 * pol_AntiSpamWindow p"
  shows "below b (accepted_writes p r ts) \<le> 2 * pol_AntiSpamBurstLimit p - uint (rate_WindowCount r)"
  using assms
proof (induction ts arbitrary: r)
  case Nil
  with burst_bounds [OF Nil(1)] show ?case by (simp add: rate_ok_def)
next
  case (Cons t ts)
  have bound: "uint (rate_WindowCount r) \<le> pol_AntiSpamBurstLimit p" using Cons.prems by (simp add: rate_ok_def)
  have pos: "0 < t" using Cons.prems(1) by (simp add: rate_ok_def)
  show ?case
  proof (cases "write_attempt p r t \<and> t < b")
    case True
    then have accepted: "write_attempt p r t" by simp
    note ok = rate_ok_recorded [OF Cons.prems(1) accepted]
    show ?thesis
    proof (cases "window_over (pol_AntiSpamWindow p) r t")
      case over: True
      with Cons.prems have "b \<le> t + pol_AntiSpamWindow p" by (simp add: window_over_iff)
      with below_window [OF ok] recorded_new_window [OF over] pos
      have "below b (accepted_writes p (rate_after (pol_AntiSpamWindow p) t r) ts) \<le> pol_AntiSpamBurstLimit p - 1" by simp
      with True bound show ?thesis by simp
    next
      case False
      from Cons.IH [OF ok] Cons.prems recorded_in_window [OF Cons.prems(1) accepted False] True
      show ?thesis by simp
    qed
  next
    case False
    show ?thesis
    proof (cases "write_attempt p r t")
      case True
      with False below_late [OF Cons.prems(1)] bound burst_bounds [OF Cons.prems(1)] show ?thesis by simp
    next
      case rejected: False
      with Cons.IH [OF rate_ok_skip [OF Cons.prems(1)]] Cons.prems show ?thesis by simp
    qed
  qed
qed

text \<open>From a time at which no window is open.\<close>

lemma below_fresh:
  assumes "rate_ok p r ts" "\<forall>t \<in> set ts. a \<le> t"
    "rate_WindowStartedAt r = zero_time \<or> rate_WindowStartedAt r + pol_AntiSpamWindow p \<le> a"
  shows "below (a + pol_AntiSpamWindow p) (accepted_writes p r ts) \<le> pol_AntiSpamBurstLimit p"
  using assms
proof (induction ts)
  case Nil
  with burst_bounds [OF Nil(1)] show ?case by simp
next
  case (Cons t ts)
  show ?case
  proof (cases "write_attempt p r t")
    case True
    have pos: "0 < t" using Cons.prems(1) by (simp add: rate_ok_def)
    have over: "window_over (pol_AntiSpamWindow p) r t" using Cons.prems by (auto simp: window_over_iff)
    from below_window [OF rate_ok_recorded [OF Cons.prems(1) True], of "a + pol_AntiSpamWindow p"]
      recorded_new_window [OF over] pos Cons.prems(2)
    show ?thesis using True by simp
  next
    case False
    with Cons.IH [OF rate_ok_skip [OF Cons.prems(1)]] Cons.prems show ?thesis by simp
  qed
qed

lemma burst_bound:
  assumes "rate_ok p r ts"
  shows "int (length (List.filter (\<lambda>t. a \<le> t \<and> t < a + pol_AntiSpamWindow p) (accepted_writes p r ts))) \<le>
    2 * pol_AntiSpamBurstLimit p - 1"
  using assms
proof (induction ts arbitrary: r)
  case Nil
  with burst_bounds [OF Nil(1)] show ?case by simp
next
  case (Cons t ts)
  show ?case
  proof (cases "a \<le> t")
    case True
    with Cons.prems have late: "\<forall>x \<in> set (t # ts). a \<le> x" by (auto simp: rate_ok_def)
    then have "List.filter (\<lambda>t. a \<le> t \<and> t < a + pol_AntiSpamWindow p) (accepted_writes p r (t # ts)) =
        List.filter (\<lambda>t. t < a + pol_AntiSpamWindow p) (accepted_writes p r (t # ts))"
      using accepted_subset [of p r "t # ts"] by (intro filter_cong) auto
    then have "int (length (List.filter (\<lambda>t. a \<le> t \<and> t < a + pol_AntiSpamWindow p) (accepted_writes p r (t # ts)))) =
        below (a + pol_AntiSpamWindow p) (accepted_writes p r (t # ts))" by (simp add: below_def)
    also have "\<dots> \<le> 2 * pol_AntiSpamBurstLimit p - 1"
    proof (cases "rate_WindowStartedAt r = zero_time \<or> rate_WindowStartedAt r + pol_AntiSpamWindow p \<le> a")
      case True
      from below_fresh [OF Cons.prems late True] burst_bounds [OF Cons.prems] show ?thesis by simp
    next
      case False
      then have "below (a + pol_AntiSpamWindow p) (accepted_writes p r (t # ts)) \<le>
          2 * pol_AntiSpamBurstLimit p - uint (rate_WindowCount r)"
        using burst_bounds [OF Cons.prems] by (intro below_two_windows [OF Cons.prems]) simp_all
      with False Cons.prems show ?thesis by (simp add: rate_ok_def)
    qed
    finally show ?thesis .
  next
    case False
    show ?thesis
    proof (cases "write_attempt p r t")
      case True
      with Cons.IH [OF rate_ok_recorded [OF Cons.prems True]] False show ?thesis by simp
    next
      case rejected: False
      with Cons.IH [OF rate_ok_skip [OF Cons.prems]] False show ?thesis by simp
    qed
  qed
qed

text \<open>C40: One account writes to one target, at any times that do not go backwards; a write that is
  allowed is recorded. Then allowed writes are at least the slow mode interval apart, and where
  the anti-spam window is on, no interval as long as the window holds twice the burst limit of
  them.\<close>
theorem rate_limits_hold:
  assumes "\<forall>t \<in> set ts. 0 < t" "sorted ts" "0 < pol_SlowModeInterval p" "bounds_bursts p"
  shows "sorted_wrt (\<lambda>x y. x + pol_SlowModeInterval p \<le> y) (accepted_writes p zero_rate_state ts) \<and>
    (\<forall>a. int (length (List.filter (\<lambda>t. a \<le> t \<and> t < a + pol_AntiSpamWindow p)
       (accepted_writes p zero_rate_state ts))) < 2 * pol_AntiSpamBurstLimit p)"
proof -
  have "rate_ok p zero_rate_state ts" using assms by (simp add: rate_ok_def zero_rate_state_def)
  then have "int (length (List.filter (\<lambda>t. a \<le> t \<and> t < a + pol_AntiSpamWindow p)
       (accepted_writes p zero_rate_state ts))) < 2 * pol_AntiSpamBurstLimit p" for a
    using burst_bound [of p zero_rate_state ts a] by simp
  with accepted_spaced [OF assms(3,1,2)] show ?thesis by blast
qed

text \<open>The bound is reached: with two writes in a window of ten, three fall between 10 and 20.\<close>

definition sample_limits :: mod_policy where
  "sample_limits = \<lparr>pol_TargetKind = [], pol_TargetID = [], pol_OnlyAdminsCanWrite = False,
     pol_OnlyAdminsCanAddMembers = False, pol_AllowReactions = True, pol_AllowForwards = True,
     pol_AllowThreads = True, pol_RequireEncryptedMessages = False, pol_RequireTrustedDevices = False,
     pol_RequireJoinApproval = False, pol_PinnedMessagesOnlyAdmins = False, pol_SlowModeInterval = 1,
     pol_AntiSpamWindow = 10, pol_AntiSpamBurstLimit = 2, pol_ShadowMode = False,
     pol_CreatedAt = 1, pol_UpdatedAt = 1\<rparr>"

lemma sample_accepted: "accepted_writes sample_limits zero_rate_state [1, 10, 10, 10, 11, 12, 13, 21] = [1, 10, 11, 12, 21]"
  by (simp add: sample_limits_def zero_rate_state_def write_attempt_def rate_verdict_def rate_after_def
      window_over_def time_sub_def rate_limited_def write_allowed_def no_decision_def Let_def word_le_nat_alt)

lemma rate_limits_hold_witness:
  "sorted_wrt (\<lambda>x y. x + 1 \<le> y) [1, 10, 11, 12, 21 :: int] \<and>
   int (length (List.filter (\<lambda>t. 10 \<le> t \<and> t < 10 + 10) [1, 10, 11, 12, 21 :: int])) < 2 * 2"
proof -
  have times: "\<forall>t \<in> set [1, 10, 10, 10, 11, 12, 13, 21 :: int]. 0 < t" "sorted [1, 10, 10, 10, 11, 12, 13, 21 :: int]"
    by simp_all
  have policy: "0 < pol_SlowModeInterval sample_limits" "bounds_bursts sample_limits"
    by (simp_all add: sample_limits_def bounds_bursts_def)
  have fields: "pol_SlowModeInterval sample_limits = 1" "pol_AntiSpamWindow sample_limits = 10"
    "pol_AntiSpamBurstLimit sample_limits = 2" by (simp_all add: sample_limits_def)
  note limits = rate_limits_hold [OF times policy, unfolded sample_accepted fields]
  show ?thesis by (rule conjI [OF conjunct1 [OF limits] spec [OF conjunct2 [OF limits], of 10]])
qed

end
