(* ===== verification/ConvTyped.thy ===== *)
theory ConvTyped
  imports ConvSamples
begin

section \<open>What the conversation store holds\<close>

text \<open>
  The type of a stored record: the key it is stored under, the fields that are never empty, the
  times that are in order. Every method of the store keeps it, so it holds after any history of
  requests; and but for reactions and restrictions no record is ever removed.
\<close>

definition table_ok :: "('k \<Rightarrow> 'v \<Rightarrow> bool) \<Rightarrow> ('k, 'v) gomap \<Rightarrow> bool" where
  "table_ok P m \<longleftrightarrow> (\<forall>k x. lookup m k = Some x \<longrightarrow> P k x)"

lemma table_ok_put [intro]: "table_ok P m \<Longrightarrow> P k x \<Longrightarrow> table_ok P (put k x m)"
  by (simp add: table_ok_def)

lemma table_ok_remove [intro]: "table_ok P m \<Longrightarrow> table_ok P (remove k m)"
  by (simp add: table_ok_def)

lemma table_okD: "table_ok P m \<Longrightarrow> lookup m k = Some x \<Longrightarrow> P k x"
  by (simp add: table_ok_def)

text \<open>A name as the store keeps it: trimmed and not empty.\<close>

definition name_ok :: "string \<Rightarrow> bool" where
  "name_ok i \<longleftrightarrow> trim_space i = i \<and> i \<noteq> []"

definition times_ok :: "time \<Rightarrow> time \<Rightarrow> bool" where
  "times_ok created updated \<longleftrightarrow> created \<noteq> zero_time \<and> updated \<noteq> zero_time \<and> created \<le> updated"

definition topic_ok :: "string \<Rightarrow> topic \<Rightarrow> bool" where
  "topic_ok k t \<longleftrightarrow> k = topicKey (top_ConversationID t) (top_ID t) \<and> name_ok (top_ConversationID t) \<and>
     trim_space (top_ID t) = top_ID t \<and> name_ok (top_CreatedByAccountID t) \<and> name_ok (top_Title t) \<and>
     times_ok (top_CreatedAt t) (top_UpdatedAt t) \<and>
     (top_IsGeneral t \<longleftrightarrow> top_ID t = []) \<and> (top_IsGeneral t \<longrightarrow> top_RootMessageID t = [])"

definition member_ok :: "string \<Rightarrow> conv_member \<Rightarrow> bool" where
  "member_ok k m \<longleftrightarrow> k = conversationMemberKey (cmem_ConversationID m) (cmem_AccountID m) \<and>
     name_ok (cmem_ConversationID m) \<and> name_ok (cmem_AccountID m)"

definition invite_ok :: "string \<Rightarrow> conv_invite \<Rightarrow> bool" where
  "invite_ok k i \<longleftrightarrow> k = inviteKey (cinv_ConversationID i) (cinv_ID i) \<and> name_ok (cinv_ConversationID i) \<and>
     name_ok (cinv_ID i) \<and> name_ok (cinv_Code i) \<and> cinv_AllowedRoles i \<noteq> []"

text \<open>A message has a body, and its attachments carry no caption in plain text.\<close>

definition message_ok :: "string \<Rightarrow> message \<Rightarrow> bool" where
  "message_ok k m \<longleftrightarrow> k = msg_ID m \<and> name_ok (msg_ID m) \<and> name_ok (msg_ConversationID m) \<and>
     name_ok (msg_SenderAccountID m) \<and> name_ok (msg_SenderDeviceID m) \<and>
     msg_Kind m \<noteq> MessageKindUnspecified \<and> msg_Status m \<noteq> MessageStatusUnspecified \<and>
     enc_Ciphertext (msg_Payload m) \<noteq> [] \<and> (\<forall>a \<in> set (msg_Attachments m). att_Caption a = [])"

definition reaction_ok :: "(string, message) gomap \<Rightarrow> string \<Rightarrow> msg_reaction \<Rightarrow> bool" where
  "reaction_ok ms k r \<longleftrightarrow> k = reactionKey (mreac_MessageID r) (mreac_AccountID r) \<and> name_ok (mreac_MessageID r) \<and>
     name_ok (mreac_AccountID r) \<and> name_ok (mreac_Reaction r) \<and> times_ok (mreac_CreatedAt r) (mreac_UpdatedAt r) \<and>
     lookup ms (mreac_MessageID r) \<noteq> None"

definition event_ok :: "string \<Rightarrow> conv_event \<Rightarrow> bool" where
  "event_ok k e \<longleftrightarrow> k = ev_EventID e \<and> name_ok (ev_EventID e) \<and> name_ok (ev_ConversationID e) \<and>
     name_ok (ev_ActorAccountID e) \<and>
     (ev_EventType e = EventTypeMessageCreated \<or> ev_EventType e = EventTypeMessageEdited \<longrightarrow>
        enc_Ciphertext (ev_Payload e) \<noteq> [])"

definition policy_ok :: "string \<Rightarrow> mod_policy \<Rightarrow> bool" where
  "policy_ok k p \<longleftrightarrow> k = moderationPolicyKey (pol_TargetKind p) (pol_TargetID p) \<and> name_ok (pol_TargetKind p) \<and>
     name_ok (pol_TargetID p) \<and> times_ok (pol_CreatedAt p) (pol_UpdatedAt p) \<and>
     (pol_AntiSpamWindow p = 0 \<longleftrightarrow> pol_AntiSpamBurstLimit p = 0)"

text \<open>A report is pending, or it was reviewed by somebody at some time.\<close>

definition report_ok :: "string \<Rightarrow> mod_report \<Rightarrow> bool" where
  "report_ok k r \<longleftrightarrow> k = rep_ID r \<and> name_ok (rep_ID r) \<and> name_ok (rep_TargetKind r) \<and> name_ok (rep_TargetID r) \<and>
     name_ok (rep_ReporterAccountID r) \<and> name_ok (rep_Reason r) \<and> times_ok (rep_CreatedAt r) (rep_UpdatedAt r) \<and>
     (rep_Status r = ModerationReportStatusPending \<and> rep_ReviewedByAccountID r = [] \<and> rep_ReviewedAt r = zero_time \<or>
      rep_Status r \<in> {ModerationReportStatusResolved, ModerationReportStatusRejected} \<and>
        name_ok (rep_ReviewedByAccountID r) \<and> rep_ReviewedAt r \<noteq> zero_time)"

definition restriction_ok :: "string \<Rightarrow> restriction \<Rightarrow> bool" where
  "restriction_ok k r \<longleftrightarrow> k = moderationRestrictionKey (rsn_TargetKind r) (rsn_TargetID r) (rsn_AccountID r) \<and>
     name_ok (rsn_TargetKind r) \<and> name_ok (rsn_TargetID r) \<and> name_ok (rsn_AccountID r) \<and>
     rsn_State r \<noteq> ModerationRestrictionStateUnspecified \<and> times_ok (rsn_CreatedAt r) (rsn_UpdatedAt r) \<and>
     (rsn_ExpiresAt r = zero_time \<or> rsn_CreatedAt r \<le> rsn_ExpiresAt r)"

definition store_typed :: "cmem \<Rightarrow> bool" where
  "store_typed s \<longleftrightarrow>
     table_ok (\<lambda>k c. k = conv_ID c \<and> trim_space k \<noteq> []) (cm_conversationsByID s) \<and>
     table_ok topic_ok (cm_topicsByKey s) \<and> table_ok member_ok (cm_membersByKey s) \<and>
     table_ok invite_ok (cm_invitesByKey s) \<and> table_ok message_ok (cm_messagesByID s) \<and>
     table_ok (reaction_ok (cm_messagesByID s)) (cm_reactionsByKey s) \<and>
     table_ok (\<lambda>k r. k = readStateKey (rst_ConversationID r) (rst_AccountID r) (rst_DeviceID r))
       (cm_readStatesByKey s) \<and>
     table_ok (\<lambda>k y. k = syn_DeviceID y \<and> name_ok k) (cm_syncStatesByDevice s) \<and>
     table_ok event_ok (cm_eventsByID s) \<and> table_ok policy_ok (cm_moderationPoliciesByKey s) \<and>
     table_ok report_ok (cm_moderationReportsByID s) \<and>
     table_ok (\<lambda>k a. k = mact_ID a \<and> name_ok k \<and> name_ok (mact_ActorAccountID a) \<and> mact_CreatedAt a \<noteq> zero_time)
       (cm_moderationActionsByID s) \<and>
     table_ok restriction_ok (cm_moderationRestrictions s) \<and>
     table_ok (\<lambda>k r. k = moderationRestrictionKey (rate_TargetKind r) (rate_TargetID r) (rate_AccountID r) \<and>
       rate_UpdatedAt r \<noteq> zero_time) (cm_moderationRateStates s)"

abbreviation keys :: "('k, 'v) gomap \<Rightarrow> 'k set" where
  "keys m \<equiv> dom (lookup m)"

text \<open>The tables from which nothing is removed.\<close>

definition nothing_lost :: "cmem \<Rightarrow> cmem \<Rightarrow> bool" where
  "nothing_lost s s' \<longleftrightarrow>
     keys (cm_conversationsByID s) \<subseteq> keys (cm_conversationsByID s') \<and>
     keys (cm_topicsByKey s) \<subseteq> keys (cm_topicsByKey s') \<and>
     keys (cm_membersByKey s) \<subseteq> keys (cm_membersByKey s') \<and>
     keys (cm_invitesByKey s) \<subseteq> keys (cm_invitesByKey s') \<and>
     keys (cm_messagesByID s) \<subseteq> keys (cm_messagesByID s') \<and>
     keys (cm_readStatesByKey s) \<subseteq> keys (cm_readStatesByKey s') \<and>
     keys (cm_syncStatesByDevice s) \<subseteq> keys (cm_syncStatesByDevice s') \<and>
     lookup (cm_eventsByID s) \<subseteq>\<^sub>m lookup (cm_eventsByID s') \<and>
     keys (cm_moderationPoliciesByKey s) \<subseteq> keys (cm_moderationPoliciesByKey s') \<and>
     keys (cm_moderationReportsByID s) \<subseteq> keys (cm_moderationReportsByID s') \<and>
     lookup (cm_moderationActionsByID s) \<subseteq>\<^sub>m lookup (cm_moderationActionsByID s') \<and>
     keys (cm_moderationRateStates s) \<subseteq> keys (cm_moderationRateStates s')"

definition well_kept :: "cmem \<Rightarrow> cmem \<Rightarrow> bool" where
  "well_kept s s' \<longleftrightarrow> (store_typed s \<longrightarrow> store_typed s') \<and> nothing_lost s s'"

lemma nothing_lost_trans: "nothing_lost s t \<Longrightarrow> nothing_lost t u \<Longrightarrow> nothing_lost s u"
  unfolding nothing_lost_def
  by (elim conjE, intro conjI; (erule (1) subset_trans | erule (1) map_le_trans))

lemma nothing_lost_refl [simp]: "nothing_lost s s"
  by (simp add: nothing_lost_def)

lemma well_kept_refl [intro, simp]: "well_kept s s"
  by (simp add: well_kept_def)

lemma preorder_well_kept: "preorder_on_states well_kept"
  unfolding preorder_on_states_def well_kept_def using nothing_lost_trans by simp blast

subsection \<open>Writing one record\<close>

lemma reaction_ok_message: "table_ok (reaction_ok ms) rs \<Longrightarrow> table_ok (reaction_ok (put k x ms)) rs"
  by (simp add: table_ok_def reaction_ok_def)

lemmas record_write = well_kept_def nothing_lost_def store_typed_def table_ok_put table_ok_remove reaction_ok_message

lemma kept_records:
  "trim_space k \<noteq> [] \<Longrightarrow> k = conv_ID c \<Longrightarrow>
     well_kept s (s\<lparr>cm_conversationsByID := put k c (cm_conversationsByID s)\<rparr>)"
  "topic_ok k t \<Longrightarrow> well_kept s (s\<lparr>cm_topicsByKey := put k t (cm_topicsByKey s)\<rparr>)"
  "member_ok k mb \<Longrightarrow> well_kept s (s\<lparr>cm_membersByKey := put k mb (cm_membersByKey s)\<rparr>)"
  "invite_ok k i \<Longrightarrow> well_kept s (s\<lparr>cm_invitesByKey := put k i (cm_invitesByKey s)\<rparr>)"
  "message_ok k m \<Longrightarrow> well_kept s (s\<lparr>cm_messagesByID := put k m (cm_messagesByID s)\<rparr>)"
  "reaction_ok (cm_messagesByID s) k r \<Longrightarrow> well_kept s (s\<lparr>cm_reactionsByKey := put k r (cm_reactionsByKey s)\<rparr>)"
  "well_kept s (s\<lparr>cm_reactionsByKey := remove k (cm_reactionsByKey s)\<rparr>)"
  "k = readStateKey (rst_ConversationID rd) (rst_AccountID rd) (rst_DeviceID rd) \<Longrightarrow>
     well_kept s (s\<lparr>cm_readStatesByKey := put k rd (cm_readStatesByKey s)\<rparr>)"
  "k = syn_DeviceID y \<Longrightarrow> name_ok k \<Longrightarrow> well_kept s (s\<lparr>cm_syncStatesByDevice := put k y (cm_syncStatesByDevice s)\<rparr>)"
  "policy_ok k p \<Longrightarrow> well_kept s (s\<lparr>cm_moderationPoliciesByKey := put k p (cm_moderationPoliciesByKey s)\<rparr>)"
  "report_ok k rp \<Longrightarrow> well_kept s (s\<lparr>cm_moderationReportsByID := put k rp (cm_moderationReportsByID s)\<rparr>)"
  "restriction_ok k rs \<Longrightarrow> well_kept s (s\<lparr>cm_moderationRestrictions := put k rs (cm_moderationRestrictions s)\<rparr>)"
  "well_kept s (s\<lparr>cm_moderationRestrictions := remove k (cm_moderationRestrictions s)\<rparr>)"
  "k = moderationRestrictionKey (rate_TargetKind rt) (rate_TargetID rt) (rate_AccountID rt) \<Longrightarrow>
     rate_UpdatedAt rt \<noteq> zero_time \<Longrightarrow>
     well_kept s (s\<lparr>cm_moderationRateStates := put k rt (cm_moderationRateStates s)\<rparr>)"
  by (simp_all add: record_write subset_insertI)

lemma kept_event:
  "event_ok k e \<Longrightarrow> lookup (cm_eventsByID s) k = None \<Longrightarrow>
   well_kept s (s\<lparr>cm_nextSequence := n, cm_eventsByID := put k e (cm_eventsByID s), cm_eventOrder := es\<rparr>)"
  by (simp add: record_write map_le_def) (auto simp: dom_def)

lemma kept_action:
  "k = mact_ID a \<Longrightarrow> name_ok k \<Longrightarrow> name_ok (mact_ActorAccountID a) \<Longrightarrow> mact_CreatedAt a \<noteq> zero_time \<Longrightarrow>
   lookup (cm_moderationActionsByID s) k = None \<Longrightarrow>
   well_kept s (s\<lparr>cm_moderationActionsByID := put k a (cm_moderationActionsByID s)\<rparr>)"
  by (simp add: record_write map_le_def) (auto simp: dom_def)

subsection \<open>The methods of the store\<close>

lemma methods_well_kept:
  "keeps well_kept (cm_SaveConversation x1)" "keeps well_kept (cm_SaveConversationMember x2)"
  "keeps well_kept (cm_SaveConversationInvite x3)" "keeps well_kept (cm_SaveTopic x4)"
  "keeps well_kept (cm_SaveMessageReaction x5)" "keeps well_kept (cm_DeleteMessageReaction x6 x7)"
  "keeps well_kept (cm_SaveReadState x8)" "keeps well_kept (cm_SaveSyncState x9)"
  "keeps well_kept (cm_SaveModerationPolicy x10)" "keeps well_kept (cm_SaveModerationRestriction x11)"
  "keeps well_kept (cm_DeleteModerationRestriction x12 x13 x14)" "keeps well_kept (cm_SaveModerationRateState x15)"
  "keeps well_kept (cm_SaveModerationAction x16)"
  by (rule keepsI;
      auto simp: cm_SaveConversation_def cm_SaveConversationMember_def cm_SaveConversationInvite_def
        cm_SaveTopic_def cm_SaveMessageReaction_def cm_DeleteMessageReaction_def cm_SaveReadState_def
        cm_SaveSyncState_def cm_SaveModerationPolicy_def cm_SaveModerationRestriction_def
        cm_DeleteModerationRestriction_def cm_SaveModerationRateState_def cm_SaveModerationAction_def
        Let_def topic_ok_def member_ok_def invite_ok_def reaction_ok_def policy_ok_def restriction_ok_def
        name_ok_def times_ok_def split: if_splits intro!: kept_records kept_action)+

lemma message_well_kept: "keeps well_kept (cm_SaveMessage m)"
proof (rule keepsI)
  fix s r s'
  assume run: "cm_SaveMessage m s = (r, s')"
  let ?t = "StripMessageHints (trimmed_message m)"
  have "s' = s \<or> s' = s\<lparr>cm_messagesByID := put (msg_ID ?t) ?t (cm_messagesByID s)\<rparr> \<and> message_ok (msg_ID ?t) ?t"
    using run
    by (auto simp: cm_SaveMessage_def Let_def message_ok_def name_ok_def StripMessageHints_def trimmed_message_def
        ValidateMessagePayload_def split: if_splits sum.splits)
  then show "well_kept s s'" using kept_records(5) by auto
qed

lemma report_well_kept: "keeps well_kept (cm_SaveModerationReport m)"
proof (rule keepsI)
  fix s r s'
  assume run: "cm_SaveModerationReport m s = (r, s')"
  let ?t = "trimmed_report m"
  have "report_ok (rep_ID ?t) ?t" if "s' \<noteq> s"
    using run that
    by (auto simp: cm_SaveModerationReport_def Let_def report_ok_def name_ok_def times_ok_def trimmed_report_def
        report_review_ok_def split: if_splits)
  moreover have "s' = s \<or> s' = s\<lparr>cm_moderationReportsByID := put (rep_ID ?t) ?t (cm_moderationReportsByID s)\<rparr>"
    using run by (auto simp: cm_SaveModerationReport_def Let_def split: if_splits)
  ultimately show "well_kept s s'" by (metis kept_records(11) well_kept_refl)
qed

lemma event_well_kept: "keeps well_kept (cm_SaveEvent e0)"
proof (rule keepsI)
  fix s r s'
  assume run: "cm_SaveEvent e0 s = (r, s')"
  define e where "e = e0\<lparr>ev_EventID := trim_space (ev_EventID e0),
      ev_ConversationID := trim_space (ev_ConversationID e0),
      ev_ActorAccountID := trim_space (ev_ActorAccountID e0), ev_Sequence := cm_nextSequence s + 1\<rparr>"
  have "s' = s \<or> lookup (cm_eventsByID s) (ev_EventID e) = None \<and> event_ok (ev_EventID e) e \<and>
      s' = s\<lparr>cm_nextSequence := cm_nextSequence s + 1, cm_eventsByID := put (ev_EventID e) e (cm_eventsByID s),
        cm_eventOrder := cm_eventOrder s @ [ev_EventID e]\<rparr>"
    using run
    by (auto simp: cm_SaveEvent_def Let_def e_def event_ok_def name_ok_def ValidateMessagePayload_def
        split: if_splits sum.splits option.splits)
  then show "well_kept s s'" using kept_event by auto
qed

interpretation cmk: conversation_steps "conv_memory clock" well_kept for clock
proof (unfold_locales, goal_cases)
  case 1
  show ?case by (rule preorder_well_kept)
qed (simp_all add: conv_memory_def methods_well_kept message_well_kept report_well_kept event_well_kept
      cm_read_keeps [OF preorder_well_kept])

lemma calls_well_kept:
  assumes "\<forall>c \<in> set cs. over_memory c"
  shows "well_kept (w_store w) (w_store (run_calls cs w))"
proof (rule calls_related [OF preorder_well_kept])
  fix c assume "c \<in> set cs"
  with assms obtain clock where "csv_store (call_service c) = conv_memory clock"
    unfolding over_memory_def by blast
  then show "conversation_steps (csv_store (call_service c)) well_kept"
    by (simp add: cmk.conversation_steps_axioms)
qed

lemma store_typed_new: "store_typed cm_NewMemoryStore"
  by (simp add: store_typed_def cm_NewMemoryStore_def table_ok_def)

text \<open>C35: From the empty store, whatever requests have been made: every record is stored under
  the key of its own fields, the names, times and bounds that its type asks for are in order,
  every message and every event of a message has a body and no attachment carries a plain text
  caption, every reaction belongs to a stored message, and a report is pending or names its
  reviewer.\<close>
theorem conversation_store_typed:
  assumes "w_store w = cm_NewMemoryStore" "\<forall>c \<in> set history. over_memory c"
  shows "store_typed (w_store (run_calls history w))"
  using calls_well_kept [OF assms(2), of w] store_typed_new assms(1) by (simp add: well_kept_def)

text \<open>C36: No request removes a conversation, a topic, a member, an invite, a message, a read or
  sync state, a policy, a report or a rate state, whatever became of its fields, and no event
  and no audit entry changes.\<close>
theorem no_record_is_removed:
  assumes "\<forall>c \<in> set history. over_memory c"
  shows "nothing_lost (w_store w) (w_store (run_calls history w))"
  using calls_well_kept [OF assms, of w] by (simp add: well_kept_def)

lemma conversation_store_typed_witness: "store_typed (w_store (run_calls sample_history sample_world))"
  by (rule conversation_store_typed [OF sample_start sample_history_over])

lemma no_record_is_removed_witness:
  "nothing_lost (w_store sample_world) (w_store (run_calls sample_history sample_world))"
  by (rule no_record_is_removed [OF sample_history_over])

end
