(* ===== verification/ConvAllowed.thy ===== *)
theory ConvAllowed
  imports ConvTyped
begin

section \<open>Who may write\<close>

text \<open>
  What the store must hold for a message to be published, stated on the tables of the store; and
  that every publication, at once or by the dispatch of scheduled messages, is such a one.
\<close>

subsection \<open>The rule\<close>

definition stored_policy :: "cmem \<Rightarrow> ModerationTargetKind \<Rightarrow> string \<Rightarrow> mod_policy option" where
  "stored_policy s kind i = (if trim_space kind = [] \<or> trim_space i = [] then None
     else lookup (cm_moderationPoliciesByKey s) (moderationPolicyKey kind i))"

text \<open>The policy in effect: the target's own, for a topic else the conversation's, else the settings.\<close>

definition effective_policy :: "cmem \<Rightarrow> conversation \<Rightarrow> string \<Rightarrow> mod_policy" where
  "effective_policy s c topicID =
     (let (kind, i) = moderationTarget c topicID; settings = baseModerationPolicy c kind i in
      case stored_policy s kind i of
        Some p \<Rightarrow> p
      | None \<Rightarrow> if kind = ModerationTargetKindTopic
          then (case stored_policy s ModerationTargetKindConversation (conv_ID c) of Some p \<Rightarrow> p | None \<Rightarrow> settings)
          else settings)"

text \<open>The restriction of an account on a target that is in force; without one, the zero record.\<close>

definition restriction_of :: "cmem \<Rightarrow> time \<Rightarrow> ModerationTargetKind \<Rightarrow> string \<Rightarrow> string \<Rightarrow> restriction" where
  "restriction_of s now kind i accountID =
     (if trim_space kind = [] \<or> trim_space i = [] \<or> trim_space accountID = [] then zero_restriction
      else case lookup (cm_moderationRestrictions s) (moderationRestrictionKey kind i accountID) of
          None \<Rightarrow> zero_restriction
        | Some r \<Rightarrow> in_force now r)"

text \<open>What counts for a write: the restriction on the topic, and without one that on the conversation.\<close>

definition write_restricted :: "cmem \<Rightarrow> time \<Rightarrow> ModerationTargetKind \<Rightarrow> string \<Rightarrow> string \<Rightarrow> ModerationRestrictionState" where
  "write_restricted s now kind i accountID = rsn_State
     (let r = restriction_of s now kind i accountID; (conversationID, topicID) = splitModerationKey i in
      if rsn_State r = ModerationRestrictionStateUnspecified \<and> kind = ModerationTargetKindTopic \<and>
        conversationID \<noteq> [] \<and> topicID \<noteq> []
      then restriction_of s now ModerationTargetKindConversation conversationID accountID else r)"

definition rate_of :: "cmem \<Rightarrow> ModerationTargetKind \<Rightarrow> string \<Rightarrow> string \<Rightarrow> rate_state" where
  "rate_of s kind i accountID =
     (if trim_space kind = [] \<or> trim_space i = [] \<or> trim_space accountID = [] then zero_rate_state
      else case lookup (cm_moderationRateStates s) (moderationRestrictionKey kind i accountID) of
          None \<Rightarrow> zero_rate_state | Some r \<Rightarrow> r)"

definition rule_allows :: "cmem \<Rightarrow> time \<Rightarrow> ModerationTargetKind \<Rightarrow> string \<Rightarrow> string \<Rightarrow> MemberRole \<Rightarrow> mod_policy \<Rightarrow> bool" where
  "rule_allows s now kind i accountID role p \<longleftrightarrow>
     write_restricted s now kind i accountID = ModerationRestrictionStateShadowed \<or>
     write_restricted s now kind i accountID \<notin> {ModerationRestrictionStateBanned, ModerationRestrictionStateMuted} \<and>
       (pol_OnlyAdminsCanWrite p \<longrightarrow> role = MemberRoleOwner \<or> role = MemberRoleAdmin) \<and>
       (0 < pol_SlowModeInterval p \<or> 0 < pol_AntiSpamWindow p \<or> 0 < pol_AntiSpamBurstLimit p \<longrightarrow>
          snd (rate_verdict p (rate_of s kind i accountID) now) = None)"

definition may_publish ::
    "cmem \<Rightarrow> time \<Rightarrow> string \<Rightarrow> string \<Rightarrow> string \<Rightarrow> enc_payload \<Rightarrow> conversation \<Rightarrow> conv_member \<Rightarrow> topic \<Rightarrow> bool" where
  "may_publish s now conversationID accountID threadID payload c mb t \<longleftrightarrow>
     lookup (cm_conversationsByID s) (trim_space conversationID) = Some c \<and>
     lookup (cm_membersByKey s) (conversationMemberKey (trim_space (conv_ID c)) (trim_space accountID)) = Some mb \<and>
     cmem_LeftAt mb = zero_time \<and> \<not> cmem_Banned mb \<and>
     lookup (cm_topicsByKey s) (topicKey (trim_space (conv_ID c)) (trim_space threadID)) = Some t \<and>
     \<not> top_Archived t \<and> \<not> top_Closed t \<and>
     (let p = effective_policy s c (top_ID t); (kind, i) = moderationTarget c (top_ID t) in
       (trim_space threadID \<noteq> [] \<longrightarrow> pol_AllowThreads p) \<and>
       ValidateMessagePayload payload (pol_RequireEncryptedMessages p) = Inr () \<and>
       rule_allows s now kind (trim_space i) (trim_space accountID) (cmem_Role mb) p)"

subsection \<open>The checks establish the rule\<close>

lemma policy_runs:
  assumes "csv_store sv = conv_memory clock"
  shows "policyForConversation sv c topicID w = (Inr (effective_policy (w_store w) c topicID), w)"
proof -
  have load: "on_store (cso_ModerationPolicyByTarget (conv_memory clock) kind i) w =
      ((case stored_policy (w_store w) kind i of None \<Rightarrow> Inl ConvErrNotFound | Some p \<Rightarrow> Inr p), w)" for kind i
    by (auto simp: on_store_run conv_memory_def cm_ModerationPolicyByTarget_def stored_policy_def Let_def
        conv_found_or_run moderationPolicyKey_def split: option.split)
  obtain kind i where target: "moderationTarget c topicID = (kind, i)" by fastforce
  show ?thesis
    by (simp add: policyForConversation_def effective_policy_def target Let_def assms andThen_run attempt_def load
        ret_def split: option.split)
qed

lemma restriction_runs:
  assumes "csv_store sv = conv_memory clock"
  shows "restriction_lookup sv now kind i accountID w = (Inr (restriction_of (w_store w) now kind i accountID), w)"
  by (auto simp: restriction_lookup_def or_zero_def assms conv_memory_def io_simps Let_def restriction_of_def
      cm_ModerationRestrictionByTargetAndAccount_def moderationRestrictionKey_def moderationPolicyKey_def
      in_force_def zero_restriction_def restriction_expired_def split: option.splits if_splits)

lemma write_restriction_runs:
  assumes "csv_store sv = conv_memory clock"
  shows "\<exists>r. write_restriction sv now p w = (Inr r, w) \<and>
    rsn_State r = write_restricted (w_store w) now (cwp_TargetKind p) (cwp_TargetID p) (cwp_ActorAccountID p)"
  by (auto simp: write_restriction_def write_restricted_def andThen_run restriction_runs [OF assms] Let_def ret_def
      split: prod.split)

lemma rate_runs:
  assumes "csv_store sv = conv_memory clock"
  shows "or_zero (\<lambda>e. e = ConvErrNotFound) what zero_rate_state
    (on_store (cso_ModerationRateStateByTargetAndAccount (csv_store sv) kind i accountID)) w =
    (Inr (rate_of (w_store w) kind i accountID), w)"
  by (auto simp: or_zero_def assms conv_memory_def io_simps Let_def rate_of_def
      cm_ModerationRateStateByTargetAndAccount_def moderationRestrictionKey_def moderationPolicyKey_def
      split: option.splits)

text \<open>A verdict without an error.\<close>

lemma check_write_allows:
  assumes S: "csv_store sv = conv_memory clock"
    and run: "checkModerationWrite sv ctx p w = (Inr (decision, None), w')"
  shows "rule_allows (w_store w) (or_time (cwp_CreatedAt p) (csv_now sv)) (cwp_TargetKind p) (trim_space (cwp_TargetID p))
    (trim_space (cwp_ActorAccountID p)) (cwp_ActorRole p) (cwp_BasePolicy p)"
proof -
  define q where "q = p\<lparr>cwp_TargetID := trim_space (cwp_TargetID p), cwp_ActorAccountID := trim_space (cwp_ActorAccountID p)\<rparr>"
  let ?now = "or_time (cwp_CreatedAt p) (csv_now sv)"
  obtain r where r: "write_restriction sv ?now q w = (Inr r, w)"
    "rsn_State r = write_restricted (w_store w) ?now (cwp_TargetKind q) (cwp_TargetID q) (cwp_ActorAccountID q)"
    using write_restriction_runs [OF S] by blast
  have fields: "cwp_TargetKind q = cwp_TargetKind p" "cwp_TargetID q = trim_space (cwp_TargetID p)"
    "cwp_ActorAccountID q = trim_space (cwp_ActorAccountID p)" "cwp_BasePolicy q = cwp_BasePolicy p"
    "cwp_ActorRole q = cwp_ActorRole p" "cwp_CreatedAt q = cwp_CreatedAt p" by (simp_all add: q_def)
  define tail :: "(cmem conv_world, verdict) io" where
    "tail = (if rsn_State r = ModerationRestrictionStateBanned \<or> rsn_State r = ModerationRestrictionStateMuted
         then raise ConvErrForbidden
       else if rsn_State r = ModerationRestrictionStateShadowed then ret (write_allowed True)
       else if pol_OnlyAdminsCanWrite (cwp_BasePolicy q) \<and> cwp_ActorRole q \<noteq> MemberRoleOwner \<and>
         cwp_ActorRole q \<noteq> MemberRoleAdmin then raise ConvErrForbidden
       else if 0 < pol_SlowModeInterval (cwp_BasePolicy q) \<or> 0 < pol_AntiSpamWindow (cwp_BasePolicy q) \<or>
         0 < pol_AntiSpamBurstLimit (cwp_BasePolicy q) then
         andThen (or_zero (\<lambda>e. e = ConvErrNotFound)
           (''load moderation rate state for '' @ target_text (cwp_TargetKind q) (cwp_TargetID q) @
             '' and account '' @ cwp_ActorAccountID q) zero_rate_state
           (on_store (cso_ModerationRateStateByTargetAndAccount (csv_store sv) (cwp_TargetKind q)
             (cwp_TargetID q) (cwp_ActorAccountID q))))
           (\<lambda>rate. ret (rate_verdict (cwp_BasePolicy q) rate (or_time (cwp_CreatedAt q) (csv_now sv))))
       else ret (write_allowed False))"
  have "tail w = (Inr (decision, None), w')"
    using run r(1) unfolding checkModerationWrite_def q_def [symmetric] Let_def tail_def fields
    by (simp only: andThen_Inr conv_validateContext_Inr reject_if_Inr) (auto simp only: prod.inject sum.inject)
  then have run: "tail w = (Inr (decision, None), w')" .
  note steps = tail_def fields andThen_run rate_runs [OF S] ret_def raise_def
  consider "rsn_State r = ModerationRestrictionStateBanned \<or> rsn_State r = ModerationRestrictionStateMuted"
    | "rsn_State r = ModerationRestrictionStateShadowed"
    | "rsn_State r \<notin> {ModerationRestrictionStateBanned, ModerationRestrictionStateMuted, ModerationRestrictionStateShadowed}"
    by blast
  then show ?thesis
  proof cases
    case 1
    with run show ?thesis by (elim disjE) (simp_all add: steps)
  next
    case 2
    with r(2) fields show ?thesis by (simp add: rule_allows_def)
  next
    case 3
    have admin: "pol_OnlyAdminsCanWrite (cwp_BasePolicy p) \<longrightarrow> cwp_ActorRole p = MemberRoleOwner \<or> cwp_ActorRole p = MemberRoleAdmin"
    proof (rule ccontr)
      assume "\<not> ?thesis"
      with 3 run show False by (simp add: steps)
    qed
    have "snd (rate_verdict (cwp_BasePolicy p) (rate_of (w_store w) (cwp_TargetKind p) (trim_space (cwp_TargetID p))
          (trim_space (cwp_ActorAccountID p))) ?now) = None"
      if "0 < pol_SlowModeInterval (cwp_BasePolicy p) \<or> 0 < pol_AntiSpamWindow (cwp_BasePolicy p) \<or>
        0 < pol_AntiSpamBurstLimit (cwp_BasePolicy p)"
    proof -
      have "\<not> (pol_OnlyAdminsCanWrite (cwp_BasePolicy p) \<and> cwp_ActorRole p \<noteq> MemberRoleOwner \<and> cwp_ActorRole p \<noteq> MemberRoleAdmin)"
        using admin by blast
      with 3 run that show ?thesis by (simp add: steps) auto
    qed
    with 3 r(2) fields admin show ?thesis by (simp add: rule_allows_def)
  qed
qed

text \<open>The reads of the in-memory store.\<close>

lemma load_runs:
  assumes "csv_store sv = conv_memory clock"
  shows "on_store (cso_ConversationByID (csv_store sv) i) w = (Inr c, w') \<longleftrightarrow>
      w' = w \<and> trim_space i \<noteq> [] \<and> lookup (cm_conversationsByID (w_store w)) (trim_space i) = Some c"
    "on_store (cso_ConversationMemberByConversationAndAccount (csv_store sv) i a) w = (Inr mb, w') \<longleftrightarrow>
      w' = w \<and> lookup (cm_membersByKey (w_store w)) (conversationMemberKey (trim_space i) (trim_space a)) = Some mb"
    "on_store (cso_TopicByConversationAndID (csv_store sv) i j) w = (Inr t, w') \<longleftrightarrow>
      w' = w \<and> lookup (cm_topicsByKey (w_store w)) (topicKey (trim_space i) (trim_space j)) = Some t"
  by (auto simp: assms conv_memory_def on_store_Inr cm_ConversationByID_def
      cm_ConversationMemberByConversationAndAccount_def cm_TopicByConversationAndID_def Let_def conv_found_or_Inr
      split: if_splits)

lemma reply_target_world:
  assumes "csv_store sv = conv_memory clock" "check_reply_target sv c t m w = (Inr u, w')"
  shows "w' = w"
  using assms(2)
  by (auto simp: check_reply_target_def Let_def io_inv assms(1) conv_memory_def cm_MessageByID_def
      split: if_splits option.splits)

text \<open>A message passes the check exactly under the rule.\<close>

lemma validated_may_publish:
  assumes S: "csv_store sv = conv_memory clock" and now: "now \<noteq> zero_time"
    and run: "validateMessageForPublication sv ctx m now w = (Inr (state, decision, None), w')"
  shows "\<exists>mb. may_publish (w_store w) now (msg_ConversationID m) (msg_SenderAccountID m) (msg_ThreadID m)
    (msg_Payload m) (pst_Conversation state) mb (pst_Topic state)"
proof -
  obtain c mb t where
      c: "lookup (cm_conversationsByID (w_store w)) (trim_space (msg_ConversationID m)) = Some c"
    and mb: "lookup (cm_membersByKey (w_store w)) (conversationMemberKey (trim_space (conv_ID c))
      (trim_space (msg_SenderAccountID m))) = Some mb" "isActiveMember mb"
    and t: "lookup (cm_topicsByKey (w_store w)) (topicKey (trim_space (conv_ID c)) (trim_space (msg_ThreadID m))) = Some t"
      "\<not> (top_Archived t \<or> top_Closed t)"
    and threads: "\<not> (msg_ThreadID m \<noteq> [] \<and> \<not> pol_AllowThreads (effective_policy (w_store w) c (top_ID t)))"
    and payload: "ValidateMessagePayload (msg_Payload m)
      (pol_RequireEncryptedMessages (effective_policy (w_store w) c (top_ID t))) = Inr ()"
    and check: "checkModerationWrite sv ctx \<lparr>cwp_TargetKind = fst (moderationTarget c (top_ID t)),
        cwp_TargetID = snd (moderationTarget c (top_ID t)),
        cwp_ActorAccountID = msg_SenderAccountID m, cwp_ActorRole = cmem_Role mb,
        cwp_BasePolicy = effective_policy (w_store w) c (top_ID t), cwp_CreatedAt = now\<rparr> w = (Inr (decision, None), w')"
    and state: "state = \<lparr>pst_Conversation = c, pst_Topic = t, pst_Policy = effective_policy (w_store w) c (top_ID t)\<rparr>"
    using run
    by (auto simp: validateMessageForPublication_def Let_def andThen_Inr wrapping_Inr reject_if_Inr load_runs [OF S]
        policy_runs [OF S] ret_Inr case_prod_beta simp del: reject_if_run dest!: reply_target_world [OF S])
  obtain kind i where target: "moderationTarget c (top_ID t) = (kind, i)" by fastforce
  have "rule_allows (w_store w) now kind (trim_space i) (trim_space (msg_SenderAccountID m)) (cmem_Role mb)
      (effective_policy (w_store w) c (top_ID t))"
    using check_write_allows [OF S check] now by (simp add: or_time_def target)
  with c mb t threads payload target show ?thesis
    by (intro exI [of _ mb]) (auto simp: may_publish_def isActiveMember_def state Let_def)
qed

lemma mentions_world:
  assumes "csv_store sv = conv_memory clock" "check_mentions sv c is w = (Inr u, w')"
  shows "w' = w"
  using assms(2)
  by (auto simp: check_mentions_def Let_def io_inv assms(1) conv_memory_def cm_ConversationMembersByConversationID_def
      split: if_splits option.splits)

lemma reply_world:
  assumes "csv_store sv = conv_memory clock" "resolve_reply sv c t rf w = (Inr u, w')"
  shows "w' = w"
  using assms(2)
  by (auto simp: resolve_reply_def Let_def io_inv assms(1) conv_memory_def cm_MessageByID_def
      split: if_splits option.splits)

text \<open>A transaction of \<open>SendMessage\<close> that publishes has checked the message it drafted.\<close>

lemma send_tx_checked:
  assumes S: "csv_store sv = conv_memory clock"
    and run: "send_tx sv ctx p now scheduled w = (Inr (saved, Some ev, dec), w')"
  obtains c i rf w1 state decision w2
  where "lookup (cm_conversationsByID (w_store w)) (trim_space (smp_ConversationID p)) = Some c"
    "w_store w1 = w_store w"
    "validateMessageForPublication sv ctx (drafted_message p i c rf now) now w1 = (Inr (state, decision, None), w2)"
proof -
  have "\<exists>c i rf w1 state decision w2.
      lookup (cm_conversationsByID (w_store w)) (trim_space (smp_ConversationID p)) = Some c \<and> w_store w1 = w_store w \<and>
      validateMessageForPublication sv ctx (drafted_message p i c rf now) now w1 = (Inr (state, decision, None), w2)"
    using run
    by (auto simp: send_tx_def Let_def andThen_Inr wrapping_Inr reject_if_Inr load_runs [OF S] policy_runs [OF S]
        ret_Inr verdict_ok_def conv_newID_def simp del: reject_if_run split: if_splits prod.splits option.splits
        dest!: mentions_world [OF S] reply_world [OF S] random_id_store) blast+
  with that show thesis by blast
qed

text \<open>The request as \<open>SendMessage\<close> normalises it.\<close>

definition normalized_send :: "send_message_params \<Rightarrow> send_message_params" where
  "normalized_send p = (let d = normalizeMessageDraft (smp_Draft p) in
     p\<lparr>smp_ConversationID := trim_space (smp_ConversationID p),
       smp_SenderAccountID := trim_space (smp_SenderAccountID p),
       smp_SenderDeviceID := trim_space (smp_SenderDeviceID p),
       smp_Draft := d\<lparr>draft_ThreadID := trim_space (draft_ThreadID d)\<rparr>\<rparr>)"

lemma normalized_send_fields:
  "smp_CreatedAt (normalized_send p) = smp_CreatedAt p"
  "smp_ConversationID (normalized_send p) = trim_space (smp_ConversationID p)"
  "smp_SenderAccountID (normalized_send p) = trim_space (smp_SenderAccountID p)"
  "draft_ThreadID (smp_Draft (normalized_send p)) = trim_space (draft_ThreadID (smp_Draft p))"
  "draft_Payload (smp_Draft (normalized_send p)) = draft_Payload (smp_Draft p)"
  by (simp_all add: normalized_send_def normalizeMessageDraft_def Let_def)

lemma andThen_split: "andThen m f w = (Inr y, w') \<Longrightarrow> (\<And>x w1. m w = (Inr x, w1) \<Longrightarrow> f x w1 = (Inr y, w') \<Longrightarrow> thesis) \<Longrightarrow> thesis"
  unfolding andThen_Inr by blast

lemma andThen_guards:
  "andThen (conv_validateContext ctx operation) (\<lambda>_. f) w = (Inr y, w') \<Longrightarrow> f w = (Inr y, w')"
  "andThen (reject_if c e) (\<lambda>_. f) w = (Inr y, w') \<Longrightarrow> f w = (Inr y, w')"
  by (auto simp: andThen_Inr conv_validateContext_Inr split: if_splits)

lemma runTx_Inr: "runTx ctx m w = (Inr x, w') \<Longrightarrow> m w = (Inr x, w')"
  by (auto simp: runTx_def andThen_Inr conv_validateContext_Inr within_tx_Inr)

lemma SendMessage_tx:
  assumes "SendMessage sv ctx p w = (Inr (m, ev), w')"
  obtains scheduled dec w1 where
    "send_tx sv ctx (normalized_send p) (or_time (smp_CreatedAt p) (csv_now sv)) scheduled w = (Inr (m, ev, dec), w1)"
proof -
  let ?now = "or_time (smp_CreatedAt p) (csv_now sv)"
  let ?scheduled = "draft_DeliverAt (smp_Draft (normalized_send p)) \<noteq> zero_time \<and>
    ?now < draft_DeliverAt (smp_Draft (normalized_send p))"
  let ?after = "\<lambda>(saved, event, decision).
     andThen (if ?scheduled then ret ()
       else andThen (if dec_ShadowHidden decision then ret () else indexMessage sv saved) (\<lambda>_.
         indexConversationByID sv (msg_ConversationID saved))) (\<lambda>_. ret (saved, event))"
  have "andThen (runTx ctx (send_tx sv ctx (normalized_send p) ?now ?scheduled)) ?after w = (Inr (m, ev), w')"
    using assms [unfolded SendMessage_def Let_def, THEN andThen_guards(1), THEN andThen_guards(2), THEN andThen_guards(2)]
    by (simp add: normalized_send_def Let_def)
  then obtain x w1 where tx: "runTx ctx (send_tx sv ctx (normalized_send p) ?now ?scheduled) w = (Inr x, w1)"
    and rest: "?after x w1 = (Inr (m, ev), w')" by (rule andThen_split)
  obtain saved event dec where x: "x = (saved, event, dec)" by (cases x)
  from rest have "(saved, event) = (m, ev)"
    unfolding x prod.case by (rule andThen_split) (simp add: ret_def)
  with runTx_Inr [OF tx] that x show thesis by simp
qed

text \<open>C38: After any history of requests a message that is sent at once is published only for an
  active member of the conversation, who is not banned from it, in an existing topic that is
  neither archived nor closed, with the payload that the policy in effect asks for, and who is
  not muted or banned there; unless he is shadowed, also the admin-only rule, slow mode and the
  anti-spam window let the write through. A restriction on the topic counts in place of the one
  on the conversation.\<close>
theorem published_only_if_allowed:
  assumes "w_store w0 = cm_NewMemoryStore" "\<forall>c \<in> set history. over_memory c"
    and S: "csv_store sv = conv_memory clock" and now: "or_time (smp_CreatedAt p) (csv_now sv) \<noteq> zero_time"
    and run: "SendMessage sv ctx p (run_calls history w0) = (Inr (m, Some event), w')"
  shows "\<exists>c mb t. may_publish (w_store (run_calls history w0)) (or_time (smp_CreatedAt p) (csv_now sv))
    (smp_ConversationID p) (smp_SenderAccountID p) (draft_ThreadID (smp_Draft p)) (draft_Payload (smp_Draft p)) c mb t"
proof -
  let ?w = "run_calls history w0" and ?now = "or_time (smp_CreatedAt p) (csv_now sv)"
  obtain scheduled dec w1 where
      "send_tx sv ctx (normalized_send p) ?now scheduled ?w = (Inr (m, Some event, dec), w1)"
    by (rule SendMessage_tx [OF run])
  from send_tx_checked [OF S this] obtain c i rf w2 state decision w3
    where c0: "lookup (cm_conversationsByID (w_store ?w)) (trim_space (smp_ConversationID (normalized_send p))) = Some c"
      and same: "w_store w2 = w_store ?w"
      and check: "validateMessageForPublication sv ctx (drafted_message (normalized_send p) i c rf ?now) ?now w2 =
        (Inr (state, decision, None), w3)" .
  from c0 have c: "lookup (cm_conversationsByID (w_store ?w)) (trim_space (smp_ConversationID p)) = Some c"
    by (simp add: normalized_send_fields)
  from validated_may_publish [OF S now check] obtain mb where
      mp: "may_publish (w_store ?w) ?now (conv_ID c) (trim_space (smp_SenderAccountID p))
      (trim_space (draft_ThreadID (smp_Draft p))) (draft_Payload (smp_Draft p)) (pst_Conversation state) mb (pst_Topic state)"
    by (auto simp: drafted_message_def Let_def normalized_send_fields same)
  have "store_typed (w_store ?w)"
    using calls_well_kept [OF assms(2), of w0] store_typed_new assms(1) by (simp add: well_kept_def)
  then have "table_ok (\<lambda>k c. k = conv_ID c \<and> trim_space k \<noteq> []) (cm_conversationsByID (w_store ?w))"
    by (simp add: store_typed_def)
  from table_okD [OF this c] have "conv_ID c = trim_space (smp_ConversationID p)" by simp
  with mp show ?thesis by (auto simp: may_publish_def)
qed

end
