(* ===== verification/ConvAtomic.thy ===== *)
theory ConvAtomic
  imports ConvSamples
begin

section \<open>Requests that fail\<close>

text \<open>
  Every operation of the conversation domain first reads, then runs one transaction or one single
  write, and then only calls the search indexer, which reports no error. So a request that fails
  leaves the store as it was.
\<close>

definition never_fails :: "('s, 'a) io \<Rightarrow> bool" where
  "never_fails m \<longleftrightarrow> (\<forall>s. \<exists>x s'. m s = (Inr x, s'))"

lemma never_fails_andThen:
  assumes "never_fails m" "\<And>x. never_fails (f x)"
  shows "never_fails (andThen m f)"
  unfolding never_fails_def
proof
  fix s
  from assms(1) obtain x t where "m s = (Inr x, t)" unfolding never_fails_def by blast
  moreover from assms(2) [of x] obtain y u where "f x t = (Inr y, u)" unfolding never_fails_def by blast
  ultimately show "\<exists>x s'. andThen m f s = (Inr x, s')" by (simp add: andThen_run)
qed

lemma never_fails_attempt: "never_fails (attempt m)"
  by (auto simp: never_fails_def attempt_def split: prod.splits)

lemma never_fails_ret: "never_fails (ret x)"
  by (simp add: never_fails_def ret_def)

lemma never_fails_if: "never_fails m \<Longrightarrow> never_fails m' \<Longrightarrow> never_fails (if c then m else m')"
  by simp

lemma never_fails_prod: "(\<And>x y. never_fails (f x y)) \<Longrightarrow> never_fails (case p of (x, y) \<Rightarrow> f x y)"
  by (cases p) simp

lemmas never_fails_steps = never_fails_andThen never_fails_attempt never_fails_ret never_fails_if never_fails_prod

lemma never_fails_for_each: "(\<And>x. never_fails (f x)) \<Longrightarrow> never_fails (for_each f xs)"
  by (induction xs) (auto intro!: never_fails_steps)

lemma never_fails_indexing:
  "never_fails (indexing sv call)" "never_fails (indexConversation sv c ms)" "never_fails (indexTopic sv t)"
  "never_fails (indexMessage sv m)" "never_fails (deleteMessageIndex sv m)" "never_fails (indexConversationByID sv i)"
proof -
  show indexing: "never_fails (indexing sv call)" for call by (simp add: never_fails_def indexing_def)
  show conversation: "never_fails (indexConversation sv c ms)" for c ms
    unfolding indexConversation_def by (intro never_fails_steps indexing)
  show "never_fails (indexTopic sv t)" "never_fails (indexMessage sv m)" "never_fails (deleteMessageIndex sv m)"
    unfolding indexTopic_def indexMessage_def deleteMessageIndex_def by (intro never_fails_steps indexing)+
  have cases: "never_fails (case r of Inl e \<Rightarrow> m | Inr x \<Rightarrow> n x)"
    if "never_fails m" "\<And>x. never_fails (n x)" for r m and n :: "'z \<Rightarrow> _"
    using that by (cases r) simp_all
  show "never_fails (indexConversationByID sv i)"
    unfolding indexConversationByID_def by (intro never_fails_steps cases conversation)
qed

lemma clean_then_never_fails:
  assumes "clean R m" "\<And>x. never_fails (f x)"
  shows "clean R (andThen m f)"
proof (rule cleanI)
  fix s e s'
  assume run: "andThen m f s = (Inl e, s')"
  have "f x t \<noteq> (Inl e, s')" for x t
    using assms(2) [of x] unfolding never_fails_def by (metis Inl_Inr_False fst_conv)
  with run have "m s = (Inl e, s')" by (auto simp: andThen_Inl)
  with assms(1) show "R s s'" by (rule cleanD)
qed

text \<open>Reading the in-memory store.\<close>

lemma memory_only_reads:
  assumes "csv_store sv = conv_memory clock"
  shows "keeps (=) (cso_ConversationByID (csv_store sv) i)" "keeps (=) (cso_ConversationsByAccountID (csv_store sv) i)"
    "keeps (=) (cso_TopicByConversationAndID (csv_store sv) i j)" "keeps (=) (cso_TopicsByConversationID (csv_store sv) i)"
    "keeps (=) (cso_ConversationMemberByConversationAndAccount (csv_store sv) i j)"
    "keeps (=) (cso_ConversationMembersByConversationID (csv_store sv) i)"
    "keeps (=) (cso_ConversationInvitesByConversationID (csv_store sv) i)"
    "keeps (=) (cso_MessageByID (csv_store sv) i j)" "keeps (=) (cso_MessagesByConversationID (csv_store sv) i j n l)"
    "keeps (=) (cso_ScheduledMessagesByConversationAndSender (csv_store sv) i j k b l)"
    "keeps (=) (cso_ReadStatesByDevice (csv_store sv) i)"
    "keeps (=) (cso_ConversationCountersByAccount (csv_store sv) i js)"
    "keeps (=) (cso_SyncStateByDevice (csv_store sv) i)" "keeps (=) (cso_EventsAfterSequence (csv_store sv) n l is)"
    "keeps (=) (cso_ModerationPolicyByTarget (csv_store sv) i j)" "keeps (=) (cso_ModerationReportByID (csv_store sv) i)"
    "keeps (=) (cso_ModerationReportsByTarget (csv_store sv) i j)" "keeps (=) (cso_ModerationActionsByTarget (csv_store sv) i j)"
    "keeps (=) (cso_ModerationRestrictionByTargetAndAccount (csv_store sv) i j k)"
    "keeps (=) (cso_ModerationRestrictionsByTarget (csv_store sv) i j)"
    "keeps (=) (cso_ModerationRateStateByTargetAndAccount (csv_store sv) i j k)"
  unfolding assms by (simp_all add: conv_memory_def cm_read_keeps [OF preorder_eq])

lemma keeps_context_check: "preorder_on_states R \<Longrightarrow> keeps R (conv_validateContext ctx operation)"
  unfolding conv_validateContext_def by (rule keeps_pure(3))

lemmas reading = keeps_rules keeps_context_check preorder_on_world preorder_eq

lemma loads_only_read:
  assumes S: "csv_store sv = conv_memory clock"
  shows "keeps (on_world (=)) (loadConversationActor sv x1 x2)"
    "keeps (on_world (=)) (policyForConversation sv c x3)"
    "keeps (on_world (=)) (decorateConversationCounters sv x4 cs)"
    "keeps (on_world (=)) (restriction_lookup sv now x5 x6 x7)"
  unfolding loadConversationActor_def policyForConversation_def decorateConversationCounters_def
    restriction_lookup_def or_zero_def Let_def
  by (intro reading memory_only_reads [OF S])+

lemma checks_only_read:
  assumes S: "csv_store sv = conv_memory clock"
  shows "keeps (on_world (=)) (invite_actor sv x1 x2 role)" "keeps (on_world (=)) (write_restriction sv now p)"
  unfolding invite_actor_def write_restriction_def
  by (intro reading loads_only_read [OF S])+

lemma check_write_only_reads:
  assumes S: "csv_store sv = conv_memory clock"
  shows "keeps (on_world (=)) (CheckModerationWrite sv ctx p)"
  unfolding CheckModerationWrite_def checkModerationWrite_def or_zero_def Let_def
  by (intro reading memory_only_reads [OF S] checks_only_read [OF S])

text \<open>The requests that only read.\<close>

lemma requests_only_read:
  assumes S: "csv_store sv = conv_memory clock"
  shows "keeps (on_world (=)) (GetConversation sv ctx p1)" "keeps (on_world (=)) (ListConversations sv ctx p2)"
    "keeps (on_world (=)) (ListMembers sv ctx p3)" "keeps (on_world (=)) (ListInvites sv ctx p4)"
    "keeps (on_world (=)) (GetMessage sv ctx p5)" "keeps (on_world (=)) (ListMessages sv ctx p6)"
    "keeps (on_world (=)) (ListScheduledMessages sv ctx p7)" "keeps (on_world (=)) (GetTopic sv ctx p8)"
    "keeps (on_world (=)) (ListTopics sv ctx p9)" "keeps (on_world (=)) (GetSyncState sv ctx p10)"
    "keeps (on_world (=)) (svc_ModerationPolicyByTarget sv ctx x1 x2)"
    "keeps (on_world (=)) (ModerationActionsByTarget sv ctx x1 x2)"
    "keeps (on_world (=)) (svc_ModerationRestrictionByTargetAndAccount sv ctx x1 x2 x3)"
    "keeps (on_world (=)) (svc_ModerationRestrictionsByTarget sv ctx x1 x2)"
    "keeps (on_world (=)) (svc_ModerationRateStateByTargetAndAccount sv ctx x1 x2 x3)"
    "keeps (on_world (=)) (svc_ModerationReportByID sv ctx x1)"
    "keeps (on_world (=)) (svc_ModerationReportsByTarget sv ctx x1 x2)"
  unfolding GetConversation_def ListConversations_def ListMembers_def ListInvites_def GetMessage_def
    ListMessages_def ListScheduledMessages_def GetTopic_def ListTopics_def GetSyncState_def
    svc_ModerationPolicyByTarget_def ModerationActionsByTarget_def
    svc_ModerationRestrictionByTargetAndAccount_def svc_ModerationRestrictionsByTarget_def
    svc_ModerationRateStateByTargetAndAccount_def svc_ModerationReportByID_def svc_ModerationReportsByTarget_def
    or_zero_def Let_def
  by (intro reading memory_only_reads [OF S] loads_only_read [OF S] checks_only_read [OF S])+

subsection \<open>The requests that write\<close>

lemma clean_runTx: "clean (on_world (=)) (runTx ctx m)"
  unfolding runTx_def
  by (intro clean_andThen clean_within_tx keeps_context_check preorder_on_world preorder_eq)

lemma clean_tx_then: "(\<And>x. never_fails (f x)) \<Longrightarrow> clean (on_world (=)) (andThen (runTx ctx m) f)"
  by (rule clean_then_never_fails [OF clean_runTx])

lemma keeps_new_id: "keeps (on_world (=)) (conv_newID pre)"
  unfolding conv_newID_def by (rule keeps_random_id [OF preorder_eq])

lemmas writing = keeps_new_id keeps_wrapping clean_tx_then clean_runTx never_fails_steps never_fails_for_each never_fails_indexing
  clean_andThen clean_if clean_within_tx keeps_pure keeps_context_check preorder_on_world preorder_eq

lemma writes_fail_clean:
  "clean (on_world (=)) (CreateConversation sv ctx p1)" "clean (on_world (=)) (UpdateConversation sv ctx p2)"
  "clean (on_world (=)) (PublishConversationUpdate sv ctx p3)" "clean (on_world (=)) (AddMembers sv ctx p4)"
  "clean (on_world (=)) (RemoveMembers sv ctx p5)" "clean (on_world (=)) (UpdateMemberRole sv ctx p6)"
  "clean (on_world (=)) (CreateInvite sv ctx p7)" "clean (on_world (=)) (RevokeInvite sv ctx p8)"
  unfolding CreateConversation_def UpdateConversation_def PublishConversationUpdate_def AddMembers_def
    RemoveMembers_def UpdateMemberRole_def CreateInvite_def RevokeInvite_def Let_def
  by (intro writing)+

lemma moderation_fails_clean:
  "clean (on_world (=)) (SetModerationPolicy sv clock ctx p1)" "clean (on_world (=)) (LogModerationAction sv clock ctx p2)"
  "clean (on_world (=)) (ApplyModerationRestriction sv clock ctx p3)"
  "clean (on_world (=)) (LiftModerationRestriction sv clock ctx p4)"
  "clean (on_world (=)) (SubmitModerationReport sv clock ctx p5)"
  "clean (on_world (=)) (ResolveModerationReport sv clock ctx p6)"
  unfolding SetModerationPolicy_def LogModerationAction_def ApplyModerationRestriction_def
    LiftModerationRestriction_def SubmitModerationReport_def ResolveModerationReport_def Let_def
  by (intro writing)+

lemma never_fails_triple: "(\<And>a b c. never_fails (f a b c)) \<Longrightarrow> never_fails (case p of (a, b, c) \<Rightarrow> f a b c)"
  by (cases p) simp

lemma never_fails_dispatched: "never_fails (index_dispatched sv x)"
  unfolding index_dispatched_def by (rule never_fails_triple) (intro writing)

lemma clean_ReplyMessage:
  "(\<And>p. clean (on_world (=)) (SendMessage sv ctx p)) \<Longrightarrow> clean (on_world (=)) (ReplyMessage sv ctx p)"
  unfolding ReplyMessage_def Let_def
  by (rule clean_if, rule keeps_clean, rule keeps_pure(2), intro preorder_on_world preorder_eq, simp)

lemma messages_fail_clean:
  "clean (on_world (=)) (SendMessage sv ctx p1)" "clean (on_world (=)) (ReplyMessage sv ctx p2)"
  "clean (on_world (=)) (DispatchDueMessages sv ctx x1 x2)" "clean (on_world (=)) (EditMessage sv ctx p3)"
  "clean (on_world (=)) (DeleteMessage sv ctx p4)" "clean (on_world (=)) (PinMessage sv ctx p5)"
  "clean (on_world (=)) (AddMessageReaction sv ctx p6)" "clean (on_world (=)) (RemoveMessageReaction sv ctx p7)"
proof -
  show send: "clean (on_world (=)) (SendMessage sv ctx p)" for p
    unfolding SendMessage_def Let_def by (intro writing)
  show "clean (on_world (=)) (ReplyMessage sv ctx p2)" by (rule clean_ReplyMessage [OF send])
  show "clean (on_world (=)) (DispatchDueMessages sv ctx x1 x2)"
    unfolding DispatchDueMessages_def Let_def by (intro writing never_fails_dispatched)
  show "clean (on_world (=)) (EditMessage sv ctx p3)" "clean (on_world (=)) (DeleteMessage sv ctx p4)"
    "clean (on_world (=)) (PinMessage sv ctx p5)" "clean (on_world (=)) (AddMessageReaction sv ctx p6)"
    "clean (on_world (=)) (RemoveMessageReaction sv ctx p7)"
    unfolding EditMessage_def DeleteMessage_def PinMessage_def AddMessageReaction_def RemoveMessageReaction_def Let_def
    by (intro writing)+
qed

lemma topics_fail_clean:
  "clean (on_world (=)) (CreateTopic sv ctx p1)" "clean (on_world (=)) (RenameTopic sv ctx p2)"
  "clean (on_world (=)) (ArchiveTopic sv ctx p3)" "clean (on_world (=)) (CloseTopic sv ctx p4)"
  "clean (on_world (=)) (PinTopic sv ctx p5)"
  unfolding CreateTopic_def RenameTopic_def ArchiveTopic_def CloseTopic_def PinTopic_def updateTopic_def Let_def
  by (intro writing)+

text \<open>A single write of the store fails without a trace.\<close>

lemma single_writes_clean:
  assumes "csv_store sv = conv_memory clock"
  shows "clean (=) (cso_SaveSyncState (csv_store sv) y)" "clean (=) (cso_SaveModerationRateState (csv_store sv) r)"
  unfolding assms
  by (auto simp: clean_def conv_memory_def cm_SaveSyncState_def cm_SaveModerationRateState_def Let_def split: if_splits)

lemma clean_of_store: "clean (=) m \<Longrightarrow> clean (on_world (=)) (on_store m)"
  by (auto simp: clean_def on_world_def on_store_def split: prod.splits)

lemma clean_then_return: "clean R m \<Longrightarrow> clean R (andThen m (\<lambda>x. ret (g x)))"
  by (erule clean_then_never_fails) (rule never_fails_ret)

lemma clean_prod: "(\<And>x y. clean R (f x y)) \<Longrightarrow> clean R (case p of (x, y) \<Rightarrow> f x y)"
  by (cases p) simp

lemma sync_fails_clean:
  assumes S: "csv_store sv = conv_memory clock"
  shows "clean (on_world (=)) (RecordDelivery sv ctx p1)" "clean (on_world (=)) (MarkRead sv ctx p2)"
    "clean (on_world (=)) (PublishUserUpdate sv ctx p3)" "clean (on_world (=)) (PullEvents sv ctx p4)"
    "clean (on_world (=)) (AcknowledgeEvents sv ctx p5)" "clean (on_world (=)) (RecordModerationWrite sv ctx p6)"
proof -
  show "clean (on_world (=)) (RecordDelivery sv ctx p1)" "clean (on_world (=)) (MarkRead sv ctx p2)"
    "clean (on_world (=)) (PublishUserUpdate sv ctx p3)"
    unfolding RecordDelivery_def MarkRead_def PublishUserUpdate_def Let_def by (intro writing)+
  note reads = memory_only_reads [OF S] requests_only_read(10) [OF S]
  note writes = clean_of_store single_writes_clean [OF S]
  show "clean (on_world (=)) (PullEvents sv ctx p4)"
    unfolding PullEvents_def Let_def
    by (intro clean_then_return clean_andThen clean_prod clean_if clean_wrapping clean_pure reading reads writes)
  show "clean (on_world (=)) (AcknowledgeEvents sv ctx p5)"
    unfolding AcknowledgeEvents_def Let_def
    by (intro clean_then_return clean_andThen clean_prod clean_wrapping reading reads writes)
  show "clean (on_world (=)) (RecordModerationWrite sv ctx p6)"
    unfolding RecordModerationWrite_def or_zero_def Let_def
    by (intro clean_andThen clean_wrapping reading reads writes)
qed

lemma clean_silent: "clean R m \<Longrightarrow> clean R (silent m)"
  unfolding silent_def by (rule clean_then_return)

text \<open>C37: Over the in-memory store every request of the conversation domain that fails, for
  whatever reason and at whatever step, leaves the whole store as it was: no message without its
  event, no member without the notice, no sequence number used up.\<close>
theorem failed_requests_change_nothing:
  assumes S: "csv_store sv = conv_memory clock'"
    and "run_request sv clock ctx request w = (Inl e, w')"
  shows "w_store w' = w_store w"
proof -
  have "clean (on_world (=)) (run_request sv clock ctx request)"
    by (cases request; simp only: run_request.simps;
        (rule clean_silent, (rule writes_fail_clean moderation_fails_clean messages_fail_clean topics_fail_clean
            sync_fails_clean [OF S] keeps_clean [OF check_write_only_reads [OF S]]
            requests_only_read [OF S, THEN keeps_clean])))
  with assms(2) show ?thesis using cleanD by (fastforce simp: on_world_def)
qed

text \<open>The random source ends after the identifier of the conversation: its rows are written, its
  event is not.\<close>

definition short_world :: "cmem conv_world" where
  "short_world = sample_world\<lparr>w_entropy := replicate 12 (CHR ''a'')\<rparr>"

lemma short_run: "\<exists>e w'. run_request sample_service 1000 LiveContext (DoCreateConversation sample_create) short_world = (Inl e, w')"
  by (simp add: sample_run short_world_def)

lemma failed_requests_change_nothing_witness:
  "\<exists>e w'. run_request sample_service 1000 LiveContext (DoCreateConversation sample_create) short_world = (Inl e, w') \<and>
     w_store w' = w_store short_world"
  using short_run failed_requests_change_nothing [OF sample_service_store] by metis

end
