(* ===== verification/ConvPublish.thy ===== *)
theory ConvPublish
  imports ConvAllowed ConvAtomic
begin

section \<open>An allowed message is published\<close>

text \<open>
  The other direction: when the rule of \<open>may_publish\<close> holds, the random source has bytes for two
  identifiers and the request is complete, \<open>SendMessage\<close> succeeds. So the rule is exactly what
  decides.
\<close>

subsection \<open>The steps of a publication succeed\<close>

lemma check_write_runs:
  assumes S: "csv_store sv = conv_memory clock"
    and complete: "cwp_TargetKind p \<noteq> []" "trim_space (cwp_TargetID p) \<noteq> []" "trim_space (cwp_ActorAccountID p) \<noteq> []"
    and rule: "rule_allows (w_store w) (or_time (cwp_CreatedAt p) (csv_now sv)) (cwp_TargetKind p) (trim_space (cwp_TargetID p))
      (trim_space (cwp_ActorAccountID p)) (cwp_ActorRole p) (cwp_BasePolicy p)"
  obtains decision where "checkModerationWrite sv LiveContext p w = (Inr (decision, None), w)"
proof -
  define q where "q = p\<lparr>cwp_TargetID := trim_space (cwp_TargetID p), cwp_ActorAccountID := trim_space (cwp_ActorAccountID p)\<rparr>"
  let ?now = "or_time (cwp_CreatedAt p) (csv_now sv)"
  obtain r where r: "write_restriction sv ?now q w = (Inr r, w)"
    "rsn_State r = write_restricted (w_store w) ?now (cwp_TargetKind q) (cwp_TargetID q) (cwp_ActorAccountID q)"
    using write_restriction_runs [OF S] by blast
  have fields: "cwp_TargetKind q = cwp_TargetKind p" "cwp_TargetID q = trim_space (cwp_TargetID p)"
    "cwp_ActorAccountID q = trim_space (cwp_ActorAccountID p)" "cwp_BasePolicy q = cwp_BasePolicy p"
    "cwp_ActorRole q = cwp_ActorRole p" "cwp_CreatedAt q = cwp_CreatedAt p" by (simp_all add: q_def)
  have start: "checkModerationWrite sv LiveContext p w =
      (if rsn_State r = ModerationRestrictionStateBanned \<or> rsn_State r = ModerationRestrictionStateMuted
         then raise ConvErrForbidden
       else if rsn_State r = ModerationRestrictionStateShadowed then ret (write_allowed True)
       else if pol_OnlyAdminsCanWrite (cwp_BasePolicy q) \<and> cwp_ActorRole q \<noteq> MemberRoleOwner \<and>
         cwp_ActorRole q \<noteq> MemberRoleAdmin then raise ConvErrForbidden
       else if 0 < pol_SlowModeInterval (cwp_BasePolicy q) \<or> 0 < pol_AntiSpamWindow (cwp_BasePolicy q) \<or>
         0 < pol_AntiSpamBurstLimit (cwp_BasePolicy q) then
         andThen (or_zero (\<lambda>e. e = ConvErrNotFound)
           (''load moderation rate state for '' @ target_text (cwp_TargetKind q) (cwp_TargetID q) @
             '' and account '' @ cwp_ActorAccountID q) zero_rate_state
           (on_store (cso_ModerationRateStateByTargetAndAccount (csv_store sv) (cwp_TargetKind q)
             (cwp_TargetID q) (cwp_ActorAccountID q))))
           (\<lambda>rate. ret (rate_verdict (cwp_BasePolicy q) rate (or_time (cwp_CreatedAt q) (csv_now sv))))
       else ret (write_allowed False)) w"
    using r(1) complete
    unfolding checkModerationWrite_def q_def [symmetric] Let_def fields
    by (simp only: andThen_run conv_validateContext_def of_result_run validate_context_with.simps sum.case prod.case
        reject_if_run) simp
  note rule' = rule [unfolded rule_allows_def, folded r(2) [unfolded fields]]
  have "\<exists>decision. checkModerationWrite sv LiveContext p w = (Inr (decision, None), w)"
  proof (cases "rsn_State r = ModerationRestrictionStateShadowed")
    case True
    then show ?thesis by (simp add: start write_allowed_def ret_def)
  next
    case False
    with rule' show ?thesis
      by (cases "rate_verdict (cwp_BasePolicy p) (rate_of (w_store w) (cwp_TargetKind p) (trim_space (cwp_TargetID p))
          (trim_space (cwp_ActorAccountID p))) ?now")
        (auto simp: start fields andThen_run rate_runs [OF S] write_allowed_def ret_def)
  qed
  with that show thesis by blast
qed

lemma never_fails_on_store:
  "never_fails m \<Longrightarrow> never_fails (wrapping what m)" "never_fails m \<Longrightarrow> never_fails (on_store m)"
  unfolding never_fails_def wrapping_Inr on_store_Inr by blast+

lemma rate_never_fails:
  assumes "csv_store sv = conv_memory clock"
  shows "never_fails (or_zero (\<lambda>e. error_is e ConvErrNotFound) what zero_rate_state
    (on_store (cso_ModerationRateStateByTargetAndAccount (csv_store sv) kind i accountID)))"
  by (auto simp: never_fails_def or_zero_def assms conv_memory_def io_simps Let_def
      cm_ModerationRateStateByTargetAndAccount_def split: option.splits)

definition saved_as :: "message \<Rightarrow> message \<Rightarrow> bool" where
  "saved_as m x \<longleftrightarrow> msg_ID x = trim_space (msg_ID m) \<and> msg_ConversationID x = trim_space (msg_ConversationID m) \<and>
     msg_SenderAccountID x = trim_space (msg_SenderAccountID m) \<and>
     msg_SenderDeviceID x = trim_space (msg_SenderDeviceID m) \<and> msg_Kind x = msg_Kind m \<and>
     msg_Status x = msg_Status m \<and> msg_Payload x = msg_Payload m"

definition message_complete :: "message \<Rightarrow> bool" where
  "message_complete m \<longleftrightarrow> trim_space (msg_ID m) \<noteq> [] \<and> trim_space (msg_ConversationID m) \<noteq> [] \<and>
     trim_space (msg_SenderAccountID m) \<noteq> [] \<and> trim_space (msg_SenderDeviceID m) \<noteq> [] \<and>
     msg_Kind m \<noteq> MessageKindUnspecified \<and> msg_Status m \<noteq> MessageStatusUnspecified \<and>
     enc_Ciphertext (msg_Payload m) \<noteq> []"

lemma saved_complete: "saved_as m x \<Longrightarrow> message_complete m \<Longrightarrow> message_complete x"
  by (simp add: saved_as_def message_complete_def)

text \<open>The methods of the store that a publication calls.\<close>

lemma saves_never_fail:
  "message_complete m \<Longrightarrow> \<exists>x s'. cm_SaveMessage m s = (Inr x, s') \<and> saved_as m x"
  "trim_space (rate_TargetKind r) \<noteq> [] \<Longrightarrow> trim_space (rate_TargetID r) \<noteq> [] \<Longrightarrow>
     trim_space (rate_AccountID r) \<noteq> [] \<Longrightarrow> rate_UpdatedAt r \<noteq> zero_time \<Longrightarrow>
     never_fails (cm_SaveModerationRateState r)"
  "trim_space (rst_ConversationID d) \<noteq> [] \<Longrightarrow> trim_space (rst_AccountID d) \<noteq> [] \<Longrightarrow>
     trim_space (rst_DeviceID d) \<noteq> [] \<Longrightarrow> never_fails (cm_SaveReadState d)"
  "trim_space (conv_ID c) \<noteq> [] \<Longrightarrow> never_fails (cm_SaveConversation c)"
  "trim_space (syn_DeviceID y) \<noteq> [] \<Longrightarrow> never_fails (cm_SaveSyncState y)"
  "trim_space (ev_EventID e) \<noteq> [] \<Longrightarrow> trim_space (ev_ConversationID e) \<noteq> [] \<Longrightarrow>
     trim_space (ev_ActorAccountID e) \<noteq> [] \<Longrightarrow> enc_Ciphertext (ev_Payload e) \<noteq> [] \<Longrightarrow>
     never_fails (cm_SaveEvent e)"
  "topic_ok k t \<Longrightarrow> now \<noteq> zero_time \<Longrightarrow> top_CreatedAt t \<le> now \<Longrightarrow>
     never_fails (cm_SaveTopic (t\<lparr>top_LastSequence := n, top_MessageCount := l, top_LastMessageAt := now,
       top_UpdatedAt := now\<rparr>))"
        apply (simp add: cm_SaveMessage_def Let_def message_complete_def saved_as_def trimmed_message_def
          StripMessageHints_def ValidateMessagePayload_def)
       apply (simp add: never_fails_def cm_SaveModerationRateState_def Let_def)
      apply (simp add: never_fails_def cm_SaveReadState_def Let_def)
     apply (simp add: never_fails_def cm_SaveConversation_def)
    apply (simp add: never_fails_def cm_SaveSyncState_def Let_def)
   apply (auto simp add: never_fails_def cm_SaveEvent_def Let_def ValidateMessagePayload_def split: option.split)[1]
  apply (auto simp add: never_fails_def cm_SaveTopic_def Let_def topic_ok_def name_ok_def times_ok_def)
  done

lemma message_never_fails: "message_complete m \<Longrightarrow> never_fails (cm_SaveMessage m)"
  unfolding never_fails_def using saves_never_fail(1) by blast

text \<open>The key of a topic's target is not blank: the separator is no space.\<close>

lemma separator_kept:
  assumes "moderationTargetSeparator \<in> set s"
  shows "trim_space s \<noteq> []"
proof -
  have "list_all (\<lambda>p. \<forall>c \<in> set p. code c \<noteq> code moderationTargetSeparator) space_runes"
    by (simp add: space_runes_def moderationTargetSeparator_def upt_rec)
  then have not_space: "p \<in> set space_runes \<Longrightarrow> moderationTargetSeparator \<notin> set p" for p by (auto simp: list_all_iff)
  have "moderationTargetSeparator \<in> set (strip_all space_runes s)" using assms not_space by (intro strip_all_keeps) auto
  then have "moderationTargetSeparator \<in> set (trim_space s)"
    using not_space by (auto simp: trim_space_def intro!: strip_all_keeps)
  then show ?thesis by auto
qed

lemma target_complete:
  assumes "moderationTarget c topicID = (kind, i)" "trim_space (conv_ID c) \<noteq> []"
  shows "trim_space kind = kind \<and> kind \<noteq> [] \<and> trim_space i \<noteq> []"
proof -
  have "trim_space topicID \<noteq> [] \<Longrightarrow> trim_space (moderationKey (conv_ID c) (trim_space topicID)) \<noteq> []"
    by (intro separator_kept) (simp add: moderationKey_def Let_def)
  moreover have "trim_space ModerationTargetKindTopic = ModerationTargetKindTopic"
    "trim_space ModerationTargetKindChannel = ModerationTargetKindChannel"
    "trim_space ModerationTargetKindConversation = ModerationTargetKindConversation" by (simp_all add: visible_def)
  ultimately show ?thesis using assms
    unfolding moderationTarget_def Let_def by (cases "trim_space topicID = []"; cases "conv_Kind c = ConversationKindChannel") auto
qed

lemma runs_andThen:
  "m w = (Inr x, v) \<Longrightarrow> \<exists>y w'. f x v = (Inr y, w') \<Longrightarrow> \<exists>y w'. andThen m f w = (Inr y, w')"
  unfolding andThen_Inr by blast

lemma new_id_runs:
  assumes "12 \<le> length (w_entropy w)" "list_all visible pre"
  shows "\<exists>i. conv_newID pre w = (Inr i, w\<lparr>w_entropy := drop 12 (w_entropy w)\<rparr>) \<and> trim_space i = i \<and> i \<noteq> []"
proof -
  have "\<exists>i. conv_newID pre w = (Inr i, w\<lparr>w_entropy := drop 12 (w_entropy w)\<rparr>)"
    using assms by (simp add: conv_newID_def random_id_def andThen_run random_token_def ret_def)
  then obtain i where i: "conv_newID pre w = (Inr i, w\<lparr>w_entropy := drop 12 (w_entropy w)\<rparr>)" ..
  moreover have "trim_space i = i \<and> i \<noteq> []"
    using random_id_visible [OF i [unfolded conv_newID_def] assms(2)] by simp
  ultimately show ?thesis by blast
qed

text \<open>A publication of a complete message succeeds.\<close>

lemma publish_runs:
  assumes S: "csv_store sv = conv_memory clock" and "12 \<le> length (w_entropy w)"
    and now: "or_time (pmg_PublishedAt p) (csv_now sv) \<noteq> zero_time"
    and m: "message_complete (pmg_Message p)"
    and topic: "topic_ok k (pst_Topic (pmg_State p))"
      "top_CreatedAt (pst_Topic (pmg_State p)) \<le> or_time (pmg_PublishedAt p) (csv_now sv)"
    and ids: "trim_space (conv_ID (pst_Conversation (pmg_State p))) \<noteq> []"
      "trim_space (pmg_ActorAccountID p) \<noteq> []" "trim_space (pmg_ActorDeviceID p) \<noteq> []"
  shows "\<exists>x w'. publishMessage sv p w = (Inr x, w')"
proof -
  let ?now = "or_time (pmg_PublishedAt p) (csv_now sv)" and ?m = "published_message (or_time (pmg_PublishedAt p) (csv_now sv)) (pmg_Message p)"
  obtain kind i where target: "moderationTarget (pst_Conversation (pmg_State p)) (top_ID (pst_Topic (pmg_State p))) = (kind, i)"
    by fastforce
  note target_ok = target_complete [OF target ids(1)]
  have M: "message_complete ?m" using m by (simp add: message_complete_def published_message_def)
  have saved: "message_complete (x\<lparr>msg_Sequence := n, msg_UpdatedAt := t\<rparr>)" if "saved_as ?m x" for x n t
    using saved_complete [OF that M] by (simp add: message_complete_def)
  obtain x s1 where x: "cm_SaveMessage ?m (w_store w) = (Inr x, s1)" "saved_as ?m x"
    using saves_never_fail(1) [OF M] by blast
  have body: "enc_Ciphertext (msg_Payload x) \<noteq> []" using saved_complete [OF x(2) M] by (simp add: message_complete_def)
  let ?v = "w\<lparr>w_store := s1\<rparr>"
  have "12 \<le> length (w_entropy ?v)" "list_all visible ''evt''" using assms(2) by (simp_all add: visible_def)
  from new_id_runs [OF this] obtain eid
    where eid: "conv_newID ''evt'' ?v = (Inr eid, ?v\<lparr>w_entropy := drop 12 (w_entropy ?v)\<rparr>)" "trim_space eid = eid \<and> eid \<noteq> []"
    by blast
  have rate: "trim_space (rate_TargetKind (rate_after d t r)) = trim_space (rate_TargetKind r)"
      "trim_space (rate_TargetID (rate_after d t r)) = trim_space (rate_TargetID r)"
      "trim_space (rate_AccountID (rate_after d t r)) = trim_space (rate_AccountID r)"
      "rate_UpdatedAt (rate_after d t r) = t" for d t r
    by (simp_all add: rate_after_def Let_def)
  show ?thesis
    unfolding publishMessage_def Let_def target prod.case S conv_memory_methods
    apply (rule runs_andThen [where x = x and v = ?v])
     apply (simp add: x(1) wrapping_Inr on_store_Inr)
    apply (rule runs_andThen [where x = eid and v = "?v\<lparr>w_entropy := drop 12 (w_entropy ?v)\<rparr>"])
     apply (simp add: eventID_def andThen_run attempt_run eid(1))
    apply (rule never_fails_def [THEN iffD1, rule_format])
    apply (intro never_fails_andThen never_fails_ret never_fails_on_store saves_never_fail(2-6) message_never_fails
      rate_never_fails [OF S, unfolded S conv_memory_methods] saves_never_fail(7) [OF topic(1) now topic(2)])
    using target_ok ids now body eid(2) saved [OF x(2)]
    by (simp_all add: rate event_of_def device_sync_def)
qed

subsection \<open>From the rule to the publication\<close>

text \<open>The loads of a message that may be published.\<close>

lemma allowed_loads:
  assumes S: "csv_store sv = conv_memory clock"
    and may: "may_publish (w_store w) now conversationID accountID threadID payload c mb t"
    and "trim_space conversationID \<noteq> []" "conv_ID c = trim_space conversationID"
  shows "on_store (cso_ConversationByID (csv_store sv) conversationID) w = (Inr c, w)"
    "on_store (cso_ConversationMemberByConversationAndAccount (csv_store sv) (conv_ID c) accountID) w = (Inr mb, w)"
    "isActiveMember mb"
    "on_store (cso_TopicByConversationAndID (csv_store sv) (conv_ID c) threadID) w = (Inr t, w)"
    "\<not> (top_Archived t \<or> top_Closed t)"
  using may assms(3,4) by (auto simp: may_publish_def load_runs [OF S] isActiveMember_def)

lemma validate_runs:
  assumes S: "csv_store sv = conv_memory clock" and now: "now \<noteq> zero_time"
    and may: "may_publish (w_store w) now (msg_ConversationID m) (msg_SenderAccountID m) (msg_ThreadID m) (msg_Payload m) c mb t"
    and ids: "trim_space (msg_ConversationID m) \<noteq> []" "conv_ID c = trim_space (msg_ConversationID m)"
      "trim_space (msg_SenderAccountID m) \<noteq> []" "trim_space (msg_ThreadID m) = msg_ThreadID m"
    and no_reply: "mref_MessageID (msg_ReplyTo m) = []"
  shows "\<exists>decision. validateMessageForPublication sv LiveContext m now w =
    (Inr (\<lparr>pst_Conversation = c, pst_Topic = t, pst_Policy = effective_policy (w_store w) c (top_ID t)\<rparr>, decision, None), w)"
proof -
  note loads = allowed_loads [OF S may ids(1,2)]
  obtain kind i where target: "moderationTarget c (top_ID t) = (kind, i)" by fastforce
  have "trim_space (conv_ID c) \<noteq> []" using ids(1,2) by simp
  note target_ok = target_complete [OF target this]
  let ?p = "\<lparr>cwp_TargetKind = kind, cwp_TargetID = i, cwp_ActorAccountID = msg_SenderAccountID m, cwp_ActorRole = cmem_Role mb,
    cwp_BasePolicy = effective_policy (w_store w) c (top_ID t), cwp_CreatedAt = now\<rparr>"
  have allowed: "\<not> (msg_ThreadID m \<noteq> [] \<and> \<not> pol_AllowThreads (effective_policy (w_store w) c (top_ID t)))"
      "ValidateMessagePayload (msg_Payload m) (pol_RequireEncryptedMessages (effective_policy (w_store w) c (top_ID t))) = Inr ()"
      "rule_allows (w_store w) now kind (trim_space i) (trim_space (msg_SenderAccountID m)) (cmem_Role mb)
        (effective_policy (w_store w) c (top_ID t))"
    using may ids(4) by (auto simp: may_publish_def target Let_def)
  have "\<exists>decision. checkModerationWrite sv LiveContext ?p w = (Inr (decision, None), w)"
    using check_write_runs [OF S, of ?p w] target_ok ids(3) allowed(3) now by (auto simp: or_time_def)
  then obtain decision where "checkModerationWrite sv LiveContext ?p w = (Inr (decision, None), w)" ..
  then show ?thesis
    using loads allowed(1,2)
    by (simp add: validateMessageForPublication_def Let_def andThen_run wrapping_run policy_runs [OF S] target
        check_reply_target_def no_reply)
qed

text \<open>The transaction of \<open>SendMessage\<close>, for a request without mentions and reply.\<close>

lemma send_tx_runs:
  assumes S: "csv_store sv = conv_memory clock" and now: "now \<noteq> zero_time"
    and may: "may_publish (w_store w) now (smp_ConversationID p) (smp_SenderAccountID p) (draft_ThreadID (smp_Draft p))
      (draft_Payload (smp_Draft p)) c mb t"
    and thread: "draft_ThreadID (smp_Draft p) \<noteq> [] \<Longrightarrow> conv_Kind c = ConversationKindGroup"
      "trim_space (draft_ThreadID (smp_Draft p)) = draft_ThreadID (smp_Draft p)"
    and topic: "topic_ok k t" "top_ID t = draft_ThreadID (smp_Draft p)" "top_CreatedAt t \<le> now"
    and ids: "trim_space (smp_ConversationID p) \<noteq> []" "conv_ID c = trim_space (smp_ConversationID p)"
      "trim_space (smp_SenderAccountID p) \<noteq> []" "trim_space (smp_SenderDeviceID p) \<noteq> []"
    and kind: "draft_Kind (smp_Draft p) \<noteq> MessageKindUnspecified"
    and plain: "draft_MentionAccountIDs (smp_Draft p) = []" "mref_MessageID (draft_ReplyTo (smp_Draft p)) = []"
    and entropy: "24 \<le> length (w_entropy w)"
  shows "\<exists>m ev dec w'. send_tx sv LiveContext p now False w = (Inr (m, Some ev, dec), w')"
proof -
  note loads = allowed_loads [OF S may ids(1,2)]
  have "12 \<le> length (w_entropy w)" "list_all visible ''msg''" using entropy by (simp_all add: visible_def)
  from new_id_runs [OF this] obtain i where
    i: "conv_newID ''msg'' w = (Inr i, w\<lparr>w_entropy := drop 12 (w_entropy w)\<rparr>)" "trim_space i = i \<and> i \<noteq> []" by blast
  let ?m = "drafted_message p i c (draft_ReplyTo (smp_Draft p)) now" and ?v = "w\<lparr>w_entropy := drop 12 (w_entropy w)\<rparr>"
  let ?state = "\<lparr>pst_Conversation = c, pst_Topic = t, pst_Policy = effective_policy (w_store w) c (top_ID t)\<rparr>"
  let ?publish = "\<lparr>pmg_Message = ?m, pmg_State = ?state, pmg_ActorAccountID = smp_SenderAccountID p,
      pmg_ActorDeviceID = smp_SenderDeviceID p, pmg_CausationID = smp_CausationID p,
      pmg_CorrelationID = smp_CorrelationID p, pmg_PublishedAt = now\<rparr>"
  have fields: "msg_ID ?m = i" "msg_ConversationID ?m = conv_ID c" "msg_SenderAccountID ?m = smp_SenderAccountID p"
    "msg_SenderDeviceID ?m = smp_SenderDeviceID p" "msg_ThreadID ?m = draft_ThreadID (smp_Draft p)"
    "msg_Payload ?m = draft_Payload (smp_Draft p)" "msg_ReplyTo ?m = draft_ReplyTo (smp_Draft p)"
    "msg_Kind ?m = draft_Kind (smp_Draft p)" "msg_Status ?m = MessageStatusSent"
    by (simp_all add: drafted_message_def Let_def thread(2))
  have may': "may_publish (w_store ?v) now (msg_ConversationID ?m) (msg_SenderAccountID ?m) (msg_ThreadID ?m) (msg_Payload ?m) c mb t"
    using may by (simp add: fields may_publish_def ids(2))
  have "\<exists>decision. validateMessageForPublication sv LiveContext ?m now ?v = (Inr (?state, decision, None), ?v)"
    using validate_runs [OF S now may'] ids thread(2) plain(2) by (simp add: fields)
  then obtain decision where checked: "validateMessageForPublication sv LiveContext ?m now ?v = (Inr (?state, decision, None), ?v)" ..
  have body: "enc_Ciphertext (draft_Payload (smp_Draft p)) \<noteq> []"
    using may by (auto simp: may_publish_def Let_def ValidateMessagePayload_def split: if_splits prod.splits)
  have "message_complete ?m"
    using i(2) ids kind body by (simp add: message_complete_def fields)
  then have "\<exists>x w'. publishMessage sv ?publish ?v = (Inr x, w')"
    using publish_runs [OF S, of ?v ?publish k] entropy now topic ids by (simp add: or_time_def)
  then obtain saved ev w' where published: "publishMessage sv ?publish ?v = (Inr (saved, ev), w')" by fastforce
  have threads: "draft_ThreadID (smp_Draft p) \<noteq> [] \<Longrightarrow>
      pol_AllowThreads (effective_policy (w_store w) c (draft_ThreadID (smp_Draft p)))"
    using may topic(2) thread(2) by (auto simp: may_publish_def Let_def split: prod.splits)
  have "send_tx sv LiveContext p now False w = (Inr (saved, Some ev, decision), w')"
    using loads threads thread(1) i(1) checked published
    by (cases "draft_ThreadID (smp_Draft p) = []")
      (simp_all add: send_tx_def Let_def andThen_run wrapping_run policy_runs [OF S] check_mentions_def plain
        resolve_reply_def verdict_ok_def)
  then show ?thesis by blast
qed

text \<open>What \<open>SendMessage\<close> does after the checks of its parameters.\<close>

lemma pass_guards:
  "andThen (conv_validateContext LiveContext operation) (\<lambda>_. f) = f" "andThen (reject_if False e) (\<lambda>_. f) = f"
  by (auto simp: andThen_run conv_validateContext_def)

definition index_sent :: "'s conv_service \<Rightarrow> bool \<Rightarrow> message \<times> conv_event option \<times> mod_decision \<Rightarrow>
    ('s conv_world, message \<times> conv_event option) io" where
  "index_sent sv scheduled = (\<lambda>(saved, event, decision).
     andThen (if scheduled then ret ()
       else andThen (if dec_ShadowHidden decision then ret () else indexMessage sv saved) (\<lambda>_.
         indexConversationByID sv (msg_ConversationID saved))) (\<lambda>_. ret (saved, event)))"

lemma SendMessage_starts:
  assumes "trim_space (smp_ConversationID p) \<noteq> []" "trim_space (smp_SenderAccountID p) \<noteq> []"
    "trim_space (smp_SenderDeviceID p) \<noteq> []" "draft_Kind (smp_Draft p) \<noteq> MessageKindUnspecified"
  shows "SendMessage sv LiveContext p = (let now = or_time (smp_CreatedAt p) (csv_now sv);
      scheduled = (draft_DeliverAt (smp_Draft (normalized_send p)) \<noteq> zero_time \<and>
        now < draft_DeliverAt (smp_Draft (normalized_send p))) in
    andThen (runTx LiveContext (send_tx sv LiveContext (normalized_send p) now scheduled)) (index_sent sv scheduled))"
proof -
  have "draft_Kind (normalizeMessageDraft (smp_Draft p)) = draft_Kind (smp_Draft p)"
    by (simp add: normalizeMessageDraft_def)
  with assms show ?thesis
    by (simp add: SendMessage_def normalized_send_def Let_def pass_guards index_sent_def)
qed

lemma index_sent_runs: "\<exists>w'. index_sent sv scheduled (m, ev, dec) w = (Inr (m, ev), w')"
proof -
  have "never_fails (if scheduled then ret () else andThen (if dec_ShadowHidden dec then ret () else indexMessage sv m) (\<lambda>_.
      indexConversationByID sv (msg_ConversationID m)))"
    by (intro never_fails_steps never_fails_indexing)
  then obtain w' where "(if scheduled then ret () else andThen (if dec_ShadowHidden dec then ret () else indexMessage sv m) (\<lambda>_.
      indexConversationByID sv (msg_ConversationID m))) w = (Inr (), w')"
    unfolding never_fails_def by (metis old.unit.exhaust)
  then show ?thesis by (simp add: index_sent_def andThen_run)
qed

lemma send_runs:
  assumes S: "csv_store sv = conv_memory clock" and typed: "store_typed (w_store w)"
    and now: "or_time (smp_CreatedAt p) (csv_now sv) = now" "now \<noteq> zero_time"
    and may: "may_publish (w_store w) now (smp_ConversationID p) (smp_SenderAccountID p) (draft_ThreadID (smp_Draft p))
      (draft_Payload (smp_Draft p)) c mb t"
    and thread: "trim_space (draft_ThreadID (smp_Draft p)) \<noteq> [] \<Longrightarrow> conv_Kind c = ConversationKindGroup"
    and topic: "top_ID t = trim_space (draft_ThreadID (smp_Draft p))" "top_CreatedAt t \<le> now"
    and ids: "trim_space (smp_ConversationID p) \<noteq> []" "trim_space (smp_SenderAccountID p) \<noteq> []"
      "trim_space (smp_SenderDeviceID p) \<noteq> []"
    and kind: "draft_Kind (smp_Draft p) \<noteq> MessageKindUnspecified"
    and plain: "draft_MentionAccountIDs (smp_Draft p) = []" "mref_MessageID (draft_ReplyTo (smp_Draft p)) = []"
    and due: "draft_DeliverAt (smp_Draft p) \<le> now"
    and entropy: "24 \<le> length (w_entropy w)"
  shows "\<exists>m ev w'. SendMessage sv LiveContext p w = (Inr (m, Some ev), w')"
proof -
  let ?p = "normalized_send p"
  have c: "lookup (cm_conversationsByID (w_store w)) (trim_space (smp_ConversationID p)) = Some c"
    and t: "lookup (cm_topicsByKey (w_store w)) (topicKey (trim_space (conv_ID c))
      (trim_space (draft_ThreadID (smp_Draft p)))) = Some t"
    using may by (auto simp: may_publish_def)
  have tables: "table_ok (\<lambda>k c. k = conv_ID c \<and> trim_space k \<noteq> []) (cm_conversationsByID (w_store w))"
    "table_ok topic_ok (cm_topicsByKey (w_store w))" using typed by (simp_all add: store_typed_def)
  have conv: "conv_ID c = trim_space (smp_ConversationID p)" using table_okD [OF tables(1) c] by simp
  note k = table_okD [OF tables(2) t]
  have fields: "smp_SenderDeviceID ?p = trim_space (smp_SenderDeviceID p)"
    "draft_Kind (smp_Draft ?p) = draft_Kind (smp_Draft p)" "draft_MentionAccountIDs (smp_Draft ?p) = []"
    "draft_ReplyTo (smp_Draft ?p) = draft_ReplyTo (smp_Draft p)"
    "draft_DeliverAt (smp_Draft ?p) \<le> now \<or> draft_DeliverAt (smp_Draft ?p) = zero_time"
    using plain due by (simp_all add: normalized_send_def normalizeMessageDraft_def Let_def uniqueIDs_def)
  have "may_publish (w_store w) now (smp_ConversationID ?p) (smp_SenderAccountID ?p) (draft_ThreadID (smp_Draft ?p))
      (draft_Payload (smp_Draft ?p)) c mb t"
    using may by (simp add: may_publish_def normalized_send_fields)
  from send_tx_runs [OF S now(2) this _ _ k] obtain m ev dec w'
    where tx: "send_tx sv LiveContext ?p now False w = (Inr (m, Some ev, dec), w')"
    using thread topic ids kind plain entropy conv by (auto simp: normalized_send_fields fields)
  have "(draft_DeliverAt (smp_Draft ?p) \<noteq> zero_time \<and> now < draft_DeliverAt (smp_Draft ?p)) = False"
    using fields(5) by auto
  then have start: "SendMessage sv LiveContext p =
      andThen (runTx LiveContext (send_tx sv LiveContext ?p now False)) (index_sent sv False)"
    using SendMessage_starts [OF ids kind, of sv] now(1) by (simp only: Let_def)
  have "runTx LiveContext (send_tx sv LiveContext ?p now False) w = (Inr (m, Some ev, dec), w')"
    using tx by (simp add: runTx_def pass_guards within_tx_run)
  moreover obtain w2 where "index_sent sv False (m, Some ev, dec) w' = (Inr (m, Some ev), w2)"
    using index_sent_runs by blast
  ultimately show ?thesis by (auto simp: start andThen_run)
qed


subsection \<open>An example\<close>

text \<open>The owner of the group of the small history sends a message to it.\<close>

definition sample_payload :: enc_payload where
  "sample_payload = \<lparr>enc_KeyID = ''k'', enc_Algorithm = ''a'', enc_Nonce = ''n'', enc_Ciphertext = ''c'',
     enc_AAD = [], enc_Metadata = []\<rparr>"

definition sample_send :: send_message_params where
  "sample_send = \<lparr>smp_ConversationID = sample_conversation, smp_SenderAccountID = ''alice'', smp_SenderDeviceID = ''dev'',
     smp_Draft = \<lparr>draft_ClientMessageID = [], draft_Kind = MessageKindText, draft_Payload = sample_payload,
        draft_Attachments = [], draft_MentionAccountIDs = [], draft_ReplyTo = no_reference, draft_ThreadID = [],
        draft_DeliverAt = 0, draft_Silent = False, draft_DisableLinkPreviews = False, draft_Metadata = []\<rparr>,
     smp_CausationID = [], smp_CorrelationID = [], smp_CreatedAt = 2000\<rparr>"

definition sample_stored :: conversation where
  "sample_stored = (new_conversation sample_create sample_conversation 1000)
     \<lparr>conv_Settings := normalizeConversationSettings zero_settings, conv_LastSequence := 1, conv_LastMessageAt := 1000\<rparr>"

definition sample_topic :: topic where
  "sample_topic = new_topic sample_conversation [] [] generalTopicTitle ''alice'' True 1000"

lemma sample_names [simp]: "trim_space sample_conversation = sample_conversation" "sample_conversation \<noteq> []"
    "trim_space ''alice'' = ''alice''" "trim_space ''dev'' = ''dev''"
  by (simp_all add: sample_conversation_def visible_def)

lemma send_fields: "smp_CreatedAt sample_send = 2000" "smp_ConversationID sample_send = sample_conversation"
  "smp_SenderAccountID sample_send = ''alice''" "smp_SenderDeviceID sample_send = ''dev''"
  "draft_ThreadID (smp_Draft sample_send) = []" "draft_Payload (smp_Draft sample_send) = sample_payload"
  "draft_Kind (smp_Draft sample_send) = MessageKindText" "draft_MentionAccountIDs (smp_Draft sample_send) = []"
  "mref_MessageID (draft_ReplyTo (smp_Draft sample_send)) = []" "draft_DeliverAt (smp_Draft sample_send) = 0"
  "top_ID sample_topic = []" "top_CreatedAt sample_topic = 1000"
  by (simp_all add: sample_send_def no_reference_def sample_topic_def new_topic_def)

lemma sample_may_publish: "may_publish sample_store 2000 sample_conversation ''alice'' [] sample_payload sample_stored
    (new_member sample_conversation ''alice'' MemberRoleOwner 1000) sample_topic"
proof -
  have c: "conv_ID sample_stored = sample_conversation" "conv_Kind sample_stored = ConversationKindGroup"
    by (simp_all add: sample_stored_def new_conversation_def sample_create_def)
  have target: "moderationTarget sample_stored [] = (ModerationTargetKindConversation, sample_conversation)"
    by (simp add: moderationTarget_def c)
  have policy: "effective_policy sample_store sample_stored [] =
      baseModerationPolicy sample_stored ModerationTargetKindConversation sample_conversation"
    by (simp add: effective_policy_def target stored_policy_def sample_store_def cm_NewMemoryStore_def)
  have open_to: "pol_AntiSpamWindow (effective_policy sample_store sample_stored []) = 0"
      "pol_AntiSpamBurstLimit (effective_policy sample_store sample_stored []) = 0"
      "pol_SlowModeInterval (effective_policy sample_store sample_stored []) = 0"
      "\<not> pol_OnlyAdminsCanWrite (effective_policy sample_store sample_stored [])"
    unfolding policy
    by (simp_all add: baseModerationPolicy_def sample_stored_def normalizeConversationSettings_def zero_settings_def
      DefaultConversationSettings_def)
  have unrestricted: "write_restricted sample_store 2000 kind i a = ModerationRestrictionStateUnspecified" for kind i a
    by (simp add: write_restricted_def restriction_of_def sample_store_def cm_NewMemoryStore_def zero_restriction_def Let_def
        split: prod.split)
  show ?thesis
    using open_to unrestricted
    by (simp add: may_publish_def target Let_def send_fields rule_allows_def c)
      (simp add: sample_store_def sample_stored_def sample_topic_def sample_payload_def ValidateMessagePayload_def
        ValidateEncryptedPayload_def new_member_def new_topic_def conversationMemberKey_def visible_def)
qed

lemma sample_ready: "csv_store sample_service = conv_memory 1000"
    "w_store (run_calls sample_history sample_world) = sample_store"
    "24 \<le> length (w_entropy (run_calls sample_history sample_world))"
  by (simp_all add: sample_service_def sample_history_run sample_after_def)


lemma published_only_if_allowed_witness:
  "\<exists>c mb t. may_publish (w_store (run_calls sample_history sample_world)) 2000 sample_conversation ''alice'' []
    sample_payload c mb t"
proof -
  have "store_typed sample_store"
    using calls_well_kept [OF sample_history_over, of sample_world] store_typed_new by (simp add: well_kept_def sample_ready)
  then have "\<exists>m event w'. SendMessage sample_service LiveContext sample_send (run_calls sample_history sample_world) =
      (Inr (m, Some event), w')"
    by (intro send_runs [OF sample_ready(1), where p = sample_send and c = sample_stored and t = sample_topic and now = 2000
        and mb = "new_member sample_conversation ''alice'' MemberRoleOwner 1000"])
      (use sample_may_publish sample_ready in \<open>simp_all add: send_fields\<close>)
  then obtain m event w' where "SendMessage sample_service LiveContext sample_send (run_calls sample_history sample_world) =
      (Inr (m, Some event), w')" by blast
  from published_only_if_allowed [OF sample_start sample_history_over sample_ready(1) _ this]
  show ?thesis by (simp add: send_fields)
qed

end
