(* ===== verification/E2eeModels.thy ===== *)
theory E2eeModels
  imports GoWorld IdentityModels ConvModels
begin

section \<open>End-to-end encryption: records and the store (\<open>domain/e2ee: models.go, params.go, store.go, teststore\<close>)\<close>

text \<open>
  The server keeps the public keys of the devices and hands them out: a signed prekey and a
  list of one-time prekeys per device, the sessions and sender keys that devices set up with
  them, link transfers between the devices of an account and the trust a device has in others.
  Times are UTC already, so the conversions to UTC are identities, and so are the clones.
\<close>

abbreviation E2eeErrNotFound :: error where
  "E2eeErrNotFound \<equiv> Sentinel EndToEnd NotFound"

abbreviation E2eeErrConflict :: error where
  "E2eeErrConflict \<equiv> Sentinel EndToEnd Conflict"

abbreviation E2eeErrInvalidInput :: error where
  "E2eeErrInvalidInput \<equiv> Sentinel EndToEnd InvalidInput"

abbreviation E2eeErrForbidden :: error where
  "E2eeErrForbidden \<equiv> Sentinel EndToEnd Forbidden"

subsection \<open>Records\<close>

record public_key =
  pk_KeyID :: string
  pk_Algorithm :: string
  pk_PublicKey :: bytes
  pk_CreatedAt :: time
  pk_RotatedAt :: time
  pk_ExpiresAt :: time

record signed_prekey =
  spk_Key :: public_key
  spk_Signature :: bytes

record one_time_prekey =
  otk_Key :: public_key
  otk_ClaimedAt :: time
  otk_ClaimedByAccountID :: string
  otk_ClaimedByDeviceID :: string

type_synonym uint32 = "32 word"

record device_bundle =
  bdl_AccountID :: string
  bdl_DeviceID :: string
  bdl_IdentityKey :: public_key
  bdl_SignedPreKey :: signed_prekey
  bdl_OneTimePreKey :: one_time_prekey
  bdl_OneTimePreKeysAvail :: uint32
  bdl_DeviceLastSeenAt :: time

type_synonym DeviceTrustState = string

abbreviation DeviceTrustStateUnspecified :: DeviceTrustState where
  "DeviceTrustStateUnspecified \<equiv> []"

abbreviation DeviceTrustStateTrusted :: DeviceTrustState where
  "DeviceTrustStateTrusted \<equiv> ''trusted''"

abbreviation DeviceTrustStateUntrusted :: DeviceTrustState where
  "DeviceTrustStateUntrusted \<equiv> ''untrusted''"

abbreviation DeviceTrustStateCompromised :: DeviceTrustState where
  "DeviceTrustStateCompromised \<equiv> ''compromised''"

record device_trust =
  tru_ObserverAccountID :: string
  tru_ObserverDeviceID :: string
  tru_TargetAccountID :: string
  tru_TargetDeviceID :: string
  tru_State :: DeviceTrustState
  tru_KeyFingerprint :: string
  tru_Note :: string
  tru_CreatedAt :: time
  tru_UpdatedAt :: time

record verification_code =
  vco_ObserverAccountID :: string
  vco_ObserverDeviceID :: string
  vco_TargetAccountID :: string
  vco_TargetDeviceID :: string
  vco_TargetKeyFingerprint :: string
  vco_SafetyNumber :: string
  vco_CurrentTrustState :: DeviceTrustState

record unverified_device =
  uvd_AccountID :: string
  uvd_DeviceID :: string
  uvd_TrustState :: DeviceTrustState
  uvd_KeyFingerprint :: string
  uvd_ConversationIDs :: "string list"
  uvd_DirectConversation :: bool

type_synonym CoverageState = string

abbreviation CoverageStateUnspecified :: CoverageState where
  "CoverageStateUnspecified \<equiv> []"

abbreviation CoverageStateReady :: CoverageState where
  "CoverageStateReady \<equiv> ''ready''"

abbreviation CoverageStatePending :: CoverageState where
  "CoverageStatePending \<equiv> ''pending''"

abbreviation CoverageStateExpired :: CoverageState where
  "CoverageStateExpired \<equiv> ''expired''"

abbreviation CoverageStateMissing :: CoverageState where
  "CoverageStateMissing \<equiv> ''missing''"

record coverage_entry =
  cov_AccountID :: string
  cov_DeviceID :: string
  cov_State :: CoverageState
  cov_ReferenceID :: string
  cov_ExpiresAt :: time
  cov_TrustState :: DeviceTrustState
  cov_KeyFingerprint :: string
  cov_VerificationRequired :: bool

record bootstrap_payload =
  bsp_Algorithm :: string
  bsp_Nonce :: bytes
  bsp_Ciphertext :: bytes
  bsp_Metadata :: "(string, string) gomap"

type_synonym DirectSessionState = string

abbreviation DirectSessionStateUnspecified :: DirectSessionState where
  "DirectSessionStateUnspecified \<equiv> []"

abbreviation DirectSessionStatePending :: DirectSessionState where
  "DirectSessionStatePending \<equiv> ''pending''"

abbreviation DirectSessionStateAcknowledged :: DirectSessionState where
  "DirectSessionStateAcknowledged \<equiv> ''acknowledged''"

record direct_session =
  dse_ID :: string
  dse_InitiatorAccountID :: string
  dse_InitiatorDeviceID :: string
  dse_RecipientAccountID :: string
  dse_RecipientDeviceID :: string
  dse_InitiatorEphemeral :: public_key
  dse_IdentityKey :: public_key
  dse_SignedPreKey :: signed_prekey
  dse_OneTimePreKey :: one_time_prekey
  dse_Bootstrap :: bootstrap_payload
  dse_State :: DirectSessionState
  dse_CreatedAt :: time
  dse_AcknowledgedAt :: time
  dse_ExpiresAt :: time

record sender_key_payload =
  skp_KeyID :: string
  skp_Algorithm :: string
  skp_Nonce :: bytes
  skp_Ciphertext :: bytes
  skp_AAD :: bytes
  skp_Metadata :: "(string, string) gomap"

type_synonym GroupSenderKeyState = string

abbreviation GroupSenderKeyStateUnspecified :: GroupSenderKeyState where
  "GroupSenderKeyStateUnspecified \<equiv> []"

abbreviation GroupSenderKeyStatePending :: GroupSenderKeyState where
  "GroupSenderKeyStatePending \<equiv> ''pending''"

abbreviation GroupSenderKeyStateAcknowledged :: GroupSenderKeyState where
  "GroupSenderKeyStateAcknowledged \<equiv> ''acknowledged''"

record sender_key_dist =
  gsk_ID :: string
  gsk_ConversationID :: string
  gsk_SenderAccountID :: string
  gsk_SenderDeviceID :: string
  gsk_RecipientAccountID :: string
  gsk_RecipientDeviceID :: string
  gsk_SenderKeyID :: string
  gsk_Payload :: sender_key_payload
  gsk_State :: GroupSenderKeyState
  gsk_CreatedAt :: time
  gsk_AcknowledgedAt :: time
  gsk_ExpiresAt :: time

record link_transfer =
  dlt_ID :: string
  dlt_AccountID :: string
  dlt_SourceDeviceID :: string
  dlt_TargetDeviceID :: string
  dlt_Payload :: sender_key_payload
  dlt_CreatedAt :: time

subsection \<open>Parameters\<close>

record rotate_keys_params =
  rkp_AccountID :: string
  rkp_DeviceID :: string
  rkp_SignedPreKey :: signed_prekey
  rkp_OneTimePreKeys :: "one_time_prekey list"
  rkp_ReplaceOneTimePreKey :: bool
  rkp_ExpirePendingDirectSessions :: bool
  rkp_ExpirePendingGroupSenderKeys :: bool

record upload_prekeys_params =
  upp_AccountID :: string
  upp_DeviceID :: string
  upp_SignedPreKey :: signed_prekey
  upp_OneTimePreKeys :: "one_time_prekey list"
  upp_ReplaceOneTimePreKey :: bool

record fetch_bundles_params =
  fbp_RequesterAccountID :: string
  fbp_RequesterDeviceID :: string
  fbp_TargetAccountID :: string
  fbp_ConsumeOneTimePreKey :: bool

record verification_code_params =
  vcp_ObserverAccountID :: string
  vcp_ObserverDeviceID :: string
  vcp_TargetAccountID :: string
  vcp_TargetDeviceID :: string

record verify_number_params =
  vnp_ObserverAccountID :: string
  vnp_ObserverDeviceID :: string
  vnp_TargetAccountID :: string
  vnp_TargetDeviceID :: string
  vnp_SafetyNumber :: string
  vnp_Note :: string

record set_trust_params =
  stp_ObserverAccountID :: string
  stp_ObserverDeviceID :: string
  stp_TargetAccountID :: string
  stp_TargetDeviceID :: string
  stp_State :: DeviceTrustState
  stp_Note :: string

record list_trusts_params =
  ltp_ObserverAccountID :: string
  ltp_ObserverDeviceID :: string
  ltp_TargetAccountID :: string

record list_unverified_params =
  lup_ObserverAccountID :: string
  lup_ObserverDeviceID :: string

record key_coverage_params =
  kcp_ConversationID :: string
  kcp_SenderAccountID :: string
  kcp_SenderDeviceID :: string
  kcp_SenderKeyID :: string

record create_sessions_params =
  csp_InitiatorAccountID :: string
  csp_InitiatorDeviceID :: string
  csp_TargetAccountID :: string
  csp_TargetDeviceID :: string
  csp_InitiatorEphemeral :: public_key
  csp_Bootstrap :: bootstrap_payload
  csp_ExpiresAt :: time

record device_sessions_params =
  dsp_AccountID :: string
  dsp_DeviceID :: string
  dsp_IncludeAcknowledged :: bool
  dsp_PeerAccountID :: string

record ack_session_params =
  asp_SessionID :: string
  asp_RecipientAccountID :: string
  asp_RecipientDeviceID :: string

record recipient_key =
  rcp_RecipientAccountID :: string
  rcp_RecipientDeviceID :: string
  rcp_Payload :: sender_key_payload

record publish_keys_params =
  pkp_ConversationID :: string
  pkp_SenderAccountID :: string
  pkp_SenderDeviceID :: string
  pkp_SenderKeyID :: string
  pkp_Recipients :: "recipient_key list"
  pkp_ExpiresAt :: time

record list_keys_params =
  lkp_ConversationID :: string
  lkp_RecipientAccountID :: string
  lkp_RecipientDeviceID :: string
  lkp_IncludeAcknowledged :: bool

record ack_key_params =
  akp_DistributionID :: string
  akp_RecipientAccountID :: string
  akp_RecipientDeviceID :: string

record queue_transfer_params =
  qtp_AccountID :: string
  qtp_SourceDeviceID :: string
  qtp_TargetDeviceID :: string
  qtp_Payload :: sender_key_payload
  qtp_RequestedAt :: time

record consume_transfer_params =
  ctp_AccountID :: string
  ctp_DeviceID :: string

record validate_payload_params =
  vpp_ConversationID :: string
  vpp_SenderAccountID :: string
  vpp_SenderDeviceID :: string
  vpp_PayloadKeyID :: string
  vpp_PayloadMetadata :: "(string, string) gomap"

subsection \<open>The interfaces\<close>

text \<open>
  What the service asks of the accounts and of the conversations only reads: the answers of one
  call are functions. The store is a table of its methods; whether its transactions restore the
  state after an error is a field of it, since the in-memory store only calls the function.
\<close>

record directory =
  dir_AccountByID :: "string \<Rightarrow> error + account"
  dir_DeviceByID :: "string \<Rightarrow> error + device"
  dir_DevicesByAccountID :: "string \<Rightarrow> error + device list"

record chat_directory =
  cht_ConversationByID :: "string \<Rightarrow> error + conversation"
  cht_ConversationsByAccountID :: "string \<Rightarrow> error + conversation list"
  cht_ConversationMemberByConversationAndAccount :: "string \<Rightarrow> string \<Rightarrow> error + conv_member"
  cht_ConversationMembersByConversationID :: "string \<Rightarrow> error + conv_member list"

record 's e2ee_store_ops =
  eso_TxRestores :: bool
  eso_SaveSignedPreKey :: "string \<Rightarrow> string \<Rightarrow> signed_prekey \<Rightarrow> ('s, signed_prekey) io"
  eso_SignedPreKeyByDevice :: "string \<Rightarrow> string \<Rightarrow> ('s, signed_prekey) io"
  eso_DeleteOneTimePreKeysByDevice :: "string \<Rightarrow> string \<Rightarrow> ('s, unit) io"
  eso_SaveOneTimePreKeys :: "string \<Rightarrow> string \<Rightarrow> one_time_prekey list \<Rightarrow> ('s, unit) io"
  eso_ClaimOneTimePreKey :: "string \<Rightarrow> string \<Rightarrow> string \<Rightarrow> string \<Rightarrow> ('s, one_time_prekey) io"
  eso_CountAvailableOneTimePreKeys :: "string \<Rightarrow> string \<Rightarrow> ('s, uint32) io"
  eso_ExpirePendingDirectSessionsByDevice :: "string \<Rightarrow> string \<Rightarrow> time \<Rightarrow> ('s, uint32) io"
  eso_SaveDirectSession :: "direct_session \<Rightarrow> ('s, direct_session) io"
  eso_DirectSessionByID :: "string \<Rightarrow> ('s, direct_session) io"
  eso_DirectSessionsByRecipientDevice :: "string \<Rightarrow> string \<Rightarrow> ('s, direct_session list) io"
  eso_DirectSessionsByParticipantDevice :: "string \<Rightarrow> string \<Rightarrow> ('s, direct_session list) io"
  eso_ExpirePendingGroupSenderKeysBySenderDevice :: "string \<Rightarrow> string \<Rightarrow> time \<Rightarrow> ('s, uint32) io"
  eso_SaveGroupSenderKeyDistribution :: "sender_key_dist \<Rightarrow> ('s, sender_key_dist) io"
  eso_GroupSenderKeyDistributionByID :: "string \<Rightarrow> ('s, sender_key_dist) io"
  eso_GroupSenderKeyDistributionsByRecipientDevice :: "string \<Rightarrow> string \<Rightarrow> string \<Rightarrow> ('s, sender_key_dist list) io"
  eso_GroupSenderKeyDistributionsBySenderKey :: "string \<Rightarrow> string \<Rightarrow> string \<Rightarrow> string \<Rightarrow> ('s, sender_key_dist list) io"
  eso_GroupSenderKeyDistributionsBySenderDevice :: "string \<Rightarrow> string \<Rightarrow> string \<Rightarrow> ('s, sender_key_dist list) io"
  eso_SaveDeviceLinkTransfer :: "link_transfer \<Rightarrow> ('s, link_transfer) io"
  eso_DeviceLinkTransferByTargetDevice :: "string \<Rightarrow> string \<Rightarrow> ('s, link_transfer) io"
  eso_DeleteDeviceLinkTransfer :: "string \<Rightarrow> ('s, unit) io"
  eso_SaveDeviceTrust :: "device_trust \<Rightarrow> ('s, device_trust) io"
  eso_DeviceTrustsByObserverDevice :: "string \<Rightarrow> string \<Rightarrow> string \<Rightarrow> ('s, device_trust list) io"

end
