(* ===== verification/E2eeMemory.thy ===== *)
theory E2eeMemory
  imports E2eeModels
begin

section \<open>The in-memory store of end-to-end encryption (\<open>domain/e2ee/teststore/store.go\<close>)\<close>

text \<open>
  One map per kind of record. A transaction only calls its function with the store itself, so
  nothing is undone after an error. Byte slices are copied; but the two functions that copy
  metadata read the copy they have just made, which is empty, so metadata is lost.
\<close>

record e2ee_mem =
  em_signed :: "(string, signed_prekey) gomap"
  em_oneTime :: "(string, one_time_prekey list) gomap"
  em_sessions :: "(string, direct_session) gomap"
  em_groupSender :: "(string, sender_key_dist) gomap"
  em_linkTransfer :: "(string, link_transfer) gomap"
  em_trusts :: "(string, device_trust) gomap"

definition em_NewMemoryStore :: e2ee_mem where
  "em_NewMemoryStore = \<lparr>em_signed = [], em_oneTime = [], em_sessions = [], em_groupSender = [],
     em_linkTransfer = [], em_trusts = []\<rparr>"

definition e2ee_key :: "string \<Rightarrow> string \<Rightarrow> string" where
  "e2ee_key accountID deviceID = accountID @ ''|'' @ deviceID"

definition trustKey :: "string \<Rightarrow> string \<Rightarrow> string \<Rightarrow> string \<Rightarrow> string" where
  "trustKey observerAccountID observerDeviceID targetAccountID targetDeviceID =
     observerAccountID @ ''|'' @ observerDeviceID @ ''|'' @ targetAccountID @ ''|'' @ targetDeviceID"

definition deviceLinkKey :: "string \<Rightarrow> string \<Rightarrow> string" where
  "deviceLinkKey accountID deviceID = accountID @ ''|'' @ deviceID"

subsection \<open>Copies\<close>

definition cloneDirectSession :: "direct_session \<Rightarrow> direct_session" where
  "cloneDirectSession v = v\<lparr>dse_Bootstrap := (dse_Bootstrap v)\<lparr>bsp_Metadata := []\<rparr>\<rparr>"

definition cloneSenderKeyPayload :: "sender_key_payload \<Rightarrow> sender_key_payload" where
  "cloneSenderKeyPayload v = v\<lparr>skp_Metadata := []\<rparr>"

definition cloneGroupSenderKeyDistribution :: "sender_key_dist \<Rightarrow> sender_key_dist" where
  "cloneGroupSenderKeyDistribution v = v\<lparr>gsk_Payload := cloneSenderKeyPayload (gsk_Payload v)\<rparr>"

definition cloneDeviceLinkTransfer :: "link_transfer \<Rightarrow> link_transfer" where
  "cloneDeviceLinkTransfer v = v\<lparr>dlt_Payload := cloneSenderKeyPayload (dlt_Payload v)\<rparr>"

subsection \<open>Prekeys\<close>

definition found_or_e2ee :: "'a option \<Rightarrow> ('s, 'a) io" where
  "found_or_e2ee r = (case r of None \<Rightarrow> raise E2eeErrNotFound | Some x \<Rightarrow> ret x)"

definition em_SaveSignedPreKey :: "string \<Rightarrow> string \<Rightarrow> signed_prekey \<Rightarrow> (e2ee_mem, signed_prekey) io" where
  "em_SaveSignedPreKey accountID deviceID v = (\<lambda>s.
     (Inr v, s\<lparr>em_signed := put (e2ee_key accountID deviceID) v (em_signed s)\<rparr>))"

definition em_SignedPreKeyByDevice :: "string \<Rightarrow> string \<Rightarrow> (e2ee_mem, signed_prekey) io" where
  "em_SignedPreKeyByDevice accountID deviceID = (\<lambda>s.
     found_or_e2ee (lookup (em_signed s) (e2ee_key accountID deviceID)) s)"

text \<open>The prekeys of a device, none where the map has no entry.\<close>

definition keys_of :: "e2ee_mem \<Rightarrow> string \<Rightarrow> string \<Rightarrow> one_time_prekey list" where
  "keys_of s accountID deviceID = (case lookup (em_oneTime s) (e2ee_key accountID deviceID) of
     None \<Rightarrow> [] | Some row \<Rightarrow> row)"

definition em_DeleteOneTimePreKeysByDevice :: "string \<Rightarrow> string \<Rightarrow> (e2ee_mem, unit) io" where
  "em_DeleteOneTimePreKeysByDevice accountID deviceID = (\<lambda>s.
     (Inr (), s\<lparr>em_oneTime := remove (e2ee_key accountID deviceID) (em_oneTime s)\<rparr>))"

definition em_SaveOneTimePreKeys :: "string \<Rightarrow> string \<Rightarrow> one_time_prekey list \<Rightarrow> (e2ee_mem, unit) io" where
  "em_SaveOneTimePreKeys accountID deviceID values = (\<lambda>s.
     (Inr (), s\<lparr>em_oneTime := put (e2ee_key accountID deviceID) (keys_of s accountID deviceID @ values) (em_oneTime s)\<rparr>))"

text \<open>A claim takes the time of the claim from the key itself.\<close>

definition claimed_key :: "string \<Rightarrow> string \<Rightarrow> one_time_prekey \<Rightarrow> one_time_prekey" where
  "claimed_key byAccountID byDeviceID v = v\<lparr>otk_ClaimedByAccountID := byAccountID,
     otk_ClaimedByDeviceID := byDeviceID,
     otk_ClaimedAt := (if pk_CreatedAt (otk_Key v) = zero_time then pk_RotatedAt (otk_Key v)
       else pk_CreatedAt (otk_Key v))\<rparr>"

fun claim_first :: "string \<Rightarrow> string \<Rightarrow> one_time_prekey list \<Rightarrow> (one_time_prekey \<times> one_time_prekey list) option" where
  "claim_first a d [] = None"
| "claim_first a d (v # vs) =
     (if otk_ClaimedAt v \<noteq> zero_time then map_option (\<lambda>(x, vs'). (x, v # vs')) (claim_first a d vs)
      else Some (claimed_key a d v, claimed_key a d v # vs))"

definition em_ClaimOneTimePreKey ::
    "string \<Rightarrow> string \<Rightarrow> string \<Rightarrow> string \<Rightarrow> (e2ee_mem, one_time_prekey) io" where
  "em_ClaimOneTimePreKey accountID deviceID byAccountID byDeviceID = (\<lambda>s.
     case claim_first byAccountID byDeviceID (keys_of s accountID deviceID) of
       None \<Rightarrow> (Inl E2eeErrNotFound, s)
     | Some (x, row) \<Rightarrow>
         (Inr x, s\<lparr>em_oneTime := put (e2ee_key accountID deviceID) row (em_oneTime s)\<rparr>))"

definition em_CountAvailableOneTimePreKeys :: "string \<Rightarrow> string \<Rightarrow> (e2ee_mem, uint32) io" where
  "em_CountAvailableOneTimePreKeys accountID deviceID = (\<lambda>s.
     (Inr (of_nat (length (List.filter (\<lambda>v. otk_ClaimedAt v = zero_time) (keys_of s accountID deviceID)))), s))"

subsection \<open>Direct sessions\<close>

definition session_expires :: "string \<Rightarrow> string \<Rightarrow> time \<Rightarrow> direct_session \<Rightarrow> bool" where
  "session_expires accountID deviceID expiresAt v \<longleftrightarrow>
     \<not> dse_State v \<noteq> DirectSessionStatePending \<and>
     \<not> (dse_InitiatorAccountID v \<noteq> accountID \<and> dse_RecipientAccountID v \<noteq> accountID) \<and>
     \<not> (dse_InitiatorDeviceID v \<noteq> deviceID \<and> dse_RecipientDeviceID v \<noteq> deviceID) \<and>
     \<not> (dse_ExpiresAt v \<noteq> zero_time \<and> \<not> expiresAt < dse_ExpiresAt v)"

definition em_ExpirePendingDirectSessionsByDevice :: "string \<Rightarrow> string \<Rightarrow> time \<Rightarrow> (e2ee_mem, uint32) io" where
  "em_ExpirePendingDirectSessionsByDevice accountID deviceID expiresAt = (\<lambda>s.
     (Inr (of_nat (length (List.filter (session_expires accountID deviceID expiresAt) (entries (em_sessions s))))),
      s\<lparr>em_sessions := List.map (\<lambda>(i, v). (i, if session_expires accountID deviceID expiresAt v
          then cloneDirectSession (v\<lparr>dse_ExpiresAt := expiresAt\<rparr>) else v)) (em_sessions s)\<rparr>))"

definition em_SaveDirectSession :: "direct_session \<Rightarrow> (e2ee_mem, direct_session) io" where
  "em_SaveDirectSession v = (\<lambda>s.
     (Inr (cloneDirectSession v), s\<lparr>em_sessions := put (dse_ID v) (cloneDirectSession v) (em_sessions s)\<rparr>))"

definition em_DirectSessionByID :: "string \<Rightarrow> (e2ee_mem, direct_session) io" where
  "em_DirectSessionByID sessionID = (\<lambda>s.
     found_or_e2ee (map_option cloneDirectSession (lookup (em_sessions s) sessionID)) s)"

definition em_DirectSessionsByRecipientDevice :: "string \<Rightarrow> string \<Rightarrow> (e2ee_mem, direct_session list) io" where
  "em_DirectSessionsByRecipientDevice accountID deviceID = (\<lambda>s.
     (Inr (List.map cloneDirectSession (List.filter (\<lambda>v. \<not> (dse_RecipientAccountID v \<noteq> accountID \<or>
       dse_RecipientDeviceID v \<noteq> deviceID)) (entries (em_sessions s)))), s))"

definition session_of_device :: "string \<Rightarrow> string \<Rightarrow> direct_session \<Rightarrow> bool" where
  "session_of_device accountID deviceID v \<longleftrightarrow>
     dse_InitiatorAccountID v = accountID \<and> dse_InitiatorDeviceID v = deviceID \<or>
     dse_RecipientAccountID v = accountID \<and> dse_RecipientDeviceID v = deviceID"

definition em_DirectSessionsByParticipantDevice :: "string \<Rightarrow> string \<Rightarrow> (e2ee_mem, direct_session list) io" where
  "em_DirectSessionsByParticipantDevice accountID deviceID = (\<lambda>s.
     (Inr (List.map cloneDirectSession (List.filter (session_of_device accountID deviceID) (entries (em_sessions s)))), s))"

subsection \<open>Sender keys\<close>

definition sender_key_expires :: "string \<Rightarrow> string \<Rightarrow> time \<Rightarrow> sender_key_dist \<Rightarrow> bool" where
  "sender_key_expires accountID deviceID expiresAt v \<longleftrightarrow>
     \<not> gsk_State v \<noteq> GroupSenderKeyStatePending \<and>
     \<not> (gsk_SenderAccountID v \<noteq> accountID \<or> gsk_SenderDeviceID v \<noteq> deviceID) \<and>
     \<not> (gsk_ExpiresAt v \<noteq> zero_time \<and> \<not> expiresAt < gsk_ExpiresAt v)"

definition em_ExpirePendingGroupSenderKeysBySenderDevice :: "string \<Rightarrow> string \<Rightarrow> time \<Rightarrow> (e2ee_mem, uint32) io" where
  "em_ExpirePendingGroupSenderKeysBySenderDevice accountID deviceID expiresAt = (\<lambda>s.
     (Inr (of_nat (length (List.filter (sender_key_expires accountID deviceID expiresAt) (entries (em_groupSender s))))),
      s\<lparr>em_groupSender := List.map (\<lambda>(i, v). (i, if sender_key_expires accountID deviceID expiresAt v
          then cloneGroupSenderKeyDistribution (v\<lparr>gsk_ExpiresAt := expiresAt\<rparr>) else v)) (em_groupSender s)\<rparr>))"

definition em_SaveGroupSenderKeyDistribution :: "sender_key_dist \<Rightarrow> (e2ee_mem, sender_key_dist) io" where
  "em_SaveGroupSenderKeyDistribution v = (\<lambda>s. (Inr (cloneGroupSenderKeyDistribution v),
     s\<lparr>em_groupSender := put (gsk_ID v) (cloneGroupSenderKeyDistribution v) (em_groupSender s)\<rparr>))"

definition em_GroupSenderKeyDistributionByID :: "string \<Rightarrow> (e2ee_mem, sender_key_dist) io" where
  "em_GroupSenderKeyDistributionByID distributionID = (\<lambda>s.
     found_or_e2ee (map_option cloneGroupSenderKeyDistribution (lookup (em_groupSender s) distributionID)) s)"

definition em_GroupSenderKeyDistributionsByRecipientDevice ::
    "string \<Rightarrow> string \<Rightarrow> string \<Rightarrow> (e2ee_mem, sender_key_dist list) io" where
  "em_GroupSenderKeyDistributionsByRecipientDevice conversationID accountID deviceID = (\<lambda>s.
     (Inr (List.map cloneGroupSenderKeyDistribution (List.filter (\<lambda>v. \<not> (gsk_ConversationID v \<noteq> conversationID \<or>
       gsk_RecipientAccountID v \<noteq> accountID \<or> gsk_RecipientDeviceID v \<noteq> deviceID)) (entries (em_groupSender s)))), s))"

definition em_GroupSenderKeyDistributionsBySenderKey ::
    "string \<Rightarrow> string \<Rightarrow> string \<Rightarrow> string \<Rightarrow> (e2ee_mem, sender_key_dist list) io" where
  "em_GroupSenderKeyDistributionsBySenderKey conversationID senderAccountID senderDeviceID senderKeyID = (\<lambda>s.
     (Inr (List.map cloneGroupSenderKeyDistribution (List.filter (\<lambda>v. \<not> (gsk_ConversationID v \<noteq> conversationID \<or>
       gsk_SenderAccountID v \<noteq> senderAccountID \<or> gsk_SenderDeviceID v \<noteq> senderDeviceID \<or>
       gsk_SenderKeyID v \<noteq> senderKeyID)) (entries (em_groupSender s)))), s))"

definition em_GroupSenderKeyDistributionsBySenderDevice ::
    "string \<Rightarrow> string \<Rightarrow> string \<Rightarrow> (e2ee_mem, sender_key_dist list) io" where
  "em_GroupSenderKeyDistributionsBySenderDevice conversationID senderAccountID senderDeviceID = (\<lambda>s.
     (Inr (List.map cloneGroupSenderKeyDistribution (List.filter (\<lambda>v. \<not> (gsk_ConversationID v \<noteq> conversationID \<or>
       gsk_SenderAccountID v \<noteq> senderAccountID \<or> gsk_SenderDeviceID v \<noteq> senderDeviceID))
       (entries (em_groupSender s)))), s))"

subsection \<open>Link transfers and trust\<close>

definition em_SaveDeviceLinkTransfer :: "link_transfer \<Rightarrow> (e2ee_mem, link_transfer) io" where
  "em_SaveDeviceLinkTransfer v = (\<lambda>s. (Inr (cloneDeviceLinkTransfer v), s\<lparr>em_linkTransfer :=
     put (deviceLinkKey (dlt_AccountID v) (dlt_TargetDeviceID v)) (cloneDeviceLinkTransfer v) (em_linkTransfer s)\<rparr>))"

definition em_DeviceLinkTransferByTargetDevice :: "string \<Rightarrow> string \<Rightarrow> (e2ee_mem, link_transfer) io" where
  "em_DeviceLinkTransferByTargetDevice accountID deviceID = (\<lambda>s.
     found_or_e2ee (map_option cloneDeviceLinkTransfer (lookup (em_linkTransfer s) (deviceLinkKey accountID deviceID))) s)"

definition em_DeleteDeviceLinkTransfer :: "string \<Rightarrow> (e2ee_mem, unit) io" where
  "em_DeleteDeviceLinkTransfer transferID = (\<lambda>s.
     case List.find (\<lambda>(k, v). dlt_ID v = transferID) (em_linkTransfer s) of
       None \<Rightarrow> (Inl E2eeErrNotFound, s)
     | Some (k, v) \<Rightarrow> (Inr (), s\<lparr>em_linkTransfer := remove k (em_linkTransfer s)\<rparr>))"

definition em_SaveDeviceTrust :: "device_trust \<Rightarrow> (e2ee_mem, device_trust) io" where
  "em_SaveDeviceTrust v0 = (\<lambda>s.
     let k = trustKey (tru_ObserverAccountID v0) (tru_ObserverDeviceID v0) (tru_TargetAccountID v0) (tru_TargetDeviceID v0);
       v = (case lookup (em_trusts s) k of
           Some existing \<Rightarrow> v0\<lparr>tru_CreatedAt := tru_CreatedAt existing\<rparr>
         | None \<Rightarrow> if tru_CreatedAt v0 = zero_time then v0\<lparr>tru_CreatedAt := tru_UpdatedAt v0\<rparr> else v0) in
     (Inr v, s\<lparr>em_trusts := put k v (em_trusts s)\<rparr>))"

definition em_DeviceTrustsByObserverDevice :: "string \<Rightarrow> string \<Rightarrow> string \<Rightarrow> (e2ee_mem, device_trust list) io" where
  "em_DeviceTrustsByObserverDevice observerAccountID observerDeviceID targetAccountID = (\<lambda>s.
     (Inr (List.filter (\<lambda>v. \<not> (tru_ObserverAccountID v \<noteq> observerAccountID \<or> tru_ObserverDeviceID v \<noteq> observerDeviceID) \<and>
       \<not> (targetAccountID \<noteq> [] \<and> tru_TargetAccountID v \<noteq> targetAccountID)) (entries (em_trusts s))), s))"

definition e2ee_memory :: "e2ee_mem e2ee_store_ops" where
  "e2ee_memory = \<lparr>eso_TxRestores = False,
     eso_SaveSignedPreKey = em_SaveSignedPreKey,
     eso_SignedPreKeyByDevice = em_SignedPreKeyByDevice,
     eso_DeleteOneTimePreKeysByDevice = em_DeleteOneTimePreKeysByDevice,
     eso_SaveOneTimePreKeys = em_SaveOneTimePreKeys,
     eso_ClaimOneTimePreKey = em_ClaimOneTimePreKey,
     eso_CountAvailableOneTimePreKeys = em_CountAvailableOneTimePreKeys,
     eso_ExpirePendingDirectSessionsByDevice = em_ExpirePendingDirectSessionsByDevice,
     eso_SaveDirectSession = em_SaveDirectSession,
     eso_DirectSessionByID = em_DirectSessionByID,
     eso_DirectSessionsByRecipientDevice = em_DirectSessionsByRecipientDevice,
     eso_DirectSessionsByParticipantDevice = em_DirectSessionsByParticipantDevice,
     eso_ExpirePendingGroupSenderKeysBySenderDevice = em_ExpirePendingGroupSenderKeysBySenderDevice,
     eso_SaveGroupSenderKeyDistribution = em_SaveGroupSenderKeyDistribution,
     eso_GroupSenderKeyDistributionByID = em_GroupSenderKeyDistributionByID,
     eso_GroupSenderKeyDistributionsByRecipientDevice = em_GroupSenderKeyDistributionsByRecipientDevice,
     eso_GroupSenderKeyDistributionsBySenderKey = em_GroupSenderKeyDistributionsBySenderKey,
     eso_GroupSenderKeyDistributionsBySenderDevice = em_GroupSenderKeyDistributionsBySenderDevice,
     eso_SaveDeviceLinkTransfer = em_SaveDeviceLinkTransfer,
     eso_DeviceLinkTransferByTargetDevice = em_DeviceLinkTransferByTargetDevice,
     eso_DeleteDeviceLinkTransfer = em_DeleteDeviceLinkTransfer,
     eso_SaveDeviceTrust = em_SaveDeviceTrust,
     eso_DeviceTrustsByObserverDevice = em_DeviceTrustsByObserverDevice\<rparr>"

end
