(* ===== verification/GoUpper.thy ===== *)
theory GoUpper
  imports GoStrings
begin

section \<open>\<open>strings.ToUpper\<close>\<close>

text \<open>
  The runes above ASCII that \<open>unicode.ToUpper\<close> changes: from \<open>lo\<close> to \<open>hi\<close> in the given
  stride, each moved by \<open>delta\<close>.
\<close>

definition upper_ranges :: "(int \<times> int \<times> int \<times> int) list" where
  "upper_ranges = [
    (181, 181, 1, 743), (224, 246, 1, -32), (248, 254, 1, -32), (255, 255, 1, 121),
    (257, 303, 2, -1), (305, 305, 1, -232), (307, 311, 2, -1), (314, 328, 2, -1), (331, 375, 2, -1),
    (378, 382, 2, -1), (383, 383, 1, -300), (384, 384, 1, 195), (387, 389, 2, -1),
    (392, 392, 1, -1), (396, 396, 1, -1), (402, 402, 1, -1), (405, 405, 1, 97), (409, 409, 1, -1),
    (410, 410, 1, 163), (414, 414, 1, 130), (417, 421, 2, -1), (424, 424, 1, -1), (429, 429, 1, -1),
    (432, 432, 1, -1), (436, 438, 2, -1), (441, 441, 1, -1), (445, 445, 1, -1), (447, 447, 1, 56),
    (453, 453, 1, -1), (454, 454, 1, -2), (456, 456, 1, -1), (457, 457, 1, -2), (459, 459, 1, -1),
    (460, 460, 1, -2), (462, 476, 2, -1), (477, 477, 1, -79), (479, 495, 2, -1), (498, 498, 1, -1),
    (499, 499, 1, -2), (501, 501, 1, -1), (505, 543, 2, -1), (547, 563, 2, -1), (572, 572, 1, -1),
    (575, 576, 1, 10815), (578, 578, 1, -1), (583, 591, 2, -1), (592, 592, 1, 10783),
    (593, 593, 1, 10780), (594, 594, 1, 10782), (595, 595, 1, -210), (596, 596, 1, -206),
    (598, 599, 1, -205), (601, 601, 1, -202), (603, 603, 1, -203), (604, 604, 1, 42319),
    (608, 608, 1, -205), (609, 609, 1, 42315), (611, 611, 1, -207), (613, 613, 1, 42280),
    (614, 614, 1, 42308), (616, 616, 1, -209), (617, 617, 1, -211), (618, 618, 1, 42308),
    (619, 619, 1, 10743), (620, 620, 1, 42305), (623, 623, 1, -211), (625, 625, 1, 10749),
    (626, 626, 1, -213), (629, 629, 1, -214), (637, 637, 1, 10727), (640, 640, 1, -218),
    (642, 642, 1, 42307), (643, 643, 1, -218), (647, 647, 1, 42282), (648, 648, 1, -218),
    (649, 649, 1, -69), (650, 651, 1, -217), (652, 652, 1, -71), (658, 658, 1, -219),
    (669, 669, 1, 42261), (670, 670, 1, 42258), (837, 837, 1, 84), (881, 883, 2, -1),
    (887, 887, 1, -1), (891, 893, 1, 130), (940, 940, 1, -38), (941, 943, 1, -37),
    (945, 961, 1, -32), (962, 962, 1, -31), (963, 971, 1, -32), (972, 972, 1, -64),
    (973, 974, 1, -63), (976, 976, 1, -62), (977, 977, 1, -57), (981, 981, 1, -47),
    (982, 982, 1, -54), (983, 983, 1, -8), (985, 1007, 2, -1), (1008, 1008, 1, -86),
    (1009, 1009, 1, -80), (1010, 1010, 1, 7), (1011, 1011, 1, -116), (1013, 1013, 1, -96),
    (1016, 1016, 1, -1), (1019, 1019, 1, -1), (1072, 1103, 1, -32), (1104, 1119, 1, -80),
    (1121, 1153, 2, -1), (1163, 1215, 2, -1), (1218, 1230, 2, -1), (1231, 1231, 1, -15),
    (1233, 1327, 2, -1), (1377, 1414, 1, -48), (4304, 4346, 1, 3008), (4349, 4351, 1, 3008),
    (5112, 5117, 1, -8), (7296, 7296, 1, -6254), (7297, 7297, 1, -6253), (7298, 7298, 1, -6244),
    (7299, 7300, 1, -6242), (7301, 7301, 1, -6243), (7302, 7302, 1, -6236), (7303, 7303, 1, -6181),
    (7304, 7304, 1, 35266), (7545, 7545, 1, 35332), (7549, 7549, 1, 3814), (7566, 7566, 1, 35384),
    (7681, 7829, 2, -1), (7835, 7835, 1, -59), (7841, 7935, 2, -1), (7936, 7943, 1, 8),
    (7952, 7957, 1, 8), (7968, 7975, 1, 8), (7984, 7991, 1, 8), (8000, 8005, 1, 8),
    (8017, 8023, 2, 8), (8032, 8039, 1, 8), (8048, 8049, 1, 74), (8050, 8053, 1, 86),
    (8054, 8055, 1, 100), (8056, 8057, 1, 128), (8058, 8059, 1, 112), (8060, 8061, 1, 126),
    (8064, 8071, 1, 8), (8080, 8087, 1, 8), (8096, 8103, 1, 8), (8112, 8113, 1, 8),
    (8115, 8115, 1, 9), (8126, 8126, 1, -7205), (8131, 8131, 1, 9), (8144, 8145, 1, 8),
    (8160, 8161, 1, 8), (8165, 8165, 1, 7), (8179, 8179, 1, 9), (8526, 8526, 1, -28),
    (8560, 8575, 1, -16), (8580, 8580, 1, -1), (9424, 9449, 1, -26), (11312, 11359, 1, -48),
    (11361, 11361, 1, -1), (11365, 11365, 1, -10795), (11366, 11366, 1, -10792),
    (11368, 11372, 2, -1), (11379, 11379, 1, -1), (11382, 11382, 1, -1), (11393, 11491, 2, -1),
    (11500, 11502, 2, -1), (11507, 11507, 1, -1), (11520, 11557, 1, -7264),
    (11559, 11559, 1, -7264), (11565, 11565, 1, -7264), (42561, 42605, 2, -1),
    (42625, 42651, 2, -1), (42787, 42799, 2, -1), (42803, 42863, 2, -1), (42874, 42876, 2, -1),
    (42879, 42887, 2, -1), (42892, 42892, 1, -1), (42897, 42899, 2, -1), (42900, 42900, 1, 48),
    (42903, 42921, 2, -1), (42933, 42947, 2, -1), (42952, 42954, 2, -1), (42961, 42961, 1, -1),
    (42967, 42969, 2, -1), (42998, 42998, 1, -1), (43859, 43859, 1, -928),
    (43888, 43967, 1, -38864), (65345, 65370, 1, -32), (66600, 66639, 1, -40),
    (66776, 66811, 1, -40), (66967, 66967, 1, -39), (66968, 66977, 1, -39), (66979, 66993, 1, -39),
    (66995, 67001, 1, -39), (67003, 67004, 1, -39), (68800, 68850, 1, -64), (71872, 71903, 1, -32),
    (93792, 93823, 1, -32), (125218, 125251, 1, -34)]"

definition upper_rune :: "nat \<Rightarrow> nat" where
  "upper_rune r =
     (if r < 128 then (if 97 \<le> r \<and> r \<le> 122 then r - 32 else r)
      else case find (in_lower_range (int r)) upper_ranges of
        None \<Rightarrow> r
      | Some (lo, hi, stride, delta) \<Rightarrow> nat (int r + delta))"

definition upper_ascii :: "char \<Rightarrow> char" where
  "upper_ascii c = (if 97 \<le> code c \<and> code c \<le> 122 then char_of (code c - 32) else c)"

definition upper_unicode :: "bytes \<Rightarrow> bytes" where
  "upper_unicode s =
     List.map char_of (concat (List.map (encode_rune \<circ> upper_rune) (decode_runes (List.map code s))))"

text \<open>The source takes a shorter way for ASCII, which gives the same.\<close>

definition to_upper :: "bytes \<Rightarrow> bytes" where
  "to_upper s = (if is_ascii s then List.map upper_ascii s else upper_unicode s)"

text \<open>A text that \<open>ToUpper\<close> leaves alone: ASCII with no small letter.\<close>

definition upper_text :: "bytes \<Rightarrow> bool" where
  "upper_text s \<longleftrightarrow> list_all (\<lambda>c. code c < 128 \<and> \<not> (97 \<le> code c \<and> code c \<le> 122)) s"

lemma upper_text_ascii: "upper_text s \<Longrightarrow> is_ascii s"
  by (auto simp: upper_text_def is_ascii_def list_all_iff)

lemma to_upper_id [simp]: "upper_text s \<Longrightarrow> to_upper s = s"
proof -
  assume "upper_text s"
  then have "is_ascii s" "\<And>c. c \<in> set s \<Longrightarrow> upper_ascii c = c"
    by (auto simp: is_ascii_def upper_text_def upper_ascii_def list_all_iff)
  then show ?thesis by (simp add: to_upper_def map_idI)
qed

lemma upper_ascii_upper: "code c < 128 \<Longrightarrow> code (upper_ascii c) < 128 \<and> \<not> (97 \<le> code (upper_ascii c) \<and> code (upper_ascii c) \<le> 122)"
  by (auto simp: upper_ascii_def)

lemma to_upper_ascii: "is_ascii s \<Longrightarrow> upper_text (to_upper s)"
  using upper_ascii_upper by (auto simp: to_upper_def upper_text_def is_ascii_def list_all_iff)

lemma to_upper_ascii_idem: "is_ascii s \<Longrightarrow> to_upper (to_upper s) = to_upper s"
  by (simp add: to_upper_ascii)

end
