(* ===== verification/E2eeService.thy ===== *)
theory E2eeService
  imports E2eeMemory GoUpper GoCrypto "HOL-Library.Product_Lexorder"
begin

section \<open>The end-to-end encryption service (\<open>domain/e2ee: service.go, device_link.go, id.go\<close>)\<close>

text \<open>
  The service over any store table; its clock is one value for the whole operation. The
  directories answer from what the other domains hold at that time.
\<close>

record 's e2ee_service =
  esv_store :: "'s e2ee_store_ops"
  esv_directory :: directory
  esv_chats :: chat_directory
  esv_now :: time

definition e2ee_NewService ::
    "'s e2ee_store_ops option \<Rightarrow> directory option \<Rightarrow> chat_directory option \<Rightarrow> time \<Rightarrow> error + 's e2ee_service" where
  "e2ee_NewService st dir chats clock =
     (case (st, dir, chats) of
        (Some S, Some d, Some c) \<Rightarrow> Inr \<lparr>esv_store = S, esv_directory = d, esv_chats = c, esv_now = clock\<rparr>
      | _ \<Rightarrow> Inl E2eeErrInvalidInput)"

definition e2ee_validateContext :: "go_context \<Rightarrow> string \<Rightarrow> ('w, unit) io" where
  "e2ee_validateContext ctx operation = of_result (validate_context_with E2eeErrInvalidInput ctx operation)"

text \<open>A transaction: after an error a database restores the store, the in-memory store does not.\<close>

definition store_tx :: "'s e2ee_store_ops \<Rightarrow> ('s world, 'a) io \<Rightarrow> ('s world, 'a) io" where
  "store_tx S m = (\<lambda>w. case m w of
       (Inl e, w') \<Rightarrow> (Inl e, if eso_TxRestores S then w'\<lparr>w_store := w_store w\<rparr> else w')
     | (Inr x, w') \<Rightarrow> (Inr x, w'))"

definition e2ee_newID :: "string \<Rightarrow> ('s world, string) io" where
  "e2ee_newID = random_id E2eeErrInvalidInput"

subsection \<open>Validation and normal forms\<close>

definition validatePublicKey :: "public_key \<Rightarrow> bool" where
  "validatePublicKey k \<longleftrightarrow> \<not> (trim_space (pk_KeyID k) = [] \<or> trim_space (pk_Algorithm k) = [] \<or> pk_PublicKey k = [])"

definition validateSignedPreKey :: "signed_prekey \<Rightarrow> bool" where
  "validateSignedPreKey v \<longleftrightarrow> validatePublicKey (spk_Key v) \<and> spk_Signature v \<noteq> []"

definition validateOneTimePreKey :: "one_time_prekey \<Rightarrow> bool" where
  "validateOneTimePreKey v \<longleftrightarrow> validatePublicKey (otk_Key v)"

definition validateBootstrapPayload :: "bootstrap_payload \<Rightarrow> bool" where
  "validateBootstrapPayload v \<longleftrightarrow> \<not> (trim_space (bsp_Algorithm v) = [] \<or> bsp_Ciphertext v = [])"

definition validateSenderKeyPayload :: "sender_key_payload \<Rightarrow> bool" where
  "validateSenderKeyPayload v \<longleftrightarrow> \<not> (trim_space (skp_Algorithm v) = [] \<or> skp_Ciphertext v = [])"

definition normalizePublicKey :: "public_key \<Rightarrow> public_key" where
  "normalizePublicKey k = k\<lparr>pk_KeyID := trim_space (pk_KeyID k), pk_Algorithm := trim_space (pk_Algorithm k)\<rparr>"

definition e2ee_trimMetadata :: "(string, string) gomap \<Rightarrow> (string, string) gomap" where
  "e2ee_trimMetadata metadata = fold (\<lambda>(key, item) result.
     let k = trim_space key; v = trim_space item in
     if k = [] \<or> v = [] then result else put k v result) metadata []"

definition normalizeBootstrapPayload :: "bootstrap_payload \<Rightarrow> bootstrap_payload" where
  "normalizeBootstrapPayload v = v\<lparr>bsp_Algorithm := trim_space (bsp_Algorithm v),
     bsp_Metadata := e2ee_trimMetadata (bsp_Metadata v)\<rparr>"

definition normalizeSenderKeyPayload :: "sender_key_payload \<Rightarrow> sender_key_payload" where
  "normalizeSenderKeyPayload v = v\<lparr>skp_KeyID := trim_space (skp_KeyID v),
     skp_Algorithm := trim_space (skp_Algorithm v), skp_Metadata := e2ee_trimMetadata (skp_Metadata v)\<rparr>"

definition normalizeSignedPreKey :: "signed_prekey \<Rightarrow> signed_prekey" where
  "normalizeSignedPreKey v = v\<lparr>spk_Key := normalizePublicKey (spk_Key v)\<rparr>"

definition normalizeOneTimePreKeys :: "one_time_prekey list \<Rightarrow> one_time_prekey list" where
  "normalizeOneTimePreKeys = List.map (\<lambda>v. v\<lparr>otk_Key := normalizePublicKey (otk_Key v)\<rparr>)"

definition isValidDeviceTrustState :: "DeviceTrustState \<Rightarrow> bool" where
  "isValidDeviceTrustState v \<longleftrightarrow>
     v = DeviceTrustStateTrusted \<or> v = DeviceTrustStateUntrusted \<or> v = DeviceTrustStateCompromised"

subsection \<open>Fingerprints and safety numbers\<close>

definition deviceKeyFingerprint :: "device \<Rightarrow> string" where
  "deviceKeyFingerprint d = hex_encode (sha256 (trim_space (dev_PublicKey d)))"

text \<open>Groups of four bytes with hyphens between them.\<close>

definition in_groups :: "string \<Rightarrow> string" where
  "in_groups s = join_with ''-'' (chunks 4 s)"

definition safetyNumber :: "device \<Rightarrow> device \<Rightarrow> string" where
  "safetyNumber observer target =
     (let a = trim_space (dev_PublicKey observer); b = trim_space (dev_PublicKey target);
        (a', b') = (if b < a then (b, a) else (a, b)) in
      in_groups (to_upper (hex_encode (take 16 (sha256 (a' @ '':'' @ b'))))))"

definition normalizeSafetyNumber :: "string \<Rightarrow> string" where
  "normalizeSafetyNumber v0 =
     (let v = List.filter (\<lambda>c. c \<noteq> CHR '' '') (List.filter (\<lambda>c. c \<noteq> CHR ''-'') (to_upper (trim_space v0))) in
      if v = [] then [] else in_groups v)"

subsection \<open>The identity key of a device\<close>

text \<open>Base64 with the standard alphabet and no padding; a key that does not decode is used as it is.\<close>

definition b64_std_value :: "char \<Rightarrow> nat option" where
  "b64_std_value c = (if c = CHR ''+'' then Some 62 else if c = CHR ''/'' then Some 63
     else if c = CHR ''-'' \<or> c = CHR ''_'' then None else b64_value c)"

definition b64_std_decode :: "bytes \<Rightarrow> bytes option" where
  "b64_std_decode s = Option.bind (sequence_options (List.map b64_std_value
     (List.filter (\<lambda>c. c \<noteq> char_of (10 :: nat) \<and> c \<noteq> char_of (13 :: nat)) s))) b64_quanta"

definition no_public_key :: public_key where
  "no_public_key = \<lparr>pk_KeyID = [], pk_Algorithm = [], pk_PublicKey = [], pk_CreatedAt = zero_time,
     pk_RotatedAt = zero_time, pk_ExpiresAt = zero_time\<rparr>"

definition no_one_time_prekey :: one_time_prekey where
  "no_one_time_prekey = \<lparr>otk_Key = no_public_key, otk_ClaimedAt = zero_time, otk_ClaimedByAccountID = [],
     otk_ClaimedByDeviceID = []\<rparr>"

definition identityKeyFromDevice :: "device \<Rightarrow> public_key" where
  "identityKeyFromDevice d =
     (let key = trim_space (dev_PublicKey d) in
      if key = [] then no_public_key
      else \<lparr>pk_KeyID = dev_ID d, pk_Algorithm = ''device_public_key'',
        pk_PublicKey = (case b64_std_decode key of None \<Rightarrow> key | Some k \<Rightarrow> k),
        pk_CreatedAt = dev_CreatedAt d, pk_RotatedAt = dev_LastRotatedAt d, pk_ExpiresAt = zero_time\<rparr>)"

subsection \<open>Lookups in the directories\<close>

text \<open>The sentinel of the other domain becomes the own one; any other error is wrapped.\<close>

definition e2ee_device :: "'s e2ee_service \<Rightarrow> string \<Rightarrow> string \<Rightarrow> ('w, device) io" where
  "e2ee_device sv what deviceID = of_result (case dir_DeviceByID (esv_directory sv) deviceID of
       Inl e \<Rightarrow> Inl (if e = IdentityErrNotFound then E2eeErrNotFound
          else Wrapped (''load '' @ what @ '' '' @ deviceID) e)
     | Inr d \<Rightarrow> Inr d)"

definition active_device :: "'s e2ee_service \<Rightarrow> string \<Rightarrow> string \<Rightarrow> string \<Rightarrow> ('w, device) io" where
  "active_device sv what accountID deviceID =
     andThen (e2ee_device sv what deviceID) (\<lambda>d.
     andThen (reject_if (dev_AccountID d \<noteq> accountID \<or> dev_Status d \<noteq> DeviceStatusActive) E2eeErrForbidden) (\<lambda>_.
     ret d))"

definition active_account :: "'s e2ee_service \<Rightarrow> string \<Rightarrow> string \<Rightarrow> ('w, account) io" where
  "active_account sv shown accountID =
     andThen (of_result (case dir_AccountByID (esv_directory sv) accountID of
       Inl e \<Rightarrow> Inl (if e = IdentityErrNotFound then E2eeErrNotFound
          else Wrapped (''load target account '' @ shown) e)
     | Inr a \<Rightarrow> Inr a)) (\<lambda>a.
     andThen (reject_if (acct_Status a \<noteq> AccountStatusActive) E2eeErrForbidden) (\<lambda>_. ret a))"

definition devices_of :: "'s e2ee_service \<Rightarrow> string \<Rightarrow> string \<Rightarrow> error + device list" where
  "devices_of sv what accountID = (case dir_DevicesByAccountID (esv_directory sv) accountID of
       Inl e \<Rightarrow> Inl (Wrapped (what @ accountID) e) | Inr ds \<Rightarrow> Inr ds)"

text \<open>A device that takes part: it is active and has a public key.\<close>

definition usable_device :: "device \<Rightarrow> bool" where
  "usable_device d \<longleftrightarrow> \<not> (dev_Status d \<noteq> DeviceStatusActive \<or> trim_space (dev_PublicKey d) = [])"

definition isActiveConversationMember :: "conv_member \<Rightarrow> bool" where
  "isActiveConversationMember m \<longleftrightarrow> cmem_LeftAt m = zero_time \<and> \<not> cmem_Banned m"

definition mapConversationError :: "string \<Rightarrow> string \<Rightarrow> error \<Rightarrow> error" where
  "mapConversationError action conversationID e =
     (if e = Sentinel Conversation NotFound then E2eeErrNotFound
      else if e = Sentinel Conversation Forbidden then E2eeErrForbidden
      else Wrapped (action @ '' '' @ conversationID) e)"

definition chat_load :: "string \<Rightarrow> string \<Rightarrow> error + 'a \<Rightarrow> error + 'a" where
  "chat_load action conversationID r = (case r of
     Inl e \<Rightarrow> Inl (mapConversationError action conversationID e) | Inr x \<Rightarrow> Inr x)"

definition members_of :: "'s e2ee_service \<Rightarrow> string \<Rightarrow> error + conv_member list" where
  "members_of sv conversationID = chat_load ''list conversation members'' conversationID
     (cht_ConversationMembersByConversationID (esv_chats sv) conversationID)"

definition active_chat_member :: "'s e2ee_service \<Rightarrow> string \<Rightarrow> string \<Rightarrow> string \<Rightarrow> ('w, unit) io" where
  "active_chat_member sv action conversationID accountID =
     andThen (of_result (chat_load action conversationID
       (cht_ConversationMemberByConversationAndAccount (esv_chats sv) conversationID accountID))) (\<lambda>m.
     reject_if (\<not> isActiveConversationMember m) E2eeErrForbidden)"

subsection \<open>Prekeys\<close>

definition bundle_of_device ::
    "'s e2ee_service \<Rightarrow> fetch_bundles_params \<Rightarrow> account \<Rightarrow> device \<Rightarrow> ('s world, device_bundle option) io" where
  "bundle_of_device sv p a d =
     (let S = esv_store sv in
      if \<not> usable_device d then ret None
      else andThen (attempt (on_store (eso_SignedPreKeyByDevice S (acct_ID a) (dev_ID d)))) (\<lambda>r. case r of
          Inl e \<Rightarrow> if e = E2eeErrNotFound then ret None else raise e
        | Inr spk \<Rightarrow>
            andThen (on_store (eso_CountAvailableOneTimePreKeys S (acct_ID a) (dev_ID d))) (\<lambda>available.
            let b = \<lparr>bdl_AccountID = acct_ID a, bdl_DeviceID = dev_ID d, bdl_IdentityKey = identityKeyFromDevice d,
              bdl_SignedPreKey = spk, bdl_OneTimePreKey = no_one_time_prekey,
              bdl_OneTimePreKeysAvail = available, bdl_DeviceLastSeenAt = dev_LastSeenAt d\<rparr> in
            if \<not> fbp_ConsumeOneTimePreKey p then ret (Some b)
            else andThen (attempt (on_store (eso_ClaimOneTimePreKey S (acct_ID a) (dev_ID d)
                (fbp_RequesterAccountID p) (fbp_RequesterDeviceID p)))) (\<lambda>c. case c of
                Inl e \<Rightarrow> if e \<noteq> E2eeErrNotFound then raise e else ret (Some b)
              | Inr key \<Rightarrow> ret (Some (b\<lparr>bdl_OneTimePreKey := key,
                  bdl_OneTimePreKeysAvail := (if 0 < available then available - 1 else available)\<rparr>))))))"

definition fetchAccountBundles ::
    "'s e2ee_service \<Rightarrow> fetch_bundles_params \<Rightarrow> ('s world, device_bundle list) io" where
  "fetchAccountBundles sv p =
     andThen (active_account sv (fbp_TargetAccountID p) (trim_space (fbp_TargetAccountID p))) (\<lambda>a.
     andThen (of_result (devices_of sv ''list target devices for '' (acct_ID a))) (\<lambda>devices.
     andThen (for_each (bundle_of_device sv p a) devices) (\<lambda>bundles.
     ret (List.map_filter id bundles))))"

definition GetAccountBundles ::
    "'s e2ee_service \<Rightarrow> go_context \<Rightarrow> fetch_bundles_params \<Rightarrow> ('s world, device_bundle list) io" where
  "GetAccountBundles sv ctx p =
     andThen (e2ee_validateContext ctx ''get account bundles'') (\<lambda>_.
     andThen (reject_if (trim_space (fbp_TargetAccountID p) = [] \<or> trim_space (fbp_RequesterAccountID p) = [])
       E2eeErrInvalidInput) (\<lambda>_.
     if fbp_ConsumeOneTimePreKey p then store_tx (esv_store sv) (fetchAccountBundles sv p)
     else fetchAccountBundles sv p))"

text \<open>What uploading and rotating store.\<close>

definition save_prekeys ::
    "'s e2ee_store_ops \<Rightarrow> string \<Rightarrow> string \<Rightarrow> signed_prekey \<Rightarrow> one_time_prekey list \<Rightarrow> bool \<Rightarrow>
     ('s world, signed_prekey) io" where
  "save_prekeys S accountID deviceID spk keys replace =
     andThen (on_store (eso_SaveSignedPreKey S accountID deviceID (normalizeSignedPreKey spk))) (\<lambda>saved.
     andThen (if replace then on_store (eso_DeleteOneTimePreKeysByDevice S accountID deviceID) else ret ()) (\<lambda>_.
     andThen (if keys \<noteq> [] then on_store (eso_SaveOneTimePreKeys S accountID deviceID (normalizeOneTimePreKeys keys))
       else ret ()) (\<lambda>_.
     ret saved)))"

text \<open>The bundle of the own device, with the key just saved.\<close>

definition own_bundle ::
    "'s e2ee_service \<Rightarrow> string \<Rightarrow> string \<Rightarrow> signed_prekey \<Rightarrow> ('s world, device_bundle) io" where
  "own_bundle sv accountID deviceID saved =
     andThen (fetchAccountBundles sv \<lparr>fbp_RequesterAccountID = accountID, fbp_RequesterDeviceID = deviceID,
       fbp_TargetAccountID = accountID, fbp_ConsumeOneTimePreKey = False\<rparr>) (\<lambda>bundles.
     case List.find (\<lambda>b. bdl_DeviceID b = deviceID) bundles of
       None \<Rightarrow> raise E2eeErrNotFound
     | Some b \<Rightarrow> ret (b\<lparr>bdl_SignedPreKey := saved\<rparr>))"

definition RotateDeviceKeys ::
    "'s e2ee_service \<Rightarrow> go_context \<Rightarrow> rotate_keys_params \<Rightarrow> ('s world, device_bundle \<times> uint32 \<times> uint32) io" where
  "RotateDeviceKeys sv ctx p =
     andThen (e2ee_validateContext ctx ''rotate device e2ee keys'') (\<lambda>_.
     let S = esv_store sv; accountID = trim_space (rkp_AccountID p); deviceID = trim_space (rkp_DeviceID p);
       expiresAt = esv_now sv in
     andThen (reject_if (accountID = [] \<or> deviceID = []) E2eeErrInvalidInput) (\<lambda>_.
     andThen (reject_if (\<not> validateSignedPreKey (rkp_SignedPreKey p)) E2eeErrInvalidInput) (\<lambda>_.
     andThen (reject_if (\<not> list_all validateOneTimePreKey (rkp_OneTimePreKeys p)) E2eeErrInvalidInput) (\<lambda>_.
     andThen (active_device sv ''device'' accountID deviceID) (\<lambda>_.
     andThen (store_tx S
       (andThen (save_prekeys S accountID deviceID (rkp_SignedPreKey p) (rkp_OneTimePreKeys p)
           (rkp_ReplaceOneTimePreKey p)) (\<lambda>saved.
        andThen (if rkp_ExpirePendingDirectSessions p
          then on_store (eso_ExpirePendingDirectSessionsByDevice S accountID deviceID expiresAt) else ret 0) (\<lambda>sessions.
        andThen (if rkp_ExpirePendingGroupSenderKeys p
          then on_store (eso_ExpirePendingGroupSenderKeysBySenderDevice S accountID deviceID expiresAt) else ret 0) (\<lambda>keys.
        ret (saved, sessions, keys)))))) (\<lambda>(saved, sessions, keys).
     andThen (own_bundle sv accountID deviceID saved) (\<lambda>b.
     ret (b, sessions, keys))))))))"

definition UploadDevicePreKeys ::
    "'s e2ee_service \<Rightarrow> go_context \<Rightarrow> upload_prekeys_params \<Rightarrow> ('s world, device_bundle) io" where
  "UploadDevicePreKeys sv ctx p =
     andThen (e2ee_validateContext ctx ''upload device prekeys'') (\<lambda>_.
     let S = esv_store sv; accountID = trim_space (upp_AccountID p); deviceID = trim_space (upp_DeviceID p) in
     andThen (reject_if (accountID = [] \<or> deviceID = []) E2eeErrInvalidInput) (\<lambda>_.
     andThen (reject_if (\<not> validateSignedPreKey (upp_SignedPreKey p)) E2eeErrInvalidInput) (\<lambda>_.
     andThen (reject_if (\<not> list_all validateOneTimePreKey (upp_OneTimePreKeys p)) E2eeErrInvalidInput) (\<lambda>_.
     andThen (active_device sv ''device'' accountID deviceID) (\<lambda>_.
     andThen (store_tx S (save_prekeys S accountID deviceID (upp_SignedPreKey p) (upp_OneTimePreKeys p)
       (upp_ReplaceOneTimePreKey p))) (\<lambda>saved.
     own_bundle sv accountID deviceID saved))))))"

end
