(* ===== verification/E2eeTrust.thy ===== *)
theory E2eeTrust
  imports E2eeService
begin

section \<open>Trust between devices and the coverage of a conversation (\<open>domain/e2ee/service.go\<close>)\<close>

subsection \<open>Verifying a device\<close>

definition GetDeviceVerificationCode ::
    "'s e2ee_service \<Rightarrow> go_context \<Rightarrow> verification_code_params \<Rightarrow> ('s world, verification_code) io" where
  "GetDeviceVerificationCode sv ctx p =
     andThen (e2ee_validateContext ctx ''get device verification code'') (\<lambda>_.
     let observerAccountID = trim_space (vcp_ObserverAccountID p); observerDeviceID = trim_space (vcp_ObserverDeviceID p);
       targetAccountID = trim_space (vcp_TargetAccountID p); targetDeviceID = trim_space (vcp_TargetDeviceID p) in
     andThen (reject_if (observerAccountID = [] \<or> observerDeviceID = [] \<or> targetAccountID = [] \<or> targetDeviceID = [])
       E2eeErrInvalidInput) (\<lambda>_.
     andThen (active_device sv ''observer device'' observerAccountID observerDeviceID) (\<lambda>observer.
     andThen (active_device sv ''target device'' targetAccountID targetDeviceID) (\<lambda>target.
     andThen (on_store (eso_DeviceTrustsByObserverDevice (esv_store sv) observerAccountID observerDeviceID targetAccountID)) (\<lambda>trusts.
     ret \<lparr>vco_ObserverAccountID = observerAccountID, vco_ObserverDeviceID = observerDeviceID,
       vco_TargetAccountID = targetAccountID, vco_TargetDeviceID = targetDeviceID,
       vco_TargetKeyFingerprint = deviceKeyFingerprint target, vco_SafetyNumber = safetyNumber observer target,
       vco_CurrentTrustState = (case List.find (\<lambda>t. tru_TargetDeviceID t = targetDeviceID) trusts of
          None \<Rightarrow> DeviceTrustStateUnspecified | Some t \<Rightarrow> tru_State t)\<rparr>)))))"

definition SetDeviceTrust ::
    "'s e2ee_service \<Rightarrow> go_context \<Rightarrow> set_trust_params \<Rightarrow> ('s world, device_trust) io" where
  "SetDeviceTrust sv ctx p =
     andThen (e2ee_validateContext ctx ''set device trust'') (\<lambda>_.
     let observerAccountID = trim_space (stp_ObserverAccountID p); observerDeviceID = trim_space (stp_ObserverDeviceID p);
       targetAccountID = trim_space (stp_TargetAccountID p); targetDeviceID = trim_space (stp_TargetDeviceID p) in
     andThen (reject_if (observerAccountID = [] \<or> observerDeviceID = [] \<or> targetAccountID = [] \<or> targetDeviceID = [])
       E2eeErrInvalidInput) (\<lambda>_.
     andThen (reject_if (\<not> isValidDeviceTrustState (stp_State p)) E2eeErrInvalidInput) (\<lambda>_.
     andThen (active_device sv ''observer device'' observerAccountID observerDeviceID) (\<lambda>_.
     andThen (e2ee_device sv ''target device'' targetDeviceID) (\<lambda>target.
     andThen (reject_if (dev_AccountID target \<noteq> targetAccountID) E2eeErrForbidden) (\<lambda>_.
     on_store (eso_SaveDeviceTrust (esv_store sv) \<lparr>tru_ObserverAccountID = observerAccountID,
       tru_ObserverDeviceID = observerDeviceID, tru_TargetAccountID = targetAccountID,
       tru_TargetDeviceID = targetDeviceID, tru_State = stp_State p, tru_KeyFingerprint = deviceKeyFingerprint target,
       tru_Note = trim_space (stp_Note p), tru_CreatedAt = zero_time, tru_UpdatedAt = esv_now sv\<rparr>)))))))"

definition VerifyDeviceSafetyNumber ::
    "'s e2ee_service \<Rightarrow> go_context \<Rightarrow> verify_number_params \<Rightarrow> ('s world, device_trust) io" where
  "VerifyDeviceSafetyNumber sv ctx p =
     andThen (e2ee_validateContext ctx ''verify device safety number'') (\<lambda>_.
     let number = normalizeSafetyNumber (vnp_SafetyNumber p) in
     andThen (GetDeviceVerificationCode sv ctx \<lparr>vcp_ObserverAccountID = vnp_ObserverAccountID p,
       vcp_ObserverDeviceID = vnp_ObserverDeviceID p, vcp_TargetAccountID = vnp_TargetAccountID p,
       vcp_TargetDeviceID = vnp_TargetDeviceID p\<rparr>) (\<lambda>code.
     andThen (reject_if (number = [] \<or> vco_SafetyNumber code \<noteq> number) E2eeErrConflict) (\<lambda>_.
     SetDeviceTrust sv ctx \<lparr>stp_ObserverAccountID = vnp_ObserverAccountID p,
       stp_ObserverDeviceID = vnp_ObserverDeviceID p, stp_TargetAccountID = vnp_TargetAccountID p,
       stp_TargetDeviceID = vnp_TargetDeviceID p, stp_State = DeviceTrustStateTrusted, stp_Note = vnp_Note p\<rparr>)))"

definition ListDeviceTrusts ::
    "'s e2ee_service \<Rightarrow> go_context \<Rightarrow> list_trusts_params \<Rightarrow> ('s world, device_trust list) io" where
  "ListDeviceTrusts sv ctx p =
     andThen (e2ee_validateContext ctx ''list device trusts'') (\<lambda>_.
     let observerAccountID = trim_space (ltp_ObserverAccountID p); observerDeviceID = trim_space (ltp_ObserverDeviceID p);
       targetAccountID = trim_space (ltp_TargetAccountID p) in
     andThen (reject_if (observerAccountID = [] \<or> observerDeviceID = []) E2eeErrInvalidInput) (\<lambda>_.
     andThen (active_device sv ''observer device'' observerAccountID observerDeviceID) (\<lambda>_.
     on_store (eso_DeviceTrustsByObserverDevice (esv_store sv) observerAccountID observerDeviceID targetAccountID))))"

subsection \<open>The trust map\<close>

definition trustMapKey :: "string \<Rightarrow> string \<Rightarrow> string" where
  "trustMapKey accountID deviceID = accountID @ ''|'' @ deviceID"

definition trustRequiresVerification :: "DeviceTrustState \<Rightarrow> bool" where
  "trustRequiresVerification state \<longleftrightarrow> state \<noteq> DeviceTrustStateTrusted"

text \<open>The first row of a device counts; a device without a row has the zero state.\<close>

definition trust_map :: "device_trust list \<Rightarrow> (string, device_trust) gomap" where
  "trust_map trusts = fold (\<lambda>t m. let k = trustMapKey (tru_TargetAccountID t) (tru_TargetDeviceID t) in
     if lookup m k \<noteq> None then m else put k t m) trusts []"

definition trust_state :: "(string, device_trust) gomap \<Rightarrow> string \<Rightarrow> string \<Rightarrow> DeviceTrustState" where
  "trust_state trustByDevice accountID deviceID =
     (case lookup trustByDevice (trustMapKey accountID deviceID) of
        None \<Rightarrow> DeviceTrustStateUnspecified | Some t \<Rightarrow> tru_State t)"

definition load_trusts :: "'s e2ee_service \<Rightarrow> string \<Rightarrow> string \<Rightarrow> ('s world, (string, device_trust) gomap) io" where
  "load_trusts sv accountID deviceID =
     andThen (wrapping (''load trust map for '' @ accountID @ ''/'' @ deviceID)
       (on_store (eso_DeviceTrustsByObserverDevice (esv_store sv) accountID deviceID []))) (\<lambda>trusts.
     ret (trust_map trusts))"

subsection \<open>Devices that still need verification\<close>

text \<open>Loops that stop at the first error of a lookup.\<close>

fun fold_result :: "('a \<Rightarrow> 'b \<Rightarrow> error + 'b) \<Rightarrow> 'a list \<Rightarrow> 'b \<Rightarrow> error + 'b" where
  "fold_result f [] acc = Inr acc"
| "fold_result f (x # xs) acc = (case f x acc of Inl e \<Rightarrow> Inl e | Inr acc' \<Rightarrow> fold_result f xs acc')"

definition note_unverified ::
    "(string, device_trust) gomap \<Rightarrow> conversation \<Rightarrow> conv_member \<Rightarrow> device \<Rightarrow>
     (string, unverified_device) gomap \<Rightarrow> (string, unverified_device) gomap" where
  "note_unverified trustByDevice c m d acc =
     (let key = trustMapKey (cmem_AccountID m) (dev_ID d);
        state = trust_state trustByDevice (cmem_AccountID m) (dev_ID d) in
      if \<not> usable_device d \<or> \<not> trustRequiresVerification state then acc
      else let direct = (conv_Kind c = ConversationKindDirect);
          item = (case lookup acc key of
             Some item \<Rightarrow> item
           | None \<Rightarrow> \<lparr>uvd_AccountID = cmem_AccountID m, uvd_DeviceID = dev_ID d, uvd_TrustState = state,
               uvd_KeyFingerprint = deviceKeyFingerprint d, uvd_ConversationIDs = [],
               uvd_DirectConversation = direct\<rparr>) in
        put key (item\<lparr>uvd_DirectConversation := direct \<or> uvd_DirectConversation item,
          uvd_ConversationIDs := (if conv_ID c \<in> set (uvd_ConversationIDs item) then uvd_ConversationIDs item
            else uvd_ConversationIDs item @ [conv_ID c])\<rparr>) acc)"

definition unverified_of_member ::
    "'s e2ee_service \<Rightarrow> string \<Rightarrow> (string, device_trust) gomap \<Rightarrow> conversation \<Rightarrow> conv_member \<Rightarrow>
     (string, unverified_device) gomap \<Rightarrow> error + (string, unverified_device) gomap" where
  "unverified_of_member sv observerAccountID trustByDevice c m acc =
     (if \<not> isActiveConversationMember m \<or> cmem_AccountID m = observerAccountID then Inr acc
      else case devices_of sv ''list devices for '' (cmem_AccountID m) of
        Inl e \<Rightarrow> Inl e
      | Inr devices \<Rightarrow> Inr (fold (note_unverified trustByDevice c m) devices acc))"

definition unverified_of_conversation ::
    "'s e2ee_service \<Rightarrow> string \<Rightarrow> (string, device_trust) gomap \<Rightarrow> conversation \<Rightarrow>
     (string, unverified_device) gomap \<Rightarrow> error + (string, unverified_device) gomap" where
  "unverified_of_conversation sv observerAccountID trustByDevice c acc =
     (case members_of sv (conv_ID c) of
        Inl e \<Rightarrow> Inl e
      | Inr members \<Rightarrow> fold_result (unverified_of_member sv observerAccountID trustByDevice c) members acc)"

definition unverified_order :: "unverified_device \<Rightarrow> bool \<times> string \<times> string" where
  "unverified_order u = (\<not> uvd_DirectConversation u, uvd_AccountID u, uvd_DeviceID u)"

definition conversations_of :: "'s e2ee_service \<Rightarrow> string \<Rightarrow> error + conversation list" where
  "conversations_of sv accountID = (case cht_ConversationsByAccountID (esv_chats sv) accountID of
     Inl e \<Rightarrow> Inl (Wrapped (''list conversations for '' @ accountID) e) | Inr cs \<Rightarrow> Inr cs)"

definition ListVerificationRequiredDevices ::
    "'s e2ee_service \<Rightarrow> go_context \<Rightarrow> list_unverified_params \<Rightarrow> ('s world, unverified_device list) io" where
  "ListVerificationRequiredDevices sv ctx p =
     andThen (e2ee_validateContext ctx ''list verification required devices'') (\<lambda>_.
     let accountID = trim_space (lup_ObserverAccountID p); deviceID = trim_space (lup_ObserverDeviceID p) in
     andThen (reject_if (accountID = [] \<or> deviceID = []) E2eeErrInvalidInput) (\<lambda>_.
     andThen (active_device sv ''observer device'' accountID deviceID) (\<lambda>_.
     andThen (of_result (conversations_of sv accountID)) (\<lambda>conversations.
     andThen (load_trusts sv accountID deviceID) (\<lambda>trustByDevice.
     andThen (of_result (fold_result (unverified_of_conversation sv accountID trustByDevice) conversations [])) (\<lambda>byDevice.
     ret (sort_key unverified_order (entries byDevice))))))))"

definition shared_conversation ::
    "'s e2ee_service \<Rightarrow> string \<Rightarrow> conversation \<Rightarrow> string list \<Rightarrow> error + string list" where
  "shared_conversation sv targetAccountID c acc =
     (case members_of sv (conv_ID c) of
        Inl e \<Rightarrow> Inl e
      | Inr members \<Rightarrow> Inr (if list_ex (\<lambda>m. isActiveConversationMember m \<and> cmem_AccountID m = targetAccountID) members
          then acc @ [conv_ID c] else acc))"

definition SharedConversationIDs ::
    "'s e2ee_service \<Rightarrow> go_context \<Rightarrow> string \<Rightarrow> string \<Rightarrow> ('s world, string list) io" where
  "SharedConversationIDs sv ctx observerAccountID0 targetAccountID0 =
     andThen (e2ee_validateContext ctx ''list shared conversations'') (\<lambda>_.
     let observerAccountID = trim_space observerAccountID0; targetAccountID = trim_space targetAccountID0 in
     andThen (reject_if (observerAccountID = [] \<or> targetAccountID = []) E2eeErrInvalidInput) (\<lambda>_.
     andThen (of_result (conversations_of sv observerAccountID)) (\<lambda>conversations.
     andThen (of_result (fold_result (shared_conversation sv targetAccountID) conversations [])) (\<lambda>shared.
     ret (sort shared)))))"

subsection \<open>Key coverage\<close>

text \<open>The keys a conversation's other devices got from a device of the sender, and their state.\<close>

definition missing_entry :: "(string, device_trust) gomap \<Rightarrow> string \<Rightarrow> device \<Rightarrow> coverage_entry" where
  "missing_entry trustByDevice accountID d = \<lparr>cov_AccountID = accountID, cov_DeviceID = dev_ID d,
     cov_State = CoverageStateMissing, cov_ReferenceID = [], cov_ExpiresAt = zero_time,
     cov_TrustState = trust_state trustByDevice accountID (dev_ID d), cov_KeyFingerprint = deviceKeyFingerprint d,
     cov_VerificationRequired = False\<rparr>"

definition coverageEntryFromDirectSession ::
    "direct_session \<Rightarrow> time \<Rightarrow> device \<Rightarrow> DeviceTrustState \<Rightarrow> coverage_entry" where
  "coverageEntryFromDirectSession v now target trust = \<lparr>cov_AccountID = [], cov_DeviceID = [],
     cov_State = (if dse_ExpiresAt v \<noteq> zero_time \<and> \<not> now < dse_ExpiresAt v then CoverageStateExpired
       else if dse_State v = DirectSessionStateAcknowledged then CoverageStateReady
       else if dse_State v = DirectSessionStatePending then CoverageStatePending
       else CoverageStateMissing),
     cov_ReferenceID = dse_ID v, cov_ExpiresAt = dse_ExpiresAt v, cov_TrustState = trust,
     cov_KeyFingerprint = deviceKeyFingerprint target, cov_VerificationRequired = trustRequiresVerification trust\<rparr>"

definition coverageEntryFromSenderKeyDistribution ::
    "sender_key_dist \<Rightarrow> time \<Rightarrow> device \<Rightarrow> DeviceTrustState \<Rightarrow> coverage_entry" where
  "coverageEntryFromSenderKeyDistribution v now target trust = \<lparr>cov_AccountID = [], cov_DeviceID = [],
     cov_State = (if gsk_ExpiresAt v \<noteq> zero_time \<and> \<not> now < gsk_ExpiresAt v then CoverageStateExpired
       else if gsk_State v = GroupSenderKeyStateAcknowledged then CoverageStateReady
       else if gsk_State v = GroupSenderKeyStatePending then CoverageStatePending
       else CoverageStateMissing),
     cov_ReferenceID = gsk_SenderKeyID v, cov_ExpiresAt = gsk_ExpiresAt v, cov_TrustState = trust,
     cov_KeyFingerprint = deviceKeyFingerprint target, cov_VerificationRequired = trustRequiresVerification trust\<rparr>"

text \<open>The session of the sender's device with a device, whichever of them started it.\<close>

definition session_between :: "string \<Rightarrow> string \<Rightarrow> string \<Rightarrow> string \<Rightarrow> direct_session \<Rightarrow> bool" where
  "session_between senderAccountID senderDeviceID accountID deviceID v \<longleftrightarrow>
     (if dse_InitiatorAccountID v = senderAccountID \<and> dse_InitiatorDeviceID v = senderDeviceID
        then \<not> (dse_RecipientAccountID v \<noteq> accountID \<or> dse_RecipientDeviceID v \<noteq> deviceID)
      else if dse_RecipientAccountID v = senderAccountID \<and> dse_RecipientDeviceID v = senderDeviceID
        then \<not> (dse_InitiatorAccountID v \<noteq> accountID \<or> dse_InitiatorDeviceID v \<noteq> deviceID)
      else False)"

definition direct_entry ::
    "key_coverage_params \<Rightarrow> time \<Rightarrow> (string, device_trust) gomap \<Rightarrow> direct_session list \<Rightarrow> string \<Rightarrow> device \<Rightarrow>
     coverage_entry" where
  "direct_entry p now trustByDevice sessions accountID d =
     (let trust = trust_state trustByDevice accountID (dev_ID d);
        entry = (case List.find (session_between (kcp_SenderAccountID p) (kcp_SenderDeviceID p) accountID (dev_ID d)) sessions of
           None \<Rightarrow> missing_entry trustByDevice accountID d
         | Some v \<Rightarrow> (coverageEntryFromDirectSession v now d trust)\<lparr>cov_AccountID := accountID, cov_DeviceID := dev_ID d\<rparr>) in
      entry\<lparr>cov_VerificationRequired := trustRequiresVerification (cov_TrustState entry)\<rparr>)"

definition key_for_device :: "key_coverage_params \<Rightarrow> string \<Rightarrow> string \<Rightarrow> sender_key_dist \<Rightarrow> bool" where
  "key_for_device p accountID deviceID v \<longleftrightarrow>
     \<not> (gsk_RecipientAccountID v \<noteq> accountID \<or> gsk_RecipientDeviceID v \<noteq> deviceID) \<and>
     \<not> (kcp_SenderKeyID p \<noteq> [] \<and> gsk_SenderKeyID v \<noteq> kcp_SenderKeyID p)"

definition group_entry ::
    "key_coverage_params \<Rightarrow> time \<Rightarrow> (string, device_trust) gomap \<Rightarrow> sender_key_dist list \<Rightarrow> string \<Rightarrow> device \<Rightarrow>
     coverage_entry" where
  "group_entry p now trustByDevice keys accountID d =
     (let trust = trust_state trustByDevice accountID (dev_ID d);
        entry = (case List.find (key_for_device p accountID (dev_ID d)) keys of
           None \<Rightarrow> missing_entry trustByDevice accountID d
         | Some v \<Rightarrow> (coverageEntryFromSenderKeyDistribution v now d trust)
             \<lparr>cov_AccountID := accountID, cov_DeviceID := dev_ID d\<rparr>) in
      entry\<lparr>cov_VerificationRequired := trustRequiresVerification (cov_TrustState entry)\<rparr>)"

text \<open>The loop over the members and their devices that both kinds of conversation share.\<close>

definition cover_member ::
    "'s e2ee_service \<Rightarrow> key_coverage_params \<Rightarrow> (string \<Rightarrow> device \<Rightarrow> coverage_entry) \<Rightarrow> conv_member \<Rightarrow>
     coverage_entry list \<Rightarrow> error + coverage_entry list" where
  "cover_member sv p entry m acc =
     (if \<not> isActiveConversationMember m \<or> cmem_AccountID m = kcp_SenderAccountID p then Inr acc
      else case devices_of sv ''list devices for '' (cmem_AccountID m) of
        Inl e \<Rightarrow> Inl e
      | Inr devices \<Rightarrow> Inr (acc @ List.map (entry (cmem_AccountID m)) (List.filter usable_device devices)))"

definition directConversationKeyCoverage ::
    "'s e2ee_service \<Rightarrow> key_coverage_params \<Rightarrow> (string, device_trust) gomap \<Rightarrow> ('s world, coverage_entry list) io" where
  "directConversationKeyCoverage sv p trustByDevice =
     andThen (of_result (members_of sv (kcp_ConversationID p))) (\<lambda>members.
     andThen (on_store (eso_DirectSessionsByParticipantDevice (esv_store sv) (kcp_SenderAccountID p) (kcp_SenderDeviceID p))) (\<lambda>sessions.
     of_result (fold_result (cover_member sv p (direct_entry p (esv_now sv) trustByDevice sessions)) members [])))"

definition groupConversationKeyCoverage ::
    "'s e2ee_service \<Rightarrow> key_coverage_params \<Rightarrow> (string, device_trust) gomap \<Rightarrow> ('s world, coverage_entry list) io" where
  "groupConversationKeyCoverage sv p trustByDevice =
     andThen (of_result (members_of sv (kcp_ConversationID p))) (\<lambda>members.
     andThen (on_store (eso_GroupSenderKeyDistributionsBySenderDevice (esv_store sv) (kcp_ConversationID p)
       (kcp_SenderAccountID p) (kcp_SenderDeviceID p))) (\<lambda>keys.
     of_result (fold_result (cover_member sv p (group_entry p (esv_now sv) trustByDevice keys)) members [])))"

definition GetConversationKeyCoverage ::
    "'s e2ee_service \<Rightarrow> go_context \<Rightarrow> key_coverage_params \<Rightarrow> ('s world, coverage_entry list) io" where
  "GetConversationKeyCoverage sv ctx p0 =
     andThen (e2ee_validateContext ctx ''get conversation key coverage'') (\<lambda>_.
     let p = p0\<lparr>kcp_ConversationID := trim_space (kcp_ConversationID p0),
         kcp_SenderAccountID := trim_space (kcp_SenderAccountID p0),
         kcp_SenderDeviceID := trim_space (kcp_SenderDeviceID p0),
         kcp_SenderKeyID := trim_space (kcp_SenderKeyID p0)\<rparr> in
     andThen (reject_if (kcp_ConversationID p = [] \<or> kcp_SenderAccountID p = [] \<or> kcp_SenderDeviceID p = [])
       E2eeErrInvalidInput) (\<lambda>_.
     andThen (active_device sv ''sender device'' (kcp_SenderAccountID p) (kcp_SenderDeviceID p)) (\<lambda>_.
     andThen (of_result (chat_load ''load conversation'' (kcp_ConversationID p)
       (cht_ConversationByID (esv_chats sv) (kcp_ConversationID p)))) (\<lambda>c.
     andThen (active_chat_member sv ''authorize sender'' (kcp_ConversationID p) (kcp_SenderAccountID p)) (\<lambda>_.
     andThen (load_trusts sv (kcp_SenderAccountID p) (kcp_SenderDeviceID p)) (\<lambda>trustByDevice.
     if conv_Kind c = ConversationKindDirect then directConversationKeyCoverage sv p trustByDevice
     else if conv_Kind c = ConversationKindGroup then groupConversationKeyCoverage sv p trustByDevice
     else raise E2eeErrForbidden))))))"

end
