(* ===== verification/E2eeSessions.thy ===== *)
theory E2eeSessions
  imports E2eeTrust
begin

section \<open>Sessions, sender keys, link transfers and payloads (\<open>domain/e2ee: service.go, device_link.go\<close>)\<close>

subsection \<open>Direct sessions\<close>

definition new_session ::
    "create_sessions_params \<Rightarrow> string \<Rightarrow> device \<Rightarrow> signed_prekey \<Rightarrow> one_time_prekey \<Rightarrow> time \<Rightarrow> direct_session" where
  "new_session p i d spk claimed now = \<lparr>dse_ID = i, dse_InitiatorAccountID = csp_InitiatorAccountID p,
     dse_InitiatorDeviceID = csp_InitiatorDeviceID p, dse_RecipientAccountID = csp_TargetAccountID p,
     dse_RecipientDeviceID = dev_ID d, dse_InitiatorEphemeral = normalizePublicKey (csp_InitiatorEphemeral p),
     dse_IdentityKey = identityKeyFromDevice d, dse_SignedPreKey = spk, dse_OneTimePreKey = claimed,
     dse_Bootstrap = normalizeBootstrapPayload (csp_Bootstrap p), dse_State = DirectSessionStatePending,
     dse_CreatedAt = now, dse_AcknowledgedAt = zero_time, dse_ExpiresAt = csp_ExpiresAt p\<rparr>"

text \<open>A device that is not addressed or has no signed prekey is skipped; one without one-time keys is not.\<close>

definition session_for_device ::
    "'s e2ee_service \<Rightarrow> create_sessions_params \<Rightarrow> device \<Rightarrow> ('s world, direct_session option) io" where
  "session_for_device sv p d =
     (let S = esv_store sv in
      if \<not> usable_device d then ret None
      else if csp_TargetDeviceID p \<noteq> [] \<and> dev_ID d \<noteq> csp_TargetDeviceID p then ret None
      else andThen (attempt (on_store (eso_SignedPreKeyByDevice S (csp_TargetAccountID p) (dev_ID d)))) (\<lambda>r. case r of
          Inl e \<Rightarrow> if e = E2eeErrNotFound then ret None else raise e
        | Inr spk \<Rightarrow>
            andThen (attempt (on_store (eso_ClaimOneTimePreKey S (csp_TargetAccountID p) (dev_ID d)
              (csp_InitiatorAccountID p) (csp_InitiatorDeviceID p)))) (\<lambda>c.
            andThen (case c of Inl e \<Rightarrow> if e \<noteq> E2eeErrNotFound then raise e else ret no_one_time_prekey
              | Inr key \<Rightarrow> ret key) (\<lambda>claimed.
            andThen (e2ee_newID ''dse'') (\<lambda>i.
            andThen (on_store (eso_SaveDirectSession S (new_session p i d spk claimed (esv_now sv)))) (\<lambda>saved.
            ret (Some saved)))))))"

definition normalized_create ::
    "time \<Rightarrow> create_sessions_params \<Rightarrow> create_sessions_params" where
  "normalized_create now p = p\<lparr>csp_InitiatorAccountID := trim_space (csp_InitiatorAccountID p),
     csp_InitiatorDeviceID := trim_space (csp_InitiatorDeviceID p),
     csp_TargetAccountID := trim_space (csp_TargetAccountID p),
     csp_TargetDeviceID := trim_space (csp_TargetDeviceID p),
     csp_ExpiresAt := or_time (csp_ExpiresAt p) (now + 7 * 24 * 3600 * second)\<rparr>"

definition CreateDirectSessions ::
    "'s e2ee_service \<Rightarrow> go_context \<Rightarrow> create_sessions_params \<Rightarrow> ('s world, direct_session list) io" where
  "CreateDirectSessions sv ctx p0 =
     andThen (e2ee_validateContext ctx ''create direct sessions'') (\<lambda>_.
     let p = normalized_create (esv_now sv) p0 in
     andThen (reject_if (csp_InitiatorAccountID p = [] \<or> csp_InitiatorDeviceID p = [] \<or> csp_TargetAccountID p = [])
       E2eeErrInvalidInput) (\<lambda>_.
     andThen (reject_if (\<not> validatePublicKey (csp_InitiatorEphemeral p)) E2eeErrInvalidInput) (\<lambda>_.
     andThen (reject_if (\<not> validateBootstrapPayload (csp_Bootstrap p)) E2eeErrInvalidInput) (\<lambda>_.
     andThen (reject_if (\<not> esv_now sv < csp_ExpiresAt p) E2eeErrInvalidInput) (\<lambda>_.
     andThen (active_device sv ''initiator device'' (csp_InitiatorAccountID p) (csp_InitiatorDeviceID p)) (\<lambda>_.
     andThen (active_account sv (csp_TargetAccountID p) (csp_TargetAccountID p)) (\<lambda>_.
     andThen (of_result (devices_of sv ''list target devices for '' (csp_TargetAccountID p))) (\<lambda>devices.
     andThen (store_tx (esv_store sv)
       (andThen (for_each (session_for_device sv p) devices) (\<lambda>saved. ret (List.map_filter id saved)))) (\<lambda>sessions.
     andThen (reject_if (csp_TargetDeviceID p \<noteq> [] \<and> sessions = []) E2eeErrNotFound) (\<lambda>_.
     andThen (reject_if (sessions = []) E2eeErrConflict) (\<lambda>_.
     ret sessions)))))))))))"

definition ListDeviceSessions ::
    "'s e2ee_service \<Rightarrow> go_context \<Rightarrow> device_sessions_params \<Rightarrow> ('s world, direct_session list) io" where
  "ListDeviceSessions sv ctx p =
     andThen (e2ee_validateContext ctx ''list device sessions'') (\<lambda>_.
     let accountID = trim_space (dsp_AccountID p); deviceID = trim_space (dsp_DeviceID p);
       peerAccountID = trim_space (dsp_PeerAccountID p); now = esv_now sv in
     andThen (reject_if (accountID = [] \<or> deviceID = []) E2eeErrInvalidInput) (\<lambda>_.
     andThen (active_device sv ''recipient device'' accountID deviceID) (\<lambda>_.
     andThen (on_store (eso_DirectSessionsByRecipientDevice (esv_store sv) accountID deviceID)) (\<lambda>sessions.
     ret (List.filter (\<lambda>v. \<not> (dse_ExpiresAt v \<noteq> zero_time \<and> \<not> now < dse_ExpiresAt v) \<and>
       \<not> (\<not> dsp_IncludeAcknowledged p \<and> dse_State v = DirectSessionStateAcknowledged) \<and>
       \<not> (peerAccountID \<noteq> [] \<and> dse_InitiatorAccountID v \<noteq> peerAccountID)) sessions)))))"

definition AcknowledgeDirectSession ::
    "'s e2ee_service \<Rightarrow> go_context \<Rightarrow> ack_session_params \<Rightarrow> ('s world, direct_session) io" where
  "AcknowledgeDirectSession sv ctx p =
     andThen (e2ee_validateContext ctx ''acknowledge direct session'') (\<lambda>_.
     let S = esv_store sv; sessionID = trim_space (asp_SessionID p); now = esv_now sv;
       accountID = trim_space (asp_RecipientAccountID p); deviceID = trim_space (asp_RecipientDeviceID p) in
     andThen (reject_if (sessionID = [] \<or> accountID = [] \<or> deviceID = []) E2eeErrInvalidInput) (\<lambda>_.
     store_tx S
       (andThen (on_store (eso_DirectSessionByID S sessionID)) (\<lambda>v.
        andThen (reject_if (dse_RecipientAccountID v \<noteq> accountID \<or> dse_RecipientDeviceID v \<noteq> deviceID)
          E2eeErrForbidden) (\<lambda>_.
        if dse_State v = DirectSessionStateAcknowledged then ret v
        else andThen (reject_if (dse_ExpiresAt v \<noteq> zero_time \<and> \<not> now < dse_ExpiresAt v) E2eeErrConflict) (\<lambda>_.
          on_store (eso_SaveDirectSession S (v\<lparr>dse_State := DirectSessionStateAcknowledged,
            dse_AcknowledgedAt := now\<rparr>))))))))"

subsection \<open>Sender keys of groups\<close>

definition new_distribution ::
    "publish_keys_params \<Rightarrow> string \<Rightarrow> string \<Rightarrow> string \<Rightarrow> sender_key_payload \<Rightarrow> time \<Rightarrow> sender_key_dist" where
  "new_distribution p i accountID deviceID payload now = \<lparr>gsk_ID = i, gsk_ConversationID = pkp_ConversationID p,
     gsk_SenderAccountID = pkp_SenderAccountID p, gsk_SenderDeviceID = pkp_SenderDeviceID p,
     gsk_RecipientAccountID = accountID, gsk_RecipientDeviceID = deviceID, gsk_SenderKeyID = pkp_SenderKeyID p,
     gsk_Payload = normalizeSenderKeyPayload payload, gsk_State = GroupSenderKeyStatePending, gsk_CreatedAt = now,
     gsk_AcknowledgedAt = zero_time, gsk_ExpiresAt = pkp_ExpiresAt p\<rparr>"

text \<open>The own device is skipped; a device that is named twice is a conflict.\<close>

fun publish_keys ::
    "'s e2ee_service \<Rightarrow> publish_keys_params \<Rightarrow> string list \<Rightarrow> string list \<Rightarrow> recipient_key list \<Rightarrow>
     ('s world, sender_key_dist list) io" where
  "publish_keys sv p activeMembers seen [] = ret []"
| "publish_keys sv p activeMembers seen (r # rs) =
     (let accountID = trim_space (rcp_RecipientAccountID r); deviceID = trim_space (rcp_RecipientDeviceID r);
        key = accountID @ ''|'' @ deviceID in
      if accountID = [] \<or> deviceID = [] then raise E2eeErrInvalidInput
      else if accountID = pkp_SenderAccountID p \<and> deviceID = pkp_SenderDeviceID p
        then publish_keys sv p activeMembers seen rs
      else if accountID \<notin> set activeMembers then raise E2eeErrForbidden
      else if \<not> validateSenderKeyPayload (rcp_Payload r) then raise E2eeErrInvalidInput
      else andThen (active_device sv ''recipient device'' accountID deviceID) (\<lambda>_.
        if key \<in> set seen then raise E2eeErrConflict
        else andThen (e2ee_newID ''gsk'') (\<lambda>i.
          andThen (on_store (eso_SaveGroupSenderKeyDistribution (esv_store sv)
            (new_distribution p i accountID deviceID (rcp_Payload r) (esv_now sv)))) (\<lambda>saved.
          andThen (publish_keys sv p activeMembers (key # seen) rs) (\<lambda>later.
          ret (saved # later))))))"

definition normalized_publish :: "time \<Rightarrow> publish_keys_params \<Rightarrow> publish_keys_params" where
  "normalized_publish now p = p\<lparr>pkp_ConversationID := trim_space (pkp_ConversationID p),
     pkp_SenderAccountID := trim_space (pkp_SenderAccountID p),
     pkp_SenderDeviceID := trim_space (pkp_SenderDeviceID p),
     pkp_SenderKeyID := trim_space (pkp_SenderKeyID p),
     pkp_ExpiresAt := or_time (pkp_ExpiresAt p) (now + 30 * 24 * 3600 * second)\<rparr>"

definition PublishGroupSenderKeys ::
    "'s e2ee_service \<Rightarrow> go_context \<Rightarrow> publish_keys_params \<Rightarrow> ('s world, sender_key_dist list) io" where
  "PublishGroupSenderKeys sv ctx p0 =
     andThen (e2ee_validateContext ctx ''publish group sender keys'') (\<lambda>_.
     let p = normalized_publish (esv_now sv) p0 in
     andThen (reject_if (pkp_ConversationID p = [] \<or> pkp_SenderAccountID p = [] \<or> pkp_SenderDeviceID p = [] \<or>
       pkp_SenderKeyID p = []) E2eeErrInvalidInput) (\<lambda>_.
     andThen (reject_if (\<not> esv_now sv < pkp_ExpiresAt p) E2eeErrInvalidInput) (\<lambda>_.
     andThen (active_device sv ''sender device'' (pkp_SenderAccountID p) (pkp_SenderDeviceID p)) (\<lambda>_.
     andThen (of_result (chat_load ''load conversation'' (pkp_ConversationID p)
       (cht_ConversationByID (esv_chats sv) (pkp_ConversationID p)))) (\<lambda>c.
     andThen (reject_if (conv_Kind c \<noteq> ConversationKindGroup) E2eeErrForbidden) (\<lambda>_.
     andThen (active_chat_member sv ''authorize sender'' (pkp_ConversationID p) (pkp_SenderAccountID p)) (\<lambda>_.
     andThen (reject_if (pkp_Recipients p = []) E2eeErrInvalidInput) (\<lambda>_.
     andThen (of_result (members_of sv (pkp_ConversationID p))) (\<lambda>members.
     andThen (store_tx (esv_store sv) (publish_keys sv p
       (List.map cmem_AccountID (List.filter isActiveConversationMember members)) [] (pkp_Recipients p))) (\<lambda>distributions.
     andThen (reject_if (distributions = []) E2eeErrConflict) (\<lambda>_.
     ret distributions)))))))))))"

definition ListGroupSenderKeys ::
    "'s e2ee_service \<Rightarrow> go_context \<Rightarrow> list_keys_params \<Rightarrow> ('s world, sender_key_dist list) io" where
  "ListGroupSenderKeys sv ctx p =
     andThen (e2ee_validateContext ctx ''list group sender keys'') (\<lambda>_.
     let conversationID = trim_space (lkp_ConversationID p); accountID = trim_space (lkp_RecipientAccountID p);
       deviceID = trim_space (lkp_RecipientDeviceID p); now = esv_now sv in
     andThen (reject_if (conversationID = [] \<or> accountID = [] \<or> deviceID = []) E2eeErrInvalidInput) (\<lambda>_.
     andThen (active_chat_member sv ''authorize recipient'' conversationID accountID) (\<lambda>_.
     andThen (active_device sv ''recipient device'' accountID deviceID) (\<lambda>_.
     andThen (on_store (eso_GroupSenderKeyDistributionsByRecipientDevice (esv_store sv) conversationID accountID
       deviceID)) (\<lambda>distributions.
     ret (List.filter (\<lambda>v. \<not> (gsk_ExpiresAt v \<noteq> zero_time \<and> \<not> now < gsk_ExpiresAt v) \<and>
       \<not> (\<not> lkp_IncludeAcknowledged p \<and> gsk_State v = GroupSenderKeyStateAcknowledged)) distributions))))))"

definition AcknowledgeGroupSenderKey ::
    "'s e2ee_service \<Rightarrow> go_context \<Rightarrow> ack_key_params \<Rightarrow> ('s world, sender_key_dist) io" where
  "AcknowledgeGroupSenderKey sv ctx p =
     andThen (e2ee_validateContext ctx ''acknowledge group sender key'') (\<lambda>_.
     let S = esv_store sv; distributionID = trim_space (akp_DistributionID p); now = esv_now sv;
       accountID = trim_space (akp_RecipientAccountID p); deviceID = trim_space (akp_RecipientDeviceID p) in
     andThen (reject_if (distributionID = [] \<or> accountID = [] \<or> deviceID = []) E2eeErrInvalidInput) (\<lambda>_.
     store_tx S
       (andThen (on_store (eso_GroupSenderKeyDistributionByID S distributionID)) (\<lambda>v.
        andThen (reject_if (gsk_RecipientAccountID v \<noteq> accountID \<or> gsk_RecipientDeviceID v \<noteq> deviceID)
          E2eeErrForbidden) (\<lambda>_.
        if gsk_State v = GroupSenderKeyStateAcknowledged then ret v
        else andThen (reject_if (gsk_ExpiresAt v \<noteq> zero_time \<and> \<not> now < gsk_ExpiresAt v) E2eeErrConflict) (\<lambda>_.
          on_store (eso_SaveGroupSenderKeyDistribution S (v\<lparr>gsk_State := GroupSenderKeyStateAcknowledged,
            gsk_AcknowledgedAt := now\<rparr>))))))))"

subsection \<open>Payloads of conversations\<close>

definition metadata_at :: "(string, string) gomap \<Rightarrow> string \<Rightarrow> string" where
  "metadata_at m k = (case lookup m k of None \<Rightarrow> [] | Some v \<Rightarrow> v)"

definition validateDirectConversationPayload ::
    "'s e2ee_service \<Rightarrow> validate_payload_params \<Rightarrow> ('s world, unit) io" where
  "validateDirectConversationPayload sv p =
     (let sessionID = trim_space (metadata_at (vpp_PayloadMetadata p) ''direct_session_id'') in
      andThen (reject_if (sessionID = []) E2eeErrInvalidInput) (\<lambda>_.
      andThen (on_store (eso_DirectSessionByID (esv_store sv) sessionID)) (\<lambda>v.
      andThen (reject_if (dse_State v \<noteq> DirectSessionStateAcknowledged) E2eeErrConflict) (\<lambda>_.
      andThen (reject_if (dse_ExpiresAt v = zero_time \<or> \<not> esv_now sv < dse_ExpiresAt v) E2eeErrConflict) (\<lambda>_.
      andThen (reject_if (vpp_PayloadKeyID p \<noteq> pk_KeyID (spk_Key (dse_SignedPreKey v)) \<and>
        vpp_PayloadKeyID p \<noteq> pk_KeyID (otk_Key (dse_OneTimePreKey v)) \<and> vpp_PayloadKeyID p \<noteq> dse_ID v)
        E2eeErrConflict) (\<lambda>_.
      reject_if (\<not> session_of_device (vpp_SenderAccountID p) (vpp_SenderDeviceID p) v) E2eeErrForbidden))))))"

definition validateGroupConversationPayload ::
    "'s e2ee_service \<Rightarrow> validate_payload_params \<Rightarrow> ('s world, unit) io" where
  "validateGroupConversationPayload sv p =
     (let senderKeyID = trim_space (metadata_at (vpp_PayloadMetadata p) ''sender_key_id'') in
      andThen (reject_if (senderKeyID = []) E2eeErrInvalidInput) (\<lambda>_.
      andThen (reject_if (vpp_PayloadKeyID p \<noteq> senderKeyID) E2eeErrConflict) (\<lambda>_.
      andThen (on_store (eso_GroupSenderKeyDistributionsBySenderKey (esv_store sv) (vpp_ConversationID p)
        (vpp_SenderAccountID p) (vpp_SenderDeviceID p) senderKeyID)) (\<lambda>distributions.
      andThen (reject_if (distributions = []) E2eeErrNotFound) (\<lambda>_.
      reject_if (\<not> list_ex (\<lambda>v. gsk_ExpiresAt v = zero_time \<or> esv_now sv < gsk_ExpiresAt v) distributions)
        E2eeErrConflict)))))"

fun validateCoverageEntries :: "coverage_entry list \<Rightarrow> bool \<Rightarrow> error + unit" where
  "validateCoverageEntries [] requireTrusted = Inr ()"
| "validateCoverageEntries (e # es) requireTrusted =
     (if cov_TrustState e = DeviceTrustStateCompromised then Inl E2eeErrForbidden
      else if cov_State e \<noteq> CoverageStateReady then Inl E2eeErrConflict
      else if requireTrusted \<and> cov_TrustState e \<noteq> DeviceTrustStateTrusted then Inl E2eeErrConflict
      else validateCoverageEntries es requireTrusted)"

definition ValidateConversationPayload ::
    "'s e2ee_service \<Rightarrow> go_context \<Rightarrow> validate_payload_params \<Rightarrow> ('s world, unit) io" where
  "ValidateConversationPayload sv ctx p0 =
     andThen (e2ee_validateContext ctx ''validate conversation payload'') (\<lambda>_.
     let p = p0\<lparr>vpp_ConversationID := trim_space (vpp_ConversationID p0),
         vpp_SenderAccountID := trim_space (vpp_SenderAccountID p0),
         vpp_SenderDeviceID := trim_space (vpp_SenderDeviceID p0),
         vpp_PayloadKeyID := trim_space (vpp_PayloadKeyID p0)\<rparr>;
       coverage = (\<lambda>senderKeyID. \<lparr>kcp_ConversationID = vpp_ConversationID p,
         kcp_SenderAccountID = vpp_SenderAccountID p, kcp_SenderDeviceID = vpp_SenderDeviceID p,
         kcp_SenderKeyID = senderKeyID\<rparr>) in
     andThen (reject_if (vpp_ConversationID p = [] \<or> vpp_SenderAccountID p = [] \<or> vpp_SenderDeviceID p = [] \<or>
       vpp_PayloadKeyID p = []) E2eeErrInvalidInput) (\<lambda>_.
     andThen (of_result (chat_load ''load conversation'' (vpp_ConversationID p)
       (cht_ConversationByID (esv_chats sv) (vpp_ConversationID p)))) (\<lambda>c.
     if conv_Kind c = ConversationKindDirect then
       andThen (validateDirectConversationPayload sv p) (\<lambda>_.
       andThen (GetConversationKeyCoverage sv ctx (coverage [])) (\<lambda>entries.
       of_result (validateCoverageEntries entries (cset_RequireTrustedDevices (conv_Settings c)))))
     else if conv_Kind c = ConversationKindGroup then
       andThen (validateGroupConversationPayload sv p) (\<lambda>_.
       andThen (GetConversationKeyCoverage sv ctx
         (coverage (trim_space (metadata_at (vpp_PayloadMetadata p) ''sender_key_id'')))) (\<lambda>entries.
       of_result (validateCoverageEntries entries (cset_RequireTrustedDevices (conv_Settings c)))))
     else ret ())))"

subsection \<open>Link transfers\<close>

definition link_device :: "'s e2ee_service \<Rightarrow> string \<Rightarrow> string \<Rightarrow> ('w, device) io" where
  "link_device sv what deviceID = wrapping (''load '' @ what @ '' device '' @ deviceID)
     (of_result (dir_DeviceByID (esv_directory sv) deviceID))"

definition QueueDeviceLinkTransfer ::
    "'s e2ee_service \<Rightarrow> go_context \<Rightarrow> queue_transfer_params \<Rightarrow> ('s world, link_transfer) io" where
  "QueueDeviceLinkTransfer sv ctx p =
     andThen (e2ee_validateContext ctx ''queue device link transfer'') (\<lambda>_.
     let accountID = trim_space (qtp_AccountID p); sourceDeviceID = trim_space (qtp_SourceDeviceID p);
       targetDeviceID = trim_space (qtp_TargetDeviceID p) in
     andThen (reject_if (accountID = [] \<or> sourceDeviceID = [] \<or> targetDeviceID = []) E2eeErrInvalidInput) (\<lambda>_.
     andThen (reject_if (\<not> validateSenderKeyPayload (qtp_Payload p)) E2eeErrInvalidInput) (\<lambda>_.
     andThen (link_device sv ''source'' sourceDeviceID) (\<lambda>source.
     andThen (reject_if (dev_AccountID source \<noteq> accountID \<or> dev_Status source \<noteq> DeviceStatusActive) E2eeErrForbidden) (\<lambda>_.
     andThen (link_device sv ''target'' targetDeviceID) (\<lambda>target.
     andThen (reject_if (dev_AccountID target \<noteq> accountID \<or> dev_Status target = DeviceStatusRevoked) E2eeErrForbidden) (\<lambda>_.
     andThen (wrapping ''generate device link transfer ID'' (e2ee_newID ''dlt'')) (\<lambda>i.
     on_store (eso_SaveDeviceLinkTransfer (esv_store sv) \<lparr>dlt_ID = i, dlt_AccountID = accountID,
       dlt_SourceDeviceID = sourceDeviceID, dlt_TargetDeviceID = targetDeviceID,
       dlt_Payload = normalizeSenderKeyPayload (qtp_Payload p),
       dlt_CreatedAt = or_time (qtp_RequestedAt p) (esv_now sv)\<rparr>)))))))))"

definition ConsumeDeviceLinkTransfer ::
    "'s e2ee_service \<Rightarrow> go_context \<Rightarrow> consume_transfer_params \<Rightarrow> ('s world, link_transfer) io" where
  "ConsumeDeviceLinkTransfer sv ctx p =
     andThen (e2ee_validateContext ctx ''consume device link transfer'') (\<lambda>_.
     let accountID = trim_space (ctp_AccountID p); deviceID = trim_space (ctp_DeviceID p) in
     andThen (reject_if (accountID = [] \<or> deviceID = []) E2eeErrInvalidInput) (\<lambda>_.
     andThen (link_device sv ''target'' deviceID) (\<lambda>d.
     andThen (reject_if (dev_AccountID d \<noteq> accountID \<or> dev_Status d = DeviceStatusRevoked) E2eeErrForbidden) (\<lambda>_.
     andThen (on_store (eso_DeviceLinkTransferByTargetDevice (esv_store sv) accountID deviceID)) (\<lambda>transfer.
     andThen (on_store (eso_DeleteDeviceLinkTransfer (esv_store sv) (dlt_ID transfer))) (\<lambda>_.
     ret transfer))))))"

end
