(* ===== verification/E2eeKeys.thy ===== *)
theory E2eeKeys
  imports E2eeSessions "HOL-Library.Multiset"
begin

section \<open>One-time prekeys\<close>

text \<open>
  A history of requests to the service over the in-memory store; what each of them hands out of
  the one-time prekeys, and what was uploaded. The keys of a device are accounted for under the
  name its entry has in the store.
\<close>

datatype e2ee_request =
    DoUploadDevicePreKeys upload_prekeys_params
  | DoRotateDeviceKeys rotate_keys_params
  | DoGetAccountBundles fetch_bundles_params
  | DoCreateDirectSessions create_sessions_params
  | DoAcknowledgeDirectSession ack_session_params
  | DoPublishGroupSenderKeys publish_keys_params
  | DoAcknowledgeGroupSenderKey ack_key_params
  | DoSetDeviceTrust set_trust_params
  | DoVerifyDeviceSafetyNumber verify_number_params
  | DoQueueDeviceLinkTransfer queue_transfer_params
  | DoConsumeDeviceLinkTransfer consume_transfer_params

record 's e2ee_call =
  e2c_service :: "'s e2ee_service"
  e2c_context :: go_context
  e2c_request :: e2ee_request

type_synonym handed = "(string \<times> public_key) list"

text \<open>The one-time prekey of a bundle or a session, if there is one.\<close>

definition named_key :: "string \<Rightarrow> string \<Rightarrow> one_time_prekey \<Rightarrow> handed" where
  "named_key accountID deviceID v =
     (if pk_KeyID (otk_Key v) = [] then [] else [(e2ee_key accountID deviceID, otk_Key v)])"

definition bundle_key :: "device_bundle \<Rightarrow> handed" where
  "bundle_key b = named_key (bdl_AccountID b) (bdl_DeviceID b) (bdl_OneTimePreKey b)"

definition session_key :: "direct_session \<Rightarrow> handed" where
  "session_key v = named_key (dse_RecipientAccountID v) (dse_RecipientDeviceID v) (dse_OneTimePreKey v)"

definition handing :: "('a \<Rightarrow> handed) \<Rightarrow> ('s world, 'a) io \<Rightarrow> 's world \<Rightarrow> handed \<times> 's world" where
  "handing h m w = (case m w of (Inl e, w') \<Rightarrow> ([], w') | (Inr x, w') \<Rightarrow> (h x, w'))"

fun run_e2ee :: "'s e2ee_service \<Rightarrow> go_context \<Rightarrow> e2ee_request \<Rightarrow> 's world \<Rightarrow> handed \<times> 's world" where
  "run_e2ee sv ctx (DoUploadDevicePreKeys p) = handing (\<lambda>_. []) (UploadDevicePreKeys sv ctx p)"
| "run_e2ee sv ctx (DoRotateDeviceKeys p) = handing (\<lambda>_. []) (RotateDeviceKeys sv ctx p)"
| "run_e2ee sv ctx (DoGetAccountBundles p) = handing (concat \<circ> List.map bundle_key) (GetAccountBundles sv ctx p)"
| "run_e2ee sv ctx (DoCreateDirectSessions p) = handing (concat \<circ> List.map session_key) (CreateDirectSessions sv ctx p)"
| "run_e2ee sv ctx (DoAcknowledgeDirectSession p) = handing (\<lambda>_. []) (AcknowledgeDirectSession sv ctx p)"
| "run_e2ee sv ctx (DoPublishGroupSenderKeys p) = handing (\<lambda>_. []) (PublishGroupSenderKeys sv ctx p)"
| "run_e2ee sv ctx (DoAcknowledgeGroupSenderKey p) = handing (\<lambda>_. []) (AcknowledgeGroupSenderKey sv ctx p)"
| "run_e2ee sv ctx (DoSetDeviceTrust p) = handing (\<lambda>_. []) (SetDeviceTrust sv ctx p)"
| "run_e2ee sv ctx (DoVerifyDeviceSafetyNumber p) = handing (\<lambda>_. []) (VerifyDeviceSafetyNumber sv ctx p)"
| "run_e2ee sv ctx (DoQueueDeviceLinkTransfer p) = handing (\<lambda>_. []) (QueueDeviceLinkTransfer sv ctx p)"
| "run_e2ee sv ctx (DoConsumeDeviceLinkTransfer p) = handing (\<lambda>_. []) (ConsumeDeviceLinkTransfer sv ctx p)"

fun run_history :: "'s e2ee_call list \<Rightarrow> 's world \<Rightarrow> handed \<times> 's world" where
  "run_history [] w = ([], w)"
| "run_history (c # cs) w =
     (case run_e2ee (e2c_service c) (e2c_context c) (e2c_request c) w of
        (h, w1) \<Rightarrow> (case run_history cs w1 of (hs, w2) \<Rightarrow> (h @ hs, w2)))"

text \<open>The keys a request brings, and under which name.\<close>

fun brought :: "e2ee_request \<Rightarrow> string \<times> one_time_prekey list" where
  "brought (DoUploadDevicePreKeys p) =
     (e2ee_key (trim_space (upp_AccountID p)) (trim_space (upp_DeviceID p)), upp_OneTimePreKeys p)"
| "brought (DoRotateDeviceKeys p) =
     (e2ee_key (trim_space (rkp_AccountID p)) (trim_space (rkp_DeviceID p)), rkp_OneTimePreKeys p)"
| "brought _ = ([], [])"

definition uploaded :: "string \<Rightarrow> e2ee_request \<Rightarrow> public_key list" where
  "uploaded k r = (if fst (brought r) = k then List.map (normalizePublicKey \<circ> otk_Key) (snd (brought r)) else [])"

definition handed_for :: "string \<Rightarrow> handed \<Rightarrow> public_key list" where
  "handed_for k h = List.map snd (List.filter (\<lambda>x. fst x = k) h)"

subsection \<open>The account of a device\<close>

text \<open>The keys that can still be claimed; and that a claim marks them, for which a key needs a time.\<close>

definition key_row :: "e2ee_mem \<Rightarrow> string \<Rightarrow> one_time_prekey list" where
  "key_row s k = (case lookup (em_oneTime s) k of None \<Rightarrow> [] | Some row \<Rightarrow> row)"

definition available :: "e2ee_mem \<Rightarrow> string \<Rightarrow> public_key multiset" where
  "available s k = mset (List.map otk_Key (List.filter (\<lambda>v. otk_ClaimedAt v = zero_time) (key_row s k)))"

definition key_dated :: "one_time_prekey \<Rightarrow> bool" where
  "key_dated v \<longleftrightarrow> pk_CreatedAt (otk_Key v) \<noteq> zero_time \<or> pk_RotatedAt (otk_Key v) \<noteq> zero_time"

definition store_dated :: "e2ee_mem \<Rightarrow> bool" where
  "store_dated s \<longleftrightarrow> (\<forall>k. \<forall>v \<in> set (key_row s k). key_dated v)"

text \<open>A step that brings no key: nothing becomes available again.\<close>

definition draws :: "e2ee_mem \<Rightarrow> e2ee_mem \<Rightarrow> bool" where
  "draws s s' \<longleftrightarrow> (store_dated s \<longrightarrow> store_dated s' \<and> (\<forall>k. available s' k \<subseteq># available s k))"

lemma preorder_draws: "preorder_on_states draws"
  by (auto simp: preorder_on_states_def draws_def intro: subset_mset.order_trans)

lemma keys_of_row: "keys_of s a d = key_row s (e2ee_key a d)"
  by (simp add: keys_of_def key_row_def)

lemma key_row_same: "em_oneTime s' = em_oneTime s \<Longrightarrow> draws s s'"
  by (simp add: draws_def store_dated_def available_def key_row_def)

lemma key_row_put [simp]: "key_row (s\<lparr>em_oneTime := put k row (em_oneTime s)\<rparr>) k' = (if k' = k then row else key_row s k')"
  by (simp add: key_row_def)

lemma key_row_remove [simp]: "key_row (s\<lparr>em_oneTime := remove k (em_oneTime s)\<rparr>) k' = (if k' = k then [] else key_row s k')"
  by (simp add: key_row_def)

text \<open>A claim takes one key out of those available.\<close>

lemma claim_first_Some:
  "claim_first a d vs = Some (x, vs') \<Longrightarrow> (\<forall>v \<in> set vs. key_dated v) \<Longrightarrow>
     (\<forall>v \<in> set vs'. key_dated v) \<and> add_mset (otk_Key x) (mset (List.map otk_Key (List.filter (\<lambda>v. otk_ClaimedAt v = zero_time) vs'))) =
       mset (List.map otk_Key (List.filter (\<lambda>v. otk_ClaimedAt v = zero_time) vs))"
  by (induction vs arbitrary: vs') (auto simp: claimed_key_def key_dated_def split: if_splits)

lemma claim_takes_one:
  assumes "store_dated s" "em_ClaimOneTimePreKey a d by_a by_d s = (Inr x, s')"
  shows "store_dated s'" "available s (e2ee_key a d) = add_mset (otk_Key x) (available s' (e2ee_key a d))"
    "k \<noteq> e2ee_key a d \<Longrightarrow> available s' k = available s k"
proof -
  obtain row where row: "claim_first by_a by_d (key_row s (e2ee_key a d)) = Some (x, row)"
    "s' = s\<lparr>em_oneTime := put (e2ee_key a d) row (em_oneTime s)\<rparr>"
    using assms(2) by (auto simp: em_ClaimOneTimePreKey_def keys_of_row split: option.splits)
  note one = claim_first_Some [OF row(1)]
  show "store_dated s'" using assms(1) one by (simp add: row(2) store_dated_def)
  show "available s (e2ee_key a d) = add_mset (otk_Key x) (available s' (e2ee_key a d))"
    using assms(1) one by (simp add: row(2) available_def store_dated_def)
  show "k \<noteq> e2ee_key a d \<Longrightarrow> available s' k = available s k" by (simp add: row(2) available_def)
qed

text \<open>The other methods of the store bring no key.\<close>

lemma same_keys_draws: "(\<And>s. em_oneTime (snd (m s)) = em_oneTime s) \<Longrightarrow> keeps draws m"
  by (metis keepsI key_row_same snd_conv)

lemma other_methods_draw:
  "keeps draws (em_SaveSignedPreKey a d v)" "keeps draws (em_SignedPreKeyByDevice a d)"
  "keeps draws (em_CountAvailableOneTimePreKeys a d)" "keeps draws (em_ExpirePendingDirectSessionsByDevice a d t)"
  "keeps draws (em_SaveDirectSession v1)" "keeps draws (em_DirectSessionByID i)"
  "keeps draws (em_DirectSessionsByRecipientDevice a d)" "keeps draws (em_DirectSessionsByParticipantDevice a d)"
  "keeps draws (em_ExpirePendingGroupSenderKeysBySenderDevice a d t)"
  "keeps draws (em_SaveGroupSenderKeyDistribution v2)" "keeps draws (em_GroupSenderKeyDistributionByID i)"
  "keeps draws (em_GroupSenderKeyDistributionsByRecipientDevice i a d)"
  "keeps draws (em_GroupSenderKeyDistributionsBySenderKey i a d j)"
  "keeps draws (em_GroupSenderKeyDistributionsBySenderDevice i a d)"
  "keeps draws (em_SaveDeviceLinkTransfer v3)" "keeps draws (em_DeviceLinkTransferByTargetDevice a d)"
  "keeps draws (em_DeleteDeviceLinkTransfer i)" "keeps draws (em_SaveDeviceTrust v4)"
  "keeps draws (em_DeviceTrustsByObserverDevice a d j)"
                  by (rule same_keys_draws,
      auto simp: em_SaveSignedPreKey_def em_SignedPreKeyByDevice_def em_CountAvailableOneTimePreKeys_def
      em_ExpirePendingDirectSessionsByDevice_def em_SaveDirectSession_def em_DirectSessionByID_def
      em_DirectSessionsByRecipientDevice_def em_DirectSessionsByParticipantDevice_def
      em_ExpirePendingGroupSenderKeysBySenderDevice_def em_SaveGroupSenderKeyDistribution_def
      em_GroupSenderKeyDistributionByID_def em_GroupSenderKeyDistributionsByRecipientDevice_def
      em_GroupSenderKeyDistributionsBySenderKey_def em_GroupSenderKeyDistributionsBySenderDevice_def
      em_SaveDeviceLinkTransfer_def em_DeviceLinkTransferByTargetDevice_def em_DeleteDeviceLinkTransfer_def
      em_SaveDeviceTrust_def em_DeviceTrustsByObserverDevice_def found_or_e2ee_def Let_def split: option.splits)+

lemma delete_draws: "keeps draws (em_DeleteOneTimePreKeysByDevice a d)"
  by (rule keepsI) (auto simp: em_DeleteOneTimePreKeysByDevice_def draws_def store_dated_def available_def)

lemma claim_draws: "keeps draws (em_ClaimOneTimePreKey a d by_a by_d)"
proof (rule keepsI)
  fix s r s'
  assume run: "em_ClaimOneTimePreKey a d by_a by_d s = (r, s')"
  show "draws s s'"
  proof (cases r)
    case (Inl e)
    with run have "s' = s" by (auto simp: em_ClaimOneTimePreKey_def split: option.splits)
    then show ?thesis by (simp add: draws_def)
  next
    case (Inr x)
    show ?thesis unfolding draws_def
    proof (intro impI conjI allI)
      assume dated: "store_dated s"
      note one = claim_takes_one [OF dated run [unfolded Inr]]
      show "store_dated s'" by (rule one(1))
      show "available s' k \<subseteq># available s k" for k
        using one(2) one(3) [of k] by (cases "k = e2ee_key a d") (auto simp: mset_subset_eq_add_mset_cancel)
    qed
  qed
qed

lemma memory_methods:
  "eso_TxRestores e2ee_memory = False" "eso_SaveSignedPreKey e2ee_memory = em_SaveSignedPreKey"
  "eso_SignedPreKeyByDevice e2ee_memory = em_SignedPreKeyByDevice"
  "eso_DeleteOneTimePreKeysByDevice e2ee_memory = em_DeleteOneTimePreKeysByDevice"
  "eso_SaveOneTimePreKeys e2ee_memory = em_SaveOneTimePreKeys"
  "eso_ClaimOneTimePreKey e2ee_memory = em_ClaimOneTimePreKey"
  "eso_CountAvailableOneTimePreKeys e2ee_memory = em_CountAvailableOneTimePreKeys"
  "eso_ExpirePendingDirectSessionsByDevice e2ee_memory = em_ExpirePendingDirectSessionsByDevice"
  "eso_SaveDirectSession e2ee_memory = em_SaveDirectSession"
  "eso_DirectSessionByID e2ee_memory = em_DirectSessionByID"
  "eso_DirectSessionsByRecipientDevice e2ee_memory = em_DirectSessionsByRecipientDevice"
  "eso_DirectSessionsByParticipantDevice e2ee_memory = em_DirectSessionsByParticipantDevice"
  "eso_ExpirePendingGroupSenderKeysBySenderDevice e2ee_memory = em_ExpirePendingGroupSenderKeysBySenderDevice"
  "eso_SaveGroupSenderKeyDistribution e2ee_memory = em_SaveGroupSenderKeyDistribution"
  "eso_GroupSenderKeyDistributionByID e2ee_memory = em_GroupSenderKeyDistributionByID"
  "eso_GroupSenderKeyDistributionsByRecipientDevice e2ee_memory = em_GroupSenderKeyDistributionsByRecipientDevice"
  "eso_GroupSenderKeyDistributionsBySenderKey e2ee_memory = em_GroupSenderKeyDistributionsBySenderKey"
  "eso_GroupSenderKeyDistributionsBySenderDevice e2ee_memory = em_GroupSenderKeyDistributionsBySenderDevice"
  "eso_SaveDeviceLinkTransfer e2ee_memory = em_SaveDeviceLinkTransfer"
  "eso_DeviceLinkTransferByTargetDevice e2ee_memory = em_DeviceLinkTransferByTargetDevice"
  "eso_DeleteDeviceLinkTransfer e2ee_memory = em_DeleteDeviceLinkTransfer"
  "eso_SaveDeviceTrust e2ee_memory = em_SaveDeviceTrust"
  "eso_DeviceTrustsByObserverDevice e2ee_memory = em_DeviceTrustsByObserverDevice"
  by (simp_all add: e2ee_memory_def)

lemma memory_tx [simp]: "store_tx e2ee_memory m = m"
  by (auto simp: store_tx_def memory_methods fun_eq_iff split: prod.splits sum.splits)

text \<open>The operations that bring no key.\<close>

lemmas drawing = keeps_rules preorder_on_world preorder_draws other_methods_draw delete_draws claim_draws

lemma directories_draw:
  "keeps (on_world draws) (e2ee_validateContext ctx operation)" "keeps (on_world draws) (active_device sv what a d)"
  "keeps (on_world draws) (e2ee_device sv what d)" "keeps (on_world draws) (active_account sv shown a)"
  "keeps (on_world draws) (active_chat_member sv action c a)" "keeps (on_world draws) (link_device sv what d)"
  "keeps (on_world draws) (e2ee_newID pre)"
  unfolding e2ee_validateContext_def active_device_def e2ee_device_def active_account_def active_chat_member_def
    link_device_def e2ee_newID_def
  by (intro drawing)+

lemma bundle_draws:
  assumes "esv_store sv = e2ee_memory"
  shows "keeps (on_world draws) (bundle_of_device sv p a d)"
  unfolding bundle_of_device_def Let_def assms memory_methods
  by (intro drawing)

lemma fetch_draws:
  assumes "esv_store sv = e2ee_memory"
  shows "keeps (on_world draws) (fetchAccountBundles sv p)" "keeps (on_world draws) (own_bundle sv a d spk)"
proof -
  show fetch: "keeps (on_world draws) (fetchAccountBundles sv p)" for p
    unfolding fetchAccountBundles_def by (intro drawing directories_draw bundle_draws [OF assms])
  show "keeps (on_world draws) (own_bundle sv a d spk)"
    unfolding own_bundle_def by (intro drawing fetch)
qed

lemma publish_keys_draws:
  assumes "esv_store sv = e2ee_memory"
  shows "keeps (on_world draws) (publish_keys sv p active seen rs)"
proof (induction rs arbitrary: seen)
  case (Cons r rs)
  show ?case unfolding publish_keys.simps Let_def assms memory_methods
    by (intro drawing directories_draw Cons.IH)
qed (simp only: publish_keys.simps, intro drawing)

lemma operations_draw:
  assumes "esv_store sv = e2ee_memory"
  shows "keeps (on_world draws) (AcknowledgeDirectSession sv ctx p1)"
    "keeps (on_world draws) (PublishGroupSenderKeys sv ctx p2)"
    "keeps (on_world draws) (AcknowledgeGroupSenderKey sv ctx p3)"
    "keeps (on_world draws) (SetDeviceTrust sv ctx p4)"
    "keeps (on_world draws) (VerifyDeviceSafetyNumber sv ctx p5)"
    "keeps (on_world draws) (QueueDeviceLinkTransfer sv ctx p6)"
    "keeps (on_world draws) (ConsumeDeviceLinkTransfer sv ctx p7)"
proof -
  show "keeps (on_world draws) (AcknowledgeDirectSession sv ctx p1)"
    unfolding AcknowledgeDirectSession_def Let_def assms memory_methods memory_tx by (intro drawing directories_draw)
  show "keeps (on_world draws) (PublishGroupSenderKeys sv ctx p2)"
    unfolding PublishGroupSenderKeys_def Let_def assms memory_tx
    by (intro drawing directories_draw publish_keys_draws assms)
  show "keeps (on_world draws) (AcknowledgeGroupSenderKey sv ctx p3)"
    unfolding AcknowledgeGroupSenderKey_def Let_def assms memory_methods memory_tx by (intro drawing directories_draw)
  show set_trust: "keeps (on_world draws) (SetDeviceTrust sv ctx p4)" for p4
    unfolding SetDeviceTrust_def Let_def assms memory_methods by (intro drawing directories_draw)
  have code: "keeps (on_world draws) (GetDeviceVerificationCode sv ctx p)" for p
    unfolding GetDeviceVerificationCode_def Let_def assms memory_methods by (intro drawing directories_draw)
  show "keeps (on_world draws) (VerifyDeviceSafetyNumber sv ctx p5)"
    unfolding VerifyDeviceSafetyNumber_def Let_def by (intro drawing directories_draw code set_trust)
  show "keeps (on_world draws) (QueueDeviceLinkTransfer sv ctx p6)"
    unfolding QueueDeviceLinkTransfer_def Let_def assms memory_methods by (intro drawing directories_draw)
  show "keeps (on_world draws) (ConsumeDeviceLinkTransfer sv ctx p7)"
    unfolding ConsumeDeviceLinkTransfer_def Let_def assms memory_methods by (intro drawing directories_draw)
qed

subsection \<open>What is handed out leaves the account\<close>

definition hands :: "('a \<Rightarrow> handed) \<Rightarrow> (e2ee_mem world, 'a) io \<Rightarrow> bool" where
  "hands h m \<longleftrightarrow> (\<forall>w x w'. store_dated (w_store w) \<longrightarrow> m w = (Inr x, w') \<longrightarrow> store_dated (w_store w') \<and>
     (\<forall>k. mset (handed_for k (h x)) + available (w_store w') k \<subseteq># available (w_store w) k))"

lemma handed_for_simps [simp]: "handed_for k [] = []" "handed_for k (h @ h') = handed_for k h @ handed_for k h'"
  by (simp_all add: handed_for_def)

lemma hands_draws:
  assumes "keeps (on_world draws) m" "\<And>w x w'. m w = (Inr x, w') \<Longrightarrow> h x = []"
  shows "hands h m"
  using assms unfolding hands_def keeps_def on_world_def draws_def by fastforce

lemma hands_fail: "hands h (raise e)"
  by (simp add: hands_def)

lemma hands_after:
  assumes "keeps (on_world draws) m" "\<And>x. hands h (f x)"
  shows "hands h (andThen m f)"
  unfolding hands_def andThen_Inr
proof (intro allI impI)
  fix w y w'
  assume dated: "store_dated (w_store w)" and "\<exists>x w1. m w = (Inr x, w1) \<and> f x w1 = (Inr y, w')"
  then obtain x w1 where m: "m w = (Inr x, w1)" and f: "f x w1 = (Inr y, w')" by blast
  from keepsD [OF assms(1) m] dated have d: "store_dated (w_store w1)" "\<And>k. available (w_store w1) k \<subseteq># available (w_store w) k"
    by (auto simp: on_world_def draws_def)
  with assms(2) f show "store_dated (w_store w') \<and>
      (\<forall>k. mset (handed_for k (h y)) + available (w_store w') k \<subseteq># available (w_store w) k)"
    unfolding hands_def by (meson subset_mset.order_trans)
qed

lemma hands_sum: "(\<And>e. hands h (f e)) \<Longrightarrow> (\<And>x. hands h (g x)) \<Longrightarrow> hands h (case r of Inl e \<Rightarrow> f e | Inr x \<Rightarrow> g x)"
  by (cases r) simp_all

lemma hands_if: "hands h m \<Longrightarrow> hands h m' \<Longrightarrow> hands h (if c then m else m')"
  by simp

text \<open>A claim, and what is made of the claimed key.\<close>

lemma hands_claim:
  assumes missing: "\<And>e. hands h (f (Inl e))" and after: "\<And>x. keeps (on_world draws) (f (Inr x))"
    and made: "\<And>x w y w'. f (Inr x) w = (Inr y, w') \<Longrightarrow> h y = named_key a d x"
  shows "hands h (andThen (attempt (on_store (em_ClaimOneTimePreKey a d by_a by_d))) f)"
  unfolding hands_def
proof (intro allI impI)
  fix w y w'
  assume dated: "store_dated (w_store w)"
    and run: "andThen (attempt (on_store (em_ClaimOneTimePreKey a d by_a by_d))) f w = (Inr y, w')"
  then obtain c s1 where claim: "em_ClaimOneTimePreKey a d by_a by_d (w_store w) = (c, s1)"
    and rest: "f c (w\<lparr>w_store := s1\<rparr>) = (Inr y, w')"
    by (auto simp: andThen_Inr attempt_Inr on_store_def split: prod.splits)
  show "store_dated (w_store w') \<and> (\<forall>k. mset (handed_for k (h y)) + available (w_store w') k \<subseteq># available (w_store w) k)"
  proof (cases c)
    case (Inl e)
    with claim have "s1 = w_store w" by (auto simp: em_ClaimOneTimePreKey_def split: option.splits)
    with missing [of e] rest dated Inl show ?thesis unfolding hands_def by auto
  next
    case (Inr x)
    note one = claim_takes_one [OF dated claim [unfolded Inr]]
    from keepsD [OF after rest [unfolded Inr]] one(1)
    have later: "store_dated (w_store w')" "\<And>k. available (w_store w') k \<subseteq># available s1 k"
      by (auto simp: on_world_def draws_def)
    have "mset (handed_for k (h y)) + available (w_store w') k \<subseteq># available (w_store w) k" for k
    proof (cases "k = e2ee_key a d")
      case True
      have "mset (handed_for k (h y)) \<subseteq># {#otk_Key x#}"
        by (simp add: made [OF rest [unfolded Inr]] named_key_def handed_for_def True)
      then have "mset (handed_for k (h y)) + available (w_store w') k \<subseteq># {#otk_Key x#} + available s1 k"
        using later(2) by (rule subset_mset.add_mono)
      with one(2) True show ?thesis by simp
    next
      case False
      then have "handed_for k (h y) = []" by (simp add: made [OF rest [unfolded Inr]] named_key_def handed_for_def)
      with one(3) [OF False] later(2) [of k] show ?thesis by simp
    qed
    with later(1) show ?thesis by blast
  qed
qed

lemma hands_for_each:
  assumes "\<And>x. hands h (f x)"
  shows "hands (concat \<circ> List.map h) (for_each f xs)"
proof (induction xs)
  case Nil
  show ?case by (simp add: hands_def)
next
  case (Cons x xs)
  show ?case unfolding hands_def for_each.simps andThen_Inr ret_Inr
  proof (intro allI impI)
    fix w ys w'
    assume dated: "store_dated (w_store w)"
      and "\<exists>y w1. f x w = (Inr y, w1) \<and> (\<exists>zs w2. for_each f xs w1 = (Inr zs, w2) \<and> ys = y # zs \<and> w' = w2)"
    then obtain y w1 zs where fx: "f x w = (Inr y, w1)" and rest: "for_each f xs w1 = (Inr zs, w')" and ys: "ys = y # zs"
      by blast
    from assms fx dated have one: "store_dated (w_store w1)"
        "\<And>k. mset (handed_for k (h y)) + available (w_store w1) k \<subseteq># available (w_store w) k"
      unfolding hands_def by blast+
    from Cons rest one(1) have later: "store_dated (w_store w')"
        "\<And>k. mset (handed_for k (concat (List.map h zs))) + available (w_store w') k \<subseteq># available (w_store w1) k"
      unfolding hands_def comp_def by blast+
    have "mset (handed_for k (h y)) + (mset (handed_for k (concat (List.map h zs))) + available (w_store w') k)
        \<subseteq># available (w_store w) k" for k
      by (rule subset_mset.order_trans [OF subset_mset.add_left_mono [OF later(2)] one(2)])
    then have "mset (handed_for k (concat (List.map h ys))) + available (w_store w') k \<subseteq># available (w_store w) k" for k
      by (simp add: ys add.assoc)
    with later(1) show "store_dated (w_store w') \<and>
        (\<forall>k. mset (handed_for k ((concat \<circ> List.map h) ys)) + available (w_store w') k \<subseteq># available (w_store w) k)" by simp
  qed
qed

lemma concat_present: "concat (List.map h (List.map_filter id xs)) = concat (List.map (case_option [] h) xs)"
  by (induction xs) (auto simp: List.map_filter_simps split: option.split)

lemma bundle_hands:
  assumes "esv_store sv = e2ee_memory"
  shows "hands (case_option [] bundle_key) (bundle_of_device sv p a d)"
proof -
  have none: "hands (case_option [] bundle_key) (ret None)" by (simp add: hands_def)
  have plain: "bdl_OneTimePreKey b = no_one_time_prekey \<Longrightarrow> hands (case_option [] bundle_key) (ret (Some b))" for b
    by (simp add: hands_def bundle_key_def named_key_def no_one_time_prekey_def no_public_key_def)
  show ?thesis
    unfolding bundle_of_device_def Let_def assms memory_methods
    apply (intro hands_if none hands_after [where m = "attempt (on_store (em_SignedPreKeyByDevice a' d'))" for a' d']
        hands_after [where m = "on_store (em_CountAvailableOneTimePreKeys a' d')" for a' d'] hands_sum hands_fail plain drawing)
     apply simp
    apply (rule hands_claim)
      apply (auto simp: bundle_key_def intro!: hands_if hands_fail plain drawing)
    done
qed

text \<open>A session that is saved has the claimed key.\<close>

lemma saved_session_key:
  assumes "on_store (em_SaveDirectSession (new_session p i d spk claimed now)) w = (Inr v, w')"
  shows "session_key v = named_key (csp_TargetAccountID p) (dev_ID d) claimed"
  using assms by (auto simp: on_store_Inr em_SaveDirectSession_def session_key_def cloneDirectSession_def new_session_def)

lemma session_hands:
  assumes "esv_store sv = e2ee_memory"
  shows "hands (case_option [] session_key) (session_for_device sv p d)"
proof -
  have none: "hands (case_option [] session_key) (ret None)" by (simp add: hands_def)
  have no_key: "named_key a i no_one_time_prekey = []" for a i
    by (simp add: named_key_def no_one_time_prekey_def no_public_key_def)
  show ?thesis
    unfolding session_for_device_def Let_def assms memory_methods
    apply (intro hands_if none hands_after [where m = "attempt (on_store (em_SignedPreKeyByDevice a' d'))" for a' d']
        hands_sum hands_fail drawing)
    apply (rule hands_claim)
    subgoal for r spk e
      by (cases "e = E2eeErrNotFound")
        (auto simp: andThen_Inr ret_Inr no_key dest!: saved_session_key intro!: hands_draws drawing directories_draw)
    subgoal for r spk x
      by (simp, intro drawing directories_draw)
    subgoal for r spk x
      by (auto simp: andThen_Inr ret_Inr dest!: saved_session_key)
    done
qed

lemma hands_before:
  assumes "hands g m" "\<And>x. keeps (on_world draws) (f x)" "\<And>x w y w'. f x w = (Inr y, w') \<Longrightarrow> h y = g x"
  shows "hands h (andThen m f)"
  unfolding hands_def andThen_Inr
proof (intro allI impI)
  fix w y w'
  assume dated: "store_dated (w_store w)" and "\<exists>x w1. m w = (Inr x, w1) \<and> f x w1 = (Inr y, w')"
  then obtain x w1 where m: "m w = (Inr x, w1)" and f: "f x w1 = (Inr y, w')" by blast
  from assms(1) m dated have one: "store_dated (w_store w1)"
      "\<And>k. mset (handed_for k (g x)) + available (w_store w1) k \<subseteq># available (w_store w) k"
    unfolding hands_def by blast+
  from keepsD [OF assms(2) f] one(1) have later: "store_dated (w_store w')"
      "\<And>k. available (w_store w') k \<subseteq># available (w_store w1) k" by (auto simp: on_world_def draws_def)
  have "mset (handed_for k (h y)) + available (w_store w') k \<subseteq># available (w_store w) k" for k
    unfolding assms(3) [OF f] by (rule subset_mset.order_trans [OF subset_mset.add_left_mono [OF later(2)] one(2)])
  with later(1) show "store_dated (w_store w') \<and>
      (\<forall>k. mset (handed_for k (h y)) + available (w_store w') k \<subseteq># available (w_store w) k)" by blast
qed

lemma requests_hand:
  assumes S: "esv_store sv = e2ee_memory"
  shows "hands (concat \<circ> List.map bundle_key) (GetAccountBundles sv ctx p1)"
    "hands (concat \<circ> List.map session_key) (CreateDirectSessions sv ctx p2)"
proof -
  have fetch: "hands (concat \<circ> List.map bundle_key) (fetchAccountBundles sv p1)"
    unfolding fetchAccountBundles_def
    by (intro hands_after directories_draw drawing hands_before [OF hands_for_each [OF bundle_hands [OF S]]])
      (auto simp: ret_Inr concat_present)
  show "hands (concat \<circ> List.map bundle_key) (GetAccountBundles sv ctx p1)"
    unfolding GetAccountBundles_def S memory_tx by (intro hands_after hands_if directories_draw drawing fetch)
  have sessions: "hands (concat \<circ> List.map session_key)
      (andThen (for_each (session_for_device sv p) devices) (\<lambda>saved. ret (List.map_filter id saved)))" for p devices
    by (rule hands_before [OF hands_for_each [OF session_hands [OF S]]]) (auto simp: ret_Inr concat_present intro: drawing)
  show "hands (concat \<circ> List.map session_key) (CreateDirectSessions sv ctx p2)"
    unfolding CreateDirectSessions_def Let_def S memory_tx
    by (intro hands_after directories_draw drawing hands_before [OF sessions]) (auto simp: andThen_Inr ret_Inr reject_if_Inr)
qed

subsection \<open>What is brought\<close>

definition brings :: "string \<Rightarrow> one_time_prekey list \<Rightarrow> e2ee_mem \<Rightarrow> e2ee_mem \<Rightarrow> bool" where
  "brings name vs s s' \<longleftrightarrow> (store_dated s \<longrightarrow> list_all key_dated vs \<longrightarrow> store_dated s' \<and>
     (\<forall>k. available s' k \<subseteq># available s k +
        (if k = name then mset (List.map (normalizePublicKey \<circ> otk_Key) vs) else {#})))"

lemma draws_brings: "draws s s' \<Longrightarrow> brings name vs s s'"
  unfolding draws_def brings_def by (meson mset_subset_eq_add_left subset_mset.order_trans)

lemma draws_then_brings: "draws s t \<Longrightarrow> brings name vs t u \<Longrightarrow> brings name vs s u"
  unfolding draws_def brings_def by (meson subset_mset.add_right_mono subset_mset.order_trans)

lemma brings_then_draws: "brings name vs s t \<Longrightarrow> draws t u \<Longrightarrow> brings name vs s u"
  unfolding draws_def brings_def by (meson subset_mset.order_trans)

lemma brings_after:
  assumes "keeps (on_world draws) m" "\<And>x. keeps (on_world (brings name vs)) (f x)"
  shows "keeps (on_world (brings name vs)) (andThen m f)"
proof (rule keepsI)
  fix w r w'
  assume run: "andThen m f w = (r, w')"
  obtain r1 w1 where m: "m w = (r1, w1)" by fastforce
  have one: "draws (w_store w) (w_store w1)" using keepsD [OF assms(1) m] by (simp add: on_world_def)
  with run m show "on_world (brings name vs) w w'"
    using keepsD [OF assms(2)] draws_brings draws_then_brings unfolding on_world_def
    by (cases r1) (fastforce simp: andThen_run)+
qed

lemma brings_before:
  assumes "keeps (on_world (brings name vs)) m" "\<And>x. keeps (on_world draws) (f x)"
  shows "keeps (on_world (brings name vs)) (andThen m f)"
proof (rule keepsI)
  fix w r w'
  assume run: "andThen m f w = (r, w')"
  obtain r1 w1 where m: "m w = (r1, w1)" by fastforce
  have one: "brings name vs (w_store w) (w_store w1)" using keepsD [OF assms(1) m] by (simp add: on_world_def)
  with run m show "on_world (brings name vs) w w'"
    using keepsD [OF assms(2)] brings_then_draws unfolding on_world_def
    by (cases r1) (fastforce simp: andThen_run)+
qed

lemma save_keys_brings:
  "keeps (on_world (brings (e2ee_key a d) vs)) (on_store (em_SaveOneTimePreKeys a d (normalizeOneTimePreKeys vs)))"
proof (intro keeps_on_store keepsI)
  fix s r s'
  assume run: "em_SaveOneTimePreKeys a d (normalizeOneTimePreKeys vs) s = (r, s')"
  have filtered: "image_mset otk_Key (filter_mset P (mset (normalizeOneTimePreKeys vs))) \<subseteq>#
      image_mset (normalizePublicKey \<circ> otk_Key) (mset vs)" for P
    by (induction vs) (auto simp: normalizeOneTimePreKeys_def intro: subset_mset.add_increasing2 subset_mset.order_trans)
  have dated: "list_all key_dated vs \<Longrightarrow> \<forall>v \<in> set (normalizeOneTimePreKeys vs). key_dated v"
    by (auto simp: normalizeOneTimePreKeys_def key_dated_def normalizePublicKey_def list_all_iff)
  from run show "brings (e2ee_key a d) vs s s'"
    by (auto simp: em_SaveOneTimePreKeys_def brings_def store_dated_def keys_of_row available_def filtered
        dest!: dated split: if_splits)
qed

lemma nothing_brings: "keeps (on_world (brings name vs)) (ret x)"
  by (rule keepsI) (simp add: on_world_def draws_brings draws_def)

lemma if_keys_brings: "keeps (on_world (brings (e2ee_key a d) vs)) (if vs \<noteq> []
    then on_store (em_SaveOneTimePreKeys a d (normalizeOneTimePreKeys vs)) else ret ())"
  by (rule keeps_if [OF save_keys_brings nothing_brings])

lemma uploads_bring:
  assumes S: "esv_store sv = e2ee_memory"
  shows "keeps (on_world (brings (e2ee_key (trim_space (upp_AccountID p1)) (trim_space (upp_DeviceID p1))) (upp_OneTimePreKeys p1)))
      (UploadDevicePreKeys sv ctx p1)"
    "keeps (on_world (brings (e2ee_key (trim_space (rkp_AccountID p2)) (trim_space (rkp_DeviceID p2))) (rkp_OneTimePreKeys p2)))
      (RotateDeviceKeys sv ctx p2)"
proof -
  have save: "keeps (on_world (brings (e2ee_key a d) vs)) (save_prekeys e2ee_memory a d spk vs replace)" for a d spk vs replace
    unfolding save_prekeys_def memory_methods
    by (rule brings_after, (intro drawing)[1], rule brings_after, (intro drawing)[1], rule brings_before,
        rule if_keys_brings, intro drawing)
  show "keeps (on_world (brings (e2ee_key (trim_space (upp_AccountID p1)) (trim_space (upp_DeviceID p1))) (upp_OneTimePreKeys p1)))
      (UploadDevicePreKeys sv ctx p1)"
    unfolding UploadDevicePreKeys_def Let_def S memory_tx
    by (rule brings_after, (intro directories_draw drawing)[1], rule brings_after, (intro drawing)[1], rule brings_after, intro drawing,
        rule brings_after, (intro drawing)[1], rule brings_after, intro directories_draw drawing,
        rule brings_before [OF save], intro fetch_draws S)
  show "keeps (on_world (brings (e2ee_key (trim_space (rkp_AccountID p2)) (trim_space (rkp_DeviceID p2))) (rkp_OneTimePreKeys p2)))
      (RotateDeviceKeys sv ctx p2)"
    unfolding RotateDeviceKeys_def Let_def S memory_tx memory_methods
    by (rule brings_after, (intro directories_draw drawing)[1], rule brings_after, (intro drawing)[1], rule brings_after, intro drawing,
        rule brings_after, (intro drawing)[1], rule brings_after, intro directories_draw drawing,
        rule brings_before [OF brings_before [OF save]], (intro drawing)[1], intro drawing fetch_draws S)
qed

subsection \<open>Histories\<close>

definition over_e2ee_memory :: "e2ee_mem e2ee_call \<Rightarrow> bool" where
  "over_e2ee_memory c \<longleftrightarrow> esv_store (e2c_service c) = e2ee_memory \<and>
     list_all key_dated (snd (brought (e2c_request c)))"

lemma requests_draw:
  assumes S: "esv_store sv = e2ee_memory"
  shows "keeps (on_world draws) (GetAccountBundles sv ctx p1)" "keeps (on_world draws) (CreateDirectSessions sv ctx p2)"
proof -
  show "keeps (on_world draws) (GetAccountBundles sv ctx p1)"
    unfolding GetAccountBundles_def S memory_tx by (intro drawing directories_draw fetch_draws S)
  have session: "keeps (on_world draws) (session_for_device sv p d)" for p d
    unfolding session_for_device_def Let_def S memory_methods by (intro drawing directories_draw)
  show "keeps (on_world draws) (CreateDirectSessions sv ctx p2)"
    unfolding CreateDirectSessions_def Let_def S memory_tx by (intro drawing directories_draw session)
qed

text \<open>One request: what it hands out and what stays available was available or is brought by it.\<close>

definition accounts :: "e2ee_request \<Rightarrow> e2ee_mem world \<Rightarrow> handed \<Rightarrow> e2ee_mem world \<Rightarrow> bool" where
  "accounts r w h w' \<longleftrightarrow> (store_dated (w_store w) \<longrightarrow> list_all key_dated (snd (brought r)) \<longrightarrow>
     store_dated (w_store w') \<and> (\<forall>k. mset (handed_for k h) + available (w_store w') k \<subseteq>#
       available (w_store w) k + mset (uploaded k r)))"

lemma silent_accounts:
  assumes "keeps (on_world draws) m" "handing (\<lambda>_. []) m w = (h, w')"
  shows "accounts r w h w'"
proof -
  have "h = []" "draws (w_store w) (w_store w')"
    using assms(2) keepsD [OF assms(1)] by (auto simp: handing_def on_world_def split: prod.splits sum.splits)
  then show ?thesis by (auto simp: accounts_def draws_def intro: subset_mset.add_increasing2)
qed

lemma handing_accounts:
  assumes "hands g m" "keeps (on_world draws) m" "handing g m w = (h, w')"
  shows "accounts r w h w'"
proof (cases "fst (m w)")
  case (Inl e)
  with assms(3) have "handing (\<lambda>_. []) m w = (h, w')" by (auto simp: handing_def split: prod.splits)
  with assms(2) show ?thesis by (rule silent_accounts)
next
  case (Inr x)
  with assms(3) have "h = g x" "m w = (Inr x, w')" by (auto simp: handing_def split: prod.splits)
  with assms(1) show ?thesis
    unfolding hands_def accounts_def by (meson mset_subset_eq_add_left subset_mset.order_trans)
qed

lemma bringing_accounts:
  assumes "keeps (on_world (brings (fst (brought r)) (snd (brought r)))) m" "handing (\<lambda>_. []) m w = (h, w')"
  shows "accounts r w h w'"
proof -
  have "h = []" "brings (fst (brought r)) (snd (brought r)) (w_store w) (w_store w')"
    using assms(2) keepsD [OF assms(1)] by (auto simp: handing_def on_world_def split: prod.splits sum.splits)
  moreover have "mset (uploaded k r) = (if k = fst (brought r) then
      mset (List.map (normalizePublicKey \<circ> otk_Key) (snd (brought r))) else {#})" for k
    by (simp add: uploaded_def)
  ultimately show ?thesis by (simp only: accounts_def brings_def handed_for_simps mset.simps add_0 simp_thms)
qed

lemma request_accounts:
  assumes S: "esv_store sv = e2ee_memory" and run: "run_e2ee sv ctx r w = (h, w')"
  shows "accounts r w h w'"
proof (cases r)
  case (DoUploadDevicePreKeys p)
  with run uploads_bring(1) [OF S] show ?thesis by (intro bringing_accounts) simp_all
next
  case (DoRotateDeviceKeys p)
  with run uploads_bring(2) [OF S] show ?thesis by (intro bringing_accounts) simp_all
next
  case (DoGetAccountBundles p)
  with run show ?thesis by (intro handing_accounts [OF requests_hand(1) [OF S] requests_draw(1) [OF S]]) simp
next
  case (DoCreateDirectSessions p)
  with run show ?thesis by (intro handing_accounts [OF requests_hand(2) [OF S] requests_draw(2) [OF S]]) simp
next
  case (DoAcknowledgeDirectSession p)
  with run show ?thesis by (intro silent_accounts [OF operations_draw(1) [OF S]]) simp
next
  case (DoPublishGroupSenderKeys p)
  with run show ?thesis by (intro silent_accounts [OF operations_draw(2) [OF S]]) simp
next
  case (DoAcknowledgeGroupSenderKey p)
  with run show ?thesis by (intro silent_accounts [OF operations_draw(3) [OF S]]) simp
next
  case (DoSetDeviceTrust p)
  with run show ?thesis by (intro silent_accounts [OF operations_draw(4) [OF S]]) simp
next
  case (DoVerifyDeviceSafetyNumber p)
  with run show ?thesis by (intro silent_accounts [OF operations_draw(5) [OF S]]) simp
next
  case (DoQueueDeviceLinkTransfer p)
  with run show ?thesis by (intro silent_accounts [OF operations_draw(6) [OF S]]) simp
next
  case (DoConsumeDeviceLinkTransfer p)
  with run show ?thesis by (intro silent_accounts [OF operations_draw(7) [OF S]]) simp
qed

lemma account_trans:
  fixes a b c :: "'a multiset"
  assumes "a + b \<subseteq># c + u" "d + e \<subseteq># b + v"
  shows "a + (d + e) \<subseteq># c + (u + v)"
proof -
  have "a + (d + e) \<subseteq># a + (b + v)" using assms(2) by (rule subset_mset.add_left_mono)
  also have "\<dots> = (a + b) + v" by (simp add: add.assoc)
  also have "\<dots> \<subseteq># (c + u) + v" using assms(1) by (rule subset_mset.add_right_mono)
  finally show ?thesis by (simp add: add.assoc)
qed

lemma history_accounts:
  "store_dated (w_store w) \<longrightarrow> (\<forall>c \<in> set history. over_e2ee_memory c) \<longrightarrow>
    store_dated (w_store (snd (run_history history w))) \<and>
    mset (handed_for k (fst (run_history history w))) + available (w_store (snd (run_history history w))) k \<subseteq>#
      available (w_store w) k + mset (concat (List.map (uploaded k \<circ> e2c_request) history))"
proof (induction history arbitrary: w)
  case (Cons c cs)
  show ?case
  proof (intro impI)
    assume dated: "store_dated (w_store w)" and over: "\<forall>c \<in> set (c # cs). over_e2ee_memory c"
    obtain h w1 where run: "run_e2ee (e2c_service c) (e2c_context c) (e2c_request c) w = (h, w1)" by fastforce
    from over have c: "esv_store (e2c_service c) = e2ee_memory" "list_all key_dated (snd (brought (e2c_request c)))"
      by (simp_all add: over_e2ee_memory_def)
    from request_accounts [OF c(1) run] dated c(2) have one: "store_dated (w_store w1)"
        "mset (handed_for k h) + available (w_store w1) k \<subseteq># available (w_store w) k + mset (uploaded k (e2c_request c))"
      by (simp_all add: accounts_def)
    obtain hs w2 where rest: "run_history cs w1 = (hs, w2)" by fastforce
    from over have "\<forall>c \<in> set cs. over_e2ee_memory c" by simp
    with Cons.IH [of w1] one(1) have later: "store_dated (w_store w2)"
        "mset (handed_for k hs) + available (w_store w2) k \<subseteq># available (w_store w1) k +
          mset (concat (List.map (uploaded k \<circ> e2c_request) cs))" unfolding rest fst_conv snd_conv by blast+
    note both = account_trans [OF one(2) later(2)]
    from later(1) both show "store_dated (w_store (snd (run_history (c # cs) w))) \<and>
        mset (handed_for k (fst (run_history (c # cs) w))) + available (w_store (snd (run_history (c # cs) w))) k \<subseteq>#
          available (w_store w) k + mset (concat (List.map (uploaded k \<circ> e2c_request) (c # cs)))"
      by (simp add: run rest add.assoc)
  qed
qed simp

text \<open>C0: One-time prekeys are used once. Along any history of requests over the in-memory store,
  failed ones included, the keys of a device that were handed out in bundles and sessions are,
  with their multiplicity, among those that were uploaded for it: a key that was uploaded once
  is handed out at most once, whoever asks. Every uploaded key carries a creation or rotation
  time, since the store takes the time of the claim from it.\<close>
theorem one_time_prekeys_used_once:
  assumes "w_store w = em_NewMemoryStore" "\<forall>c \<in> set history. over_e2ee_memory c"
  shows "mset (handed_for k (fst (run_history history w))) \<subseteq>#
    mset (concat (List.map (uploaded k \<circ> e2c_request) history))"
proof -
  have "store_dated (w_store w)" by (simp add: assms(1) em_NewMemoryStore_def store_dated_def key_row_def)
  from history_accounts [THEN mp, OF this, THEN mp, OF assms(2), THEN conjunct2]
  have "mset (handed_for k (fst (run_history history w))) + available (w_store (snd (run_history history w))) k \<subseteq>#
      available (w_store w) k + mset (concat (List.map (uploaded k \<circ> e2c_request) history))" .
  moreover have "available (w_store w) k = {#}"
    by (simp add: assms(1) em_NewMemoryStore_def available_def key_row_def)
  ultimately have "mset (handed_for k (fst (run_history history w))) + available (w_store (snd (run_history history w))) k \<subseteq>#
      mset (concat (List.map (uploaded k \<circ> e2c_request) history))" by simp
  then show ?thesis by (rule subset_mset.order_trans [OF mset_subset_eq_add_left])
qed

end
