(* ===== verification/E2eeSamples.thy ===== *)
theory E2eeSamples
  imports E2eeKeys
begin

section \<open>Two accounts with a device each\<close>

text \<open>The concrete directories and requests on which the properties of the keys are applied.\<close>

definition sample_person :: "string \<Rightarrow> account" where
  "sample_person i = \<lparr>acct_ID = i, acct_Kind = AccountKindUser, acct_Username = i, acct_DisplayName = i, acct_Bio = [],
     acct_Email = [], acct_Phone = [], acct_Roles = [], acct_Status = AccountStatusActive, acct_BotTokenHash = [],
     acct_CreatedBy = [], acct_CreatedAt = 1, acct_UpdatedAt = 1, acct_DisabledAt = 0, acct_LastAuthAt = 0,
     acct_CustomBadgeEmoji = []\<rparr>"

definition sample_device :: "string \<Rightarrow> string \<Rightarrow> string \<Rightarrow> device" where
  "sample_device i accountID key = \<lparr>dev_ID = i, dev_AccountID = accountID, dev_SessionID = ''s'', dev_Name = i,
     dev_Platform = DevicePlatformIOS, dev_Status = DeviceStatusActive, dev_PublicKey = key, dev_PushToken = [],
     dev_CreatedAt = 1, dev_LastSeenAt = 1, dev_RevokedAt = 0, dev_LastRotatedAt = 0\<rparr>"

definition alice_device :: device where
  "alice_device = sample_device ''a1'' ''alice'' ''ka''"

definition bob_device :: device where
  "bob_device = sample_device ''b1'' ''bob'' ''kb''"

definition sample_directory :: directory where
  "sample_directory = \<lparr>
     dir_AccountByID = (\<lambda>i. if i \<in> {''alice'', ''bob''} then Inr (sample_person i) else Inl IdentityErrNotFound),
     dir_DeviceByID = (\<lambda>i. if i = ''a1'' then Inr alice_device else if i = ''b1'' then Inr bob_device
        else Inl IdentityErrNotFound),
     dir_DevicesByAccountID = (\<lambda>i. Inr (if i = ''alice'' then [alice_device] else if i = ''bob'' then [bob_device] else []))\<rparr>"

text \<open>One direct conversation of the two.\<close>

definition chat_member :: "string \<Rightarrow> conv_member" where
  "chat_member i = \<lparr>cmem_ConversationID = ''c'', cmem_AccountID = i, cmem_Role = MemberRoleMember, cmem_InvitedByAccountID = [],
     cmem_Muted = False, cmem_Banned = False, cmem_JoinedAt = 1, cmem_LeftAt = 0\<rparr>"

definition sample_chat :: conversation where
  "sample_chat = \<lparr>conv_ID = ''c'', conv_Kind = ConversationKindDirect, conv_Title = [], conv_Description = [],
     conv_AvatarMediaID = [], conv_OwnerAccountID = ''alice'', conv_Settings = \<lparr>cset_OnlyAdminsCanWrite = False,
     cset_OnlyAdminsCanAddMembers = False, cset_AllowReactions = True, cset_AllowForwards = True,
     cset_AllowThreads = False, cset_RequireEncryptedMessages = True, cset_RequireTrustedDevices = True,
     cset_RequireJoinApproval = False, cset_PinnedMessagesOnlyAdmins = False, cset_SlowModeInterval = 0\<rparr>,
     conv_Archived = False, conv_Muted = False, conv_Pinned = False, conv_Hidden = False, conv_LastSequence = 1,
     conv_UnreadCount = 0, conv_UnreadMentionCount = 0, conv_CreatedAt = 1, conv_UpdatedAt = 1, conv_LastMessageAt = 1\<rparr>"

definition sample_chats :: chat_directory where
  "sample_chats = \<lparr>cht_ConversationByID = (\<lambda>i. Inr sample_chat), cht_ConversationsByAccountID = (\<lambda>i. Inr [sample_chat]),
     cht_ConversationMemberByConversationAndAccount = (\<lambda>i a. Inr (chat_member a)),
     cht_ConversationMembersByConversationID = (\<lambda>i. Inr [chat_member ''alice'', chat_member ''bob''])\<rparr>"

definition key_service :: "e2ee_mem e2ee_service" where
  "key_service = \<lparr>esv_store = e2ee_memory, esv_directory = sample_directory, esv_chats = sample_chats, esv_now = 1000\<rparr>"

definition key_world :: "e2ee_mem world" where
  "key_world = \<lparr>w_store = em_NewMemoryStore, w_entropy = []\<rparr>"

definition sample_public_key :: "string \<Rightarrow> public_key" where
  "sample_public_key i = \<lparr>pk_KeyID = i, pk_Algorithm = ''x'', pk_PublicKey = ''p'', pk_CreatedAt = 5, pk_RotatedAt = 0,
     pk_ExpiresAt = 0\<rparr>"

definition sample_upload :: upload_prekeys_params where
  "sample_upload = \<lparr>upp_AccountID = ''bob'', upp_DeviceID = ''b1'',
     upp_SignedPreKey = \<lparr>spk_Key = sample_public_key ''s'', spk_Signature = ''g''\<rparr>,
     upp_OneTimePreKeys = [\<lparr>otk_Key = sample_public_key ''o'', otk_ClaimedAt = 0, otk_ClaimedByAccountID = [],
       otk_ClaimedByDeviceID = []\<rparr>], upp_ReplaceOneTimePreKey = False\<rparr>"

definition sample_fetch :: fetch_bundles_params where
  "sample_fetch = \<lparr>fbp_RequesterAccountID = ''alice'', fbp_RequesterDeviceID = ''a1'', fbp_TargetAccountID = ''bob'',
     fbp_ConsumeOneTimePreKey = True\<rparr>"

definition key_call :: "e2ee_request \<Rightarrow> e2ee_mem e2ee_call" where
  "key_call r = \<lparr>e2c_service = key_service, e2c_context = LiveContext, e2c_request = r\<rparr>"

text \<open>Bob uploads one key; alice asks for it twice.\<close>

definition key_history :: "e2ee_mem e2ee_call list" where
  "key_history = [key_call (DoUploadDevicePreKeys sample_upload), key_call (DoGetAccountBundles sample_fetch),
     key_call (DoGetAccountBundles sample_fetch)]"

lemmas e2ee_steps = io_simps Let_def active_device_def e2ee_device_def active_account_def devices_of_def
  e2ee_validateContext_def usable_device_def found_or_e2ee_def keys_of_def put_def List.map_filter_simps
  visible_def

lemmas e2ee_samples = key_service_def sample_directory_def sample_device_def alice_device_def bob_device_def
  sample_person_def key_world_def em_NewMemoryStore_def sample_public_key_def

lemma key_history_run: "fst (run_history key_history key_world) = [(e2ee_key ''bob'' ''b1'', sample_public_key ''o'')]"
  by (simp add: key_history_def key_call_def handing_def UploadDevicePreKeys_def GetAccountBundles_def save_prekeys_def
      own_bundle_def fetchAccountBundles_def bundle_of_device_def sample_upload_def sample_fetch_def e2ee_samples
      e2ee_steps memory_methods validateSignedPreKey_def validatePublicKey_def validateOneTimePreKey_def
      em_SaveSignedPreKey_def em_SaveOneTimePreKeys_def em_SignedPreKeyByDevice_def em_CountAvailableOneTimePreKeys_def
      em_ClaimOneTimePreKey_def normalizeSignedPreKey_def normalizeOneTimePreKeys_def normalizePublicKey_def
      claimed_key_def bundle_key_def named_key_def no_one_time_prekey_def no_public_key_def)

lemma one_time_prekeys_used_once_witness:
  "mset (handed_for (e2ee_key ''bob'' ''b1'') (fst (run_history key_history key_world))) \<subseteq># {#sample_public_key ''o''#} \<and>
   handed_for (e2ee_key ''bob'' ''b1'') (fst (run_history key_history key_world)) = [sample_public_key ''o'']"
proof -
  have "w_store key_world = em_NewMemoryStore" "\<forall>c \<in> set key_history. over_e2ee_memory c"
    by (simp_all add: key_world_def key_history_def key_call_def over_e2ee_memory_def key_service_def sample_upload_def
        key_dated_def sample_public_key_def)
  from one_time_prekeys_used_once [OF this, of "e2ee_key ''bob'' ''b1''"] show ?thesis
    by (simp add: key_history_run handed_for_def)
qed

end
