(* ===== verification/E2eeCoverage.thy ===== *)
theory E2eeCoverage
  imports E2eeSamples
begin

section \<open>What an accepted payload and a verification mean\<close>

subsection \<open>Coverage\<close>

lemma fold_result_grows:
  "fold_result (cover_member sv p entry) ms acc = Inr es \<Longrightarrow> set acc \<subseteq> set es"
  by (induction ms arbitrary: acc) (fastforce simp: cover_member_def split: if_splits sum.splits)+

lemma cover_complete:
  assumes "fold_result (cover_member sv p entry) ms acc = Inr es" "m \<in> set ms" "isActiveConversationMember m"
    "cmem_AccountID m \<noteq> kcp_SenderAccountID p" "dir_DevicesByAccountID (esv_directory sv) (cmem_AccountID m) = Inr ds"
    "d \<in> set ds" "usable_device d"
  shows "entry (cmem_AccountID m) d \<in> set es"
  using assms
proof (induction ms arbitrary: acc)
  case (Cons x xs)
  then obtain acc' where step: "cover_member sv p entry x acc = Inr acc'" "fold_result (cover_member sv p entry) xs acc' = Inr es"
    by (auto split: sum.splits)
  show ?case
  proof (cases "x = m")
    case True
    with step(1) Cons.prems have "entry (cmem_AccountID m) d \<in> set acc'"
      by (auto simp: cover_member_def devices_of_def)
    with fold_result_grows [OF step(2)] show ?thesis by blast
  next
    case False
    with Cons.IH [OF step(2)] Cons.prems show ?thesis by simp
  qed
qed simp

lemma coverage_entries_ok:
  "validateCoverageEntries es trusted = Inr () \<longleftrightarrow> (\<forall>e \<in> set es. cov_TrustState e \<noteq> DeviceTrustStateCompromised \<and>
     cov_State e = CoverageStateReady \<and> (trusted \<longrightarrow> cov_TrustState e = DeviceTrustStateTrusted))"
  by (induction es) auto

text \<open>
  The specification: a key of the sender's device has reached a device, and the trust the
  sender's device has in it.
\<close>

definition live :: "time \<Rightarrow> time \<Rightarrow> bool" where
  "live now expiresAt \<longleftrightarrow> expiresAt = zero_time \<or> now < expiresAt"

definition sender_key_reached :: "e2ee_mem \<Rightarrow> time \<Rightarrow> string \<Rightarrow> string \<Rightarrow> string \<Rightarrow> string \<Rightarrow> string \<Rightarrow> string \<Rightarrow> bool" where
  "sender_key_reached s now conversationID senderAccountID senderDeviceID keyID accountID deviceID \<longleftrightarrow>
     (\<exists>v \<in> set (entries (em_groupSender s)). gsk_ConversationID v = conversationID \<and>
        gsk_SenderAccountID v = senderAccountID \<and> gsk_SenderDeviceID v = senderDeviceID \<and> gsk_SenderKeyID v = keyID \<and>
        gsk_RecipientAccountID v = accountID \<and> gsk_RecipientDeviceID v = deviceID \<and>
        gsk_State v = GroupSenderKeyStateAcknowledged \<and> live now (gsk_ExpiresAt v))"

definition session_stands :: "e2ee_mem \<Rightarrow> time \<Rightarrow> string \<Rightarrow> string \<Rightarrow> string \<Rightarrow> string \<Rightarrow> bool" where
  "session_stands s now senderAccountID senderDeviceID accountID deviceID \<longleftrightarrow>
     (\<exists>v \<in> set (entries (em_sessions s)). session_of_device senderAccountID senderDeviceID v \<and>
        session_of_device accountID deviceID v \<and> dse_State v = DirectSessionStateAcknowledged \<and>
        live now (dse_ExpiresAt v))"

definition trust_held :: "e2ee_mem \<Rightarrow> string \<Rightarrow> string \<Rightarrow> string \<Rightarrow> string \<Rightarrow> DeviceTrustState" where
  "trust_held s senderAccountID senderDeviceID accountID deviceID =
     trust_state (trust_map (List.filter (\<lambda>t. tru_ObserverAccountID t = senderAccountID \<and>
       tru_ObserverDeviceID t = senderDeviceID) (entries (em_trusts s)))) accountID deviceID"

lemma load_trusts_memory:
  assumes "esv_store sv = e2ee_memory" "load_trusts sv a d w = (Inr m, w')"
  shows "w' = w \<and> trust_state m i j = trust_held (w_store w) a d i j"
  using assms(2)
  by (auto simp: load_trusts_def assms(1) memory_methods io_inv em_DeviceTrustsByObserverDevice_def trust_held_def)

lemma group_entry_ready:
  assumes "cov_State (group_entry p now trusts keys a d) = CoverageStateReady"
  shows "\<exists>v \<in> set keys. key_for_device p a (dev_ID d) v \<and> gsk_State v = GroupSenderKeyStateAcknowledged \<and>
    live now (gsk_ExpiresAt v)"
proof -
  obtain v where v: "List.find (key_for_device p a (dev_ID d)) keys = Some v"
    using assms by (cases "List.find (key_for_device p a (dev_ID d)) keys")
      (auto simp: group_entry_def Let_def missing_entry_def)
  with assms have "gsk_State v = GroupSenderKeyStateAcknowledged \<and> live now (gsk_ExpiresAt v)"
    by (auto simp: group_entry_def Let_def coverageEntryFromSenderKeyDistribution_def live_def split: if_splits)
  with find_Some_in [OF v] show ?thesis by blast
qed

lemma direct_entry_ready:
  assumes "cov_State (direct_entry p now trusts ss a d) = CoverageStateReady"
  shows "\<exists>v \<in> set ss. session_between (kcp_SenderAccountID p) (kcp_SenderDeviceID p) a (dev_ID d) v \<and>
    dse_State v = DirectSessionStateAcknowledged \<and> live now (dse_ExpiresAt v)"
proof -
  obtain v where v: "List.find (session_between (kcp_SenderAccountID p) (kcp_SenderDeviceID p) a (dev_ID d)) ss = Some v"
    using assms by (cases "List.find (session_between (kcp_SenderAccountID p) (kcp_SenderDeviceID p) a (dev_ID d)) ss")
      (auto simp: direct_entry_def Let_def missing_entry_def)
  with assms have "dse_State v = DirectSessionStateAcknowledged \<and> live now (dse_ExpiresAt v)"
    by (auto simp: direct_entry_def Let_def coverageEntryFromDirectSession_def live_def split: if_splits)
  with find_Some_in [OF v] show ?thesis by blast
qed

lemma entry_trust:
  "cov_TrustState (group_entry p now trusts keys a d) = trust_state trusts a (dev_ID d)"
  "cov_TrustState (direct_entry p now trusts ss a d) = trust_state trusts a (dev_ID d)"
  by (auto simp: group_entry_def direct_entry_def Let_def missing_entry_def coverageEntryFromSenderKeyDistribution_def
      coverageEntryFromDirectSession_def split: option.split)

text \<open>A successful coverage lists the entry of every such device, for the kind of the conversation.\<close>

lemma pure_steps:
  "e2ee_validateContext ctx operation w = (Inr u, w') \<Longrightarrow> w' = w"
  "active_device sv what a i w = (Inr x, w') \<Longrightarrow> w' = w"
  "active_chat_member sv action c a w = (Inr u, w') \<Longrightarrow> w' = w"
  by (auto simp: e2ee_validateContext_def active_device_def e2ee_device_def active_chat_member_def andThen_Inr
      of_result_Inr ret_Inr reject_if_Inr simp del: reject_if_run)

lemma coverage_run:
  assumes S: "esv_store sv = e2ee_memory" and run: "GetConversationKeyCoverage sv ctx p w = (Inr es, w')"
    and p: "trim_space (kcp_ConversationID p) = kcp_ConversationID p"
      "trim_space (kcp_SenderAccountID p) = kcp_SenderAccountID p"
      "trim_space (kcp_SenderDeviceID p) = kcp_SenderDeviceID p" "trim_space (kcp_SenderKeyID p) = kcp_SenderKeyID p"
    and c: "cht_ConversationByID (esv_chats sv) (kcp_ConversationID p) = Inr c"
  obtains trusts where
    "\<And>i j. trust_state trusts i j = trust_held (w_store w) (kcp_SenderAccountID p) (kcp_SenderDeviceID p) i j"
    "conv_Kind c = ConversationKindDirect \<and> directConversationKeyCoverage sv p trusts w = (Inr es, w') \<or>
     conv_Kind c \<noteq> ConversationKindDirect \<and> groupConversationKeyCoverage sv p trusts w = (Inr es, w')"
proof -
  have same: "p\<lparr>kcp_ConversationID := trim_space (kcp_ConversationID p), kcp_SenderAccountID := trim_space (kcp_SenderAccountID p),
      kcp_SenderDeviceID := trim_space (kcp_SenderDeviceID p), kcp_SenderKeyID := trim_space (kcp_SenderKeyID p)\<rparr> = p"
    using p by simp
  obtain trusts w1 where "load_trusts sv (kcp_SenderAccountID p) (kcp_SenderDeviceID p) w = (Inr trusts, w1)"
    "(if conv_Kind c = ConversationKindDirect then directConversationKeyCoverage sv p trusts
      else if conv_Kind c = ConversationKindGroup then groupConversationKeyCoverage sv p trusts
      else raise E2eeErrForbidden) w1 = (Inr es, w')"
    using run unfolding GetConversationKeyCoverage_def Let_def same
    by (auto simp: andThen_Inr of_result_Inr reject_if_Inr c chat_load_def simp del: reject_if_run
        dest!: pure_steps)
  with load_trusts_memory [OF S this(1)] that [of trusts] show thesis by (auto split: if_splits)
qed

lemma coverage_entries:
  assumes S: "esv_store sv = e2ee_memory" and ms: "cht_ConversationMembersByConversationID (esv_chats sv) (kcp_ConversationID p) = Inr ms"
  shows "directConversationKeyCoverage sv p trusts w = (Inr es, w') \<Longrightarrow>
      fold_result (cover_member sv p (direct_entry p (esv_now sv) trusts (List.map cloneDirectSession
        (List.filter (session_of_device (kcp_SenderAccountID p) (kcp_SenderDeviceID p)) (entries (em_sessions (w_store w))))))) ms [] = Inr es"
    "groupConversationKeyCoverage sv p trusts w = (Inr es, w') \<Longrightarrow>
      fold_result (cover_member sv p (group_entry p (esv_now sv) trusts (List.map cloneGroupSenderKeyDistribution
        (List.filter (\<lambda>v. \<not> (gsk_ConversationID v \<noteq> kcp_ConversationID p \<or> gsk_SenderAccountID v \<noteq> kcp_SenderAccountID p \<or>
          gsk_SenderDeviceID v \<noteq> kcp_SenderDeviceID p)) (entries (em_groupSender (w_store w))))))) ms [] = Inr es"
  by (auto simp: directConversationKeyCoverage_def groupConversationKeyCoverage_def S memory_methods members_of_def ms
      chat_load_def andThen_run on_store_run em_DirectSessionsByParticipantDevice_def
      em_GroupSenderKeyDistributionsBySenderDevice_def)

lemma clone_fields [simp]:
  "dse_State (cloneDirectSession v) = dse_State v" "dse_ExpiresAt (cloneDirectSession v) = dse_ExpiresAt v"
  "session_of_device a d (cloneDirectSession v) = session_of_device a d v"
  "gsk_State (cloneGroupSenderKeyDistribution x) = gsk_State x"
  "gsk_ExpiresAt (cloneGroupSenderKeyDistribution x) = gsk_ExpiresAt x"
  "key_for_device q a d (cloneGroupSenderKeyDistribution x) = key_for_device q a d x"
  by (simp_all add: cloneDirectSession_def session_of_device_def cloneGroupSenderKeyDistribution_def key_for_device_def)

lemma between_of_device: "session_between sa sd a d v \<Longrightarrow> session_of_device sa sd v \<and> session_of_device a d v"
  by (auto simp: session_between_def session_of_device_def split: if_splits)

lemma ready_session_stands:
  assumes "cov_State (direct_entry p now trusts (List.map cloneDirectSession
    (List.filter (session_of_device (kcp_SenderAccountID p) (kcp_SenderDeviceID p)) (entries (em_sessions s)))) a d) = CoverageStateReady"
  shows "session_stands s now (kcp_SenderAccountID p) (kcp_SenderDeviceID p) a (dev_ID d)"
proof -
  obtain v where v: "v \<in> set (entries (em_sessions s))" "session_of_device (kcp_SenderAccountID p) (kcp_SenderDeviceID p) v"
    "session_between (kcp_SenderAccountID p) (kcp_SenderDeviceID p) a (dev_ID d) (cloneDirectSession v)"
    "dse_State v = DirectSessionStateAcknowledged" "live now (dse_ExpiresAt v)"
    using direct_entry_ready [OF assms] by auto
  with between_of_device [OF v(3)] show ?thesis
    unfolding session_stands_def by auto
qed

lemma ready_key_reached:
  assumes "cov_State (group_entry p now trusts (List.map cloneGroupSenderKeyDistribution
    (List.filter (\<lambda>v. \<not> (gsk_ConversationID v \<noteq> kcp_ConversationID p \<or> gsk_SenderAccountID v \<noteq> kcp_SenderAccountID p \<or>
      gsk_SenderDeviceID v \<noteq> kcp_SenderDeviceID p)) (entries (em_groupSender s)))) a d) = CoverageStateReady"
    "kcp_SenderKeyID p \<noteq> []"
  shows "sender_key_reached s now (kcp_ConversationID p) (kcp_SenderAccountID p) (kcp_SenderDeviceID p) (kcp_SenderKeyID p) a (dev_ID d)"
proof -
  obtain v where v: "v \<in> set (entries (em_groupSender s))" "gsk_ConversationID v = kcp_ConversationID p"
    "gsk_SenderAccountID v = kcp_SenderAccountID p" "gsk_SenderDeviceID v = kcp_SenderDeviceID p"
    "key_for_device p a (dev_ID d) v" "gsk_State v = GroupSenderKeyStateAcknowledged" "live now (gsk_ExpiresAt v)"
    using group_entry_ready [OF assms(1)] by auto
  then show ?thesis
    using assms(2) unfolding sender_key_reached_def key_for_device_def by (auto split: if_splits)
qed

text \<open>What the entries of a complete, valid coverage say of one device.\<close>

lemma covered_device:
  assumes S: "esv_store sv = e2ee_memory" and run: "GetConversationKeyCoverage sv ctx p w = (Inr es, w')"
    and p: "trim_space (kcp_ConversationID p) = kcp_ConversationID p"
      "trim_space (kcp_SenderAccountID p) = kcp_SenderAccountID p"
      "trim_space (kcp_SenderDeviceID p) = kcp_SenderDeviceID p" "trim_space (kcp_SenderKeyID p) = kcp_SenderKeyID p"
    and c: "cht_ConversationByID (esv_chats sv) (kcp_ConversationID p) = Inr c"
    and ok: "validateCoverageEntries es trusted = Inr ()"
    and m: "cht_ConversationMembersByConversationID (esv_chats sv) (kcp_ConversationID p) = Inr ms" "m \<in> set ms"
      "isActiveConversationMember m" "cmem_AccountID m \<noteq> kcp_SenderAccountID p"
    and d: "dir_DevicesByAccountID (esv_directory sv) (cmem_AccountID m) = Inr ds" "d \<in> set ds" "usable_device d"
  shows "(if conv_Kind c = ConversationKindDirect
      then session_stands (w_store w) (esv_now sv) (kcp_SenderAccountID p) (kcp_SenderDeviceID p) (cmem_AccountID m) (dev_ID d)
      else kcp_SenderKeyID p \<noteq> [] \<longrightarrow> sender_key_reached (w_store w) (esv_now sv) (kcp_ConversationID p) (kcp_SenderAccountID p)
        (kcp_SenderDeviceID p) (kcp_SenderKeyID p) (cmem_AccountID m) (dev_ID d)) \<and>
    (let t = trust_held (w_store w) (kcp_SenderAccountID p) (kcp_SenderDeviceID p) (cmem_AccountID m) (dev_ID d) in
      t \<noteq> DeviceTrustStateCompromised \<and> (trusted \<longrightarrow> t = DeviceTrustStateTrusted))"
proof -
  obtain trusts where held: "\<And>i j. trust_state trusts i j = trust_held (w_store w) (kcp_SenderAccountID p) (kcp_SenderDeviceID p) i j"
    and cover: "conv_Kind c = ConversationKindDirect \<and> directConversationKeyCoverage sv p trusts w = (Inr es, w') \<or>
      conv_Kind c \<noteq> ConversationKindDirect \<and> groupConversationKeyCoverage sv p trusts w = (Inr es, w')"
    using coverage_run [OF S run p c] by blast
  note entries_ok = ok [unfolded coverage_entries_ok, rule_format]
  from cover show ?thesis
  proof (elim disjE conjE)
    assume kind: "conv_Kind c = ConversationKindDirect" and "directConversationKeyCoverage sv p trusts w = (Inr es, w')"
    from entries_ok [OF cover_complete [OF coverage_entries(1) [OF S m(1) this(2)] m(2-4) d]]
    show ?thesis
      by (auto simp: kind entry_trust held Let_def intro!: ready_session_stands)
  next
    assume kind: "conv_Kind c \<noteq> ConversationKindDirect" and "groupConversationKeyCoverage sv p trusts w = (Inr es, w')"
    from entries_ok [OF cover_complete [OF coverage_entries(2) [OF S m(1) this(2)] m(2-4) d]]
    show ?thesis
      by (auto simp: kind entry_trust held Let_def intro!: ready_key_reached)
  qed
qed

end
