(* ===== verification/Spec2Isabelle.thy ===== *)
theory Spec2Isabelle
  imports FedEdges MeshEnvelopeProps PresenceProps NotifHistory GatewayDelivery ConvRate ConvPublish ConvAtomic E2eeCoverage
begin

text \<open>
  Verification library of the zvonilka server.
\<close>

end
